(* ===== verification/Prelude.thy ===== *)
theory Prelude
  imports Complex_Main "HOL-Library.AList"
begin

text \<open>
  Shared vocabulary of the development: the Python exceptions the sources raise and catch,
  results that carry them, dictionaries in insertion order, slices, and the string methods the
  adapters use. The lemmas collected in \<open>res_simps\<close> and \<open>dict_simps\<close> carry the
  component proofs.

  Strings are lists of characters. The letters \<open>upper\<close> and \<open>lower\<close> change are the ASCII
  ones, which are the ones that occur in instrument names.
\<close>

named_theorems res_simps "evaluation of results"
named_theorems dict_simps "lookups in dictionaries"
named_theorems cap_defs "capability tables, one definition per adapter and market"

text \<open>\<open>'s'\<close> as the messages quote it.\<close>

definition quoted :: "string \<Rightarrow> string" where
  "quoted s = [CHR 0x27] @ s @ [CHR 0x27]"

section \<open>Exceptions and results\<close>

datatype pyexc =
    ValueError string
  | ValidationError string
  | TypeError string
  | KeyError string
  | IndexError string
  | AttributeError string
  | OverflowError string
  | ZeroDivisionError
  | NotImplementedError string
  | UpstreamUnavailableError string "rat option"
  | HTTPStatusError int string
  | TransportError string
  | OSError string
  | CancelledError
  | OtherError string

type_synonym 'a res = "pyexc + 'a"

text \<open>
  \<open>except ValueError\<close> also catches its subclasses; pydantic's \<open>ValidationError\<close> is one.
\<close>

fun is_value_error :: "pyexc \<Rightarrow> bool" where
  "is_value_error (ValueError _) = True"
| "is_value_error (ValidationError _) = True"
| "is_value_error _ = False"

text \<open>\<open>except Exception\<close> catches everything but \<open>CancelledError\<close>, a \<open>BaseException\<close>.\<close>

fun is_exception :: "pyexc \<Rightarrow> bool" where
  "is_exception CancelledError = False"
| "is_exception _ = True"

definition bindr :: "'e + 'a \<Rightarrow> ('a \<Rightarrow> 'e + 'b) \<Rightarrow> 'e + 'b" where
  "bindr r f = (case r of Inl e \<Rightarrow> Inl e | Inr v \<Rightarrow> f v)"

lemma bindr_simps [simp, res_simps]:
  "bindr (Inl e) f = Inl e"
  "bindr (Inr v) f = f v"
  by (simp_all add: bindr_def)

lemma bindr_Inr_iff: "bindr r f = Inr y \<longleftrightarrow> (\<exists>v. r = Inr v \<and> f v = Inr y)"
  by (cases r) auto

lemma bindr_Inl_iff: "bindr r f = Inl e \<longleftrightarrow> r = Inl e \<or> (\<exists>v. r = Inr v \<and> f v = Inl e)"
  by (cases r) auto

text \<open>A comprehension whose body may raise: the first exception ends it.\<close>

fun mapr :: "('a \<Rightarrow> 'e + 'b) \<Rightarrow> 'a list \<Rightarrow> 'e + 'b list" where
  "mapr f [] = Inr []"
| "mapr f (x # xs) = bindr (f x) (\<lambda>y. bindr (mapr f xs) (\<lambda>ys. Inr (y # ys)))"

lemma mapr_Inr_iff:
  "mapr f xs = Inr ys \<longleftrightarrow> list_all2 (\<lambda>x y. f x = Inr y) xs ys"
proof (induction xs arbitrary: ys)
  case Nil
  then show ?case by auto
next
  case (Cons x xs)
  then show ?case
    by (auto simp: bindr_Inr_iff list_all2_Cons1)
qed

lemma mapr_length: "mapr f xs = Inr ys \<Longrightarrow> length ys = length xs"
  by (simp add: mapr_Inr_iff list_all2_lengthD)

lemma mapr_pure [simp]: "mapr (\<lambda>x. Inr (f x)) xs = Inr (map f xs)"
  by (induction xs) auto

lemma mapr_Inl: "mapr f xs = Inl e \<Longrightarrow> \<exists>x\<in>set xs. f x = Inl e"
  by (induction xs) (auto simp: bindr_Inl_iff)

section \<open>Dictionaries in insertion order\<close>

text \<open>
  A dictionary is an association list: \<open>d[k] = v\<close> keeps the position of a key it
  overwrites and appends a new one (\<open>AList.update\<close>), \<open>d.pop(k, None)\<close> deletes, and
  iteration follows the list.
\<close>

type_synonym ('k, 'v) dict = "('k \<times> 'v) list"

definition dget :: "('k, 'v) dict \<Rightarrow> 'k \<Rightarrow> 'v option" where
  "dget d k = map_of d k"

definition dset :: "('k, 'v) dict \<Rightarrow> 'k \<Rightarrow> 'v \<Rightarrow> ('k, 'v) dict" where
  "dset d k v = AList.update k v d"

definition dpop :: "('k, 'v) dict \<Rightarrow> 'k \<Rightarrow> ('k, 'v) dict" where
  "dpop d k = AList.delete k d"

definition dkeys :: "('k, 'v) dict \<Rightarrow> 'k list" where
  "dkeys d = map fst d"

definition dvalues :: "('k, 'v) dict \<Rightarrow> 'v list" where
  "dvalues d = map snd d"

definition dict_ok :: "('k, 'v) dict \<Rightarrow> bool" where
  "dict_ok d \<longleftrightarrow> distinct (dkeys d)"

lemma dget_simps [simp, dict_simps]:
  "dget [] k = None"
  "dget ((k', v) # d) k = (if k = k' then Some v else dget d k)"
  by (auto simp: dget_def)

lemma dget_dset [simp, dict_simps]: "dget (dset d k v) k' = (if k' = k then Some v else dget d k')"
  by (simp add: dget_def dset_def update_conv')

lemma dget_dpop [simp, dict_simps]: "dget (dpop d k) k' = (if k' = k then None else dget d k')"
  by (simp add: dget_def dpop_def delete_conv')

lemma dget_None_iff: "dget d k = None \<longleftrightarrow> k \<notin> set (dkeys d)"
  by (auto simp: dget_def dkeys_def map_of_eq_None_iff)

lemma dget_Some_key: "dget d k = Some v \<Longrightarrow> k \<in> set (dkeys d)"
  by (metis dget_None_iff option.distinct(1))

lemma dkeys_dset: "set (dkeys (dset d k v)) = insert k (set (dkeys d))"
  by (auto simp: dkeys_def dset_def dom_update)

lemma dkeys_dpop: "set (dkeys (dpop d k)) = set (dkeys d) - {k}"
  by (simp add: dkeys_def dpop_def delete_keys del: set_map)

lemma dict_ok_simps [simp]:
  "dict_ok []"
  "dict_ok ((k, v) # d) \<longleftrightarrow> k \<notin> set (dkeys d) \<and> dict_ok d"
  by (auto simp: dict_ok_def dkeys_def)

lemma dict_ok_dset [simp]: "dict_ok d \<Longrightarrow> dict_ok (dset d k v)"
  by (simp add: dict_ok_def dkeys_def dset_def distinct_update)

lemma dict_ok_dpop [simp]: "dict_ok d \<Longrightarrow> dict_ok (dpop d k)"
  by (simp add: dict_ok_def dkeys_def dpop_def distinct_delete)

text \<open>A dictionary comprehension: later entries overwrite earlier ones in place.\<close>

fun dict_of :: "('k \<times> 'v) list \<Rightarrow> ('k, 'v) dict \<Rightarrow> ('k, 'v) dict" where
  "dict_of [] d = d"
| "dict_of ((k, v) # xs) d = dict_of xs (dset d k v)"

lemma dict_ok_dict_of [simp]: "dict_ok d \<Longrightarrow> dict_ok (dict_of xs d)"
  by (induction xs d rule: dict_of.induct) auto

lemma dkeys_dict_of: "set (dkeys (dict_of xs d)) = fst ` set xs \<union> set (dkeys d)"
  by (induction xs d rule: dict_of.induct) (auto simp: dkeys_dset)

lemma dget_dict_of:
  "dget (dict_of xs d) k = (case map_of (rev xs) k of None \<Rightarrow> dget d k | Some v \<Rightarrow> Some v)"
  by (induction xs d rule: dict_of.induct)
     (auto simp: map_add_def split: option.splits)

section \<open>Slices and truth values\<close>

text \<open>\<open>xs[-n:]\<close>: the last \<open>n\<close> elements, the whole list for \<open>n = 0\<close>.\<close>

definition take_last :: "nat \<Rightarrow> 'a list \<Rightarrow> 'a list" where
  "take_last n xs = drop (length xs - n) xs"

definition slice_last :: "int \<Rightarrow> 'a list \<Rightarrow> 'a list" where
  "slice_last n xs = (if 0 < n then take_last (nat n) xs else drop (nat (- n)) xs)"

lemma length_take_last [simp]: "length (take_last n xs) = min n (length xs)"
  by (simp add: take_last_def)

lemma set_take_last: "set (take_last n xs) \<subseteq> set xs"
  by (simp add: take_last_def set_drop_subset)

lemma take_last_all [simp]: "length xs \<le> n \<Longrightarrow> take_last n xs = xs"
  by (simp add: take_last_def)

lemma take_last_append: "take_last n (xs @ ys) = take_last (n - length ys) xs @ take_last n ys"
  by (cases "n \<le> length ys") (simp_all add: take_last_def)

lemma take_last_take_last: "take_last m (take_last n xs) = take_last (min m n) xs"
  by (cases "n \<le> length xs"; cases "m \<le> n") (simp_all add: take_last_def)

lemma sorted_take_last: "sorted (map f xs) \<Longrightarrow> sorted (map f (take_last n xs))"
  by (simp add: take_last_def sorted_wrt_drop flip: drop_map)

lemma distinct_take_last [simp]: "distinct xs \<Longrightarrow> distinct (take_last n xs)"
  by (simp add: take_last_def)

lemma set_slice_last: "set (slice_last n xs) \<subseteq> set xs"
  by (auto simp: slice_last_def take_last_def dest: in_set_dropD)

lemma sorted_slice_last: "sorted (map f xs) \<Longrightarrow> sorted (map f (slice_last n xs))"
  by (simp add: slice_last_def sorted_take_last sorted_wrt_drop flip: drop_map)

lemma distinct_slice_last: "distinct xs \<Longrightarrow> distinct (slice_last n xs)"
  by (simp add: slice_last_def)

end
