(* ===== verification/PyText.thy ===== *)
theory PyText
  imports Prelude "HOL-Library.Sublist"
begin

text \<open>
  The string methods, \<open>str(int)\<close> and \<open>int(str)\<close> of Python that the sources use.
  \<open>show_int\<close> and \<open>parse_int\<close> are inverse to each other, which the period grammar and
  the trade ids rest on.
\<close>

section \<open>Characters and case\<close>

definition is_digit :: "char \<Rightarrow> bool" where
  "is_digit c \<longleftrightarrow> 48 \<le> (of_char c :: nat) \<and> (of_char c :: nat) \<le> 57"

definition is_space :: "char \<Rightarrow> bool" where
  "is_space c \<longleftrightarrow> (let n = (of_char c :: nat) in n = 32 \<or> (9 \<le> n \<and> n \<le> 13))"

definition char_upper :: "char \<Rightarrow> char" where
  "char_upper c = (let n = (of_char c :: nat) in if 97 \<le> n \<and> n \<le> 122 then char_of (n - 32) else c)"

definition char_lower :: "char \<Rightarrow> char" where
  "char_lower c = (let n = (of_char c :: nat) in if 65 \<le> n \<and> n \<le> 90 then char_of (n + 32) else c)"

definition upper :: "string \<Rightarrow> string" where "upper s = map char_upper s"
definition lower :: "string \<Rightarrow> string" where "lower s = map char_lower s"

lemma char_upper_idem [simp]: "char_upper (char_upper c) = char_upper c"
  by (auto simp: char_upper_def Let_def)

lemma upper_idem [simp]: "upper (upper s) = upper s"
  by (simp add: upper_def)

lemma upper_append: "upper (s @ t) = upper s @ upper t"
  by (simp add: upper_def)

lemma length_upper [simp]: "length (upper s) = length s"
  by (simp add: upper_def)

section \<open>Search, strip, split, replace\<close>

definition starts_with :: "string \<Rightarrow> string \<Rightarrow> bool" where
  "starts_with s p \<longleftrightarrow> take (length p) s = p"

definition ends_with :: "string \<Rightarrow> string \<Rightarrow> bool" where
  "ends_with s p \<longleftrightarrow> length p \<le> length s \<and> drop (length s - length p) s = p"

definition chop :: "nat \<Rightarrow> string \<Rightarrow> string" where
  "chop n s = take (length s - n) s"

lemma ends_with_append [simp]: "ends_with (s @ p) p"
  by (simp add: ends_with_def)

lemma chop_append [simp]: "length p = n \<Longrightarrow> chop n (s @ p) = s"
  by (simp add: chop_def)

lemma ends_with_chop: "ends_with s p \<Longrightarrow> chop (length p) s @ p = s"
  by (metis append_take_drop_id chop_def ends_with_def)

definition remove_char :: "char \<Rightarrow> string \<Rightarrow> string" where
  "remove_char c s = filter (\<lambda>x. x \<noteq> c) s"

lemma remove_char_id: "c \<notin> set s \<Longrightarrow> remove_char c s = s"
  by (auto simp: remove_char_def filter_id_conv)

text \<open>\<open>s.replace(p, '')\<close>: left to right, occurrences do not overlap.\<close>

fun remove_sub :: "string \<Rightarrow> string \<Rightarrow> string" where
  "remove_sub p [] = []"
| "remove_sub p (c # s) =
     (if p \<noteq> [] \<and> starts_with (c # s) p then remove_sub p (drop (length p - 1) s)
      else c # remove_sub p s)"

text \<open>\<open>s.split(c, 1)\<close> as a pair; \<open>None\<close> when \<open>c\<close> does not occur.\<close>

fun split_once :: "char \<Rightarrow> string \<Rightarrow> (string \<times> string) option" where
  "split_once c [] = None"
| "split_once c (x # s) =
     (if x = c then Some ([], s) else map_option (\<lambda>(a, b). (x # a, b)) (split_once c s))"

fun split_all :: "char \<Rightarrow> string \<Rightarrow> string list" where
  "split_all c [] = [[]]"
| "split_all c (x # s) =
     (if x = c then [] # split_all c s
      else (case split_all c s of [] \<Rightarrow> [[x]] | t # ts \<Rightarrow> (x # t) # ts))"

lemma split_once_Some: "split_once c s = Some (a, b) \<Longrightarrow> s = a @ c # b \<and> c \<notin> set a"
  by (induction s arbitrary: a) (auto split: if_splits)

lemma split_once_None_iff: "split_once c s = None \<longleftrightarrow> c \<notin> set s"
  by (induction s) auto

definition lstrip :: "string \<Rightarrow> string" where "lstrip s = dropWhile is_space s"
definition strip :: "string \<Rightarrow> string" where "strip s = rev (lstrip (rev (lstrip s)))"
definition rstrip_char :: "char \<Rightarrow> string \<Rightarrow> string" where
  "rstrip_char c s = rev (dropWhile (\<lambda>x. x = c) (rev s))"

section \<open>Decimal integers\<close>

definition digit_val :: "char \<Rightarrow> int" where
  "digit_val c = int (of_char c :: nat) - 48"

definition val_digit :: "int \<Rightarrow> char" where
  "val_digit d = char_of (nat (d + 48))"

definition digits_val :: "string \<Rightarrow> int" where
  "digits_val s = foldl (\<lambda>n c. 10 * n + digit_val c) 0 s"

function show_nat :: "int \<Rightarrow> string" where
  "show_nat n = (if n < 10 then [val_digit (max n 0)] else show_nat (n div 10) @ [val_digit (n mod 10)])"
  by pat_completeness auto
termination
  by (relation "measure nat") auto

declare show_nat.simps [simp del]

definition show_int :: "int \<Rightarrow> string" where
  "show_int n = (if n < 0 then CHR ''-'' # show_nat (- n) else show_nat n)"

text \<open>
  The digit groups \<open>int()\<close> and \<open>float()\<close> read: one or more digits, single underscores
  allowed between digits.
\<close>

fun digit_group :: "string \<Rightarrow> string option" where
  "digit_group [] = None"
| "digit_group [c] = (if is_digit c then Some [c] else None)"
| "digit_group (c # x # s) =
     (if \<not> is_digit c then None
      else if x = CHR ''_'' then map_option (\<lambda>t. c # t) (digit_group s)
      else map_option (\<lambda>t. c # t) (digit_group (x # s)))"

fun split_sign :: "string \<Rightarrow> bool \<times> string" where
  "split_sign [] = (False, [])"
| "split_sign (c # s) =
     (if c = CHR ''-'' then (True, s) else if c = CHR ''+'' then (False, s) else (False, c # s))"

definition parse_int :: "string \<Rightarrow> int option" where
  "parse_int s = (let (neg, t) = split_sign (strip s)
     in map_option (\<lambda>d. if neg then - digits_val d else digits_val d) (digit_group t))"

lemma val_digit_digit [simp]: "0 \<le> d \<Longrightarrow> d < 10 \<Longrightarrow> is_digit (val_digit d)"
  by (auto simp: is_digit_def val_digit_def)

lemma digit_val_val_digit [simp]: "0 \<le> d \<Longrightarrow> d < 10 \<Longrightarrow> digit_val (val_digit d) = d"
  by (auto simp: digit_val_def val_digit_def)

lemma show_nat_nonempty [simp]: "show_nat n \<noteq> []"
  by (subst show_nat.simps) simp

lemma show_nat_digits: "c \<in> set (show_nat n) \<Longrightarrow> is_digit c"
proof (induction n rule: show_nat.induct)
  case (1 n)
  then show ?case
    by (cases "n < 10") (auto simp: show_nat.simps [of n] max_def split: if_splits)
qed

lemma digits_val_snoc [simp]: "digits_val (s @ [c]) = 10 * digits_val s + digit_val c"
  by (simp add: digits_val_def)

lemma digits_val_show_nat: "0 \<le> n \<Longrightarrow> digits_val (show_nat n) = n"
proof (induction n rule: show_nat.induct)
  case (1 n)
  show ?case
  proof (cases "n < 10")
    case True
    with "1.prems" show ?thesis
      by (subst show_nat.simps) (simp add: digits_val_def)
  next
    case False
    with 1 have "digits_val (show_nat (n div 10)) = n div 10" by simp
    with False show ?thesis
      by (subst show_nat.simps) simp
  qed
qed

lemma digit_not_underscore: "is_digit c \<Longrightarrow> c \<noteq> CHR ''_''"
  by (auto simp: is_digit_def)

lemma digit_group_digits: "s \<noteq> [] \<Longrightarrow> (\<forall>c\<in>set s. is_digit c) \<Longrightarrow> digit_group s = Some s"
  by (induction s rule: digit_group.induct) (auto dest: digit_not_underscore)

lemma digit_not_space: "is_digit c \<Longrightarrow> \<not> is_space c"
  by (auto simp: is_digit_def is_space_def Let_def)

lemma dropWhile_none: "(\<forall>c\<in>set s. \<not> P c) \<Longrightarrow> dropWhile P s = s"
  by (cases s) auto

lemma strip_none: "(\<forall>c\<in>set s. \<not> is_space c) \<Longrightarrow> strip s = s"
  by (simp add: strip_def lstrip_def dropWhile_none)

lemma split_sign_digits:
  "(\<forall>c\<in>set s. is_digit c) \<Longrightarrow> split_sign s = (False, s)"
  by (cases s) (auto simp: is_digit_def)

theorem parse_show_int: "parse_int (show_int n) = Some n"
proof -
  have d: "\<forall>c\<in>set (show_nat m). is_digit c" for m
    by (auto dest: show_nat_digits)
  have ns: "\<forall>c\<in>set (show_nat m). \<not> is_space c" for m
    by (auto dest: show_nat_digits digit_not_space)
  have m: "\<not> is_space (CHR ''-'')" by (simp add: is_space_def Let_def)
  show ?thesis
  proof (cases "n < 0")
    case True
    have "strip (CHR ''-'' # show_nat (- n)) = CHR ''-'' # show_nat (- n)"
      using ns m by (intro strip_none) auto
    with True d show ?thesis
      by (simp add: parse_int_def show_int_def digit_group_digits digits_val_show_nat)
  next
    case False
    with d ns show ?thesis
      by (simp add: parse_int_def show_int_def strip_none split_sign_digits digit_group_digits
          digits_val_show_nat)
  qed
qed

end
