(* ===== verification/PyFloat.thy ===== *)
theory PyFloat
  imports PyText
begin

text \<open>
  Python floats: IEEE 754 binary64 with round-to-nearest-even, on exact rationals. A finite
  float is the rational it denotes, so the sign of a zero is not represented (no source
  depends on it). \<open>round64\<close> is the rounding of the standard; multiplication, addition,
  division, \<open>float(int)\<close> and \<open>float(str)\<close> all go through it. The section on errors
  bounds a rounding by half a unit in the last place.
\<close>

section \<open>Rounding\<close>

datatype pyfloat = Fin rat | PosInf | NegInf | NaN

function nlog2 :: "int \<Rightarrow> nat" where
  "nlog2 n = (if n < 2 then 0 else Suc (nlog2 (n div 2)))"
  by pat_completeness auto
termination
  by (relation "measure nat") auto

declare nlog2.simps [simp del]

definition div_half_even :: "int \<Rightarrow> int \<Rightarrow> int" where
  "div_half_even a b = (let q = a div b; r = a mod b in
     if 2 * r < b then q else if b < 2 * r then q + 1 else if even q then q else q + 1)"

definition scaled_int :: "int \<Rightarrow> int \<Rightarrow> int \<Rightarrow> int" where
  "scaled_int p q e =
     (if 0 \<le> e then div_half_even p (q * 2 ^ nat e) else div_half_even (p * 2 ^ nat (- e)) q)"

definition pow2 :: "int \<Rightarrow> rat" where
  "pow2 e = (if 0 \<le> e then 2 ^ nat e else 1 / 2 ^ nat (- e))"

definition quantum :: "rat \<Rightarrow> int" where
  "quantum x = (let (p, q) = quotient_of \<bar>x\<bar>;
     e0 = int (nlog2 p) - int (nlog2 q);
     e1 = (if pow2 e0 \<le> \<bar>x\<bar> then e0 else e0 - 1)
   in max (e1 - 52) (- 1074))"

definition round_abs :: "rat \<Rightarrow> rat" where
  "round_abs x = (let (p, q) = quotient_of \<bar>x\<bar>
     in of_int (scaled_int p q (quantum x)) * pow2 (quantum x))"

definition round64 :: "rat \<Rightarrow> pyfloat" where
  "round64 x = (let y = round_abs x in
     if 2 ^ 1024 \<le> y then (if x < 0 then NegInf else PosInf)
     else Fin (if x < 0 then - y else y))"

section \<open>Arithmetic and comparison\<close>

fun fneg :: "pyfloat \<Rightarrow> pyfloat" where
  "fneg (Fin a) = Fin (- a)"
| "fneg PosInf = NegInf"
| "fneg NegInf = PosInf"
| "fneg NaN = NaN"

fun fmul :: "pyfloat \<Rightarrow> pyfloat \<Rightarrow> pyfloat" where
  "fmul (Fin a) (Fin b) = round64 (a * b)"
| "fmul NaN _ = NaN"
| "fmul _ NaN = NaN"
| "fmul PosInf (Fin b) = (if b = 0 then NaN else if b < 0 then NegInf else PosInf)"
| "fmul NegInf (Fin b) = (if b = 0 then NaN else if b < 0 then PosInf else NegInf)"
| "fmul (Fin a) PosInf = (if a = 0 then NaN else if a < 0 then NegInf else PosInf)"
| "fmul (Fin a) NegInf = (if a = 0 then NaN else if a < 0 then PosInf else NegInf)"
| "fmul PosInf PosInf = PosInf"
| "fmul PosInf NegInf = NegInf"
| "fmul NegInf PosInf = NegInf"
| "fmul NegInf NegInf = PosInf"

fun fadd :: "pyfloat \<Rightarrow> pyfloat \<Rightarrow> pyfloat" where
  "fadd (Fin a) (Fin b) = round64 (a + b)"
| "fadd NaN _ = NaN"
| "fadd _ NaN = NaN"
| "fadd PosInf NegInf = NaN"
| "fadd NegInf PosInf = NaN"
| "fadd PosInf _ = PosInf"
| "fadd NegInf _ = NegInf"
| "fadd _ PosInf = PosInf"
| "fadd _ NegInf = NegInf"

text \<open>\<open>a - b\<close>\<close>

definition fsub :: "pyfloat \<Rightarrow> pyfloat \<Rightarrow> pyfloat" where
  "fsub a b = fadd a (fneg b)"

text \<open>\<open>a / b\<close> raises on a zero divisor, whatever the dividend.\<close>

fun fdiv :: "pyfloat \<Rightarrow> pyfloat \<Rightarrow> pyfloat res" where
  "fdiv a (Fin b) =
     (if b = 0 then Inl ZeroDivisionError
      else case a of
        Fin a' \<Rightarrow> Inr (round64 (a' / b))
      | PosInf \<Rightarrow> Inr (if b < 0 then NegInf else PosInf)
      | NegInf \<Rightarrow> Inr (if b < 0 then PosInf else NegInf)
      | NaN \<Rightarrow> Inr NaN)"
| "fdiv (Fin a) PosInf = Inr (Fin 0)"
| "fdiv (Fin a) NegInf = Inr (Fin 0)"
| "fdiv _ _ = Inr NaN"

fun flt :: "pyfloat \<Rightarrow> pyfloat \<Rightarrow> bool" where
  "flt (Fin a) (Fin b) = (a < b)"
| "flt NaN _ = False"
| "flt _ NaN = False"
| "flt PosInf _ = False"
| "flt _ NegInf = False"
| "flt NegInf _ = True"
| "flt _ PosInf = True"

fun feq :: "pyfloat \<Rightarrow> pyfloat \<Rightarrow> bool" where
  "feq NaN _ = False"
| "feq a b = (a = b)"

definition fle :: "pyfloat \<Rightarrow> pyfloat \<Rightarrow> bool" where
  "fle a b \<longleftrightarrow> flt a b \<or> feq a b"

definition is_finite :: "pyfloat \<Rightarrow> bool" where
  "is_finite a \<longleftrightarrow> (case a of Fin _ \<Rightarrow> True | _ \<Rightarrow> False)"

section \<open>Conversions\<close>

definition trunc_rat :: "rat \<Rightarrow> int" where
  "trunc_rat q = (if q < 0 then ceiling q else floor q)"

definition int_of_float :: "pyfloat \<Rightarrow> int res" where
  "int_of_float a = (case a of
       Fin q \<Rightarrow> Inr (trunc_rat q)
     | NaN \<Rightarrow> Inl (ValueError ''cannot convert float NaN to integer'')
     | _ \<Rightarrow> Inl (OverflowError ''cannot convert float infinity to integer''))"

definition float_of_int :: "int \<Rightarrow> pyfloat res" where
  "float_of_int n = (case round64 (of_int n) of
       Fin q \<Rightarrow> Inr (Fin q)
     | _ \<Rightarrow> Inl (OverflowError ''int too large to convert to float''))"

definition pow10 :: "int \<Rightarrow> rat" where
  "pow10 e = (if 0 \<le> e then 10 ^ nat e else 1 / 10 ^ nat (- e))"

text \<open>The decimal literal grammar: coefficient and decimal exponent.\<close>

definition split_exponent :: "string \<Rightarrow> string \<times> string option" where
  "split_exponent s = (case split_once CHR ''e'' (lower s) of
       None \<Rightarrow> (s, None)
     | Some (a, b) \<Rightarrow> (take (length a) s, Some b))"

definition opt_group :: "string \<Rightarrow> string option" where
  "opt_group s = (if s = [] then Some [] else digit_group s)"

definition parse_decimal :: "string \<Rightarrow> (int \<times> int) option" where
  "parse_decimal s = (let (m, ex) = split_exponent s;
       (ip, fp) = (case split_once CHR ''.'' m of None \<Rightarrow> (m, []) | Some ab \<Rightarrow> ab)
     in if ip = [] \<and> fp = [] then None
        else case (opt_group ip, opt_group fp) of
          (Some i, Some f) \<Rightarrow>
            (case ex of
               None \<Rightarrow> Some (digits_val (i @ f), - int (length f))
             | Some e \<Rightarrow> (let (neg, d) = split_sign e in
                 map_option (\<lambda>g. (digits_val (i @ f),
                     (if neg then - digits_val g else digits_val g) - int (length f)))
                   (digit_group d)))
        | _ \<Rightarrow> None)"

definition parse_float :: "string \<Rightarrow> pyfloat option" where
  "parse_float s = (let (neg, t) = split_sign (strip s) in
     map_option (\<lambda>x. if neg then fneg x else x)
       (if lower t = ''inf'' \<or> lower t = ''infinity'' then Some PosInf
        else if lower t = ''nan'' then Some NaN
        else map_option (\<lambda>(c, e). round64 (of_int c * pow10 e)) (parse_decimal t)))"

section \<open>Accuracy\<close>

lemma pow2_powi: "pow2 e = 2 powi e"
  by (auto simp: pow2_def power_int_def inverse_eq_divide power_one_over)

lemma pow2_pos [simp]: "0 < pow2 e"
  by (simp add: pow2_def)

lemma pow2_add: "pow2 (a + b) = pow2 a * pow2 b"
  by (simp add: pow2_powi power_int_add)

lemma pow2_diff: "pow2 (a - b) = pow2 a / pow2 b"
  by (simp add: pow2_powi power_int_diff)

lemma pow2_nat [simp]: "pow2 (int n) = 2 ^ n"
  by (simp add: pow2_def)

lemma nlog2_bounds: "1 \<le> n \<Longrightarrow> 2 ^ nlog2 n \<le> n \<and> n < 2 * 2 ^ nlog2 n"
proof (induction n rule: nlog2.induct)
  case (1 n)
  show ?case
  proof (cases "n < 2")
    case True
    with "1.prems" show ?thesis by (simp add: nlog2.simps [of n])
  next
    case False
    then have "nlog2 n = Suc (nlog2 (n div 2))" by (simp add: nlog2.simps [of n])
    moreover have "2 ^ nlog2 (n div 2) \<le> n div 2 \<and> n div 2 < 2 * 2 ^ nlog2 (n div 2)"
      using False by (intro "1.IH") linarith+
    moreover have "2 * a \<le> n \<and> n < 2 * (2 * a)" if "a \<le> n div 2 \<and> n div 2 < 2 * a" for a :: int
      using that by linarith
    ultimately show ?thesis by simp
  qed
qed

lemma div_half_even_error:
  assumes "0 < b"
  shows "2 * \<bar>a - div_half_even a b * b\<bar> \<le> b"
proof -
  define q r where "q = a div b" and "r = a mod b"
  have a: "a = q * b + r" and r: "0 \<le> r" "r < b"
    using assms by (simp_all add: q_def r_def)
  have "div_half_even a b = (if 2 * r < b then q else if b < 2 * r then q + 1 else if even q then q else q + 1)"
    by (simp add: div_half_even_def Let_def q_def r_def)
  moreover have "a - q * b = r" "a - (q + 1) * b = r - b"
    by (simp_all add: a algebra_simps)
  ultimately show ?thesis using r by auto
qed

lemma div_half_even_1 [simp]: "div_half_even a 1 = a"
  by (simp add: div_half_even_def)

lemma div_half_even_rat_error:
  assumes "0 < b"
  shows "\<bar>of_int a / of_int b - (of_int (div_half_even a b) :: rat)\<bar> \<le> 1 / 2"
proof -
  have "(of_int (2 * \<bar>a - div_half_even a b * b\<bar>) :: rat) \<le> of_int b"
    using div_half_even_error [OF assms, of a] by (simp only: of_int_le_iff)
  then have "2 * \<bar>of_int a - of_int (div_half_even a b) * (of_int b :: rat)\<bar> \<le> of_int b"
    by simp
  moreover have "\<bar>of_int a - of_int (div_half_even a b) * (of_int b :: rat)\<bar>
      = of_int b * \<bar>of_int a / of_int b - of_int (div_half_even a b)\<bar>"
  proof -
    have "of_int a - of_int (div_half_even a b) * (of_int b :: rat)
        = of_int b * (of_int a / of_int b - of_int (div_half_even a b))"
      using assms by (simp add: right_diff_distrib mult.commute)
    then show ?thesis using assms by (simp add: abs_mult)
  qed
  ultimately show ?thesis
    using assms by (simp add: field_simps)
qed

lemma scaled_int_error:
  assumes "0 < q"
  shows "\<bar>of_int p / of_int q - of_int (scaled_int p q e) * pow2 e\<bar> \<le> pow2 e / 2"
proof -
  have *: "\<bar>of_int p / of_int q / pow2 e - of_int (scaled_int p q e)\<bar> \<le> 1 / 2"
  proof (cases "0 \<le> e")
    case True
    then show ?thesis
      using div_half_even_rat_error [of "q * 2 ^ nat e" p] assms
      by (simp add: scaled_int_def pow2_def)
  next
    case False
    then show ?thesis
      using div_half_even_rat_error [of q "p * 2 ^ nat (- e)"] assms
      by (simp add: scaled_int_def pow2_def)
  qed
  have "of_int p / of_int q - of_int (scaled_int p q e) * pow2 e
      = pow2 e * (of_int p / of_int q / pow2 e - of_int (scaled_int p q e))"
    using pow2_pos [of e] by (simp add: right_diff_distrib mult.commute less_imp_neq [THEN not_sym])
  then have "\<bar>of_int p / of_int q - of_int (scaled_int p q e) * pow2 e\<bar>
      = pow2 e * \<bar>of_int p / of_int q / pow2 e - of_int (scaled_int p q e)\<bar>"
    by (simp add: abs_mult abs_of_pos)
  also have "\<dots> \<le> pow2 e * (1 / 2)"
    by (rule mult_left_mono [OF * less_imp_le [OF pow2_pos]])
  finally show ?thesis by simp
qed

lemma quotient_of_abs:
  assumes "quotient_of \<bar>x\<bar> = (p, q)"
  shows "\<bar>x\<bar> = of_int p / of_int q" "0 < q" "0 \<le> p"
proof -
  show *: "\<bar>x\<bar> = of_int p / of_int q" by (rule quotient_of_div [OF assms])
  show q: "0 < q" by (rule quotient_of_denom_pos [OF assms])
  have "0 \<le> (of_int p :: rat) / of_int q" using * by (metis abs_ge_zero)
  then show "0 \<le> p" using q by (simp add: zero_le_divide_iff)
qed

lemma round_abs_error: "\<bar>\<bar>x\<bar> - round_abs x\<bar> \<le> pow2 (quantum x) / 2"
proof -
  obtain p q where pq: "quotient_of \<bar>x\<bar> = (p, q)" by force
  show ?thesis
    using scaled_int_error [OF quotient_of_abs(2) [OF pq], of p "quantum x"]
    by (simp add: round_abs_def pq quotient_of_abs(1) [OF pq, symmetric])
qed

text \<open>Normal range: the quantum is at most a 2 to the -52 part of the value.\<close>

lemma quantum_le:
  assumes "pow2 (- 1022) \<le> \<bar>x\<bar>"
  shows "pow2 (quantum x) \<le> \<bar>x\<bar> / 2 ^ 52"
proof -
  obtain p q where pq: "quotient_of \<bar>x\<bar> = (p, q)" by force
  note x = quotient_of_abs [OF pq]
  define e0 where "e0 = int (nlog2 p) - int (nlog2 q)"
  define e1 where "e1 = (if pow2 e0 \<le> \<bar>x\<bar> then e0 else e0 - 1)"
  have "0 < \<bar>x\<bar>" using assms pow2_pos by (rule less_le_trans [rotated])
  with x have "p \<noteq> 0" by auto
  with x have p: "1 \<le> p" by simp
  have q: "1 \<le> q" using x by simp
  have "(of_int (2 ^ nlog2 p) :: rat) \<le> of_int p"
    using nlog2_bounds [OF p] by (simp only: of_int_le_iff)
  then have low: "(2 ^ nlog2 p :: rat) \<le> of_int p" by simp
  have "(of_int q :: rat) < of_int (2 * 2 ^ nlog2 q)"
    using nlog2_bounds [OF q] by (simp only: of_int_less_iff)
  then have high: "(of_int q :: rat) < 2 * 2 ^ nlog2 q" by simp
  have "pow2 (e0 - 1) = 2 ^ nlog2 p / (2 * 2 ^ nlog2 q)"
    by (simp add: e0_def pow2_diff pow2_def [of 1])
  also have "\<dots> \<le> of_int p / of_int q"
    using low high p q by (intro frac_le) auto
  finally have e1: "pow2 e1 \<le> \<bar>x\<bar>" using x by (simp add: e1_def)
  have "quantum x = max (e1 - 52) (- 1074)"
    by (simp add: quantum_def pq e0_def e1_def Let_def)
  moreover have d: "pow2 (e - 52) = pow2 e / 2 ^ 52" for e
    using pow2_nat [of 52] by (simp add: pow2_diff)
  moreover have "pow2 (- 1074) = pow2 (- 1022) / 2 ^ 52" using d [of "- 1022"] by simp
  ultimately show ?thesis using e1 assms by (simp add: max_def divide_right_mono)
qed

theorem round64_relative_error:
  assumes "pow2 (- 1022) \<le> \<bar>x\<bar>" "round64 x = Fin y"
  shows "\<bar>y - x\<bar> \<le> \<bar>x\<bar> / 2 ^ 53"
proof -
  have "\<bar>y - x\<bar> = \<bar>\<bar>x\<bar> - round_abs x\<bar>"
    using assms(2) by (auto simp: round64_def Let_def split: if_splits)
  also have "\<dots> \<le> pow2 (quantum x) / 2" by (rule round_abs_error)
  also have "\<dots> \<le> \<bar>x\<bar> / 2 ^ 53" using quantum_le [OF assms(1)] by simp
  finally show ?thesis .
qed

lemma round64_0 [simp]: "round64 0 = Fin 0"
proof -
  have "round_abs 0 = 0"
    by (simp add: round_abs_def scaled_int_def div_half_even_def)
  then show ?thesis by (simp add: round64_def)
qed

text \<open>Integers below 2 to the 53 are exact.\<close>

lemma quantum_int:
  assumes "\<bar>m\<bar> < 2 ^ 53"
  shows "quantum (of_int m) \<le> 0"
proof (cases "m = 0")
  case True
  then show ?thesis by (simp add: quantum_def nlog2.simps [of 0] nlog2.simps [of 1] pow2_def)
next
  case False
  have "2 ^ nlog2 \<bar>m\<bar> \<le> \<bar>m\<bar>" using False nlog2_bounds [of "\<bar>m\<bar>"] by simp
  then have "(2 :: int) ^ nlog2 \<bar>m\<bar> < 2 ^ 53" using assms by linarith
  then have "nlog2 \<bar>m\<bar> < 53" by (subst (asm) power_strict_increasing_iff) auto
  moreover have "nlog2 1 = 0" by (simp add: nlog2.simps [of 1])
  moreover have "quotient_of \<bar>of_int m\<bar> = (\<bar>m\<bar>, 1)" by (simp flip: of_int_abs)
  ultimately show ?thesis by (simp add: quantum_def Let_def)
qed

theorem round64_int:
  assumes "\<bar>m\<bar> < 2 ^ 53"
  shows "round64 (of_int m) = Fin (of_int m)"
proof -
  define e where "e = quantum (of_int m)"
  have e: "e \<le> 0" using quantum_int [OF assms] by (simp add: e_def)
  have "scaled_int \<bar>m\<bar> 1 e = \<bar>m\<bar> * 2 ^ nat (- e)"
    using e by (cases "e = 0") (simp_all add: scaled_int_def)
  moreover have "quotient_of \<bar>of_int m\<bar> = (\<bar>m\<bar>, 1)" by (simp flip: of_int_abs)
  ultimately have ra: "round_abs (of_int m) = of_int \<bar>m\<bar>"
    using e by (simp add: round_abs_def pow2_def flip: e_def)
  have "of_int \<bar>m\<bar> < (2 ^ 53 :: rat)"
    using assms by (metis of_int_less_iff of_int_numeral of_int_power)
  also have "\<dots> \<le> 2 ^ 1024" by (rule power_increasing) auto
  finally show ?thesis using ra by (simp add: round64_def Let_def)
qed

lemma round64_neg: "round64 (- x) = fneg (round64 x)"
proof -
  have "round_abs (- x) = round_abs x" by (simp add: round_abs_def quantum_def)
  moreover have "round64 0 = Fin 0" by simp
  ultimately show ?thesis by (cases "x = 0") (auto simp: round64_def Let_def)
qed

lemma round_abs_nonneg: "0 \<le> round_abs x"
proof -
  obtain p q where pq: "quotient_of \<bar>x\<bar> = (p, q)" by force
  have d: "0 \<le> div_half_even a b" if "0 \<le> a" "0 < b" for a b
    using that by (simp add: div_half_even_def Let_def pos_imp_zdiv_nonneg_iff add_nonneg_nonneg)
  have "0 \<le> scaled_int p q (quantum x)"
    using quotient_of_abs [OF pq] by (simp add: scaled_int_def d)
  then show ?thesis by (simp add: round_abs_def pq less_imp_le)
qed

end
