(* ===== verification/PyValue.thy ===== *)
theory PyValue
  imports PyFloat
begin

text \<open>
  Python values as they come out of a JSON body or go into one: the adapters read venue
  payloads, capability tables and query parameters through these operations. \<open>str()\<close>
  prints a float with the fewest digits that read back as the same float.
\<close>

datatype pyval =
    PNone
  | PBool bool
  | PInt int
  | PFloat pyfloat
  | PStr string
  | PList "pyval list"
  | PDict "(string \<times> pyval) list"

section \<open>Truth, lookup and membership\<close>

fun truthy :: "pyval \<Rightarrow> bool" where
  "truthy PNone = False"
| "truthy (PBool b) = b"
| "truthy (PInt n) = (n \<noteq> 0)"
| "truthy (PFloat x) = (x \<noteq> Fin 0)"
| "truthy (PStr s) = (s \<noteq> [])"
| "truthy (PList xs) = (xs \<noteq> [])"
| "truthy (PDict d) = (d \<noteq> [])"

text \<open>\<open>a or b\<close>\<close>

definition py_or :: "pyval \<Rightarrow> pyval \<Rightarrow> pyval" where
  "py_or a b = (if truthy a then a else b)"

fun type_name :: "pyval \<Rightarrow> string" where
  "type_name PNone = ''NoneType''"
| "type_name (PBool _) = ''bool''"
| "type_name (PInt _) = ''int''"
| "type_name (PFloat _) = ''float''"
| "type_name (PStr _) = ''str''"
| "type_name (PList _) = ''list''"
| "type_name (PDict _) = ''dict''"

text \<open>\<open>v.get(k)\<close>: only dictionaries have it.\<close>

fun py_get :: "pyval \<Rightarrow> string \<Rightarrow> pyval res" where
  "py_get (PDict d) k = Inr (case dget d k of None \<Rightarrow> PNone | Some v \<Rightarrow> v)"
| "py_get v k = Inl (AttributeError (quoted (type_name v) @ '' object has no attribute '' @ quoted ''get''))"

text \<open>\<open>v.get(k, x)\<close>\<close>

fun py_get_or :: "pyval \<Rightarrow> string \<Rightarrow> pyval \<Rightarrow> pyval res" where
  "py_get_or (PDict d) k x = Inr (case dget d k of None \<Rightarrow> x | Some v \<Rightarrow> v)"
| "py_get_or v k x = Inl (AttributeError (quoted (type_name v) @ '' object has no attribute '' @ quoted ''get''))"

text \<open>\<open>v[k]\<close> for a string key, and \<open>v[i]\<close> for a position.\<close>

fun py_item :: "pyval \<Rightarrow> string \<Rightarrow> pyval res" where
  "py_item (PDict d) k = (case dget d k of None \<Rightarrow> Inl (KeyError k) | Some v \<Rightarrow> Inr v)"
| "py_item v k = Inl (TypeError (type_name v @ '' indices must be integers''))"

fun py_index :: "pyval \<Rightarrow> nat \<Rightarrow> pyval res" where
  "py_index (PList xs) i = (if i < length xs then Inr (xs ! i) else Inl (IndexError ''list index out of range''))"
| "py_index (PStr s) i = (if i < length s then Inr (PStr [s ! i]) else Inl (IndexError ''string index out of range''))"
| "py_index (PDict d) i = Inl (KeyError ''integer key'')"
| "py_index v i = Inl (TypeError (quoted (type_name v) @ '' object is not subscriptable''))"

text \<open>Iteration: the elements of a list, the keys of a dictionary, the characters of a string.\<close>

fun py_iter :: "pyval \<Rightarrow> pyval list res" where
  "py_iter (PList xs) = Inr xs"
| "py_iter (PDict d) = Inr (map (\<lambda>kv. PStr (fst kv)) d)"
| "py_iter (PStr s) = Inr (map (\<lambda>c. PStr [c]) s)"
| "py_iter v = Inl (TypeError (quoted (type_name v) @ '' object is not iterable''))"

lemma py_get_dict [simp]: "py_get (PDict d) k = Inr (case dget d k of None \<Rightarrow> PNone | Some v \<Rightarrow> v)"
  by simp

section \<open>Quoted strings\<close>

definition hex_digit :: "nat \<Rightarrow> char" where
  "hex_digit n = char_of (if n < 10 then n + 48 else n + 87)"

definition repr_char :: "char \<Rightarrow> char \<Rightarrow> string" where
  "repr_char q c = (let n = (of_char c :: nat) in
     if c = q \<or> n = 92 then [char_of (92 :: nat), c]
     else if n = 9 then [char_of (92 :: nat), CHR ''t'']
     else if n = 10 then [char_of (92 :: nat), CHR ''n'']
     else if n = 13 then [char_of (92 :: nat), CHR ''r'']
     else if n < 32 \<or> n = 127 then [char_of (92 :: nat), CHR ''x'', hex_digit (n div 16), hex_digit (n mod 16)]
     else [c])"

definition repr_str :: "string \<Rightarrow> string" where
  "repr_str s = (let q = (if char_of (39 :: nat) \<in> set s \<and> char_of (34 :: nat) \<notin> set s
                           then char_of (34 :: nat) else char_of (39 :: nat))
     in [q] @ concat (map (repr_char q) s) @ [q])"

section \<open>Numbers\<close>

fun py_float :: "pyval \<Rightarrow> pyfloat res" where
  "py_float (PFloat x) = Inr x"
| "py_float (PInt n) = float_of_int n"
| "py_float (PBool b) = Inr (Fin (if b then 1 else 0))"
| "py_float (PStr s) = (case parse_float s of
     None \<Rightarrow> Inl (ValueError (''could not convert string to float: '' @ repr_str s)) | Some x \<Rightarrow> Inr x)"
| "py_float v = Inl (TypeError (''float() argument must be a string or a real number, not '' @ quoted (type_name v)))"

fun py_int :: "pyval \<Rightarrow> int res" where
  "py_int (PInt n) = Inr n"
| "py_int (PFloat x) = int_of_float x"
| "py_int (PBool b) = Inr (if b then 1 else 0)"
| "py_int (PStr s) = (case parse_int s of
     None \<Rightarrow> Inl (ValueError (''invalid literal for int() with base 10: '' @ repr_str s)) | Some n \<Rightarrow> Inr n)"
| "py_int v = Inl (TypeError (''int() argument must be a string or a real number, not '' @ quoted (type_name v)))"

section \<open>str and repr\<close>

text \<open>
  \<open>dec_exp a\<close> is the decimal exponent of the first digit of \<open>a > 0\<close>; a finite float
  needs at most 400 steps of the search either way.
\<close>

fun dec_exp_up :: "nat \<Rightarrow> int \<Rightarrow> rat \<Rightarrow> int" where
  "dec_exp_up 0 k a = k"
| "dec_exp_up (Suc n) k a = (if pow10 (k + 1) \<le> a then dec_exp_up n (k + 1) a else k)"

fun dec_exp_down :: "nat \<Rightarrow> int \<Rightarrow> rat \<Rightarrow> int" where
  "dec_exp_down 0 k a = k"
| "dec_exp_down (Suc n) k a = (if a < pow10 k then dec_exp_down n (k - 1) a else k)"

definition dec_exp :: "rat \<Rightarrow> int" where
  "dec_exp a = (if 1 \<le> a then dec_exp_up 400 0 a else dec_exp_down 400 0 a)"

text \<open>The \<open>n\<close> digit decimal nearest to \<open>a\<close> that reads back as \<open>a\<close>, if there is one.\<close>

definition digits_n :: "rat \<Rightarrow> nat \<Rightarrow> (int \<times> int) option" where
  "digits_n a n = (let e = dec_exp a - int n + 1;
       lo = floor (a / pow10 e); hi = lo + 1;
       near = (if a - of_int lo * pow10 e \<le> of_int hi * pow10 e - a then [lo, hi] else [hi, lo])
     in map_option (\<lambda>d. (d, e)) (find (\<lambda>d. round64 (of_int d * pow10 e) = Fin a) near))"

definition shortest :: "rat \<Rightarrow> int \<times> int" where
  "shortest a = (case List.find (\<lambda>n. digits_n a n \<noteq> None) [1..<18] of
       None \<Rightarrow> (floor a, 0) | Some n \<Rightarrow> the (digits_n a n))"

fun strip_zeros :: "nat \<Rightarrow> int \<times> int \<Rightarrow> int \<times> int" where
  "strip_zeros 0 ce = ce"
| "strip_zeros (Suc n) (c, e) = (if c \<noteq> 0 \<and> c mod 10 = 0 then strip_zeros n (c div 10, e + 1) else (c, e))"

definition zeros :: "nat \<Rightarrow> string" where "zeros n = replicate n CHR ''0''"

text \<open>\<open>'r'\<close> format: positional for exponents from -4 to 15, scientific outside.\<close>

definition format_repr :: "int \<times> int \<Rightarrow> string" where
  "format_repr ce = (let (c, e) = strip_zeros 20 ce; ds = show_nat c; n = int (length ds); pt = n + e
     in if -4 < pt \<and> pt \<le> 16 then
          (if pt \<le> 0 then ''0.'' @ zeros (nat (- pt)) @ ds
           else if n \<le> pt then ds @ zeros (nat (pt - n)) @ ''.0''
           else take (nat pt) ds @ ''.'' @ drop (nat pt) ds)
        else (let x = pt - 1; m = (if n = 1 then ds else take 1 ds @ ''.'' @ drop 1 ds);
                  xs = show_nat \<bar>x\<bar>
              in m @ ''e'' @ (if x < 0 then ''-'' else ''+'') @ (if length xs < 2 then ''0'' @ xs else xs)))"

definition repr_float :: "pyfloat \<Rightarrow> string" where
  "repr_float x = (case x of
       PosInf \<Rightarrow> ''inf'' | NegInf \<Rightarrow> ''-inf'' | NaN \<Rightarrow> ''nan''
     | Fin a \<Rightarrow> if a = 0 then ''0.0''
              else (if a < 0 then ''-'' else []) @ format_repr (shortest \<bar>a\<bar>))"

fun join :: "string \<Rightarrow> string list \<Rightarrow> string" where
  "join sep [] = []"
| "join sep [s] = s"
| "join sep (s # t # ts) = s @ sep @ join sep (t # ts)"

fun py_repr :: "pyval \<Rightarrow> string" where
  "py_repr PNone = ''None''"
| "py_repr (PBool b) = (if b then ''True'' else ''False'')"
| "py_repr (PInt n) = show_int n"
| "py_repr (PFloat x) = repr_float x"
| "py_repr (PStr s) = repr_str s"
| "py_repr (PList xs) = ''['' @ join '', '' (map py_repr xs) @ '']''"
| "py_repr (PDict d) = ''{'' @ join '', '' (map (\<lambda>(k, v). repr_str k @ '': '' @ py_repr v) d) @ ''}''"

definition py_str :: "pyval \<Rightarrow> string" where
  "py_str v = (case v of PStr s \<Rightarrow> s | _ \<Rightarrow> py_repr v)"

lemma py_str_simps [simp]:
  "py_str (PStr s) = s"
  "py_str (PInt n) = show_int n"
  by (simp_all add: py_str_def)

end
