(* ===== verification/Models.thy ===== *)
theory Models
  imports PyValue
begin

text \<open>
  The wire schema of \<^verbatim>\<open>exchange_router/models.py\<close>: one record per pydantic model, one datatype
  per \<open>Literal\<close>, and a constructor function for each model that validates more than the
  types of its fields. The constructors return the \<open>ValidationError\<close> pydantic raises.
\<close>

section \<open>Literals\<close>

datatype market_type = Spot | Linear | Inverse
datatype unit_kind = Base | Contract
datatype funding_kind = Discrete | Continuous
datatype basis_method = ByClose | ByContractSize | ByCandleClose
datatype side = Buy | Sell
datatype account_scope = TopTraders | AllAccounts | Opaque
datatype tier_unit = TierQuote | TierBase | TierContract

fun market_value :: "market_type \<Rightarrow> string" where
  "market_value Spot = ''spot''"
| "market_value Linear = ''linear''"
| "market_value Inverse = ''inverse''"

instantiation market_type :: enum
begin

definition enum_market_type :: "market_type list" where
  "enum_market_type = [Spot, Linear, Inverse]"

definition enum_all_market_type :: "(market_type \<Rightarrow> bool) \<Rightarrow> bool" where
  "enum_all_market_type P \<longleftrightarrow> P Spot \<and> P Linear \<and> P Inverse"

definition enum_ex_market_type :: "(market_type \<Rightarrow> bool) \<Rightarrow> bool" where
  "enum_ex_market_type P \<longleftrightarrow> P Spot \<or> P Linear \<or> P Inverse"

instance
proof
  show univ: "(UNIV :: market_type set) = set enum_class.enum"
    by (auto simp: enum_market_type_def intro: market_type.exhaust)
  show "distinct (enum_class.enum :: market_type list)"
    by (simp add: enum_market_type_def)
  show "enum_class.enum_all P \<longleftrightarrow> Ball UNIV P" for P :: "market_type \<Rightarrow> bool"
    by (auto simp: enum_all_market_type_def univ enum_market_type_def)
  show "enum_class.enum_ex P \<longleftrightarrow> Bex UNIV P" for P :: "market_type \<Rightarrow> bool"
    by (auto simp: enum_ex_market_type_def univ enum_market_type_def)
qed

end

definition market_of :: "string \<Rightarrow> market_type option" where
  "market_of s = List.find (\<lambda>m. market_value m = s) [Spot, Linear, Inverse]"

lemma market_of_value [simp]: "market_of (market_value m) = Some m"
  by (cases m) (simp_all add: market_of_def)

lemma market_of_Some: "market_of s = Some m \<Longrightarrow> s = market_value m"
  by (auto simp: market_of_def split: if_splits)

lemma market_value_inj: "market_value a = market_value b \<longleftrightarrow> a = b"
  by (metis market_of_value option.inject)

definition unit_of :: "string \<Rightarrow> unit_kind res" where
  "unit_of s = (if s = ''base'' then Inr Base else if s = ''contract'' then Inr Contract
     else Inl (ValidationError ''Input should be base or contract''))"

definition funding_kind_of :: "string \<Rightarrow> funding_kind res" where
  "funding_kind_of s = (if s = ''discrete'' then Inr Discrete
     else if s = ''continuous'' then Inr Continuous
     else Inl (ValidationError ''Input should be discrete or continuous''))"

definition side_of :: "string \<Rightarrow> side res" where
  "side_of s = (if s = ''buy'' then Inr Buy else if s = ''sell'' then Inr Sell
     else Inl (ValidationError ''Input should be buy or sell''))"

section \<open>Value objects\<close>

record usd_basis =
  ub_method :: basis_method
  ub_close :: "pyfloat option"
  ub_close_ts :: "int option"

definition usd_basis_ok :: "usd_basis \<Rightarrow> bool" where
  "usd_basis_ok b \<longleftrightarrow> (ub_close b = None) = (ub_close_ts b = None)"

definition UsdBasis :: "basis_method \<Rightarrow> pyfloat option \<Rightarrow> int option \<Rightarrow> usd_basis res" where
  "UsdBasis m c t = (if (c = None) \<noteq> (t = None)
     then Inl (ValidationError ''usd_basis: close and close_ts must both be set or both be null'')
     else Inr \<lparr>ub_method = m, ub_close = c, ub_close_ts = t\<rparr>)"

record qty_value =
  qv_native :: pyfloat
  qv_unit :: unit_kind
  qv_contract_size :: "pyfloat option"
  qv_usd :: pyfloat

definition qty_value_ok :: "qty_value \<Rightarrow> bool" where
  "qty_value_ok q \<longleftrightarrow> (qv_unit q = Contract \<longrightarrow> qv_contract_size q \<noteq> None)"

definition QtyValue :: "pyfloat \<Rightarrow> string \<Rightarrow> pyfloat option \<Rightarrow> pyfloat \<Rightarrow> qty_value res" where
  "QtyValue native unit cs usd = bindr (unit_of unit) (\<lambda>u.
     if u = Contract \<and> cs = None
     then Inl (ValidationError ''QtyValue.contract_size must be set when unit is contract'')
     else Inr \<lparr>qv_native = native, qv_unit = u, qv_contract_size = cs, qv_usd = usd\<rparr>)"

record volume_value =
  vv_native :: pyfloat
  vv_unit :: unit_kind
  vv_contract_size :: "pyfloat option"
  vv_usd :: pyfloat
  vv_usd_basis :: usd_basis

definition volume_value_ok :: "volume_value \<Rightarrow> bool" where
  "volume_value_ok v \<longleftrightarrow> (vv_unit v = Contract \<longrightarrow> vv_contract_size v \<noteq> None) \<and> usd_basis_ok (vv_usd_basis v)"

definition VolumeValue :: "pyfloat \<Rightarrow> string \<Rightarrow> pyfloat option \<Rightarrow> pyfloat \<Rightarrow> usd_basis \<Rightarrow> volume_value res" where
  "VolumeValue native unit cs usd basis = bindr (unit_of unit) (\<lambda>u.
     if u = Contract \<and> cs = None
     then Inl (ValidationError ''VolumeValue.contract_size must be set when unit is contract'')
     else Inr \<lparr>vv_native = native, vv_unit = u, vv_contract_size = cs, vv_usd = usd, vv_usd_basis = basis\<rparr>)"

record oi_value =
  ov_native :: pyfloat
  ov_unit :: unit_kind
  ov_contract_size :: "pyfloat option"
  ov_usd :: "pyfloat option"
  ov_usd_basis :: usd_basis

definition oi_value_ok :: "oi_value \<Rightarrow> bool" where
  "oi_value_ok v \<longleftrightarrow> (ov_unit v = Contract \<longrightarrow> ov_contract_size v \<noteq> None) \<and> usd_basis_ok (ov_usd_basis v)"

definition OiValue :: "pyfloat \<Rightarrow> string \<Rightarrow> pyfloat option \<Rightarrow> pyfloat option \<Rightarrow> usd_basis \<Rightarrow> oi_value res" where
  "OiValue native unit cs usd basis = bindr (unit_of unit) (\<lambda>u.
     if u = Contract \<and> cs = None
     then Inl (ValidationError ''OiValue.contract_size must be set when unit is contract'')
     else Inr \<lparr>ov_native = native, ov_unit = u, ov_contract_size = cs, ov_usd = usd, ov_usd_basis = basis\<rparr>)"

record funding_convention =
  fc_kind :: funding_kind

record funding_current =
  fu_kind :: funding_kind
  fu_per_cycle :: pyfloat
  fu_cycle_ms :: int
  fu_valid_until_ts :: int

record funding_historical =
  fh_kind :: funding_kind
  fh_per_cycle :: pyfloat
  fh_cycle_ms :: int

definition FundingConvention :: "string \<Rightarrow> funding_convention res" where
  "FundingConvention k = bindr (funding_kind_of k) (\<lambda>k. Inr \<lparr>fc_kind = k\<rparr>)"

definition FundingCurrent :: "string \<Rightarrow> pyfloat \<Rightarrow> int \<Rightarrow> int \<Rightarrow> funding_current res" where
  "FundingCurrent k r c v = bindr (funding_kind_of k) (\<lambda>k.
     Inr \<lparr>fu_kind = k, fu_per_cycle = r, fu_cycle_ms = c, fu_valid_until_ts = v\<rparr>)"

definition FundingHistorical :: "string \<Rightarrow> pyfloat \<Rightarrow> int \<Rightarrow> funding_historical res" where
  "FundingHistorical k r c = bindr (funding_kind_of k) (\<lambda>k.
     Inr \<lparr>fh_kind = k, fh_per_cycle = r, fh_cycle_ms = c\<rparr>)"

section \<open>Instrument metadata\<close>

record symbol_info =
  si_symbol :: string
  si_native_symbol :: string
  si_base_asset :: string
  si_quote_asset :: string
  si_price_precision :: int
  si_quantity_precision :: int
  si_min_qty :: "pyfloat option"
  si_max_qty :: "pyfloat option"
  si_min_notional :: "pyfloat option"
  si_qty_unit :: unit_kind
  si_contract_size :: "pyfloat option"
  si_funding :: "funding_convention option"
  si_tick_size :: "pyfloat option"
  si_qty_step :: "pyfloat option"

section \<open>Market data rows\<close>

record ticker =
  tk_symbol :: string
  tk_market_type :: market_type
  tk_quote :: string
  tk_price :: pyfloat
  tk_open_24h :: pyfloat
  tk_high_24h :: pyfloat
  tk_low_24h :: pyfloat
  tk_volume_24h :: volume_value
  tk_price_change_percent :: pyfloat
  tk_timestamp :: int

record book_ticker =
  bt_symbol :: string
  bt_market_type :: market_type
  bt_quote :: string
  bt_bid_price :: pyfloat
  bt_bid_qty :: qty_value
  bt_ask_price :: pyfloat
  bt_ask_qty :: qty_value
  bt_timestamp :: int

record mark_price =
  mp_symbol :: string
  mp_market_type :: market_type
  mp_quote :: string
  mp_mark_price :: pyfloat
  mp_index_price :: "pyfloat option"
  mp_funding :: "funding_current option"
  mp_timestamp :: int

definition mark_price_ok :: "mark_price \<Rightarrow> bool" where
  "mark_price_ok m \<longleftrightarrow> (case mp_funding m of None \<Rightarrow> True
     | Some f \<Rightarrow> fu_kind f = Discrete \<longrightarrow> mp_timestamp m \<le> fu_valid_until_ts f)"

definition MarkPrice :: "string \<Rightarrow> market_type \<Rightarrow> string \<Rightarrow> pyfloat \<Rightarrow> pyfloat option \<Rightarrow>
    funding_current option \<Rightarrow> int \<Rightarrow> mark_price res" where
  "MarkPrice sy mt q mp ip fu ts =
     (if (case fu of None \<Rightarrow> False
          | Some f \<Rightarrow> fu_kind f = Discrete \<and> fu_valid_until_ts f < ts)
      then Inl (ValidationError ''discrete funding.valid_until_ts must be at least timestamp'')
      else Inr \<lparr>mp_symbol = sy, mp_market_type = mt, mp_quote = q, mp_mark_price = mp,
                mp_index_price = ip, mp_funding = fu, mp_timestamp = ts\<rparr>)"

record trade =
  td_id :: "string option"
  td_symbol :: string
  td_market_type :: market_type
  td_quote :: string
  td_price :: pyfloat
  td_qty :: qty_value
  td_side :: side
  td_timestamp :: int

record agg_trade =
  at_agg_id :: string
  at_symbol :: string
  at_market_type :: market_type
  at_quote :: string
  at_price :: pyfloat
  at_qty :: qty_value
  at_first_trade_id :: string
  at_last_trade_id :: string
  at_side :: side
  at_timestamp :: int

record candle =
  cd_symbol :: string
  cd_market_type :: market_type
  cd_quote :: string
  cd_interval :: string
  cd_timestamp :: int
  cd_open :: pyfloat
  cd_high :: pyfloat
  cd_low :: pyfloat
  cd_close :: pyfloat
  cd_volume :: volume_value

record order_book =
  ob_symbol :: string
  ob_market_type :: market_type
  ob_quote :: string
  ob_bids :: "pyfloat list list"
  ob_asks :: "pyfloat list list"
  ob_qty_unit :: unit_kind
  ob_timestamp :: int

record margin_tier =
  mg_up_to :: "pyfloat option"
  mg_max_leverage :: pyfloat
  mg_maintenance_margin_rate :: "pyfloat option"
  mg_initial_margin_rate :: "pyfloat option"
  mg_maintenance_deduction :: "pyfloat option"

record margin_tiers =
  mts_symbol :: string
  mts_market_type :: market_type
  mts_quote :: string
  mts_up_to_unit :: tier_unit
  mts_tiers :: "margin_tier list"
  mts_timestamp :: int

record funding_rate =
  fr_symbol :: string
  fr_market_type :: market_type
  fr_quote :: string
  fr_rate :: funding_historical
  fr_timestamp :: int

record open_interest =
  oi_symbol :: string
  oi_market_type :: market_type
  oi_quote :: string
  oi_interval :: string
  oi_open_interest :: oi_value
  oi_timestamp :: int

record liquidation =
  lq_symbol :: string
  lq_market_type :: market_type
  lq_quote :: string
  lq_side :: side
  lq_price :: pyfloat
  lq_qty :: qty_value
  lq_timestamp :: int

record long_short_ratio =
  ls_symbol :: string
  ls_market_type :: market_type
  ls_interval :: string
  ls_ratio :: pyfloat
  ls_long_account :: "pyfloat option"
  ls_short_account :: "pyfloat option"
  ls_account_scope :: account_scope
  ls_timestamp :: int

section \<open>What the constructors guarantee\<close>

lemma UsdBasis_ok: "UsdBasis m c t = Inr b \<Longrightarrow> usd_basis_ok b"
  by (auto simp: UsdBasis_def usd_basis_ok_def split: if_splits)

lemma QtyValue_ok: "QtyValue n u c x = Inr q \<Longrightarrow> qty_value_ok q"
  by (auto simp: QtyValue_def qty_value_ok_def bindr_Inr_iff split: if_splits)

lemma VolumeValue_ok: "VolumeValue n u c x b = Inr v \<Longrightarrow> usd_basis_ok b \<Longrightarrow> volume_value_ok v"
  by (auto simp: VolumeValue_def volume_value_ok_def bindr_Inr_iff split: if_splits)

lemma OiValue_ok: "OiValue n u c x b = Inr v \<Longrightarrow> usd_basis_ok b \<Longrightarrow> oi_value_ok v"
  by (auto simp: OiValue_def oi_value_ok_def bindr_Inr_iff split: if_splits)

lemma MarkPrice_ok: "MarkPrice sy mt q mp ip fu ts = Inr m \<Longrightarrow> mark_price_ok m"
  by (auto simp: MarkPrice_def mark_price_ok_def split: if_splits option.splits)

end
