(* ===== verification/Builders.thy ===== *)
theory Builders
  imports Models
begin

text \<open>
  The shared constructors of \<^verbatim>\<open>exchange_router/exchanges/base.py\<close>: the \<open>build_*\<close> helpers every
  adapter goes through, with the decimal arithmetic behind \<open>build_step\<close>, the normalisation
  of symbols and timestamps, and the period grammar.
\<close>

section \<open>Value objects\<close>

definition build_qty_value :: "pyfloat \<Rightarrow> string \<Rightarrow> pyfloat option \<Rightarrow> pyfloat \<Rightarrow> qty_value res" where
  "build_qty_value native qty_unit contract_size price =
     (if qty_unit = ''contract'' then
        (case contract_size of
           None \<Rightarrow> Inl (ValueError ''build_qty_value: contract_size is required when qty_unit == contract'')
         | Some cs \<Rightarrow> QtyValue native qty_unit (Some cs) (fmul native cs))
      else QtyValue native qty_unit None (fmul native price))"

definition build_volume_value :: "pyfloat \<Rightarrow> string \<Rightarrow> pyfloat option \<Rightarrow> pyfloat \<Rightarrow> volume_value res" where
  "build_volume_value native volume_unit contract_size close =
     (if volume_unit = ''contract'' then
        (case contract_size of
           None \<Rightarrow> Inl (ValueError ''build_volume_value: contract_size is required when volume_unit == contract'')
         | Some cs \<Rightarrow> bindr (UsdBasis ByContractSize None None) (\<lambda>basis.
             VolumeValue native volume_unit (Some cs) (fmul native cs) basis))
      else bindr (UsdBasis ByClose None None) (\<lambda>basis.
             VolumeValue native volume_unit None (fmul native close) basis))"

definition build_oi_value :: "pyfloat \<Rightarrow> string \<Rightarrow> pyfloat option \<Rightarrow> pyfloat option \<Rightarrow> int option \<Rightarrow> oi_value res" where
  "build_oi_value native oi_unit contract_size candle_close candle_close_ts =
     (if oi_unit = ''contract'' then
        (case contract_size of
           None \<Rightarrow> Inl (ValueError ''build_oi_value: contract_size is required when oi_unit == contract'')
         | Some cs \<Rightarrow> bindr (UsdBasis ByContractSize None None) (\<lambda>basis.
             OiValue native oi_unit (Some cs) (Some (fmul native cs)) basis))
      else case (candle_close, candle_close_ts) of
        (Some c, Some t) \<Rightarrow> bindr (UsdBasis ByCandleClose (Some c) (Some t)) (\<lambda>basis.
             OiValue native oi_unit None (Some (fmul native c)) basis)
      | _ \<Rightarrow> bindr (UsdBasis ByCandleClose None None) (\<lambda>basis.
             OiValue native oi_unit None None basis))"

definition build_funding_current :: "string \<Rightarrow> pyfloat \<Rightarrow> int \<Rightarrow> int \<Rightarrow> funding_current res" where
  "build_funding_current kind per_cycle cycle_ms valid_until_ts = FundingCurrent kind per_cycle cycle_ms valid_until_ts"

definition build_funding_historical :: "string \<Rightarrow> pyfloat \<Rightarrow> int \<Rightarrow> funding_historical res" where
  "build_funding_historical kind per_cycle cycle_ms = FundingHistorical kind per_cycle cycle_ms"

definition build_funding_convention :: "string \<Rightarrow> funding_convention res" where
  "build_funding_convention kind = FundingConvention kind"

definition unit_name :: "unit_kind \<Rightarrow> string" where
  "unit_name u = (case u of Base \<Rightarrow> ''base'' | Contract \<Rightarrow> ''contract'')"

lemma unit_of_name [simp]: "unit_of (unit_name u) = Inr u"
  by (cases u) (simp_all add: unit_of_def unit_name_def)

lemma unit_name_simps [simp]:
  "unit_name Base = ''base''" "unit_name Contract = ''contract''"
  by (simp_all add: unit_name_def)

section \<open>Decimals\<close>

text \<open>
  \<open>decimal.Decimal\<close> in the default context: 28 digits, half-even, exponents up to 999999. A
  finite decimal is a coefficient and an exponent.
\<close>

datatype pydecimal = DFin int int | DInf bool | DNaN bool

definition count_digits :: "int \<Rightarrow> int" where
  "count_digits c = int (length (show_nat \<bar>c\<bar>))"

definition round_half_even_to :: "int \<Rightarrow> int \<Rightarrow> int" where
  "round_half_even_to c k = sgn c * div_half_even \<bar>c\<bar> (10 ^ nat k)"

text \<open>\<open>Decimal._fix\<close>: \<open>None\<close> is the \<open>Overflow\<close> signal, which the default context traps.\<close>

definition dec_fix :: "int \<Rightarrow> int \<Rightarrow> (int \<times> int) option" where
  "dec_fix c e =
     (if c = 0 then Some (0, max (- 1000026) (min e 999999))
      else
        let exp_min = count_digits c + e - 28 in
        if 999972 < exp_min then None
        else
          let m = max exp_min (- 1000026) in
          if e < m then
            (let c1 = round_half_even_to c (m - e);
                 (c2, m2) = (if 28 < count_digits c1 then (c1 div 10, m + 1) else (c1, m))
             in if 999972 < m2 then None else Some (c2, m2))
          else Some (c, e))"

definition dec_of_string :: "string \<Rightarrow> pydecimal option" where
  "dec_of_string s = (let (neg, t) = split_sign (remove_char CHR ''_'' (strip s)) in
     if lower t = ''inf'' \<or> lower t = ''infinity'' then Some (DInf neg)
     else if starts_with (lower t) ''nan'' \<and> (\<forall>c\<in>set (drop 3 t). is_digit c) then Some (DNaN False)
     else if starts_with (lower t) ''snan'' \<and> (\<forall>c\<in>set (drop 4 t). is_digit c) then Some (DNaN True)
     else map_option (\<lambda>(c, e). DFin (if neg then - c else c) e)
       (parse_decimal t))"

fun dec_mul :: "pydecimal \<Rightarrow> pydecimal \<Rightarrow> pydecimal option" where
  "dec_mul (DFin a m) (DFin b n) = map_option (\<lambda>(c, e). DFin c e) (dec_fix (a * b) (m + n))"
| "dec_mul (DNaN True) _ = None"
| "dec_mul _ (DNaN True) = None"
| "dec_mul (DNaN False) _ = Some (DNaN False)"
| "dec_mul _ (DNaN False) = Some (DNaN False)"
| "dec_mul (DInf s) (DInf t) = Some (DInf (s \<noteq> t))"
| "dec_mul (DInf s) (DFin b n) = (if b = 0 then None else Some (DInf (s \<noteq> (b < 0))))"
| "dec_mul (DFin a m) (DInf t) = (if a = 0 then None else Some (DInf (t \<noteq> (a < 0))))"

text \<open>\<open>float(Decimal)\<close> raises for a signalling NaN only.\<close>

fun dec_to_float :: "pydecimal \<Rightarrow> pyfloat option" where
  "dec_to_float (DFin c e) = Some (round64 (of_int c * pow10 e))"
| "dec_to_float (DInf s) = Some (if s then NegInf else PosInf)"
| "dec_to_float (DNaN sig) = (if sig then None else Some NaN)"

fun dec_prod :: "pydecimal \<Rightarrow> string list \<Rightarrow> pydecimal option" where
  "dec_prod acc [] = Some acc"
| "dec_prod acc (p # ps) = Option.bind (dec_of_string p) (\<lambda>d.
     Option.bind (dec_mul acc d) (\<lambda>acc'. dec_prod acc' ps))"

text \<open>\<open>build_step(*parts)\<close>, its parts already passed through \<open>str\<close>.\<close>

definition build_step_str :: "string list \<Rightarrow> pyfloat option" where
  "build_step_str parts = Option.bind (dec_prod (DFin 1 0) parts) (\<lambda>d.
     Option.bind (dec_to_float d) (\<lambda>v.
       if \<not> is_finite v \<or> fle v (Fin 0) then None else Some v))"

definition build_step :: "pyval list \<Rightarrow> pyfloat option" where
  "build_step parts = build_step_str (map py_str parts)"

definition float_is_integer :: "pyfloat \<Rightarrow> bool" where
  "float_is_integer x = (case x of Fin q \<Rightarrow> of_int (floor q) = q | _ \<Rightarrow> False)"

definition build_step_from_decimals :: "pyval \<Rightarrow> pyfloat option" where
  "build_step_from_decimals decimals =
     (case decimals of
        PBool _ \<Rightarrow> None
      | PFloat x \<Rightarrow> (if \<not> float_is_integer x then None
                    else case py_int decimals of Inl _ \<Rightarrow> None | Inr n \<Rightarrow> build_step_str [''1e'' @ show_int (- n)])
      | _ \<Rightarrow> (case py_int decimals of Inl _ \<Rightarrow> None | Inr n \<Rightarrow> build_step_str [''1e'' @ show_int (- n)]))"

text \<open>\<open>Decimal.normalize\<close>: rounded to the context, trailing zeros dropped, zero is \<open>0E0\<close>.\<close>

function dec_strip :: "int \<Rightarrow> int \<Rightarrow> int \<times> int" where
  "dec_strip c e = (if c \<noteq> 0 \<and> c mod 10 = 0 \<and> e < 999999 then dec_strip (c div 10) (e + 1) else (c, e))"
  by pat_completeness auto
termination
  by (relation "measure (\<lambda>(c, e). nat (999999 - e))") auto

declare dec_strip.simps [simp del]

definition count_decimals :: "pyval \<Rightarrow> int option" where
  "count_decimals value =
     (case dec_of_string (py_str value) of
        Some (DFin c e) \<Rightarrow> Option.bind (dec_fix c e) (\<lambda>(c', e').
          if c' = 0 then Some 0 else Some (max (- snd (dec_strip c' e')) 0))
      | _ \<Rightarrow> None)"

section \<open>Margin tiers\<close>

definition blank_as_none :: "pyval \<Rightarrow> pyval" where
  "blank_as_none v = (if v = PNone \<or> v = PStr [] then PNone else v)"

text \<open>
  \<open>coerce\<close> is pydantic's reading of a value for a \<open>float\<close> field; an \<open>Optional\<close> field
  takes \<open>None\<close> as it is, a required one rejects it.
\<close>

definition opt_field :: "(pyval \<Rightarrow> pyfloat res) \<Rightarrow> pyval \<Rightarrow> pyfloat option res" where
  "opt_field coerce v = (if v = PNone then Inr None else bindr (coerce v) (\<lambda>x. Inr (Some x)))"

definition req_field :: "(pyval \<Rightarrow> pyfloat res) \<Rightarrow> pyval \<Rightarrow> pyfloat res" where
  "req_field coerce v = (if v = PNone then Inl (ValidationError ''Input should be a valid number'') else coerce v)"

definition build_margin_tier :: "(pyval \<Rightarrow> pyfloat res) \<Rightarrow> pyval \<Rightarrow> pyval \<Rightarrow> pyval \<Rightarrow> pyval \<Rightarrow> pyval \<Rightarrow> margin_tier res" where
  "build_margin_tier coerce up_to max_leverage mmr imr ded =
     bindr (opt_field coerce (blank_as_none up_to)) (\<lambda>u.
     bindr (req_field coerce max_leverage) (\<lambda>l.
     bindr (opt_field coerce (blank_as_none mmr)) (\<lambda>m.
     bindr (opt_field coerce (blank_as_none imr)) (\<lambda>i.
     bindr (opt_field coerce (blank_as_none ded)) (\<lambda>d.
       Inr \<lparr>mg_up_to = u, mg_max_leverage = l, mg_maintenance_margin_rate = m,
             mg_initial_margin_rate = i, mg_maintenance_deduction = d\<rparr>)))))"

section \<open>Symbols, timestamps and periods\<close>

definition normalize_symbol :: "string \<Rightarrow> string" where
  "normalize_symbol symbol = upper (remove_char CHR ''-'' (remove_char CHR ''/'' symbol))"

text \<open>
  \<open>iso_ms\<close> is \<open>datetime.fromisoformat\<close> followed by \<open>timestamp()\<close> in milliseconds: it depends on
  the local time zone of the process, and \<open>None\<close> is its \<open>ValueError\<close>.
\<close>

definition normalize_timestamp_num :: "pyval \<Rightarrow> int res" where
  "normalize_timestamp_num ts = (case ts of
       PInt n \<Rightarrow> Inr (if n < 100000000000 then n * 1000 else n)
     | PBool b \<Rightarrow> Inr (if b then 1000 else 0)
     | PFloat x \<Rightarrow> (if flt x (Fin 100000000000) then int_of_float (fmul x (Fin 1000)) else int_of_float x)
     | _ \<Rightarrow> Inl (ValueError (''Unsupported timestamp format: <class '' @ quoted (type_name ts) @ ''>'')))"

definition normalize_timestamp :: "(string \<Rightarrow> int option) \<Rightarrow> pyval \<Rightarrow> int res" where
  "normalize_timestamp iso_ms ts = (case ts of
       PStr s \<Rightarrow> (case parse_float s of
           Some x \<Rightarrow> normalize_timestamp_num (PFloat x)
         | None \<Rightarrow> (case iso_ms s of
             Some ms \<Rightarrow> Inr ms
           | None \<Rightarrow> Inl (ValueError (''Could not parse timestamp string: '' @ s))))
     | _ \<Rightarrow> normalize_timestamp_num ts)"

definition PERIOD_MS :: "(char \<times> int) list" where
  "PERIOD_MS = [(CHR ''m'', 60000), (CHR ''h'', 3600000), (CHR ''d'', 86400000), (CHR ''w'', 604800000)]"

definition period_to_ms :: "string \<Rightarrow> int option" where
  "period_to_ms period =
     (if period = [] \<or> length period < 2 then None
      else case map_of PERIOD_MS (last period) of
        None \<Rightarrow> None
      | Some scale \<Rightarrow> map_option (\<lambda>count. count * scale) (parse_int (butlast period)))"

section \<open>The candle join of open interest\<close>

definition close_by_close_ts :: "int \<Rightarrow> candle list \<Rightarrow> (int, pyfloat) dict" where
  "close_by_close_ts period_ms candles =
     dict_of (map (\<lambda>c. (cd_timestamp c + period_ms, cd_close c)) (butlast candles)) []"

definition join_row :: "(int, pyfloat) dict \<Rightarrow> open_interest \<Rightarrow> open_interest res" where
  "join_row closes row = (case dget closes (oi_timestamp row) of
       None \<Rightarrow> Inr row
     | Some c \<Rightarrow> (let v = oi_open_interest row in
         bindr (build_oi_value (ov_native v) (unit_name (ov_unit v)) (ov_contract_size v) (Some c) (Some (oi_timestamp row)))
           (\<lambda>new. Inr (row\<lparr>oi_open_interest := new\<rparr>))))"

definition join_open_interest_basis ::
  "(string \<Rightarrow> string \<Rightarrow> int option \<Rightarrow> int \<Rightarrow> candle list res) \<Rightarrow> market_type \<Rightarrow> string \<Rightarrow> string \<Rightarrow>
     int option \<Rightarrow> int \<Rightarrow> open_interest list \<Rightarrow> open_interest list res" where
  "join_open_interest_basis get_candles market_type symbol period start_time limit oi_rows =
     (if market_type \<noteq> Linear \<or> oi_rows = [] then Inr oi_rows
      else case get_candles symbol period start_time (limit + 1) of
        Inl e \<Rightarrow> (if is_exception e then Inr oi_rows else Inl e)
      | Inr candles \<Rightarrow>
          if length candles < 2 then Inr oi_rows
          else
            let period_ms = (case period_to_ms period of
                  Some ms \<Rightarrow> ms
                | None \<Rightarrow> cd_timestamp (candles ! 1) - cd_timestamp (candles ! 0))
            in mapr (join_row (close_by_close_ts period_ms candles)) oi_rows)"

section \<open>What the constructors compute\<close>

lemma build_qty_value_ok: "build_qty_value n u c p = Inr q \<Longrightarrow> qty_value_ok q"
  by (auto simp: build_qty_value_def dest: QtyValue_ok split: if_splits option.splits)

lemma build_volume_value_ok: "build_volume_value n u c p = Inr q \<Longrightarrow> volume_value_ok q"
  by (auto simp: build_volume_value_def bindr_Inr_iff
      dest!: UsdBasis_ok dest: VolumeValue_ok split: if_splits option.splits)

lemma build_oi_value_ok: "build_oi_value n u c cc ct = Inr v \<Longrightarrow> oi_value_ok v"
  by (auto simp: build_oi_value_def bindr_Inr_iff
      dest!: UsdBasis_ok dest: OiValue_ok split: if_splits option.splits)

lemma build_qty_value_unit:
  "build_qty_value n (unit_name Base) c p
     = Inr \<lparr>qv_native = n, qv_unit = Base, qv_contract_size = None, qv_usd = fmul n p\<rparr>"
  "build_qty_value n (unit_name Contract) (Some cs) p
     = Inr \<lparr>qv_native = n, qv_unit = Contract, qv_contract_size = Some cs, qv_usd = fmul n cs\<rparr>"
  by (simp_all add: build_qty_value_def QtyValue_def unit_of_def)

lemma build_oi_value_contract:
  "build_oi_value n (unit_name Contract) (Some cs) cc ct
     = Inr \<lparr>ov_native = n, ov_unit = Contract, ov_contract_size = Some cs, ov_usd = Some (fmul n cs),
           ov_usd_basis = \<lparr>ub_method = ByContractSize, ub_close = None, ub_close_ts = None\<rparr>\<rparr>"
  by (simp add: build_oi_value_def OiValue_def UsdBasis_def unit_of_def)

lemma build_oi_value_base:
  "build_oi_value n (unit_name Base) c (Some x) (Some t)
     = Inr \<lparr>ov_native = n, ov_unit = Base, ov_contract_size = None, ov_usd = Some (fmul n x),
           ov_usd_basis = \<lparr>ub_method = ByCandleClose, ub_close = Some x, ub_close_ts = Some t\<rparr>\<rparr>"
  by (simp add: build_oi_value_def OiValue_def UsdBasis_def unit_of_def)

end
