(* ===== verification/BuilderLaws.thy ===== *)
theory BuilderLaws
  imports Builders
begin

text \<open>
  What the shared constructors of \<^verbatim>\<open>exchange_router/exchanges/base.py\<close> guarantee: timestamps and
  periods are read exactly, step sizes are the correctly rounded product of their decimal parts,
  and the candle join of open interest prices a row with the close of the candle that ends at
  its timestamp and never makes a successful read fail.
\<close>

section \<open>Reading digit strings\<close>

lemma char_lower_digit [simp]: "is_digit c \<Longrightarrow> char_lower c = c"
  by (auto simp: is_digit_def char_lower_def Let_def)

lemma lower_digits: "(\<forall>c\<in>set s. is_digit c) \<Longrightarrow> lower s = s"
  by (auto simp: lower_def intro!: map_idI)

lemma not_digit [simp]: "\<not> is_digit CHR ''e''" "\<not> is_digit CHR ''.''" "\<not> is_digit CHR ''i''" "\<not> is_digit CHR ''n''"
  by (simp_all add: is_digit_def)

lemma parse_decimal_digits:
  assumes "s \<noteq> []" "\<forall>c\<in>set s. is_digit c"
  shows "parse_decimal s = Some (digits_val s, 0)"
proof -
  have "split_once CHR ''e'' s = None" "split_once CHR ''.'' s = None"
    using assms(2) by (auto simp: split_once_None_iff)
  then show ?thesis
    using assms by (simp add: parse_decimal_def split_exponent_def lower_digits opt_group_def digit_group_digits)
qed

lemma parse_float_show_int:
  assumes "0 \<le> n" "n < 2 ^ 53"
  shows "parse_float (show_int n) = Some (Fin (of_int n))"
proof -
  have d: "\<forall>c\<in>set (show_nat n). is_digit c" by (auto dest: show_nat_digits)
  then have "strip (show_nat n) = show_nat n" by (auto intro: strip_none dest: digit_not_space)
  moreover have "show_nat n \<noteq> ''inf''" "show_nat n \<noteq> ''infinity''" "show_nat n \<noteq> ''nan''"
    using d by auto
  moreover have "round64 (of_int n) = Fin (of_int n)" using assms by (intro round64_int) simp
  ultimately show ?thesis
    using d assms(1) by (simp add: parse_float_def show_int_def split_sign_digits lower_digits
        parse_decimal_digits digits_val_show_nat pow10_def)
qed

section \<open>Periods and timestamps\<close>

text \<open>
  \<open>_period_to_ms\<close> reads back every period the adapters can write: a count followed by
  \<open>m\<close>, \<open>h\<close>, \<open>d\<close> or \<open>w\<close> is that many of the unit, in milliseconds.
\<close>

theorem period_to_ms_show:
  assumes "map_of PERIOD_MS u = Some scale" "0 \<le> n"
  shows "period_to_ms (show_int n @ [u]) = Some (n * scale)"
proof -
  have "show_int n \<noteq> []" by (simp add: show_int_def)
  then show ?thesis by (auto simp: period_to_ms_def parse_show_int assms(1) Suc_le_eq)
qed

lemma period_to_ms_show_witness: "period_to_ms (show_int 4 @ [CHR ''h'']) = Some (4 * 3600000)"
  by (rule period_to_ms_show) (simp_all add: PERIOD_MS_def)

text \<open>
  A timestamp in whole seconds normalises to the same milliseconds whether the venue sends
  it as an integer, a float or a decimal string, with no rounding by the float arithmetic; and a
  normalised timestamp is left alone by a second normalisation.
\<close>

theorem normalize_timestamp_seconds:
  assumes "0 \<le> n" "n < 100000000000"
  shows "normalize_timestamp from_iso (PInt n) = Inr (n * 1000)
    \<and> normalize_timestamp from_iso (PFloat (Fin (of_int n))) = Inr (n * 1000)
    \<and> normalize_timestamp from_iso (PStr (show_int n)) = Inr (n * 1000)
    \<and> (100000000000 \<le> n * 1000 \<longrightarrow> normalize_timestamp from_iso (PInt (n * 1000)) = Inr (n * 1000))"
proof -
  have "fmul (Fin (of_int n)) (Fin 1000) = Fin (of_int (n * 1000))"
    using assms round64_int [of "n * 1000"] by simp
  moreover have "trunc_rat (of_int (n * 1000)) = n * 1000"
    unfolding trunc_rat_def by (simp only: floor_of_int ceiling_of_int if_cancel)
  moreover have "parse_float (show_int n) = Some (Fin (of_int n))"
    using assms by (intro parse_float_show_int) simp_all
  ultimately show ?thesis
    using assms by (simp add: normalize_timestamp_def normalize_timestamp_num_def int_of_float_def del: fmul.simps of_int_mult)
qed

lemma normalize_timestamp_seconds_witness:
  "normalize_timestamp (\<lambda>_. None) (PStr (show_int 1700000000)) = Inr 1700000000000
    \<and> normalize_timestamp (\<lambda>_. None) (PInt 1700000000000) = Inr 1700000000000"
  using normalize_timestamp_seconds [of 1700000000 "\<lambda>_. None"] by simp

section \<open>Step sizes\<close>

lemma length_show_nat_le: "0 \<le> n \<Longrightarrow> n < 10 ^ k \<Longrightarrow> 0 < k \<Longrightarrow> length (show_nat n) \<le> k"
proof (induction k arbitrary: n)
  case (Suc k)
  show ?case
  proof (cases "n < 10")
    case False
    then have "n div 10 < 10 ^ k" "0 < k" using Suc.prems by (auto intro: gr0I)
    then show ?thesis using Suc.IH [of "n div 10"] False Suc.prems by (simp add: show_nat.simps [of n])
  qed (simp add: show_nat.simps [of n])
qed simp

lemma dec_fix_exact:
  assumes "0 < c" "c < 10 ^ 28" "\<bar>e\<bar> \<le> 900000"
  shows "dec_fix c e = Some (c, e)"
proof -
  have d: "count_digits c \<le> 28" using assms length_show_nat_le [of c 28] by (simp add: count_digits_def)
  then have "\<not> e < max (count_digits c + e - 28) (- 1000026)" "\<not> 999972 < count_digits c + e - 28"
    using assms(3) by auto
  then show ?thesis using assms(1) by (simp add: dec_fix_def Let_def)
qed

lemma dec_prod_exact:
  assumes "list_all2 (\<lambda>p (c, e). dec_of_string p = Some (DFin c e) \<and> 0 < c) parts cs"
    "0 < c0" "c0 * prod_list (map fst cs) < 10 ^ 28" "\<bar>e0\<bar> + sum_list (map (\<lambda>(c, e). \<bar>e\<bar>) cs) \<le> 900000"
  shows "dec_prod (DFin c0 e0) parts = Some (DFin (c0 * prod_list (map fst cs)) (e0 + sum_list (map snd cs)))"
  using assms
proof (induction parts cs arbitrary: c0 e0 rule: list_all2_induct)
  case (Cons p ps ce cs)
  obtain c e where ce: "ce = (c, e)" by force
  have pos: "0 < prod_list (map fst cs)" using Cons.hyps(2)
    by (induction rule: list_all2_induct) auto
  have s: "0 \<le> sum_list (map (\<lambda>(c, e). \<bar>e\<bar>) cs)" by (rule sum_list_nonneg) auto
  have c: "0 < c0 * c" using Cons.hyps Cons.prems ce by simp
  have "c0 * c * 1 \<le> c0 * c * prod_list (map fst cs)" using pos c by (intro mult_left_mono) auto
  then have "c0 * c < 10 ^ 28" using Cons.prems(2) by (simp add: ce mult.assoc)
  moreover have "\<bar>e0 + e\<bar> \<le> 900000"
    using Cons.prems(3) s abs_triangle_ineq [of e0 e] unfolding ce by simp
  ultimately have "dec_fix (c0 * c) (e0 + e) = Some (c0 * c, e0 + e)" using c by (intro dec_fix_exact)
  moreover have "dec_prod (DFin (c0 * c) (e0 + e)) ps =
      Some (DFin (c0 * c * prod_list (map fst cs)) (e0 + e + sum_list (map snd cs)))"
    using Cons.prems c by (intro Cons.IH) (auto simp: ce mult.assoc)
  ultimately show ?case using Cons.hyps(1) by (simp add: ce mult.assoc add.assoc)
qed simp

lemma build_step_positive:
  assumes "build_step parts = Some v"
  shows "\<exists>q. v = Fin q \<and> 0 < q"
  using assms
  by (auto simp: build_step_def build_step_str_def bind_eq_Some_conv is_finite_def fle_def
      split: if_splits pyfloat.splits)

text \<open>
  C17. \<open>build_step\<close> is correctly rounded: for positive decimal parts whose coefficients
  multiply to at most 28 digits, the step is the exact product of the parts rounded once to a
  float (\<open>0.1 * 3\<close> gives \<open>0.3\<close>, where float arithmetic would not), and \<open>None\<close> exactly when that
  float is not positive and finite.
\<close>

theorem build_step_correctly_rounded:
  assumes "list_all2 (\<lambda>p (c, e). dec_of_string (py_str p) = Some (DFin c e) \<and> 0 < c) parts cs"
    "prod_list (map fst cs) < 10 ^ 28" "sum_list (map (\<lambda>(c, e). \<bar>e\<bar>) cs) \<le> 900000"
  shows "build_step parts = (let v = round64 (of_int (prod_list (map fst cs)) * pow10 (sum_list (map snd cs)))
    in if is_finite v \<and> flt (Fin 0) v then Some v else None)"
proof -
  have "dec_prod (DFin 1 0) (map py_str parts) = Some (DFin (prod_list (map fst cs)) (sum_list (map snd cs)))"
    using assms dec_prod_exact [of "map py_str parts" cs 1 0] by (simp add: list.rel_map)
  then show ?thesis
    by (auto simp: build_step_def build_step_str_def is_finite_def fle_def Let_def split: pyfloat.splits)
qed

lemma build_step_correctly_rounded_witness:
  "build_step [PStr ''0.1'', PInt 3] = (let v = round64 (of_int 3 * pow10 (- 1))
    in if is_finite v \<and> flt (Fin 0) v then Some v else None)"
proof -
  have "list_all2 (\<lambda>p (c, e). dec_of_string (py_str p) = Some (DFin c e) \<and> 0 < c) [PStr ''0.1'', PInt 3] [(1, - 1), (3, 0)]"
    by code_simp
  from build_step_correctly_rounded [OF this] show ?thesis by simp
qed

section \<open>The candle join of open interest\<close>

text \<open>The row \<open>r'\<close> is \<open>r\<close> priced with the close of a finished candle that ends at its timestamp.\<close>

definition repriced :: "int \<Rightarrow> candle list \<Rightarrow> open_interest \<Rightarrow> open_interest \<Rightarrow> bool" where
  "repriced period_ms candles r r' \<longleftrightarrow> (\<exists>c\<in>set (butlast candles). \<exists>v.
     cd_timestamp c + period_ms = oi_timestamp r \<and> r' = r\<lparr>oi_open_interest := v\<rparr> \<and> oi_value_ok v
     \<and> ov_native v = ov_native (oi_open_interest r) \<and> ov_unit v = ov_unit (oi_open_interest r)
     \<and> (ov_unit v = Base \<longrightarrow> ov_usd v = Some (fmul (ov_native v) (cd_close c)) \<and>
          ov_usd_basis v = \<lparr>ub_method = ByCandleClose, ub_close = Some (cd_close c), ub_close_ts = Some (oi_timestamp r)\<rparr>)
     \<and> (ov_unit v = Contract \<longrightarrow> (\<exists>cs. ov_contract_size v = Some cs \<and>
          ov_contract_size (oi_open_interest r) = Some cs \<and> ov_usd v = Some (fmul (ov_native v) cs))))"

lemma close_by_close_ts_Some:
  "dget (close_by_close_ts p cs) t = Some x \<Longrightarrow> \<exists>c\<in>set (butlast cs). cd_timestamp c + p = t \<and> x = cd_close c"
  by (auto simp: close_by_close_ts_def dget_dict_of dest!: map_of_SomeD split: option.splits)

lemma close_by_close_ts_None:
  "dget (close_by_close_ts p cs) t = None \<longleftrightarrow> (\<forall>c\<in>set (butlast cs). cd_timestamp c + p \<noteq> t)"
  unfolding close_by_close_ts_def dget_None_iff dkeys_dict_of by (force simp: dkeys_def)

lemma join_row_unchanged:
  assumes "\<forall>c\<in>set (butlast cs). cd_timestamp c + p \<noteq> oi_timestamp r"
  shows "join_row (close_by_close_ts p cs) r = Inr r"
  using assms close_by_close_ts_None [of p cs "oi_timestamp r"] by (simp add: join_row_def)

lemma join_row_repriced:
  assumes ok: "oi_value_ok (oi_open_interest r)"
    and ex: "\<exists>c\<in>set (butlast cs). cd_timestamp c + p = oi_timestamp r"
  shows "\<exists>r'. join_row (close_by_close_ts p cs) r = Inr r' \<and> repriced p cs r r'"
proof -
  obtain x where x: "dget (close_by_close_ts p cs) (oi_timestamp r) = Some x"
    using ex close_by_close_ts_None [of p cs "oi_timestamp r"] by fastforce
  obtain c where c: "c \<in> set (butlast cs)" "cd_timestamp c + p = oi_timestamp r" "x = cd_close c"
    using close_by_close_ts_Some [OF x] by blast
  define v where "v = oi_open_interest r"
  obtain v' where v': "build_oi_value (ov_native v) (unit_name (ov_unit v)) (ov_contract_size v) (Some x) (Some (oi_timestamp r)) = Inr v'"
    and props: "ov_native v' = ov_native v" "ov_unit v' = ov_unit v"
      "ov_unit v = Base \<longrightarrow> ov_usd v' = Some (fmul (ov_native v) x) \<and>
         ov_usd_basis v' = \<lparr>ub_method = ByCandleClose, ub_close = Some x, ub_close_ts = Some (oi_timestamp r)\<rparr>"
      "ov_unit v = Contract \<longrightarrow> (\<exists>k. ov_contract_size v' = Some k \<and> ov_contract_size v = Some k \<and>
         ov_usd v' = Some (fmul (ov_native v) k))"
  proof (cases "ov_unit v")
    case Base
    note eq = build_oi_value_base [of "ov_native v" "ov_contract_size v" x "oi_timestamp r"]
    show ?thesis by (rule that [OF eq [folded Base]]) (simp_all add: Base)
  next
    case Contract
    then obtain k where "ov_contract_size v = Some k" using ok by (auto simp: oi_value_ok_def v_def)
    then have "build_oi_value (ov_native v) (unit_name (ov_unit v)) (ov_contract_size v) (Some x) (Some (oi_timestamp r))
        = Inr \<lparr>ov_native = ov_native v, ov_unit = Contract, ov_contract_size = Some k, ov_usd = Some (fmul (ov_native v) k),
           ov_usd_basis = \<lparr>ub_method = ByContractSize, ub_close = None, ub_close_ts = None\<rparr>\<rparr>"
      using Contract build_oi_value_contract by simp
    from that [OF this] show ?thesis using Contract \<open>ov_contract_size v = Some k\<close> by simp
  qed
  have "join_row (close_by_close_ts p cs) r = Inr (r\<lparr>oi_open_interest := v'\<rparr>)"
    using x v' by (simp add: join_row_def Let_def v_def)
  moreover have "repriced p cs r (r\<lparr>oi_open_interest := v'\<rparr>)"
    unfolding repriced_def using c props build_oi_value_ok [OF v'] by (intro bexI [of _ c] exI [of _ v']) (auto simp: v_def)
  ultimately show ?thesis by blast
qed

lemma mapr_total:
  assumes "\<forall>x\<in>set xs. \<exists>y. f x = Inr y \<and> P x y"
  shows "\<exists>ys. mapr f xs = Inr ys \<and> list_all2 P xs ys"
  using assms by (induction xs) auto

text \<open>
  C15. On a linear market the candle join reprices exactly the rows at whose timestamp a finished
  candle ends: such a row keeps its native amount and unit and gets the dollar value at that
  candle's close (or its contract size), every other row is returned as it was. The newest,
  still open candle is never used.
\<close>

theorem join_open_interest_basis_spec:
  assumes rows: "\<forall>r\<in>set rows. oi_value_ok (oi_open_interest r)"
    and candles: "get_candles symbol period start (lim' + 1) = Inr candles" "2 \<le> length candles"
    and period: "period_to_ms period = Some ms"
  shows "\<exists>out. join_open_interest_basis get_candles Linear symbol period start lim' rows = Inr out \<and>
    list_all2 (\<lambda>r r'. if \<exists>c\<in>set (butlast candles). cd_timestamp c + ms = oi_timestamp r
       then repriced ms candles r r' else r' = r) rows out"
proof (cases "rows = []")
  case False
  then have "join_open_interest_basis get_candles Linear symbol period start lim' rows
      = mapr (join_row (close_by_close_ts ms candles)) rows"
    using candles period by (simp add: join_open_interest_basis_def)
  moreover have "\<exists>r'. join_row (close_by_close_ts ms candles) r = Inr r' \<and>
      (if \<exists>c\<in>set (butlast candles). cd_timestamp c + ms = oi_timestamp r
       then repriced ms candles r r' else r' = r)" if "r \<in> set rows" for r
    using that rows join_row_repriced [of r candles ms] join_row_unchanged [of candles ms r] by auto
  ultimately show ?thesis by (simp add: mapr_total)
qed (simp add: join_open_interest_basis_def)

definition sample_candle :: "int \<Rightarrow> rat \<Rightarrow> candle" where
  "sample_candle t c = \<lparr>cd_symbol = ''BTCUSDT'', cd_market_type = Linear, cd_quote = ''USDT'', cd_interval = ''1h'',
     cd_timestamp = t, cd_open = Fin c, cd_high = Fin c, cd_low = Fin c, cd_close = Fin c,
     cd_volume = \<lparr>vv_native = Fin 1, vv_unit = Base, vv_contract_size = None, vv_usd = Fin c,
       vv_usd_basis = \<lparr>ub_method = ByClose, ub_close = None, ub_close_ts = None\<rparr>\<rparr>\<rparr>"

definition sample_oi :: "int \<Rightarrow> open_interest" where
  "sample_oi t = \<lparr>oi_symbol = ''BTCUSDT'', oi_market_type = Linear, oi_quote = ''USDT'', oi_interval = ''1h'',
     oi_open_interest = \<lparr>ov_native = Fin 2, ov_unit = Base, ov_contract_size = None, ov_usd = None,
       ov_usd_basis = \<lparr>ub_method = ByCandleClose, ub_close = None, ub_close_ts = None\<rparr>\<rparr>,
     oi_timestamp = t\<rparr>"

lemma join_open_interest_basis_spec_witness:
  "\<exists>out. join_open_interest_basis (\<lambda>_ _ _ _. Inr [sample_candle 0 7, sample_candle 3600000 8]) Linear
      ''BTCUSDT'' ''1h'' None 2 [sample_oi 0, sample_oi 3600000] = Inr out \<and>
    list_all2 (\<lambda>r r'. if \<exists>c\<in>set (butlast [sample_candle 0 7, sample_candle 3600000 8]). cd_timestamp c + 3600000 = oi_timestamp r
       then repriced 3600000 [sample_candle 0 7, sample_candle 3600000 8] r r' else r' = r) [sample_oi 0, sample_oi 3600000] out"
  by (rule join_open_interest_basis_spec) (simp_all add: sample_oi_def oi_value_ok_def usd_basis_ok_def, code_simp)

lemma list_all2_same_maps:
  "list_all2 (\<lambda>x y. a y = a x \<and> b y = b x \<and> P y) xs ys \<Longrightarrow> map a ys = map a xs \<and> map b ys = map b xs \<and> Ball (set ys) P"
  by (induction xs ys rule: list_all2_induct) simp_all

text \<open>
  The candle join never turns an open interest read into an error: whatever the candle fetch
  returns or raises (cancellation apart), it returns one valid row per input row, in the same
  order and with the same timestamps and native amounts.
\<close>

theorem join_open_interest_basis_total:
  assumes rows: "\<forall>r\<in>set rows. oi_value_ok (oi_open_interest r)"
    and "get_candles symbol period start (n + 1) \<noteq> Inl CancelledError"
  shows "\<exists>out. join_open_interest_basis get_candles mt symbol period start n rows = Inr out
    \<and> map oi_timestamp out = map oi_timestamp rows
    \<and> map (\<lambda>r. ov_native (oi_open_interest r)) out = map (\<lambda>r. ov_native (oi_open_interest r)) rows
    \<and> (\<forall>r\<in>set out. oi_value_ok (oi_open_interest r))"
proof -
  have exc: "e \<noteq> CancelledError \<Longrightarrow> is_exception e" for e by (cases e) auto
  let ?same = "\<lambda>r r'. oi_timestamp r' = oi_timestamp r \<and>
    ov_native (oi_open_interest r') = ov_native (oi_open_interest r) \<and> oi_value_ok (oi_open_interest r')"
  have row: "\<exists>r'. join_row (close_by_close_ts p cs) r = Inr r' \<and> ?same r r'" if "r \<in> set rows" for r p cs
    using that rows join_row_repriced [of r cs p] join_row_unchanged [of cs p r]
    by (cases "\<exists>c\<in>set (butlast cs). cd_timestamp c + p = oi_timestamp r") (auto simp: repriced_def)
  let ?join = "join_open_interest_basis get_candles mt symbol period start n rows"
  have joined: "\<exists>out. mapr (join_row (close_by_close_ts p cs)) rows = Inr out \<and> list_all2 ?same rows out" for p cs
    using row by (intro mapr_total) blast
  have same: "list_all2 ?same rows rows" using rows by (simp add: list_all2_same)
  have "?join = Inr rows \<or> (\<exists>p cs. ?join = mapr (join_row (close_by_close_ts p cs)) rows)"
  proof (cases "get_candles symbol period start (n + 1)")
    case (Inl e)
    with assms(2) show ?thesis by (simp add: join_open_interest_basis_def exc)
  next
    case (Inr cs)
    then show ?thesis unfolding join_open_interest_basis_def Let_def by (simp, blast)
  qed
  then consider "?join = Inr rows" | p cs where "?join = mapr (join_row (close_by_close_ts p cs)) rows" by blast
  then obtain out where out: "?join = Inr out" "list_all2 ?same rows out"
  proof cases
    case 1
    from that [OF 1 same] show ?thesis .
  next
    case 2
    from joined [of p cs] show ?thesis using that unfolding 2 by blast
  qed
  show ?thesis
    using list_all2_same_maps [of oi_timestamp "\<lambda>r. ov_native (oi_open_interest r)"
        "\<lambda>r. oi_value_ok (oi_open_interest r)", OF out(2)] out(1) by blast
qed

lemma join_open_interest_basis_total_witness:
  "\<exists>out. join_open_interest_basis (\<lambda>_ _ _ _. Inl (TransportError ''down'')) Linear ''BTCUSDT'' ''1h'' None 2 [sample_oi 0] = Inr out
    \<and> map oi_timestamp out = [0]"
proof -
  have "\<forall>r\<in>set [sample_oi 0]. oi_value_ok (oi_open_interest r)"
    by (simp add: sample_oi_def oi_value_ok_def usd_basis_ok_def)
  from join_open_interest_basis_total [OF this, of "\<lambda>_ _ _ _. Inl (TransportError ''down'')" "''BTCUSDT''" "''1h''" None 2 Linear]
  show ?thesis by (auto simp: sample_oi_def)
qed

end
