(* ===== verification/Pagination.thy ===== *)
theory Pagination
  imports Prelude "HOL-Library.Multiset" "HOL-Library.Sublist"
begin

text \<open>
  \<open>BaseExchange._paginate_backwards\<close> of \<^verbatim>\<open>exchange_router/exchanges/base.py\<close>, the loop behind
  every historical route: it walks back from the newest page, an inclusive upper bound at a
  time, drops rows it has seen and stops after 100 requests. The page source is the world
  passing function \<open>fetch\<close>; \<open>ts\<close> reads a row's timestamp and \<open>dump\<close> its JSON text.

  The main result compares the loop with a venue that keeps a history and serves, for a bound,
  the newest rows not after it: the loop returns the newest \<open>total_limit\<close> rows of that history.
\<close>

section \<open>The loop\<close>

fun dedup :: "('r \<Rightarrow> 'k) \<Rightarrow> 'k set \<Rightarrow> 'r list \<Rightarrow> 'r list \<times> 'k set" where
  "dedup dump seen [] = ([], seen)"
| "dedup dump seen (x # xs) =
     (if dump x \<in> seen then dedup dump seen xs
      else let (ys, seen') = dedup dump (insert (dump x) seen) xs in (x # ys, seen'))"

fun pagination_stops :: "pyexc \<Rightarrow> bool" where
  "pagination_stops (HTTPStatusError _ _) = True"
| "pagination_stops e = is_value_error e"

definition max_requests :: nat where "max_requests = 100"

text \<open>The first argument counts the requests that are left.\<close>

fun pages :: "nat \<Rightarrow> (int option \<Rightarrow> int \<Rightarrow> 'w \<Rightarrow> 'r list res \<times> 'w) \<Rightarrow> ('r \<Rightarrow> int) \<Rightarrow> ('r \<Rightarrow> 'k) \<Rightarrow> int \<Rightarrow> int \<Rightarrow>
    'r list list \<Rightarrow> 'k set \<Rightarrow> int \<Rightarrow> int option \<Rightarrow> 'w \<Rightarrow> 'r list list res \<times> 'w" where
  "pages 0 fetch ts dump wanted per_req chunks seen collected current_end w = (Inr chunks, w)"
| "pages (Suc n) fetch ts dump wanted per_req chunks seen collected current_end w =
     (if \<not> collected < wanted then (Inr chunks, w)
      else case fetch current_end per_req w of
        (Inl e, w') \<Rightarrow> (if pagination_stops e then (Inr chunks, w') else (Inl e, w'))
      | (Inr batch, w') \<Rightarrow>
          if batch = [] then (Inr chunks, w')
          else
            let sorted_batch = sort_key ts batch;
                (new_items, seen') = dedup dump seen sorted_batch
            in if new_items = [] then (Inr chunks, w')
               else
                 let next_end = ts (hd sorted_batch);
                     chunks' = chunks @ [new_items]
                 in if next_end \<le> 0 \<or> (case current_end of None \<Rightarrow> False | Some c \<Rightarrow> c \<le> next_end)
                    then (Inr chunks', w')
                    else pages n fetch ts dump wanted per_req chunks' seen'
                           (collected + int (length new_items)) (Some next_end) w')"

definition paginate_backwards ::
  "(int option \<Rightarrow> int \<Rightarrow> 'w \<Rightarrow> 'r list res \<times> 'w) \<Rightarrow> ('r \<Rightarrow> int) \<Rightarrow> ('r \<Rightarrow> 'k) \<Rightarrow> int \<Rightarrow> int \<Rightarrow> 'w \<Rightarrow> 'r list res \<times> 'w" where
  "paginate_backwards fetch ts dump total_limit limit_per_req w =
     (case pages max_requests fetch ts dump total_limit limit_per_req [] {} 0 None w of
        (Inl e, w') \<Rightarrow> (Inl e, w')
      | (Inr chunks, w') \<Rightarrow> (Inr (slice_last total_limit (sort_key ts (concat (rev chunks)))), w'))"

section \<open>Whatever the page source does\<close>

lemma dedup_spec:
  assumes "dedup dump seen xs = (ys, seen')"
  shows "seen' = seen \<union> dump ` set ys" "set ys \<subseteq> set xs" "distinct (map dump ys)"
    "dump ` set ys \<inter> seen = {}"
  using assms
proof (induction dump seen xs arbitrary: ys seen' rule: dedup.induct)
  case (2 dump seen x xs)
  { case 1 with 2 show ?case by (auto split: if_splits prod.splits) }
  { case 2 with "2.IH" show ?case by (force split: if_splits prod.splits) }
  { case 3 with "2.IH" show ?case by (force split: if_splits prod.splits) }
  { case 4 with "2.IH" show ?case by (force split: if_splits prod.splits) }
qed auto

definition chunks_ok :: "('r \<Rightarrow> 'k) \<Rightarrow> ('r \<Rightarrow> bool) \<Rightarrow> 'r list list \<Rightarrow> 'k set \<Rightarrow> bool" where
  "chunks_ok dump P chunks seen \<longleftrightarrow>
     distinct (map dump (concat (rev chunks))) \<and> seen = dump ` set (concat chunks) \<and> Ball (set (concat chunks)) P"

lemma chunks_ok_snoc:
  assumes "chunks_ok dump P chunks seen" "dedup dump seen xs = (ys, seen')" "\<forall>x\<in>set xs. P x"
  shows "chunks_ok dump P (chunks @ [ys]) seen'"
  using assms dedup_spec [OF assms(2)] by (auto simp: chunks_ok_def)

lemma pages_chunks_ok:
  assumes "\<And>e n w rows w'. fetch e n w = (Inr rows, w') \<Longrightarrow> \<forall>x\<in>set rows. P x"
  shows "chunks_ok dump P chunks seen \<Longrightarrow>
     pages m fetch ts dump wanted per chunks seen col cur w = (Inr out, w') \<Longrightarrow>
     distinct (map dump (concat (rev out))) \<and> Ball (set (concat out)) P"
proof (induction m arbitrary: chunks seen col cur w)
  case 0
  then show ?case by (auto simp: chunks_ok_def)
next
  case (Suc m)
  show ?case
  proof (cases "col < wanted")
    case False
    with Suc.prems show ?thesis by (auto simp: chunks_ok_def)
  next
    case True
    obtain r w1 where f: "fetch cur per w = (r, w1)" by force
    show ?thesis
    proof (cases r)
      case (Inl e)
      with True f Suc.prems show ?thesis by (auto simp: chunks_ok_def split: if_splits)
    next
      case (Inr batch)
      obtain ys seen' where d: "dedup dump seen (sort_key ts batch) = (ys, seen')" by force
      have ok: "chunks_ok dump P (chunks @ [ys]) seen'"
        using chunks_ok_snoc [OF Suc.prems(1) d] assms [OF f [unfolded Inr]] by simp
      have "out = chunks \<or> out = chunks @ [ys] \<or>
          (\<exists>c e. pages m fetch ts dump wanted per (chunks @ [ys]) seen' c e w1 = (Inr out, w'))"
        using Suc.prems(2) True by (simp add: f Inr d Let_def split: if_splits) blast+
      then show ?thesis
        using Suc.prems(1) ok Suc.IH [OF ok] by (auto simp: chunks_ok_def simp del: set_concat)
    qed
  qed
qed

text \<open>
  C31. Whatever the page source returns or raises, the rows that come back are in timestamp
  order, no two of them have the same JSON text, there are at most \<open>total_limit\<close> of them, and
  every one was served by the source.
\<close>

theorem paginate_backwards_sound:
  assumes "\<And>e n w rows w'. fetch e n w = (Inr rows, w') \<Longrightarrow> \<forall>x\<in>set rows. P x"
    and "paginate_backwards fetch ts dump total_limit per w = (Inr out, w')"
  shows "sorted (map ts out) \<and> distinct (map dump out) \<and> (0 < total_limit \<longrightarrow> int (length out) \<le> total_limit)
    \<and> (\<forall>x\<in>set out. P x)"
proof -
  obtain chunks where c: "pages max_requests fetch ts dump total_limit per [] {} 0 None w = (Inr chunks, w')"
    and out: "out = slice_last total_limit (sort_key ts (concat (rev chunks)))"
    using assms(2) by (auto simp: paginate_backwards_def split: prod.splits sum.splits)
  let ?all = "sort_key ts (concat (rev chunks))"
  have ok: "distinct (map dump (concat (rev chunks)))" "Ball (set (concat chunks)) P"
    using pages_chunks_ok [OF assms(1) _ c] by (auto simp: chunks_ok_def)
  have "mset (map dump ?all) = mset (map dump (concat (rev chunks)))" by simp
  then have "distinct (map dump ?all)" using ok(1) by (metis mset_eq_imp_distinct_iff)
  then have "distinct (map dump out)"
    by (auto simp: out distinct_map intro: distinct_slice_last inj_on_subset [OF _ set_slice_last])
  moreover have "sorted (map ts out)" by (simp add: out sorted_slice_last)
  moreover have "\<forall>x\<in>set out. P x" using ok(2) set_slice_last [of total_limit ?all] by (auto simp: out)
  moreover have "0 < total_limit \<longrightarrow> int (length out) \<le> total_limit"
    by (auto simp: out slice_last_def)
  ultimately show ?thesis by blast
qed

section \<open>A venue that keeps a history\<close>

text \<open>
  \<open>venue_page\<close> is what the historical endpoints document: the newest \<open>n\<close> rows not after the
  bound, of a history in timestamp order. The order inside the page is left open, since some
  venues serve newest first.
\<close>

definition venue_page :: "('r \<Rightarrow> int) \<Rightarrow> 'r list \<Rightarrow> int option \<Rightarrow> int \<Rightarrow> 'r list" where
  "venue_page ts hist until n =
     take_last (nat n) (filter (\<lambda>r. case until of None \<Rightarrow> True | Some e \<Rightarrow> ts r \<le> e) hist)"

definition serves :: "(int option \<Rightarrow> int \<Rightarrow> 'w \<Rightarrow> 'r list res \<times> 'w) \<Rightarrow> ('r \<Rightarrow> int) \<Rightarrow> 'r list \<Rightarrow> bool" where
  "serves fetch ts hist \<longleftrightarrow> (\<forall>until n w. \<exists>rows w'.
     fetch until n w = (Inr rows, w') \<and> mset rows = mset (venue_page ts hist until n))"

definition history :: "('r \<Rightarrow> int) \<Rightarrow> ('r \<Rightarrow> 'k) \<Rightarrow> 'r list \<Rightarrow> bool" where
  "history ts dump hist \<longleftrightarrow> sorted (map ts hist) \<and> distinct (map ts hist) \<and> inj_on dump (set hist)
     \<and> (\<forall>r\<in>set hist. 0 < ts r)"

lemma history_less_iff:
  assumes "history ts dump hist" "i < length hist" "j < length hist"
  shows "ts (hist ! i) \<le> ts (hist ! j) \<longleftrightarrow> i \<le> j"
proof -
  have "sorted_wrt (<) (map ts hist)"
    using assms(1) by (simp add: history_def strict_sorted_iff)
  then have "ts (hist ! a) < ts (hist ! b)" if "a < b" "b < length hist" for a b
    using that by (auto simp: sorted_wrt_iff_nth_less)
  then show ?thesis using assms(2,3) by (metis leD leI nat_less_le order_less_imp_le)
qed

lemma filter_until_take:
  assumes "history ts dump hist" "j < length hist"
  shows "filter (\<lambda>r. ts r \<le> ts (hist ! j)) hist = take (Suc j) hist"
proof -
  have "filter (\<lambda>r. ts r \<le> ts (hist ! j)) (take (Suc j) hist) = take (Suc j) hist"
    using assms history_less_iff [OF assms(1)] by (auto simp: filter_id_conv in_set_conv_nth)
  moreover have "filter (\<lambda>r. ts r \<le> ts (hist ! j)) (drop (Suc j) hist) = []"
    using assms history_less_iff [OF assms(1)] by (auto simp: filter_empty_conv in_set_conv_nth)
  ultimately show ?thesis by (metis append.right_neutral append_take_drop_id filter_append)
qed

lemma sort_page:
  assumes "history ts dump hist" "mset rows = mset page" "sublist page hist"
  shows "sort_key ts rows = page"
proof -
  obtain a b where h: "hist = a @ page @ b" using assms(3) by (auto simp: sublist_def)
  have "sorted (map ts page)" "distinct (map ts page)"
    using assms(1) by (auto simp: history_def h sorted_append)
  moreover have "inj_on ts (set rows)"
    using assms(2) calculation(2) by (auto simp: distinct_map dest: mset_eq_setD)
  ultimately show ?thesis using assms(2) by (intro sort_key_inj_key_eq) auto
qed

lemma dedup_new: "distinct (map dump xs) \<Longrightarrow> dump ` set xs \<inter> seen = {} \<Longrightarrow>
    dedup dump seen xs = (xs, seen \<union> dump ` set xs)"
  by (induction xs arbitrary: seen) auto

lemma dedup_append: "dedup dump seen (xs @ ys) =
    (let (a, s) = dedup dump seen xs; (b, t) = dedup dump s ys in (a @ b, t))"
  by (induction dump seen xs rule: dedup.induct) (auto split: prod.splits)

lemma take_last_split: "c + d \<le> length xs \<Longrightarrow>
    take_last d (take (length xs - c) xs) @ take_last c xs = take_last (d + c) xs"
  by (simp add: take_last_def)
     (metis (no_types, lifting) append_take_drop_id diff_diff_left add.commute drop_append drop_take
        le_add_diff_inverse diff_le_self length_take min.absorb2 diff_is_0_eq' drop0)

lemma hd_take_last: "0 < c \<Longrightarrow> c \<le> length xs \<Longrightarrow> hd (take_last c xs) = xs ! (length xs - c)"
  by (simp add: take_last_def hd_drop_conv_nth)

lemma dedup_page:
  assumes "history ts dump hist" "c \<le> length hist" "0 < c"
    and page: "page = xs @ [hist ! (length hist - c)]" "set xs \<subseteq> set (take (length hist - c) hist)" "distinct xs"
  shows "dedup dump (dump ` set (take_last c hist)) page
    = (xs, dump ` set (take_last c hist) \<union> dump ` set xs)"
proof -
  let ?j = "length hist - c"
  have split: "hist = take ?j hist @ take_last c hist" by (simp add: take_last_def)
  have inj: "inj_on dump (set hist)" and dist: "distinct hist"
    using assms(1) by (auto simp: history_def distinct_map)
  have "set (take ?j hist) \<inter> set (take_last c hist) = {}"
    using dist split by (metis distinct_append)
  moreover have sub: "set xs \<subseteq> set hist" "set (take_last c hist) \<subseteq> set hist"
    using page(2) set_take_subset set_take_last by fastforce+
  ultimately have "dump ` set xs \<inter> dump ` set (take_last c hist) = {}"
    using page(2) inj by (force simp: inj_on_def)
  moreover have "distinct (map dump xs)"
    using page(3) inj sub by (auto simp: distinct_map intro: inj_on_subset)
  ultimately have new: "dedup dump (dump ` set (take_last c hist)) xs
      = (xs, dump ` set (take_last c hist) \<union> dump ` set xs)" by (intro dedup_new) auto
  have "hist ! ?j \<in> set (take_last c hist)"
    using assms(2,3) by (metis hd_take_last hd_in_set length_take_last length_greater_0_conv min.absorb1)
  then show ?thesis by (simp add: page(1) dedup_append new)
qed

lemma sublist_take_last_take: "sublist (take_last n (take k xs)) xs"
proof -
  have "xs = take (length (take k xs) - n) (take k xs) @ take_last n (take k xs) @ drop k xs"
    by (metis append.assoc append_take_drop_id take_last_def)
  then show ?thesis by (metis sublist_appendI)
qed

lemma venue_page_until:
  assumes "history ts dump hist" "c \<le> length hist" "0 < c" "1 \<le> per"
  shows "venue_page ts hist (Some (ts (hist ! (length hist - c)))) per
    = take_last (nat per - 1) (take (length hist - c) hist) @ [hist ! (length hist - c)]"
proof -
  let ?j = "length hist - c"
  have j: "?j < length hist" using assms by simp
  have "take (Suc ?j) hist = take ?j hist @ [hist ! ?j]" using j by (rule take_Suc_conv_app_nth)
  moreover have "1 \<le> nat per" using assms(4) by simp
  ultimately show ?thesis
    using filter_until_take [OF assms(1) j] by (simp add: venue_page_def take_last_append)
qed

lemma pages_venue:
  assumes hist: "history ts dump hist" and srv: "serves fetch ts hist" and per: "2 \<le> per"
  shows "1 \<le> c \<Longrightarrow> c \<le> length hist \<Longrightarrow> concat (rev chunks) = take_last c hist \<Longrightarrow>
     wanted \<le> int c + int m * (per - 1) \<or> c = length hist \<Longrightarrow>
     \<exists>out w' k. pages m fetch ts dump wanted per chunks (dump ` set (take_last c hist)) (int c)
        (Some (ts (hist ! (length hist - c)))) w = (Inr out, w')
        \<and> concat (rev out) = take_last k hist \<and> (wanted \<le> int k \<or> k = length hist)"
proof (induction m arbitrary: c chunks w)
  case 0
  then show ?case by (intro exI [of _ chunks] exI [of _ c]) auto
next
  case (Suc m)
  let ?j = "length hist - c" and ?seen = "dump ` set (take_last c hist)"
  let ?t = "ts (hist ! ?j)"
  show ?case
  proof (cases "int c < wanted")
    case False
    with Suc.prems show ?thesis by (intro exI [of _ chunks] exI [of _ c]) auto
  next
    case True
    define xs where "xs = take_last (nat per - 1) (take ?j hist)"
    define page where "page = venue_page ts hist (Some ?t) per"
    have page: "page = xs @ [hist ! ?j]"
      using venue_page_until [OF hist, of c per] Suc.prems per by (simp add: page_def xs_def)
    obtain rows w1 where f: "fetch (Some ?t) per w = (Inr rows, w1)" and rows: "mset rows = mset page"
      using srv unfolding serves_def page_def by blast
    have "sublist page hist"
    proof -
      have "?j < length hist" using Suc.prems by simp
      then show ?thesis
        by (simp add: page_def venue_page_def filter_until_take [OF hist] sublist_take_last_take)
    qed
    then have srt: "sort_key ts rows = page" by (rule sort_page [OF hist rows])
    have ne: "rows \<noteq> []" using rows page by auto
    have dd: "dedup dump ?seen page = (xs, ?seen \<union> dump ` set xs)"
    proof (rule dedup_page [OF hist _ _ page])
      show "set xs \<subseteq> set (take ?j hist)" by (simp add: xs_def set_take_last)
      show "distinct xs" using hist by (simp add: xs_def history_def distinct_map)
    qed (use Suc.prems in auto)
    have len: "length xs = min (nat per - 1) ?j" by (simp add: xs_def)
    show ?thesis
    proof (cases "xs = []")
      case True
      then have "c = length hist" using len per Suc.prems(2) by (auto simp: min_def split: if_splits)
      then show ?thesis
        using \<open>int c < wanted\<close> f ne srt dd True Suc.prems
        by (intro exI [of _ chunks] exI [of _ w1] exI [of _ c]) (simp add: Let_def)
    next
      case False
      define c' where "c' = length xs + c"
      have "xs = take_last (length xs) (take ?j hist)"
        by (simp add: len xs_def take_last_def min_def)
      then have whole: "xs @ take_last c hist = take_last c' hist"
        using take_last_split [of c "length xs" hist] len Suc.prems by (simp add: c'_def)
      have c': "1 \<le> c'" "c' \<le> length hist" using len Suc.prems by (auto simp: c'_def)
      have "hd xs = hist ! (length hist - c')"
        using hd_take_last [of c' hist] c' whole False by (metis hd_append2 less_le_trans zero_less_one)
      then have hd: "hd page = hist ! (length hist - c')" using False page by simp
      have "0 < length xs" using False by simp
      then have "length hist - c' < ?j" using c' unfolding c'_def by linarith
      then have lt: "ts (hd page) < ?t"
        using history_less_iff [OF hist, of ?j "length hist - c'"] c' Suc.prems by (simp add: hd not_le [symmetric])
      have pos: "0 < ts (hd page)" using hist c' by (auto simp: hd history_def)
      have cond: "wanted \<le> int c' + int m * (per - 1) \<or> c' = length hist"
        using Suc.prems(2,4) per len by (auto simp: c'_def min_def algebra_simps split: if_splits)
      have seen': "?seen \<union> dump ` set xs = dump ` set (take_last c' hist)"
        by (simp add: image_Un Un_commute flip: whole)
      have step: "pages (Suc m) fetch ts dump wanted per chunks ?seen (int c) (Some ?t) w
          = pages m fetch ts dump wanted per (chunks @ [xs]) (dump ` set (take_last c' hist)) (int c')
              (Some (ts (hist ! (length hist - c')))) w1"
        using True f ne srt dd False lt pos by (simp add: Let_def seen' hd, simp add: c'_def add.commute)
      show ?thesis unfolding step
        using c' cond by (intro Suc.IH) (simp_all add: Suc.prems(3) whole)
    qed
  qed
qed

lemma pages_done: "\<not> col < wanted \<Longrightarrow> pages n fetch ts dump wanted per chunks seen col cur w = (Inr chunks, w)"
  by (cases n) simp_all

lemma pages_no_rows: "fetch cur per w = (Inr [], w') \<Longrightarrow> 
    fst (pages n fetch ts dump wanted per chunks seen col cur w) = Inr chunks"
  by (cases n) simp_all

lemma sort_take_last:
  assumes "history ts dump hist" "mset rows = mset (take_last k hist)"
  shows "sort_key ts rows = take_last k hist"
  using sublist_take_last_take [of k "length hist" hist] assms by (intro sort_page) simp_all

lemma paginate_finish:
  assumes hist: "history ts dump hist"
    and "pages max_requests fetch ts dump total_limit per [] {} 0 None w = (Inr out, w')"
    and out: "concat (rev out) = take_last k hist" "total_limit \<le> int k \<or> k = length hist" "0 < total_limit"
  shows "paginate_backwards fetch ts dump total_limit per w = (Inr (take_last (nat total_limit) hist), w')"
proof -
  have "slice_last total_limit (take_last k hist) = take_last (nat total_limit) hist"
    using out(2,3) by (auto simp: slice_last_def take_last_take_last min_def)
  then show ?thesis
    using assms(2) out(1) by (simp add: paginate_backwards_def sort_take_last [OF hist])
qed

lemma pages_first:
  assumes hist: "history ts dump hist" and srv: "serves fetch ts hist"
    and c: "c = min (nat per) (length hist)" "1 \<le> c" and wanted: "0 < wanted"
  shows "\<exists>w1. pages (Suc m) fetch ts dump wanted per [] {} 0 None w
    = pages m fetch ts dump wanted per [take_last c hist] (dump ` set (take_last c hist)) (int c)
        (Some (ts (hist ! (length hist - c)))) w1"
proof -
  have cl: "c \<le> length hist" using c by simp
  have tl: "take_last (nat per) hist = take_last c hist" by (simp add: take_last_def c(1) min_def)
  obtain rows w1 where f: "fetch None per w = (Inr rows, w1)" and rows: "mset rows = mset (take_last c hist)"
    using srv unfolding serves_def venue_page_def tl [symmetric]
    by (metis (no_types, lifting) filter_True option.simps(4))
  have "distinct (map dump (take_last c hist))"
    using hist set_take_last [of c hist] by (auto simp: history_def distinct_map intro: inj_on_subset)
  then have dd: "dedup dump {} (take_last c hist) = (take_last c hist, dump ` set (take_last c hist))"
    by (simp add: dedup_new)
  have len: "length (take_last c hist) = c" using cl by simp
  then have ne: "take_last c hist \<noteq> []" using c(2) by (metis list.size(3) not_one_le_zero)
  then have "rows \<noteq> []" using rows by auto
  moreover have "hd (take_last c hist) = hist ! (length hist - c)" using c cl by (intro hd_take_last) auto
  moreover have "0 < ts (hist ! (length hist - c))" using hist c cl by (auto simp: history_def)
  ultimately show ?thesis
    using wanted f dd ne len sort_take_last [OF hist rows]
    by (intro exI [of _ w1]) (simp add: Let_def del: length_take_last)
qed

text \<open>
  C14. Against a venue that keeps a history of rows with distinct timestamps and serves pages of at
  least two of them, the pagination returns
  exactly the newest \<open>total_limit\<close> rows (or the whole history when it is shorter), oldest
  first: nothing is skipped or repeated at the page boundaries. The 100 request cap allows
  \<open>total_limit\<close> up to \<open>1 + 100 * (per - 1)\<close>, because consecutive pages share a row.
\<close>

theorem paginate_backwards_complete:
  assumes hist: "history ts dump hist" and srv: "serves fetch ts hist" and per: "2 \<le> per"
    and cap: "total_limit \<le> 1 + 100 * (per - 1)"
  shows "\<exists>w'. paginate_backwards fetch ts dump total_limit per w = (Inr (take_last (nat total_limit) hist), w')"
proof -
  have m: "max_requests = Suc 99" by (simp add: max_requests_def)
  consider "total_limit \<le> 0" | "0 < total_limit" "hist = []" | "0 < total_limit" "hist \<noteq> []" by fastforce
  then show ?thesis
  proof cases
    case 1
    then show ?thesis by (simp add: paginate_backwards_def pages_done slice_last_def take_last_def)
  next
    case 2
    obtain rows w1 where "fetch None per w = (Inr rows, w1)" "mset rows = mset (venue_page ts hist None per)"
      using srv unfolding serves_def by blast
    with 2 have "fst (pages max_requests fetch ts dump total_limit per [] {} 0 None w) = Inr []"
      by (intro pages_no_rows) (simp add: venue_page_def take_last_def)
    then obtain w2 where "pages max_requests fetch ts dump total_limit per [] {} 0 None w = (Inr [], w2)"
      by (metis prod.collapse)
    from paginate_finish [OF hist this, of 0] 2 show ?thesis by (auto simp: take_last_def)
  next
    case 3
    define c where "c = min (nat per) (length hist)"
    have c: "1 \<le> c" "c \<le> length hist" using 3 per by (auto simp: c_def Suc_le_eq)
    have "total_limit \<le> int c + int 99 * (per - 1) \<or> c = length hist"
      using cap per by (auto simp: c_def min_def)
    moreover obtain w1 where first: "pages (Suc 99) fetch ts dump total_limit per [] {} 0 None w
        = pages 99 fetch ts dump total_limit per [take_last c hist] (dump ` set (take_last c hist)) (int c)
            (Some (ts (hist ! (length hist - c)))) w1"
      using pages_first [OF hist srv c_def c(1) 3(1)] by blast
    ultimately obtain out w' k where
      "pages 99 fetch ts dump total_limit per [take_last c hist] (dump ` set (take_last c hist)) (int c)
         (Some (ts (hist ! (length hist - c)))) w1 = (Inr out, w')"
      and out: "concat (rev out) = take_last k hist" "total_limit \<le> int k \<or> k = length hist"
      using pages_venue [OF hist srv per c, of "[take_last c hist]" total_limit 99 w1] by auto
    then have "pages max_requests fetch ts dump total_limit per [] {} 0 None w = (Inr out, w')"
      unfolding m first by simp
    from paginate_finish [OF hist this out 3(1)] show ?thesis by (rule exI)
  qed
qed

definition ledger :: "int list \<Rightarrow> int option \<Rightarrow> int \<Rightarrow> unit \<Rightarrow> int list res \<times> unit" where
  "ledger hist until n w = (Inr (rev (venue_page (\<lambda>t. t) hist until n)), w)"

lemma set_ledger: "ledger hist until n w = (Inr rows, w') \<Longrightarrow> set rows \<subseteq> set hist"
  by (auto simp: ledger_def venue_page_def dest!: subsetD [OF set_take_last])

lemma paginate_backwards_sound_witness:
  "sorted [30, 40 :: int] \<and> distinct [30, 40 :: int] \<and> length [30, 40 :: int] \<le> 2 \<and> set [30, 40] \<subseteq> {10, 20, 30, 40 :: int}"
proof -
  have "\<forall>x\<in>set rows. x \<in> {10, 20, 30, 40}" if "ledger [10, 20, 30, 40] e n w = (Inr rows, w')" for e n w rows w'
    using set_ledger [OF that] by auto
  moreover have "paginate_backwards (ledger [10, 20, 30, 40]) (\<lambda>t. t) (\<lambda>t. t) 2 3 () = (Inr [30, 40], ())" by code_simp
  ultimately show ?thesis
    using paginate_backwards_sound [of "ledger [10, 20, 30, 40]" "\<lambda>x. x \<in> {10, 20, 30, 40}" "\<lambda>t. t" "\<lambda>t. t" 2 3 "()" "[30, 40]" "()"]
    by auto
qed

lemma paginate_backwards_complete_witness:
  "\<exists>w'. paginate_backwards (ledger [10, 20, 30, 40]) (\<lambda>t. t) (\<lambda>t. t) 3 2 ()
     = (Inr (take_last (nat 3) [10, 20, 30, 40]), w')"
  by (rule paginate_backwards_complete) (simp_all add: history_def serves_def ledger_def)

end
