(* ===== verification/Caches.thy ===== *)
theory Caches
  imports Models
begin

text \<open>
  The two refreshing caches of \<open>BaseExchange\<close> (\<^verbatim>\<open>exchange_router/exchanges/base.py\<close>): the instrument
  metadata of a market (\<open>_ensure_info_cache\<close>) and a margin tier table (\<open>_margin_table\<close>). Both
  keep a value for \<open>INFO_REFRESH_S\<close>, serve the old one when a refresh fails, and try again
  after \<open>INFO_RETRY_S\<close>. The locale \<open>refreshing\<close> states that contract once; both caches
  interpret it. Each runs under its own lock, so a call is one step of the model. Times are
  seconds of \<open>time.monotonic()\<close> as exact rationals.
\<close>

definition INFO_REFRESH_S :: rat where "INFO_REFRESH_S = 24 * 60 * 60"
definition INFO_RETRY_S :: rat where "INFO_RETRY_S = 60 * 60"

section \<open>The contract\<close>

text \<open>
  \<open>run now fetch s w\<close> is one call at time \<open>now\<close>; \<open>entry\<close> is the kept value with the time
  that counts as its age.
\<close>

locale refreshing =
  fixes run :: "rat \<Rightarrow> ('w \<Rightarrow> 'a res \<times> 'w) \<Rightarrow> 's \<Rightarrow> 'w \<Rightarrow> 'v res \<times> 's \<times> 'w"
    and entry :: "'s \<Rightarrow> (rat \<times> 'v) option"
  assumes fresh: "entry s = Some (t, v) \<Longrightarrow> now - t < INFO_REFRESH_S \<Longrightarrow> run now f s w = (Inr v, s, w)"
    and stored: "(\<forall>t v. entry s = Some (t, v) \<longrightarrow> \<not> now - t < INFO_REFRESH_S) \<Longrightarrow> f w = (Inr x, w') \<Longrightarrow>
      \<exists>v s'. run now f s w = (Inr v, s', w') \<and> entry s' = Some (now, v)"
    and kept: "entry s = Some (t, v) \<Longrightarrow> \<not> now - t < INFO_REFRESH_S \<Longrightarrow> f w = (Inl e, w') \<Longrightarrow> is_exception e \<Longrightarrow>
      \<exists>s'. run now f s w = (Inr v, s', w') \<and> entry s' = Some (now - INFO_REFRESH_S + INFO_RETRY_S, v)"
    and failed: "entry s = None \<Longrightarrow> f w = (Inl e, w') \<Longrightarrow> run now f s w = (Inl e, s, w')"
begin

lemma serves_once_filled:
  assumes "entry s = Some (t, v)" "\<And>e w'. f w = (Inl e, w') \<Longrightarrow> is_exception e"
  shows "\<exists>u s' w' t'. run now f s w = (Inr u, s', w') \<and> entry s' = Some (t', u)"
proof (cases "now - t < INFO_REFRESH_S")
  case True
  with assms show ?thesis using fresh by blast
next
  case False
  obtain r w' where f: "f w = (r, w')" by force
  show ?thesis
  proof (cases r)
    case (Inl e)
    with f assms False kept [OF assms(1) False] show ?thesis by blast
  next
    case (Inr x)
    with f assms False stored [of s now f w x w'] show ?thesis by force
  qed
qed

text \<open>A refresh, whatever its outcome, is followed by an hour without one.\<close>

lemma no_refresh_for_an_hour:
  assumes stale: "\<forall>t v. entry s = Some (t, v) \<longrightarrow> \<not> now - t < INFO_REFRESH_S"
    and "run now f s w = (Inr v, s', w')" and "later < now + INFO_RETRY_S"
    and "\<And>e w'. f w = (Inl e, w') \<Longrightarrow> is_exception e"
  shows "run later g s' w'' = (Inr v, s', w'')"
proof -
  obtain r w1 where f: "f w = (r, w1)" by force
  have "\<exists>t'. entry s' = Some (t', v) \<and> now - INFO_REFRESH_S + INFO_RETRY_S \<le> t'"
  proof (cases r)
    case (Inr x)
    then show ?thesis
      using stored [OF stale, of f w x w1] f assms(2) by (force simp: INFO_REFRESH_S_def INFO_RETRY_S_def)
  next
    case (Inl e)
    then show ?thesis
      using f assms(2,4) stale kept [of s _ _ now f w e w1] failed [of s f w e w1 now]
      by (cases "entry s") force+
  qed
  then show ?thesis using assms(3) by (auto intro!: fresh)
qed

end

section \<open>A run of calls\<close>

fun calls :: "(rat \<Rightarrow> ('w \<Rightarrow> 'a res \<times> 'w) \<Rightarrow> 's \<Rightarrow> 'w \<Rightarrow> 'v res \<times> 's \<times> 'w) \<Rightarrow> (rat \<times> ('w \<Rightarrow> 'a res \<times> 'w)) list \<Rightarrow>
    's \<Rightarrow> 'w \<Rightarrow> 'v res list \<times> 's \<times> 'w" where
  "calls run [] s w = ([], s, w)"
| "calls run ((now, f) # cs) s w =
     (let (r, s', w') = run now f s w; (rs, s'', w'') = calls run cs s' w' in (r # rs, s'', w''))"

context refreshing
begin

lemma calls_serve:
  assumes "entry s = Some (t, v)" "\<forall>(now, f)\<in>set cs. \<forall>w e w'. f w = (Inl e, w') \<longrightarrow> is_exception e"
  shows "\<forall>r\<in>set (fst (calls run cs s w)). \<exists>u. r = Inr u"
  using assms
proof (induction cs arbitrary: s t v w)
  case (Cons c cs)
  obtain now f where c: "c = (now, f)" by force
  obtain u s' w' t' where r: "run now f s w = (Inr u, s', w')" "entry s' = Some (t', u)"
    using serves_once_filled [OF Cons.prems(1), of f w now] Cons.prems(2) c by fastforce
  have "\<forall>r\<in>set (fst (calls run cs s' w')). \<exists>u. r = Inr u"
    using Cons.prems(2) by (intro Cons.IH [OF r(2)]) auto
  then show ?case by (auto simp: c r split: prod.splits)
qed simp

end

section \<open>Instrument metadata\<close>

record info_state =
  info_cache :: "market_type \<Rightarrow> (string, symbol_info) dict option"
  info_cache_at :: "market_type \<Rightarrow> rat option"

definition info_init :: info_state where
  "info_init = \<lparr>info_cache = (\<lambda>_. None), info_cache_at = (\<lambda>_. None)\<rparr>"

definition info_dict :: "symbol_info list \<Rightarrow> (string, symbol_info) dict" where
  "info_dict infos = dict_of (map (\<lambda>info. (si_symbol info, info)) infos) []"

definition ensure_info_cache :: "market_type \<Rightarrow> rat \<Rightarrow> ('w \<Rightarrow> symbol_info list res \<times> 'w) \<Rightarrow> info_state \<Rightarrow> 'w \<Rightarrow>
    (string, symbol_info) dict res \<times> info_state \<times> 'w" where
  "ensure_info_cache mt now fetch s w =
     (let cached = info_cache s mt;
          elapsed = now - (case info_cache_at s mt of None \<Rightarrow> 0 | Some t \<Rightarrow> t)
      in if cached \<noteq> None \<and> elapsed < INFO_REFRESH_S then (Inr (the cached), s, w)
         else case fetch w of
           (Inl e, w') \<Rightarrow>
             (case cached of
                None \<Rightarrow> (Inl e, s, w')
              | Some c \<Rightarrow>
                  if is_exception e
                  then (Inr c, s\<lparr>info_cache_at := (info_cache_at s)(mt := Some (now - INFO_REFRESH_S + INFO_RETRY_S))\<rparr>, w')
                  else (Inl e, s, w'))
         | (Inr infos, w') \<Rightarrow>
             let d = info_dict infos in
             (Inr d, s\<lparr>info_cache := (info_cache s)(mt := Some d), info_cache_at := (info_cache_at s)(mt := Some now)\<rparr>, w'))"

definition info_for :: "market_type \<Rightarrow> string \<Rightarrow> rat \<Rightarrow> ('w \<Rightarrow> symbol_info list res \<times> 'w) \<Rightarrow> info_state \<Rightarrow> 'w \<Rightarrow>
    symbol_info option res \<times> info_state \<times> 'w" where
  "info_for mt model_symbol now fetch s w =
     (case ensure_info_cache mt now fetch s w of
        (Inl e, s', w') \<Rightarrow> (Inl e, s', w')
      | (Inr cache, s', w') \<Rightarrow> (Inr (dget cache model_symbol), s', w'))"

definition info_entry :: "market_type \<Rightarrow> info_state \<Rightarrow> (rat \<times> (string, symbol_info) dict) option" where
  "info_entry mt s = map_option (\<lambda>c. (case info_cache_at s mt of None \<Rightarrow> 0 | Some t \<Rightarrow> t, c)) (info_cache s mt)"

interpretation info: refreshing "ensure_info_cache mt" "info_entry mt" for mt
  by unfold_locales (auto simp: ensure_info_cache_def info_entry_def Let_def split: option.splits if_splits)

section \<open>Margin tier tables\<close>

type_synonym ('k, 'v) margin_cache = "'k \<Rightarrow> (rat \<times> 'v \<times> int) option"

text \<open>\<open>wall_ms\<close> reads \<open>int(time.time() * 1000)\<close>, at the end of the fetch.\<close>

definition margin_table :: "'k \<Rightarrow> ('w \<Rightarrow> int) \<Rightarrow> rat \<Rightarrow> ('w \<Rightarrow> 'v res \<times> 'w) \<Rightarrow> ('k, 'v) margin_cache \<Rightarrow> 'w \<Rightarrow>
    ('v \<times> int) res \<times> ('k, 'v) margin_cache \<times> 'w" where
  "margin_table key wall_ms now fetch s w =
     (let cached = s key in
      if (case cached of None \<Rightarrow> False | Some (t, _, _) \<Rightarrow> now - t < INFO_REFRESH_S)
      then (Inr (snd (the cached)), s, w)
      else case fetch w of
        (Inl e, w') \<Rightarrow>
          (case cached of
             None \<Rightarrow> (Inl e, s, w')
           | Some (_, rows, read_at) \<Rightarrow>
               if is_exception e
               then (Inr (rows, read_at), s(key := Some (now - INFO_REFRESH_S + INFO_RETRY_S, rows, read_at)), w')
               else (Inl e, s, w'))
      | (Inr rows, w') \<Rightarrow> (Inr (rows, wall_ms w'), s(key := Some (now, rows, wall_ms w')), w'))"

definition margin_entry :: "'k \<Rightarrow> ('k, 'v) margin_cache \<Rightarrow> (rat \<times> 'v \<times> int) option" where
  "margin_entry key s = s key"

interpretation margin: refreshing "margin_table key wall_ms" "margin_entry key" for key wall_ms
  by unfold_locales (auto simp: margin_table_def margin_entry_def Let_def split: option.splits if_splits)

section \<open>Properties\<close>

text \<open>
  C16. Once a market's instrument metadata has been read, no later call for it fails, whatever
  the upstream does (a cancellation of the call itself apart): a failed refresh serves the
  cached metadata.
\<close>

theorem info_cache_never_fails_again:
  assumes "info_cache s mt = Some d"
    and "\<forall>(now, f)\<in>set cs. \<forall>w e w'. f w = (Inl e, w') \<longrightarrow> is_exception e"
  shows "\<forall>r\<in>set (fst (calls (ensure_info_cache mt) cs s w)). \<exists>u. r = Inr u"
  by (rule info.calls_serve [OF _ assms(2)]) (simp add: info_entry_def assms(1))

definition broken_upstream :: "nat \<Rightarrow> symbol_info list res \<times> nat" where
  "broken_upstream n = (Inl (TransportError ''down''), Suc n)"

lemma info_cache_never_fails_again_witness:
  "list_all (\<lambda>r. \<exists>u. r = Inr u) (fst (calls (ensure_info_cache Spot) [(90000, broken_upstream), (200000, broken_upstream)]
      (info_init\<lparr>info_cache := (\<lambda>_. Some [])\<rparr>) 0))"
  unfolding list_all_iff
  by (rule info_cache_never_fails_again) (simp_all add: info_init_def broken_upstream_def)

text \<open>
  A margin tier table is read from the upstream at most once an hour: after any call that
  tried to refresh it, failed or not, and returned a table, the calls of the next hour return
  the same table with the same read time and do not touch the upstream.
\<close>

theorem margin_table_hourly:
  assumes "\<forall>t v. s key = Some (t, v) \<longrightarrow> \<not> now - t < INFO_REFRESH_S"
    and "margin_table key wall_ms now f s w = (Inr table, s', w')" and "later < now + INFO_RETRY_S"
    and "\<forall>e u. f w = (Inl e, u) \<longrightarrow> is_exception e"
  shows "margin_table key wall_ms later g s' w'' = (Inr table, s', w'')"
  using assms by (intro margin.no_refresh_for_an_hour [of key s now wall_ms f w table s' w'])
    (auto simp: margin_entry_def)

lemma margin_table_hourly_witness:
  "margin_table ''BTC'' (\<lambda>_. 7) 89999 (\<lambda>w. (Inr ''new'', w)) [''BTC'' \<mapsto> (3600, ''old'', 5)] (0 :: nat)
     = (Inr (''old'', 5), [''BTC'' \<mapsto> (3600, ''old'', 5)], 0)"
  by (rule margin_table_hourly [where now = 86400 and w = 0 and w' = 0 and
        s = "[''BTC'' \<mapsto> (0, ''old'', 5)]" and f = "\<lambda>w. (Inl (TransportError ''down''), w)"])
     (auto simp: margin_table_def INFO_REFRESH_S_def INFO_RETRY_S_def)

end
