(* ===== verification/Capabilities.thy ===== *)
theory Capabilities
  imports Builders
begin

text \<open>
  Capability maps: the lookups of \<^verbatim>\<open>exchange_router/capabilities.py\<close>, \<open>validate_interval\<close> of
  \<^verbatim>\<open>exchange_router/exchanges/base.py\<close>, and the tables the six adapters build in
  \<open>_build_capabilities\<close>, one definition per adapter and market. A \<open>MarketType\<close> is a string
  enum, so as a dictionary key it is its value.
\<close>

section \<open>Lookups\<close>

definition market_block :: "pyval \<Rightarrow> string \<Rightarrow> pyval res" where
  "market_block capabilities market_type =
     bindr (py_get (py_or capabilities (PDict [])) ''markets'') (\<lambda>m.
     let markets = py_or m (PDict []) in
     bindr (py_get markets market_type) (\<lambda>a.
     bindr (if truthy a then Inr a else py_get markets market_type) (\<lambda>b.
       Inr (py_or b (PDict [])))))"

definition route_block :: "pyval \<Rightarrow> string \<Rightarrow> string \<Rightarrow> pyval res" where
  "route_block capabilities market_type route =
     bindr (market_block capabilities market_type) (\<lambda>m.
     bindr (py_get m route) (\<lambda>r. Inr (py_or r (PDict []))))"

text \<open>\<open>v in xs\<close> for a string \<open>v\<close>: list membership, dictionary keys, or a substring.\<close>

fun py_in :: "string \<Rightarrow> pyval \<Rightarrow> bool res" where
  "py_in v (PList xs) = Inr (PStr v \<in> set xs)"
| "py_in v (PDict d) = Inr (dget d v \<noteq> None)"
| "py_in v (PStr s) = Inr (sublist v s)"
| "py_in v x = Inl (TypeError (''argument of type '' @ quoted (type_name x) @ '' is not iterable''))"

definition validate_interval :: "string \<Rightarrow> pyval \<Rightarrow> market_type \<Rightarrow> string \<Rightarrow> string \<Rightarrow> string \<Rightarrow> unit res" where
  "validate_interval name caps mt route label value =
     bindr (route_block caps (market_value mt) route) (\<lambda>b.
     bindr (py_get b ''intervals'') (\<lambda>intervals.
       if truthy intervals then
         bindr (py_in value intervals) (\<lambda>found.
           if found then Inr ()
           else Inl (ValueError (label @ '' '' @ quoted value @ '' is not valid for '' @ name @ '' '' @ market_value mt @ '' '' @ route)))
       else Inr ()))"

section \<open>Binance\<close>

definition binance_spot_caps :: pyval where [cap_defs]:
  "binance_spot_caps = PDict [
     (''ticker'', PDict [(''rest'', PBool True), (''ws'', PBool True)]),
     (''book_ticker'', PDict [(''rest'', PBool True), (''ws'', PBool True)]),
     (''mark_price'', PDict [(''rest'', PBool False), (''ws'', PBool False)]),
     (''orderbook'', PDict [(''rest'', PBool True), (''ws'', PBool True), (''depths'',
        PList [PInt 5, PInt 10, PInt 20, PInt 50, PInt 100, PInt 500, PInt 1000]), (''max_depth'',
        PInt 1000)]),
     (''trades'', PDict [(''rest'', PBool True), (''ws'', PBool True), (''max_limit'',
        PInt 1000)]),
     (''agg_trades'', PDict [(''rest'', PBool True), (''ws'', PBool True), (''paginated'',
        PBool True), (''max_limit'', PNone), (''retention_ms'', PNone)]),
     (''candles'', PDict [(''rest'', PBool True), (''ws'', PBool False), (''paginated'',
        PBool True), (''max_limit'', PNone), (''retention_ms'', PNone), (''intervals'',
        PList [PStr ''1m'', PStr ''3m'', PStr ''5m'', PStr ''15m'', PStr ''30m'', PStr ''1h'',
        PStr ''2h'', PStr ''4h'', PStr ''6h'', PStr ''8h'', PStr ''12h'', PStr ''1d'', PStr ''3d'',
        PStr ''1w'', PStr ''1M''])]),
     (''funding_rate'', PDict [(''rest'', PBool False), (''ws'', PBool False), (''paginated'',
        PBool False), (''max_limit'', PNone), (''retention_ms'', PNone)]),
     (''open_interest'', PDict [(''rest'', PBool False), (''ws'', PBool False), (''paginated'',
        PBool False), (''max_limit'', PNone), (''retention_ms'', PNone), (''intervals'', PNone)]),
     (''liquidations'', PDict [(''rest'', PBool False), (''ws'', PBool False), (''paginated'',
        PBool False), (''max_limit'', PNone), (''retention_ms'', PNone), (''completeness'', PNone)]),
     (''long_short_ratio'', PDict [(''rest'', PBool False), (''ws'', PBool False), (''paginated'',
        PBool False), (''max_limit'', PNone), (''retention_ms'', PNone), (''intervals'', PNone)]),
     (''margin_tiers'', PDict [(''rest'', PBool False), (''ws'', PBool False)])]"

definition binance_linear_caps :: pyval where [cap_defs]:
  "binance_linear_caps = PDict [
     (''ticker'', PDict [(''rest'', PBool True), (''ws'', PBool True)]),
     (''book_ticker'', PDict [(''rest'', PBool True), (''ws'', PBool True)]),
     (''mark_price'', PDict [(''rest'', PBool True), (''ws'', PBool True)]),
     (''orderbook'', PDict [(''rest'', PBool True), (''ws'', PBool True), (''depths'',
        PList [PInt 5, PInt 10, PInt 20, PInt 50, PInt 100, PInt 500, PInt 1000]), (''max_depth'',
        PInt 1000)]),
     (''trades'', PDict [(''rest'', PBool True), (''ws'', PBool True), (''max_limit'',
        PInt 1000)]),
     (''agg_trades'', PDict [(''rest'', PBool True), (''ws'', PBool True), (''paginated'',
        PBool True), (''max_limit'', PNone), (''retention_ms'', PNone)]),
     (''candles'', PDict [(''rest'', PBool True), (''ws'', PBool False), (''paginated'',
        PBool True), (''max_limit'', PNone), (''retention_ms'', PNone), (''intervals'',
        PList [PStr ''1m'', PStr ''3m'', PStr ''5m'', PStr ''15m'', PStr ''30m'', PStr ''1h'',
        PStr ''2h'', PStr ''4h'', PStr ''6h'', PStr ''8h'', PStr ''12h'', PStr ''1d'', PStr ''3d'',
        PStr ''1w'', PStr ''1M''])]),
     (''funding_rate'', PDict [(''rest'', PBool True), (''ws'', PBool False), (''paginated'',
        PBool True), (''max_limit'', PNone), (''retention_ms'', PNone)]),
     (''open_interest'', PDict [(''rest'', PBool True), (''ws'', PBool False), (''paginated'',
        PBool True), (''max_limit'', PNone), (''retention_ms'', PInt (30 * 24 * 60 * 60 * 1000)),
        (''intervals'', PList [PStr ''5m'', PStr ''15m'', PStr ''30m'', PStr ''1h'', PStr ''2h'',
        PStr ''4h'', PStr ''6h'', PStr ''12h'', PStr ''1d''])]),
     (''liquidations'', PDict [(''rest'', PBool False), (''ws'', PBool True), (''paginated'',
        PBool False), (''max_limit'', PNone), (''retention_ms'', PNone), (''completeness'',
        PStr ''partial'')]),
     (''long_short_ratio'', PDict [(''rest'', PBool True), (''ws'', PBool False), (''paginated'',
        PBool True), (''max_limit'', PNone), (''retention_ms'', PInt (30 * 24 * 60 * 60 * 1000)),
        (''intervals'', PList [PStr ''5m'', PStr ''15m'', PStr ''30m'', PStr ''1h'', PStr ''2h'',
        PStr ''4h'', PStr ''6h'', PStr ''12h'', PStr ''1d''])]),
     (''margin_tiers'', PDict [(''rest'', PBool False), (''ws'', PBool False)])]"

definition binance_inverse_caps :: pyval where [cap_defs]:
  "binance_inverse_caps = PDict [
     (''ticker'', PDict [(''rest'', PBool True), (''ws'', PBool True)]),
     (''book_ticker'', PDict [(''rest'', PBool True), (''ws'', PBool True)]),
     (''mark_price'', PDict [(''rest'', PBool True), (''ws'', PBool True)]),
     (''orderbook'', PDict [(''rest'', PBool True), (''ws'', PBool True), (''depths'',
        PList [PInt 5, PInt 10, PInt 20, PInt 50, PInt 100, PInt 500, PInt 1000]), (''max_depth'',
        PInt 1000)]),
     (''trades'', PDict [(''rest'', PBool True), (''ws'', PBool True), (''max_limit'',
        PInt 1000)]),
     (''agg_trades'', PDict [(''rest'', PBool True), (''ws'', PBool True), (''paginated'',
        PBool True), (''max_limit'', PNone), (''retention_ms'', PNone)]),
     (''candles'', PDict [(''rest'', PBool True), (''ws'', PBool False), (''paginated'',
        PBool True), (''max_limit'', PNone), (''retention_ms'', PNone), (''intervals'',
        PList [PStr ''1m'', PStr ''3m'', PStr ''5m'', PStr ''15m'', PStr ''30m'', PStr ''1h'',
        PStr ''2h'', PStr ''4h'', PStr ''6h'', PStr ''8h'', PStr ''12h'', PStr ''1d'', PStr ''3d'',
        PStr ''1w'', PStr ''1M''])]),
     (''funding_rate'', PDict [(''rest'', PBool True), (''ws'', PBool False), (''paginated'',
        PBool True), (''max_limit'', PNone), (''retention_ms'', PNone)]),
     (''open_interest'', PDict [(''rest'', PBool True), (''ws'', PBool False), (''paginated'',
        PBool True), (''max_limit'', PNone), (''retention_ms'', PInt (30 * 24 * 60 * 60 * 1000)),
        (''intervals'', PList [PStr ''5m'', PStr ''15m'', PStr ''30m'', PStr ''1h'', PStr ''2h'',
        PStr ''4h'', PStr ''6h'', PStr ''12h'', PStr ''1d''])]),
     (''liquidations'', PDict [(''rest'', PBool False), (''ws'', PBool True), (''paginated'',
        PBool False), (''max_limit'', PNone), (''retention_ms'', PNone), (''completeness'',
        PStr ''partial'')]),
     (''long_short_ratio'', PDict [(''rest'', PBool True), (''ws'', PBool False), (''paginated'',
        PBool True), (''max_limit'', PNone), (''retention_ms'', PInt (30 * 24 * 60 * 60 * 1000)),
        (''intervals'', PList [PStr ''5m'', PStr ''15m'', PStr ''30m'', PStr ''1h'', PStr ''2h'',
        PStr ''4h'', PStr ''6h'', PStr ''12h'', PStr ''1d''])]),
     (''margin_tiers'', PDict [(''rest'', PBool False), (''ws'', PBool False)])]"

definition binance_capabilities :: pyval where
  "binance_capabilities = PDict [(''name'', PStr ''binance''), (''markets'', PDict [
     (''spot'', binance_spot_caps), (''linear'', binance_linear_caps), (''inverse'', binance_inverse_caps)])]"

section \<open>Bybit\<close>

definition bybit_spot_caps :: pyval where [cap_defs]:
  "bybit_spot_caps = PDict [
     (''ticker'', PDict [(''rest'', PBool True), (''ws'', PBool True)]),
     (''book_ticker'', PDict [(''rest'', PBool True), (''ws'', PBool True)]),
     (''mark_price'', PDict [(''rest'', PBool False), (''ws'', PBool False)]),
     (''orderbook'', PDict [(''rest'', PBool True), (''ws'', PBool True), (''depths'',
        PList [PInt 50, PInt 200]), (''max_depth'', PInt 200)]),
     (''trades'', PDict [(''rest'', PBool True), (''ws'', PBool True), (''max_limit'', PInt 60)]),
     (''agg_trades'', PDict [(''rest'', PBool False), (''ws'', PBool False), (''paginated'',
        PBool False), (''max_limit'', PNone), (''retention_ms'', PNone)]),
     (''candles'', PDict [(''rest'', PBool True), (''ws'', PBool False), (''paginated'',
        PBool True), (''max_limit'', PNone), (''retention_ms'', PNone), (''intervals'',
        PList [PStr ''1m'', PStr ''3m'', PStr ''5m'', PStr ''15m'', PStr ''30m'', PStr ''1h'',
        PStr ''2h'', PStr ''4h'', PStr ''6h'', PStr ''12h'', PStr ''1d'', PStr ''1w'',
        PStr ''1M''])]),
     (''funding_rate'', PDict [(''rest'', PBool False), (''ws'', PBool False), (''paginated'',
        PBool False), (''max_limit'', PNone), (''retention_ms'', PNone)]),
     (''open_interest'', PDict [(''rest'', PBool False), (''ws'', PBool False), (''paginated'',
        PBool False), (''max_limit'', PNone), (''retention_ms'', PNone), (''intervals'', PNone)]),
     (''liquidations'', PDict [(''rest'', PBool False), (''ws'', PBool False), (''paginated'',
        PBool False), (''max_limit'', PNone), (''retention_ms'', PNone), (''completeness'', PNone)]),
     (''long_short_ratio'', PDict [(''rest'', PBool False), (''ws'', PBool False), (''paginated'',
        PBool False), (''max_limit'', PNone), (''retention_ms'', PNone), (''intervals'', PNone)]),
     (''margin_tiers'', PDict [(''rest'', PBool False), (''ws'', PBool False)])]"

definition bybit_linear_caps :: pyval where [cap_defs]:
  "bybit_linear_caps = PDict [
     (''ticker'', PDict [(''rest'', PBool True), (''ws'', PBool True)]),
     (''book_ticker'', PDict [(''rest'', PBool True), (''ws'', PBool True)]),
     (''mark_price'', PDict [(''rest'', PBool True), (''ws'', PBool False)]),
     (''orderbook'', PDict [(''rest'', PBool True), (''ws'', PBool True), (''depths'',
        PList [PInt 50, PInt 200, PInt 500]), (''max_depth'', PInt 500)]),
     (''trades'', PDict [(''rest'', PBool True), (''ws'', PBool True), (''max_limit'',
        PInt 1000)]),
     (''agg_trades'', PDict [(''rest'', PBool False), (''ws'', PBool False), (''paginated'',
        PBool False), (''max_limit'', PNone), (''retention_ms'', PNone)]),
     (''candles'', PDict [(''rest'', PBool True), (''ws'', PBool False), (''paginated'',
        PBool True), (''max_limit'', PNone), (''retention_ms'', PNone), (''intervals'',
        PList [PStr ''1m'', PStr ''3m'', PStr ''5m'', PStr ''15m'', PStr ''30m'', PStr ''1h'',
        PStr ''2h'', PStr ''4h'', PStr ''6h'', PStr ''12h'', PStr ''1d'', PStr ''1w'',
        PStr ''1M''])]),
     (''funding_rate'', PDict [(''rest'', PBool True), (''ws'', PBool False), (''paginated'',
        PBool True), (''max_limit'', PNone), (''retention_ms'', PNone)]),
     (''open_interest'', PDict [(''rest'', PBool True), (''ws'', PBool False), (''paginated'',
        PBool True), (''max_limit'', PNone), (''retention_ms'', PNone), (''intervals'',
        PList [PStr ''5m'', PStr ''15m'', PStr ''30m'', PStr ''1h'', PStr ''4h'', PStr ''1d''])]),
     (''liquidations'', PDict [(''rest'', PBool False), (''ws'', PBool True), (''paginated'',
        PBool False), (''max_limit'', PNone), (''retention_ms'', PNone), (''completeness'',
        PStr ''partial'')]),
     (''long_short_ratio'', PDict [(''rest'', PBool True), (''ws'', PBool False), (''paginated'',
        PBool True), (''max_limit'', PNone), (''retention_ms'', PNone), (''intervals'',
        PList [PStr ''5m'', PStr ''15m'', PStr ''30m'', PStr ''1h'', PStr ''4h'', PStr ''1d''])]),
     (''margin_tiers'', PDict [(''rest'', PBool True), (''ws'', PBool False)])]"

definition bybit_inverse_caps :: pyval where [cap_defs]:
  "bybit_inverse_caps = PDict [
     (''ticker'', PDict [(''rest'', PBool True), (''ws'', PBool True)]),
     (''book_ticker'', PDict [(''rest'', PBool True), (''ws'', PBool True)]),
     (''mark_price'', PDict [(''rest'', PBool True), (''ws'', PBool False)]),
     (''orderbook'', PDict [(''rest'', PBool True), (''ws'', PBool True), (''depths'',
        PList [PInt 50, PInt 200, PInt 500]), (''max_depth'', PInt 500)]),
     (''trades'', PDict [(''rest'', PBool True), (''ws'', PBool True), (''max_limit'',
        PInt 1000)]),
     (''agg_trades'', PDict [(''rest'', PBool False), (''ws'', PBool False), (''paginated'',
        PBool False), (''max_limit'', PNone), (''retention_ms'', PNone)]),
     (''candles'', PDict [(''rest'', PBool True), (''ws'', PBool False), (''paginated'',
        PBool True), (''max_limit'', PNone), (''retention_ms'', PNone), (''intervals'',
        PList [PStr ''1m'', PStr ''3m'', PStr ''5m'', PStr ''15m'', PStr ''30m'', PStr ''1h'',
        PStr ''2h'', PStr ''4h'', PStr ''6h'', PStr ''12h'', PStr ''1d'', PStr ''1w'',
        PStr ''1M''])]),
     (''funding_rate'', PDict [(''rest'', PBool True), (''ws'', PBool False), (''paginated'',
        PBool True), (''max_limit'', PNone), (''retention_ms'', PNone)]),
     (''open_interest'', PDict [(''rest'', PBool True), (''ws'', PBool False), (''paginated'',
        PBool True), (''max_limit'', PNone), (''retention_ms'', PNone), (''intervals'',
        PList [PStr ''5m'', PStr ''15m'', PStr ''30m'', PStr ''1h'', PStr ''4h'', PStr ''1d''])]),
     (''liquidations'', PDict [(''rest'', PBool False), (''ws'', PBool True), (''paginated'',
        PBool False), (''max_limit'', PNone), (''retention_ms'', PNone), (''completeness'',
        PStr ''partial'')]),
     (''long_short_ratio'', PDict [(''rest'', PBool True), (''ws'', PBool False), (''paginated'',
        PBool True), (''max_limit'', PNone), (''retention_ms'', PNone), (''intervals'',
        PList [PStr ''5m'', PStr ''15m'', PStr ''30m'', PStr ''1h'', PStr ''4h'', PStr ''1d''])]),
     (''margin_tiers'', PDict [(''rest'', PBool True), (''ws'', PBool False)])]"

definition bybit_capabilities :: pyval where
  "bybit_capabilities = PDict [(''name'', PStr ''bybit''), (''markets'', PDict [
     (''spot'', bybit_spot_caps), (''linear'', bybit_linear_caps), (''inverse'', bybit_inverse_caps)])]"

section \<open>Okx\<close>

definition okx_spot_caps :: pyval where [cap_defs]:
  "okx_spot_caps = PDict [
     (''ticker'', PDict [(''rest'', PBool True), (''ws'', PBool True)]),
     (''book_ticker'', PDict [(''rest'', PBool True), (''ws'', PBool True)]),
     (''mark_price'', PDict [(''rest'', PBool False), (''ws'', PBool False)]),
     (''orderbook'', PDict [(''rest'', PBool True), (''ws'', PBool True), (''depths'', PNone),
        (''max_depth'', PInt 400)]),
     (''trades'', PDict [(''rest'', PBool True), (''ws'', PBool True), (''max_limit'',
        PInt 100)]),
     (''agg_trades'', PDict [(''rest'', PBool False), (''ws'', PBool False), (''paginated'',
        PBool False), (''max_limit'', PNone), (''retention_ms'', PNone)]),
     (''candles'', PDict [(''rest'', PBool True), (''ws'', PBool False), (''paginated'',
        PBool True), (''max_limit'', PNone), (''retention_ms'', PNone), (''intervals'',
        PList [PStr ''1m'', PStr ''3m'', PStr ''5m'', PStr ''15m'', PStr ''30m'', PStr ''1h'',
        PStr ''2h'', PStr ''4h'', PStr ''6h'', PStr ''12h'', PStr ''1d'', PStr ''1w'',
        PStr ''1M''])]),
     (''funding_rate'', PDict [(''rest'', PBool False), (''ws'', PBool False), (''paginated'',
        PBool False), (''max_limit'', PNone), (''retention_ms'', PNone)]),
     (''open_interest'', PDict [(''rest'', PBool False), (''ws'', PBool False), (''paginated'',
        PBool False), (''max_limit'', PNone), (''retention_ms'', PNone), (''intervals'', PNone)]),
     (''liquidations'', PDict [(''rest'', PBool False), (''ws'', PBool False), (''paginated'',
        PBool False), (''max_limit'', PNone), (''retention_ms'', PNone), (''completeness'', PNone)]),
     (''long_short_ratio'', PDict [(''rest'', PBool False), (''ws'', PBool False), (''paginated'',
        PBool False), (''max_limit'', PNone), (''retention_ms'', PNone), (''intervals'', PNone)]),
     (''margin_tiers'', PDict [(''rest'', PBool False), (''ws'', PBool False)])]"

definition okx_linear_caps :: pyval where [cap_defs]:
  "okx_linear_caps = PDict [
     (''ticker'', PDict [(''rest'', PBool True), (''ws'', PBool True)]),
     (''book_ticker'', PDict [(''rest'', PBool True), (''ws'', PBool True)]),
     (''mark_price'', PDict [(''rest'', PBool True), (''ws'', PBool True)]),
     (''orderbook'', PDict [(''rest'', PBool True), (''ws'', PBool True), (''depths'', PNone),
        (''max_depth'', PInt 400)]),
     (''trades'', PDict [(''rest'', PBool True), (''ws'', PBool True), (''max_limit'',
        PInt 100)]),
     (''agg_trades'', PDict [(''rest'', PBool False), (''ws'', PBool False), (''paginated'',
        PBool False), (''max_limit'', PNone), (''retention_ms'', PNone)]),
     (''candles'', PDict [(''rest'', PBool True), (''ws'', PBool False), (''paginated'',
        PBool True), (''max_limit'', PNone), (''retention_ms'', PNone), (''intervals'',
        PList [PStr ''1m'', PStr ''3m'', PStr ''5m'', PStr ''15m'', PStr ''30m'', PStr ''1h'',
        PStr ''2h'', PStr ''4h'', PStr ''6h'', PStr ''12h'', PStr ''1d'', PStr ''1w'',
        PStr ''1M''])]),
     (''funding_rate'', PDict [(''rest'', PBool True), (''ws'', PBool False), (''paginated'',
        PBool True), (''max_limit'', PInt 300), (''retention_ms'',
        PInt (90 * 24 * 60 * 60 * 1000))]),
     (''open_interest'', PDict [(''rest'', PBool True), (''ws'', PBool False), (''paginated'',
        PBool True), (''max_limit'', PNone), (''retention_ms'', PInt (30 * 24 * 60 * 60 * 1000)),
        (''intervals'', PList [PStr ''5m'', PStr ''15m'', PStr ''30m'', PStr ''1h'', PStr ''2h'',
        PStr ''4h'', PStr ''6h'', PStr ''12h'', PStr ''1d''])]),
     (''liquidations'', PDict [(''rest'', PBool True), (''ws'', PBool True), (''paginated'',
        PBool True), (''max_limit'', PInt 100), (''retention_ms'', PInt (24 * 60 * 60 * 1000)),
        (''completeness'', PStr ''partial'')]),
     (''long_short_ratio'', PDict [(''rest'', PBool True), (''ws'', PBool False), (''paginated'',
        PBool True), (''max_limit'', PNone), (''retention_ms'', PInt (30 * 24 * 60 * 60 * 1000)),
        (''intervals'', PList [PStr ''5m'', PStr ''1h'', PStr ''1d''])]),
     (''margin_tiers'', PDict [(''rest'', PBool True), (''ws'', PBool False)])]"

definition okx_inverse_caps :: pyval where [cap_defs]:
  "okx_inverse_caps = PDict [
     (''ticker'', PDict [(''rest'', PBool True), (''ws'', PBool True)]),
     (''book_ticker'', PDict [(''rest'', PBool True), (''ws'', PBool True)]),
     (''mark_price'', PDict [(''rest'', PBool True), (''ws'', PBool True)]),
     (''orderbook'', PDict [(''rest'', PBool True), (''ws'', PBool True), (''depths'', PNone),
        (''max_depth'', PInt 400)]),
     (''trades'', PDict [(''rest'', PBool True), (''ws'', PBool True), (''max_limit'',
        PInt 100)]),
     (''agg_trades'', PDict [(''rest'', PBool False), (''ws'', PBool False), (''paginated'',
        PBool False), (''max_limit'', PNone), (''retention_ms'', PNone)]),
     (''candles'', PDict [(''rest'', PBool True), (''ws'', PBool False), (''paginated'',
        PBool True), (''max_limit'', PNone), (''retention_ms'', PNone), (''intervals'',
        PList [PStr ''1m'', PStr ''3m'', PStr ''5m'', PStr ''15m'', PStr ''30m'', PStr ''1h'',
        PStr ''2h'', PStr ''4h'', PStr ''6h'', PStr ''12h'', PStr ''1d'', PStr ''1w'',
        PStr ''1M''])]),
     (''funding_rate'', PDict [(''rest'', PBool True), (''ws'', PBool False), (''paginated'',
        PBool True), (''max_limit'', PInt 300), (''retention_ms'',
        PInt (90 * 24 * 60 * 60 * 1000))]),
     (''open_interest'', PDict [(''rest'', PBool True), (''ws'', PBool False), (''paginated'',
        PBool True), (''max_limit'', PNone), (''retention_ms'', PInt (30 * 24 * 60 * 60 * 1000)),
        (''intervals'', PList [PStr ''5m'', PStr ''15m'', PStr ''30m'', PStr ''1h'', PStr ''2h'',
        PStr ''4h'', PStr ''6h'', PStr ''12h'', PStr ''1d''])]),
     (''liquidations'', PDict [(''rest'', PBool True), (''ws'', PBool True), (''paginated'',
        PBool True), (''max_limit'', PInt 100), (''retention_ms'', PInt (24 * 60 * 60 * 1000)),
        (''completeness'', PStr ''partial'')]),
     (''long_short_ratio'', PDict [(''rest'', PBool True), (''ws'', PBool False), (''paginated'',
        PBool True), (''max_limit'', PNone), (''retention_ms'', PInt (30 * 24 * 60 * 60 * 1000)),
        (''intervals'', PList [PStr ''5m'', PStr ''1h'', PStr ''1d''])]),
     (''margin_tiers'', PDict [(''rest'', PBool True), (''ws'', PBool False)])]"

definition okx_capabilities :: pyval where
  "okx_capabilities = PDict [(''name'', PStr ''okx''), (''markets'', PDict [
     (''spot'', okx_spot_caps), (''linear'', okx_linear_caps), (''inverse'', okx_inverse_caps)])]"

section \<open>Kucoin\<close>

definition kucoin_spot_caps :: pyval where [cap_defs]:
  "kucoin_spot_caps = PDict [
     (''ticker'', PDict [(''rest'', PBool True), (''ws'', PBool True)]),
     (''book_ticker'', PDict [(''rest'', PBool True), (''ws'', PBool True)]),
     (''mark_price'', PDict [(''rest'', PBool False), (''ws'', PBool False)]),
     (''orderbook'', PDict [(''rest'', PBool True), (''ws'', PBool True), (''depths'',
        PList [PInt 20, PInt 100]), (''max_depth'', PInt 100)]),
     (''trades'', PDict [(''rest'', PBool True), (''ws'', PBool True), (''max_limit'',
        PInt 100)]),
     (''agg_trades'', PDict [(''rest'', PBool False), (''ws'', PBool False), (''paginated'',
        PBool False), (''max_limit'', PNone), (''retention_ms'', PNone)]),
     (''candles'', PDict [(''rest'', PBool True), (''ws'', PBool False), (''paginated'',
        PBool True), (''max_limit'', PNone), (''retention_ms'', PNone), (''intervals'',
        PList [PStr ''1m'', PStr ''3m'', PStr ''5m'', PStr ''15m'', PStr ''30m'', PStr ''1h'',
        PStr ''2h'', PStr ''4h'', PStr ''6h'', PStr ''8h'', PStr ''12h'', PStr ''1d'',
        PStr ''1w''])]),
     (''funding_rate'', PDict [(''rest'', PBool False), (''ws'', PBool False), (''paginated'',
        PBool False), (''max_limit'', PNone), (''retention_ms'', PNone)]),
     (''open_interest'', PDict [(''rest'', PBool False), (''ws'', PBool False), (''paginated'',
        PBool False), (''max_limit'', PNone), (''retention_ms'', PNone), (''intervals'', PNone)]),
     (''liquidations'', PDict [(''rest'', PBool False), (''ws'', PBool False), (''paginated'',
        PBool False), (''max_limit'', PNone), (''retention_ms'', PNone), (''completeness'', PNone)]),
     (''long_short_ratio'', PDict [(''rest'', PBool False), (''ws'', PBool False), (''paginated'',
        PBool False), (''max_limit'', PNone), (''retention_ms'', PNone), (''intervals'', PNone)]),
     (''margin_tiers'', PDict [(''rest'', PBool False), (''ws'', PBool False)])]"

definition kucoin_linear_caps :: pyval where [cap_defs]:
  "kucoin_linear_caps = PDict [
     (''ticker'', PDict [(''rest'', PBool True), (''ws'', PBool True)]),
     (''book_ticker'', PDict [(''rest'', PBool True), (''ws'', PBool True)]),
     (''mark_price'', PDict [(''rest'', PBool True), (''ws'', PBool True)]),
     (''orderbook'', PDict [(''rest'', PBool True), (''ws'', PBool True), (''depths'',
        PList [PInt 20, PInt 100]), (''max_depth'', PInt 100)]),
     (''trades'', PDict [(''rest'', PBool True), (''ws'', PBool True), (''max_limit'',
        PInt 100)]),
     (''agg_trades'', PDict [(''rest'', PBool False), (''ws'', PBool False), (''paginated'',
        PBool False), (''max_limit'', PNone), (''retention_ms'', PNone)]),
     (''candles'', PDict [(''rest'', PBool True), (''ws'', PBool False), (''paginated'',
        PBool True), (''max_limit'', PNone), (''retention_ms'', PNone), (''intervals'',
        PList [PStr ''1m'', PStr ''5m'', PStr ''15m'', PStr ''30m'', PStr ''1h'', PStr ''2h'',
        PStr ''4h'', PStr ''8h'', PStr ''12h'', PStr ''1d'', PStr ''1w''])]),
     (''funding_rate'', PDict [(''rest'', PBool True), (''ws'', PBool False), (''paginated'',
        PBool True), (''max_limit'', PNone), (''retention_ms'', PNone)]),
     (''open_interest'', PDict [(''rest'', PBool True), (''ws'', PBool False), (''paginated'',
        PBool True), (''max_limit'', PNone), (''retention_ms'', PInt (7 * 24 * 60 * 60 * 1000)),
        (''intervals'', PList [PStr ''5m'', PStr ''15m'', PStr ''30m'', PStr ''1h'', PStr ''4h'',
        PStr ''1d''])]),
     (''liquidations'', PDict [(''rest'', PBool False), (''ws'', PBool False), (''paginated'',
        PBool False), (''max_limit'', PNone), (''retention_ms'', PNone), (''completeness'', PNone)]),
     (''long_short_ratio'', PDict [(''rest'', PBool False), (''ws'', PBool False), (''paginated'',
        PBool False), (''max_limit'', PNone), (''retention_ms'', PNone), (''intervals'', PNone)]),
     (''margin_tiers'', PDict [(''rest'', PBool False), (''ws'', PBool False)])]"

definition kucoin_inverse_caps :: pyval where [cap_defs]:
  "kucoin_inverse_caps = PDict [
     (''ticker'', PDict [(''rest'', PBool True), (''ws'', PBool True)]),
     (''book_ticker'', PDict [(''rest'', PBool True), (''ws'', PBool True)]),
     (''mark_price'', PDict [(''rest'', PBool True), (''ws'', PBool True)]),
     (''orderbook'', PDict [(''rest'', PBool True), (''ws'', PBool True), (''depths'',
        PList [PInt 20, PInt 100]), (''max_depth'', PInt 100)]),
     (''trades'', PDict [(''rest'', PBool True), (''ws'', PBool True), (''max_limit'',
        PInt 100)]),
     (''agg_trades'', PDict [(''rest'', PBool False), (''ws'', PBool False), (''paginated'',
        PBool False), (''max_limit'', PNone), (''retention_ms'', PNone)]),
     (''candles'', PDict [(''rest'', PBool True), (''ws'', PBool False), (''paginated'',
        PBool True), (''max_limit'', PNone), (''retention_ms'', PNone), (''intervals'',
        PList [PStr ''1m'', PStr ''5m'', PStr ''15m'', PStr ''30m'', PStr ''1h'', PStr ''2h'',
        PStr ''4h'', PStr ''8h'', PStr ''12h'', PStr ''1d'', PStr ''1w''])]),
     (''funding_rate'', PDict [(''rest'', PBool True), (''ws'', PBool False), (''paginated'',
        PBool True), (''max_limit'', PNone), (''retention_ms'', PNone)]),
     (''open_interest'', PDict [(''rest'', PBool True), (''ws'', PBool False), (''paginated'',
        PBool True), (''max_limit'', PNone), (''retention_ms'', PInt (7 * 24 * 60 * 60 * 1000)),
        (''intervals'', PList [PStr ''5m'', PStr ''15m'', PStr ''30m'', PStr ''1h'', PStr ''4h'',
        PStr ''1d''])]),
     (''liquidations'', PDict [(''rest'', PBool False), (''ws'', PBool False), (''paginated'',
        PBool False), (''max_limit'', PNone), (''retention_ms'', PNone), (''completeness'', PNone)]),
     (''long_short_ratio'', PDict [(''rest'', PBool False), (''ws'', PBool False), (''paginated'',
        PBool False), (''max_limit'', PNone), (''retention_ms'', PNone), (''intervals'', PNone)]),
     (''margin_tiers'', PDict [(''rest'', PBool False), (''ws'', PBool False)])]"

definition kucoin_capabilities :: pyval where
  "kucoin_capabilities = PDict [(''name'', PStr ''kucoin''), (''markets'', PDict [
     (''spot'', kucoin_spot_caps), (''linear'', kucoin_linear_caps), (''inverse'', kucoin_inverse_caps)])]"

section \<open>Kraken\<close>

definition kraken_spot_caps :: pyval where [cap_defs]:
  "kraken_spot_caps = PDict [
     (''ticker'', PDict [(''rest'', PBool True), (''ws'', PBool True)]),
     (''book_ticker'', PDict [(''rest'', PBool True), (''ws'', PBool True)]),
     (''mark_price'', PDict [(''rest'', PBool False), (''ws'', PBool False)]),
     (''orderbook'', PDict [(''rest'', PBool True), (''ws'', PBool True), (''depths'', PNone),
        (''max_depth'', PInt 500)]),
     (''trades'', PDict [(''rest'', PBool True), (''ws'', PBool True), (''max_limit'',
        PInt 1000)]),
     (''agg_trades'', PDict [(''rest'', PBool False), (''ws'', PBool False), (''paginated'',
        PBool False), (''max_limit'', PNone), (''retention_ms'', PNone)]),
     (''candles'', PDict [(''rest'', PBool True), (''ws'', PBool False), (''paginated'',
        PBool False), (''max_limit'', PInt 720), (''retention_ms'', PNone), (''intervals'',
        PList [PStr ''1m'', PStr ''5m'', PStr ''15m'', PStr ''30m'', PStr ''1h'', PStr ''4h'',
        PStr ''1d'', PStr ''1w''])]),
     (''funding_rate'', PDict [(''rest'', PBool False), (''ws'', PBool False), (''paginated'',
        PBool False), (''max_limit'', PNone), (''retention_ms'', PNone)]),
     (''open_interest'', PDict [(''rest'', PBool False), (''ws'', PBool False), (''paginated'',
        PBool False), (''max_limit'', PNone), (''retention_ms'', PNone), (''intervals'', PNone)]),
     (''liquidations'', PDict [(''rest'', PBool False), (''ws'', PBool False), (''paginated'',
        PBool False), (''max_limit'', PNone), (''retention_ms'', PNone), (''completeness'', PNone)]),
     (''long_short_ratio'', PDict [(''rest'', PBool False), (''ws'', PBool False), (''paginated'',
        PBool False), (''max_limit'', PNone), (''retention_ms'', PNone), (''intervals'', PNone)]),
     (''margin_tiers'', PDict [(''rest'', PBool False), (''ws'', PBool False)])]"

definition kraken_linear_caps :: pyval where [cap_defs]:
  "kraken_linear_caps = PDict [
     (''ticker'', PDict [(''rest'', PBool True), (''ws'', PBool True)]),
     (''book_ticker'', PDict [(''rest'', PBool True), (''ws'', PBool True)]),
     (''mark_price'', PDict [(''rest'', PBool True), (''ws'', PBool True)]),
     (''orderbook'', PDict [(''rest'', PBool True), (''ws'', PBool True), (''depths'', PNone),
        (''max_depth'', PInt 500)]),
     (''trades'', PDict [(''rest'', PBool True), (''ws'', PBool True), (''max_limit'',
        PInt 100)]),
     (''agg_trades'', PDict [(''rest'', PBool False), (''ws'', PBool False), (''paginated'',
        PBool False), (''max_limit'', PNone), (''retention_ms'', PNone)]),
     (''candles'', PDict [(''rest'', PBool True), (''ws'', PBool False), (''paginated'',
        PBool True), (''max_limit'', PNone), (''retention_ms'', PNone), (''intervals'',
        PList [PStr ''1m'', PStr ''5m'', PStr ''15m'', PStr ''30m'', PStr ''1h'', PStr ''4h'',
        PStr ''12h'', PStr ''1d'', PStr ''1w''])]),
     (''funding_rate'', PDict [(''rest'', PBool True), (''ws'', PBool False), (''paginated'',
        PBool True), (''max_limit'', PNone), (''retention_ms'', PNone)]),
     (''open_interest'', PDict [(''rest'', PBool True), (''ws'', PBool False), (''paginated'',
        PBool True), (''max_limit'', PNone), (''retention_ms'', PNone), (''intervals'',
        PList [PStr ''1m'', PStr ''5m'', PStr ''15m'', PStr ''30m'', PStr ''1h'', PStr ''4h'',
        PStr ''12h'', PStr ''1d''])]),
     (''liquidations'', PDict [(''rest'', PBool False), (''ws'', PBool False), (''paginated'',
        PBool False), (''max_limit'', PNone), (''retention_ms'', PNone), (''completeness'', PNone)]),
     (''long_short_ratio'', PDict [(''rest'', PBool True), (''ws'', PBool False), (''paginated'',
        PBool True), (''max_limit'', PNone), (''retention_ms'', PNone), (''intervals'',
        PList [PStr ''1m'', PStr ''5m'', PStr ''15m'', PStr ''30m'', PStr ''1h'', PStr ''4h'',
        PStr ''12h'', PStr ''1d''])]),
     (''margin_tiers'', PDict [(''rest'', PBool False), (''ws'', PBool False)])]"

definition kraken_inverse_caps :: pyval where [cap_defs]:
  "kraken_inverse_caps = PDict [
     (''ticker'', PDict [(''rest'', PBool True), (''ws'', PBool True)]),
     (''book_ticker'', PDict [(''rest'', PBool True), (''ws'', PBool True)]),
     (''mark_price'', PDict [(''rest'', PBool True), (''ws'', PBool True)]),
     (''orderbook'', PDict [(''rest'', PBool True), (''ws'', PBool True), (''depths'', PNone),
        (''max_depth'', PInt 500)]),
     (''trades'', PDict [(''rest'', PBool True), (''ws'', PBool True), (''max_limit'',
        PInt 100)]),
     (''agg_trades'', PDict [(''rest'', PBool False), (''ws'', PBool False), (''paginated'',
        PBool False), (''max_limit'', PNone), (''retention_ms'', PNone)]),
     (''candles'', PDict [(''rest'', PBool True), (''ws'', PBool False), (''paginated'',
        PBool True), (''max_limit'', PNone), (''retention_ms'', PNone), (''intervals'',
        PList [PStr ''1m'', PStr ''5m'', PStr ''15m'', PStr ''30m'', PStr ''1h'', PStr ''4h'',
        PStr ''12h'', PStr ''1d'', PStr ''1w''])]),
     (''funding_rate'', PDict [(''rest'', PBool True), (''ws'', PBool False), (''paginated'',
        PBool True), (''max_limit'', PNone), (''retention_ms'', PNone)]),
     (''open_interest'', PDict [(''rest'', PBool True), (''ws'', PBool False), (''paginated'',
        PBool True), (''max_limit'', PNone), (''retention_ms'', PNone), (''intervals'',
        PList [PStr ''1m'', PStr ''5m'', PStr ''15m'', PStr ''30m'', PStr ''1h'', PStr ''4h'',
        PStr ''12h'', PStr ''1d''])]),
     (''liquidations'', PDict [(''rest'', PBool False), (''ws'', PBool False), (''paginated'',
        PBool False), (''max_limit'', PNone), (''retention_ms'', PNone), (''completeness'', PNone)]),
     (''long_short_ratio'', PDict [(''rest'', PBool True), (''ws'', PBool False), (''paginated'',
        PBool True), (''max_limit'', PNone), (''retention_ms'', PNone), (''intervals'',
        PList [PStr ''1m'', PStr ''5m'', PStr ''15m'', PStr ''30m'', PStr ''1h'', PStr ''4h'',
        PStr ''12h'', PStr ''1d''])]),
     (''margin_tiers'', PDict [(''rest'', PBool False), (''ws'', PBool False)])]"

definition kraken_capabilities :: pyval where
  "kraken_capabilities = PDict [(''name'', PStr ''kraken''), (''markets'', PDict [
     (''spot'', kraken_spot_caps), (''linear'', kraken_linear_caps), (''inverse'', kraken_inverse_caps)])]"

section \<open>Hyperliquid\<close>

definition hyperliquid_spot_caps :: pyval where [cap_defs]:
  "hyperliquid_spot_caps = PDict [
     (''ticker'', PDict [(''rest'', PBool True), (''ws'', PBool True)]),
     (''book_ticker'', PDict [(''rest'', PBool True), (''ws'', PBool True)]),
     (''mark_price'', PDict [(''rest'', PBool False), (''ws'', PBool False)]),
     (''orderbook'', PDict [(''rest'', PBool True), (''ws'', PBool True), (''depths'',
        PList [PInt 20]), (''max_depth'', PInt 20)]),
     (''trades'', PDict [(''rest'', PBool True), (''ws'', PBool True), (''max_limit'', PInt 10)]),
     (''agg_trades'', PDict [(''rest'', PBool False), (''ws'', PBool False), (''paginated'',
        PBool False), (''max_limit'', PNone), (''retention_ms'', PNone)]),
     (''candles'', PDict [(''rest'', PBool True), (''ws'', PBool False), (''paginated'',
        PBool True), (''max_limit'', PNone), (''retention_ms'', PNone), (''intervals'',
        PList [PStr ''1m'', PStr ''3m'', PStr ''5m'', PStr ''15m'', PStr ''30m'', PStr ''1h'',
        PStr ''2h'', PStr ''4h'', PStr ''8h'', PStr ''12h'', PStr ''1d'', PStr ''3d'', PStr ''1w'',
        PStr ''1M''])]),
     (''funding_rate'', PDict [(''rest'', PBool False), (''ws'', PBool False), (''paginated'',
        PBool False), (''max_limit'', PNone), (''retention_ms'', PNone)]),
     (''open_interest'', PDict [(''rest'', PBool False), (''ws'', PBool False), (''paginated'',
        PBool False), (''max_limit'', PNone), (''retention_ms'', PNone), (''intervals'', PNone)]),
     (''liquidations'', PDict [(''rest'', PBool False), (''ws'', PBool False), (''paginated'',
        PBool False), (''max_limit'', PNone), (''retention_ms'', PNone), (''completeness'', PNone)]),
     (''long_short_ratio'', PDict [(''rest'', PBool False), (''ws'', PBool False), (''paginated'',
        PBool False), (''max_limit'', PNone), (''retention_ms'', PNone), (''intervals'', PNone)]),
     (''margin_tiers'', PDict [(''rest'', PBool False), (''ws'', PBool False)])]"

definition hyperliquid_linear_caps :: pyval where [cap_defs]:
  "hyperliquid_linear_caps = PDict [
     (''ticker'', PDict [(''rest'', PBool True), (''ws'', PBool True)]),
     (''book_ticker'', PDict [(''rest'', PBool True), (''ws'', PBool True)]),
     (''mark_price'', PDict [(''rest'', PBool True), (''ws'', PBool True)]),
     (''orderbook'', PDict [(''rest'', PBool True), (''ws'', PBool True), (''depths'',
        PList [PInt 20]), (''max_depth'', PInt 20)]),
     (''trades'', PDict [(''rest'', PBool True), (''ws'', PBool True), (''max_limit'', PInt 10)]),
     (''agg_trades'', PDict [(''rest'', PBool False), (''ws'', PBool False), (''paginated'',
        PBool False), (''max_limit'', PNone), (''retention_ms'', PNone)]),
     (''candles'', PDict [(''rest'', PBool True), (''ws'', PBool False), (''paginated'',
        PBool True), (''max_limit'', PNone), (''retention_ms'', PNone), (''intervals'',
        PList [PStr ''1m'', PStr ''3m'', PStr ''5m'', PStr ''15m'', PStr ''30m'', PStr ''1h'',
        PStr ''2h'', PStr ''4h'', PStr ''8h'', PStr ''12h'', PStr ''1d'', PStr ''3d'', PStr ''1w'',
        PStr ''1M''])]),
     (''funding_rate'', PDict [(''rest'', PBool True), (''ws'', PBool False), (''paginated'',
        PBool True), (''max_limit'', PNone), (''retention_ms'', PNone)]),
     (''open_interest'', PDict [(''rest'', PBool True), (''ws'', PBool False), (''paginated'',
        PBool False), (''max_limit'', PInt 1), (''retention_ms'', PNone), (''intervals'',
        PList [PStr ''5m'', PStr ''15m'', PStr ''30m'', PStr ''1h'', PStr ''4h'', PStr ''1d''])]),
     (''liquidations'', PDict [(''rest'', PBool False), (''ws'', PBool False), (''paginated'',
        PBool False), (''max_limit'', PNone), (''retention_ms'', PNone), (''completeness'', PNone)]),
     (''long_short_ratio'', PDict [(''rest'', PBool False), (''ws'', PBool False), (''paginated'',
        PBool False), (''max_limit'', PNone), (''retention_ms'', PNone), (''intervals'', PNone)]),
     (''margin_tiers'', PDict [(''rest'', PBool True), (''ws'', PBool False)])]"

definition hyperliquid_capabilities :: pyval where
  "hyperliquid_capabilities = PDict [(''name'', PStr ''hyperliquid''), (''markets'', PDict [
     (''spot'', hyperliquid_spot_caps), (''linear'', hyperliquid_linear_caps)])]"

section \<open>The schema of a table\<close>

text \<open>
  Every route type has its own fixed field set, and a market block lists the twelve routes in
  one order.
\<close>

definition route_fields :: "(string \<times> string list) list" where
  "route_fields = [
     (''ticker'', [''rest'', ''ws'']),
     (''book_ticker'', [''rest'', ''ws'']),
     (''mark_price'', [''rest'', ''ws'']),
     (''orderbook'', [''rest'', ''ws'', ''depths'', ''max_depth'']),
     (''trades'', [''rest'', ''ws'', ''max_limit'']),
     (''agg_trades'', [''rest'', ''ws'', ''paginated'', ''max_limit'', ''retention_ms'']),
     (''candles'', [''rest'', ''ws'', ''paginated'', ''max_limit'', ''retention_ms'', ''intervals'']),
     (''funding_rate'', [''rest'', ''ws'', ''paginated'', ''max_limit'', ''retention_ms'']),
     (''open_interest'', [''rest'', ''ws'', ''paginated'', ''max_limit'', ''retention_ms'', ''intervals'']),
     (''liquidations'', [''rest'', ''ws'', ''paginated'', ''max_limit'', ''retention_ms'', ''completeness'']),
     (''long_short_ratio'', [''rest'', ''ws'', ''paginated'', ''max_limit'', ''retention_ms'', ''intervals'']),
     (''margin_tiers'', [''rest'', ''ws''])]"

fun keys_of :: "pyval \<Rightarrow> string list" where
  "keys_of (PDict d) = dkeys d"
| "keys_of _ = []"

fun dict_items :: "pyval \<Rightarrow> (string \<times> pyval) list" where
  "dict_items (PDict d) = d"
| "dict_items _ = []"

definition field :: "pyval \<Rightarrow> string \<Rightarrow> pyval" where
  "field b k = (case py_get b k of Inr v \<Rightarrow> v | Inl _ \<Rightarrow> PNone)"

definition block_uniform :: "pyval \<Rightarrow> bool" where
  "block_uniform block \<longleftrightarrow> map (\<lambda>(r, b). (r, keys_of b)) (dict_items block) = route_fields"

fun is_str :: "pyval \<Rightarrow> bool" where
  "is_str (PStr _) = True"
| "is_str _ = False"

fun elements :: "pyval \<Rightarrow> pyval list" where
  "elements (PList xs) = xs"
| "elements _ = []"

text \<open>
  A route that is neither a REST route nor a stream declares nothing else; a REST route with an
  \<open>intervals\<close> field declares a non-empty list of strings.
\<close>

definition route_coherent :: "pyval \<Rightarrow> bool" where
  "route_coherent b \<longleftrightarrow>
     (field b ''rest'' = PBool False \<and> field b ''ws'' = PBool False \<longrightarrow>
        (\<forall>(k, v)\<in>set (dict_items b). k \<notin> {''rest'', ''ws''} \<longrightarrow> v = PNone \<or> v = PBool False))
     \<and> (field b ''rest'' = PBool True \<and> ''intervals'' \<in> set (keys_of b) \<longrightarrow>
        elements (field b ''intervals'') \<noteq> [] \<and> list_all is_str (elements (field b ''intervals'')))
     \<and> (''rest'' \<in> set (keys_of b) \<and> ''ws'' \<in> set (keys_of b))"

definition adapters_capabilities :: "pyval list" where
  "adapters_capabilities = [binance_capabilities, bybit_capabilities, okx_capabilities,
     kucoin_capabilities, kraken_capabilities, hyperliquid_capabilities]"

definition market_blocks :: "pyval \<Rightarrow> pyval list" where
  "market_blocks caps = map snd (dict_items (field caps ''markets''))"

definition all_blocks :: "pyval list" where
  "all_blocks = concat (map market_blocks adapters_capabilities)"

end
