(* ===== verification/Symbols.thy ===== *)
theory Symbols
  imports Builders
begin

text \<open>
  The symbol translations of the six adapters (\<^verbatim>\<open>exchange_router/exchanges/*/adapter.py\<close>):
  \<open>normalize_symbol\<close>, \<open>get_api_symbol\<close> and \<open>get_model_symbol\<close>. OKX and KuCoin split a spot
  symbol with the quote currencies they learned from the venue; that list is an argument, and
  the empty list stands for the fallback \<open>SPOT_QUOTES\<close>.

  The locale \<open>symbol_codec\<close> states what the routes rely on: the router symbol read back from
  the venue's name of an instrument is the one the caller asked for.
\<close>

section \<open>The contract\<close>

text \<open>\<open>wf mt s\<close> says that \<open>s\<close> is a router symbol of the market, in its normal form.\<close>

locale symbol_codec =
  fixes norm :: "string \<Rightarrow> string"
    and api :: "string \<Rightarrow> market_type \<Rightarrow> string"
    and model :: "string \<Rightarrow> market_type \<Rightarrow> string"
    and wf :: "market_type \<Rightarrow> string \<Rightarrow> bool"
  assumes reads_back: "wf mt s \<Longrightarrow> model (api s mt) mt = s"
    and normal: "wf mt s \<Longrightarrow> norm s = s"
    and spelling: "norm s = norm t \<Longrightarrow> api s mt = api t mt"
begin

lemma api_norm: "wf mt (norm t) \<Longrightarrow> api t mt = api (norm t) mt"
  by (rule spelling) (simp add: normal)

lemma resolves: "wf mt (norm t) \<Longrightarrow> model (api t mt) mt = norm t"
  by (simp add: api_norm reads_back)

lemma api_eq_iff: "wf mt (norm s) \<Longrightarrow> wf mt (norm t) \<Longrightarrow> api s mt = api t mt \<longleftrightarrow> norm s = norm t"
  by (metis resolves spelling)

end

section \<open>Text\<close>

definition flat :: "string \<Rightarrow> string" where
  "flat s = remove_char CHR ''-'' (remove_char CHR ''/'' (upper s))"

definition drop_prefix :: "string \<Rightarrow> string \<Rightarrow> string" where
  "drop_prefix p s = (if starts_with s p then drop (length p) s else s)"

definition drop_suffix :: "string \<Rightarrow> string \<Rightarrow> string" where
  "drop_suffix p s = (if ends_with s p then chop (length p) s else s)"

text \<open>The first quote of the list that ends the symbol and leaves a base.\<close>

fun split_quote :: "string list \<Rightarrow> string \<Rightarrow> (string \<times> string) option" where
  "split_quote [] s = None"
| "split_quote (q # qs) s =
     (if ends_with s q \<and> length q < length s then Some (chop (length q) s, q) else split_quote qs s)"

lemma char_upper_sep: "char_upper c = CHR ''-'' \<longleftrightarrow> c = CHR ''-''" "char_upper c = CHR ''/'' \<longleftrightarrow> c = CHR ''/''"
  and char_upper_colon: "char_upper c = CHR '':'' \<longleftrightarrow> c = CHR '':''"
proof -
  have n: "char_upper c = d \<Longrightarrow> \<not> (65 \<le> (of_char d :: nat) \<and> (of_char d :: nat) \<le> 90) \<Longrightarrow> c = d" for d
    by (auto simp: char_upper_def Let_def of_char_of split: if_splits)
  show "char_upper c = CHR ''-'' \<longleftrightarrow> c = CHR ''-''" "char_upper c = CHR ''/'' \<longleftrightarrow> c = CHR ''/''"
    "char_upper c = CHR '':'' \<longleftrightarrow> c = CHR '':''"
    using n by (auto simp: char_upper_def Let_def)
qed

lemma flat_idem [simp]: "flat (flat s) = flat s"
  by (auto simp: flat_def remove_char_def upper_def filter_map o_def char_upper_sep
      intro!: arg_cong [where f = "map char_upper"] filter_cong)

lemma remove_char_append: "remove_char c (s @ t) = remove_char c s @ remove_char c t"
  by (simp add: remove_char_def)

lemma flat_append: "flat (s @ t) = flat s @ flat t"
  by (simp add: flat_def upper_append remove_char_append)

lemma filter_idD: "filter P s = s \<Longrightarrow> c \<in> set s \<Longrightarrow> P c"
  by (simp add: filter_id_conv)

lemma length_remove_char: "length (remove_char c s) \<le> length s"
  by (simp add: remove_char_def)

lemma flat_fixed: "flat s = s \<longleftrightarrow> upper s = s \<and> CHR ''-'' \<notin> set s \<and> CHR ''/'' \<notin> set s"
proof
  assume f: "flat s = s"
  have "length (remove_char CHR ''-'' (remove_char CHR ''/'' (upper s))) = length (upper s)"
    using f by (simp add: flat_def)
  then have "remove_char CHR ''/'' (upper s) = upper s" "remove_char CHR ''-'' (upper s) = upper s"
    unfolding remove_char_def by (metis (no_types, lifting) filter_True length_filter_less le_antisym length_filter_le order_less_irrefl)+
  then show "upper s = s \<and> CHR ''-'' \<notin> set s \<and> CHR ''/'' \<notin> set s"
    using f by (auto simp: flat_def remove_char_def filter_id_conv)
next
  assume "upper s = s \<and> CHR ''-'' \<notin> set s \<and> CHR ''/'' \<notin> set s"
  then show "flat s = s" by (simp add: flat_def remove_char_id)
qed

lemma split_quote_Some:
  "split_quote qs s = Some (b, q) \<Longrightarrow> s = b @ q \<and> q \<in> set qs \<and> b \<noteq> []"
  by (induction qs) (auto simp: ends_with_chop split: if_splits, auto simp: chop_def)

lemma drop_suffix_append [simp]: "drop_suffix p (s @ p) = s"
  by (simp add: drop_suffix_def)

lemma drop_suffix_id: "\<not> ends_with s p \<Longrightarrow> drop_suffix p s = s"
  by (simp add: drop_suffix_def)

lemma drop_prefix_append [simp]: "drop_prefix p (p @ s) = s"
  by (simp add: drop_prefix_def starts_with_def)

lemma drop_prefix_id: "\<not> starts_with s p \<Longrightarrow> drop_prefix p s = s"
  by (simp add: drop_prefix_def)

lemma remove_sub_keep: "c \<notin> set b \<Longrightarrow> remove_sub (c # p) (b @ t) = b @ remove_sub (c # p) t"
  by (induction b) (auto simp: starts_with_def)

lemma remove_sub_id: "c \<notin> set b \<Longrightarrow> remove_sub (c # p) b = b"
  using remove_sub_keep [of c b p "[]"] by simp

section \<open>Binance\<close>

definition binance_get_api_symbol :: "string \<Rightarrow> market_type \<Rightarrow> string" where
  "binance_get_api_symbol symbol market_type =
     (let s = normalize_symbol symbol in
      if market_type = Inverse \<and> \<not> ends_with s ''_PERP'' then s @ ''_PERP'' else s)"

definition binance_get_model_symbol :: "string \<Rightarrow> market_type \<Rightarrow> string" where
  "binance_get_model_symbol api_symbol market_type = drop_suffix ''_PERP'' (upper api_symbol)"

definition binance_get_stream_symbol :: "string \<Rightarrow> market_type \<Rightarrow> string" where
  "binance_get_stream_symbol symbol market_type = lower (binance_get_api_symbol symbol market_type)"

definition binance_symbol :: "market_type \<Rightarrow> string \<Rightarrow> bool" where
  "binance_symbol mt s \<longleftrightarrow> flat s = s \<and> \<not> ends_with s ''_PERP''"

text \<open>The base class removes the separators before it changes the case, \<open>flat\<close> after.\<close>

lemma normalize_symbol_flat: "normalize_symbol s = flat s"
  by (auto simp: normalize_symbol_def flat_def remove_char_def upper_def filter_map o_def char_upper_sep
      intro!: arg_cong [where f = "map char_upper"] filter_cong)

interpretation binance: symbol_codec normalize_symbol binance_get_api_symbol binance_get_model_symbol binance_symbol
proof
  fix mt s
  assume wf: "binance_symbol mt s"
  then have "upper s = s" "upper (s @ ''_PERP'') = s @ ''_PERP''"
    by (simp_all add: binance_symbol_def flat_fixed upper_append) (simp add: upper_def char_upper_def)
  with wf show "binance_get_model_symbol (binance_get_api_symbol s mt) mt = s"
    by (simp add: binance_get_api_symbol_def binance_get_model_symbol_def binance_symbol_def
        normalize_symbol_flat drop_suffix_id Let_def del: drop_suffix_append)
       (metis drop_suffix_append append.assoc)
qed (auto simp: binance_symbol_def normalize_symbol_flat binance_get_api_symbol_def)

section \<open>Bybit\<close>

definition bybit_normalize_symbol :: "string \<Rightarrow> string" where
  "bybit_normalize_symbol symbol = upper symbol"

definition bybit_get_api_symbol :: "string \<Rightarrow> market_type \<Rightarrow> string" where
  "bybit_get_api_symbol symbol market_type =
     (let s = bybit_normalize_symbol symbol in
      if ends_with s ''_PERP'' then remove_sub ''_PERP'' s else s)"

definition bybit_get_model_symbol :: "string \<Rightarrow> market_type \<Rightarrow> string" where
  "bybit_get_model_symbol api_symbol market_type = drop_suffix ''_PERP'' (upper api_symbol)"

definition bybit_symbol :: "market_type \<Rightarrow> string \<Rightarrow> bool" where
  "bybit_symbol mt s \<longleftrightarrow> upper s = s \<and> \<not> ends_with s ''_PERP''"

interpretation bybit: symbol_codec bybit_normalize_symbol bybit_get_api_symbol bybit_get_model_symbol bybit_symbol
  by unfold_locales
     (auto simp: bybit_symbol_def bybit_normalize_symbol_def bybit_get_api_symbol_def bybit_get_model_symbol_def drop_suffix_id)

section \<open>OKX\<close>

definition okx_SPOT_QUOTES :: "string list" where
  "okx_SPOT_QUOTES = [''USDT'', ''USDC'', ''USD'', ''BTC'', ''ETH'', ''EUR'', ''GBP'', ''DAI'']"

definition okx_normalize_symbol :: "string \<Rightarrow> string" where
  "okx_normalize_symbol symbol = remove_char CHR ''/'' (remove_char CHR ''-'' (remove_sub ''-SWAP'' (upper symbol)))"

definition okx_get_api_symbol :: "string list \<Rightarrow> string \<Rightarrow> market_type \<Rightarrow> string" where
  "okx_get_api_symbol learned_quotes symbol market_type =
     (let s = okx_normalize_symbol symbol in
      case market_type of
        Linear \<Rightarrow> (case split_quote [''USDT'', ''USDC''] s of
            Some (b, q) \<Rightarrow> b @ ''-'' @ q @ ''-SWAP''
          | None \<Rightarrow> s @ ''-USDT-SWAP'')
      | Inverse \<Rightarrow> (if ends_with s ''USD'' \<and> 3 < length s then chop 3 s @ ''-USD-SWAP'' else s @ ''-USD-SWAP'')
      | Spot \<Rightarrow> (case split_quote (if learned_quotes = [] then okx_SPOT_QUOTES else learned_quotes) s of
            Some (b, q) \<Rightarrow> b @ ''-'' @ q
          | None \<Rightarrow> s))"

definition okx_get_model_symbol :: "string \<Rightarrow> market_type \<Rightarrow> string" where
  "okx_get_model_symbol api_symbol market_type = remove_char CHR ''-'' (remove_sub ''-SWAP'' (upper api_symbol))"

definition okx_symbol :: "string list \<Rightarrow> market_type \<Rightarrow> string \<Rightarrow> bool" where
  "okx_symbol learned_quotes mt s \<longleftrightarrow> flat s = s \<and>
     (case mt of
        Spot \<Rightarrow> \<forall>q\<in>set learned_quotes. \<not> starts_with q ''SWAP''
      | Linear \<Rightarrow> (\<exists>q\<in>{''USDT'', ''USDC''}. ends_with s q \<and> length q < length s)
      | Inverse \<Rightarrow> ends_with s ''USD'' \<and> 3 < length s)"

lemma upper_dash: "upper (b @ CHR ''-'' # q) = upper b @ CHR ''-'' # upper q"
  by (simp add: upper_def char_upper_def)

lemma upper_SWAP: "upper ''SWAP'' = ''SWAP''" "upper (q @ ''-SWAP'') = upper q @ ''-SWAP''"
  by (simp_all add: upper_def char_upper_def)

lemma okx_model_swap:
  assumes "flat (b @ q) = b @ q" "\<not> starts_with q ''SWAP''"
  shows "okx_get_model_symbol (b @ ''-'' @ q) mt = b @ q"
    and "okx_get_model_symbol (b @ ''-'' @ q @ ''-SWAP'') mt = b @ q"
proof -
  have sep: "CHR ''-'' \<notin> set b" "CHR ''-'' \<notin> set q" and up: "upper b = b" "upper q = q"
    using assms(1) by (auto simp: flat_fixed upper_append upper_def dest: append_eq_append_conv [THEN iffD1, rotated])
  have q: "\<not> starts_with (q @ t) ''SWAP''" if "t = [] \<or> t = ''-SWAP''" for t
    using assms(2) sep(2) that by (auto simp: starts_with_def take_append take_Cons' split: if_splits)
  have "remove_sub ''-SWAP'' (b @ CHR ''-'' # q @ t) = b @ CHR ''-'' # q @ remove_sub ''-SWAP'' t"
    if "t = [] \<or> t = ''-SWAP''" for t
    using q [OF that] sep by (simp add: remove_sub_keep starts_with_def)
  from this [of "[]"] this [of "''-SWAP''"]
  have "remove_sub ''-SWAP'' (b @ CHR ''-'' # q) = b @ CHR ''-'' # q"
    "remove_sub ''-SWAP'' (b @ CHR ''-'' # q @ ''-SWAP'') = b @ CHR ''-'' # q"
    by (simp_all add: starts_with_def)
  moreover have "remove_char CHR ''-'' (b @ CHR ''-'' # q) = b @ q"
    using sep by (simp add: remove_char_append remove_char_id) (simp add: remove_char_def, metis remove_char_def remove_char_id)
  ultimately show "okx_get_model_symbol (b @ ''-'' @ q) mt = b @ q"
    "okx_get_model_symbol (b @ ''-'' @ q @ ''-SWAP'') mt = b @ q"
    by (simp_all add: okx_get_model_symbol_def upper_dash upper_SWAP up)
qed

lemma split_quote_exists: "\<exists>q\<in>set qs. ends_with s q \<and> length q < length s \<Longrightarrow> \<exists>b q. split_quote qs s = Some (b, q)"
  by (induction qs) auto

interpretation okx: symbol_codec okx_normalize_symbol "okx_get_api_symbol qs" okx_get_model_symbol "okx_symbol qs" for qs
proof
  fix mt s
  assume wf: "okx_symbol qs mt s"
  then have fl: "flat s = s" and sep: "CHR ''-'' \<notin> set s" "CHR ''/'' \<notin> set s" and up: "upper s = s"
    by (simp_all add: okx_symbol_def flat_fixed)
  then show n: "okx_normalize_symbol s = s"
    by (simp add: okx_normalize_symbol_def remove_sub_id remove_char_id)
  have split: "okx_get_model_symbol (b @ ''-'' @ q) m = s" "okx_get_model_symbol (b @ ''-'' @ q @ ''-SWAP'') m = s"
    if "s = b @ q" "\<not> starts_with q ''SWAP''" for b q m
    using okx_model_swap [of b q] fl that by simp_all
  show "okx_get_model_symbol (okx_get_api_symbol qs s mt) mt = s"
  proof (cases mt)
    case Spot
    have "\<not> starts_with q ''SWAP''" if "split_quote (if qs = [] then okx_SPOT_QUOTES else qs) s = Some (b, q)" for b q
      using split_quote_Some [OF that] wf Spot
      by (auto simp: okx_symbol_def okx_SPOT_QUOTES_def starts_with_def split: if_splits)
    moreover have "okx_get_model_symbol s Spot = s"
      using sep up by (simp add: okx_get_model_symbol_def remove_sub_id remove_char_id)
    ultimately show ?thesis
      using split(1) split_quote_Some by (auto simp: okx_get_api_symbol_def n Spot split: option.splits)
  next
    case Linear
    then obtain b q where bq: "split_quote [''USDT'', ''USDC''] s = Some (b, q)"
      using wf split_quote_exists [of "[''USDT'', ''USDC'']" s] by (auto simp: okx_symbol_def)
    have "\<not> starts_with q ''SWAP''" using split_quote_Some [OF bq] by (auto simp: starts_with_def)
    then have "okx_get_model_symbol (b @ ''-'' @ q @ ''-SWAP'') Linear = s"
      using split_quote_Some [OF bq] by (intro split(2)) auto
    then show ?thesis by (simp add: okx_get_api_symbol_def n Linear bq del: split_quote.simps)
  next
    case Inverse
    then have e: "ends_with s ''USD'' \<and> 3 < length s" using wf by (simp add: okx_symbol_def)
    then have "s = chop 3 s @ ''USD''" using ends_with_chop [of s "''USD''"] by (simp add: numeral_3_eq_3)
    then have "okx_get_model_symbol (chop 3 s @ ''-'' @ ''USD'' @ ''-SWAP'') Inverse = s"
      by (intro split(2)) (simp_all add: starts_with_def)
    then show ?thesis using e by (simp add: okx_get_api_symbol_def n Inverse)
  qed
qed (simp add: okx_get_api_symbol_def)

section \<open>KuCoin\<close>

definition kucoin_SPOT_QUOTES :: "string list" where
  "kucoin_SPOT_QUOTES = [''USDT'', ''USDC'', ''TUSD'', ''USD'', ''BTC'', ''ETH'', ''EUR'', ''GBP'', ''DAI'', ''KCS'']"

definition kucoin_normalize_symbol :: "string \<Rightarrow> string" where
  "kucoin_normalize_symbol symbol =
     (let s = flat symbol in
      if ends_with s ''USDTM'' then chop 1 s
      else if ends_with s ''USDM'' then chop 1 s
      else s)"

definition kucoin_get_api_symbol :: "string list \<Rightarrow> string \<Rightarrow> market_type \<Rightarrow> string" where
  "kucoin_get_api_symbol learned_quotes symbol market_type =
     (let s = flat symbol in
      if market_type = Spot then
        (case split_quote (if learned_quotes = [] then kucoin_SPOT_QUOTES else learned_quotes) s of
           Some (b, q) \<Rightarrow> b @ ''-'' @ q
         | None \<Rightarrow> s)
      else if \<not> ends_with s ''M'' then s @ ''M'' else s)"

definition kucoin_get_model_symbol :: "string \<Rightarrow> market_type \<Rightarrow> string" where
  "kucoin_get_model_symbol api_symbol market_type = kucoin_normalize_symbol api_symbol"

definition kucoin_symbol :: "market_type \<Rightarrow> string \<Rightarrow> bool" where
  "kucoin_symbol mt s \<longleftrightarrow> flat s = s \<and>
     (if mt = Spot then \<not> ends_with s ''USDTM'' \<and> \<not> ends_with s ''USDM''
      else ends_with s ''USDT'' \<or> ends_with s ''USD'')"

lemma ends_with_iff: "ends_with s p \<longleftrightarrow> (\<exists>b. s = b @ p)"
  by (metis ends_with_append ends_with_chop)

lemma flat_dash: "flat (b @ CHR ''-'' # q) = flat (b @ q)"
  unfolding flat_append by (simp add: flat_def upper_def char_upper_def remove_char_def)

lemma flat_M: "flat (s @ ''M'') = flat s @ ''M''"
  by (simp add: flat_append) (simp add: flat_def upper_def char_upper_def remove_char_def)

interpretation kucoin: symbol_codec flat "kucoin_get_api_symbol qs" kucoin_get_model_symbol kucoin_symbol for qs
proof
  fix mt s
  assume wf: "kucoin_symbol mt s"
  then have fl: "flat s = s" by (simp add: kucoin_symbol_def)
  show "kucoin_get_model_symbol (kucoin_get_api_symbol qs s mt) mt = s"
  proof (cases "mt = Spot")
    case True
    have "flat (b @ CHR ''-'' # q) = s" if "split_quote xs s = Some (b, q)" for b q xs
      using split_quote_Some [OF that] fl by (simp add: flat_dash)
    then have "flat (kucoin_get_api_symbol qs s Spot) = s"
      by (auto simp: kucoin_get_api_symbol_def fl split: option.splits)
    then show ?thesis
      using wf True by (simp add: kucoin_get_model_symbol_def kucoin_normalize_symbol_def kucoin_symbol_def)
  next
    case False
    with wf have e: "ends_with s ''USDT'' \<or> ends_with s ''USD''" by (simp add: kucoin_symbol_def)
    then have "\<not> ends_with s ''M''" by (auto simp: ends_with_iff)
    moreover have "ends_with (s @ ''M'') ''USDTM'' \<or> ends_with (s @ ''M'') ''USDM''"
      using e by (auto simp: ends_with_iff)
    ultimately show ?thesis
      using False by (auto simp: kucoin_get_api_symbol_def kucoin_get_model_symbol_def kucoin_normalize_symbol_def fl flat_M Let_def)
  qed
qed (simp_all add: kucoin_symbol_def kucoin_get_api_symbol_def)

section \<open>Kraken\<close>

definition kraken_normalize_symbol :: "string \<Rightarrow> string" where
  "kraken_normalize_symbol symbol =
     drop_suffix ''_PERP'' (drop_prefix ''FI_'' (drop_prefix ''FF_'' (drop_prefix ''PI_'' (drop_prefix ''PF_'' (flat symbol)))))"

definition kraken_get_api_symbol :: "string \<Rightarrow> market_type \<Rightarrow> string" where
  "kraken_get_api_symbol symbol market_type =
     (let s = kraken_normalize_symbol symbol in
      if market_type = Inverse then ''PI_'' @ s
      else if market_type = Linear then ''PF_'' @ s
      else s)"

definition kraken_get_model_symbol :: "string \<Rightarrow> market_type \<Rightarrow> string" where
  "kraken_get_model_symbol api_symbol market_type =
     (let s = flat api_symbol;
          s = (if starts_with s ''PF_'' then drop 3 s
               else if starts_with s ''PI_'' then drop 3 s
               else if starts_with s ''FF_'' then drop 3 s
               else if starts_with s ''FI_'' then drop 3 s
               else s)
      in drop_suffix ''_PERP'' s)"

definition kraken_symbol :: "market_type \<Rightarrow> string \<Rightarrow> bool" where
  "kraken_symbol mt s \<longleftrightarrow> flat s = s \<and> \<not> ends_with s ''_PERP''
     \<and> (\<forall>p\<in>{''PF_'', ''PI_'', ''FF_'', ''FI_''}. \<not> starts_with s p)"

lemma starts_with_prefix:
  "starts_with (CHR ''P'' # CHR ''F'' # CHR ''_'' # s) ''PF_''" "starts_with (CHR ''P'' # CHR ''I'' # CHR ''_'' # s) ''PI_''"
  "\<not> starts_with (CHR ''P'' # CHR ''I'' # CHR ''_'' # s) ''PF_''"
  by (simp_all add: starts_with_def)

lemma flat_prefix: "flat (''PF_'' @ s) = ''PF_'' @ flat s" "flat (''PI_'' @ s) = ''PI_'' @ flat s"
  by (simp_all add: flat_append) (simp_all add: flat_def upper_def char_upper_def remove_char_def)

interpretation kraken: symbol_codec kraken_normalize_symbol kraken_get_api_symbol kraken_get_model_symbol kraken_symbol
proof
  fix mt s
  assume wf: "kraken_symbol mt s"
  then show n: "kraken_normalize_symbol s = s"
    by (simp add: kraken_normalize_symbol_def kraken_symbol_def drop_prefix_id drop_suffix_id)
  show "kraken_get_model_symbol (kraken_get_api_symbol s mt) mt = s"
    using wf flat_prefix [of s]
    by (cases mt) (simp_all add: kraken_get_api_symbol_def kraken_get_model_symbol_def kraken_symbol_def n Let_def
        drop_suffix_id starts_with_prefix)
qed (simp add: kraken_get_api_symbol_def)

section \<open>Hyperliquid\<close>

definition hyperliquid_normalize_symbol :: "string \<Rightarrow> string" where
  "hyperliquid_normalize_symbol symbol =
     upper (remove_char CHR '':'' (remove_char CHR ''-'' (remove_char CHR ''/'' symbol)))"

definition hyperliquid_get_api_symbol :: "string \<Rightarrow> market_type \<Rightarrow> string" where
  "hyperliquid_get_api_symbol symbol market_type =
     (let s = hyperliquid_normalize_symbol symbol in
      if market_type = Linear \<and> ends_with s ''USDC'' then chop 4 s else s)"

definition hyperliquid_get_model_symbol :: "string \<Rightarrow> market_type \<Rightarrow> string" where
  "hyperliquid_get_model_symbol api_symbol market_type =
     (let s = upper api_symbol in
      if market_type = Linear \<and> \<not> ends_with s ''USDC'' then s @ ''USDC'' else s)"

definition hyperliquid_symbol :: "market_type \<Rightarrow> string \<Rightarrow> bool" where
  "hyperliquid_symbol mt s \<longleftrightarrow> hyperliquid_normalize_symbol s = s \<and>
     (mt = Linear \<longrightarrow> ends_with s ''USDC'' \<and> \<not> ends_with (chop 4 s) ''USDC'')"

interpretation hyperliquid: symbol_codec hyperliquid_normalize_symbol hyperliquid_get_api_symbol
  hyperliquid_get_model_symbol hyperliquid_symbol
proof
  fix mt s
  assume wf: "hyperliquid_symbol mt s"
  then have n: "hyperliquid_normalize_symbol s = s" by (simp add: hyperliquid_symbol_def)
  then have up: "upper s = s" by (metis hyperliquid_normalize_symbol_def upper_idem)
  show "hyperliquid_get_model_symbol (hyperliquid_get_api_symbol s mt) mt = s"
  proof (cases "mt = Linear")
    case True
    with wf have e: "ends_with s ''USDC''" "\<not> ends_with (chop 4 s) ''USDC''" by (simp_all add: hyperliquid_symbol_def)
    then have "chop 4 s @ ''USDC'' = s" using ends_with_chop [of s "''USDC''"] by (simp add: eval_nat_numeral)
    moreover have "upper (chop 4 s) = chop 4 s" using up by (metis chop_def take_map upper_def)
    ultimately show ?thesis
      using e True by (simp add: hyperliquid_get_api_symbol_def hyperliquid_get_model_symbol_def n Let_def)
  next
    case False
    then show ?thesis by (simp add: hyperliquid_get_api_symbol_def hyperliquid_get_model_symbol_def n up)
  qed
qed (simp_all add: hyperliquid_symbol_def hyperliquid_get_api_symbol_def)

section \<open>The symbol map of a spot market\<close>

text \<open>
  OKX and KuCoin read the spot instruments once and keep the native name of each flat symbol,
  and the quote currencies sorted by length. A row without a name, base or quote is skipped. The
  quotes are collected in a set, whose order the language leaves open; the model keeps the order
  of the rows, and \<open>split_quote_order\<close> shows that it does not matter.
\<close>

record spot_map =
  sm_native :: "(string, pyval) dict"
  sm_quotes :: "string list"

definition spot_map_init :: spot_map where
  "spot_map_init = \<lparr>sm_native = [], sm_quotes = []\<rparr>"

definition str_upper :: "pyval \<Rightarrow> string res" where
  "str_upper v = (case v of PStr s \<Rightarrow> Inr (upper s)
     | _ \<Rightarrow> Inl (AttributeError (type_name v @ '' object has no attribute upper'')))"

definition spot_entry :: "string \<Rightarrow> string \<Rightarrow> string \<Rightarrow> pyval \<Rightarrow> (string \<times> pyval \<times> string) option res" where
  "spot_entry native_key base_key quote_key s =
     bindr (py_get s native_key) (\<lambda>native.
     bindr (py_get s base_key) (\<lambda>base.
     bindr (py_get s quote_key) (\<lambda>quote.
       if \<not> truthy native \<or> \<not> truthy base \<or> \<not> truthy quote then Inr None
       else bindr (str_upper quote) (\<lambda>q. Inr (Some (upper (py_str base @ py_str quote), native, q))))))"

definition okx_spot_entry :: "pyval \<Rightarrow> (string \<times> pyval \<times> string) option res" where
  "okx_spot_entry s = bindr (py_get s ''state'') (\<lambda>st.
     if st \<noteq> PStr ''live'' then Inr None else spot_entry ''instId'' ''baseCcy'' ''quoteCcy'' s)"

definition kucoin_spot_entry :: "pyval \<Rightarrow> (string \<times> pyval \<times> string) option res" where
  "kucoin_spot_entry s = bindr (py_get s ''enableTrading'') (\<lambda>t.
     if \<not> truthy t then Inr None else spot_entry ''symbol'' ''baseCurrency'' ''quoteCurrency'' s)"

definition build_spot_map :: "(pyval \<Rightarrow> (string \<times> pyval \<times> string) option res) \<Rightarrow> pyval \<Rightarrow> spot_map res" where
  "build_spot_map entry data =
     bindr (py_iter (py_or data (PList []))) (\<lambda>rows.
     bindr (mapr entry rows) (\<lambda>es. let entries = List.map_filter (\<lambda>e. e) es in
       Inr \<lparr>sm_native = dict_of (map (\<lambda>(k, n, _). (k, n)) entries) [],
             sm_quotes = sort_key (\<lambda>q. - int (length q)) (remdups (map (\<lambda>(_, _, q). q) entries))\<rparr>))"

text \<open>\<open>request\<close> is the \<open>_make_request\<close> call; the map is read again while it is empty.\<close>

definition ensure_spot_map :: "(pyval \<Rightarrow> (string \<times> pyval \<times> string) option res) \<Rightarrow> ('w \<Rightarrow> pyval res \<times> 'w) \<Rightarrow>
    spot_map \<Rightarrow> 'w \<Rightarrow> unit res \<times> spot_map \<times> 'w" where
  "ensure_spot_map entry request m w =
     (if sm_native m \<noteq> [] then (Inr (), m, w)
      else case request w of (r, w') \<Rightarrow>
        (case bindr r (build_spot_map entry) of
           Inl e \<Rightarrow> (Inl e, m, w')
         | Inr m' \<Rightarrow> (Inr (), m', w')))"

definition okx_resolve_symbol :: "('w \<Rightarrow> pyval res \<times> 'w) \<Rightarrow> string \<Rightarrow> market_type \<Rightarrow> spot_map \<Rightarrow> 'w \<Rightarrow>
    pyval res \<times> spot_map \<times> 'w" where
  "okx_resolve_symbol request symbol market_type m w =
     (if market_type \<noteq> Spot then (Inr (PStr (okx_get_api_symbol (sm_quotes m) symbol market_type)), m, w)
      else case ensure_spot_map okx_spot_entry request m w of
        (Inl e, m', w') \<Rightarrow>
          (if is_exception e then Inr (PStr (okx_get_api_symbol (sm_quotes m') symbol market_type)) else Inl e, m', w')
      | (Inr _, m', w') \<Rightarrow>
          (case dget (sm_native m') (flat symbol) of
             Some native \<Rightarrow> (if truthy native then Inr native else Inr (PStr (okx_get_api_symbol (sm_quotes m') symbol market_type)), m', w')
           | None \<Rightarrow> (Inr (PStr (okx_get_api_symbol (sm_quotes m') symbol market_type)), m', w')))"

definition kucoin_resolve_symbol :: "('w \<Rightarrow> pyval res \<times> 'w) \<Rightarrow> string \<Rightarrow> market_type \<Rightarrow> spot_map \<Rightarrow> 'w \<Rightarrow>
    pyval res \<times> spot_map \<times> 'w" where
  "kucoin_resolve_symbol request symbol market_type m w =
     (if market_type \<noteq> Spot then (Inr (PStr (kucoin_get_api_symbol (sm_quotes m) symbol market_type)), m, w)
      else case ensure_spot_map kucoin_spot_entry request m w of
        (Inl e, m', w') \<Rightarrow>
          (if is_exception e then Inr (PStr (kucoin_get_api_symbol (sm_quotes m') symbol market_type)) else Inl e, m', w')
      | (Inr _, m', w') \<Rightarrow>
          (case dget (sm_native m') (flat symbol) of
             Some native \<Rightarrow> (if truthy native then Inr native
                else Inl (ValueError (''Symbol '' @ symbol @ '' not listed on KuCoin spot'')), m', w')
           | None \<Rightarrow> (Inl (ValueError (''Symbol '' @ symbol @ '' not listed on KuCoin spot'')), m', w')))"

definition splits :: "string \<Rightarrow> string \<Rightarrow> bool" where
  "splits s q \<longleftrightarrow> ends_with s q \<and> length q < length s"

lemma splits_unique: "splits s p \<Longrightarrow> splits s q \<Longrightarrow> length p = length q \<Longrightarrow> p = q"
  by (auto simp: splits_def ends_with_def)

lemma split_quote_longest:
  assumes "sorted (map (\<lambda>q. - int (length q)) qs)"
  shows "split_quote qs s = Some (b, q) \<longleftrightarrow>
    q \<in> set qs \<and> splits s q \<and> b = chop (length q) s \<and> (\<forall>p\<in>set qs. splits s p \<longrightarrow> length p \<le> length q)"
  using assms
proof (induction qs)
  case (Cons x xs)
  show ?case
  proof (cases "splits s x")
    case True
    have len: "\<forall>p\<in>set xs. length p \<le> length x" using Cons.prems by auto
    have eq: "x = p" if "p \<in> set xs" "splits s p" "length x \<le> length p" for p
      using that len True by (intro splits_unique [of s]) (auto intro: le_antisym)
    have "split_quote (x # xs) s = Some (chop (length x) s, x)" using True by (simp add: splits_def)
    with True len eq show ?thesis by auto
  next
    case False
    with Cons show ?thesis by (auto simp: splits_def)
  qed
qed simp

lemma split_quote_None: "split_quote qs s = None \<longleftrightarrow> (\<forall>q\<in>set qs. \<not> splits s q)"
  by (induction qs) (auto simp: splits_def)

lemma split_quote_order:
  assumes "sorted (map (\<lambda>q. - int (length q)) ps)" "sorted (map (\<lambda>q. - int (length q)) qs)" "set ps = set qs"
  shows "split_quote ps s = split_quote qs s"
proof (cases "split_quote qs s")
  case None
  then show ?thesis using split_quote_None [of ps s] split_quote_None [of qs s] assms(3) by simp
next
  case (Some bq)
  obtain b q where "bq = (b, q)" by force
  with Some have "split_quote ps s = Some (b, q)"
    unfolding split_quote_longest [OF assms(1)] by (simp add: split_quote_longest [OF assms(2)] assms(3))
  with Some \<open>bq = (b, q)\<close> show ?thesis by simp
qed

section \<open>Properties\<close>

text \<open>Bybit does not take separators out; without any, its normal form is that of the others.\<close>

definition no_separators :: "string \<Rightarrow> bool" where
  "no_separators t \<longleftrightarrow> CHR ''-'' \<notin> set t \<and> CHR ''/'' \<notin> set t"

lemma bybit_flat: "no_separators t \<Longrightarrow> bybit_normalize_symbol t = flat t"
  by (induction t) (auto simp: no_separators_def bybit_normalize_symbol_def flat_def remove_char_def upper_def char_upper_sep)

text \<open>On the perpetuals of Hyperliquid the quote may be left out.\<close>

definition hyperliquid_full :: "market_type \<Rightarrow> string \<Rightarrow> string" where
  "hyperliquid_full mt t = (let s = hyperliquid_normalize_symbol t in
     if mt = Linear \<and> \<not> ends_with s ''USDC'' then s @ ''USDC'' else s)"

lemma hyper_normal: "hyperliquid_normalize_symbol (hyperliquid_normalize_symbol t) = hyperliquid_normalize_symbol t"
proof -
  have "hyperliquid_normalize_symbol s = filter (\<lambda>c. c \<noteq> CHR ''-'' \<and> c \<noteq> CHR ''/'' \<and> c \<noteq> CHR '':'') (upper s)" for s
    by (induction s) (auto simp: hyperliquid_normalize_symbol_def remove_char_def upper_def char_upper_sep char_upper_colon)
  moreover have "upper (filter P (upper s)) = filter P (upper s)" for P s by (induction s) (auto simp: upper_def)
  ultimately show ?thesis by simp
qed

lemma hyper_normal_append: "hyperliquid_normalize_symbol (s @ t) = hyperliquid_normalize_symbol s @ hyperliquid_normalize_symbol t"
  by (simp add: hyperliquid_normalize_symbol_def remove_char_append upper_append)

lemma hyper_full_normal: "hyperliquid_normalize_symbol (hyperliquid_full mt t) = hyperliquid_full mt t"
proof -
  have "hyperliquid_normalize_symbol ''USDC'' = ''USDC''" by code_simp
  then show ?thesis by (simp add: hyperliquid_full_def Let_def hyper_normal hyper_normal_append)
qed

lemma hyper_full_api: "hyperliquid_get_api_symbol (hyperliquid_full mt t) mt = hyperliquid_get_api_symbol t mt"
  by (simp add: hyperliquid_get_api_symbol_def hyper_full_normal) (simp add: hyperliquid_full_def Let_def)

text \<open>
  C18. On every adapter, however the caller spells a symbol of the adapter's naming scheme (case and
  separators), the router symbol read back from the venue's name for it is the normal form of what was
  asked for. The scheme leaves out: a contract suffix or prefix in the symbol itself (Binance and Bybit
  \<open>_PERP\<close>, Kraken also \<open>PF_\<close>, \<open>PI_\<close>, \<open>FF_\<close>, \<open>FI_\<close>); separators on Bybit, which keeps them; on OKX
  perpetuals that are not quoted in USDT or USDC and inverse ones not in USD; on KuCoin futures that
  are not quoted in USDT or USD, and spot pairs whose quote reads like a future's; on Hyperliquid a
  base that itself ends in USDC. There the quote of a perpetual may be left out.
\<close>

theorem symbols_read_back:
  "(binance_symbol mt (normalize_symbol t) \<longrightarrow>
      binance_get_model_symbol (binance_get_api_symbol t mt) mt = normalize_symbol t) \<and>
   (bybit_symbol mt (flat t) \<and> no_separators t \<longrightarrow>
      bybit_get_model_symbol (bybit_get_api_symbol t mt) mt = flat t) \<and>
   (okx_symbol qs mt (okx_normalize_symbol t) \<longrightarrow>
      okx_get_model_symbol (okx_get_api_symbol qs t mt) mt = okx_normalize_symbol t) \<and>
   (kucoin_symbol mt (flat t) \<longrightarrow>
      kucoin_get_model_symbol (kucoin_get_api_symbol qs t mt) mt = flat t) \<and>
   (kraken_symbol mt (kraken_normalize_symbol t) \<longrightarrow>
      kraken_get_model_symbol (kraken_get_api_symbol t mt) mt = kraken_normalize_symbol t) \<and>
   (hyperliquid_symbol mt (hyperliquid_full mt t) \<longrightarrow>
      hyperliquid_get_model_symbol (hyperliquid_get_api_symbol t mt) mt = hyperliquid_full mt t)"
  using bybit.resolves [of mt t] hyperliquid.resolves [of mt "hyperliquid_full mt t"]
  by (simp add: binance.resolves okx.resolves kucoin.resolves kraken.resolves bybit_flat hyper_full_normal hyper_full_api)

lemma symbols_read_back_witness:
  "okx_get_model_symbol (okx_get_api_symbol [] ''btc-usd'' Inverse) Inverse = ''BTCUSD'' \<and>
   kraken_get_model_symbol (kraken_get_api_symbol ''xbt/usd'' Inverse) Inverse = ''XBTUSD'' \<and>
   kucoin_get_model_symbol (kucoin_get_api_symbol [] ''xbt-usd'' Inverse) Inverse = ''XBTUSD'' \<and>
   hyperliquid_get_model_symbol (hyperliquid_get_api_symbol ''xyz:nvda'' Linear) Linear = ''XYZNVDAUSDC''"
proof -
  have n: "okx_symbol [] Inverse (okx_normalize_symbol ''btc-usd'')" "okx_normalize_symbol ''btc-usd'' = ''BTCUSD''"
    "kraken_symbol Inverse (kraken_normalize_symbol ''xbt/usd'')" "kraken_normalize_symbol ''xbt/usd'' = ''XBTUSD''"
    "kucoin_symbol Inverse (flat ''xbt-usd'')" "flat ''xbt-usd'' = ''XBTUSD''"
    "hyperliquid_symbol Linear (hyperliquid_full Linear ''xyz:nvda'')" "hyperliquid_full Linear ''xyz:nvda'' = ''XYZNVDAUSDC''"
    by code_simp+
  show ?thesis
    using symbols_read_back [of Inverse "''btc-usd''" "[]"] symbols_read_back [of Inverse "''xbt/usd''" "[]"]
      symbols_read_back [of Inverse "''xbt-usd''" "[]"] symbols_read_back [of Linear "''xyz:nvda''" "[]"] n by simp
qed



text \<open>
  The split of a spot symbol into base and quote does not depend on the order in which the
  set of learned quotes is enumerated: sorted by length, any two enumerations give the same
  venue name on OKX and on KuCoin.
\<close>

theorem learned_quote_order_irrelevant:
  assumes "sorted (map (\<lambda>q. - int (length q)) ps)" "sorted (map (\<lambda>q. - int (length q)) qs)" "set ps = set qs"
  shows "okx_get_api_symbol ps s mt = okx_get_api_symbol qs s mt
    \<and> kucoin_get_api_symbol ps s mt = kucoin_get_api_symbol qs s mt"
proof -
  have "ps = [] \<longleftrightarrow> qs = []" using assms(3) by auto
  then show ?thesis
    by (simp add: okx_get_api_symbol_def kucoin_get_api_symbol_def split_quote_order [OF assms] Let_def split: market_type.split)
qed

lemma learned_quote_order_irrelevant_witness:
  "okx_get_api_symbol [''USDT'', ''USDC'', ''USD''] ''btcusdc'' Spot = okx_get_api_symbol [''USDC'', ''USDT'', ''USD''] ''btcusdc'' Spot
    \<and> kucoin_get_api_symbol [''USDT'', ''USDC'', ''USD''] ''btcusdc'' Spot = kucoin_get_api_symbol [''USDC'', ''USDT'', ''USD''] ''btcusdc'' Spot"
  by (rule learned_quote_order_irrelevant) auto

end
