(* ===== verification/Intervals.thy ===== *)
theory Intervals
  imports Capabilities Symbols
begin

text \<open>
  The interval translations of the adapters, \<open>_interval_to_ms\<close> and the \<open>_map_*\<close> functions of
  \<^verbatim>\<open>exchange_router/exchanges/*/adapter.py\<close>, against the capability tables: whatever interval
  \<open>validate_interval\<close> lets through has a venue name of the same length in time.
\<close>

section \<open>Translations\<close>

definition interval_units :: "(char \<times> int) list \<Rightarrow> string \<Rightarrow> int" where
  "interval_units units interval =
     (if interval = [] then 0
      else case parse_int (butlast interval) of
        None \<Rightarrow> 0
      | Some val \<Rightarrow> (case map_of units (last interval) of None \<Rightarrow> 0 | Some ms \<Rightarrow> val * ms))"

definition binance_interval_to_ms :: "string \<Rightarrow> int" where
  "binance_interval_to_ms = interval_units [(CHR ''s'', 1000), (CHR ''m'', 60 * 1000), (CHR ''h'', 60 * 60 * 1000),
     (CHR ''d'', 24 * 60 * 60 * 1000), (CHR ''w'', 7 * 24 * 60 * 60 * 1000), (CHR ''M'', 30 * 24 * 60 * 60 * 1000)]"

definition month_interval_to_ms :: "string \<Rightarrow> int" where
  "month_interval_to_ms = interval_units [(CHR ''m'', 60 * 1000), (CHR ''h'', 60 * 60 * 1000),
     (CHR ''d'', 24 * 60 * 60 * 1000), (CHR ''w'', 7 * 24 * 60 * 60 * 1000), (CHR ''M'', 30 * 24 * 60 * 60 * 1000)]"

definition week_interval_to_ms :: "string \<Rightarrow> int" where
  "week_interval_to_ms = interval_units [(CHR ''m'', 60 * 1000), (CHR ''h'', 60 * 60 * 1000),
     (CHR ''d'', 24 * 60 * 60 * 1000), (CHR ''w'', 7 * 24 * 60 * 60 * 1000)]"

definition bybit_interval_to_ms :: "string \<Rightarrow> int" where "bybit_interval_to_ms = month_interval_to_ms"
definition okx_interval_to_ms :: "string \<Rightarrow> int" where "okx_interval_to_ms = month_interval_to_ms"
definition hyperliquid_interval_to_ms :: "string \<Rightarrow> int" where "hyperliquid_interval_to_ms = month_interval_to_ms"
definition kucoin_interval_to_ms :: "string \<Rightarrow> int" where "kucoin_interval_to_ms = week_interval_to_ms"
definition kraken_interval_to_ms :: "string \<Rightarrow> int" where "kraken_interval_to_ms = week_interval_to_ms"

definition bybit_map_candle_interval :: "string \<Rightarrow> string res" where
  "bybit_map_candle_interval interval =
     (if interval = ''1d'' then Inr ''D''
      else if interval = ''1w'' then Inr ''W''
      else if interval = ''1M'' then Inr ''M''
      else if ends_with interval ''m'' then Inr (butlast interval)
      else if ends_with interval ''h'' then
        (case parse_int (butlast interval) of
           None \<Rightarrow> Inl (ValueError (''invalid literal for int() with base 10: '' @ repr_str (butlast interval)))
         | Some n \<Rightarrow> Inr (show_int (n * 60)))
      else Inr interval)"

definition bybit_map_metric_interval :: "string \<Rightarrow> string" where
  "bybit_map_metric_interval interval = (if ends_with interval ''m'' then butlast interval @ ''min'' else interval)"

definition okx_map_candle_interval :: "string \<Rightarrow> string" where
  "okx_map_candle_interval interval =
     (if interval \<in> {''1h'', ''2h'', ''4h'', ''6h'', ''8h'', ''12h'', ''1d'', ''1w''} then upper interval else interval)"

definition mapped :: "string \<Rightarrow> (string \<times> 'a) list \<Rightarrow> string \<Rightarrow> 'a res" where
  "mapped venue mapping interval = (case map_of mapping interval of
       None \<Rightarrow> Inl (ValueError (venue @ '' does not support interval '' @ interval)) | Some v \<Rightarrow> Inr v)"

definition kucoin_map_spot_interval :: "string \<Rightarrow> string res" where
  "kucoin_map_spot_interval = mapped ''KuCoin'' [
     (''1m'', ''1min''), (''3m'', ''3min''), (''5m'', ''5min''), (''15m'', ''15min''), (''30m'', ''30min''),
     (''1h'', ''1hour''), (''2h'', ''2hour''), (''4h'', ''4hour''), (''6h'', ''6hour''), (''8h'', ''8hour''),
     (''12h'', ''12hour''), (''1d'', ''1day''), (''1w'', ''1week'')]"

definition kucoin_map_futures_granularity :: "string \<Rightarrow> int res" where
  "kucoin_map_futures_granularity = mapped ''KuCoin'' [
     (''1m'', 1), (''5m'', 5), (''15m'', 15), (''30m'', 30), (''1h'', 60), (''2h'', 120), (''4h'', 240),
     (''8h'', 480), (''12h'', 720), (''1d'', 1440), (''1w'', 10080)]"

definition kucoin_map_oi_interval :: "string \<Rightarrow> string res" where
  "kucoin_map_oi_interval = mapped ''KuCoin'' [
     (''5m'', ''5min''), (''15m'', ''15min''), (''30m'', ''30min''), (''1h'', ''1hour''), (''4h'', ''4hour''), (''1d'', ''1day'')]"

definition kraken_map_spot_interval :: "string \<Rightarrow> int res" where
  "kraken_map_spot_interval = mapped ''Kraken'' [
     (''1m'', 1), (''5m'', 5), (''15m'', 15), (''30m'', 30), (''1h'', 60), (''4h'', 240), (''1d'', 1440), (''1w'', 10080)]"

definition kraken_map_futures_interval :: "string \<Rightarrow> int res" where
  "kraken_map_futures_interval = mapped ''Kraken'' [
     (''1m'', 60), (''5m'', 300), (''15m'', 900), (''30m'', 1800), (''1h'', 3600), (''4h'', 14400), (''12h'', 43200),
     (''1d'', 86400), (''1w'', 604800)]"

definition kraken_map_analytics_interval :: "string \<Rightarrow> int res" where
  "kraken_map_analytics_interval = mapped ''Kraken'' [
     (''1m'', 60), (''5m'', 300), (''15m'', 900), (''30m'', 1800), (''1h'', 3600), (''4h'', 14400), (''12h'', 43200),
     (''1d'', 86400)]"

section \<open>What the tables let through\<close>

text \<open>
  \<open>declares caps mt route P\<close>: the route declares a non-empty list of intervals, and each of them
  satisfies \<open>P\<close>.
\<close>

definition declares :: "pyval \<Rightarrow> market_type \<Rightarrow> string \<Rightarrow> (string \<Rightarrow> bool) \<Rightarrow> bool" where
  "declares caps mt route P =
     (case bindr (route_block caps (market_value mt) route) (\<lambda>b. py_get b ''intervals'') of
        Inr (PList xs) \<Rightarrow> xs \<noteq> [] \<and> list_all (\<lambda>x. case x of PStr s \<Rightarrow> P s | _ \<Rightarrow> True) xs
      | _ \<Rightarrow> False)"

lemma declares_validated:
  assumes "declares caps mt route P" "validate_interval name caps mt route label v = Inr ()"
  shows "P v"
proof -
  obtain xs where xs: "bindr (route_block caps (market_value mt) route) (\<lambda>b. py_get b ''intervals'') = Inr (PList xs)"
    "xs \<noteq> []" "list_all (\<lambda>x. case x of PStr s \<Rightarrow> P s | _ \<Rightarrow> True) xs"
    using assms(1) by (auto simp: declares_def split: sum.splits pyval.splits)
  then have "PStr v \<in> set xs"
    using assms(2) by (auto simp: validate_interval_def bindr_Inr_iff split: if_splits)
  with xs(3) show ?thesis by (auto simp: list_all_iff)
qed

text \<open>The venue's name is \<open>n\<close> units of \<open>unit_ms\<close>, the same length as the router's.\<close>

definition same_length :: "(string \<Rightarrow> int res) \<Rightarrow> int \<Rightarrow> (string \<Rightarrow> int) \<Rightarrow> string \<Rightarrow> bool" where
  "same_length f unit_ms to_ms i = (case f i of Inr n \<Rightarrow> 0 < n \<and> n * unit_ms = to_ms i | Inl _ \<Rightarrow> False)"

definition suffix_ms :: "string \<Rightarrow> int option" where
  "suffix_ms name = (let ds = takeWhile is_digit name; unit = dropWhile is_digit name in
     case (parse_int ds, map_of [(''min'', 60000), (''hour'', 3600000), (''day'', 86400000), (''week'', 604800000),
         (''h'', 3600000), (''d'', 86400000 :: int)] unit) of
       (Some n, Some ms) \<Rightarrow> Some (n * ms) | _ \<Rightarrow> None)"

definition same_suffix :: "(string \<Rightarrow> string res) \<Rightarrow> (string \<Rightarrow> int) \<Rightarrow> string \<Rightarrow> bool" where
  "same_suffix f to_ms i = (case f i of Inr s \<Rightarrow> suffix_ms s = Some (to_ms i) \<and> 0 < to_ms i | Inl _ \<Rightarrow> False)"

definition bybit_candle_name_ok :: "string \<Rightarrow> bool" where
  "bybit_candle_name_ok i = (case bybit_map_candle_interval i of
       Inl _ \<Rightarrow> False
     | Inr s \<Rightarrow> 0 < bybit_interval_to_ms i \<and>
         (s, bybit_interval_to_ms i) \<in> {(''D'', 86400000), (''W'', 604800000), (''M'', 2592000000)}
         \<or> map_option (\<lambda>n. n * 60000) (parse_int s) = Some (bybit_interval_to_ms i) \<and> 0 < bybit_interval_to_ms i)"

lemma kraken_declares:
  "declares kraken_capabilities Spot ''candles'' (same_length kraken_map_spot_interval 60000 kraken_interval_to_ms)"
  "declares kraken_capabilities Linear ''candles'' (same_length kraken_map_futures_interval 1000 kraken_interval_to_ms)"
  "declares kraken_capabilities Inverse ''candles'' (same_length kraken_map_futures_interval 1000 kraken_interval_to_ms)"
  "declares kraken_capabilities Linear ''open_interest'' (same_length kraken_map_analytics_interval 1000 kraken_interval_to_ms)"
  "declares kraken_capabilities Inverse ''open_interest'' (same_length kraken_map_analytics_interval 1000 kraken_interval_to_ms)"
  "declares kraken_capabilities Linear ''long_short_ratio'' (same_length kraken_map_analytics_interval 1000 kraken_interval_to_ms)"
  "declares kraken_capabilities Inverse ''long_short_ratio'' (same_length kraken_map_analytics_interval 1000 kraken_interval_to_ms)"
  by code_simp+

lemma kucoin_declares:
  "declares kucoin_capabilities Spot ''candles'' (same_suffix kucoin_map_spot_interval kucoin_interval_to_ms)"
  "declares kucoin_capabilities Linear ''candles'' (same_length kucoin_map_futures_granularity 60000 kucoin_interval_to_ms)"
  "declares kucoin_capabilities Inverse ''candles'' (same_length kucoin_map_futures_granularity 60000 kucoin_interval_to_ms)"
  "declares kucoin_capabilities Linear ''open_interest'' (same_suffix kucoin_map_oi_interval kucoin_interval_to_ms)"
  "declares kucoin_capabilities Inverse ''open_interest'' (same_suffix kucoin_map_oi_interval kucoin_interval_to_ms)"
  by code_simp+

lemma bybit_declares:
  "declares bybit_capabilities Spot ''candles'' bybit_candle_name_ok"
  "declares bybit_capabilities Linear ''candles'' bybit_candle_name_ok"
  "declares bybit_capabilities Inverse ''candles'' bybit_candle_name_ok"
  "declares bybit_capabilities Linear ''open_interest'' (same_suffix (\<lambda>i. Inr (bybit_map_metric_interval i)) bybit_interval_to_ms)"
  "declares bybit_capabilities Inverse ''open_interest'' (same_suffix (\<lambda>i. Inr (bybit_map_metric_interval i)) bybit_interval_to_ms)"
  "declares bybit_capabilities Linear ''long_short_ratio'' (same_suffix (\<lambda>i. Inr (bybit_map_metric_interval i)) bybit_interval_to_ms)"
  "declares bybit_capabilities Inverse ''long_short_ratio'' (same_suffix (\<lambda>i. Inr (bybit_map_metric_interval i)) bybit_interval_to_ms)"
  by code_simp+

section \<open>Properties\<close>

text \<open>
  C32. Every candle interval that passes validation on Kraken, KuCoin or Bybit has a venue name:
  the translation does not raise, and the venue's interval is as long as the router's.
\<close>

theorem validated_candle_intervals_translate:
  "(validate_interval name kraken_capabilities mt ''candles'' label i = Inr () \<longrightarrow>
      same_length (if mt = Spot then kraken_map_spot_interval else kraken_map_futures_interval)
        (if mt = Spot then 60000 else 1000) kraken_interval_to_ms i) \<and>
   (validate_interval name kucoin_capabilities mt ''candles'' label i = Inr () \<longrightarrow>
      (if mt = Spot then same_suffix kucoin_map_spot_interval kucoin_interval_to_ms i
       else same_length kucoin_map_futures_granularity 60000 kucoin_interval_to_ms i)) \<and>
   (validate_interval name bybit_capabilities mt ''candles'' label i = Inr () \<longrightarrow> bybit_candle_name_ok i)"
  using kraken_declares kucoin_declares bybit_declares by (cases mt) (auto intro: declares_validated)

lemma validated_candle_intervals_translate_witness:
  "same_length kraken_map_futures_interval 1000 kraken_interval_to_ms ''12h''
    \<and> same_suffix kucoin_map_spot_interval kucoin_interval_to_ms ''3m'' \<and> bybit_candle_name_ok ''1M''"
proof -
  have "validate_interval ''kraken'' kraken_capabilities Linear ''candles'' ''interval'' ''12h'' = Inr ()"
    "validate_interval ''kucoin'' kucoin_capabilities Spot ''candles'' ''interval'' ''3m'' = Inr ()"
    "validate_interval ''bybit'' bybit_capabilities Linear ''candles'' ''interval'' ''1M'' = Inr ()"
    by code_simp+
  then show ?thesis
    using validated_candle_intervals_translate [of "''kraken''" Linear "''interval''" "''12h''"]
      validated_candle_intervals_translate [of "''kucoin''" Spot "''interval''" "''3m''"]
      validated_candle_intervals_translate [of "''bybit''" Linear "''interval''" "''1M''"] by simp
qed

text \<open>
  The same holds for the periods of the open interest and long/short ratio histories of the
  derivative markets.
\<close>

theorem validated_periods_translate:
  assumes "mt \<noteq> Spot"
  shows "(validate_interval name kraken_capabilities mt ''open_interest'' label i = Inr () \<or>
      validate_interval name kraken_capabilities mt ''long_short_ratio'' label i = Inr () \<longrightarrow>
      same_length kraken_map_analytics_interval 1000 kraken_interval_to_ms i) \<and>
   (validate_interval name kucoin_capabilities mt ''open_interest'' label i = Inr () \<longrightarrow>
      same_suffix kucoin_map_oi_interval kucoin_interval_to_ms i) \<and>
   (validate_interval name bybit_capabilities mt ''open_interest'' label i = Inr () \<or>
      validate_interval name bybit_capabilities mt ''long_short_ratio'' label i = Inr () \<longrightarrow>
      same_suffix (\<lambda>i. Inr (bybit_map_metric_interval i)) bybit_interval_to_ms i)"
  using assms kraken_declares kucoin_declares bybit_declares by (cases mt) (auto intro: declares_validated)

lemma validated_periods_translate_witness:
  "same_length kraken_map_analytics_interval 1000 kraken_interval_to_ms ''12h''
    \<and> same_suffix kucoin_map_oi_interval kucoin_interval_to_ms ''4h''"
proof -
  have "validate_interval ''kraken'' kraken_capabilities Linear ''open_interest'' ''period'' ''12h'' = Inr ()"
    "validate_interval ''kucoin'' kucoin_capabilities Linear ''open_interest'' ''period'' ''4h'' = Inr ()"
    by code_simp+
  then show ?thesis
    using validated_periods_translate [of Linear "''kraken''" "''period''" "''12h''"]
      validated_periods_translate [of Linear "''kucoin''" "''period''" "''4h''"] by simp
qed

text \<open>
  The seventeen capability tables have one schema: every market block lists the twelve routes
  in the same order, each with its route's fixed field set, an unsupported route declares nothing,
  and a REST route with intervals declares a non-empty list of strings.
\<close>

theorem capability_tables_uniform:
  "length all_blocks = 17 \<and> list_all block_uniform all_blocks
    \<and> list_all (\<lambda>b. list_all route_coherent (map snd (dict_items b))) all_blocks"
proof -
  have "length all_blocks = 17" "list_all block_uniform all_blocks"
    "list_all (\<lambda>b. list_all route_coherent (map snd (dict_items b))) all_blocks"
    by code_simp+
  then show ?thesis by blast
qed

end
