(* ===== verification/Queues.thy ===== *)
theory Queues
  imports Prelude "HOL-Library.Sublist"
begin

text \<open>
  Bounded buffers that drop their oldest message. Two components keep one: every subscriber of a
  \<open>StreamHub\<close> (\<^verbatim>\<open>exchange_router/exchanges/base.py\<close>, an \<open>asyncio.Queue\<close>), and the synchronous
  iteration of a stream, \<open>_LoopThread.iterate\<close> (\<^verbatim>\<open>exchange_router/router.py\<close>, a
  \<open>queue.Queue\<close> between two threads). A \<open>maxsize\<close> of 0 means no bound in both libraries.
  The locale \<open>drop_oldest\<close> is their contract.
\<close>

section \<open>The contract\<close>

datatype 'm buffer_op = Put 'm | Take

fun run_ops :: "('m list \<Rightarrow> 'm \<Rightarrow> 'm list) \<Rightarrow> 'm buffer_op list \<Rightarrow> 'm list \<times> 'm list \<Rightarrow> 'm list \<times> 'm list" where
  "run_ops put [] (buf, taken) = (buf, taken)"
| "run_ops put (Put m # ops) (buf, taken) = run_ops put ops (put buf m, taken)"
| "run_ops put (Take # ops) (buf, taken) =
     (case buf of [] \<Rightarrow> run_ops put ops ([], taken) | m # buf' \<Rightarrow> run_ops put ops (buf', taken @ [m]))"

fun puts :: "'m buffer_op list \<Rightarrow> 'm list" where
  "puts [] = []"
| "puts (Put m # ops) = m # puts ops"
| "puts (Take # ops) = puts ops"

lemma take_last_snoc_Suc: "length xs \<le> n \<Longrightarrow> 0 < n \<Longrightarrow> take_last n (xs @ [m]) = (if length xs < n then xs else tl xs) @ [m]"
  by (auto simp: take_last_def Suc_diff_le drop_Suc)

lemma subseq_snoc: "subseq (a @ x # b) p \<Longrightarrow> subseq (a @ b) p"
  by (rule subseq_order.trans [of _ "a @ x # b"]) (auto intro!: list_emb_append_mono)

locale drop_oldest =
  fixes put :: "nat \<Rightarrow> 'm list \<Rightarrow> 'm \<Rightarrow> 'm list"
  assumes put_newest: "0 < n \<Longrightarrow> length xs \<le> n \<Longrightarrow> put n xs m = take_last n (xs @ [m])"
    and put_unbounded: "put 0 xs m = xs @ [m]"
begin

lemma put_length: "0 < n \<Longrightarrow> length xs \<le> n \<Longrightarrow> length (put n xs m) \<le> n"
  by (simp add: put_newest)

lemma put_last: "length xs \<le> n \<or> n = 0 \<Longrightarrow> last (put n xs m) = m \<and> put n xs m \<noteq> []"
  by (cases "n = 0") (auto simp: put_unbounded put_newest take_last_snoc_Suc)

lemma put_room: "length xs < n \<Longrightarrow> put n xs m = xs @ [m]"
  by (simp add: put_newest)

lemma fold_put: "0 < n \<Longrightarrow> length xs \<le> n \<Longrightarrow> foldl (put n) xs ms = take_last n (xs @ ms)"
proof (induction ms arbitrary: xs)
  case (Cons m ms)
  then have "foldl (put n) (put n xs m) ms = take_last n (take_last n (xs @ [m]) @ ms)"
    by (simp add: put_newest)
  also have "\<dots> = take_last n ((xs @ [m]) @ ms)"
    using Cons.prems(1) by (simp only: take_last_append take_last_take_last) (simp add: min_absorb2 Suc_leI)
  finally show ?case by simp
qed simp

text \<open>
  Against any consumer: what was taken and what is left come in the order of the messages,
  without repetition, and what is left are the newest messages.
\<close>

lemma run_ops_sound:
  assumes "0 < n" "length buf \<le> n" "subseq (taken @ buf) past" "suffix buf past"
  shows "case run_ops (put n) ops (buf, taken) of (buf', taken') \<Rightarrow>
    length buf' \<le> n \<and> subseq (taken' @ buf') (past @ puts ops) \<and> suffix buf' (past @ puts ops) \<and> prefix taken taken'"
  using assms
proof (induction ops arbitrary: buf taken past)
  case (Cons op ops)
  show ?case
  proof (cases op)
    case (Put m)
    have p: "put n buf m = (if length buf < n then buf else tl buf) @ [m]"
      using Cons.prems(1,2) by (simp add: put_newest take_last_snoc_Suc)
    have "subseq (taken @ tl buf) past" using Cons.prems(3) by (cases buf) (auto dest: subseq_snoc)
    moreover have snoc: "subseq ((taken @ q) @ [m]) (past @ [m])" if "subseq (taken @ q) past" for q
      using that by (rule list_emb_append_mono) simp
    ultimately have "subseq (taken @ put n buf m) (past @ [m])"
      using Cons.prems(3) snoc [of buf] snoc [of "tl buf"] by (simp add: p)
    moreover have "suffix (tl buf) past" using Cons.prems(4) by (metis suffix_order.trans suffix_tl)
    then have "suffix (put n buf m) (past @ [m])" using Cons.prems(4) by (auto simp: p suffix_def)
    ultimately show ?thesis
      using Cons.IH [of "put n buf m" taken "past @ [m]"] Cons.prems(1,2) by (simp add: Put put_length)
  next
    case Take
    show ?thesis
    proof (cases buf)
      case Nil
      then show ?thesis using Cons.IH [of "[]" taken past] Cons.prems by (simp add: Take)
    next
      case (Cons m buf')
      have "suffix buf' past" using Cons.prems(4) Cons by (meson suffix_Cons suffix_order.trans suffix_order.refl)
      then have "case run_ops (put n) ops (buf', taken @ [m]) of (b, t) \<Rightarrow>
          length b \<le> n \<and> subseq (t @ b) (past @ puts ops) \<and> suffix b (past @ puts ops) \<and> prefix (taken @ [m]) t"
        using Cons.prems Cons by (intro Cons.IH) auto
      then show ?thesis by (auto simp: Take Cons dest: append_prefixD)
    qed
  qed
qed auto

text \<open>The newest \<open>n\<close> messages are never among the dropped ones.\<close>

lemma run_ops_keeps:
  assumes "0 < n" "length buf \<le> n" "suffix buf past" "suffix (take_last n past) (taken @ buf)"
  shows "case run_ops (put n) ops (buf, taken) of (buf', taken') \<Rightarrow> suffix (take_last n (past @ puts ops)) (taken' @ buf')"
  using assms
proof (induction ops arbitrary: buf taken past)
  case (Cons op ops)
  show ?case
  proof (cases op)
    case (Put m)
    have p: "put n buf m = (if length buf < n then buf else tl buf) @ [m]"
      using Cons.prems(1,2) by (simp add: put_newest take_last_snoc_Suc)
    have suf: "suffix (put n buf m) (past @ [m])"
      using Cons.prems(3) suffix_order.trans [OF suffix_tl Cons.prems(3)] by (auto simp: p suffix_def)
    have "suffix (take_last n (past @ [m])) (taken @ put n buf m)"
    proof (cases "length buf < n")
      case True
      have "take_last (n - 1) past = take_last (n - 1) (take_last n past)" by (simp add: take_last_take_last)
      then have "suffix (take_last (n - 1) past) (take_last n past)" by (metis suffix_drop take_last_def)
      then have "suffix (take_last (n - 1) past) (taken @ buf)" using Cons.prems(4) suffix_order.trans by blast
      then show ?thesis using True Cons.prems(1) by (auto simp: p take_last_append suffix_def)
    next
      case False
      then have "length (put n buf m) = n" using Cons.prems(1,2) by (simp add: p)
      then have "take_last n (zs @ put n buf m) = put n buf m" for zs by (simp add: take_last_append take_last_def)
      then have "take_last n (past @ [m]) = put n buf m" using suf by (metis suffix_def)
      then show ?thesis by (simp add: suffixI)
    qed
    then show ?thesis
      using Cons.IH [of "put n buf m" "past @ [m]" taken] Cons.prems(1,2) suf by (simp add: Put put_length)
  next
    case Take
    show ?thesis
    proof (cases buf)
      case Nil
      then show ?thesis using Cons.IH [of "[]" past taken] Cons.prems by (simp add: Take)
    next
      case (Cons m buf')
      have "suffix buf' past" using Cons.prems(3) Cons by (meson suffix_Cons suffix_order.trans suffix_order.refl)
      then show ?thesis using Cons.IH [of buf' past "taken @ [m]"] Cons.prems Cons by (simp add: Take)
    qed
  qed
qed simp

end

section \<open>A subscriber's queue\<close>

definition put_nowait :: "nat \<Rightarrow> 'm list \<Rightarrow> 'm \<Rightarrow> 'm list option" where
  "put_nowait maxsize q m = (if 0 < maxsize \<and> maxsize \<le> length q then None else Some (q @ [m]))"

definition get_nowait :: "'m list \<Rightarrow> ('m \<times> 'm list) option" where
  "get_nowait q = (case q of [] \<Rightarrow> None | m # rest \<Rightarrow> Some (m, rest))"

definition hub_put :: "nat \<Rightarrow> 'm list \<Rightarrow> 'm \<Rightarrow> 'm list" where
  "hub_put maxsize q m =
     (case put_nowait maxsize q m of
        Some q' \<Rightarrow> q'
      | None \<Rightarrow>
          let q1 = (case get_nowait q of None \<Rightarrow> q | Some (_, rest) \<Rightarrow> rest)
          in case put_nowait maxsize q1 m of Some q' \<Rightarrow> q' | None \<Rightarrow> q1)"

interpretation hub_queue: drop_oldest hub_put
proof
  fix n and xs :: "'a list" and m
  show "hub_put 0 xs m = xs @ [m]" by (simp add: hub_put_def put_nowait_def)
  assume "0 < n" "length xs \<le> n"
  then show "hub_put n xs m = take_last n (xs @ [m])"
    unfolding take_last_snoc_Suc [OF \<open>length xs \<le> n\<close> \<open>0 < n\<close>]
    by (cases xs) (auto simp: hub_put_def put_nowait_def get_nowait_def)
qed

section \<open>The buffer of a synchronous stream\<close>

text \<open>\<open>offer\<close> retries until there is room and counts what it drops.\<close>

function offer :: "nat \<Rightarrow> 'm list \<Rightarrow> 'm \<Rightarrow> nat \<Rightarrow> 'm list \<times> nat" where
  "offer maxsize items item dropped =
     (case put_nowait maxsize items item of
        Some items' \<Rightarrow> (items', dropped)
      | None \<Rightarrow>
          (case get_nowait items of
             Some (_, rest) \<Rightarrow> offer maxsize rest item (dropped + 1)
           | None \<Rightarrow> (items, dropped)))"
  by pat_completeness auto
termination
  by (relation "measure (\<lambda>(_, items, _, _). length items)") (auto simp: get_nowait_def split: list.splits)

declare offer.simps [simp del]

lemma offer_unfold:
  "length xs \<le> n \<Longrightarrow> 0 < n \<Longrightarrow>
    offer n xs m d = (if length xs < n then (xs @ [m], d) else (tl xs @ [m], d + 1))"
  by (cases xs) (auto simp: offer.simps [of n _ m] put_nowait_def get_nowait_def)

definition offer_items :: "nat \<Rightarrow> 'm list \<Rightarrow> 'm \<Rightarrow> 'm list" where
  "offer_items maxsize items item = fst (offer maxsize items item 0)"

interpretation stream_buffer: drop_oldest offer_items
proof
  fix n and xs :: "'a list" and m
  show "offer_items 0 xs m = xs @ [m]" by (simp add: offer_items_def offer.simps [of 0] put_nowait_def)
  assume "0 < n" "length xs \<le> n"
  then show "offer_items n xs m = take_last n (xs @ [m])"
    by (simp add: offer_items_def offer_unfold take_last_snoc_Suc)
qed

text \<open>
  \<open>pump\<close> offers every message, then the error that ended the stream, if one did, then the
  sentinel; the consuming loop yields until it meets one of the last two.
\<close>

definition STREAM_BUFFER_MAX :: nat where "STREAM_BUFFER_MAX = 1024"

datatype ('m, 'e) buffered = Item 'm | Fault 'e | Sentinel

fun un_item :: "('m, 'e) buffered \<Rightarrow> 'm" where
  "un_item (Item m) = m"

definition pump_offers :: "'m list \<Rightarrow> 'e option \<Rightarrow> ('m, 'e) buffered list" where
  "pump_offers ms err = map Item ms @ (case err of None \<Rightarrow> [] | Some e \<Rightarrow> [Fault e]) @ [Sentinel]"

text \<open>What was yielded, and how the loop ended; \<open>None\<close> while it still waits.\<close>

fun consume :: "('m, 'e) buffered list \<Rightarrow> 'm list \<times> 'e option option" where
  "consume [] = ([], None)"
| "consume (Sentinel # xs) = ([], Some None)"
| "consume (Fault e # xs) = ([], Some (Some e))"
| "consume (Item m # xs) = (let (ys, r) = consume xs in (m # ys, r))"

lemma consume_items: "consume (map Item ys @ zs) = (let (us, r) = consume zs in (ys @ us, r))"
  by (induction ys) (auto split: prod.splits)

lemma consume_offers: "consume (map Item ys @ (case err of None \<Rightarrow> [] | Some e \<Rightarrow> [Fault e]) @ [Sentinel]) = (ys, Some err)"
  by (simp add: consume_items split: option.split)

section \<open>Properties\<close>



end
