(* ===== verification/StreamHub.thy ===== *)
theory StreamHub
  imports Queues
begin

text \<open>
  \<open>StreamHub\<close> of \<^verbatim>\<open>exchange_router/exchanges/base.py\<close>: one upstream WebSocket connection shared
  by every subscriber of an adapter. A coroutine runs without interruption between two of its
  \<open>await\<close>s, and no body of \<open>async with self._lock\<close> awaits, so taking the lock never suspends:
  each such stretch of code is one event of the model. \<open>subscribe\<close> has two, before and after it
  waits for the connection; \<open>_run\<close> has one per connection attempt, per frame received, per sleep.

  Topics are strings and queues are numbered. \<open>hub_frames\<close> logs, newest first, the subscription
  payloads handed to each upstream connection, and \<open>hub_given_up\<close> the topics with a listener whose
  \<open>subscribe\<close> call timed out or was cancelled since the last connection; the code keeps neither.
\<close>

section \<open>State\<close>

datatype frame = Sub "string list" | Unsub "string list"

text \<open>Where \<open>_run\<close> waits, with its \<open>reconnect_delay\<close>, and whether a frame came (\<open>steady\<close>) while it receives.\<close>

datatype run_state = NoTask | Connecting int | Resubscribing int | Receiving int bool | Sleeping int | Finished

record 'm hub =
  hub_queues :: "(string, nat list) dict"
  hub_content :: "nat \<Rightarrow> 'm list"
  hub_subscribed :: "string set"
  hub_connected :: bool
  hub_ws :: "nat option"
  hub_closed :: bool
  hub_task :: run_state
  hub_cancelled :: bool
  hub_waiting :: "(nat \<times> string \<times> bool) list"
  hub_next_queue :: nat
  hub_next_ws :: nat
  hub_frames :: "(nat \<times> frame) list"
  hub_given_up :: "string set"

definition hub_init :: "'m hub" where
  "hub_init = \<lparr>hub_queues = [], hub_content = (\<lambda>_. []), hub_subscribed = {}, hub_connected = False,
     hub_ws = None, hub_closed = False, hub_task = NoTask, hub_cancelled = False, hub_waiting = [],
     hub_next_queue = 0, hub_next_ws = 0, hub_frames = [], hub_given_up = {}\<rparr>"

section \<open>Operations\<close>

definition topic_queues :: "'m hub \<Rightarrow> string \<Rightarrow> nat list" where
  "topic_queues h topic = (case dget (hub_queues h) topic of None \<Rightarrow> [] | Some qs \<Rightarrow> qs)"

definition send_payloads :: "frame \<Rightarrow> 'm hub \<Rightarrow> 'm hub" where
  "send_payloads f h = (case hub_ws h of None \<Rightarrow> h | Some c \<Rightarrow> h\<lparr>hub_frames := (c, f) # hub_frames h\<rparr>)"

text \<open>\<open>subscribe\<close> up to its wait; a topic that is not new returns its queue at once.\<close>

definition hub_subscribe :: "string \<Rightarrow> 'm hub \<Rightarrow> 'm hub" where
  "hub_subscribe topic h =
     (let q = hub_next_queue h;
          is_new = dget (hub_queues h) topic = None
      in h\<lparr>hub_next_queue := q + 1,
           hub_queues := dset (hub_queues h) topic (topic_queues h topic @ [q]),
           hub_task := (if \<not> hub_closed h \<and> hub_task h \<in> {NoTask, Finished} then Connecting 1 else hub_task h),
           hub_waiting := (if is_new then hub_waiting h @ [(q, topic, hub_connected h)] else hub_waiting h)\<rparr>)"

definition drop_waiter :: "nat \<Rightarrow> 'm hub \<Rightarrow> 'm hub" where
  "drop_waiter q h = h\<lparr>hub_waiting := filter (\<lambda>(p, _). p \<noteq> q) (hub_waiting h)\<rparr>"

text \<open>\<open>subscribe\<close> after the connection was up.\<close>

definition hub_resume :: "nat \<Rightarrow> string \<Rightarrow> 'm hub \<Rightarrow> 'm hub" where
  "hub_resume q topic h =
     (let h = drop_waiter q h in
      if topic \<in> hub_subscribed h then h
      else send_payloads (Sub [topic]) (h\<lparr>hub_subscribed := insert topic (hub_subscribed h)\<rparr>))"

definition hub_give_up :: "nat \<Rightarrow> string \<Rightarrow> 'm hub \<Rightarrow> 'm hub" where
  "hub_give_up q topic h = (drop_waiter q h)\<lparr>hub_given_up := insert topic (hub_given_up h)\<rparr>"

definition hub_unsubscribe :: "string \<Rightarrow> nat \<Rightarrow> 'm hub \<Rightarrow> 'm hub" where
  "hub_unsubscribe topic q h =
     (let qs = filter (\<lambda>x. x \<noteq> q) (topic_queues h topic) in
      if qs \<noteq> [] then h\<lparr>hub_queues := dset (hub_queues h) topic qs\<rparr>
      else let h = h\<lparr>hub_queues := dpop (hub_queues h) topic, hub_subscribed := hub_subscribed h - {topic},
               hub_given_up := hub_given_up h - {topic}\<rparr>
           in if hub_connected h then send_payloads (Unsub [topic]) h else h)"

text \<open>\<open>close\<close>: the task is cancelled, and ends when the cancellation reaches it.\<close>

definition task_live :: "'m hub \<Rightarrow> bool" where
  "task_live h \<longleftrightarrow> hub_task h \<notin> {NoTask, Finished}"

definition hub_close :: "'m hub \<Rightarrow> 'm hub" where
  "hub_close h = h\<lparr>hub_closed := True, hub_cancelled := hub_cancelled h \<or> task_live h\<rparr>"

text \<open>The \<open>finally\<close> block of \<open>_run\<close>, and the way on to the next attempt.\<close>

definition run_finally :: "'m hub \<Rightarrow> 'm hub" where
  "run_finally h = h\<lparr>hub_connected := False, hub_ws := None\<rparr>"

definition run_disconnected :: "int \<Rightarrow> 'm hub \<Rightarrow> 'm hub" where
  "run_disconnected delay h = (run_finally h)\<lparr>hub_task := (if hub_closed h then Finished else Sleeping delay)\<rparr>"

definition run_wake :: "int \<Rightarrow> 'm hub \<Rightarrow> 'm hub" where
  "run_wake delay h = h\<lparr>hub_task := (if hub_closed h then Finished else Connecting (min (delay * 2) 30))\<rparr>"

definition run_cancelled :: "'m hub \<Rightarrow> 'm hub" where
  "run_cancelled h = (run_finally h)\<lparr>hub_task := Finished, hub_cancelled := False\<rparr>"

text \<open>\<open>self._connected.set()\<close> wakes every waiting \<open>subscribe\<close>.\<close>

definition run_online :: "int \<Rightarrow> 'm hub \<Rightarrow> 'm hub" where
  "run_online delay h = h\<lparr>hub_connected := True, hub_task := Receiving delay False,
     hub_waiting := map (\<lambda>(q, t, _). (q, t, True)) (hub_waiting h)\<rparr>"

definition run_connected :: "int \<Rightarrow> 'm hub \<Rightarrow> 'm hub" where
  "run_connected delay h =
     (let topics = dkeys (hub_queues h);
          h = h\<lparr>hub_ws := Some (hub_next_ws h), hub_next_ws := hub_next_ws h + 1,
                hub_subscribed := set topics, hub_given_up := {}\<rparr>
      in if topics = [] then run_online delay h
         else (send_payloads (Sub topics) h)\<lparr>hub_task := Resubscribing delay\<rparr>)"

definition hub_deliver :: "nat \<Rightarrow> string \<Rightarrow> 'm \<Rightarrow> 'm hub \<Rightarrow> 'm hub" where
  "hub_deliver qsize topic msg h =
     h\<lparr>hub_content := foldl (\<lambda>c q. c(q := hub_put qsize (c q) msg)) (hub_content h) (topic_queues h topic)\<rparr>"

text \<open>
  One frame, as \<open>_parse\<close> read it (\<open>None\<close> for text that is not JSON): a frame that \<open>_route\<close> raises
  on ends the connection like any other exception.
\<close>

definition run_receive :: "nat \<Rightarrow> ('m \<Rightarrow> string option res) \<Rightarrow> int \<Rightarrow> bool \<Rightarrow> 'm option \<Rightarrow> 'm hub \<Rightarrow> 'm hub" where
  "run_receive qsize route delay steady parsed h =
     (let delay = (if steady then delay else 1);
          h = h\<lparr>hub_task := Receiving delay True\<rparr>
      in case parsed of
           None \<Rightarrow> h
         | Some msg \<Rightarrow>
             (case route msg of
                Inl e \<Rightarrow> run_disconnected delay h
              | Inr None \<Rightarrow> h
              | Inr (Some topic) \<Rightarrow> hub_deliver qsize topic msg h))"

section \<open>Events\<close>

datatype 'm hub_event =
    Subscribe string
  | Resume nat
  | TimeOut nat
  | CancelSubscribe nat
  | Unsubscribe string nat
  | ConnectOk
  | ConnectFailed
  | Resubscribed
  | Receive "'m option"
  | Disconnected
  | Wake
  | Close
  | TaskCancelled
  | Get nat

definition waiter :: "nat \<Rightarrow> 'm hub \<Rightarrow> (string \<times> bool) option" where
  "waiter q h = map_of (hub_waiting h) q"

text \<open>
  The state after an event, \<open>None\<close> where the event cannot happen. A task whose cancellation is
  pending does nothing else; only a queue that \<open>subscribe\<close> returned can be unsubscribed.
\<close>

fun hub_do :: "nat \<Rightarrow> ('m \<Rightarrow> string option res) \<Rightarrow> 'm hub_event \<Rightarrow> 'm hub \<Rightarrow> 'm hub option" where
  "hub_do qsize route (Subscribe topic) h = Some (hub_subscribe topic h)"
| "hub_do qsize route (Resume q) h = (case waiter q h of Some (t, True) \<Rightarrow> Some (hub_resume q t h) | _ \<Rightarrow> None)"
| "hub_do qsize route (TimeOut q) h = (case waiter q h of Some (t, False) \<Rightarrow> Some (hub_give_up q t h) | _ \<Rightarrow> None)"
| "hub_do qsize route (CancelSubscribe q) h = (case waiter q h of Some (t, _) \<Rightarrow> Some (hub_give_up q t h) | None \<Rightarrow> None)"
| "hub_do qsize route (Unsubscribe t q) h = (if waiter q h = None then Some (hub_unsubscribe t q h) else None)"
| "hub_do qsize route Close h = Some (hub_close h)"
| "hub_do qsize route TaskCancelled h = (if hub_cancelled h then Some (run_cancelled h) else None)"
| "hub_do qsize route (Get q) h = Some (h\<lparr>hub_content := (hub_content h)(q := drop 1 (hub_content h q))\<rparr>)"
| "hub_do qsize route e h =
     (if hub_cancelled h then None
      else case (e, hub_task h) of
        (ConnectOk, Connecting d) \<Rightarrow> Some (run_connected d h)
      | (ConnectFailed, Connecting d) \<Rightarrow> Some (run_disconnected d h)
      | (Resubscribed, Resubscribing d) \<Rightarrow> Some (run_online d h)
      | (Receive parsed, Receiving d steady) \<Rightarrow> Some (run_receive qsize route d steady parsed h)
      | (Disconnected, Receiving d steady) \<Rightarrow> Some (run_disconnected d h)
      | (Wake, Sleeping d) \<Rightarrow> Some (run_wake d h)
      | _ \<Rightarrow> None)"

inductive hub_step :: "nat \<Rightarrow> ('m \<Rightarrow> string option res) \<Rightarrow> 'm hub \<Rightarrow> 'm hub \<Rightarrow> bool"
  for qsize route where
  event: "hub_do qsize route e h = Some h' \<Longrightarrow> hub_step qsize route h h'"

inductive hub_reachable :: "nat \<Rightarrow> ('m \<Rightarrow> string option res) \<Rightarrow> 'm hub \<Rightarrow> bool" for qsize route where
  start: "hub_reachable qsize route hub_init"
| step: "hub_reachable qsize route h \<Longrightarrow> hub_step qsize route h h' \<Longrightarrow> hub_reachable qsize route h'"

inductive_cases hub_stepE: "hub_step qsize route h h'"

text \<open>A given sequence of events.\<close>

fun hub_exec :: "nat \<Rightarrow> ('m \<Rightarrow> string option res) \<Rightarrow> 'm hub_event list \<Rightarrow> 'm hub \<Rightarrow> 'm hub option" where
  "hub_exec qsize route [] h = Some h"
| "hub_exec qsize route (e # es) h = Option.bind (hub_do qsize route e h) (hub_exec qsize route es)"

lemma hub_exec_reachable:
  "hub_exec qsize route es h = Some h' \<Longrightarrow> hub_reachable qsize route h \<Longrightarrow> hub_reachable qsize route h'"
proof (induction es arbitrary: h)
  case (Cons e es)
  then obtain h1 where "hub_do qsize route e h = Some h1" "hub_exec qsize route es h1 = Some h'"
    by (auto simp: bind_eq_Some_conv)
  then show ?case using Cons.IH Cons.prems(2) hub_reachable.step hub_step.event by blast
qed simp

lemma hub_exec_append:
  "hub_exec qsize route (es @ fs) h = Option.bind (hub_exec qsize route es h) (hub_exec qsize route fs)"
  by (induction es arbitrary: h) (auto split: bind_splits)

section \<open>Invariants\<close>

text \<open>The last payload about \<open>t\<close> on connection \<open>c\<close> was a subscription.\<close>

fun mentions :: "frame \<Rightarrow> string list" where
  "mentions (Sub ts) = ts"
| "mentions (Unsub ts) = ts"

fun asked :: "nat \<Rightarrow> string \<Rightarrow> (nat \<times> frame) list \<Rightarrow> bool" where
  "asked c t [] = False"
| "asked c t ((c', f) # fs) = (if c' = c \<and> t \<in> set (mentions f) then (\<exists>ts. f = Sub ts) else asked c t fs)"

definition hub_ok :: "'m hub \<Rightarrow> bool" where
  "hub_ok h \<longleftrightarrow>
     (\<forall>t. dget (hub_queues h) t \<noteq> Some []) \<and>
     (\<forall>t. distinct (topic_queues h t) \<and> (\<forall>q\<in>set (topic_queues h t). q < hub_next_queue h)) \<and>
     (\<forall>t u q. q \<in> set (topic_queues h t) \<longrightarrow> q \<in> set (topic_queues h u) \<longrightarrow> t = u) \<and>
     (\<forall>q t w. (q, t, w) \<in> set (hub_waiting h) \<longrightarrow> q \<in> set (topic_queues h t)) \<and>
     distinct (map fst (hub_waiting h)) \<and>
     (\<forall>t\<in>hub_subscribed h. topic_queues h t \<noteq> [])"

fun has_ws :: "run_state \<Rightarrow> bool" where
  "has_ws (Resubscribing d) = True"
| "has_ws (Receiving d s) = True"
| "has_ws _ = False"

fun is_receiving :: "run_state \<Rightarrow> bool" where
  "is_receiving (Receiving d s) = True"
| "is_receiving _ = False"

fun run_delay :: "run_state \<Rightarrow> int" where
  "run_delay (Connecting d) = d"
| "run_delay (Resubscribing d) = d"
| "run_delay (Receiving d s) = d"
| "run_delay (Sleeping d) = d"
| "run_delay _ = 1"

text \<open>The connection and the task move together, and the delay doubles up to 30 seconds.\<close>

definition conn_state :: "'m hub \<Rightarrow> bool" where
  "conn_state h \<longleftrightarrow>
     (hub_ws h \<noteq> None) = has_ws (hub_task h) \<and>
     hub_connected h = is_receiving (hub_task h) \<and>
     run_delay (hub_task h) \<in> {1, 2, 4, 8, 16, 30}"

text \<open>Every topic counted as subscribed was asked for on the current connection.\<close>

definition conn_asked :: "'m hub \<Rightarrow> bool" where
  "conn_asked h \<longleftrightarrow> (\<forall>c t. hub_ws h = Some c \<longrightarrow> t \<in> hub_subscribed h \<longrightarrow> asked c t (hub_frames h))"

text \<open>A topic with listeners is subscribed, or a call that will subscribe it waits, or one gave up.\<close>

definition waiting_topics :: "'m hub \<Rightarrow> string set" where
  "waiting_topics h = (\<lambda>(q, t, w). t) ` set (hub_waiting h)"

definition conn_covers :: "'m hub \<Rightarrow> bool" where
  "conn_covers h \<longleftrightarrow> (hub_ws h \<noteq> None \<longrightarrow>
     {t. topic_queues h t \<noteq> []} \<subseteq> hub_subscribed h \<union> waiting_topics h \<union> hub_given_up h)"

definition conn_ok :: "'m hub \<Rightarrow> bool" where
  "conn_ok h \<longleftrightarrow> conn_state h \<and> conn_asked h \<and> conn_covers h"

lemma topic_queues_simps [simp]:
  "topic_queues (h\<lparr>hub_queues := dset d t qs\<rparr>) u = (if u = t then qs else topic_queues (h\<lparr>hub_queues := d\<rparr>) u)"
  "topic_queues (h\<lparr>hub_queues := dpop d t\<rparr>) u = (if u = t then [] else topic_queues (h\<lparr>hub_queues := d\<rparr>) u)"
  "topic_queues (h\<lparr>hub_queues := hub_queues h'\<rparr>) u = topic_queues h' u"
  "topic_queues (h\<lparr>hub_content := c\<rparr>) u = topic_queues h u"
  "topic_queues (h\<lparr>hub_subscribed := s\<rparr>) u = topic_queues h u"
  "topic_queues (h\<lparr>hub_connected := b\<rparr>) u = topic_queues h u"
  "topic_queues (h\<lparr>hub_ws := w\<rparr>) u = topic_queues h u"
  "topic_queues (h\<lparr>hub_closed := b\<rparr>) u = topic_queues h u"
  "topic_queues (h\<lparr>hub_task := k\<rparr>) u = topic_queues h u"
  "topic_queues (h\<lparr>hub_cancelled := b\<rparr>) u = topic_queues h u"
  "topic_queues (h\<lparr>hub_waiting := ws\<rparr>) u = topic_queues h u"
  "topic_queues (h\<lparr>hub_next_queue := n\<rparr>) u = topic_queues h u"
  "topic_queues (h\<lparr>hub_next_ws := n\<rparr>) u = topic_queues h u"
  "topic_queues (h\<lparr>hub_frames := fs\<rparr>) u = topic_queues h u"
  "topic_queues (h\<lparr>hub_given_up := g\<rparr>) u = topic_queues h u"
  by (simp_all add: topic_queues_def)

lemma topic_known: "hub_ok h \<Longrightarrow> dget (hub_queues h) t = None \<longleftrightarrow> topic_queues h t = []"
  by (auto simp: topic_queues_def hub_ok_def split: option.splits)

lemma topics_of: "hub_ok h \<Longrightarrow> set (dkeys (hub_queues h)) = {t. topic_queues h t \<noteq> []}"
proof -
  assume ok: "hub_ok h"
  have "t \<in> set (dkeys (hub_queues h)) \<longleftrightarrow> topic_queues h t \<noteq> []" for t
    using topic_known [OF ok, of t] dget_None_iff [of "hub_queues h" t] by argo
  then show ?thesis by blast
qed

lemma waiterD: "waiter q h = Some (t, w) \<Longrightarrow> (q, t, w) \<in> set (hub_waiting h)"
  by (simp add: waiter_def map_of_SomeD)

lemma waiter_None: "waiter q h = None \<longleftrightarrow> (\<forall>t w. (q, t, w) \<notin> set (hub_waiting h))"
  by (force simp: waiter_def map_of_eq_None_iff)

lemma distinct_map_filter: "distinct (map f xs) \<Longrightarrow> distinct (map f (filter P xs))"
  by (induction xs) auto

lemma hub_init_ok [simp]: "hub_ok hub_init" "conn_ok hub_init"
  by (simp_all add: hub_ok_def conn_ok_def conn_state_def conn_asked_def conn_covers_def hub_init_def topic_queues_def)

lemma hub_okD:
  assumes "hub_ok h"
  shows "dget (hub_queues h) t \<noteq> Some []"
    and "distinct (topic_queues h t)"
    and "q \<in> set (topic_queues h t) \<Longrightarrow> q < hub_next_queue h"
    and "q \<in> set (topic_queues h t) \<Longrightarrow> q \<in> set (topic_queues h u) \<Longrightarrow> t = u"
    and "(q, t, w) \<in> set (hub_waiting h) \<Longrightarrow> q \<in> set (topic_queues h t)"
    and "distinct (map fst (hub_waiting h))"
    and "t \<in> hub_subscribed h \<Longrightarrow> topic_queues h t \<noteq> []"
  using assms unfolding hub_ok_def by blast+

lemma waiting_topic: "hub_ok h \<Longrightarrow> (q, t, w) \<in> set (hub_waiting h) \<Longrightarrow> topic_queues h t \<noteq> []"
  using hub_okD(5) by fastforce

lemma hub_subscribe_ok:
  assumes "hub_ok h"
  shows "hub_ok (hub_subscribe t h)"
proof -
  have "q < hub_next_queue h" if "(q, u, w) \<in> set (hub_waiting h)" for q u w
    using hub_okD(3) [OF assms hub_okD(5) [OF assms that]] .
  then have "hub_next_queue h \<notin> fst ` set (hub_waiting h)" by force
  with hub_okD [OF assms] show ?thesis
    unfolding hub_ok_def hub_subscribe_def Let_def by (auto intro: less_SucI dest: less_imp_neq)
qed

lemma hub_resume_ok:
  assumes "hub_ok h" "waiter q h = Some (t, w)"
  shows "hub_ok (hub_resume q t h)"
  using hub_okD [OF assms(1)] waiting_topic [OF assms(1) waiterD [OF assms(2)]]
  by (auto simp: hub_ok_def hub_resume_def drop_waiter_def send_payloads_def Let_def distinct_map_filter split: option.split)

lemma hub_give_up_ok:
  assumes "hub_ok h"
  shows "hub_ok (hub_give_up q t h)"
  using hub_okD [OF assms] by (auto simp: hub_ok_def hub_give_up_def drop_waiter_def distinct_map_filter)

lemma send_payloads_ok: "hub_ok (send_payloads f h) = hub_ok h"
  by (simp add: hub_ok_def send_payloads_def split: option.split)

lemma hub_unsubscribe_ok:
  assumes "hub_ok h" "waiter q h = None"
  shows "hub_ok (hub_unsubscribe t q h)"
proof -
  let ?qs = "filter (\<lambda>x. x \<noteq> q) (topic_queues h t)"
  have kept: "p \<in> set ?qs" if "(p, t, w) \<in> set (hub_waiting h)" for p w
    using hub_okD(5) [OF assms(1) that] assms(2) that by (auto simp: waiter_None)
  show ?thesis
  proof (cases "?qs = []")
    case True
    let ?h = "h\<lparr>hub_queues := dpop (hub_queues h) t, hub_subscribed := hub_subscribed h - {t},
      hub_given_up := hub_given_up h - {t}\<rparr>"
    have "u \<noteq> t" if "(p, u, w) \<in> set (hub_waiting h)" for p u w using kept [of p w] that True by auto
    with hub_okD [OF assms(1)] have "hub_ok ?h" by (simp add: hub_ok_def)
    with True show ?thesis by (simp add: hub_unsubscribe_def Let_def send_payloads_ok)
  next
    case False
    with hub_okD [OF assms(1)] kept have "hub_ok (h\<lparr>hub_queues := dset (hub_queues h) t ?qs\<rparr>)"
      by (simp add: hub_ok_def) blast
    with False show ?thesis by (simp add: hub_unsubscribe_def Let_def)
  qed
qed

lemma run_online_ok:
  assumes "hub_ok h"
  shows "hub_ok (run_online d h)"
proof -
  have "fst \<circ> (\<lambda>(q, t, _ :: bool). (q :: nat, t :: string, True)) = fst" by auto
  with hub_okD [OF assms] show ?thesis by (auto simp: hub_ok_def run_online_def)
qed

lemma run_connected_ok:
  assumes "hub_ok h"
  shows "hub_ok (run_connected d h)"
proof -
  let ?h = "h\<lparr>hub_ws := Some (hub_next_ws h), hub_next_ws := hub_next_ws h + 1,
    hub_subscribed := set (dkeys (hub_queues h)), hub_given_up := {}\<rparr>"
  have ok: "hub_ok ?h" using hub_okD [OF assms] topics_of [OF assms] by (auto simp: hub_ok_def)
  then have "hub_ok ((send_payloads f ?h)\<lparr>hub_task := k\<rparr>)" for f k
    by (simp add: hub_ok_def send_payloads_def)
  with run_online_ok [OF ok] show ?thesis unfolding run_connected_def Let_def by presburger
qed

lemma run_disconnected_ok: "hub_ok h \<Longrightarrow> hub_ok (run_disconnected d h)"
  by (simp add: hub_ok_def run_disconnected_def run_finally_def)

lemma run_receive_ok: "hub_ok h \<Longrightarrow> hub_ok (run_receive n route d s m h)"
  by (auto simp: hub_ok_def run_receive_def run_disconnected_def run_finally_def hub_deliver_def Let_def
      split: option.split sum.split)

lemmas hub_ok_ops = hub_subscribe_ok hub_resume_ok hub_give_up_ok hub_unsubscribe_ok run_connected_ok run_online_ok
  run_disconnected_ok run_receive_ok

lemma hub_do_ok: "hub_do n route e h = Some h' \<Longrightarrow> hub_ok h \<Longrightarrow> hub_ok h'"
  by (cases e) (auto simp: hub_ok_ops run_cancelled_def run_wake_def run_finally_def hub_close_def
      split: option.splits bool.splits if_splits run_state.splits, auto simp: hub_ok_def)

lemma hub_reachable_ok: "hub_reachable n route h \<Longrightarrow> hub_ok h"
  by (induction rule: hub_reachable.induct) (auto elim!: hub_stepE dest: hub_do_ok)

lemma run_receive_cases:
  fixes h :: "'m hub"
  defines "d' \<equiv> (\<lambda>s d. if s then d else 1)"
  shows "run_receive n route d s p h = h\<lparr>hub_task := Receiving (d' s d) True\<rparr>
    \<or> run_receive n route d s p h = run_disconnected (d' s d) (h\<lparr>hub_task := Receiving (d' s d) True\<rparr>)
    \<or> (\<exists>c. run_receive n route d s p h = h\<lparr>hub_task := Receiving (d' s d) True, hub_content := c\<rparr>)"
  by (cases p) (auto simp: run_receive_def hub_deliver_def Let_def d'_def split: option.splits sum.splits)

text \<open>Every event is one of the operations.\<close>

lemma hub_do_cases:
  assumes "hub_do n route e h = Some h'"
  obtains t where "h' = hub_subscribe t h"
  | q t w where "waiter q h = Some (t, w)" "h' = hub_resume q t h"
  | q t w where "waiter q h = Some (t, w)" "h' = hub_give_up q t h"
  | t q where "waiter q h = None" "h' = hub_unsubscribe t q h"
  | "h' = hub_close h"
  | "h' = run_cancelled h"
  | c where "h' = h\<lparr>hub_content := c\<rparr>"
  | d where "hub_task h = Connecting d" "h' = run_connected d h"
  | d where "\<not> has_ws (hub_task h)" "run_delay (hub_task h) = d" "h' = run_disconnected d h"
  | d where "hub_task h = Resubscribing d" "h' = run_online d h"
  | d s where "hub_task h = Receiving d s" "h' = run_disconnected d h"
  | d s p where "hub_task h = Receiving d s" "h' = run_receive n route d s p h"
  | d where "hub_task h = Sleeping d" "h' = run_wake d h"
proof (cases e)
  case (Resume q) with assms that(2) show thesis by (auto split: option.splits bool.splits)
next
  case (TimeOut q) with assms that(3) show thesis by (auto split: option.splits bool.splits)
next
  case (CancelSubscribe q) with assms that(3) show thesis by (auto split: option.splits)
next
  case (Receive p) with assms that(12) show thesis by (auto split: if_splits run_state.splits)
qed (use assms that in \<open>auto split: if_splits run_state.splits\<close>)

lemma conn_state_cong:
  "hub_ws h' = hub_ws h \<Longrightarrow> hub_task h' = hub_task h \<Longrightarrow> hub_connected h' = hub_connected h \<Longrightarrow> conn_state h' = conn_state h"
  by (simp add: conn_state_def)

lemma send_payloads_simps [simp]:
  "hub_ws (send_payloads f h) = hub_ws h" "hub_task (send_payloads f h) = hub_task h"
  "hub_connected (send_payloads f h) = hub_connected h" "hub_subscribed (send_payloads f h) = hub_subscribed h"
  "hub_queues (send_payloads f h) = hub_queues h" "hub_waiting (send_payloads f h) = hub_waiting h"
  "hub_given_up (send_payloads f h) = hub_given_up h" "hub_closed (send_payloads f h) = hub_closed h"
  "hub_content (send_payloads f h) = hub_content h" "hub_cancelled (send_payloads f h) = hub_cancelled h"
  "topic_queues (send_payloads f h) t = topic_queues h t"
  "hub_frames (send_payloads f h) = (case hub_ws h of None \<Rightarrow> hub_frames h | Some c \<Rightarrow> (c, f) # hub_frames h)"
  by (simp_all add: send_payloads_def split: option.split)

lemma conn_ok_subscribe:
  assumes "conn_ok h" "hub_ok h"
  shows "conn_ok (hub_subscribe t h)"
proof -
  let ?h = "hub_subscribe t h"
  have sel: "hub_ws ?h = hub_ws h" "hub_connected ?h = hub_connected h" "hub_subscribed ?h = hub_subscribed h"
    "hub_frames ?h = hub_frames h" "hub_given_up ?h = hub_given_up h"
    "hub_task ?h = (if \<not> hub_closed h \<and> hub_task h \<in> {NoTask, Finished} then Connecting 1 else hub_task h)"
    "waiting_topics ?h = (if topic_queues h t = [] then insert t (waiting_topics h) else waiting_topics h)"
    "topic_queues ?h u = (if u = t then topic_queues h t @ [hub_next_queue h] else topic_queues h u)" for u
    by (simp_all add: hub_subscribe_def waiting_topics_def Let_def topic_known [OF assms(2)])
  have "conn_state ?h" using assms(1) unfolding conn_ok_def conn_state_def sel by (cases "hub_task h") simp_all
  moreover have "conn_asked ?h" using assms(1) unfolding conn_ok_def conn_asked_def sel by simp
  moreover have "conn_covers ?h" using assms(1) unfolding conn_ok_def conn_covers_def sel by auto
  ultimately show ?thesis by (simp add: conn_ok_def)
qed

lemma drop_waiter_simps [simp]:
  "hub_ws (drop_waiter q h) = hub_ws h" "hub_task (drop_waiter q h) = hub_task h"
  "hub_connected (drop_waiter q h) = hub_connected h" "hub_subscribed (drop_waiter q h) = hub_subscribed h"
  "hub_frames (drop_waiter q h) = hub_frames h" "hub_given_up (drop_waiter q h) = hub_given_up h"
  "topic_queues (drop_waiter q h) t = topic_queues h t"
  by (simp_all add: drop_waiter_def)

lemma waiting_after_drop:
  assumes "waiter q h = Some (t, w)" "distinct (map fst (hub_waiting h))"
  shows "waiting_topics h \<subseteq> insert t (waiting_topics (drop_waiter q h))"
proof
  fix u assume "u \<in> waiting_topics h"
  then obtain p v where m: "(p, u, v) \<in> set (hub_waiting h)" by (auto simp: waiting_topics_def)
  show "u \<in> insert t (waiting_topics (drop_waiter q h))"
  proof (cases "p = q")
    case True
    then show ?thesis using m assms by (simp add: waiter_def)
  next
    case False
    then show ?thesis using m by (force simp: drop_waiter_def waiting_topics_def)
  qed
qed

lemma conn_ok_resume:
  assumes ok: "conn_ok h" "hub_ok h" and w: "waiter q h = Some (t, w)"
  shows "conn_ok (hub_resume q t h)"
proof -
  let ?h = "hub_resume q t h"
  have sel: "hub_ws ?h = hub_ws h" "hub_connected ?h = hub_connected h" "hub_task ?h = hub_task h"
    "hub_subscribed ?h = insert t (hub_subscribed h)" "hub_given_up ?h = hub_given_up h"
    "hub_frames ?h = (if t \<in> hub_subscribed h then hub_frames h
       else case hub_ws h of None \<Rightarrow> hub_frames h | Some c \<Rightarrow> (c, Sub [t]) # hub_frames h)"
    "waiting_topics ?h = waiting_topics (drop_waiter q h)" "topic_queues ?h u = topic_queues h u" for u
    by (auto simp: hub_resume_def Let_def waiting_topics_def split: option.split)
  have "conn_state ?h" using ok(1) unfolding conn_ok_def conn_state_def sel by simp
  moreover have "conn_asked ?h" using ok(1) unfolding conn_ok_def conn_asked_def sel by auto
  moreover have "conn_covers ?h"
    using ok(1) waiting_after_drop [OF w hub_okD(6) [OF ok(2)]] unfolding conn_ok_def conn_covers_def sel by blast
  ultimately show ?thesis by (simp add: conn_ok_def)
qed

lemma conn_ok_give_up:
  assumes ok: "conn_ok h" "hub_ok h" and w: "waiter q h = Some (t, w)"
  shows "conn_ok (hub_give_up q t h)"
proof -
  let ?h = "hub_give_up q t h"
  have sel: "hub_ws ?h = hub_ws h" "hub_connected ?h = hub_connected h" "hub_task ?h = hub_task h"
    "hub_subscribed ?h = hub_subscribed h" "hub_given_up ?h = insert t (hub_given_up h)" "hub_frames ?h = hub_frames h"
    "waiting_topics ?h = waiting_topics (drop_waiter q h)" "topic_queues ?h u = topic_queues h u" for u
    by (simp_all add: hub_give_up_def waiting_topics_def)
  have "conn_covers ?h"
    using ok(1) waiting_after_drop [OF w hub_okD(6) [OF ok(2)]] unfolding conn_ok_def conn_covers_def sel by blast
  then show ?thesis using ok(1) by (simp add: conn_ok_def conn_state_def conn_asked_def sel)
qed

lemma conn_ok_unsubscribe:
  assumes "conn_ok h"
  shows "conn_ok (hub_unsubscribe t q h)"
proof -
  let ?h = "hub_unsubscribe t q h" and ?qs = "filter (\<lambda>x. x \<noteq> q) (topic_queues h t)"
  have sel: "hub_ws ?h = hub_ws h" "hub_connected ?h = hub_connected h" "hub_task ?h = hub_task h"
    "hub_subscribed ?h = (if ?qs = [] then hub_subscribed h - {t} else hub_subscribed h)"
    "hub_given_up ?h = (if ?qs = [] then hub_given_up h - {t} else hub_given_up h)" "waiting_topics ?h = waiting_topics h"
    "topic_queues ?h u = (if u = t then ?qs else topic_queues h u)" for u
    by (simp_all add: hub_unsubscribe_def Let_def waiting_topics_def)
  have "conn_state ?h" using assms unfolding conn_ok_def conn_state_def sel by simp
  moreover have "conn_asked ?h"
    using assms by (auto simp: conn_ok_def conn_asked_def hub_unsubscribe_def Let_def)
  moreover have "conn_covers ?h"
  proof -
    have "?qs \<noteq> [] \<Longrightarrow> topic_queues h t \<noteq> []" by auto
    then show ?thesis using assms unfolding conn_ok_def conn_covers_def sel by auto
  qed
  ultimately show ?thesis by (simp add: conn_ok_def)
qed

lemma conn_ok_no_ws:
  assumes "\<not> has_ws (hub_task h)" "hub_ws h = None" "\<not> hub_connected h" "run_delay (hub_task h) \<in> {1, 2, 4, 8, 16, 30}"
  shows "conn_ok h"
  using assms by (auto simp: conn_ok_def conn_state_def conn_asked_def conn_covers_def elim: has_ws.elims)

lemma conn_ok_disconnected: "d \<in> {1, 2, 4, 8, 16, 30} \<Longrightarrow> conn_ok (run_disconnected d h)"
  by (rule conn_ok_no_ws) (auto simp: run_disconnected_def run_finally_def)

lemma conn_ok_wake:
  assumes "conn_ok h" "hub_task h = Sleeping d"
  shows "conn_ok (run_wake d h)"
  using assms by (intro conn_ok_no_ws) (auto simp: run_wake_def conn_ok_def conn_state_def)

lemma conn_ok_online:
  assumes "conn_asked h" "conn_covers h" "hub_ws h \<noteq> None" "d \<in> {1, 2, 4, 8, 16, 30}"
  shows "conn_ok (run_online d h)"
proof -
  have "waiting_topics (run_online d h) = waiting_topics h"
    by (force simp: run_online_def waiting_topics_def)
  with assms show ?thesis
    by (auto simp: conn_ok_def conn_state_def conn_asked_def conn_covers_def run_online_def)
qed

lemma conn_ok_connected:
  assumes "hub_ok h" "d \<in> {1, 2, 4, 8, 16, 30}" "\<not> hub_connected h"
  shows "conn_ok (run_connected d h)"
proof -
  define k where "k = h\<lparr>hub_ws := Some (hub_next_ws h), hub_next_ws := hub_next_ws h + 1,
    hub_subscribed := set (dkeys (hub_queues h)), hub_given_up := {}\<rparr>"
  have keys: "set (dkeys (hub_queues h)) = {t. topic_queues h t \<noteq> []}" using topics_of [OF assms(1)] .
  have covers: "conn_covers k" using keys by (auto simp: conn_covers_def k_def)
  show ?thesis
  proof (cases "dkeys (hub_queues h) = []")
    case True
    then have "conn_asked k" by (simp add: conn_asked_def k_def)
    then show ?thesis
      using True covers assms(2) conn_ok_online [of k d] by (simp add: run_connected_def Let_def k_def)
  next
    case False
    then have eq: "run_connected d h = (send_payloads (Sub (dkeys (hub_queues h))) k)\<lparr>hub_task := Resubscribing d\<rparr>"
      by (simp add: run_connected_def Let_def k_def)
    show ?thesis
      unfolding eq using keys assms(2,3)
      by (auto simp: conn_ok_def conn_state_def conn_asked_def conn_covers_def k_def)
  qed
qed

lemma hub_do_conn_ok:
  assumes step: "hub_do n route e h = Some h'" and ok: "conn_ok h" "hub_ok h"
  shows "conn_ok h'"
proof -
  have st: "conn_state h" using ok(1) by (simp add: conn_ok_def)
  have same: "conn_ok k" if "hub_ws k = hub_ws h" "hub_connected k = hub_connected h" "hub_task k = hub_task h"
    "hub_subscribed k = hub_subscribed h" "hub_given_up k = hub_given_up h" "hub_waiting k = hub_waiting h"
    "hub_frames k = hub_frames h" "hub_queues k = hub_queues h" for k
    using ok(1) that by (simp add: conn_ok_def conn_state_def conn_asked_def conn_covers_def waiting_topics_def topic_queues_def)
  show ?thesis using step
  proof (cases rule: hub_do_cases)
    case 5 show ?thesis unfolding 5 by (rule same) (simp_all add: hub_close_def)
  next
    case (7 c) show ?thesis unfolding 7 by (rule same) simp_all
  next
    case 6 then show ?thesis by (auto simp: run_cancelled_def run_finally_def intro: conn_ok_no_ws)
  next
    case (8 d) then show ?thesis using st ok(2) by (auto simp: conn_state_def intro!: conn_ok_connected)
  next
    case (9 d) then show ?thesis using st by (auto simp: conn_state_def intro!: conn_ok_disconnected)
  next
    case (10 d)
    moreover have "conn_asked h" "conn_covers h" using ok(1) by (simp_all add: conn_ok_def)
    ultimately show ?thesis using st by (auto simp: conn_state_def intro!: conn_ok_online)
  next
    case (11 d s) then show ?thesis using st by (auto simp: conn_state_def intro!: conn_ok_disconnected)
  next
    case (12 d s p)
    define d' where "d' = (if s then d else 1)"
    have d: "d' \<in> {1, 2, 4, 8, 16, 30}" using st 12 by (auto simp: conn_state_def d'_def)
    have "conn_ok (h\<lparr>hub_task := Receiving d' True, hub_content := c\<rparr>)" for c
      using ok(1) 12 d by (auto simp: conn_ok_def conn_state_def conn_asked_def conn_covers_def waiting_topics_def)
    note recv = this this [of "hub_content h", simplified]
    have disc: "conn_ok (run_disconnected d' k)" for k :: "'a hub" using d by (rule conn_ok_disconnected)
    from run_receive_cases [of n route d s p h] show ?thesis
      unfolding 12(2) d'_def [symmetric] using recv disc by metis
  qed (use ok in \<open>auto simp: conn_ok_subscribe conn_ok_resume conn_ok_give_up conn_ok_unsubscribe conn_ok_wake\<close>)
qed

lemma hub_reachable_conn_ok: "hub_reachable n route h \<Longrightarrow> conn_ok h"
  by (induction rule: hub_reachable.induct) (auto elim!: hub_stepE dest: hub_do_conn_ok hub_reachable_ok)

section \<open>Messages\<close>

text \<open>The messages that a sequence of events routes to a topic.\<close>

fun event_message :: "('m \<Rightarrow> string option res) \<Rightarrow> string \<Rightarrow> 'm hub_event \<Rightarrow> 'm list" where
  "event_message route t (Receive (Some m)) = (if route m = Inr (Some t) then [m] else [])"
| "event_message route t e = []"

definition routed :: "('m \<Rightarrow> string option res) \<Rightarrow> string \<Rightarrow> 'm hub_event list \<Rightarrow> 'm list" where
  "routed route t es = concat (map (event_message route t) es)"

fun touches :: "nat \<Rightarrow> 'm hub_event \<Rightarrow> bool" where
  "touches q (Unsubscribe t p) = (p = q)"
| "touches q (Get p) = (p = q)"
| "touches q _ = False"

lemma deliver_content:
  assumes "distinct qs"
  shows "foldl (\<lambda>c q. c(q := hub_put n (c q) m)) c qs q = (if q \<in> set qs then hub_put n (c q) m else c q)"
  using assms by (induction qs arbitrary: c) auto

lemma topic_queues_run [simp]:
  "topic_queues (run_disconnected d h) u = topic_queues h u" "topic_queues (run_connected d h) u = topic_queues h u"
  "topic_queues (run_online d h) u = topic_queues h u" "topic_queues (run_wake d h) u = topic_queues h u"
  "topic_queues (run_cancelled h) u = topic_queues h u" "topic_queues (hub_close h) u = topic_queues h u"
  "topic_queues (hub_give_up q t h) u = topic_queues h u" "topic_queues (hub_resume q t h) u = topic_queues h u"
  "topic_queues (run_receive n route d s p h) u = topic_queues h u"
  by (auto simp: run_disconnected_def run_finally_def run_connected_def run_online_def run_wake_def run_cancelled_def
      hub_close_def hub_give_up_def hub_resume_def run_receive_def hub_deliver_def Let_def split: option.split sum.split)

lemma topic_queues_subscribe [simp]:
  "topic_queues (hub_subscribe t h) u = (if u = t then topic_queues h t @ [hub_next_queue h] else topic_queues h u)"
  "topic_queues (hub_unsubscribe t q h) u = (if u = t then filter (\<lambda>x. x \<noteq> q) (topic_queues h t) else topic_queues h u)"
  by (simp_all add: hub_subscribe_def hub_unsubscribe_def Let_def)

lemma listener_kept:
  assumes "hub_do n route e h = Some h'" "q \<in> set (topic_queues h t)" "\<forall>u. e \<noteq> Unsubscribe u q"
  shows "q \<in> set (topic_queues h' t)"
  using assms
  by (cases e) (auto split: option.splits bool.splits if_splits run_state.splits)

lemma content_run [simp]:
  "hub_content (run_disconnected d h) = hub_content h" "hub_content (run_connected d h) = hub_content h"
  "hub_content (run_online d h) = hub_content h" "hub_content (run_wake d h) = hub_content h"
  "hub_content (run_cancelled h) = hub_content h" "hub_content (hub_close h) = hub_content h"
  "hub_content (hub_give_up q t h) = hub_content h" "hub_content (hub_resume q t h) = hub_content h"
  "hub_content (hub_subscribe t h) = hub_content h" "hub_content (hub_unsubscribe t q h) = hub_content h"
  by (auto simp: run_disconnected_def run_finally_def run_connected_def run_online_def run_wake_def run_cancelled_def
      hub_close_def hub_give_up_def hub_resume_def hub_subscribe_def hub_unsubscribe_def drop_waiter_def Let_def)

lemma content_receive:
  assumes "hub_ok h"
  shows "hub_content (run_receive n route d s p h) q =
    (case p of Some m \<Rightarrow> (case route m of
        Inr (Some t) \<Rightarrow> if q \<in> set (topic_queues h t) then hub_put n (hub_content h q) m else hub_content h q
      | _ \<Rightarrow> hub_content h q) | None \<Rightarrow> hub_content h q)"
  using hub_okD(2) [OF assms]
  by (auto simp: run_receive_def hub_deliver_def Let_def deliver_content split: option.split sum.split)

lemma hub_do_receive: "hub_do n route (Receive p) h = Some h' \<Longrightarrow> \<exists>d s. h' = run_receive n route d s p h"
  by (auto split: if_splits run_state.splits)

lemma content_step:
  assumes "hub_do n route e h = Some h'" "hub_ok h" "q \<in> set (topic_queues h t)" "\<not> touches q e"
  shows "hub_content h' q = foldl (hub_put n) (hub_content h q) (event_message route t e)"
proof (cases e)
  case (Receive p)
  obtain d s where h': "h' = run_receive n route d s p h" using hub_do_receive assms(1) Receive by blast
  have own: "q \<in> set (topic_queues h u) \<longleftrightarrow> u = t" for u using hub_okD(4) [OF assms(2), of q u t] assms(3) by blast
  show ?thesis
  proof (cases p)
    case None
    then show ?thesis unfolding h' content_receive [OF assms(2)] by (simp add: Receive)
  next
    case (Some m)
    then show ?thesis
      unfolding h' content_receive [OF assms(2)] own
      by (cases "route m") (auto simp: Receive split: option.split)
  qed
qed (use assms in \<open>auto split: if_splits run_state.splits option.splits bool.splits\<close>)

lemma content_exec:
  assumes "hub_exec n route es h = Some h'" "hub_ok h" "q \<in> set (topic_queues h t)" "list_all (\<lambda>e. \<not> touches q e) es"
  shows "hub_content h' q = foldl (hub_put n) (hub_content h q) (routed route t es)"
  using assms
proof (induction es arbitrary: h)
  case (Cons e es)
  then obtain k where k: "hub_do n route e h = Some k" "hub_exec n route es k = Some h'" by (auto simp: bind_eq_Some_conv)
  have "\<not> touches q e" "\<forall>u. e \<noteq> Unsubscribe u q" using Cons.prems(4) by auto
  then have "hub_content k q = foldl (hub_put n) (hub_content h q) (event_message route t e)" "q \<in> set (topic_queues k t)"
    using content_step [OF k(1) Cons.prems(2,3)] listener_kept [OF k(1) Cons.prems(3)] by blast+
  with Cons.IH [OF k(2) hub_do_ok [OF k(1) Cons.prems(2)]] Cons.prems(4) show ?case by (simp add: routed_def)
qed (simp add: routed_def)

lemma content_bound:
  assumes "hub_reachable n route h" "0 < n"
  shows "length (hub_content h q) \<le> n"
  using assms
proof (induction arbitrary: q rule: hub_reachable.induct)
  case start
  then show ?case by (simp add: hub_init_def)
next
  case (step h h')
  then obtain e where e: "hub_do n route e h = Some h'" by (auto elim: hub_stepE)
  note ok = hub_reachable_ok [OF step.hyps(1)] and len = step.IH [OF step.prems]
  show ?case
  proof (cases e)
    case (Receive p)
    obtain d s where "h' = run_receive n route d s p h" using hub_do_receive e Receive by blast
    then show ?thesis
      using len hub_queue.put_length [OF step.prems len]
      by (simp add: content_receive [OF ok] split: option.split sum.split)
  next
    case (Get p)
    then show ?thesis using e len [of q] len [of p] by auto
  qed (use e len in \<open>auto split: if_splits run_state.splits option.splits bool.splits\<close>)
qed

lemma close_final:
  assumes "hub_exec n route es h = Some h'" "hub_closed h" "hub_cancelled h \<or> \<not> task_live h"
  shows "hub_next_ws h' = hub_next_ws h \<and> hub_closed h' \<and> (hub_cancelled h' \<or> \<not> task_live h') \<and> ConnectOk \<notin> set es"
  using assms
proof (induction es arbitrary: h)
  case (Cons e es)
  then obtain k where k: "hub_do n route e h = Some k" "hub_exec n route es k = Some h'" by (auto simp: bind_eq_Some_conv)
  have "hub_next_ws k = hub_next_ws h \<and> hub_closed k \<and> (hub_cancelled k \<or> \<not> task_live k) \<and> e \<noteq> ConnectOk"
    using k(1) Cons.prems(2,3)
    by (cases e) (auto simp: hub_subscribe_def hub_resume_def hub_give_up_def hub_unsubscribe_def hub_close_def drop_waiter_def
        send_payloads_def run_cancelled_def run_finally_def task_live_def Let_def
        split: if_splits option.splits bool.splits run_state.splits)
  with Cons.IH [OF k(2)] show ?case by auto
qed simp

section \<open>Properties\<close>

text \<open>
  C1. No subscription is lost on a connected hub, after any interleaving of subscribes,
  unsubscribes, disconnects, reconnects and cancellations: every topic with a listener is subscribed
  on the current connection, unless the \<open>subscribe\<close> call that opened it is still waiting or gave up on
  this connection (was cancelled while it waited, or timed out); nothing without a listener is
  subscribed; and the last payload about each subscribed topic on that connection asked for it.
\<close>

theorem hub_no_lost_topic:
  assumes "hub_reachable n route h" "hub_connected h"
  shows "\<exists>c. hub_ws h = Some c \<and> {t. topic_queues h t \<noteq> []} \<subseteq> hub_subscribed h \<union> waiting_topics h \<union> hub_given_up h
    \<and> hub_subscribed h \<subseteq> {t. topic_queues h t \<noteq> []} \<and> (\<forall>t\<in>hub_subscribed h. asked c t (hub_frames h))"
proof -
  have ok: "hub_ok h" "conn_ok h" using assms(1) hub_reachable_ok hub_reachable_conn_ok by auto
  then have "has_ws (hub_task h)" using assms(2) by (cases "hub_task h") (auto simp: conn_ok_def conn_state_def)
  then obtain c where c: "hub_ws h = Some c" using ok(2) by (auto simp: conn_ok_def conn_state_def)
  have "{t. topic_queues h t \<noteq> []} \<subseteq> hub_subscribed h \<union> waiting_topics h \<union> hub_given_up h"
    using ok(2) c by (simp add: conn_ok_def conn_covers_def)
  moreover have "hub_subscribed h \<subseteq> {t. topic_queues h t \<noteq> []}" using hub_okD(7) [OF ok(1)] by blast
  ultimately show ?thesis using ok(2) c by (auto simp: conn_ok_def conn_asked_def)
qed

definition ask_route :: "string \<Rightarrow> string option res" where
  "ask_route m = Inr (Some m)"

definition sample_events :: "string hub_event list" where
  "sample_events = [Subscribe ''btc'', ConnectFailed, Wake, ConnectOk, Subscribe ''eth'', Resubscribed, Resume 0, Resume 1,
     Subscribe ''btc'', Receive (Some ''btc''), Unsubscribe ''btc'' 0]"

text \<open>The state an event sequence leads to from a fresh hub.\<close>

definition after :: "nat \<Rightarrow> string hub_event list \<Rightarrow> string hub" where
  "after n es = (case hub_exec n ask_route es hub_init of Some h \<Rightarrow> h | None \<Rightarrow> hub_init)"

lemma after_exec: "hub_exec n ask_route es hub_init \<noteq> None \<Longrightarrow> hub_exec n ask_route es hub_init = Some (after n es)"
  by (auto simp: after_def)

lemma after_reachable: "hub_exec n ask_route es hub_init \<noteq> None \<Longrightarrow> hub_reachable n ask_route (after n es)"
  using hub_exec_reachable [OF after_exec hub_reachable.start] .

lemma hub_no_lost_topic_witness:
  "\<exists>c. hub_ws (after 2 sample_events) = Some c
     \<and> {t. topic_queues (after 2 sample_events) t \<noteq> []} = hub_subscribed (after 2 sample_events)"
proof -
  have "hub_exec 2 ask_route sample_events hub_init \<noteq> None" "hub_connected (after 2 sample_events)"
    "waiting_topics (after 2 sample_events) = {}" "hub_given_up (after 2 sample_events) = {}"
    by code_simp+
  then show ?thesis using hub_no_lost_topic [OF after_reachable, of 2 sample_events] by auto
qed

text \<open>
  C36. Whatever happens on a hub while a subscriber neither reads nor leaves, reconnects
  included, its queue holds the newest messages of its topic, in order: the last \<open>queue_size\<close> of
  what it held followed by everything routed to the topic since.
\<close>

theorem hub_queue_newest:
  assumes "hub_reachable n route h" "0 < n" "q \<in> set (topic_queues h t)"
    and "hub_exec n route es h = Some h'" "list_all (\<lambda>e. \<not> touches q e) es"
  shows "hub_content h' q = take_last n (hub_content h q @ routed route t es)"
  using content_exec [OF assms(4) hub_reachable_ok [OF assms(1)] assms(3,5)]
    hub_queue.fold_put [OF assms(2) content_bound [OF assms(1,2)]] by simp

definition sample_messages :: "string hub_event list" where
  "sample_messages = [Receive (Some ''btc''), Receive None, Disconnected, Wake, ConnectOk, Resubscribed,
     Receive (Some ''eth''), Receive (Some ''btc''), Receive (Some ''btc'')]"

lemma hub_queue_newest_witness:
  "hub_content (after 2 (sample_events @ sample_messages)) 2
    = take_last 2 (hub_content (after 2 sample_events) 2 @ routed ask_route ''btc'' sample_messages)"
proof (rule hub_queue_newest)
  have c: "hub_exec 2 ask_route sample_events hub_init \<noteq> None"
    "hub_exec 2 ask_route (sample_events @ sample_messages) hub_init \<noteq> None" by code_simp+
  show "hub_reachable 2 ask_route (after 2 sample_events)" using c(1) by (rule after_reachable)
  show "hub_exec 2 ask_route sample_messages (after 2 sample_events) = Some (after 2 (sample_events @ sample_messages))"
    using after_exec [OF c(2)] by (simp only: hub_exec_append after_exec [OF c(1)]) simp
  show "2 \<in> set (topic_queues (after 2 sample_events) ''btc'')" "list_all (\<lambda>e. \<not> touches 2 e) sample_messages"
    by code_simp+
qed simp

text \<open>
  A hub that cannot connect retries for ever with delays of 1, 2, 4, 8, 16 and then 30
  seconds, and the first frame of a connection resets the delay to 1.
\<close>

theorem hub_backoff:
  assumes "\<not> hub_closed h" "\<not> hub_cancelled h" "hub_task h = Connecting 1"
    and "\<not> hub_closed k" "\<not> hub_cancelled k" "hub_task k = Receiving d False"
  shows "(\<exists>h'. hub_exec n route (concat (replicate m [ConnectFailed, Wake])) h = Some h'
      \<and> hub_task h' = Connecting (min (2 ^ m) 30))
    \<and> (\<exists>k'. hub_exec n route [Receive None, Disconnected] k = Some k' \<and> hub_task k' = Sleeping 1)"
proof
  have "\<exists>h'. hub_exec n route (concat (replicate m [ConnectFailed, Wake])) h = Some h'
      \<and> hub_task h' = Connecting (min (2 ^ m) 30) \<and> \<not> hub_closed h' \<and> \<not> hub_cancelled h'"
  proof (induction m)
    case (Suc m)
    then obtain g where g: "hub_exec n route (concat (replicate m [ConnectFailed, Wake])) h = Some g"
      "hub_task g = Connecting (min (2 ^ m) 30)" "\<not> hub_closed g" "\<not> hub_cancelled g" by blast
    have "concat (replicate (Suc m) [ConnectFailed, Wake :: 'a hub_event])
        = concat (replicate m [ConnectFailed, Wake]) @ [ConnectFailed, Wake]"
      by (simp only: replicate_append_same [symmetric] replicate_Suc concat.simps concat_append append_Nil2)
    moreover have "min (min (2 ^ m) 30 * 2) 30 = min (2 ^ Suc m) (30 :: int)" by simp
    ultimately show ?case
      using g by (simp add: hub_exec_append run_disconnected_def run_finally_def run_wake_def del: replicate_Suc)
  qed (use assms in simp)
  then show "\<exists>h'. hub_exec n route (concat (replicate m [ConnectFailed, Wake])) h = Some h'
      \<and> hub_task h' = Connecting (min (2 ^ m) 30)" by blast
  show "\<exists>k'. hub_exec n route [Receive None, Disconnected] k = Some k' \<and> hub_task k' = Sleeping 1"
    using assms(4-6) by (simp add: run_receive_def run_disconnected_def run_finally_def)
qed

lemma hub_backoff_witness:
  "\<exists>h'. hub_exec 2 ask_route (concat (replicate 5 [ConnectFailed, Wake])) (after 2 [Subscribe ''btc'']) = Some h'
      \<and> hub_task h' = Connecting 30"
proof -
  have "\<not> hub_closed (after 2 [Subscribe ''btc''])" "\<not> hub_cancelled (after 2 [Subscribe ''btc''])"
    "hub_task (after 2 [Subscribe ''btc'']) = Connecting 1"
    "\<not> hub_closed (after 2 [Subscribe ''btc'', ConnectFailed, Wake, ConnectOk, Resubscribed])"
    "\<not> hub_cancelled (after 2 [Subscribe ''btc'', ConnectFailed, Wake, ConnectOk, Resubscribed])"
    "hub_task (after 2 [Subscribe ''btc'', ConnectFailed, Wake, ConnectOk, Resubscribed]) = Receiving 2 False"
    by code_simp+
  from hub_backoff [OF this, of 2 ask_route 5] show ?thesis by simp
qed

text \<open>
  A closed hub never connects again: after \<open>close\<close>, whatever subscribers do, no
  connection is opened, and no task runs once the cancellation is delivered.
\<close>

theorem hub_close_final:
  assumes "hub_reachable n route h" "hub_exec n route (Close # es) h = Some h'"
  shows "hub_next_ws h' = hub_next_ws h \<and> ConnectOk \<notin> set es \<and> (hub_cancelled h' \<or> \<not> task_live h')"
proof -
  have "hub_exec n route es (hub_close h) = Some h'" using assms(2) by simp
  from close_final [OF this] show ?thesis by (auto simp: hub_close_def task_live_def)
qed

lemma hub_close_final_witness:
  "hub_next_ws (after 2 (sample_events @ [Close, Subscribe ''sol'', TaskCancelled, Subscribe ''ada'']))
      = hub_next_ws (after 2 sample_events)"
proof -
  have c: "hub_exec 2 ask_route sample_events hub_init \<noteq> None"
    "hub_exec 2 ask_route (sample_events @ [Close, Subscribe ''sol'', TaskCancelled, Subscribe ''ada'']) hub_init \<noteq> None"
    by code_simp+
  have "hub_exec 2 ask_route [Close, Subscribe ''sol'', TaskCancelled, Subscribe ''ada''] (after 2 sample_events)
      = Some (after 2 (sample_events @ [Close, Subscribe ''sol'', TaskCancelled, Subscribe ''ada'']))"
    using after_exec [OF c(2)] by (simp only: hub_exec_append after_exec [OF c(1)]) simp
  from hub_close_final [OF after_reachable [OF c(1)] this] show ?thesis by simp
qed

text \<open>
  C38. A \<open>subscribe\<close> call that is cancelled while it waits for the connection leaks its queue: its
  caller never received the queue, so nobody can unsubscribe it, and for ever after the topic
  keeps a listener and every new connection subscribes it again.
\<close>

theorem hub_cancelled_subscribe_leaks:
  assumes "waiter q h = Some (t, w)" "hub_reachable n route h"
    and "hub_exec n route (CancelSubscribe q # es) h = Some h'" "\<forall>u. Unsubscribe u q \<notin> set es"
  shows "q \<in> set (topic_queues h' t) \<and> (\<forall>k. hub_do n route ConnectOk h' = Some k \<longrightarrow> t \<in> hub_subscribed k)"
proof -
  have ok: "hub_ok h" using assms(2) by (rule hub_reachable_ok)
  have kept: "q \<in> set (topic_queues h' t)"
    if "hub_exec n route fs g = Some h'" "q \<in> set (topic_queues g t)" "\<forall>u. Unsubscribe u q \<notin> set fs" for fs g
    using that
  proof (induction fs arbitrary: g)
    case (Cons e fs)
    then obtain g' where "hub_do n route e g = Some g'" "hub_exec n route fs g' = Some h'" by (auto simp: bind_eq_Some_conv)
    then show ?case using Cons listener_kept [of n route e g g' q t] by auto
  qed simp
  have q: "q \<in> set (topic_queues h' t)"
    by (rule kept [of "CancelSubscribe q # es" h]) (use assms hub_okD(5) [OF ok waiterD [OF assms(1)]] in auto)
  have "hub_ok h'" using hub_reachable_ok [OF hub_exec_reachable [OF assms(3,2)]] .
  then have "t \<in> set (dkeys (hub_queues h'))" using q topics_of by force
  then have "t \<in> hub_subscribed k" if "hub_do n route ConnectOk h' = Some k" for k
    using that by (auto simp: run_connected_def run_online_def Let_def split: if_splits run_state.splits)
  with q show ?thesis by blast
qed

lemma hub_cancelled_subscribe_leaks_witness:
  "0 \<in> set (topic_queues (after 2 [Subscribe ''btc'', CancelSubscribe 0, ConnectFailed, Wake]) ''btc'')"
proof -
  have c: "hub_exec 2 ask_route [Subscribe ''btc''] hub_init \<noteq> None"
    "waiter 0 (after 2 [Subscribe ''btc'']) = Some (''btc'', False)"
    "hub_exec 2 ask_route ([Subscribe ''btc''] @ [CancelSubscribe 0, ConnectFailed, Wake]) hub_init \<noteq> None"
    by code_simp+
  have "hub_exec 2 ask_route [CancelSubscribe 0, ConnectFailed, Wake] (after 2 [Subscribe ''btc''])
      = Some (after 2 ([Subscribe ''btc''] @ [CancelSubscribe 0, ConnectFailed, Wake]))"
    using after_exec [OF c(3)] by (simp only: hub_exec_append after_exec [OF c(1)]) simp
  from hub_cancelled_subscribe_leaks [OF c(2) after_reachable [OF c(1)] this] show ?thesis by simp
qed

end
