(* ===== verification/StreamManager.thy ===== *)
theory StreamManager
  imports PyValue Models
begin

text \<open>
  \<open>StreamManager\<close> of \<^verbatim>\<open>exchange_router/service/stream_manager.py\<close>: the WebSocket clients of the
  service, grouped by stream key, with one upstream task per key. As in \<open>StreamHub\<close> no body of
  \<open>async with self._lock\<close> awaits, so every stretch between two awaits is one event. Client ids
  (fresh UUIDs), sockets and tasks are numbered; \<open>wm_sent\<close> and \<open>wm_closed\<close> log, newest first, what
  was handed to each socket.
\<close>

section \<open>State\<close>

text \<open>
  A running \<open>_upstream_handler\<close>: its key, the clients it is sending an item to, and whether its
  cancellation is pending.
\<close>

record handler =
  hd_key :: string
  hd_sending :: "(nat \<times> nat) list option"
  hd_cancelled :: bool

record manager =
  wm_streams :: "(string, (nat, nat) dict) dict"
  wm_tasks :: "(string, nat) dict"
  wm_handlers :: "(nat, handler) dict"
  wm_next_client :: nat
  wm_next_task :: nat
  wm_sent :: "(nat \<times> string) list"
  wm_closed :: "(nat \<times> int \<times> string) list"

definition manager_init :: manager where
  "manager_init = \<lparr>wm_streams = [], wm_tasks = [], wm_handlers = [], wm_next_client = 0, wm_next_task = 0,
     wm_sent = [], wm_closed = []\<rparr>"

definition bucket :: "manager \<Rightarrow> string \<Rightarrow> (nat, nat) dict" where
  "bucket m key = (case dget (wm_streams m) key of None \<Rightarrow> [] | Some b \<Rightarrow> b)"

section \<open>Operations\<close>

definition manager_subscribe :: "string \<Rightarrow> nat \<Rightarrow> manager \<Rightarrow> manager" where
  "manager_subscribe key websocket m =
     (let cid = wm_next_client m;
          m = m\<lparr>wm_next_client := cid + 1\<rparr>;
          m = (if dget (wm_streams m) key = None then
                 m\<lparr>wm_streams := dset (wm_streams m) key [],
                   wm_tasks := dset (wm_tasks m) key (wm_next_task m),
                   wm_handlers := dset (wm_handlers m) (wm_next_task m) \<lparr>hd_key = key, hd_sending = None, hd_cancelled = False\<rparr>,
                   wm_next_task := wm_next_task m + 1\<rparr>
               else m)
      in m\<lparr>wm_streams := dset (wm_streams m) key (dset (bucket m key) cid websocket)\<rparr>)"

definition cancel_task :: "nat \<Rightarrow> manager \<Rightarrow> manager" where
  "cancel_task t m = (case dget (wm_handlers m) t of
       None \<Rightarrow> m
     | Some h \<Rightarrow> m\<lparr>wm_handlers := dset (wm_handlers m) t (h\<lparr>hd_cancelled := True\<rparr>)\<rparr>)"

definition manager_unsubscribe :: "string \<Rightarrow> nat \<Rightarrow> manager \<Rightarrow> manager" where
  "manager_unsubscribe key cid m =
     (case dget (wm_streams m) key of
        None \<Rightarrow> m
      | Some b \<Rightarrow>
          let b' = dpop b cid in
          if b' \<noteq> [] then m\<lparr>wm_streams := dset (wm_streams m) key b'\<rparr>
          else
            let m' = m\<lparr>wm_streams := dpop (wm_streams m) key, wm_tasks := dpop (wm_tasks m) key\<rparr>
            in case dget (wm_tasks m) key of None \<Rightarrow> m' | Some t \<Rightarrow> cancel_task t m')"

definition manager_shutdown :: "manager \<Rightarrow> manager" where
  "manager_shutdown m =
     foldr cancel_task (dvalues (wm_tasks m)) (m\<lparr>wm_streams := [], wm_tasks := []\<rparr>)"

text \<open>\<open>_close_client\<close>, spawned as its own task, asks the socket to close with code 1011.\<close>

definition close_clients :: "nat list \<Rightarrow> string \<Rightarrow> manager \<Rightarrow> manager" where
  "close_clients sockets reason m = m\<lparr>wm_closed := rev (map (\<lambda>s. (s, 1011, reason)) sockets) @ wm_closed m\<rparr>"

text \<open>The \<open>finally\<close> block of the handler: it cleans up only what is still its own.\<close>

definition handler_finally :: "nat \<Rightarrow> string \<Rightarrow> manager \<Rightarrow> manager" where
  "handler_finally t key m =
     (let m = m\<lparr>wm_handlers := dpop (wm_handlers m) t\<rparr> in
      if dget (wm_tasks m) key = Some t then
        close_clients (dvalues (bucket m key)) ''Upstream disconnected''
          (m\<lparr>wm_tasks := dpop (wm_tasks m) key, wm_streams := dpop (wm_streams m) key\<rparr>)
      else m)"

text \<open>An item of the upstream stream: its JSON text is sent to every client of the key.\<close>

definition handler_item :: "nat \<Rightarrow> handler \<Rightarrow> string \<Rightarrow> manager \<Rightarrow> manager" where
  "handler_item t h data m =
     (let b = bucket m (hd_key h) in
      if b = [] then handler_finally t (hd_key h) m
      else m\<lparr>wm_handlers := dset (wm_handlers m) t (h\<lparr>hd_sending := Some b\<rparr>),
             wm_sent := rev (map (\<lambda>s. (s, data)) (dvalues b)) @ wm_sent m\<rparr>)"

fun pop_all :: "(nat, nat) dict \<Rightarrow> nat list \<Rightarrow> (nat, nat) dict" where
  "pop_all d [] = d"
| "pop_all d (k # ks) = pop_all (dpop d k) ks"

text \<open>The sends are over; \<open>dead\<close> are the clients whose send failed or timed out.\<close>

definition handler_sent :: "nat \<Rightarrow> handler \<Rightarrow> (nat \<times> nat) list \<Rightarrow> manager \<Rightarrow> manager" where
  "handler_sent t h dead m =
     (let m = m\<lparr>wm_handlers := dset (wm_handlers m) t (h\<lparr>hd_sending := None\<rparr>)\<rparr> in
      if dead = [] then m
      else
        let m = close_clients (map snd dead) ''Send timeout'' m in
        case dget (wm_streams m) (hd_key h) of
          None \<Rightarrow> m
        | Some b \<Rightarrow>
            let b' = pop_all b (map fst dead) in
            if b' \<noteq> [] then m\<lparr>wm_streams := dset (wm_streams m) (hd_key h) b'\<rparr>
            else handler_finally t (hd_key h)
                   (m\<lparr>wm_streams := dpop (wm_streams m) (hd_key h), wm_tasks := dpop (wm_tasks m) (hd_key h)\<rparr>))"

section \<open>Events\<close>

datatype manager_event =
    ClientSubscribes string nat
  | ClientLeaves string nat
  | Shutdown
  | UpstreamItem nat string
  | SendsDone nat "nat list"
  | UpstreamOver nat
  | HandlerCancelled nat

text \<open>
  A handler whose cancellation is pending only meets \<open>HandlerCancelled\<close>; \<open>UpstreamOver\<close> is the
  end of the upstream stream or an exception of it.
\<close>

fun manager_do :: "manager_event \<Rightarrow> manager \<Rightarrow> manager option" where
  "manager_do (ClientSubscribes key s) m = Some (manager_subscribe key s m)"
| "manager_do (ClientLeaves key cid) m = Some (manager_unsubscribe key cid m)"
| "manager_do Shutdown m = Some (manager_shutdown m)"
| "manager_do (UpstreamItem t data) m = (case dget (wm_handlers m) t of
     Some h \<Rightarrow> if hd_cancelled h \<or> hd_sending h \<noteq> None then None else Some (handler_item t h data m) | None \<Rightarrow> None)"
| "manager_do (SendsDone t cids) m = (case dget (wm_handlers m) t of
     Some h \<Rightarrow> (if hd_cancelled h then None else case hd_sending h of
         Some b \<Rightarrow> Some (handler_sent t h (filter (\<lambda>(c, _). c \<in> set cids) b) m) | None \<Rightarrow> None)
   | None \<Rightarrow> None)"
| "manager_do (UpstreamOver t) m = (case dget (wm_handlers m) t of
     Some h \<Rightarrow> if hd_cancelled h \<or> hd_sending h \<noteq> None then None else Some (handler_finally t (hd_key h) m) | None \<Rightarrow> None)"
| "manager_do (HandlerCancelled t) m = (case dget (wm_handlers m) t of
     Some h \<Rightarrow> if hd_cancelled h then Some (handler_finally t (hd_key h) m) else None | None \<Rightarrow> None)"

inductive manager_reachable :: "manager \<Rightarrow> bool" where
  start: "manager_reachable manager_init"
| step: "manager_reachable m \<Longrightarrow> manager_do e m = Some m' \<Longrightarrow> manager_reachable m'"

fun manager_exec :: "manager_event list \<Rightarrow> manager \<Rightarrow> manager option" where
  "manager_exec [] m = Some m"
| "manager_exec (e # es) m = Option.bind (manager_do e m) (manager_exec es)"

section \<open>Invariant\<close>

definition manager_ok :: "manager \<Rightarrow> bool" where
  "manager_ok m \<longleftrightarrow>
     (\<forall>key. (dget (wm_streams m) key = None) = (dget (wm_tasks m) key = None)) \<and>
     (\<forall>key. dget (wm_streams m) key \<noteq> Some []) \<and>
     (\<forall>key c. c \<in> set (dkeys (bucket m key)) \<longrightarrow> c < wm_next_client m) \<and>
     (\<forall>key key' c. c \<in> set (dkeys (bucket m key)) \<longrightarrow> c \<in> set (dkeys (bucket m key')) \<longrightarrow> key = key') \<and>
     (\<forall>key t. dget (wm_tasks m) key = Some t \<longrightarrow>
        (\<exists>h. dget (wm_handlers m) t = Some h \<and> hd_key h = key \<and> \<not> hd_cancelled h)) \<and>
     (\<forall>t h. dget (wm_handlers m) t = Some h \<longrightarrow> \<not> hd_cancelled h \<longrightarrow> dget (wm_tasks m) (hd_key h) = Some t) \<and>
     (\<forall>t h. dget (wm_handlers m) t = Some h \<longrightarrow> t < wm_next_task m) \<and>
     dict_ok (wm_tasks m)"

lemma manager_okD:
  assumes "manager_ok m"
  shows "(dget (wm_streams m) key = None) = (dget (wm_tasks m) key = None)"
    and "dget (wm_streams m) key \<noteq> Some []"
    and "c \<in> set (dkeys (bucket m key)) \<Longrightarrow> c < wm_next_client m"
    and "c \<in> set (dkeys (bucket m key)) \<Longrightarrow> c \<in> set (dkeys (bucket m key')) \<Longrightarrow> key = key'"
    and "dget (wm_tasks m) key = Some t \<Longrightarrow> \<exists>h. dget (wm_handlers m) t = Some h \<and> hd_key h = key \<and> \<not> hd_cancelled h"
    and "dget (wm_handlers m) t = Some h \<Longrightarrow> \<not> hd_cancelled h \<Longrightarrow> dget (wm_tasks m) (hd_key h) = Some t"
    and "dget (wm_handlers m) t = Some h \<Longrightarrow> t < wm_next_task m"
    and "dict_ok (wm_tasks m)"
  using assms unfolding manager_ok_def by blast+

lemma bucket_simps [simp]:
  "bucket (m\<lparr>wm_tasks := x\<rparr>) k = bucket m k" "bucket (m\<lparr>wm_handlers := y\<rparr>) k = bucket m k"
  "bucket (m\<lparr>wm_next_client := n\<rparr>) k = bucket m k" "bucket (m\<lparr>wm_next_task := n\<rparr>) k = bucket m k"
  "bucket (m\<lparr>wm_sent := s\<rparr>) k = bucket m k" "bucket (m\<lparr>wm_closed := c\<rparr>) k = bucket m k"
  "bucket (m\<lparr>wm_streams := dset d key b\<rparr>) k = (if k = key then b else bucket (m\<lparr>wm_streams := d\<rparr>) k)"
  "bucket (m\<lparr>wm_streams := dpop d key\<rparr>) k = (if k = key then [] else bucket (m\<lparr>wm_streams := d\<rparr>) k)"
  "bucket (m\<lparr>wm_streams := wm_streams m'\<rparr>) k = bucket m' k"
  "bucket (m\<lparr>wm_streams := []\<rparr>) k = []"
  by (simp_all add: bucket_def)

lemma dkeys_Nil [simp]: "dkeys [] = []"
  by (simp add: dkeys_def)

lemma bucket_some: "dget (wm_streams m) key = Some b \<Longrightarrow> bucket m key = b"
  by (simp add: bucket_def)

lemma manager_init_ok [simp]: "manager_ok manager_init"
  by (simp add: manager_ok_def manager_init_def bucket_def dkeys_def)

lemma dset_not_Nil [simp]: "dset d k v \<noteq> []"
  by (cases d) (auto simp: dset_def)

lemma subscribe_existing:
  assumes "dget (wm_streams m) key \<noteq> None"
  shows "manager_subscribe key s m = m\<lparr>wm_next_client := wm_next_client m + 1,
    wm_streams := dset (wm_streams m) key (dset (bucket m key) (wm_next_client m) s)\<rparr>"
  using assms by (auto simp: manager_subscribe_def Let_def bucket_def)

lemma subscribe_new:
  assumes "dget (wm_streams m) key = None"
  shows "manager_subscribe key s m = m\<lparr>wm_next_client := wm_next_client m + 1,
    wm_streams := dset (dset (wm_streams m) key []) key (dset [] (wm_next_client m) s),
    wm_tasks := dset (wm_tasks m) key (wm_next_task m),
    wm_handlers := dset (wm_handlers m) (wm_next_task m) \<lparr>hd_key = key, hd_sending = None, hd_cancelled = False\<rparr>,
    wm_next_task := wm_next_task m + 1\<rparr>"
  using assms by (simp add: manager_subscribe_def Let_def bucket_def)

lemma manager_subscribe_ok:
  assumes "manager_ok m"
  shows "manager_ok (manager_subscribe key s m)"
proof (cases "dget (wm_streams m) key = None")
  case False
  note d = manager_okD [OF assms]
  have fresh: "wm_next_client m \<notin> set (dkeys (bucket m k))" for k using d(3) by blast
  show ?thesis
    unfolding subscribe_existing [OF False] manager_ok_def
    using d fresh False by (auto simp: dkeys_dset intro: less_SucI)
next
  case True
  note d = manager_okD [OF assms]
  have fresh: "wm_next_client m \<notin> set (dkeys (bucket m k))" for k using d(3) by blast
  have "dget (wm_tasks m) k \<noteq> Some (wm_next_task m)" for k using d(5,7) by blast
  moreover have "dget (wm_handlers m) (wm_next_task m) = None" using d(7) by (metis less_irrefl option.exhaust)
  moreover have "hd_key h \<noteq> key" if "dget (wm_handlers m) t = Some h" "\<not> hd_cancelled h" for t h
    using d(1) d(6) [OF that] True by auto
  ultimately show ?thesis
    unfolding subscribe_new [OF True] manager_ok_def
    using d fresh by (auto simp: dkeys_dset dkeys_def [of "[]"] less_Suc_eq)
qed

text \<open>A key goes away together with its task, which is cancelled or over.\<close>

lemma drop_key_ok:
  assumes ok: "manager_ok m" and t: "dget (wm_tasks m) key = Some t"
    and rest: "\<And>u. u \<noteq> t \<Longrightarrow> dget hs u = dget (wm_handlers m) u"
    and gone: "\<And>h. dget hs t = Some h \<Longrightarrow> hd_cancelled h"
  shows "manager_ok (m\<lparr>wm_streams := dpop (wm_streams m) key, wm_tasks := dpop (wm_tasks m) key, wm_handlers := hs\<rparr>)"
proof -
  note d = manager_okD [OF ok]
  have tasks: "u \<noteq> t" if "dget (wm_tasks m) k = Some u" "k \<noteq> key" for k u
    using d(5) [OF that(1)] d(5) [OF t] that(2) by auto
  have "u < wm_next_task m" if "dget hs u = Some h" for u h
  proof (cases "u = t")
    case True
    then show ?thesis using d(5) [OF t] d(7) by blast
  next
    case False
    then show ?thesis using d(7) [of u h] rest [OF False] that by simp
  qed
  moreover have "hd_key h \<noteq> key \<and> dget (wm_tasks m) (hd_key h) = Some u" if "dget hs u = Some h" "\<not> hd_cancelled h" for u h
  proof -
    have u: "u \<noteq> t" using gone that by blast
    then have "dget (wm_tasks m) (hd_key h) = Some u" using rest [OF u] that d(6) by simp
    then show ?thesis using t u by auto
  qed
  moreover have "\<exists>h. dget hs u = Some h \<and> hd_key h = k \<and> \<not> hd_cancelled h"
    if "dget (wm_tasks m) k = Some u" "k \<noteq> key" for k u
    using d(5) [OF that(1)] rest [OF tasks [OF that]] by auto
  ultimately show ?thesis
    unfolding manager_ok_def using d(1-4,8) by simp
qed

lemma keep_key_ok:
  assumes ok: "manager_ok m" and b: "dget (wm_streams m) key \<noteq> None" "b \<noteq> []" "set (dkeys b) \<subseteq> set (dkeys (bucket m key))"
  shows "manager_ok (m\<lparr>wm_streams := dset (wm_streams m) key b\<rparr>)"
proof -
  note d = manager_okD [OF ok]
  have mem: "c \<in> set (dkeys (bucket m key))" if "c \<in> set (dkeys b)" for c using that b(3) by blast
  have "c < wm_next_client m" if "c \<in> set (dkeys b)" for c using d(3) [OF mem [OF that]] .
  moreover have "k = key" if "c \<in> set (dkeys b)" "c \<in> set (dkeys (bucket m k))" for c k
    using d(4) [OF that(2) mem [OF that(1)]] .
  ultimately show ?thesis unfolding manager_ok_def using d b(1,2) by auto
qed

lemma dkeys_pop_all: "set (dkeys (pop_all d ks)) \<subseteq> set (dkeys d)"
  by (induction d ks rule: pop_all.induct) (auto simp: dkeys_dpop)

lemma manager_ok_cong:
  assumes "manager_ok m" "wm_streams m' = wm_streams m" "wm_tasks m' = wm_tasks m" "wm_handlers m' = wm_handlers m"
    "wm_next_client m' = wm_next_client m" "wm_next_task m' = wm_next_task m"
  shows "manager_ok m'"
  using assms by (simp add: manager_ok_def bucket_def)

lemma cancel_task_handlers:
  "dget (wm_handlers (cancel_task t m)) u =
    (if u = t then map_option (\<lambda>h. h\<lparr>hd_cancelled := True\<rparr>) (dget (wm_handlers m) t) else dget (wm_handlers m) u)"
  by (auto simp: cancel_task_def split: option.split)

lemma cancel_task_same [simp]:
  "wm_streams (cancel_task t m) = wm_streams m" "wm_tasks (cancel_task t m) = wm_tasks m"
  "wm_next_client (cancel_task t m) = wm_next_client m" "wm_next_task (cancel_task t m) = wm_next_task m"
  "wm_closed (cancel_task t m) = wm_closed m" "wm_sent (cancel_task t m) = wm_sent m"
  by (simp_all add: cancel_task_def split: option.split)

lemma manager_unsubscribe_ok:
  assumes "manager_ok m"
  shows "manager_ok (manager_unsubscribe key cid m)"
proof (cases "dget (wm_streams m) key")
  case None
  with assms show ?thesis by (simp add: manager_unsubscribe_def)
next
  case (Some b)
  show ?thesis
  proof (cases "dpop b cid = []")
    case False
    have "manager_ok (m\<lparr>wm_streams := dset (wm_streams m) key (dpop b cid)\<rparr>)"
      using Some False by (intro keep_key_ok [OF assms]) (auto simp: dkeys_dpop bucket_some)
    with Some False show ?thesis by (simp add: manager_unsubscribe_def Let_def)
  next
    case True
    obtain t where t: "dget (wm_tasks m) key = Some t" using manager_okD(1) [OF assms, of key] Some by auto
    let ?m = "m\<lparr>wm_streams := dpop (wm_streams m) key, wm_tasks := dpop (wm_tasks m) key\<rparr>"
    have "manager_ok (m\<lparr>wm_streams := dpop (wm_streams m) key, wm_tasks := dpop (wm_tasks m) key,
        wm_handlers := wm_handlers (cancel_task t ?m)\<rparr>)"
      by (rule drop_key_ok [OF assms t]) (auto simp: cancel_task_handlers)
    then have "manager_ok (cancel_task t ?m)" by (rule manager_ok_cong) simp_all
    with Some True t show ?thesis by (simp add: manager_unsubscribe_def Let_def)
  qed
qed

lemma handler_finally_ok:
  assumes "manager_ok m" "dget (wm_handlers m) t = Some h"
  shows "manager_ok (handler_finally t (hd_key h) m)"
proof (cases "dget (wm_tasks m) (hd_key h) = Some t")
  case True
  have "manager_ok (m\<lparr>wm_streams := dpop (wm_streams m) (hd_key h), wm_tasks := dpop (wm_tasks m) (hd_key h),
      wm_handlers := dpop (wm_handlers m) t\<rparr>)"
    by (rule drop_key_ok [OF assms(1) True]) auto
  then show ?thesis
    unfolding handler_finally_def Let_def using True by (auto simp: close_clients_def intro: manager_ok_cong)
next
  case False
  note d = manager_okD [OF assms(1)]
  have c: "hd_cancelled h" using d(6) [OF assms(2)] False by blast
  have "manager_ok (m\<lparr>wm_handlers := dpop (wm_handlers m) t\<rparr>)"
    unfolding manager_ok_def using d c assms(2) by (auto dest: d(5))
  with False show ?thesis by (simp add: handler_finally_def)
qed

lemma handler_update_ok:
  assumes "manager_ok m" "dget (wm_handlers m) t = Some h"
  shows "manager_ok (m\<lparr>wm_handlers := dset (wm_handlers m) t (h\<lparr>hd_sending := x\<rparr>)\<rparr>)"
proof -
  note d = manager_okD [OF assms(1)]
  have "dget (wm_tasks m) k = Some t \<Longrightarrow> hd_key h = k \<and> \<not> hd_cancelled h" for k using d(5) [of k t] assms(2) by auto
  then show ?thesis
    unfolding manager_ok_def using d(1-4,8) d(5) d(6) d(7) d(6,7) [OF assms(2)] by auto
qed

lemma handler_item_ok:
  assumes "manager_ok m" "dget (wm_handlers m) t = Some h"
  shows "manager_ok (handler_item t h data m)"
proof (cases "bucket m (hd_key h) = []")
  case True
  then show ?thesis by (simp add: handler_item_def handler_finally_ok [OF assms])
next
  case False
  then show ?thesis
    by (auto simp: handler_item_def Let_def intro: manager_ok_cong [OF handler_update_ok [OF assms]])
qed

lemma handler_sent_ok:
  assumes ok: "manager_ok m" "dget (wm_handlers m) t = Some h" and live: "\<not> hd_cancelled h"
  shows "manager_ok (handler_sent t h dead m)"
proof -
  define h' where "h' = h\<lparr>hd_sending := None\<rparr>"
  define k where "k = close_clients (map snd dead) ''Send timeout'' (m\<lparr>wm_handlers := dset (wm_handlers m) t h'\<rparr>)"
  have ok1: "manager_ok (m\<lparr>wm_handlers := dset (wm_handlers m) t h'\<rparr>)" unfolding h'_def by (rule handler_update_ok [OF ok])
  then have okk: "manager_ok k" by (rule manager_ok_cong) (simp_all add: k_def close_clients_def)
  have sel: "wm_streams k = wm_streams m" "wm_tasks k = wm_tasks m" "dget (wm_handlers k) t = Some h'" "hd_key h' = hd_key h"
    by (simp_all add: k_def close_clients_def h'_def)
  obtain b where b: "dget (wm_streams k) (hd_key h) = Some b" "dget (wm_tasks k) (hd_key h) = Some t"
    using manager_okD(1,6) [OF ok(1)] ok(2) live sel by (metis option.exhaust option.distinct(1))
  let ?b = "pop_all b (map fst dead)"
  consider "dead = []" | "dead \<noteq> []" "?b \<noteq> []" | "dead \<noteq> []" "?b = []" by blast
  then show ?thesis
  proof cases
    case 1
    then show ?thesis using ok1 by (simp add: handler_sent_def h'_def)
  next
    case 2
    have "manager_ok (k\<lparr>wm_streams := dset (wm_streams k) (hd_key h) ?b\<rparr>)"
      using 2 b dkeys_pop_all [of b] by (intro keep_key_ok [OF okk]) (auto simp: bucket_some)
    then show ?thesis using 2 b by (simp add: handler_sent_def Let_def flip: h'_def k_def)
  next
    case 3
    let ?k = "k\<lparr>wm_streams := dpop (wm_streams k) (hd_key h), wm_tasks := dpop (wm_tasks k) (hd_key h)\<rparr>"
    have "handler_sent t h dead m = handler_finally t (hd_key h) ?k"
      using 3 b by (simp add: handler_sent_def Let_def flip: h'_def k_def)
    also have "\<dots> = ?k\<lparr>wm_handlers := dpop (wm_handlers k) t\<rparr>" by (simp add: handler_finally_def)
    finally show ?thesis using drop_key_ok [OF okk b(2), of "dpop (wm_handlers k) t"] by simp
  qed
qed

lemma dget_foldr_cancel:
  "dget (wm_handlers (foldr cancel_task ts m)) u =
    (if u \<in> set ts then map_option (\<lambda>h. h\<lparr>hd_cancelled := True\<rparr>) (dget (wm_handlers m) u) else dget (wm_handlers m) u)"
  by (induction ts) (auto simp: cancel_task_handlers option.map_comp o_def)

lemma foldr_cancel_same [simp]:
  "wm_streams (foldr cancel_task ts m) = wm_streams m" "wm_tasks (foldr cancel_task ts m) = wm_tasks m"
  "wm_next_client (foldr cancel_task ts m) = wm_next_client m" "wm_next_task (foldr cancel_task ts m) = wm_next_task m"
  by (induction ts) auto

lemma task_value: "dict_ok d \<Longrightarrow> t \<in> set (dvalues d) \<longleftrightarrow> (\<exists>k. dget d k = Some t)"
  by (force simp: dvalues_def dget_def dict_ok_def dkeys_def dest: map_of_is_SomeI map_of_SomeD)

lemma manager_shutdown_ok:
  assumes "manager_ok m"
  shows "manager_ok (manager_shutdown m)" and "\<And>t h. dget (wm_handlers (manager_shutdown m)) t = Some h \<Longrightarrow> hd_cancelled h"
proof -
  note d = manager_okD [OF assms]
  have all: "hd_cancelled h" if "dget (wm_handlers (manager_shutdown m)) t = Some h" for t h
  proof (cases "t \<in> set (dvalues (wm_tasks m))")
    case True
    with that show ?thesis by (auto simp: manager_shutdown_def dget_foldr_cancel)
  next
    case False
    with that show ?thesis using d(6) [of t h] by (auto simp: manager_shutdown_def dget_foldr_cancel task_value [OF d(8)])
  qed
  then show "\<And>t h. dget (wm_handlers (manager_shutdown m)) t = Some h \<Longrightarrow> hd_cancelled h" .
  have "t < wm_next_task m" if "dget (wm_handlers (manager_shutdown m)) t = Some h" for t h
    using that d(7) by (auto simp: manager_shutdown_def dget_foldr_cancel split: if_splits)
  with all show "manager_ok (manager_shutdown m)"
    by (auto simp: manager_ok_def manager_shutdown_def bucket_def dkeys_def)
qed

lemma manager_do_ok: "manager_do e m = Some m' \<Longrightarrow> manager_ok m \<Longrightarrow> manager_ok m'"
  by (cases e) (auto simp: manager_subscribe_ok manager_unsubscribe_ok manager_shutdown_ok handler_item_ok
      handler_sent_ok handler_finally_ok split: option.splits if_splits)

lemma manager_reachable_ok: "manager_reachable m \<Longrightarrow> manager_ok m"
  by (induction rule: manager_reachable.induct) (auto dest: manager_do_ok)

lemma manager_exec_reachable: "manager_exec es m = Some m' \<Longrightarrow> manager_reachable m \<Longrightarrow> manager_reachable m'"
proof (induction es arbitrary: m)
  case (Cons e es)
  then obtain k where "manager_do e m = Some k" "manager_exec es k = Some m'" by (auto simp: bind_eq_Some_conv)
  then show ?case using Cons manager_reachable.step by blast
qed simp

section \<open>Properties\<close>

lemma task_of_key:
  assumes "manager_reachable m"
  shows "bucket m key \<noteq> [] \<longleftrightarrow> (\<exists>t. dget (wm_tasks m) key = Some t)"
    "dget (wm_tasks m) key = Some t \<longleftrightarrow> (\<exists>h. dget (wm_handlers m) t = Some h \<and> hd_key h = key \<and> \<not> hd_cancelled h)"
proof -
  note d = manager_okD [OF manager_reachable_ok [OF assms]]
  show "bucket m key \<noteq> [] \<longleftrightarrow> (\<exists>t. dget (wm_tasks m) key = Some t)"
    using d(1) [of key] d(2) [of key] by (auto simp: bucket_def split: option.splits)
  show "dget (wm_tasks m) key = Some t \<longleftrightarrow> (\<exists>h. dget (wm_handlers m) t = Some h \<and> hd_key h = key \<and> \<not> hd_cancelled h)"
    using d(5) [of key t] d(6) [of t] by auto
qed

text \<open>
  C2. After any sequence of clients joining, leaving, dying, of upstream items, ends and
  cancellations, a stream key has clients exactly when one upstream handler that is not being
  cancelled runs for it, and there is never more than one.
\<close>

theorem one_upstream_per_key:
  assumes "manager_reachable m"
  shows "(bucket m key \<noteq> [] \<longleftrightarrow>
      (\<exists>!t. \<exists>h. dget (wm_handlers m) t = Some h \<and> hd_key h = key \<and> \<not> hd_cancelled h))
    \<and> (\<forall>t t' h h'. dget (wm_handlers m) t = Some h \<and> hd_key h = key \<and> \<not> hd_cancelled h
        \<and> dget (wm_handlers m) t' = Some h' \<and> hd_key h' = key \<and> \<not> hd_cancelled h' \<longrightarrow> t = t')"
proof -
  note clients = task_of_key(1) [OF assms, of key]
  have runs: "(\<exists>h. dget (wm_handlers m) t = Some h \<and> hd_key h = key \<and> \<not> hd_cancelled h)
      \<longleftrightarrow> dget (wm_tasks m) key = Some t" for t
    by (rule task_of_key(2) [OF assms, symmetric])
  have "(\<exists>!t. \<exists>h. dget (wm_handlers m) t = Some h \<and> hd_key h = key \<and> \<not> hd_cancelled h)
      \<longleftrightarrow> (\<exists>t. dget (wm_tasks m) key = Some t)"
    unfolding runs by (cases "dget (wm_tasks m) key") (auto simp: Ex1_def)
  moreover have "t = t'" if "dget (wm_handlers m) t = Some h \<and> hd_key h = key \<and> \<not> hd_cancelled h
      \<and> dget (wm_handlers m) t' = Some h' \<and> hd_key h' = key \<and> \<not> hd_cancelled h'" for t t' h h'
  proof -
    have "dget (wm_tasks m) key = Some t" using runs [of t] that by blast
    moreover have "dget (wm_tasks m) key = Some t'" using runs [of t'] that by blast
    ultimately show ?thesis by simp
  qed
  ultimately show ?thesis using clients by blast
qed

definition sample_clients :: "manager_event list" where
  "sample_clients = [ClientSubscribes ''a'' 70, ClientSubscribes ''a'' 71, ClientSubscribes ''b'' 72, UpstreamItem 0 ''x'',
     SendsDone 0 [0], ClientLeaves ''b'' 2]"

definition led_to :: "manager_event list \<Rightarrow> manager" where
  "led_to es = (case manager_exec es manager_init of Some m \<Rightarrow> m | None \<Rightarrow> manager_init)"

lemma led_to_reachable: "manager_exec es manager_init \<noteq> None \<Longrightarrow> manager_reachable (led_to es)"
  by (auto simp: led_to_def intro: manager_exec_reachable manager_reachable.start)

lemma one_upstream_per_key_witness:
  "\<exists>!t. \<exists>h. dget (wm_handlers (led_to sample_clients)) t = Some h \<and> hd_key h = ''a'' \<and> \<not> hd_cancelled h"
proof -
  have "manager_exec sample_clients manager_init \<noteq> None" "bucket (led_to sample_clients) ''a'' \<noteq> []" by code_simp+
  then show ?thesis using one_upstream_per_key [OF led_to_reachable, of sample_clients "''a''"] by blast
qed

text \<open>
  An item of an upstream stream is handed to every client of its key, in the order they
  joined, and to nobody else.
\<close>

theorem upstream_item_reaches_clients:
  assumes "manager_reachable m" "dget (wm_handlers m) t = Some h" "\<not> hd_cancelled h" "hd_sending h = None"
  shows "\<exists>m'. manager_do (UpstreamItem t data) m = Some m' \<and> bucket m (hd_key h) \<noteq> []
    \<and> wm_sent m' = rev (map (\<lambda>s. (s, data)) (dvalues (bucket m (hd_key h)))) @ wm_sent m
    \<and> wm_streams m' = wm_streams m \<and> wm_closed m' = wm_closed m"
proof -
  have "bucket m (hd_key h) \<noteq> []" using task_of_key [OF assms(1)] assms(2,3) by blast
  then show ?thesis using assms(2-4) by (simp add: handler_item_def Let_def)
qed

lemma upstream_item_reaches_clients_witness:
  "\<exists>m'. manager_do (UpstreamItem 0 ''y'') (led_to sample_clients) = Some m'
    \<and> wm_sent m' = rev (map (\<lambda>s. (s, ''y'')) (dvalues (bucket (led_to sample_clients) ''a''))) @ wm_sent (led_to sample_clients)"
proof -
  have "manager_exec sample_clients manager_init \<noteq> None"
    "dget (wm_handlers (led_to sample_clients)) 0 = Some \<lparr>hd_key = ''a'', hd_sending = None, hd_cancelled = False\<rparr>"
    by code_simp+
  from upstream_item_reaches_clients [OF led_to_reachable [OF this(1)] this(2)] show ?thesis by auto
qed

text \<open>
  When the upstream stream of a key ends or fails, every client of the key is closed with
  code 1011, the key is free for a new upstream handler, and the other keys keep their clients.
\<close>

theorem upstream_end_closes_clients:
  assumes "manager_reachable m" "dget (wm_handlers m) t = Some h" "\<not> hd_cancelled h" "hd_sending h = None"
  shows "\<exists>m'. manager_do (UpstreamOver t) m = Some m'
    \<and> wm_closed m' = rev (map (\<lambda>s. (s, 1011, ''Upstream disconnected'')) (dvalues (bucket m (hd_key h)))) @ wm_closed m
    \<and> bucket m' key = (if key = hd_key h then [] else bucket m key)
    \<and> dget (wm_tasks m') (hd_key h) = None \<and> dget (wm_handlers m') t = None"
proof -
  have "dget (wm_tasks m) (hd_key h) = Some t"
    using manager_okD(6) [OF manager_reachable_ok [OF assms(1)] assms(2,3)] .
  then show ?thesis using assms(2-4) by (simp add: handler_finally_def close_clients_def Let_def)
qed

lemma upstream_end_closes_clients_witness:
  "\<exists>m'. manager_do (UpstreamOver 0) (led_to sample_clients) = Some m' \<and> bucket m' ''a'' = []
    \<and> wm_closed m' = (71, 1011, ''Upstream disconnected'') # wm_closed (led_to sample_clients)"
proof -
  have c: "manager_exec sample_clients manager_init \<noteq> None"
    "dget (wm_handlers (led_to sample_clients)) 0 = Some \<lparr>hd_key = ''a'', hd_sending = None, hd_cancelled = False\<rparr>"
    "dvalues (bucket (led_to sample_clients) ''a'') = [71]"
    by code_simp+
  from upstream_end_closes_clients [OF led_to_reachable [OF c(1)] c(2), of "''a''"] c(3) show ?thesis by auto
qed

end
