(* ===== verification/Errors.thy ===== *)
theory Errors
  imports Builders
begin

text \<open>
  The error vocabulary of the SDK, \<^verbatim>\<open>exchange_router/errors.py\<close> with \<open>error_for_fault\<close> and the
  readers of an error response of \<^verbatim>\<open>exchange_router/backend.py\<close>, and the exception handlers of
  the service, \<^verbatim>\<open>exchange_router/service/main.py\<close>. An exception of an adapter reaches a caller in
  local mode through \<open>error_for_fault\<close>, and in service mode as an HTTP response that
  \<open>error_for_status\<close> reads; the two agree.
\<close>

section \<open>Errors\<close>

datatype error_class = RouterError | BadRequest | NotFound | RateLimited | UpstreamUnavailable | NotSupported
  | RouterUnreachable | SchemaMismatch

record router_error =
  re_class :: error_class
  re_detail :: pyval
  re_status :: "int option"
  re_retry_after :: "pyfloat option"

definition mk_error :: "error_class \<Rightarrow> pyval \<Rightarrow> int option \<Rightarrow> router_error" where
  "mk_error c d s = \<lparr>re_class = c, re_detail = d, re_status = s, re_retry_after = None\<rparr>"

definition error_for_status :: "int \<Rightarrow> pyval \<Rightarrow> pyfloat option \<Rightarrow> router_error" where
  "error_for_status status detail retry_after =
     (if status = 400 then mk_error BadRequest detail (Some status)
      else if status = 404 then mk_error NotFound detail (Some status)
      else if status = 429 then mk_error RateLimited detail (Some status)
      else if status = 501 then mk_error NotSupported detail (Some status)
      else if status = 503 then (mk_error UpstreamUnavailable detail (Some status))\<lparr>re_retry_after := retry_after\<rparr>
      else mk_error RouterError detail (Some status))"

text \<open>\<open>str(exc)\<close>\<close>

fun exc_str :: "pyexc \<Rightarrow> string" where
  "exc_str (ValueError s) = s"
| "exc_str (ValidationError s) = s"
| "exc_str (TypeError s) = s"
| "exc_str (KeyError s) = repr_str s"
| "exc_str (IndexError s) = s"
| "exc_str (AttributeError s) = s"
| "exc_str (OverflowError s) = s"
| "exc_str ZeroDivisionError = ''division by zero''"
| "exc_str (NotImplementedError s) = s"
| "exc_str (UpstreamUnavailableError s _) = s"
| "exc_str (HTTPStatusError _ s) = s"
| "exc_str (TransportError s) = s"
| "exc_str (OSError s) = s"
| "exc_str CancelledError = []"
| "exc_str (OtherError s) = s"

text \<open>The tests of \<open>isinstance\<close> in their order.\<close>

definition error_for_fault :: "pyexc \<Rightarrow> router_error" where
  "error_for_fault exc = (case exc of
       UpstreamUnavailableError s ra \<Rightarrow>
         (mk_error UpstreamUnavailable (PStr (exc_str exc)) (Some 503))\<lparr>re_retry_after := map_option Fin ra\<rparr>
     | ValidationError s \<Rightarrow> mk_error RouterError (PStr (exc_str exc)) (Some 502)
     | NotImplementedError s \<Rightarrow> mk_error NotSupported (PStr (exc_str exc)) (Some 501)
     | _ \<Rightarrow> if is_value_error exc then mk_error BadRequest (PStr (exc_str exc)) (Some 400)
            else mk_error RouterError (PStr (exc_str exc)) (Some 500))"

section \<open>Responses\<close>

text \<open>\<open>hr_json\<close> is \<open>None\<close> for a body that is not JSON.\<close>

record http_response =
  hr_status :: int
  hr_json :: "pyval option"
  hr_text :: string
  hr_retry_after :: "string option"

definition json_response :: "int \<Rightarrow> pyval \<Rightarrow> http_response" where
  "json_response status body = \<lparr>hr_status = status, hr_json = Some body, hr_text = [], hr_retry_after = None\<rparr>"

definition error_body :: "string \<Rightarrow> string \<Rightarrow> pyval" where
  "error_body err detail = PDict [(''error'', PStr err), (''detail'', PStr detail)]"

text \<open>
  The handler that applies is the one of the first class of the exception's ancestry that has
  one, so a \<open>ValidationError\<close> is not handled as the \<open>ValueError\<close> it also is.
\<close>

definition handle_exception :: "pyexc \<Rightarrow> http_response" where
  "handle_exception exc = (case exc of
       UpstreamUnavailableError s ra \<Rightarrow>
         (json_response 503 (error_body ''Upstream Unavailable'' (exc_str exc)))
           \<lparr>hr_retry_after := map_option (\<lambda>q. show_int (max (trunc_rat q) 1)) ra\<rparr>
     | ValidationError s \<Rightarrow> json_response 502 (error_body ''Bad Upstream Response'' (exc_str exc))
     | NotImplementedError s \<Rightarrow> json_response 501 (error_body ''Not Implemented'' (exc_str exc))
     | _ \<Rightarrow> if is_value_error exc then json_response 400 (error_body ''Invalid Request'' (exc_str exc))
            else json_response 500 (error_body ''Internal Server Error'' (exc_str exc)))"

definition response_detail :: "http_response \<Rightarrow> pyval" where
  "response_detail r =
     (let fallback = PStr (if hr_text r \<noteq> [] then hr_text r else ''HTTP '' @ show_int (hr_status r)) in
      case hr_json r of
        None \<Rightarrow> fallback
      | Some body \<Rightarrow>
          (case bindr (py_get body ''detail'') (\<lambda>d. if truthy d then Inr d else
              bindr (py_get body ''error'') (\<lambda>e. Inr (if truthy e then e else PStr (py_str body)))) of
             Inr d \<Rightarrow> d
           | Inl _ \<Rightarrow> fallback))"

definition response_retry_after :: "http_response \<Rightarrow> pyfloat option" where
  "response_retry_after r = Option.bind (hr_retry_after r) parse_float"

section \<open>Closing codes of a stream\<close>

definition FATAL_CLOSE_CODES :: "int list" where "FATAL_CLOSE_CODES = [1003, 1008]"

text \<open>What ends a stream connection on the client: a close frame, or any other exception.\<close>

datatype stream_error = ConnectionClosed "int option" string | WebSocketException string | StreamOSError string
  | StreamFault pyexc

fun is_fatal_close :: "stream_error \<Rightarrow> bool" where
  "is_fatal_close (ConnectionClosed (Some code) reason) = (code \<in> set FATAL_CLOSE_CODES)"
| "is_fatal_close _ = False"

definition is_retryable_stream_error :: "stream_error \<Rightarrow> bool" where
  "is_retryable_stream_error e \<longleftrightarrow>
     (case e of StreamFault (OSError _) \<Rightarrow> True | StreamFault _ \<Rightarrow> False | _ \<Rightarrow> True) \<and> \<not> is_fatal_close e"

fun error_for_close :: "stream_error \<Rightarrow> string \<Rightarrow> string \<Rightarrow> string \<Rightarrow> router_error option" where
  "error_for_close (ConnectionClosed (Some code) reason) exchange market_type channel =
     (if code \<notin> set FATAL_CLOSE_CODES then None
      else if code = 1003 then
        Some (mk_error NotSupported (PStr (if reason \<noteq> [] then reason else
          ''channel '' @ quoted channel @ '' is not streamed on '' @ exchange @ ''/'' @ market_type @
          ''; get_capabilities lists the channels that are'')) (Some 501))
      else Some (mk_error BadRequest (PStr (if reason \<noteq> [] then reason else
          ''channel '' @ quoted channel @ '' was refused by '' @ exchange @ ''/'' @ market_type @ ''; subscribe again'')) (Some 400)))"
| "error_for_close _ exchange market_type channel = None"

section \<open>Agreement of the two modes\<close>

definition same_error :: "router_error \<Rightarrow> router_error \<Rightarrow> bool" where
  "same_error a b \<longleftrightarrow> re_class a = re_class b \<and> re_detail a = re_detail b \<and> re_status a = re_status b"

lemma response_detail_error: "d \<noteq> [] \<Longrightarrow> hr_json r = Some (error_body e d) \<Longrightarrow> response_detail r = PStr d"
  by (simp add: response_detail_def error_body_def)

lemma handle_exception_cases:
  obtains st err where "hr_status (handle_exception exc) = st" "hr_json (handle_exception exc) = Some (error_body err (exc_str exc))"
    "re_status (error_for_fault exc) = Some st"
    "\<And>ra. same_error (error_for_status st (PStr (exc_str exc)) ra) (error_for_fault exc)"
  by (cases exc) (auto simp: handle_exception_def error_for_fault_def json_response_def same_error_def error_for_status_def mk_error_def)

lemma service_error_agrees:
  assumes "exc_str exc \<noteq> []"
  shows "same_error (error_for_status (hr_status (handle_exception exc)) (response_detail (handle_exception exc))
      (response_retry_after (handle_exception exc))) (error_for_fault exc)"
  using handle_exception_cases [of exc] response_detail_error [OF assms] by metis

end
