(* ===== verification/Remote.thy ===== *)
theory Remote
  imports Errors
begin

text \<open>
  The HTTP side of \<^verbatim>\<open>exchange_router/backend.py\<close>: the retry loop of \<open>RemoteBackend.fetch\<close>, the paths
  it asks for with the routes of \<^verbatim>\<open>exchange_router/service/main.py\<close> they meet, and
  \<open>FallbackBackend.fetch\<close>, whose calls may interleave. One HTTP exchange is a parameter
  \<open>request\<close>: a function of the outside world that answers an \<open>outcome\<close>.
\<close>

section \<open>The retry loop\<close>

text \<open>What a fetch raises: an error of the vocabulary, or an exception no handler translated.\<close>

datatype fault = Coded router_error | Raised pyexc

datatype outcome =
    Response http_response
  | TransportFailure string
  | HttpFailure string
  | OtherFailure pyexc

definition MAX_SLEEP_S :: pyfloat where "MAX_SLEEP_S = Fin 60"

definition py_min :: "pyfloat \<Rightarrow> pyfloat \<Rightarrow> pyfloat" where
  "py_min a b = (if flt b a then b else a)"

text \<open>\<open>jitter\<close> is the draw of \<open>random.uniform\<close>.\<close>

definition sleep_for :: "pyfloat \<Rightarrow> int \<Rightarrow> pyfloat option \<Rightarrow> pyfloat" where
  "sleep_for jitter attempt retry_after = (case retry_after of
       Some r \<Rightarrow> py_min r MAX_SLEEP_S
     | None \<Rightarrow> fadd (fmul (Fin 1) (Fin (of_int attempt))) jitter)"

definition retry_statuses :: "int list" where "retry_statuses = [429, 500, 502, 503, 504]"

definition is_success :: "http_response \<Rightarrow> bool" where
  "is_success r \<longleftrightarrow> 200 \<le> hr_status r \<and> hr_status r < 300"

definition unreachable :: "string \<Rightarrow> router_error" where
  "unreachable s = mk_error RouterUnreachable (PStr s) None"

text \<open>\<open>response.json()\<close> raises a \<open>ValueError\<close>, and no handler of \<open>fetch\<close> catches it.\<close>

definition response_json :: "http_response \<Rightarrow> fault + pyval" where
  "response_json r = (case hr_json r of
       Some v \<Rightarrow> Inr v
     | None \<Rightarrow> Inl (Raised (ValueError ''Expecting value: line 1 column 1 (char 0)'')))"

text \<open>The result, the sleeps in order, and the world left behind.\<close>

function fetch_loop ::
  "int \<Rightarrow> ('w \<Rightarrow> outcome \<times> 'w) \<Rightarrow> (int \<Rightarrow> pyfloat) \<Rightarrow> int \<Rightarrow> 'w \<Rightarrow> (fault + pyval) \<times> pyfloat list \<times> 'w" where
  "fetch_loop max_retries request jitter attempt w =
     (let (answer, w) = request w in
      case answer of
        Response r \<Rightarrow>
          if is_success r then (response_json r, [], w)
          else
            let status = hr_status r;
                detail = response_detail r;
                retry_after = response_retry_after r
            in if status \<notin> set retry_statuses then (Inl (Coded (error_for_status status detail retry_after)), [], w)
               else
                 let attempt = attempt + 1 in
                 if attempt > max_retries then (Inl (Coded (error_for_status status detail retry_after)), [], w)
                 else
                   let (res, sleeps, w) = fetch_loop max_retries request jitter attempt w
                   in (res, sleep_for (jitter attempt) attempt retry_after # sleeps, w)
      | TransportFailure e \<Rightarrow>
          let attempt = attempt + 1 in
          if attempt > max_retries then (Inl (Coded (unreachable e)), [], w)
          else
            let (res, sleeps, w) = fetch_loop max_retries request jitter attempt w
            in (res, sleep_for (jitter attempt) attempt None # sleeps, w)
      | HttpFailure e \<Rightarrow> (Inl (Coded (unreachable e)), [], w)
      | OtherFailure e \<Rightarrow> (Inl (Raised e), [], w))"
  by pat_completeness auto
termination
  by (relation "measure (\<lambda>(max_retries, request, jitter, attempt, w). nat (max_retries - attempt))") auto

declare fetch_loop.simps [simp del]

definition remote_fetch ::
  "int \<Rightarrow> ('w \<Rightarrow> outcome \<times> 'w) \<Rightarrow> (int \<Rightarrow> pyfloat) \<Rightarrow> 'w \<Rightarrow> (fault + pyval) \<times> pyfloat list \<times> 'w" where
  "remote_fetch max_retries request jitter w = fetch_loop max_retries request jitter 0 w"

subsection \<open>What the loop promises\<close>

text \<open>Which outcomes are worth another request, and what an outcome means when it is the last.\<close>

fun transient :: "outcome \<Rightarrow> bool" where
  "transient (Response r) \<longleftrightarrow> hr_status r \<in> set retry_statuses"
| "transient (TransportFailure e) \<longleftrightarrow> True"
| "transient _ \<longleftrightarrow> False"

fun settle :: "outcome \<Rightarrow> fault + pyval" where
  "settle (Response r) = (if is_success r then response_json r
     else Inl (Coded (error_for_status (hr_status r) (response_detail r) (response_retry_after r))))"
| "settle (TransportFailure e) = Inl (Coded (unreachable e))"
| "settle (HttpFailure e) = Inl (Coded (unreachable e))"
| "settle (OtherFailure e) = Inl (Raised e)"

fun stated_wait :: "outcome \<Rightarrow> pyfloat option" where
  "stated_wait (Response r) = response_retry_after r"
| "stated_wait _ = None"

fun waits :: "(int \<Rightarrow> pyfloat) \<Rightarrow> int \<Rightarrow> outcome list \<Rightarrow> pyfloat list" where
  "waits jitter k [] = []"
| "waits jitter k (x # xs) = sleep_for (jitter k) k (stated_wait x) # waits jitter (k + 1) xs"

text \<open>\<open>request\<close> answers with the outcomes \<open>xs\<close>, one request each, from \<open>w\<close> to \<open>w'\<close>.\<close>

fun answers :: "('w \<Rightarrow> outcome \<times> 'w) \<Rightarrow> 'w \<Rightarrow> outcome list \<Rightarrow> 'w \<Rightarrow> bool" where
  "answers request w [] w' \<longleftrightarrow> w' = w"
| "answers request w (x # xs) w' \<longleftrightarrow> fst (request w) = x \<and> answers request (snd (request w)) xs w'"

lemma transient_not_success: "transient (Response r) \<Longrightarrow> \<not> is_success r"
  by (auto simp: retry_statuses_def is_success_def)

lemma fetch_last:
  assumes "request w = (x, w')" "\<not> transient x \<or> max_retries \<le> attempt"
  shows "fetch_loop max_retries request jitter attempt w = (settle x, [], w')"
proof (cases x)
  case (Response r)
  then show ?thesis
    using assms by (simp add: fetch_loop.simps [of max_retries request jitter attempt w] Let_def)
qed (use assms in \<open>simp_all add: fetch_loop.simps [of max_retries request jitter attempt w] Let_def\<close>)

lemma fetch_again:
  assumes "request w = (x, w1)" "transient x" "attempt < max_retries"
    and "fetch_loop max_retries request jitter (attempt + 1) w1 = (res, sleeps, w')"
  shows "fetch_loop max_retries request jitter attempt w
      = (res, sleep_for (jitter (attempt + 1)) (attempt + 1) (stated_wait x) # sleeps, w')"
proof (cases x)
  case (Response r)
  then show ?thesis
    using assms transient_not_success [of r]
    by (simp add: fetch_loop.simps [of max_retries request jitter attempt w] Let_def)
qed (use assms in \<open>simp_all add: fetch_loop.simps [of max_retries request jitter attempt w] Let_def\<close>)

lemma fetch_run:
  assumes "answers request w (xs @ [x]) w'" "list_all transient xs" "attempt + int (length xs) \<le> max_retries"
    and "\<not> transient x \<or> max_retries = attempt + int (length xs)"
  shows "fetch_loop max_retries request jitter attempt w = (settle x, waits jitter (attempt + 1) xs, w')"
  using assms
proof (induction xs arbitrary: attempt w)
  case Nil
  then show ?case by (cases "request w") (auto intro!: fetch_last)
next
  case (Cons y ys)
  obtain w1 where w1: "request w = (y, w1)" "answers request w1 (ys @ [x]) w'"
    using Cons.prems(1) by (cases "request w") auto
  have "fetch_loop max_retries request jitter (attempt + 1) w1 = (settle x, waits jitter (attempt + 1 + 1) ys, w')"
    by (rule Cons.IH) (use w1 Cons.prems in auto)
  then show ?case using fetch_again [where w = w and x = y and ?w1.0 = w1 and attempt = attempt] w1(1) Cons.prems by simp
qed

text \<open>
  C4. A remote fetch makes one request after another while the answers are transient (429, 500,
  502, 503, 504 or a transport failure) and never more than \<open>max_retries + 1\<close>: whatever the
  answers are, there is such a run of them, its last answer decides the result, and before the
  \<open>k\<close>-th retry it sleeps the announced Retry-After, capped at a minute, or \<open>k\<close> seconds and the jitter.
\<close>

theorem remote_fetch_spec:
  assumes "0 \<le> max_retries"
  shows "\<exists>xs x w'. answers request w (xs @ [x]) w' \<and> list_all transient xs \<and> int (length xs) \<le> max_retries
    \<and> (transient x \<longrightarrow> int (length xs) = max_retries)
    \<and> remote_fetch max_retries request jitter w = (settle x, waits jitter 1 xs, w')"
proof -
  have "\<exists>xs x w'. answers request w (xs @ [x]) w' \<and> list_all transient xs \<and> attempt + int (length xs) \<le> max_retries
    \<and> (transient x \<longrightarrow> attempt + int (length xs) = max_retries)" if "attempt \<le> max_retries" for attempt w
    using that
  proof (induction "nat (max_retries - attempt)" arbitrary: attempt w)
    case 0
    then have "answers request w ([] @ [fst (request w)]) (snd (request w))" "attempt = max_retries" by simp_all
    then show ?case by (intro exI [of _ "[]"] exI [of _ "fst (request w)"]) auto
  next
    case (Suc n)
    show ?case
    proof (cases "transient (fst (request w))")
      case True
      have "n = nat (max_retries - (attempt + 1))" "attempt + 1 \<le> max_retries" using Suc.hyps(2) by simp_all
      from Suc.hyps(1) [OF this, of "snd (request w)"]
      obtain xs x w' where "answers request (snd (request w)) (xs @ [x]) w'" "list_all transient xs"
        "attempt + 1 + int (length xs) \<le> max_retries" "transient x \<longrightarrow> attempt + 1 + int (length xs) = max_retries" by blast
      then show ?thesis using True
        by (intro exI [of _ "fst (request w) # xs"] exI [of _ x] exI [of _ w']) auto
    next
      case False
      then show ?thesis using Suc.prems
        by (intro exI [of _ "[]"] exI [of _ "fst (request w)"] exI [of _ "snd (request w)"]) auto
    qed
  qed
  from this [of 0 w] assms obtain xs x w' where run: "answers request w (xs @ [x]) w'" "list_all transient xs"
    "int (length xs) \<le> max_retries" "transient x \<longrightarrow> int (length xs) = max_retries" by auto
  have "remote_fetch max_retries request jitter w = (settle x, waits jitter 1 xs, w')"
    using fetch_run [OF run(1,2), of 0 max_retries jitter] run(3,4) by (auto simp: remote_fetch_def)
  with run show ?thesis by blast
qed

text \<open>A scripted server for the concrete runs.\<close>

fun scripted :: "outcome list \<Rightarrow> outcome \<times> outcome list" where
  "scripted [] = (TransportFailure ''ConnectError: refused'', [])"
| "scripted (x # xs) = (x, xs)"

definition busy :: http_response where
  "busy = (json_response 503 (error_body ''Upstream Unavailable'' ''busy''))\<lparr>hr_retry_after := Some ''90''\<rparr>"

lemma busy_wait: "sleep_for j n (stated_wait (Response busy)) = Fin 60"
proof -
  have "response_retry_after busy = Some (Fin 90)" by code_simp
  then show ?thesis by (simp add: sleep_for_def py_min_def MAX_SLEEP_S_def)
qed

lemma remote_fetch_spec_witness:
  "remote_fetch 2 scripted (\<lambda>_. Fin 0) [Response busy, TransportFailure ''ReadTimeout: '', Response (json_response 200 (PInt 7))]
     = (Inr (PInt 7), [Fin 60, Fin 2], [])
   \<and> (\<exists>xs x w'. answers scripted [Response busy, Response busy] (xs @ [x]) w' \<and> int (length xs) \<le> 1
        \<and> remote_fetch 1 scripted (\<lambda>_. Fin 0) [Response busy, Response busy] = (settle x, waits (\<lambda>_. Fin 0) 1 xs, w'))"
proof
  have kinds: "transient (Response busy)" "\<not> transient (Response (json_response 200 (PInt 7)))"
      "settle (Response (json_response 200 (PInt 7))) = Inr (PInt 7)" by code_simp+
  have "sleep_for (Fin 0) 2 None = Fin 2" using round64_int [of 2] by (simp add: sleep_for_def)
  then have waited: "waits (\<lambda>_. Fin 0) 1 [Response busy, TransportFailure ''ReadTimeout: ''] = [Fin 60, Fin 2]"
    by (simp add: busy_wait del: stated_wait.simps(1))
  show "remote_fetch 2 scripted (\<lambda>_. Fin 0) [Response busy, TransportFailure ''ReadTimeout: '', Response (json_response 200 (PInt 7))]
     = (Inr (PInt 7), [Fin 60, Fin 2], [])"
    unfolding remote_fetch_def
    by (subst fetch_run [where xs = "[Response busy, TransportFailure ''ReadTimeout: '']" and
          x = "Response (json_response 200 (PInt 7))" and w' = "[]"])
      (use waited in \<open>simp_all add: kinds del: settle.simps transient.simps(1) waits.simps\<close>)
  show "\<exists>xs x w'. answers scripted [Response busy, Response busy] (xs @ [x]) w' \<and> int (length xs) \<le> 1
        \<and> remote_fetch 1 scripted (\<lambda>_. Fin 0) [Response busy, Response busy] = (settle x, waits (\<lambda>_. Fin 0) 1 xs, w')"
    using remote_fetch_spec [of 1 scripted "[Response busy, Response busy]" "\<lambda>_. Fin 0", OF zero_le_one] by blast
qed

end
