(* ===== verification/Machine.thy ===== *)
theory Machine
  imports Prelude
begin

text \<open>
  State machines given by a partial step function: \<open>None\<close> for an event that cannot happen in a
  state. Runs of a list of events, reachable states, and the rule that an invariant of every
  step holds in every reachable state.
\<close>

fun run_events :: "('e \<Rightarrow> 's \<Rightarrow> 's option) \<Rightarrow> 'e list \<Rightarrow> 's \<Rightarrow> 's option" where
  "run_events act [] s = Some s"
| "run_events act (e # es) s = (case act e s of None \<Rightarrow> None | Some s' \<Rightarrow> run_events act es s')"

inductive reached :: "('e \<Rightarrow> 's \<Rightarrow> 's option) \<Rightarrow> 's \<Rightarrow> 's \<Rightarrow> bool" for act s0 where
  start: "reached act s0 s0"
| step: "reached act s0 s \<Longrightarrow> act e s = Some s' \<Longrightarrow> reached act s0 s'"

lemma run_events_append:
  "run_events act (es @ fs) s = (case run_events act es s of None \<Rightarrow> None | Some s' \<Rightarrow> run_events act fs s')"
  by (induction es arbitrary: s) (auto split: option.split)

lemma run_events_reached: "run_events act es s = Some s' \<Longrightarrow> reached act s0 s \<Longrightarrow> reached act s0 s'"
  by (induction es arbitrary: s) (auto split: option.splits intro: reached.step)

lemma run_events_invariant:
  assumes "run_events act es s = Some s'" "P s" "\<And>e s s'. act e s = Some s' \<Longrightarrow> P s \<Longrightarrow> P s'"
  shows "P s'"
  using assms(1,2) by (induction es arbitrary: s) (auto split: option.splits dest: assms(3))

lemma reached_invariant:
  assumes "reached act s0 s" "P s0" "\<And>e s s'. act e s = Some s' \<Longrightarrow> P s \<Longrightarrow> P s'"
  shows "P s"
  using assms(1,2) by (induction) (auto dest: assms(3))

text \<open>The state a run ends in; the initial one when an event of it cannot happen.\<close>

definition ends_in :: "('e \<Rightarrow> 's \<Rightarrow> 's option) \<Rightarrow> 's \<Rightarrow> 'e list \<Rightarrow> 's" where
  "ends_in act s0 es = (case run_events act es s0 of Some s \<Rightarrow> s | None \<Rightarrow> s0)"

lemma ends_in_run: "run_events act es s0 \<noteq> None \<Longrightarrow> run_events act es s0 = Some (ends_in act s0 es)"
  by (auto simp: ends_in_def)

lemma ends_in_reached: "run_events act es s0 \<noteq> None \<Longrightarrow> reached act s0 (ends_in act s0 es)"
  using run_events_reached [OF ends_in_run reached.start] .

lemma ends_in_suffix:
  assumes "run_events act (es @ fs) s0 \<noteq> None"
  shows "run_events act fs (ends_in act s0 es) = Some (ends_in act s0 (es @ fs))"
  using assms by (auto simp: ends_in_def run_events_append split: option.splits)

end
