(* ===== verification/Fallback.thy ===== *)
theory Fallback
  imports Remote Machine
begin

text \<open>
  \<open>FallbackBackend\<close> of \<^verbatim>\<open>exchange_router/backend.py\<close>: a service with the local adapters behind it.
  Calls overlap, so a call is two events, its start and the answer of the backend it went to;
  \<open>fetch\<close> and \<open>stream\<close> differ in the exceptions that count as an unreachable service.
\<close>

section \<open>States and steps\<close>

datatype call_kind = Fetch | Stream

datatype 'a phase = AtPrimary call_kind | AtSecondary call_kind | Ended "fault + 'a"

record 'a fallback =
  fb_degraded :: bool
  fb_warnings :: nat
  fb_calls :: "(nat, 'a phase) dict"

definition fb_init :: "'a fallback" where
  "fb_init = \<lparr>fb_degraded = False, fb_warnings = 0, fb_calls = []\<rparr>"

text \<open>The exceptions that \<open>fetch\<close> and \<open>stream\<close> catch.\<close>

fun gone :: "call_kind \<Rightarrow> fault \<Rightarrow> bool" where
  "gone kind (Coded e) \<longleftrightarrow> re_class e = RouterUnreachable"
| "gone kind (Raised (OSError s)) \<longleftrightarrow> kind = Stream"
| "gone kind (Raised e) \<longleftrightarrow> False"

definition fb_pick :: "'a fallback \<Rightarrow> call_kind \<Rightarrow> 'a phase" where
  "fb_pick s kind = (if fb_degraded s then AtSecondary kind else AtPrimary kind)"

definition fb_degrade :: "'a fallback \<Rightarrow> 'a fallback" where
  "fb_degrade s = s\<lparr>fb_degraded := True, fb_warnings := fb_warnings s + 1\<rparr>"

definition fb_set :: "nat \<Rightarrow> 'a phase \<Rightarrow> 'a fallback \<Rightarrow> 'a fallback" where
  "fb_set i p s = s\<lparr>fb_calls := dset (fb_calls s) i p\<rparr>"

text \<open>
  The answer of the backend a call is at: an unreachable service sends it on to the local
  adapters, unless the router is degraded by now; whatever the local adapters answer stands.
\<close>

definition fb_reply :: "nat \<Rightarrow> fault + 'a \<Rightarrow> 'a phase \<Rightarrow> 'a fallback \<Rightarrow> 'a fallback" where
  "fb_reply i r p s = (case (p, r) of
       (AtPrimary kind, Inl e) \<Rightarrow>
         (if \<not> gone kind e \<or> fb_degraded s then fb_set i (Ended r) s
          else fb_set i (AtSecondary kind) (fb_degrade s))
     | _ \<Rightarrow> fb_set i (Ended r) s)"

datatype 'a fb_event = Begin nat call_kind | Reply nat "fault + 'a"

fun fb_do :: "'a fb_event \<Rightarrow> 'a fallback \<Rightarrow> 'a fallback option" where
  "fb_do (Begin i kind) s = (if dget (fb_calls s) i = None then Some (fb_set i (fb_pick s kind) s) else None)"
| "fb_do (Reply i r) s = (case dget (fb_calls s) i of
     None \<Rightarrow> None
   | Some (Ended _) \<Rightarrow> None
   | Some p \<Rightarrow> Some (fb_reply i r p s))"

abbreviation fb_reachable :: "'a fallback \<Rightarrow> bool" where
  "fb_reachable \<equiv> reached fb_do fb_init"

lemmas fb_defs = fb_reply_def fb_pick_def fb_degrade_def fb_set_def

section \<open>What it promises\<close>

lemma fb_do_degraded:
  assumes "fb_do e s = Some s'"
  shows "fb_degraded s \<Longrightarrow> fb_degraded s' \<and> fb_warnings s' = fb_warnings s"
    and "\<not> fb_degraded s \<Longrightarrow> fb_warnings s' = fb_warnings s + (if fb_degraded s' then 1 else 0)"
  using assms by (cases e; auto simp: fb_defs split: option.splits phase.splits sum.splits if_splits)+

lemma fb_warned: "fb_reachable s \<Longrightarrow> fb_warnings s = (if fb_degraded s then 1 else 0)"
proof (induction rule: reached.induct)
  case (step s e s')
  then show ?case using fb_do_degraded [OF step.hyps(2)] by (cases "fb_degraded s") auto
qed (simp add: fb_init_def)

text \<open>
  C34. The fallback degrades once and never bounces back: from the moment a call degraded it, every
  call that starts, however they interleave, goes to the local adapters alone, the router stays
  degraded, and the warning has been given exactly once.
\<close>

theorem fallback_degrades_once:
  assumes "fb_reachable s" "fb_degraded s" "run_events fb_do (es @ [Begin i kind]) s = Some s'"
  shows "fb_degraded s' \<and> fb_warnings s' = 1 \<and> dget (fb_calls s') i = Some (AtSecondary kind)"
proof -
  obtain s1 where s1: "run_events fb_do es s = Some s1" "fb_do (Begin i kind) s1 = Some s'"
    using assms(3) by (auto simp: run_events_append split: option.splits)
  have kept: "fb_degraded s1 \<and> fb_warnings s1 = fb_warnings s"
    by (rule run_events_invariant [where P = "\<lambda>u. fb_degraded u \<and> fb_warnings u = fb_warnings s", OF s1(1)])
      (use assms(2) fb_do_degraded(1) in auto)
  then show ?thesis using s1(2) fb_warned [OF assms(1)] assms(2) by (auto simp: fb_pick_def fb_set_def split: if_splits)
qed

text \<open>
  A call that finds the service unreachable is answered by the local adapters, and the caller
  does not see the failure, provided that no other call degraded the router in the meantime.
\<close>

theorem fallback_recovers:
  assumes "fb_reachable s" "dget (fb_calls s) i = Some (AtPrimary kind)" "gone kind e" "\<not> fb_degraded s"
  shows "\<exists>s1 s2. fb_do (Reply i (Inl e)) s = Some s1 \<and> fb_degraded s1
     \<and> fb_do (Reply i r) s1 = Some s2 \<and> dget (fb_calls s2) i = Some (Ended r)"
  using assms by (cases r) (auto simp: fb_defs)

text \<open>
  A call in flight loses: it started on the service before another call degraded the router,
  so when the service fails it too, it raises \<open>RouterUnreachable\<close> although the local adapters
  are there, while any call that starts at that moment is served by them.
\<close>

theorem fallback_in_flight_fails:
  assumes "fb_reachable s" "fb_degraded s" "dget (fb_calls s) i = Some (AtPrimary kind)" "gone kind e"
  shows "\<exists>s'. fb_do (Reply i (Inl e)) s = Some s' \<and> dget (fb_calls s') i = Some (Ended (Inl e))"
  using assms by (auto simp: fb_defs)

section \<open>Concrete runs\<close>

definition refused :: fault where "refused = Coded (unreachable ''ConnectError: refused'')"

definition both_sent :: "int fb_event list" where
  "both_sent = [Begin 0 Fetch, Begin 1 Fetch]"

abbreviation led :: "int fb_event list \<Rightarrow> int fallback" where
  "led \<equiv> ends_in fb_do fb_init"

lemma fallback_degrades_once_witness:
  "dget (fb_calls (led (both_sent @ [Reply 0 (Inl refused)] @ [Reply 0 (Inr 5), Begin 2 Stream]))) 2 = Some (AtSecondary Stream)"
proof -
  let ?es = "both_sent @ [Reply 0 (Inl refused)]" and ?fs = "[Reply 0 (Inr 5)]"
  have c: "run_events fb_do ?es fb_init \<noteq> None" "fb_degraded (led ?es)"
    "run_events fb_do (?es @ ?fs @ [Begin 2 Stream]) fb_init \<noteq> None" by code_simp+
  from fallback_degrades_once [OF ends_in_reached [OF c(1)] c(2) ends_in_suffix [OF c(3)]] show ?thesis by simp
qed

lemma fallback_recovers_witness:
  "\<exists>s1 s2. fb_do (Reply 1 (Inl refused)) (led both_sent) = Some s1 \<and> fb_do (Reply 1 (Inr 7)) s1 = Some s2
     \<and> dget (fb_calls s2) 1 = Some (Ended (Inr 7))"
proof -
  have c: "run_events fb_do both_sent fb_init \<noteq> None" "dget (fb_calls (led both_sent)) 1 = Some (AtPrimary Fetch)"
    "gone Fetch refused" "\<not> fb_degraded (led both_sent)" by code_simp+
  from fallback_recovers [OF ends_in_reached [OF c(1)] c(2,3,4), of "Inr 7"] show ?thesis by blast
qed

lemma fallback_in_flight_fails_witness:
  "\<exists>s'. fb_do (Reply 1 (Inl refused)) (led (both_sent @ [Reply 0 (Inl refused), Reply 0 (Inr 5)])) = Some s'
     \<and> dget (fb_calls s') 1 = Some (Ended (Inl refused))"
proof -
  let ?es = "both_sent @ [Reply 0 (Inl refused), Reply 0 (Inr 5)]"
  have c: "run_events fb_do ?es fb_init \<noteq> None" "fb_degraded (led ?es)"
    "dget (fb_calls (led ?es)) 1 = Some (AtPrimary Fetch)" "gone Fetch refused" by code_simp+
  from fallback_in_flight_fails [OF ends_in_reached [OF c(1)] c(2-4)] show ?thesis .
qed

end
