(* ===== verification/Effects.thy ===== *)
theory Effects
  imports Prelude
begin

text \<open>
  Coroutines of the program as functions of the outside world: they take the world they start in
  and return a result, or an exception, with the world they leave.
\<close>

type_synonym ('w, 'e, 'a) io = "'w \<Rightarrow> ('e + 'a) \<times> 'w"

definition retw :: "'a \<Rightarrow> ('w, 'e, 'a) io" where
  "retw v w = (Inr v, w)"

definition liftw :: "'e + 'a \<Rightarrow> ('w, 'e, 'a) io" where
  "liftw r w = (r, w)"

definition bindw :: "('w, 'e, 'a) io \<Rightarrow> ('a \<Rightarrow> ('w, 'e, 'b) io) \<Rightarrow> ('w, 'e, 'b) io" where
  "bindw m f w = (case m w of (Inl e, w) \<Rightarrow> (Inl e, w) | (Inr v, w) \<Rightarrow> f v w)"

text \<open>The same coroutine with its exceptions seen through \<open>f\<close>.\<close>

definition failw :: "('e \<Rightarrow> 'f) \<Rightarrow> ('w, 'e, 'a) io \<Rightarrow> ('w, 'f, 'a) io" where
  "failw f m w = (case m w of (r, w) \<Rightarrow> (map_sum f (\<lambda>v. v) r, w))"

text \<open>\<open>[await f(x) for x in xs]\<close>\<close>

fun mapw :: "('a \<Rightarrow> ('w, 'e, 'b) io) \<Rightarrow> 'a list \<Rightarrow> ('w, 'e, 'b list) io" where
  "mapw f [] = retw []"
| "mapw f (x # xs) = bindw (f x) (\<lambda>y. bindw (mapw f xs) (\<lambda>ys. retw (y # ys)))"

named_theorems io_simps "evaluation of coroutines"

lemma map_sum_Inr_iff: "map_sum f g r = Inr y \<longleftrightarrow> (\<exists>x. r = Inr x \<and> y = g x)"
  by (cases r) auto

lemma retw_eq [io_simps]: "retw v w = (Inr v, w)" by (simp add: retw_def)

lemma liftw_simps [simp]: "liftw (Inr v) = retw v" by (simp add: liftw_def retw_def fun_eq_iff)

lemma bindw_cong: "m = m' \<Longrightarrow> (\<And>v. f v = f' v) \<Longrightarrow> bindw m f = bindw m' f'"
  by (simp add: bindw_def fun_eq_iff split: sum.split prod.split)

lemma bindw_retw [simp]: "bindw (retw v) f = f v"
  by (simp add: bindw_def retw_def fun_eq_iff)

lemma bindw_raise [simp]: "bindw (liftw (Inl e)) f = liftw (Inl e)"
  by (simp add: bindw_def liftw_def fun_eq_iff)

lemma bindw_retw_right [simp]: "bindw m retw = m"
  by (auto simp: bindw_def retw_def fun_eq_iff split: sum.split prod.split)

lemma bindw_assoc [simp]: "bindw (bindw m f) g = bindw m (\<lambda>v. bindw (f v) g)"
  by (auto simp: bindw_def fun_eq_iff split: sum.split prod.split)

lemma failw_retw [simp]: "failw f (retw v) = retw v"
  by (simp add: failw_def retw_def fun_eq_iff)

lemma failw_liftw [simp]: "failw f (liftw r) = liftw (map_sum f (\<lambda>v. v) r)"
  by (simp add: failw_def liftw_def fun_eq_iff)

lemma failw_bindw [simp]: "failw f (bindw m g) = bindw (failw f m) (\<lambda>v. failw f (g v))"
  by (auto simp: failw_def bindw_def fun_eq_iff split: sum.split prod.split)

lemma failw_failw [simp]: "failw f (failw h m) = failw (\<lambda>e. f (h e)) m"
  by (auto simp: failw_def fun_eq_iff map_sum.compositionality comp_def split: prod.split)

lemma map_sum_compose [simp]: "map_sum f k (map_sum g h r) = map_sum (\<lambda>e. f (g e)) (\<lambda>v. k (h v)) r"
  by (simp add: map_sum.compositionality comp_def)

lemma failw_mapw [simp]: "failw f (mapw g xs) = mapw (\<lambda>x. failw f (g x)) xs"
  by (induction xs) simp_all

lemma failw_if [simp]: "failw f (if b then m else n) = (if b then failw f m else failw f n)"
  by simp

lemma bindw_eq: "m w = (r, w') \<Longrightarrow> bindw m f w = (case r of Inl e \<Rightarrow> (Inl e, w') | Inr v \<Rightarrow> f v w')"
  by (simp add: bindw_def)

lemma bindw_Inr_iff: "bindw m f w = (Inr y, w'') \<longleftrightarrow> (\<exists>v w'. m w = (Inr v, w') \<and> f v w' = (Inr y, w''))"
  by (auto simp: bindw_def split: sum.splits prod.splits)

end
