(* ===== verification/Gateway.thy ===== *)
theory Gateway
  imports Remote Effects Capabilities
begin

text \<open>
  The two ways a call of the SDK is answered. \<open>LocalBackend\<close> of \<^verbatim>\<open>exchange_router/backend.py\<close>
  dispatches it to an adapter of the process; the service, \<^verbatim>\<open>exchange_router/service/main.py\<close>, has
  one handler per route. Both are written out as they are, over the same adapters, and give
  the same answers.
\<close>

section \<open>Adapters and calls\<close>

text \<open>
  What \<open>BaseExchange\<close> asks of an adapter. Rows the gateway only passes on are already the JSON
  value of their model; \<open>codec\<close> is the encoder for those it works on, and the body FastAPI
  makes for a parameter that fails validation.
\<close>

record 'w venue =
  vn_name :: string
  vn_markets :: "market_type list"
  vn_capabilities :: pyval
  vn_status :: "('w, pyexc, pyval) io"
  vn_exchange_info :: "market_type \<Rightarrow> ('w, pyexc, symbol_info list) io"
  vn_ticker :: "market_type \<Rightarrow> string \<Rightarrow> ('w, pyexc, pyval) io"
  vn_book_ticker :: "market_type \<Rightarrow> string \<Rightarrow> ('w, pyexc, pyval) io"
  vn_mark_price :: "market_type \<Rightarrow> string \<Rightarrow> ('w, pyexc, pyval) io"
  vn_symbol_info :: "market_type \<Rightarrow> string \<Rightarrow> ('w, pyexc, pyval) io"
  vn_margin_tiers :: "market_type \<Rightarrow> string \<Rightarrow> ('w, pyexc, pyval) io"
  vn_orderbook :: "market_type \<Rightarrow> string \<Rightarrow> int \<Rightarrow> ('w, pyexc, pyval) io"
  vn_trades :: "market_type \<Rightarrow> string \<Rightarrow> int \<Rightarrow> ('w, pyexc, pyval) io"
  vn_agg_trades :: "market_type \<Rightarrow> string \<Rightarrow> int option \<Rightarrow> int \<Rightarrow> ('w, pyexc, pyval) io"
  vn_candles :: "market_type \<Rightarrow> string \<Rightarrow> string \<Rightarrow> int option \<Rightarrow> int \<Rightarrow> ('w, pyexc, candle list) io"
  vn_funding_rate :: "market_type \<Rightarrow> string \<Rightarrow> int option \<Rightarrow> int \<Rightarrow> ('w, pyexc, pyval) io"
  vn_open_interest :: "market_type \<Rightarrow> string \<Rightarrow> string \<Rightarrow> int option \<Rightarrow> int \<Rightarrow> ('w, pyexc, open_interest list) io"
  vn_liquidations :: "market_type \<Rightarrow> string \<Rightarrow> int option \<Rightarrow> int \<Rightarrow> ('w, pyexc, pyval) io"
  vn_long_short_ratio :: "market_type \<Rightarrow> string \<Rightarrow> string \<Rightarrow> int option \<Rightarrow> int \<Rightarrow> ('w, pyexc, pyval) io"

type_synonym 'w registry = "(string, 'w venue) dict"

record codec =
  js_candles :: "candle list \<Rightarrow> pyval"
  js_open_interest :: "open_interest list \<Rightarrow> pyval"
  js_invalid :: "string \<Rightarrow> pyval"

datatype service_route = StatusRoute | VersionRoute | ExchangesRoute

datatype exchange_route = ExchangeStatusRoute | OverviewRoute | CapabilitiesRoute | MarketTypesRoute

datatype market_route = MarketsRoute | SymbolInfoRoute | TickerRoute | BookTickerRoute | MarkPriceRoute
  | MarginTiersRoute | OrderbookRoute | TradesRoute | AggTradesRoute | CandlesRoute | FundingRateRoute
  | OpenInterestRoute | LiquidationsRoute | LongShortRatioRoute

fun route_name :: "market_route \<Rightarrow> string" where
  "route_name MarketsRoute = ''markets''"
| "route_name SymbolInfoRoute = ''symbol_info''"
| "route_name TickerRoute = ''ticker''"
| "route_name BookTickerRoute = ''book_ticker''"
| "route_name MarkPriceRoute = ''mark_price''"
| "route_name MarginTiersRoute = ''margin_tiers''"
| "route_name OrderbookRoute = ''orderbook''"
| "route_name TradesRoute = ''trades''"
| "route_name AggTradesRoute = ''agg_trades''"
| "route_name CandlesRoute = ''candles''"
| "route_name FundingRateRoute = ''funding_rate''"
| "route_name OpenInterestRoute = ''open_interest''"
| "route_name LiquidationsRoute = ''liquidations''"
| "route_name LongShortRatioRoute = ''long_short_ratio''"

text \<open>The keyword parameters of a call, absent or given.\<close>

record query =
  q_interval :: "string option"
  q_period :: "string option"
  q_start :: "int option"
  q_limit :: "int option"
  q_depth :: "int option"

datatype call =
    ServiceCall service_route
  | ExchangeCall exchange_route string
  | MarketCall market_route string string string query

section \<open>What both sides share\<close>

definition VERSION :: string where "VERSION = ''3.2.0''"
definition SCHEMA_VERSION :: int where "SCHEMA_VERSION = 3"

fun funding_kind_name :: "funding_kind \<Rightarrow> string" where
  "funding_kind_name Discrete = ''discrete''"
| "funding_kind_name Continuous = ''continuous''"

definition symbol_info_to_lite :: "symbol_info \<Rightarrow> pyval" where
  "symbol_info_to_lite info = PDict [
     (''symbol'', PStr (si_symbol info)),
     (''base_asset'', PStr (si_base_asset info)),
     (''quote_asset'', PStr (si_quote_asset info)),
     (''qty_unit'', PStr (unit_name (si_qty_unit info))),
     (''contract_size'', (case si_contract_size info of None \<Rightarrow> PNone | Some c \<Rightarrow> PFloat c)),
     (''funding'', (case si_funding info of None \<Rightarrow> PNone
        | Some f \<Rightarrow> PDict [(''kind'', PStr (funding_kind_name (fc_kind f)))]))]"

text \<open>\<open>join_open_interest_basis\<close> with its one read of candles.\<close>

definition join_io :: "'w venue \<Rightarrow> market_type \<Rightarrow> string \<Rightarrow> string \<Rightarrow> int option \<Rightarrow> int \<Rightarrow> open_interest list
    \<Rightarrow> ('w, pyexc, open_interest list) io" where
  "join_io v mt symbol period start limit oi_rows w =
     (if mt \<noteq> Linear \<or> oi_rows = [] then (Inr oi_rows, w)
      else case vn_candles v mt symbol period start (limit + 1) w of
        (r, w) \<Rightarrow> (join_open_interest_basis (\<lambda>_ _ _ _. r) mt symbol period start limit oi_rows, w))"

section \<open>In process\<close>

text \<open>A coroutine of an adapter inside the backend: its exceptions are still raw.\<close>

abbreviation raw :: "('w, pyexc, 'a) io \<Rightarrow> ('w, fault, 'a) io" where
  "raw \<equiv> failw Raised"

definition local_adapter :: "'w registry \<Rightarrow> string \<Rightarrow> market_type option \<Rightarrow> fault + 'w venue" where
  "local_adapter reg exchange mt = (case dget reg exchange of
       None \<Rightarrow> Inl (Coded (mk_error NotFound
         (PStr (''Exchange '' @ quoted exchange @ '' not found or not enabled'')) (Some 404)))
     | Some v \<Rightarrow> (case mt of
         None \<Rightarrow> Inr v
       | Some m \<Rightarrow>
           if m \<notin> set (vn_markets v) then
             Inl (Coded (mk_error BadRequest
               (PStr (''Market type '' @ quoted (market_value m) @ '' not supported on '' @ exchange)) (Some 400)))
           else Inr v))"

definition local_market_type :: "string \<Rightarrow> fault + market_type" where
  "local_market_type s = (case market_of s of
       Some m \<Rightarrow> Inr m
     | None \<Rightarrow> Inl (Coded (mk_error RouterError
         (PStr (''market_type '' @ quoted s @ '' is not a market type; use spot, linear or inverse'')) (Some 422))))"

definition symbol_count :: "'w venue \<Rightarrow> market_type \<Rightarrow> ('w, pyexc, int) io" where
  "symbol_count v mt w = (case vn_exchange_info v mt w of
       (Inr infos, w) \<Rightarrow> (Inr (int (length infos)), w)
     | (Inl e, w) \<Rightarrow> (if is_exception e then Inr 0 else Inl e, w))"

definition overview_market :: "pyval \<Rightarrow> market_type \<times> int \<Rightarrow> pyexc + pyval" where
  "overview_market caps = (\<lambda>(mt, count). bindr (market_block caps (market_value mt)) (\<lambda>block.
     Inr (PDict [(''name'', PStr (market_value mt)), (''symbol_count'', PInt count), (''capabilities'', block)])))"

definition local_overview :: "'w registry \<Rightarrow> string \<Rightarrow> ('w, fault, pyval) io" where
  "local_overview reg exchange =
     bindw (liftw (local_adapter reg exchange None)) (\<lambda>v.
     bindw (raw (mapw (symbol_count v) (vn_markets v))) (\<lambda>counts.
     bindw (raw (liftw (mapr (overview_market (vn_capabilities v)) (zip (vn_markets v) counts)))) (\<lambda>ms.
     retw (PDict [(''exchange'', PStr exchange), (''status'', PStr ''ok''), (''market_types'', PList ms)]))))"

text \<open>\<open>params.get(k, default)\<close>\<close>

definition given :: "'a option \<Rightarrow> 'a \<Rightarrow> 'a" where
  "given x d = (case x of None \<Rightarrow> d | Some v \<Rightarrow> v)"

text \<open>\<open>INTERVAL_ROUTES\<close>: the parameter of the route, and how messages call it.\<close>

fun interval_param :: "market_route \<Rightarrow> query \<Rightarrow> (string option \<times> string) option" where
  "interval_param CandlesRoute q = Some (q_interval q, ''Interval'')"
| "interval_param OpenInterestRoute q = Some (q_period q, ''Period'')"
| "interval_param LongShortRatioRoute q = Some (q_period q, ''Period'')"
| "interval_param route q = None"

definition check_interval :: "'w venue \<Rightarrow> market_type \<Rightarrow> market_route \<Rightarrow> query \<Rightarrow> ('w, fault, unit) io" where
  "check_interval v mt route q = (case interval_param route q of
       Some (Some value, label) \<Rightarrow>
         raw (liftw (validate_interval (vn_name v) (vn_capabilities v) mt (route_name route) label value))
     | _ \<Rightarrow> retw ())"

fun local_market_call :: "codec \<Rightarrow> 'w venue \<Rightarrow> market_route \<Rightarrow> string \<Rightarrow> market_type \<Rightarrow> string \<Rightarrow> query
    \<Rightarrow> ('w, fault, pyval) io" where
  "local_market_call js v MarketsRoute exchange mt symbol q =
     bindw (raw (vn_exchange_info v mt)) (\<lambda>infos.
     retw (PDict [(''exchange'', PStr exchange), (''market_type'', PStr (market_value mt)),
       (''count'', PInt (int (length infos))), (''markets'', PList (map symbol_info_to_lite infos))]))"
| "local_market_call js v TickerRoute exchange mt symbol q = raw (vn_ticker v mt symbol)"
| "local_market_call js v BookTickerRoute exchange mt symbol q = raw (vn_book_ticker v mt symbol)"
| "local_market_call js v MarkPriceRoute exchange mt symbol q = raw (vn_mark_price v mt symbol)"
| "local_market_call js v SymbolInfoRoute exchange mt symbol q = raw (vn_symbol_info v mt symbol)"
| "local_market_call js v MarginTiersRoute exchange mt symbol q = raw (vn_margin_tiers v mt symbol)"
| "local_market_call js v OrderbookRoute exchange mt symbol q = raw (vn_orderbook v mt symbol (given (q_depth q) 20))"
| "local_market_call js v TradesRoute exchange mt symbol q = raw (vn_trades v mt symbol (given (q_limit q) 100))"
| "local_market_call js v AggTradesRoute exchange mt symbol q =
     raw (vn_agg_trades v mt symbol (q_start q) (given (q_limit q) 500))"
| "local_market_call js v CandlesRoute exchange mt symbol q =
     bindw (raw (vn_candles v mt symbol (given (q_interval q) ''1h'') (q_start q) (given (q_limit q) 100)))
       (\<lambda>rows. retw (js_candles js rows))"
| "local_market_call js v FundingRateRoute exchange mt symbol q =
     raw (vn_funding_rate v mt symbol (q_start q) (given (q_limit q) 100))"
| "local_market_call js v LiquidationsRoute exchange mt symbol q =
     raw (vn_liquidations v mt symbol (q_start q) (given (q_limit q) 100))"
| "local_market_call js v LongShortRatioRoute exchange mt symbol q =
     raw (vn_long_short_ratio v mt symbol (given (q_period q) ''5m'') (q_start q) (given (q_limit q) 30))"
| "local_market_call js v OpenInterestRoute exchange mt symbol q =
     (let period = given (q_period q) ''1h''; limit = given (q_limit q) 30 in
      bindw (raw (vn_open_interest v mt symbol period (q_start q) limit)) (\<lambda>oi_rows.
      bindw (raw (join_io v mt symbol period (q_start q) limit oi_rows)) (\<lambda>rows.
      retw (js_open_interest js rows))))"

text \<open>\<open>_dispatch\<close>; \<open>fetch\<close> reads the market type before it.\<close>

fun local_dispatch :: "codec \<Rightarrow> 'w registry \<Rightarrow> call \<Rightarrow> ('w, fault, pyval) io" where
  "local_dispatch js reg (ServiceCall StatusRoute) =
     retw (PDict [(''status'', PStr ''ok''), (''service'', PStr ''exchange-router-service'')])"
| "local_dispatch js reg (ServiceCall VersionRoute) =
     retw (PDict [(''version'', PStr VERSION), (''schema_version'', PInt SCHEMA_VERSION)])"
| "local_dispatch js reg (ServiceCall ExchangesRoute) =
     retw (PDict [(''count'', PInt (int (length reg))), (''exchanges'', PList (map PStr (dkeys reg)))])"
| "local_dispatch js reg (ExchangeCall ExchangeStatusRoute exchange) =
     bindw (liftw (local_adapter reg exchange None)) (\<lambda>v. raw (vn_status v))"
| "local_dispatch js reg (ExchangeCall OverviewRoute exchange) = local_overview reg exchange"
| "local_dispatch js reg (ExchangeCall CapabilitiesRoute exchange) =
     bindw (liftw (local_adapter reg exchange None)) (\<lambda>v. retw (vn_capabilities v))"
| "local_dispatch js reg (ExchangeCall MarketTypesRoute exchange) =
     bindw (liftw (local_adapter reg exchange None)) (\<lambda>v.
     retw (PDict [(''market_types'', PList (map (\<lambda>m. PStr (market_value m)) (vn_markets v)))]))"
| "local_dispatch js reg (MarketCall route exchange market_type symbol q) =
     bindw (liftw (local_market_type market_type)) (\<lambda>mt.
     bindw (liftw (local_adapter reg exchange (Some mt))) (\<lambda>v.
     bindw (check_interval v mt route q) (\<lambda>_.
     local_market_call js v route exchange mt symbol q)))"

text \<open>\<open>LocalBackend.fetch\<close>: every \<open>Exception\<close> leaves as an error of the vocabulary.\<close>

definition translate :: "fault + pyval \<Rightarrow> fault + pyval" where
  "translate r = (case r of
       Inl (Raised e) \<Rightarrow> if is_exception e then Inl (Coded (error_for_fault e)) else r
     | _ \<Rightarrow> r)"

definition local_fetch :: "codec \<Rightarrow> 'w registry \<Rightarrow> call \<Rightarrow> ('w, fault, pyval) io" where
  "local_fetch js reg c w = (case local_dispatch js reg c w of (r, w) \<Rightarrow> (translate r, w))"

section \<open>As a service\<close>

text \<open>What a handler raises: \<open>HTTPException\<close>, or an exception for the registered handlers.\<close>

datatype service_fault = HttpException int string | Unhandled pyexc | Unprocessable string

abbreviation unhandled :: "('w, pyexc, 'a) io \<Rightarrow> ('w, service_fault, 'a) io" where
  "unhandled \<equiv> failw Unhandled"

definition validate_request :: "'w registry \<Rightarrow> string \<Rightarrow> market_type option \<Rightarrow> service_fault + 'w venue" where
  "validate_request reg exchange mt = (case dget reg exchange of
       None \<Rightarrow> Inl (HttpException 404 (''Exchange '' @ quoted exchange @ '' not found or not enabled''))
     | Some v \<Rightarrow> (case mt of
         None \<Rightarrow> Inr v
       | Some m \<Rightarrow>
           if m \<notin> set (vn_markets v) then
             Inl (HttpException 400 (''Market type '' @ quoted (market_value m) @ '' not supported on '' @ exchange))
           else Inr v))"

text \<open>
  The parameters as the signatures declare them: a path segment that must be a \<open>MarketType\<close>,
  \<open>Query(d, ge=1)\<close>, and optional ones with a default.
\<close>

definition path_market :: "string \<Rightarrow> service_fault + market_type" where
  "path_market s = (case market_of s of Some m \<Rightarrow> Inr m | None \<Rightarrow> Inl (Unprocessable ''market_type''))"

definition query_ge1 :: "string \<Rightarrow> int option \<Rightarrow> int \<Rightarrow> service_fault + int" where
  "query_ge1 name x d = (let n = given x d in if 1 \<le> n then Inr n else Inl (Unprocessable name))"

definition exchange_overview :: "'w registry \<Rightarrow> string \<Rightarrow> ('w, service_fault, pyval) io" where
  "exchange_overview reg exchange =
     bindw (liftw (validate_request reg exchange None)) (\<lambda>v.
     bindw (unhandled (mapw (symbol_count v) (vn_markets v))) (\<lambda>counts.
     bindw (unhandled (liftw (mapr (overview_market (vn_capabilities v)) (zip (vn_markets v) counts)))) (\<lambda>ms.
     retw (PDict [(''exchange'', PStr exchange), (''status'', PStr ''ok''), (''market_types'', PList ms)]))))"

text \<open>One handler per route; \<open>limit\<close> and \<open>depth\<close> are validated before the body runs.\<close>

definition service_markets :: "'w registry \<Rightarrow> string \<Rightarrow> market_type \<Rightarrow> ('w, service_fault, pyval) io" where
  "service_markets reg exchange mt =
     bindw (liftw (validate_request reg exchange (Some mt))) (\<lambda>v.
     bindw (unhandled (vn_exchange_info v mt)) (\<lambda>infos.
     retw (PDict [(''exchange'', PStr exchange), (''market_type'', PStr (market_value mt)),
       (''count'', PInt (int (length infos))), (''markets'', PList (map symbol_info_to_lite infos))])))"

definition service_point :: "('w venue \<Rightarrow> market_type \<Rightarrow> string \<Rightarrow> ('w, pyexc, pyval) io) \<Rightarrow> 'w registry \<Rightarrow>
    string \<Rightarrow> market_type \<Rightarrow> string \<Rightarrow> ('w, service_fault, pyval) io" where
  "service_point get reg exchange mt symbol =
     bindw (liftw (validate_request reg exchange (Some mt))) (\<lambda>v. unhandled (get v mt symbol))"

definition service_orderbook where
  "service_orderbook reg exchange mt symbol q =
     bindw (liftw (query_ge1 ''depth'' (q_depth q) 20)) (\<lambda>depth.
     bindw (liftw (validate_request reg exchange (Some mt))) (\<lambda>v. unhandled (vn_orderbook v mt symbol depth)))"

definition service_trades where
  "service_trades reg exchange mt symbol q =
     bindw (liftw (query_ge1 ''limit'' (q_limit q) 100)) (\<lambda>limit.
     bindw (liftw (validate_request reg exchange (Some mt))) (\<lambda>v. unhandled (vn_trades v mt symbol limit)))"

definition service_agg_trades where
  "service_agg_trades reg exchange mt symbol q =
     bindw (liftw (query_ge1 ''limit'' (q_limit q) 500)) (\<lambda>limit.
     bindw (liftw (validate_request reg exchange (Some mt))) (\<lambda>v.
     unhandled (vn_agg_trades v mt symbol (q_start q) limit)))"

definition service_candles where
  "service_candles js reg exchange mt symbol q =
     bindw (liftw (query_ge1 ''limit'' (q_limit q) 100)) (\<lambda>limit.
     let interval = given (q_interval q) ''1h'' in
     bindw (liftw (validate_request reg exchange (Some mt))) (\<lambda>v.
     bindw (unhandled (liftw (validate_interval (vn_name v) (vn_capabilities v) mt ''candles'' ''Interval'' interval))) (\<lambda>_.
     bindw (unhandled (vn_candles v mt symbol interval (q_start q) limit)) (\<lambda>rows. retw (js_candles js rows)))))"

definition service_open_interest where
  "service_open_interest js reg exchange mt symbol q =
     bindw (liftw (query_ge1 ''limit'' (q_limit q) 30)) (\<lambda>limit.
     let period = given (q_period q) ''1h'' in
     bindw (liftw (validate_request reg exchange (Some mt))) (\<lambda>v.
     bindw (unhandled (liftw (validate_interval (vn_name v) (vn_capabilities v) mt ''open_interest'' ''Period'' period))) (\<lambda>_.
     bindw (unhandled (vn_open_interest v mt symbol period (q_start q) limit)) (\<lambda>oi_rows.
     bindw (unhandled (join_io v mt symbol period (q_start q) limit oi_rows)) (\<lambda>rows.
     retw (js_open_interest js rows))))))"

definition service_funding_rate where
  "service_funding_rate reg exchange mt symbol q =
     bindw (liftw (query_ge1 ''limit'' (q_limit q) 100)) (\<lambda>limit.
     bindw (liftw (validate_request reg exchange (Some mt))) (\<lambda>v.
     unhandled (vn_funding_rate v mt symbol (q_start q) limit)))"

definition service_liquidations where
  "service_liquidations reg exchange mt symbol q =
     bindw (liftw (query_ge1 ''limit'' (q_limit q) 100)) (\<lambda>limit.
     bindw (liftw (validate_request reg exchange (Some mt))) (\<lambda>v.
     unhandled (vn_liquidations v mt symbol (q_start q) limit)))"

definition service_long_short_ratio where
  "service_long_short_ratio reg exchange mt symbol q =
     bindw (liftw (query_ge1 ''limit'' (q_limit q) 30)) (\<lambda>limit.
     let period = given (q_period q) ''5m'' in
     bindw (liftw (validate_request reg exchange (Some mt))) (\<lambda>v.
     bindw (unhandled (liftw (validate_interval (vn_name v) (vn_capabilities v) mt ''long_short_ratio'' ''Period'' period))) (\<lambda>_.
     unhandled (vn_long_short_ratio v mt symbol period (q_start q) limit))))"

fun service_market_call :: "codec \<Rightarrow> 'w registry \<Rightarrow> market_route \<Rightarrow> string \<Rightarrow> market_type \<Rightarrow> string \<Rightarrow> query
    \<Rightarrow> ('w, service_fault, pyval) io" where
  "service_market_call js reg MarketsRoute exchange mt symbol q = service_markets reg exchange mt"
| "service_market_call js reg SymbolInfoRoute exchange mt symbol q = service_point vn_symbol_info reg exchange mt symbol"
| "service_market_call js reg TickerRoute exchange mt symbol q = service_point vn_ticker reg exchange mt symbol"
| "service_market_call js reg BookTickerRoute exchange mt symbol q = service_point vn_book_ticker reg exchange mt symbol"
| "service_market_call js reg MarkPriceRoute exchange mt symbol q = service_point vn_mark_price reg exchange mt symbol"
| "service_market_call js reg MarginTiersRoute exchange mt symbol q = service_point vn_margin_tiers reg exchange mt symbol"
| "service_market_call js reg OrderbookRoute exchange mt symbol q = service_orderbook reg exchange mt symbol q"
| "service_market_call js reg TradesRoute exchange mt symbol q = service_trades reg exchange mt symbol q"
| "service_market_call js reg AggTradesRoute exchange mt symbol q = service_agg_trades reg exchange mt symbol q"
| "service_market_call js reg CandlesRoute exchange mt symbol q = service_candles js reg exchange mt symbol q"
| "service_market_call js reg OpenInterestRoute exchange mt symbol q = service_open_interest js reg exchange mt symbol q"
| "service_market_call js reg FundingRateRoute exchange mt symbol q = service_funding_rate reg exchange mt symbol q"
| "service_market_call js reg LiquidationsRoute exchange mt symbol q = service_liquidations reg exchange mt symbol q"
| "service_market_call js reg LongShortRatioRoute exchange mt symbol q = service_long_short_ratio reg exchange mt symbol q"

fun service_handle :: "codec \<Rightarrow> 'w registry \<Rightarrow> call \<Rightarrow> ('w, service_fault, pyval) io" where
  "service_handle js reg (ServiceCall StatusRoute) =
     retw (PDict [(''status'', PStr ''ok''), (''service'', PStr ''exchange-router-service'')])"
| "service_handle js reg (ServiceCall VersionRoute) =
     retw (PDict [(''version'', PStr VERSION), (''schema_version'', PInt SCHEMA_VERSION)])"
| "service_handle js reg (ServiceCall ExchangesRoute) =
     retw (PDict [(''count'', PInt (int (length reg))), (''exchanges'', PList (map PStr (dkeys reg)))])"
| "service_handle js reg (ExchangeCall ExchangeStatusRoute exchange) =
     bindw (liftw (validate_request reg exchange None)) (\<lambda>v. unhandled (vn_status v))"
| "service_handle js reg (ExchangeCall OverviewRoute exchange) = exchange_overview reg exchange"
| "service_handle js reg (ExchangeCall CapabilitiesRoute exchange) =
     bindw (liftw (validate_request reg exchange None)) (\<lambda>v. retw (vn_capabilities v))"
| "service_handle js reg (ExchangeCall MarketTypesRoute exchange) =
     bindw (liftw (validate_request reg exchange None)) (\<lambda>v.
     retw (PDict [(''market_types'', PList (map (\<lambda>m. PStr (market_value m)) (vn_markets v)))]))"
| "service_handle js reg (MarketCall route exchange market_type symbol q) =
     bindw (liftw (path_market market_type)) (\<lambda>mt. service_market_call js reg route exchange mt symbol q)"

definition respond :: "codec \<Rightarrow> service_fault + pyval \<Rightarrow> http_response" where
  "respond js r = (case r of
       Inr v \<Rightarrow> json_response 200 v
     | Inl (HttpException status detail) \<Rightarrow> json_response status (PDict [(''detail'', PStr detail)])
     | Inl (Unprocessable name) \<Rightarrow> json_response 422 (PDict [(''detail'', js_invalid js name)])
     | Inl (Unhandled e) \<Rightarrow> handle_exception e)"

definition service_answer :: "codec \<Rightarrow> 'w registry \<Rightarrow> call \<Rightarrow> 'w \<Rightarrow> outcome \<times> 'w" where
  "service_answer js reg c w = (case service_handle js reg c w of (r, w) \<Rightarrow> (Response (respond js r), w))"

end
