(* ===== verification/Paths.thy ===== *)
theory Paths
  imports Gateway
begin

text \<open>
  The URL between the two sides: \<open>_endpoint\<close> of \<^verbatim>\<open>exchange_router/backend.py\<close> writes the path of a
  call and hands its parameters to the HTTP client; the route decorators of
  \<^verbatim>\<open>exchange_router/service/main.py\<close> read them, in the order of their declaration, a parameter of the
  path matching one non-empty segment. What HTTP makes of a path on its way, and how the framework
  reads an integer, are the record \<open>transport\<close>; \<open>transport_ok\<close> says what is relied on.
\<close>

section \<open>Writing and matching\<close>

definition slash :: char where "slash = CHR ''/''"

definition under :: "string \<Rightarrow> string \<Rightarrow> string" where "under a b = a @ slash # b"

fun endpoint :: "call \<Rightarrow> string" where
  "endpoint (ServiceCall StatusRoute) = ''status''"
| "endpoint (ServiceCall VersionRoute) = ''version''"
| "endpoint (ServiceCall ExchangesRoute) = ''exchanges''"
| "endpoint (ExchangeCall OverviewRoute exchange) = exchange"
| "endpoint (ExchangeCall ExchangeStatusRoute exchange) = under exchange ''status''"
| "endpoint (ExchangeCall CapabilitiesRoute exchange) = under exchange ''capabilities''"
| "endpoint (ExchangeCall MarketTypesRoute exchange) = under exchange ''market_types''"
| "endpoint (MarketCall route exchange m symbol q) =
     (if route = MarketsRoute then under exchange (under m ''markets'')
      else if route = SymbolInfoRoute then under exchange (under m (under ''markets'' symbol))
      else under exchange (under m (under (route_name route) symbol)))"

text \<open>The parameters of a call that are there, as text.\<close>

definition query_pairs :: "query \<Rightarrow> (string \<times> string) list" where
  "query_pairs q =
     (case q_interval q of None \<Rightarrow> [] | Some s \<Rightarrow> [(''interval'', s)])
     @ (case q_period q of None \<Rightarrow> [] | Some s \<Rightarrow> [(''period'', s)])
     @ (case q_start q of None \<Rightarrow> [] | Some n \<Rightarrow> [(''start'', show_int n)])
     @ (case q_limit q of None \<Rightarrow> [] | Some n \<Rightarrow> [(''limit'', show_int n)])
     @ (case q_depth q of None \<Rightarrow> [] | Some n \<Rightarrow> [(''depth'', show_int n)])"

definition query_none :: query where
  "query_none = \<lparr>q_interval = None, q_period = None, q_start = None, q_limit = None, q_depth = None\<rparr>"

definition call_pairs :: "call \<Rightarrow> (string \<times> string) list" where
  "call_pairs c = (case c of MarketCall route e m s q \<Rightarrow> query_pairs q | _ \<Rightarrow> [])"

definition symbol_routes :: "market_route list" where
  "symbol_routes = [TickerRoute, BookTickerRoute, MarkPriceRoute, OrderbookRoute, TradesRoute, AggTradesRoute,
     CandlesRoute, OpenInterestRoute, FundingRateRoute, LiquidationsRoute, LongShortRatioRoute, MarginTiersRoute]"

text \<open>The route and the names a path stands for, \<open>None\<close> for the 404 of an unknown path.\<close>

fun service_match :: "string list \<Rightarrow> call option" where
  "service_match [a] =
     (if a = ''status'' then Some (ServiceCall StatusRoute)
      else if a = ''version'' then Some (ServiceCall VersionRoute)
      else if a = ''exchanges'' then Some (ServiceCall ExchangesRoute)
      else if a \<noteq> [] then Some (ExchangeCall OverviewRoute a) else None)"
| "service_match [e, r] =
     (if e = [] then None
      else if r = ''status'' then Some (ExchangeCall ExchangeStatusRoute e)
      else if r = ''capabilities'' then Some (ExchangeCall CapabilitiesRoute e)
      else if r = ''market_types'' then Some (ExchangeCall MarketTypesRoute e) else None)"
| "service_match [e, m, r] =
     (if e \<noteq> [] \<and> m \<noteq> [] \<and> r = ''markets'' then Some (MarketCall MarketsRoute e m [] query_none) else None)"
| "service_match [e, m, r, s] =
     (if e = [] \<or> m = [] \<or> s = [] then None
      else if r = ''markets'' then Some (MarketCall SymbolInfoRoute e m s query_none)
      else map_option (\<lambda>route. MarketCall route e m s query_none) (List.find (\<lambda>route. route_name route = r) symbol_routes))"
| "service_match _ = None"

text \<open>The query parameters that the handler of a route declares.\<close>

fun declared :: "market_route \<Rightarrow> string list" where
  "declared CandlesRoute = [''interval'', ''start'', ''limit'']"
| "declared OpenInterestRoute = [''period'', ''start'', ''limit'']"
| "declared LongShortRatioRoute = [''period'', ''start'', ''limit'']"
| "declared AggTradesRoute = [''start'', ''limit'']"
| "declared FundingRateRoute = [''start'', ''limit'']"
| "declared LiquidationsRoute = [''start'', ''limit'']"
| "declared TradesRoute = [''limit'']"
| "declared OrderbookRoute = [''depth'']"
| "declared _ = []"

record transport =
  tr_path :: "string \<Rightarrow> string"
  tr_int :: "string \<Rightarrow> int option"

datatype no_handler = UnknownPath | BadParameter string

definition read_int :: "transport \<Rightarrow> (string \<times> string) list \<Rightarrow> string \<Rightarrow> no_handler + int option" where
  "read_int t ps k = (case dget ps k of
       None \<Rightarrow> Inr None
     | Some s \<Rightarrow> (case tr_int t s of None \<Rightarrow> Inl (BadParameter k) | Some n \<Rightarrow> Inr (Some n)))"

definition read_query :: "transport \<Rightarrow> (string \<times> string) list \<Rightarrow> no_handler + query" where
  "read_query t ps = bindr (read_int t ps ''start'') (\<lambda>start. bindr (read_int t ps ''limit'') (\<lambda>limit.
     bindr (read_int t ps ''depth'') (\<lambda>depth.
     Inr \<lparr>q_interval = dget ps ''interval'', q_period = dget ps ''period'', q_start = start, q_limit = limit, q_depth = depth\<rparr>)))"

definition served_call :: "transport \<Rightarrow> string \<Rightarrow> (string \<times> string) list \<Rightarrow> no_handler + call" where
  "served_call t u ps = (case service_match (split_all slash (tr_path t u)) of
       None \<Rightarrow> Inl UnknownPath
     | Some (MarketCall route e m s q) \<Rightarrow>
         bindr (read_query t (filter (\<lambda>(k, v). k \<in> set (declared route)) ps)) (\<lambda>q. Inr (MarketCall route e m s q))
     | Some c \<Rightarrow> Inr c)"

text \<open>The service, asked for a path with parameters.\<close>

definition service_http :: "codec \<Rightarrow> 'w registry \<Rightarrow> transport \<Rightarrow> string \<Rightarrow> (string \<times> string) list \<Rightarrow> 'w \<Rightarrow> outcome \<times> 'w" where
  "service_http js reg t u ps w = (case served_call t u ps of
       Inr c \<Rightarrow> service_answer js reg c w
     | Inl UnknownPath \<Rightarrow> (Response (json_response 404 (PDict [(''detail'', PStr ''Not Found'')])), w)
     | Inl (BadParameter k) \<Rightarrow> (Response (json_response 422 (PDict [(''detail'', js_invalid js k)])), w))"

section \<open>What is relied on\<close>

text \<open>
  A path of printable characters without \<open>%\<close>, \<open>?\<close> and \<open>#\<close>, none of whose segments is a dot or two,
  is the path the server is handed; and an integer is read from its decimal digits.
\<close>

definition plain_char :: "char \<Rightarrow> bool" where
  "plain_char c \<longleftrightarrow> 32 \<le> (of_char c :: nat) \<and> (of_char c :: nat) \<le> 126 \<and> c \<notin> {CHR 0x25, CHR ''?'', CHR 0x23}"

definition no_dots :: "string \<Rightarrow> bool" where
  "no_dots s \<longleftrightarrow> s \<noteq> ''.'' \<and> s \<noteq> ''..''"

definition transport_ok :: "transport \<Rightarrow> bool" where
  "transport_ok t \<longleftrightarrow> (\<forall>u. list_all plain_char u \<and> list_all no_dots (split_all slash u) \<longrightarrow> tr_path t u = u)
     \<and> (\<forall>n. tr_int t (show_int n) = Some n)"

text \<open>One that satisfies it: the path ends at a query or fragment and its escapes are undone.\<close>

definition hex_digit :: "char \<Rightarrow> nat option" where
  "hex_digit c = (let n = (of_char c :: nat) in
     if 48 \<le> n \<and> n \<le> 57 then Some (n - 48) else if 65 \<le> n \<and> n \<le> 70 then Some (n - 55)
     else if 97 \<le> n \<and> n \<le> 102 then Some (n - 87) else None)"

fun unescape :: "string \<Rightarrow> string" where
  "unescape (c # x # y # s) = (if c = CHR 0x25 then (case (hex_digit x, hex_digit y) of
       (Some a, Some b) \<Rightarrow> char_of (16 * a + b) # unescape s | _ \<Rightarrow> c # unescape (x # y # s))
     else c # unescape (x # y # s))"
| "unescape s = s"

definition plain_transport :: transport where
  "plain_transport = \<lparr>tr_path = (\<lambda>u. unescape (takeWhile (\<lambda>c. c \<noteq> CHR ''?'' \<and> c \<noteq> CHR 0x23) u)), tr_int = parse_int\<rparr>"

lemma unescape_id: "CHR 0x25 \<notin> set u \<Longrightarrow> unescape u = u"
  by (induction u rule: unescape.induct) auto

lemma plain_charD: "list_all plain_char u \<Longrightarrow> CHR 0x25 \<notin> set u \<and> CHR ''?'' \<notin> set u \<and> CHR 0x23 \<notin> set u"
  by (auto simp: plain_char_def list_all_iff)

lemma plain_transport_ok: "transport_ok plain_transport"
proof -
  have "tr_path plain_transport u = u" if "list_all plain_char u" for u
  proof -
    have "takeWhile (\<lambda>c. c \<noteq> CHR ''?'' \<and> c \<noteq> CHR 0x23) u = u"
      using plain_charD [OF that] by (intro takeWhile_eq_all_conv [THEN iffD2]) auto
    moreover have "tr_path plain_transport u = unescape (takeWhile (\<lambda>c. c \<noteq> CHR ''?'' \<and> c \<noteq> CHR 0x23) u)"
      by (simp add: plain_transport_def)
    ultimately show ?thesis using plain_charD [OF that] unescape_id [of u] by metis
  qed
  then show ?thesis by (simp add: transport_ok_def plain_transport_def parse_show_int)
qed

section \<open>Reading back\<close>

definition segment :: "string \<Rightarrow> bool" where
  "segment s \<longleftrightarrow> s \<noteq> [] \<and> slash \<notin> set s \<and> list_all plain_char s \<and> no_dots s"

lemma split_all_fresh: "c \<notin> set s \<Longrightarrow> split_all c s = [s]"
  by (induction s) auto

lemma split_all_nonempty: "split_all c s \<noteq> []"
  by (induction s) (auto split: list.split)

lemma split_all_append: "split_all c (a @ c # b) = split_all c a @ split_all c b"
proof (induction a)
  case (Cons x a)
  then show ?case using split_all_nonempty [of c a] by (auto split: list.split)
qed simp

lemma split_all_length: "c \<in> set s \<Longrightarrow> 2 \<le> length (split_all c s)"
proof -
  assume "c \<in> set s"
  then obtain a b where "s = a @ c # b" by (auto dest: split_list)
  moreover have "1 \<le> length (split_all c a)" "1 \<le> length (split_all c b)"
    using split_all_nonempty [of c a] split_all_nonempty [of c b] by (simp_all add: Suc_le_eq)
  ultimately show ?thesis by (simp add: split_all_append)
qed

lemma split_under: "slash \<notin> set a \<Longrightarrow> split_all slash (under a b) = a # split_all slash b"
  by (simp add: under_def split_all_append split_all_fresh)

lemma split_markets: "split_all slash ''markets'' = [''markets'']"
    "split_all slash (under ''markets'' s) = ''markets'' # split_all slash s"
  by (rule split_all_fresh split_under; simp add: slash_def)+

lemma set_under: "set (under a b) = insert slash (set a \<union> set b)"
  by (auto simp: under_def)

lemma route_name_segment: "segment (route_name route)"
proof -
  have "list_all (\<lambda>r. segment (route_name r)) (MarketsRoute # SymbolInfoRoute # symbol_routes)" by code_simp
  then show ?thesis by (cases route) (simp_all add: symbol_routes_def)
qed

text \<open>
  Calls the client can write: names that are plain segments, none of which is taken for a route of the
  service itself, \<open>markets\<close> without a symbol, and no parameters but those of the route.
\<close>

definition addressable :: "call \<Rightarrow> bool" where
  "addressable c \<longleftrightarrow> (case c of
       ServiceCall r \<Rightarrow> True
     | ExchangeCall r e \<Rightarrow> segment e \<and> \<not> (r = OverviewRoute \<and> e \<in> {''status'', ''version'', ''exchanges''})
     | MarketCall route e m s q \<Rightarrow> segment e \<and> segment m \<and> (if route = MarketsRoute then s = [] else segment s)
         \<and> list_all (\<lambda>(k, v). k \<in> set (declared route)) (query_pairs q))"

lemma find_route: "List.find (\<lambda>r. route_name r = route_name route) symbol_routes
    = (if route = MarketsRoute \<or> route = SymbolInfoRoute then None else Some route)"
proof -
  have "list_all (\<lambda>route. List.find (\<lambda>r. route_name r = route_name route) symbol_routes
      = (if route = MarketsRoute \<or> route = SymbolInfoRoute then None else Some route))
    (MarketsRoute # SymbolInfoRoute # symbol_routes)" by code_simp
  moreover have "route \<in> set (MarketsRoute # SymbolInfoRoute # symbol_routes)"
    by (cases route) (simp_all add: symbol_routes_def)
  ultimately show ?thesis by (simp only: list_all_iff)
qed

lemma read_query_pairs:
  assumes "transport_ok t"
  shows "read_query t (query_pairs q) = Inr q"
proof -
  have "tr_int t (show_int n) = Some n" for n using assms by (simp add: transport_ok_def)
  then show ?thesis
    by (cases q) (simp add: read_query_def read_int_def query_pairs_def dget_def split: option.split)
qed

lemma segment_split: "segment s \<Longrightarrow> split_all slash s = [s]"
  by (simp add: segment_def split_all_fresh)

lemma plain_under [simp]: "list_all plain_char (under a b) = (list_all plain_char a \<and> list_all plain_char b)"
proof -
  have "plain_char slash" by code_simp
  then show ?thesis by (simp add: under_def)
qed

lemma segment_plain: "segment s \<Longrightarrow> slash \<notin> set s \<and> list_all plain_char s \<and> no_dots s \<and> s \<noteq> []"
  by (simp add: segment_def)

lemma fixed_segments: "segment ''markets''" "segment ''status''" "segment ''capabilities''" "segment ''market_types''"
    "segment ''version''" "segment ''exchanges''"
  by code_simp+

lemma path_kept:
  assumes "transport_ok t" "list_all plain_char u" "list_all no_dots (split_all slash u)"
  shows "tr_path t u = u"
  using assms by (simp add: transport_ok_def)

lemma slash_in_market: "split_all slash (under e (under m (under r s))) = e # m # r # split_all slash s"
    if "slash \<notin> set e" "slash \<notin> set m" "slash \<notin> set r"
  using that by (simp add: split_under)

fun call_segments :: "call \<Rightarrow> string list" where
  "call_segments (ServiceCall r) = [endpoint (ServiceCall r)]"
| "call_segments (ExchangeCall OverviewRoute e) = [e]"
| "call_segments (ExchangeCall ExchangeStatusRoute e) = [e, ''status'']"
| "call_segments (ExchangeCall CapabilitiesRoute e) = [e, ''capabilities'']"
| "call_segments (ExchangeCall MarketTypesRoute e) = [e, ''market_types'']"
| "call_segments (MarketCall route e m s q) =
     (if route = MarketsRoute then [e, m, ''markets'']
      else [e, m, if route = SymbolInfoRoute then ''markets'' else route_name route, s])"

lemma call_segments_plain:
  assumes "addressable c"
  shows "list_all segment (call_segments c)"
proof (cases c)
  case (ServiceCall r)
  then show ?thesis using fixed_segments by (cases r) simp_all
next
  case (ExchangeCall r e)
  then show ?thesis using assms fixed_segments by (cases r) (simp_all add: addressable_def)
next
  case (MarketCall route e m s q)
  then show ?thesis using assms fixed_segments route_name_segment [of route] by (simp add: addressable_def)
qed

lemma endpoint_split:
  assumes "addressable c"
  shows "split_all slash (endpoint c) = call_segments c"
proof (cases c)
  case (ServiceCall r)
  then show ?thesis by (cases r) (simp_all add: slash_def)
next
  case (ExchangeCall r e)
  then have "segment e" "slash \<notin> set e" using assms by (simp_all add: addressable_def segment_def)
  then show ?thesis using ExchangeCall fixed_segments by (cases r) (simp_all add: split_under segment_split del: split_all.simps)
next
  case (MarketCall route e m s q)
  then have names: "segment e" "segment m" "if route = MarketsRoute then s = [] else segment s" "slash \<notin> set e" "slash \<notin> set m"
    using assms by (auto simp: addressable_def dest: segment_plain)
  then show ?thesis using MarketCall fixed_segments route_name_segment [of route]
    by (cases "route = MarketsRoute"; cases "route = SymbolInfoRoute") (simp_all add: split_under split_markets segment_split segment_plain del: split_all.simps)
qed

lemma set_split_all: "x \<in> set u \<Longrightarrow> x = c \<or> (\<exists>p\<in>set (split_all c u). x \<in> set p)"
  by (induction u) (auto split: list.splits)

lemma plain_parts:
  assumes "list_all segment (split_all slash u)"
  shows "list_all plain_char u" "list_all no_dots (split_all slash u)"
proof -
  have "plain_char slash" by code_simp
  moreover have "plain_char c" if "p \<in> set (split_all slash u)" "c \<in> set p" for p c
    using assms that by (simp add: list_all_iff segment_def)
  ultimately show "list_all plain_char u" using set_split_all [of _ u slash] by (metis list_all_iff)
  show "list_all no_dots (split_all slash u)" using assms by (simp add: list_all_iff segment_def)
qed

lemma service_match_call:
  assumes "addressable c"
  shows "service_match (call_segments c) =
    Some (case c of MarketCall route e m s q \<Rightarrow> MarketCall route e m s query_none | _ \<Rightarrow> c)"
proof (cases c)
  case (ServiceCall r)
  then show ?thesis by (cases r) simp_all
next
  case (ExchangeCall r e)
  then show ?thesis using assms by (cases r) (simp_all add: addressable_def segment_def)
next
  case (MarketCall route e m s q)
  moreover have "route_name route \<noteq> ''markets''" if "route \<noteq> MarketsRoute" using that by (cases route) simp_all
  ultimately show ?thesis using assms find_route [of route]
    by (cases "route = MarketsRoute"; cases "route = SymbolInfoRoute") (simp_all add: addressable_def segment_def)
qed

lemma call_reaches:
  assumes "transport_ok t" "addressable c"
  shows "served_call t (endpoint c) (call_pairs c) = Inr c"
proof -
  have "list_all segment (split_all slash (endpoint c))"
    using call_segments_plain [OF assms(2)] endpoint_split [OF assms(2)] by simp
  then have path: "tr_path t (endpoint c) = endpoint c" using path_kept [OF assms(1)] plain_parts by blast
  have told: "filter (\<lambda>(k, v). k \<in> set (declared route)) (query_pairs q) = query_pairs q" if "c = MarketCall route e m s q" for route e m s q
    using assms(2) that by (simp add: addressable_def filter_id_conv list_all_iff)
  show ?thesis
    unfolding served_call_def path endpoint_split [OF assms(2)] service_match_call [OF assms(2)]
    using told read_query_pairs [OF assms(1)] by (cases c) (simp_all add: call_pairs_def)
qed



text \<open>
  A symbol written with a slash, which every adapter accepts, is not found in service mode: the
  client puts it in the path as it is, and no route of the service has that many segments.
\<close>

theorem slash_symbol_not_found:
  assumes "transport_ok t" "route \<noteq> MarketsRoute" "segment e" "segment m" "slash \<in> set s"
    and "list_all plain_char s" "list_all no_dots (split_all slash s)"
  shows "served_call t (endpoint (MarketCall route e m s q)) ps = Inl UnknownPath"
proof -
  let ?u = "endpoint (MarketCall route e m s q)"
  obtain r where r: "segment r" "?u = under e (under m (under r s))"
    using assms(2) fixed_segments route_name_segment [of route] by (cases "route = SymbolInfoRoute") auto
  have parts: "split_all slash ?u = e # m # r # split_all slash s"
    using assms(3,4) r by (simp add: slash_in_market segment_plain del: endpoint.simps)
  then have "tr_path t ?u = ?u"
    using assms r(1) segment_plain by (intro path_kept [OF assms(1)]) (auto simp: r(2) simp del: endpoint.simps)
  moreover have "\<exists>x y zs. split_all slash s = x # y # zs"
    using split_all_length [OF assms(5)] by (cases "split_all slash s"; cases "tl (split_all slash s)") auto
  ultimately show ?thesis using parts by (auto simp: served_call_def simp del: endpoint.simps)
qed

lemma slash_symbol_not_found_witness:
  "served_call plain_transport ''okx/spot/ticker/BTC/USDT'' [] = Inl UnknownPath"
proof -
  have e: "endpoint (MarketCall TickerRoute ''okx'' ''spot'' ''BTC/USDT'' query_none) = ''okx/spot/ticker/BTC/USDT''"
    by code_simp
  have "segment ''okx''" "segment ''spot''" "slash \<in> set ''BTC/USDT''" "list_all plain_char ''BTC/USDT''"
    "list_all no_dots (split_all slash ''BTC/USDT'')" by code_simp+
  then show ?thesis using slash_symbol_not_found [OF plain_transport_ok, of TickerRoute "''okx''" "''spot''" "''BTC/USDT''" query_none "[]"]
    by (simp add: e del: endpoint.simps)
qed

end
