(* ===== verification/Agreement.thy ===== *)
theory Agreement
  imports Paths
begin

text \<open>
  The two modes give the same answers. The handlers of the service and the dispatch of
  \<open>LocalBackend\<close> are equal up to how they state a failure (\<open>fault_of\<close>), and the failures become
  the same error on the two ways to the caller.
\<close>

section \<open>Handlers against dispatch\<close>

fun fault_of :: "codec \<Rightarrow> service_fault \<Rightarrow> fault" where
  "fault_of js (HttpException status detail) = Coded (error_for_status status (PStr detail) None)"
| "fault_of js (Unprocessable name) = Coded (error_for_status 422 (js_invalid js name) None)"
| "fault_of js (Unhandled e) = Raised e"

lemma fault_of_unhandled [simp]: "(\<lambda>e. fault_of js (Unhandled e)) = Raised"
  by (simp add: fun_eq_iff)

lemma local_adapter_eq: "local_adapter reg e m = map_sum (fault_of js) (\<lambda>v. v) (validate_request reg e m)"
  by (auto simp: local_adapter_def validate_request_def error_for_status_def split: option.split)

text \<open>The value a route assumes when the caller names no interval, and the calls the claim is about.\<close>

fun default_interval :: "market_route \<Rightarrow> string" where
  "default_interval LongShortRatioRoute = ''5m''"
| "default_interval route = ''1h''"

definition default_served :: "'w venue \<Rightarrow> market_type \<Rightarrow> market_route \<Rightarrow> string \<Rightarrow> bool" where
  "default_served v mt route label \<longleftrightarrow>
     validate_interval (vn_name v) (vn_capabilities v) mt (route_name route) label (default_interval route) = Inr ()"

definition call_ok :: "'w registry \<Rightarrow> call \<Rightarrow> bool" where
  "call_ok reg c = (case c of
       MarketCall route exchange m symbol q \<Rightarrow>
         1 \<le> given (q_limit q) 1 \<and> 1 \<le> given (q_depth q) 1 \<and>
         (case market_of m of
            None \<Rightarrow> False
          | Some mt \<Rightarrow> (case (interval_param route q, dget reg exchange) of
               (Some (None, label), Some v) \<Rightarrow> default_served v mt route label
             | _ \<Rightarrow> True))
     | _ \<Rightarrow> True)"

lemma query_ge1_ok: "1 \<le> given x 1 \<Longrightarrow> 1 \<le> d \<Longrightarrow> query_ge1 name x d = Inr (given x d)"
  by (auto simp: query_ge1_def given_def split: option.splits)

lemma validate_request_Inr: "validate_request reg e (Some mt) = Inr v \<Longrightarrow> dget reg e = Some v"
  by (auto simp: validate_request_def split: option.splits if_splits)

lemmas service_handlers = service_markets_def service_point_def service_orderbook_def service_trades_def
  service_agg_trades_def service_candles_def service_open_interest_def service_funding_rate_def
  service_liquidations_def service_long_short_ratio_def

lemma market_call_eq:
  assumes "call_ok reg (MarketCall route exchange m symbol q)" "market_of m = Some mt"
  shows "bindw (liftw (local_adapter reg exchange (Some mt))) (\<lambda>v. bindw (check_interval v mt route q)
      (\<lambda>_. local_market_call js v route exchange mt symbol q))
    = failw (fault_of js) (service_market_call js reg route exchange mt symbol q)"
proof (cases "validate_request reg exchange (Some mt)")
  case (Inl e)
  have "1 \<le> given (q_limit q) 1" "1 \<le> given (q_depth q) 1" using assms(1) by (auto simp: call_ok_def)
  then show ?thesis using Inl
    by (cases route) (simp_all add: local_adapter_eq [where js = js] service_handlers query_ge1_ok Let_def)
next
  case (Inr v)
  have ok: "1 \<le> given (q_limit q) 1" "1 \<le> given (q_depth q) 1" using assms(1) by (auto simp: call_ok_def)
  have dflt: "interval_param route q = Some (None, label) \<Longrightarrow>
      validate_interval (vn_name v) (vn_capabilities v) mt (route_name route) label (default_interval route) = Inr ()" for label
    using assms validate_request_Inr [OF Inr] by (simp add: call_ok_def default_served_def)
  show ?thesis using Inr ok dflt
    by (cases route; cases "q_interval q"; cases "q_period q")
      (simp_all add: local_adapter_eq [where js = js] service_handlers query_ge1_ok Let_def check_interval_def given_def)
qed

lemma dispatch_eq:
  assumes "call_ok reg c"
  shows "local_dispatch js reg c = failw (fault_of js) (service_handle js reg c)"
proof (cases c)
  case (ServiceCall r)
  then show ?thesis by (cases r) simp_all
next
  case (ExchangeCall r exchange)
  then show ?thesis
    by (cases r) (simp_all add: local_adapter_eq [where js = js] local_overview_def exchange_overview_def)
next
  case (MarketCall route exchange m symbol q)
  then obtain mt where mt: "market_of m = Some mt" using assms by (auto simp: call_ok_def split: option.splits)
  then show ?thesis using market_call_eq [OF assms [unfolded MarketCall] mt] MarketCall
    by (simp add: local_market_type_def path_market_def)
qed

section \<open>The two ways to the caller\<close>

text \<open>The same value, or an error of the same class, status and text.\<close>

fun agrees :: "fault + pyval \<Rightarrow> fault + pyval \<Rightarrow> bool" where
  "agrees (Inr v) (Inr u) \<longleftrightarrow> v = u"
| "agrees (Inl (Coded a)) (Inl (Coded b)) \<longleftrightarrow> same_error a b"
| "agrees _ _ \<longleftrightarrow> False"

text \<open>
  A response has a body in place of an exception: what says nothing (an empty message), or is not
  an \<open>Exception\<close> (a cancellation), does not cross it.
\<close>

definition well_described :: "fault + pyval \<Rightarrow> bool" where
  "well_described r \<longleftrightarrow> (case r of
       Inl (Coded e) \<Rightarrow> (case re_detail e of PStr s \<Rightarrow> s \<noteq> [] | _ \<Rightarrow> False)
     | Inl (Raised e) \<Rightarrow> False
     | Inr v \<Rightarrow> True)"

text \<open>Failures that \<open>RemoteBackend\<close> asks again for.\<close>

definition asked_again :: "fault + pyval \<Rightarrow> bool" where
  "asked_again r \<longleftrightarrow> (case r of Inl (Coded e) \<Rightarrow> (\<exists>st\<in>set retry_statuses. re_status e = Some st) | _ \<Rightarrow> False)"

lemma settle_http_exception:
  "d \<noteq> [] \<Longrightarrow> \<not> (200 \<le> st \<and> st < 300) \<Longrightarrow>
    settle (Response (json_response st (PDict [(''detail'', PStr d)])))
      = Inl (Coded (error_for_status st (PStr d) None))"
  by (auto simp: is_success_def json_response_def response_detail_def response_retry_after_def)

lemma settle_unhandled:
  assumes "exc_str exc \<noteq> []"
  shows "agrees (Inl (Coded (error_for_fault exc))) (settle (Response (handle_exception exc)))"
proof -
  obtain st where st: "hr_status (handle_exception exc) = st" "re_status (error_for_fault exc) = Some st"
    by (rule handle_exception_cases)
  have "\<not> is_success (handle_exception exc)"
    by (cases exc) (auto simp: handle_exception_def is_success_def json_response_def)
  moreover have "same_error b a" if "same_error a b" for a b using that by (simp add: same_error_def)
  ultimately show ?thesis using service_error_agrees [OF assms] by simp
qed

text \<open>What leaves the service for a call that is answered well, or fails as the local one does.\<close>

lemma validate_request_status:
  "validate_request reg e m = Inl f \<Longrightarrow> \<exists>st d. f = HttpException st d \<and> st \<in> {400, 404} \<and> d \<noteq> []"
  by (auto simp: validate_request_def split: option.splits if_splits)

definition plain_fault :: "service_fault + 'a \<Rightarrow> bool" where
  "plain_fault r \<longleftrightarrow> (case r of Inl (HttpException st d) \<Rightarrow> st \<in> {400, 404} | _ \<Rightarrow> True)"

lemma settle_respond:
  assumes "well_described (translate (map_sum (fault_of js) (\<lambda>v. v) r))" "plain_fault r"
  shows "agrees (translate (map_sum (fault_of js) (\<lambda>v. v) r)) (settle (Response (respond js r)))"
proof (cases r)
  case (Inl f)
  show ?thesis
  proof (cases f)
    case (HttpException st d)
    then have "d \<noteq> []" "\<not> (200 \<le> st \<and> st < 300)"
      using assms Inl by (auto simp: well_described_def translate_def error_for_status_def mk_error_def plain_fault_def)
    then show ?thesis using Inl HttpException settle_http_exception [of d st]
      by (simp add: respond_def translate_def same_error_def del: settle.simps)
  next
    case (Unprocessable name)
    then show ?thesis using Inl assms(1)
      by (cases "js_invalid js name") (auto simp: respond_def translate_def well_described_def is_success_def json_response_def
          response_detail_def error_for_status_def mk_error_def same_error_def)
  next
    case (Unhandled e)
    then have "is_exception e" using Inl assms(1) by (auto simp: well_described_def translate_def split: if_splits)
    moreover from this have "exc_str e \<noteq> []" using Inl Unhandled assms(1)
      by (cases e) (auto simp: well_described_def translate_def error_for_fault_def mk_error_def split: if_splits)
    ultimately show ?thesis using Inl Unhandled settle_unhandled [of e]
      by (simp add: respond_def translate_def del: settle.simps)
  qed
next
  case (Inr v)
  then show ?thesis by (simp add: respond_def translate_def json_response_def is_success_def response_json_def)
qed

text \<open>Only \<open>validate_request\<close> raises an \<open>HTTPException\<close>, and only with these two statuses.\<close>

definition plain :: "('w, service_fault, 'a) io \<Rightarrow> bool" where
  "plain m \<longleftrightarrow> (\<forall>w. plain_fault (fst (m w)))"

lemma plain_retw [intro!]: "plain (retw v)"
  by (simp add: plain_def retw_def plain_fault_def)

lemma plain_unhandled [intro!]: "plain (unhandled m)"
  by (auto simp: plain_def failw_def plain_fault_def map_sum_def split: sum.split prod.split)

lemma plain_lift [intro!]:
  "plain (liftw (validate_request reg e m))" "plain (liftw (query_ge1 name x d))" "plain (liftw (path_market s))"
  by (auto simp: plain_def liftw_def plain_fault_def validate_request_def query_ge1_def path_market_def Let_def split: option.split)

lemma plain_bindw [intro!]: "plain m \<Longrightarrow> (\<And>v. plain (f v)) \<Longrightarrow> plain (bindw m f)"
  unfolding plain_def
proof
  fix w
  assume m: "\<forall>w. plain_fault (fst (m w))" and f: "\<And>v. \<forall>w. plain_fault (fst (f v w))"
  obtain r w' where "m w = (r, w')" by fastforce
  then show "plain_fault (fst (bindw m f w))"
    using m [rule_format, of w] f by (cases r) (auto simp: bindw_def plain_fault_def)
qed

lemma plain_handle: "plain (service_handle js reg c)"
proof (cases c)
  case (ServiceCall r)
  then show ?thesis by (cases r) auto
next
  case (ExchangeCall r exchange)
  then show ?thesis by (cases r) (auto simp: exchange_overview_def simp del: failw_liftw failw_mapw)
next
  case (MarketCall route exchange m symbol q)
  have "plain (service_market_call js reg route exchange mt symbol q)" for mt
    by (cases route) (auto simp: service_handlers Let_def simp del: failw_liftw)
  then show ?thesis using MarketCall by auto
qed

lemma answers_agree:
  assumes "call_ok reg c" "local_fetch js reg c w = (r, w')" "well_described r"
  shows "\<exists>resp. service_answer js reg c w = (Response resp, w') \<and> agrees r (settle (Response resp))"
proof -
  obtain u v where u: "service_handle js reg c w = (u, v)" by fastforce
  then have r: "r = translate (map_sum (fault_of js) (\<lambda>v. v) u)" "w' = v"
    using assms(2) by (auto simp: local_fetch_def dispatch_eq [OF assms(1)] failw_def)
  moreover have "plain_fault u" using plain_handle [of js reg c] u by (auto simp: plain_def dest: spec [of _ w])
  ultimately show ?thesis using settle_respond [of js u] assms(3) u by (auto simp: service_answer_def simp del: settle.simps)
qed

lemma agrees_transient: "agrees r (settle (Response resp)) \<Longrightarrow> transient (Response resp) \<Longrightarrow> asked_again r"
  using transient_not_success [of resp]
  by (cases r; cases "projl r")
    (auto simp: asked_again_def same_error_def error_for_status_def mk_error_def split: if_splits)


text \<open>An adapter whose world counts the calls it gets, with a ticker and no open interest.\<close>

definition counted :: "pyexc + 'a \<Rightarrow> (nat, pyexc, 'a) io" where
  "counted r w = (r, w + 1)"

definition not_served :: "string \<Rightarrow> pyexc + 'a" where
  "not_served s = Inl (NotImplementedError (''demo does not support '' @ s))"

definition demo_venue :: "nat venue" where
  "demo_venue = \<lparr>vn_name = ''demo'', vn_markets = [Spot, Linear], vn_capabilities = PDict [],
     vn_status = counted (Inr (PDict [])), vn_exchange_info = (\<lambda>mt. counted (Inr [])),
     vn_ticker = (\<lambda>mt s. counted (Inr (PDict [(''symbol'', PStr s)]))),
     vn_book_ticker = (\<lambda>mt s. counted (not_served ''book_ticker'')),
     vn_mark_price = (\<lambda>mt s. counted (not_served ''mark_price'')),
     vn_symbol_info = (\<lambda>mt s. counted (Inl (ValueError (''Symbol '' @ s @ '' not found'')))),
     vn_margin_tiers = (\<lambda>mt s. counted (not_served ''margin_tiers'')),
     vn_orderbook = (\<lambda>mt s d. counted (Inr (PInt d))), vn_trades = (\<lambda>mt s l. counted (Inr (PInt l))),
     vn_agg_trades = (\<lambda>mt s b l. counted (Inr (PInt l))), vn_candles = (\<lambda>mt s i b l. counted (Inr [])),
     vn_funding_rate = (\<lambda>mt s b l. counted (Inr (PInt l))), vn_open_interest = (\<lambda>mt s i b l. counted (not_served ''open_interest'')),
     vn_liquidations = (\<lambda>mt s b l. counted (not_served ''liquidations'')),
     vn_long_short_ratio = (\<lambda>mt s i b l. counted (Inr (PInt l)))\<rparr>"

definition demo_codec :: codec where
  "demo_codec = \<lparr>js_candles = (\<lambda>_. PList []), js_open_interest = (\<lambda>_. PList []), js_invalid = (\<lambda>s. PList [PStr s])\<rparr>"

abbreviation demo_call :: "market_route \<Rightarrow> call" where
  "demo_call route \<equiv> MarketCall route ''demo'' ''spot'' ''BTCUSDT'' query_none"


section \<open>The default interval\<close>

text \<open>
  The dispatch of \<open>LocalBackend\<close> does not check an interval it fills in itself, the service does:
  the two agree because every adapter serves the defaults.
\<close>

definition default_valid :: "pyval \<Rightarrow> market_type \<Rightarrow> market_route \<Rightarrow> bool" where
  "default_valid caps mt route \<longleftrightarrow>
     validate_interval [] caps mt (route_name route) [] (default_interval route) = Inr ()"

text \<open>
  On every market of every adapter, the interval or period that a call leaves out (1h for
  candles and open interest, 5m for the long/short ratio) is one the capabilities list.
\<close>

theorem default_intervals_served:
  "list_all (\<lambda>caps. list_all (\<lambda>mt. list_all (default_valid caps mt) [CandlesRoute, OpenInterestRoute, LongShortRatioRoute])
     [Spot, Linear, Inverse]) adapters_capabilities"
  by code_simp

end
