(* ===== verification/Core.thy ===== *)
theory Core
  imports Gateway
begin

text \<open>
  The client object, \<open>AsyncCore\<close> of \<^verbatim>\<open>exchange_router/_core.py\<close>: the handshake of service mode, the
  capability cache, the check before a call, the batch calls with \<open>BatchResult\<close> of
  \<^verbatim>\<open>exchange_router/batch.py\<close>, and \<open>resolve_scope\<close> of \<^verbatim>\<open>exchange_router/async_router.py\<close>. The
  backend is a parameter: any function that answers a call.
\<close>

section \<open>State\<close>

record core =
  co_service :: bool
  co_scope :: "string list"
  co_scope_all :: bool
  co_capabilities :: "(string, pyval) dict"
  co_handshake_done :: bool
  co_handshake_error :: "router_error option"
  co_closed :: bool

type_synonym 'w backend = "call \<Rightarrow> ('w, fault, pyval) io"

type_synonym ('w, 'a) core_io = "(core \<times> 'w, fault, 'a) io"

definition core_init :: "bool \<Rightarrow> string list \<Rightarrow> bool \<Rightarrow> core" where
  "core_init service scope scope_all = \<lparr>co_service = service, co_scope = scope, co_scope_all = scope_all,
     co_capabilities = [], co_handshake_done = False, co_handshake_error = None, co_closed = False\<rparr>"

text \<open>\<open>await self._backend.fetch(...)\<close>, and a step on the object alone.\<close>

definition ask :: "'w backend \<Rightarrow> call \<Rightarrow> ('w, pyval) core_io" where
  "ask fetch c = (\<lambda>(co, w). case fetch c w of (r, w) \<Rightarrow> (r, (co, w)))"

definition look :: "(core \<Rightarrow> 'a) \<Rightarrow> ('w, 'a) core_io" where
  "look f = (\<lambda>(co, w). (Inr (f co), (co, w)))"

definition store :: "(core \<Rightarrow> core) \<Rightarrow> ('w, unit) core_io" where
  "store f = (\<lambda>(co, w). (Inr (), (f co, w)))"

definition throw :: "router_error \<Rightarrow> ('w, 'a) core_io" where
  "throw e s = (Inl (Coded e), s)"

definition pure :: "pyexc + 'a \<Rightarrow> ('w, 'a) core_io" where
  "pure r = liftw (map_sum Raised (\<lambda>v. v) r)"

lemmas method_defs = ask_def look_def store_def throw_def pure_def

section \<open>Scope\<close>

text \<open>\<open>f"{names}"\<close> for a list of names.\<close>

definition show_names :: "string list \<Rightarrow> string" where
  "show_names names = py_repr (PList (map PStr names))"

datatype scope_arg = NoScope | ScopeText string | ScopeNames "string list"

definition all_names :: string where "all_names = ''all''"

text \<open>\<open>str.__lt__\<close>, and \<open>sorted\<close>.\<close>

fun str_less :: "string \<Rightarrow> string \<Rightarrow> bool" where
  "str_less [] t = (t \<noteq> [])"
| "str_less (a # s) [] = False"
| "str_less (a # s) (b # t) = ((of_char a :: nat) < of_char b \<or> a = b \<and> str_less s t)"

fun insert_name :: "string \<Rightarrow> string list \<Rightarrow> string list" where
  "insert_name x [] = [x]"
| "insert_name x (y # ys) = (if str_less y x then y # insert_name x ys else x # y # ys)"

definition sorted_names :: "string list \<Rightarrow> string list" where
  "sorted_names xs = foldr insert_name xs []"

definition resolve_scope :: "scope_arg \<Rightarrow> string list option \<Rightarrow> router_error + string list" where
  "resolve_scope exchanges known = (case exchanges of
       NoScope \<Rightarrow> Inl (mk_error BadRequest (PStr (''exchanges is required; pass a list of names or '' @ quoted all_names)) None)
     | ScopeText s \<Rightarrow>
         (if s \<noteq> all_names then Inl (mk_error BadRequest (PStr (''exchanges '' @ quoted s @ '' is not a list of names; pass ['' @
            quoted s @ ''] or '' @ quoted all_names)) None)
          else case known of None \<Rightarrow> Inr [] | Some ns \<Rightarrow> Inr ns)
     | ScopeNames names \<Rightarrow>
         (if names = [] then Inl (mk_error BadRequest
            (PStr (''exchanges is empty; name at least one exchange or pass '' @ quoted all_names)) None)
          else case known of
            None \<Rightarrow> Inr names
          | Some ns \<Rightarrow>
              let missing = filter (\<lambda>n. n \<notin> set ns) names in
              if missing \<noteq> [] then Inl (mk_error NotFound (PStr (''exchanges '' @ show_names missing @
                '' are not registered; this build carries '' @ show_names (sorted_names ns))) (Some 404))
              else Inr names))"

section \<open>Handshake and capabilities\<close>

definition closed_error :: router_error where
  "closed_error = mk_error RouterError (PStr (''this router is closed; build another with AsyncRouter.local(exchanges=[...]) or '' @
     ''AsyncRouter.service(url, exchanges=[...])'')) None"

definition check_open :: "('w, unit) core_io" where
  "check_open = bindw (look co_closed) (\<lambda>c. if c then throw closed_error else retw ())"

definition fail_handshake :: "router_error \<Rightarrow> ('w, 'a) core_io" where
  "fail_handshake e = bindw (store (\<lambda>co. co\<lparr>co_handshake_error := Some e\<rparr>)) (\<lambda>_. throw e)"

text \<open>\<open>set(d.get("exchanges", []))\<close>: the names, in the order they came (names are strings).\<close>

fun as_name :: "pyval \<Rightarrow> pyexc + string" where
  "as_name (PStr s) = Inr s"
| "as_name v = Inl (TypeError (''unhashable type: '' @ quoted (type_name v)))"

definition served_names :: "pyval \<Rightarrow> pyexc + string list" where
  "served_names d = bindr (py_get_or d ''exchanges'' (PList [])) (\<lambda>v. bindr (py_iter v) (mapr as_name))"

text \<open>\<open>theirs != SCHEMA_VERSION\<close>: a float of the same value is equal.\<close>

definition other_schema :: "pyval \<Rightarrow> bool" where
  "other_schema theirs \<longleftrightarrow> theirs \<noteq> PInt SCHEMA_VERSION \<and> theirs \<noteq> PFloat (Fin (of_int SCHEMA_VERSION))"

definition mismatch :: "string \<Rightarrow> pyval \<Rightarrow> pyval \<Rightarrow> router_error" where
  "mismatch url theirs version = mk_error SchemaMismatch
     (PStr (''this SDK speaks schema '' @ show_int SCHEMA_VERSION @ '', '' @ url @ '' speaks schema '' @ py_str theirs @
       '' (sdk '' @ VERSION @ '', service '' @ py_str version @ ''); upgrade the SDK or pin the service to a schema '' @
       show_int SCHEMA_VERSION @ '' release'')) None"

definition not_carried :: "string \<Rightarrow> string list \<Rightarrow> string list \<Rightarrow> router_error" where
  "not_carried url missing served = mk_error NotFound (PStr (''exchanges '' @ show_names missing @ '' are not served by '' @ url @
     ''; it carries '' @ show_names (sorted_names (remdups served)))) (Some 404)"

definition ensure_handshake :: "string \<Rightarrow> 'w backend \<Rightarrow> ('w, unit) core_io" where
  "ensure_handshake url fetch =
     bindw (look (\<lambda>co. co)) (\<lambda>co.
     case co_handshake_error co of
       Some e \<Rightarrow> throw e
     | None \<Rightarrow>
       if co_handshake_done co \<or> \<not> co_service co then store (\<lambda>co. co\<lparr>co_handshake_done := True\<rparr>)
       else
         bindw (ask fetch (ServiceCall VersionRoute)) (\<lambda>data.
         bindw (pure (py_get data ''schema_version'')) (\<lambda>theirs.
         if theirs \<noteq> PNone \<and> other_schema theirs then
           bindw (pure (py_get data ''version'')) (\<lambda>version. fail_handshake (mismatch url theirs version))
         else
           bindw (if co_scope co \<noteq> [] \<or> co_scope_all co then
               bindw (ask fetch (ServiceCall ExchangesRoute)) (\<lambda>d.
               bindw (pure (served_names d)) (\<lambda>served.
               if co_scope_all co then store (\<lambda>co. co\<lparr>co_scope := sorted_names (remdups served)\<rparr>)
               else
                 let missing = filter (\<lambda>n. n \<notin> set served) (co_scope co) in
                 if missing \<noteq> [] then fail_handshake (not_carried url missing served)
                 else retw ()))
             else retw ()) (\<lambda>_.
           store (\<lambda>co. co\<lparr>co_handshake_done := True\<rparr>)))))"

text \<open>\<open>quiet\<close> swallows an error of the vocabulary and answers no capabilities.\<close>

definition ensure_capabilities :: "string \<Rightarrow> 'w backend \<Rightarrow> string \<Rightarrow> bool \<Rightarrow> ('w, pyval) core_io" where
  "ensure_capabilities url fetch exchange quiet =
     bindw check_open (\<lambda>_.
     bindw (ensure_handshake url fetch) (\<lambda>_.
     bindw (look (\<lambda>co. dget (co_capabilities co) exchange)) (\<lambda>cached.
     case cached of
       Some caps \<Rightarrow> retw caps
     | None \<Rightarrow> (\<lambda>s. case ask fetch (ExchangeCall CapabilitiesRoute exchange) s of
           (Inr v, s) \<Rightarrow>
             (let caps = py_or v (PDict [])
              in bindw (store (\<lambda>co. co\<lparr>co_capabilities := dset (co_capabilities co) exchange caps\<rparr>)) (\<lambda>_. retw caps) s)
         | (Inl (Coded e), s) \<Rightarrow> (if \<not> quiet then (Inl (Coded e), s) else (Inr (PDict []), s))
         | (Inl (Raised e), s) \<Rightarrow> (Inl (Raised e), s)))))"

definition core_fetch :: "string \<Rightarrow> 'w backend \<Rightarrow> call \<Rightarrow> ('w, pyval) core_io" where
  "core_fetch url fetch c =
     bindw check_open (\<lambda>_. bindw (ensure_handshake url fetch) (\<lambda>_. ask fetch c))"

definition core_close :: "core \<Rightarrow> core" where
  "core_close co = co\<lparr>co_closed := True\<rparr>"

section \<open>The check before a call\<close>

text \<open>
  \<open>_preflight\<close>: what the capabilities rule out fails before anything is asked. The depth check
  only warns, and is left out.
\<close>

definition preflight_block :: "pyval \<Rightarrow> string \<Rightarrow> string \<Rightarrow> string \<Rightarrow> string option \<Rightarrow> string \<Rightarrow> pyval \<Rightarrow> fault + unit" where
  "preflight_block block exchange market_type route interval label caps =
     (if truthy caps \<and> truthy block then
        bindr (map_sum Raised (\<lambda>v. v) (py_get block ''rest'')) (\<lambda>rest.
        if rest = PBool False then
          Inl (Coded (mk_error NotSupported (PStr (route @ '' is not exposed on '' @ exchange @ ''/'' @ market_type)) None))
        else
          bindr (map_sum Raised (\<lambda>v. v) (py_get block ''intervals'')) (\<lambda>intervals.
          case interval of
            None \<Rightarrow> Inr ()
          | Some i \<Rightarrow>
              if truthy intervals then
                bindr (map_sum Raised (\<lambda>v. v) (py_in i intervals)) (\<lambda>found.
                if found then Inr ()
                else Inl (Coded (mk_error BadRequest (PStr (label @ '' '' @ quoted i @ '' is not valid for '' @ exchange @ '' '' @
                  market_type @ '' '' @ route @ ''. valid: '' @ join '', '' (map py_str (elements intervals)))) None)))
              else Inr ()))
      else Inr ())"

definition preflight :: "string \<Rightarrow> 'w backend \<Rightarrow> string \<Rightarrow> string \<Rightarrow> string \<Rightarrow> string option \<Rightarrow> string \<Rightarrow> ('w, unit) core_io" where
  "preflight url fetch exchange market_type route interval label =
     bindw (ensure_capabilities url fetch exchange True) (\<lambda>caps.
     bindw (look (\<lambda>co. given (dget (co_capabilities co) exchange) PNone)) (\<lambda>cached.
     bindw (pure (route_block cached market_type route)) (\<lambda>block.
     liftw (preflight_block block exchange market_type route interval label caps))))"

text \<open>A call of the SDK: the check, then the fetch.\<close>

definition checked_call :: "string \<Rightarrow> 'w backend \<Rightarrow> market_route \<Rightarrow> string \<Rightarrow> string \<Rightarrow> string \<Rightarrow> query \<Rightarrow> ('w, pyval) core_io" where
  "checked_call url fetch route exchange market_type symbol q =
     bindw (preflight url fetch exchange market_type (route_name route)
         (case interval_param route q of Some (i, _) \<Rightarrow> i | None \<Rightarrow> None)
         (case interval_param route q of Some (_, l) \<Rightarrow> l | None \<Rightarrow> ''Interval'')) (\<lambda>_.
     core_fetch url fetch (MarketCall route exchange market_type symbol q))"

section \<open>Batches\<close>

text \<open>\<open>BatchResult\<close>; \<open>'f\<close> are the frames that \<open>frames.build\<close> makes of the rows.\<close>

record 'f batch =
  ba_ok :: "(string, 'f) dict"
  ba_degraded :: "(string, 'f \<times> string list) dict"
  ba_failed :: "(string, fault) dict"
  ba_requested :: int

definition batch_data :: "'f batch \<Rightarrow> (string, 'f) dict" where
  "batch_data b = foldl (\<lambda>d (symbol, payload, _). dset d symbol payload) (ba_ok b) (ba_degraded b)"

definition batch_summary :: "'f batch \<Rightarrow> string" where
  "batch_summary b = show_int (ba_requested b) @ '' requested: '' @ show_int (int (length (ba_ok b))) @ '' ok, '' @
     show_int (int (length (ba_degraded b))) @ '' degraded, '' @ show_int (int (length (ba_failed b))) @ '' failed''"

text \<open>Where one gathered result goes.\<close>

fun file_result :: "'f batch \<Rightarrow> string \<times> (fault + 'f \<times> string list) \<Rightarrow> 'f batch" where
  "file_result b (symbol, Inl e) = b\<lparr>ba_failed := dset (ba_failed b) symbol e\<rparr>"
| "file_result b (symbol, Inr (df, messages)) =
     (if messages \<noteq> [] then b\<lparr>ba_degraded := dset (ba_degraded b) symbol (df, messages)\<rparr>
      else b\<lparr>ba_ok := dset (ba_ok b) symbol df\<rparr>)"

definition batch_of :: "(string \<times> (fault + 'f \<times> string list)) list \<Rightarrow> 'f batch" where
  "batch_of gathered = foldl file_result \<lparr>ba_ok = [], ba_degraded = [], ba_failed = [], ba_requested = int (length gathered)\<rparr> gathered"

definition SERIES_ROUTES :: "string list" where
  "SERIES_ROUTES = [''candles'', ''trades'', ''agg_trades'', ''funding_rate'', ''open_interest'', ''liquidations'', ''long_short_ratio'']"

text \<open>\<open>one\<close>: an \<open>Exception\<close> of the call is its result, a cancellation is not.\<close>

definition batch_one :: "(string \<Rightarrow> ('w, 'f \<times> string list) core_io) \<Rightarrow> string \<Rightarrow>
    ('w, string \<times> (fault + 'f \<times> string list)) core_io" where
  "batch_one get symbol s = (case get symbol s of
       (Inr df, s) \<Rightarrow> (Inr (symbol, Inr df), s)
     | (Inl e, s) \<Rightarrow> (case e of
           Raised x \<Rightarrow> (if is_exception x then Inr (symbol, Inl e) else Inl e, s)
         | Coded _ \<Rightarrow> (Inr (symbol, Inl e), s)))"

definition fetch_many :: "string \<Rightarrow> 'w backend \<Rightarrow> (string \<Rightarrow> ('w, 'f \<times> string list) core_io) \<Rightarrow> string \<Rightarrow> string \<Rightarrow>
    string list \<Rightarrow> ('w, 'f batch) core_io" where
  "fetch_many url fetch get route exchange symbols =
     (if route \<notin> set SERIES_ROUTES then
        throw (mk_error BadRequest (PStr (''route '' @ quoted route @ '' is not a series route; fetch_many takes one of '' @
          join '', '' SERIES_ROUTES)) (Some 400))
      else
        bindw (ensure_capabilities url fetch exchange True) (\<lambda>_.
        bindw (mapw (batch_one get) symbols) (\<lambda>gathered. retw (batch_of gathered))))"

end
