(* ===== verification/CoreLaws.thy ===== *)
theory CoreLaws
  imports Core Agreement
begin

text \<open>
  What the client object guarantees: nothing is asked of a service whose schema is not the
  SDK's, a refused handshake is final and a broken one is not, the check before a call never
  refuses what the service would serve, and a batch accounts for every symbol.
\<close>

section \<open>Methods step by step\<close>

lemma bindw_ask: "bindw (ask fetch c) k (co, w)
    = (case fetch c w of (Inl e, w') \<Rightarrow> (Inl e, (co, w')) | (Inr v, w') \<Rightarrow> k v (co, w'))"
  by (simp add: bindw_def ask_def split: prod.split sum.split)

lemma bindw_look [simp]: "bindw (look f) k (co, w) = k (f co) (co, w)"
  by (simp add: bindw_def look_def)

lemma bindw_store [simp]: "bindw (store f) k (co, w) = k () (f co, w)"
  by (simp add: bindw_def store_def)

lemma bindw_throw [simp]: "bindw (throw e) k = throw e"
  by (simp add: bindw_def throw_def fun_eq_iff)

lemma bindw_pure: "bindw (pure r) k s = (case r of Inl e \<Rightarrow> (Inl (Raised e), s) | Inr v \<Rightarrow> k v s)"
  by (simp add: bindw_def pure_def liftw_def split: sum.split)

lemma bindw_cond: "bindw (if b then m else n) k = (if b then bindw m k else bindw n k)" by simp

lemma method_ends [simp]: "throw e s = (Inl (Coded e), s)" "store f (co, w) = (Inr (), (f co, w))"
  by (simp_all add: throw_def store_def)

lemma fail_handshake_eq [simp]: "fail_handshake e (co, w) = (Inl (Coded e), (co\<lparr>co_handshake_error := Some e\<rparr>, w))"
  by (simp add: fail_handshake_def)

lemma bindw_fail [simp]: "bindw (fail_handshake e) k (co, w) = (Inl (Coded e), (co\<lparr>co_handshake_error := Some e\<rparr>, w))"
  by (simp add: bindw_def)

lemmas method_simps = bindw_ask bindw_pure bindw_cond

section \<open>The handshake\<close>

text \<open>The schema of a version reply is one the SDK speaks, or is not stated.\<close>

definition schema_spoken :: "pyval \<Rightarrow> bool" where
  "schema_spoken d \<longleftrightarrow> (case py_get d ''schema_version'' of Inr t \<Rightarrow> t = PNone \<or> \<not> other_schema t | Inl e \<Rightarrow> False)"

definition fresh_service :: "core \<Rightarrow> bool" where
  "fresh_service co \<longleftrightarrow> co_service co \<and> \<not> co_handshake_done co \<and> co_handshake_error co = None"

lemma handshake_done [simp]:
  "co_handshake_error co = None \<Longrightarrow> co_handshake_done co \<or> \<not> co_service co \<Longrightarrow>
    ensure_handshake url fetch (co, w) = (Inr (), (co\<lparr>co_handshake_done := True\<rparr>, w))"
  by (simp add: ensure_handshake_def)

lemma handshake_refused [simp]:
  "co_handshake_error co = Some e \<Longrightarrow> ensure_handshake url fetch (co, w) = (Inl (Coded e), (co, w))"
  by (simp add: ensure_handshake_def)

lemma fresh_handshake:
  assumes "fresh_service co"
  shows "ensure_handshake url fetch (co, w) = (case fetch (ServiceCall VersionRoute) w of
      (Inl e, w1) \<Rightarrow> (Inl e, (co, w1))
    | (Inr d, w1) \<Rightarrow> (case py_get d ''schema_version'' of
        Inl e \<Rightarrow> (Inl (Raised e), (co, w1))
      | Inr theirs \<Rightarrow>
          if theirs \<noteq> PNone \<and> other_schema theirs then
            (case py_get d ''version'' of
               Inl e \<Rightarrow> (Inl (Raised e), (co, w1))
             | Inr v \<Rightarrow> (Inl (Coded (mismatch url theirs v)), (co\<lparr>co_handshake_error := Some (mismatch url theirs v)\<rparr>, w1)))
          else if co_scope co = [] \<and> \<not> co_scope_all co then (Inr (), (co\<lparr>co_handshake_done := True\<rparr>, w1))
          else (case fetch (ServiceCall ExchangesRoute) w1 of
              (Inl e, w2) \<Rightarrow> (Inl e, (co, w2))
            | (Inr d2, w2) \<Rightarrow> (case served_names d2 of
                Inl e \<Rightarrow> (Inl (Raised e), (co, w2))
              | Inr served \<Rightarrow>
                  if co_scope_all co then
                    (Inr (), (co\<lparr>co_scope := sorted_names (remdups served), co_handshake_done := True\<rparr>, w2))
                  else if filter (\<lambda>n. n \<notin> set served) (co_scope co) \<noteq> [] then
                    (let e = not_carried url (filter (\<lambda>n. n \<notin> set served) (co_scope co)) served
                     in (Inl (Coded e), (co\<lparr>co_handshake_error := Some e\<rparr>, w2)))
                  else (Inr (), (co\<lparr>co_handshake_done := True\<rparr>, w2))))))"
  using assms
  by (auto simp: ensure_handshake_def fresh_service_def method_simps Let_def split: sum.split prod.split)

lemma set_insert_name: "set (insert_name x ys) = insert x (set ys)"
  by (induction ys) auto

lemma set_sorted_names: "set (sorted_names xs) = set xs"
  unfolding sorted_names_def by (induction xs) (simp_all add: set_insert_name)

text \<open>
  C6. A handshake that succeeds has read what it guarantees: the service stated the schema of the
  SDK or none, and every exchange of the scope is one it listed; a scope of \<open>all\<close> becomes
  exactly what it listed.
\<close>

theorem handshake_guarantee:
  assumes "fresh_service co" "ensure_handshake url fetch (co, w) = (Inr (), (co', w'))"
    and "co_scope co \<noteq> [] \<or> co_scope_all co"
  shows "\<exists>d w1 d2 served. fetch (ServiceCall VersionRoute) w = (Inr d, w1) \<and> schema_spoken d
     \<and> fetch (ServiceCall ExchangesRoute) w1 = (Inr d2, w') \<and> served_names d2 = Inr served
     \<and> co_handshake_done co' \<and> set (co_scope co') \<subseteq> set served \<and> (co_scope_all co \<longrightarrow> set (co_scope co') = set served)"
proof -
  obtain d w1 where v: "fetch (ServiceCall VersionRoute) w = (Inr d, w1)"
    using assms(2) unfolding fresh_handshake [OF assms(1)] by (auto split: sum.splits prod.splits)
  obtain theirs where theirs: "py_get d ''schema_version'' = Inr theirs"
    using assms(2) unfolding fresh_handshake [OF assms(1)] by (auto simp: v split: sum.splits)
  have spoken: "theirs = PNone \<or> \<not> other_schema theirs"
    using assms(2) unfolding fresh_handshake [OF assms(1)] by (auto simp: v theirs split: sum.splits)
  have rest: "(case fetch (ServiceCall ExchangesRoute) w1 of
       (Inl e, w2) \<Rightarrow> (Inl e, (co, w2))
     | (Inr d2, w2) \<Rightarrow> (case served_names d2 of
         Inl e \<Rightarrow> (Inl (Raised e), (co, w2))
       | Inr served \<Rightarrow>
           if co_scope_all co then (Inr (), (co\<lparr>co_scope := sorted_names (remdups served), co_handshake_done := True\<rparr>, w2))
           else if filter (\<lambda>n. n \<notin> set served) (co_scope co) \<noteq> [] then
             (let e = not_carried url (filter (\<lambda>n. n \<notin> set served) (co_scope co)) served
              in (Inl (Coded e), (co\<lparr>co_handshake_error := Some e\<rparr>, w2)))
           else (Inr (), (co\<lparr>co_handshake_done := True\<rparr>, w2)))) = (Inr (), (co', w'))"
    using assms(2,3) spoken unfolding fresh_handshake [OF assms(1)] by (auto simp: v theirs)
  obtain d2 where d2: "fetch (ServiceCall ExchangesRoute) w1 = (Inr d2, w')"
    using rest by (auto simp: Let_def split: sum.splits prod.splits if_splits)
  obtain served where served: "served_names d2 = Inr served"
    using rest d2 by (auto split: sum.splits)
  have "co_handshake_done co' \<and> set (co_scope co') \<subseteq> set served \<and> (co_scope_all co \<longrightarrow> set (co_scope co') = set served)"
    using rest d2 served by (auto simp: set_sorted_names Let_def filter_empty_conv split: if_splits)
  then show ?thesis using v theirs spoken d2 served by (auto simp: schema_spoken_def)
qed

text \<open>
  A handshake that fails is either refused for good or open again: with a foreign schema or a
  missing exchange the error is kept, and every later call raises it without asking the service;
  after any other failure the object is as it was, so the next call tries again.
\<close>

theorem handshake_failure:
  assumes "fresh_service co" "ensure_handshake url fetch (co, w) = (Inl f, (co', w'))" "\<not> co_closed co"
  shows "co' = co \<or> (\<exists>e. f = Coded e \<and> re_class e \<in> {SchemaMismatch, NotFound}
     \<and> (\<forall>c u. core_fetch url fetch c (co', u) = (Inl (Coded e), (co', u)))
     \<and> (\<forall>x q u. ensure_capabilities url fetch x q (co', u) = (Inl (Coded e), (co', u))))"
proof -
  have "co' = co \<or> (\<exists>e. f = Coded e \<and> re_class e \<in> {SchemaMismatch, NotFound} \<and> co' = co\<lparr>co_handshake_error := Some e\<rparr>)"
    using assms(2) unfolding fresh_handshake [OF assms(1)]
    by (auto simp: Let_def mismatch_def not_carried_def mk_error_def split: sum.splits prod.splits if_splits)
  then show ?thesis using assms(3)
    by (auto simp: core_fetch_def ensure_capabilities_def check_open_def bindw_def look_def retw_def)
qed

section \<open>The check before a call\<close>

text \<open>
  C19. The check before a call never refuses an interval that the service would accept: over the
  capabilities of the adapter itself, whatever it rejects as a bad request is a bad request for
  the adapter too, which is not even asked.
\<close>

theorem preflight_never_guesses:
  assumes "dget reg exchange = Some v" "market_of m = Some mt" "mt \<in> set (vn_markets v)"
    and "interval_param route q = Some (Some i, label)"
    and "route_block (vn_capabilities v) m (route_name route) = Inr block"
    and "preflight_block block exchange m (route_name route) (Some i) label caps = Inl (Coded e)" "re_class e = BadRequest"
  shows "\<exists>e'. local_fetch js reg (MarketCall route exchange m symbol q) w = (Inl (Coded e'), w)
     \<and> re_class e' = BadRequest \<and> re_status e' = Some 400"
proof -
  have m: "market_value mt = m" using assms(2) by (auto simp: market_of_def split: if_splits)
  obtain intervals where iv: "py_get block ''intervals'' = Inr intervals" "truthy intervals" "py_in i intervals = Inr False"
    using assms(6,7) unfolding preflight_block_def
    by (cases "py_get block ''rest''"; cases "py_get block ''intervals''"; cases "py_in i (projr (py_get block ''intervals''))")
      (auto simp: mk_error_def split: if_splits)
  then have "\<exists>s. validate_interval (vn_name v) (vn_capabilities v) mt (route_name route) label i = Inl (ValueError s)"
    using assms(5) by (simp add: validate_interval_def m)
  then show ?thesis using assms(1-4)
    by (auto simp: local_fetch_def local_market_type_def local_adapter_def check_interval_def bindw_def failw_def liftw_def retw_def
        translate_def error_for_fault_def mk_error_def)
qed

section \<open>Batches\<close>

lemma file_requested [simp]: "ba_requested (file_result b g) = ba_requested b"
  by (cases g; cases "snd g") (auto simp: split_beta)

text \<open>What became of a symbol.\<close>

fun outcome_of :: "fault + 'f \<times> string list \<Rightarrow> 'f option \<times> ('f \<times> string list) option \<times> fault option" where
  "outcome_of (Inl e) = (None, None, Some e)"
| "outcome_of (Inr (df, messages)) = (if messages \<noteq> [] then (None, Some (df, messages), None) else (Some df, None, None))"

definition filed :: "'f batch \<Rightarrow> string \<Rightarrow> 'f option \<times> ('f \<times> string list) option \<times> fault option" where
  "filed b s = (dget (ba_ok b) s, dget (ba_degraded b) s, dget (ba_failed b) s)"

lemma filed_other: "s \<noteq> fst g \<Longrightarrow> filed (file_result b g) s = filed b s"
  by (cases g; cases "snd g") (auto simp: filed_def)

lemma filed_new: "filed b (fst g) = (None, None, None) \<Longrightarrow> filed (file_result b g) (fst g) = outcome_of (snd g)"
  by (cases g; cases "snd g") (auto simp: filed_def)

lemma length_dset: "dget d k = None \<Longrightarrow> length (dset d k v) = Suc (length d)"
  by (induction d) (auto simp: dset_def dget_def split: if_splits)

lemma file_length:
  "filed b (fst g) = (None, None, None) \<Longrightarrow>
    length (ba_ok (file_result b g)) + length (ba_degraded (file_result b g)) + length (ba_failed (file_result b g))
      = Suc (length (ba_ok b) + length (ba_degraded b) + length (ba_failed b))"
  by (cases g; cases "snd g") (auto simp: filed_def length_dset)

lemma file_all:
  assumes "distinct (map fst gs)" "\<forall>s\<in>set (map fst gs). filed b s = (None, None, None)"
  shows "(\<forall>(s, r)\<in>set gs. filed (foldl file_result b gs) s = outcome_of r)
    \<and> (\<forall>s. s \<notin> set (map fst gs) \<longrightarrow> filed (foldl file_result b gs) s = filed b s)
    \<and> length (ba_ok (foldl file_result b gs)) + length (ba_degraded (foldl file_result b gs)) + length (ba_failed (foldl file_result b gs))
      = length gs + length (ba_ok b) + length (ba_degraded b) + length (ba_failed b)"
  using assms
proof (induction gs arbitrary: b)
  case (Cons g gs)
  have fresh: "filed b (fst g) = (None, None, None)" using Cons.prems(2) by simp
  have "\<forall>s\<in>set (map fst gs). filed (file_result b g) s = (None, None, None)"
  proof
    fix s assume s: "s \<in> set (map fst gs)"
    moreover have "fst g \<notin> set (map fst gs)" using Cons.prems(1) by simp
    ultimately have "s \<noteq> fst g" by blast
    then show "filed (file_result b g) s = (None, None, None)" using Cons.prems(2) s by (auto simp: filed_other)
  qed
  moreover have "distinct (map fst gs)" using Cons.prems(1) by simp
  ultimately have IH: "\<forall>(s, r)\<in>set gs. filed (foldl file_result (file_result b g) gs) s = outcome_of r"
    "\<forall>s. s \<notin> set (map fst gs) \<longrightarrow> filed (foldl file_result (file_result b g) gs) s = filed (file_result b g) s"
    "length (ba_ok (foldl file_result (file_result b g) gs)) + length (ba_degraded (foldl file_result (file_result b g) gs))
       + length (ba_failed (foldl file_result (file_result b g) gs))
     = length gs + length (ba_ok (file_result b g)) + length (ba_degraded (file_result b g)) + length (ba_failed (file_result b g))"
    using Cons.IH [of "file_result b g"] by blast+
  have "filed (foldl file_result (file_result b g) gs) (fst g) = outcome_of (snd g)"
    using IH(2) Cons.prems(1) filed_new [OF fresh] by simp
  then show ?case using IH file_length [OF fresh] by (auto simp: filed_other)
qed simp

text \<open>
  C20. A batch accounts for every symbol: of distinct symbols each is filed exactly once, as its own
  call went (clean, degraded with its warnings, or failed with its error), nothing else is filed,
  and the three counts of the summary add up to what was requested.
\<close>

theorem batch_accounts:
  assumes "distinct (map fst gathered)"
  shows "list_all (\<lambda>(s, r). filed (batch_of gathered) s = outcome_of r) gathered
    \<and> (\<forall>s. (s \<in> fst ` set gathered) = (filed (batch_of gathered) s \<noteq> (None, None, None)))
    \<and> int (length (ba_ok (batch_of gathered)) + length (ba_degraded (batch_of gathered)) + length (ba_failed (batch_of gathered)))
      = ba_requested (batch_of gathered)"
proof -
  let ?b0 = "\<lparr>ba_ok = [], ba_degraded = [], ba_failed = [], ba_requested = int (length gathered)\<rparr>"
  have "\<forall>s\<in>set (map fst gathered). filed ?b0 s = (None, None, None)" by (simp add: filed_def)
  note all = file_all [OF assms this]
  have "ba_requested (foldl file_result b gs) = ba_requested b" for b :: "'a batch" and gs
    by (induction gs arbitrary: b) simp_all
  then have count: "ba_requested (batch_of gathered) = int (length gathered)" by (simp add: batch_of_def)
  have some: "outcome_of r \<noteq> (None, None, None)" for r :: "fault + 'a \<times> string list" by (cases r rule: outcome_of.cases) auto
  have each: "filed (batch_of gathered) s = outcome_of r" if "(s, r) \<in> set gathered" for s r
    using all that unfolding batch_of_def by blast
  have none: "filed (batch_of gathered) s = (None, None, None)" if "s \<notin> set (map fst gathered)" for s
  proof -
    have "filed (batch_of gathered) s = filed ?b0 s" using all that unfolding batch_of_def by blast
    then show ?thesis by (simp add: filed_def)
  qed
  have "(s \<in> fst ` set gathered) = (filed (batch_of gathered) s \<noteq> (None, None, None))" for s
  proof (cases "s \<in> fst ` set gathered")
    case True
    then obtain r where "(s, r) \<in> set gathered" by force
    then show ?thesis using True each [of s r] some [of r] by simp
  next
    case False
    then show ?thesis using none [of s] by simp
  qed
  moreover have "length (ba_ok (batch_of gathered)) + length (ba_degraded (batch_of gathered)) + length (ba_failed (batch_of gathered))
      = length gathered" using all by (simp add: batch_of_def)
  ultimately show ?thesis using each by (simp add: count list_all_iff split_beta)
qed

section \<open>Concrete runs\<close>

text \<open>A service that states schema \<open>n\<close> and lists one exchange; its world counts the requests.\<close>

definition demo_service :: "int \<Rightarrow> nat backend" where
  "demo_service n c k = (case c of
       ServiceCall VersionRoute \<Rightarrow> (Inr (PDict [(''version'', PStr ''3.2.0''), (''schema_version'', PInt n)]), k + 1)
     | ServiceCall ExchangesRoute \<Rightarrow> (Inr (PDict [(''exchanges'', PList [PStr ''okx''])]), k + 1)
     | _ \<Rightarrow> (Inl (Coded (unreachable ''down'')), k + 1))"

lemma handshake_guarantee_witness:
  "ensure_handshake ''u'' (demo_service 3) (core_init True [''okx''] False, 0)
     = (Inr (), ((core_init True [''okx''] False)\<lparr>co_handshake_done := True\<rparr>, 2))
   \<and> (\<exists>d w1 d2 served. demo_service 3 (ServiceCall VersionRoute) 0 = (Inr d, w1) \<and> schema_spoken d
     \<and> demo_service 3 (ServiceCall ExchangesRoute) w1 = (Inr d2, 2) \<and> served_names d2 = Inr served \<and> {''okx''} \<subseteq> set served)"
proof
  show run: "ensure_handshake ''u'' (demo_service 3) (core_init True [''okx''] False, 0)
     = (Inr (), ((core_init True [''okx''] False)\<lparr>co_handshake_done := True\<rparr>, 2))" by code_simp
  have "fresh_service (core_init True [''okx''] False)" "co_scope (core_init True [''okx''] False) \<noteq> []"
    by (simp_all add: fresh_service_def core_init_def)
  from handshake_guarantee [OF this(1) run disjI1 [OF this(2)]]
  show "\<exists>d w1 d2 served. demo_service 3 (ServiceCall VersionRoute) 0 = (Inr d, w1) \<and> schema_spoken d
     \<and> demo_service 3 (ServiceCall ExchangesRoute) w1 = (Inr d2, 2) \<and> served_names d2 = Inr served \<and> {''okx''} \<subseteq> set served"
    by (simp add: core_init_def)
qed

lemma handshake_failure_witness:
  "\<exists>e co'. ensure_handshake ''u'' (demo_service 4) (core_init True [''okx''] False, 0) = (Inl (Coded e), (co', 1))
     \<and> re_class e = SchemaMismatch \<and> core_fetch ''u'' (demo_service 4) (ServiceCall StatusRoute) (co', 1) = (Inl (Coded e), (co', 1))"
proof -
  let ?co = "core_init True [''okx''] False"
  let ?e = "mismatch ''u'' (PInt 4) (PStr ''3.2.0'')"
  let ?co' = "?co\<lparr>co_handshake_error := Some ?e\<rparr>"
  have run: "ensure_handshake ''u'' (demo_service 4) (?co, 0) = (Inl (Coded ?e), (?co', 1))" by code_simp
  have "fresh_service ?co" "\<not> co_closed ?co" "?co' \<noteq> ?co" "re_class ?e = SchemaMismatch"
    by (simp_all add: fresh_service_def core_init_def mismatch_def mk_error_def)
  with handshake_failure [OF this(1) run this(2)] show ?thesis using run by auto
qed

definition picky_venue :: "nat venue" where
  "picky_venue = demo_venue\<lparr>vn_capabilities := PDict [(''markets'', PDict [(''spot'', PDict [(''candles'',
     PDict [(''rest'', PBool True), (''intervals'', PList [PStr ''1h''])])])])]\<rparr>"

lemma preflight_never_guesses_witness:
  "\<exists>e'. local_fetch demo_codec [(''demo'', picky_venue)] (MarketCall CandlesRoute ''demo'' ''spot'' ''BTCUSDT'' (query_none\<lparr>q_interval := Some ''7m''\<rparr>)) 0
      = (Inl (Coded e'), 0) \<and> re_class e' = BadRequest"
proof -
  let ?q = "query_none\<lparr>q_interval := Some ''7m''\<rparr>"
  let ?block = "PDict [(''rest'', PBool True), (''intervals'', PList [PStr ''1h''])]"
  let ?e = "mk_error BadRequest (PStr (''Interval '' @ quoted ''7m'' @ '' is not valid for demo spot candles. valid: 1h'')) None"
  have "dget [(''demo'', picky_venue)] ''demo'' = Some picky_venue" "market_of ''spot'' = Some Spot" "Spot \<in> set (vn_markets picky_venue)"
    "interval_param CandlesRoute ?q = Some (Some ''7m'', ''Interval'')" "re_class ?e = BadRequest"
    "route_block (vn_capabilities picky_venue) ''spot'' (route_name CandlesRoute) = Inr ?block"
    "preflight_block ?block ''demo'' ''spot'' (route_name CandlesRoute) (Some ''7m'') ''Interval'' (vn_capabilities picky_venue) = Inl (Coded ?e)"
    by (simp_all add: picky_venue_def demo_venue_def market_of_def mk_error_def query_none_def route_block_def market_block_def py_or_def
        preflight_block_def)
  from preflight_never_guesses [OF this(1-4) this(6,7,5)] show ?thesis by blast
qed

definition demo_gathered :: "(string \<times> (fault + int \<times> string list)) list" where
  "demo_gathered = [(''BTCUSDT'', Inr (1, [])), (''ETHUSDT'', Inr (2, [''short''])), (''XUSDT'', Inl (Coded (unreachable ''down'')))]"

lemma batch_accounts_witness:
  "filed (batch_of demo_gathered) ''ETHUSDT'' = (None, Some (2, [''short'']), None)
   \<and> filed (batch_of demo_gathered) ''DOGEUSDT'' = (None, None, None) \<and> ba_requested (batch_of demo_gathered) = 3"
proof -
  have "distinct (map fst demo_gathered)" by (simp add: demo_gathered_def)
  note acc = batch_accounts [OF this]
  have "filed (batch_of demo_gathered) ''ETHUSDT'' = (None, Some (2, [''short'']), None)" using acc by (simp add: demo_gathered_def)
  moreover have "''DOGEUSDT'' \<notin> fst ` set demo_gathered" by (simp add: demo_gathered_def)
  then have "filed (batch_of demo_gathered) ''DOGEUSDT'' = (None, None, None)" using acc by blast
  moreover have "ba_requested (batch_of demo_gathered) = 3" by code_simp
  ultimately show ?thesis by blast
qed

end
