(* ===== verification/Subscriptions.thy ===== *)
theory Subscriptions
  imports Gateway
begin

text \<open>
  The start and the end of a stream. The service decides a subscription in \<open>websocket_endpoint\<close> of
  \<^verbatim>\<open>exchange_router/service/main.py\<close>; \<open>RemoteBackend.stream\<close> and \<open>LocalBackend.stream\<close> of
  \<^verbatim>\<open>exchange_router/backend.py\<close> turn what ends a stream into an error, and \<open>AsyncCore.stream\<close> of
  \<^verbatim>\<open>exchange_router/_core.py\<close> decides whether to subscribe again.
\<close>

section \<open>The service side\<close>

definition KNOWN_WS_CHANNELS :: "string list" where
  "KNOWN_WS_CHANNELS = [''ticker'', ''book_ticker'', ''mark_price'', ''agg_trades'', ''trades'', ''orderbook'', ''liquidations'']"

text \<open>
  What becomes of a socket: refused before it is accepted, closed with a code and a reason,
  subscribed under a stream key, or left by an exception that is only logged.
\<close>

datatype ws_outcome =
    Refused int
  | ClosedWith int string
  | Subscribed string string pyval
  | Abandoned pyexc

text \<open>The first frame of the client: its JSON, nothing within ten seconds, or something else.\<close>

datatype first_frame = Json pyval | Silence | Garbage pyexc

definition stream_key :: "string \<Rightarrow> market_type \<Rightarrow> string \<Rightarrow> pyval \<Rightarrow> string" where
  "stream_key exchange mt channel symbol =
     exchange @ '':'' @ market_value mt @ '':'' @ channel @ '':'' @ py_str symbol"

definition text_of :: "pyval \<Rightarrow> string" where
  "text_of v = (case v of PStr s \<Rightarrow> s | _ \<Rightarrow> py_str v)"

fun known_channel :: "pyval \<Rightarrow> pyexc + bool" where
  "known_channel (PStr s) = Inr (s \<in> set KNOWN_WS_CHANNELS)"
| "known_channel (PList xs) = Inl (TypeError (''unhashable type: '' @ quoted ''list''))"
| "known_channel (PDict d) = Inl (TypeError (''unhashable type: '' @ quoted ''dict''))"
| "known_channel v = Inr False"

definition open_subscription :: "'w venue \<Rightarrow> string \<Rightarrow> market_type \<Rightarrow> pyval \<Rightarrow> pyexc + ws_outcome" where
  "open_subscription v exchange mt data =
     bindr (py_get data ''channel'') (\<lambda>channel.
     bindr (py_get data ''symbol'') (\<lambda>symbol.
     if \<not> truthy channel \<or> \<not> truthy symbol then Inr (ClosedWith 1003 [])
     else bindr (known_channel channel) (\<lambda>known.
       if \<not> known then Inr (ClosedWith 1003 [])
       else bindr (route_block (vn_capabilities v) (market_value mt) (text_of channel)) (\<lambda>block.
         bindr (py_get block ''ws'') (\<lambda>ws.
         if \<not> truthy ws then
           Inr (ClosedWith 1003 (''channel '' @ py_repr channel @ '' not supported on '' @ exchange @ ''/'' @ market_value mt))
         else Inr (Subscribed (stream_key exchange mt (text_of channel) symbol) (text_of channel) symbol))))))"

definition websocket_endpoint :: "'w registry \<Rightarrow> string \<Rightarrow> string \<Rightarrow> first_frame \<Rightarrow> ws_outcome" where
  "websocket_endpoint reg exchange market_type frame =
     (case market_of market_type of
        None \<Rightarrow> Refused 1008
      | Some mt \<Rightarrow> (case dget reg exchange of
          None \<Rightarrow> Refused 1008
        | Some v \<Rightarrow>
            if mt \<notin> set (vn_markets v) then Refused 1008
            else (case frame of
                Silence \<Rightarrow> ClosedWith 1008 ''no subscription received''
              | Garbage e \<Rightarrow> Abandoned e
              | Json data \<Rightarrow> (case open_subscription v exchange mt data of
                    Inl e \<Rightarrow> Abandoned e
                  | Inr res \<Rightarrow> res))))"

section \<open>The client side\<close>

text \<open>What ends a stream at the client: it runs dry, or an exception.\<close>

datatype stream_end = Dry | Failed stream_error | Error router_error

text \<open>
  \<open>RemoteBackend.stream\<close>: a refused handshake is a \<open>NotFound\<close>; a close frame that is fatal
  becomes its error, any other exception stays.
\<close>

datatype socket_end = HandshakeRefused | SocketError stream_error

definition not_streamed :: "string \<Rightarrow> string \<Rightarrow> string \<Rightarrow> router_error" where
  "not_streamed url exchange market_type = mk_error NotFound (PStr (''exchange '' @ quoted exchange @ '' or market_type '' @
     quoted market_type @ '' is not streamed by '' @ url @ ''; check both against get_exchanges and get_market_types'')) (Some 404)"

definition remote_stream_end :: "string \<Rightarrow> string \<Rightarrow> string \<Rightarrow> string \<Rightarrow> socket_end \<Rightarrow> stream_end" where
  "remote_stream_end url exchange market_type channel e = (case e of
       HandshakeRefused \<Rightarrow> Error (not_streamed url exchange market_type)
     | SocketError (ConnectionClosed code reason) \<Rightarrow>
         (case error_for_close (ConnectionClosed code reason) exchange market_type channel of
            None \<Rightarrow> Failed (ConnectionClosed code reason)
          | Some err \<Rightarrow> Error err)
     | SocketError err \<Rightarrow> Failed err)"

text \<open>
  \<open>LocalBackend.stream\<close>: the checks before the adapter's stream, and its exceptions;
  \<open>has_stream\<close> says which \<open>stream_*\<close> methods an adapter has.
\<close>

definition local_stream_open :: "'w registry \<Rightarrow> (string \<Rightarrow> bool) \<Rightarrow> string \<Rightarrow> string \<Rightarrow> string \<Rightarrow> fault + 'w venue" where
  "local_stream_open reg has_stream exchange market_type channel =
     bindr (local_market_type market_type) (\<lambda>mt.
     bindr (local_adapter reg exchange (Some mt)) (\<lambda>v.
     if \<not> has_stream channel then
       Inl (Coded (mk_error NotSupported (PStr (''channel '' @ quoted channel @
         '' has no stream here; get_capabilities lists the ones served'')) (Some 501)))
     else Inr v))"

definition local_stream_end :: "stream_error \<Rightarrow> stream_end" where
  "local_stream_end e = (if is_retryable_stream_error e then Failed e
     else case e of
       StreamFault exc \<Rightarrow> Error (error_for_fault exc)
     | ConnectionClosed code reason \<Rightarrow> Error (mk_error RouterError (PStr reason) (Some 500))
     | WebSocketException s \<Rightarrow> Error (mk_error RouterError (PStr s) (Some 500))
     | StreamOSError s \<Rightarrow> Error (mk_error RouterError (PStr s) (Some 500)))"

text \<open>
  \<open>AsyncCore.stream\<close>: the messages of one subscription after the other, with a pause of two
  seconds after a failure. The result is the exception it ends with, \<open>None\<close> for the end without
  one, or still running.
\<close>

datatype 'm stream_run = Running "'m list" | Over "'m list" "stream_end option"

fun before :: "'m list \<Rightarrow> 'm stream_run \<Rightarrow> 'm stream_run" where
  "before ms (Running xs) = Running (ms @ xs)"
| "before ms (Over xs e) = Over (ms @ xs) e"

definition retryable_end :: "stream_end \<Rightarrow> bool" where
  "retryable_end e = (case e of Failed s \<Rightarrow> is_retryable_stream_error s | _ \<Rightarrow> False)"

fun client_stream :: "bool \<Rightarrow> ('m list \<times> stream_end) list \<Rightarrow> 'm stream_run" where
  "client_stream reconnect [] = Running []"
| "client_stream reconnect ((ms, e) # rest) =
     (case e of
        Dry \<Rightarrow> if \<not> reconnect then Over ms None else before ms (client_stream reconnect rest)
      | _ \<Rightarrow> if \<not> reconnect \<or> \<not> retryable_end e then Over ms (Some e)
             else before ms (client_stream reconnect rest))"

section \<open>What they promise\<close>

text \<open>A connection that is lost rather than refused: no close frame of a refusal, or an error of the transport.\<close>

fun connection_lost :: "stream_error \<Rightarrow> bool" where
  "connection_lost (ConnectionClosed (Some code) reason) \<longleftrightarrow> code \<noteq> 1003 \<and> code \<noteq> 1008"
| "connection_lost (ConnectionClosed None reason) \<longleftrightarrow> True"
| "connection_lost (WebSocketException s) \<longleftrightarrow> True"
| "connection_lost (StreamOSError s) \<longleftrightarrow> True"
| "connection_lost (StreamFault (OSError s)) \<longleftrightarrow> True"
| "connection_lost (StreamFault e) \<longleftrightarrow> False"

lemma lost_again:
  assumes "connection_lost e"
  shows "remote_stream_end url exchange m channel (SocketError e) = Failed e" "local_stream_end e = Failed e" "retryable_end (Failed e)"
  using assms
  by (cases e rule: connection_lost.cases;
      simp add: remote_stream_end_def local_stream_end_def retryable_end_def is_retryable_stream_error_def FATAL_CLOSE_CODES_def)+

text \<open>
  C29. A refusal is final: when the service turns a subscription down, by refusing the handshake or
  closing the socket, the client of that stream gets an error of the vocabulary and never subscribes
  again. A connection that is lost is retried: closed with any code but the two of a refusal, so also
  with the 1011 that the service sends when the upstream is lost, closed without one, or broken by
  the transport, which is also what the client sees of a socket that the service leaves by an
  exception; and so it is for the upstream of a local router.
\<close>

theorem refusals_are_final:
  assumes "websocket_endpoint reg exchange m frame = out" "\<not> (\<exists>k c s. out = Subscribed k c s)" "\<not> (\<exists>e. out = Abandoned e)"
  shows "\<exists>err. remote_stream_end url exchange m channel
        (case out of ClosedWith code reason \<Rightarrow> SocketError (ConnectionClosed (Some code) reason) | _ \<Rightarrow> HandshakeRefused) = Error err
      \<and> re_class err \<in> {NotFound, BadRequest, NotSupported}
      \<and> client_stream True ((ms, Error err) # rest) = Over ms (Some (Error err))
      \<and> (\<forall>e. connection_lost e \<longrightarrow>
            client_stream True ((ms, remote_stream_end url exchange m channel (SocketError e)) # rest) = before ms (client_stream True rest)
          \<and> client_stream True ((ms, local_stream_end e) # rest) = before ms (client_stream True rest))"
proof -
  have codes: "code \<in> {1003, 1008}" if "out = ClosedWith code reason" for code reason
    using assms(1) that by (auto simp: websocket_endpoint_def open_subscription_def bindr_Inr_iff
        split: option.splits if_splits first_frame.splits sum.splits)
  have again: "client_stream True ((ms, Failed e) # rest) = before ms (client_stream True rest)" if "connection_lost e" for e
    using lost_again(3) [OF that] by simp
  have lost: "\<forall>e. connection_lost e \<longrightarrow>
        client_stream True ((ms, remote_stream_end url exchange m channel (SocketError e)) # rest) = before ms (client_stream True rest)
      \<and> client_stream True ((ms, local_stream_end e) # rest) = before ms (client_stream True rest)"
    using again lost_again(1,2) by simp
  have "\<exists>err. remote_stream_end url exchange m channel
        (case out of ClosedWith code reason \<Rightarrow> SocketError (ConnectionClosed (Some code) reason) | _ \<Rightarrow> HandshakeRefused) = Error err
      \<and> re_class err \<in> {NotFound, BadRequest, NotSupported}"
  proof (cases out)
    case (ClosedWith code reason)
    then show ?thesis using codes [OF ClosedWith] by (auto simp: remote_stream_end_def FATAL_CLOSE_CODES_def mk_error_def)
  qed (use assms(2,3) in \<open>auto simp: remote_stream_end_def not_streamed_def mk_error_def\<close>)
  then obtain err where err: "remote_stream_end url exchange m channel
        (case out of ClosedWith code reason \<Rightarrow> SocketError (ConnectionClosed (Some code) reason) | _ \<Rightarrow> HandshakeRefused) = Error err"
      "re_class err \<in> {NotFound, BadRequest, NotSupported}" by blast
  have "client_stream True ((ms, Error err) # rest) = Over ms (Some (Error err))" by (simp add: retryable_end_def)
  then show ?thesis using err lost by blast
qed

definition demo_ws :: "nat registry" where
  "demo_ws = [(''demo'', \<lparr>vn_name = ''demo'', vn_markets = [Spot], vn_capabilities = PDict [],
     vn_status = retw PNone, vn_exchange_info = (\<lambda>_. retw []), vn_ticker = (\<lambda>_ _. retw PNone),
     vn_book_ticker = (\<lambda>_ _. retw PNone), vn_mark_price = (\<lambda>_ _. retw PNone), vn_symbol_info = (\<lambda>_ _. retw PNone),
     vn_margin_tiers = (\<lambda>_ _. retw PNone), vn_orderbook = (\<lambda>_ _ _. retw PNone), vn_trades = (\<lambda>_ _ _. retw PNone),
     vn_agg_trades = (\<lambda>_ _ _ _. retw PNone), vn_candles = (\<lambda>_ _ _ _ _. retw []),
     vn_funding_rate = (\<lambda>_ _ _ _. retw PNone), vn_open_interest = (\<lambda>_ _ _ _ _. retw []),
     vn_liquidations = (\<lambda>_ _ _ _. retw PNone), vn_long_short_ratio = (\<lambda>_ _ _ _ _. retw PNone)\<rparr>)]"

lemma refusals_are_final_witness:
  "\<exists>err. re_class err = NotSupported
     \<and> remote_stream_end ''u'' ''demo'' ''spot'' ''ticker'' (SocketError (ConnectionClosed (Some 1003)
          (''channel '' @ quoted ''ticker'' @ '' not supported on demo/spot''))) = Error err
     \<and> client_stream True [([1 :: int, 2], Error err), ([3], Dry)] = Over [1, 2] (Some (Error err))"
proof -
  let ?out = "ClosedWith 1003 (''channel '' @ quoted ''ticker'' @ '' not supported on demo/spot'')"
  have out: "websocket_endpoint demo_ws ''demo'' ''spot'' (Json (PDict [(''channel'', PStr ''ticker''), (''symbol'', PStr ''BTCUSDT'')])) = ?out"
    by code_simp
  from refusals_are_final [OF this, where url = "''u''" and channel = "''ticker''" and ms = "[1 :: int, 2]" and rest = "[([3], Dry)]"]
  obtain err where err: "remote_stream_end ''u'' ''demo'' ''spot'' ''ticker'' (SocketError (ConnectionClosed (Some 1003)
          (''channel '' @ quoted ''ticker'' @ '' not supported on demo/spot''))) = Error err"
    "client_stream True [([1 :: int, 2], Error err), ([3], Dry)] = Over [1, 2] (Some (Error err))" by auto
  then have "re_class err = NotSupported" by (auto simp: remote_stream_end_def FATAL_CLOSE_CODES_def mk_error_def)
  with err show ?thesis by blast
qed

lemma sep_inj: "a @ c # s = b @ c # t \<Longrightarrow> c \<notin> set a \<Longrightarrow> c \<notin> set b \<Longrightarrow> a = b \<and> s = t"
proof (induction a arbitrary: b)
  case Nil
  then show ?case by (cases b) auto
next
  case (Cons x a)
  then show ?case by (cases b) auto
qed

lemma market_value_no_colon: "CHR '':'' \<notin> set (market_value mt)"
  by (cases mt) simp_all

text \<open>
  Two clients share an upstream only when they ask for the same thing: stream keys of exchange
  names and channels without a colon are equal only for the same exchange, market, channel and
  symbol text, whatever the symbol contains.
\<close>

theorem stream_key_injective:
  assumes "stream_key e m c s = stream_key e' m' c' s'"
    and "CHR '':'' \<notin> set e" "CHR '':'' \<notin> set e'" "c \<in> set KNOWN_WS_CHANNELS" "c' \<in> set KNOWN_WS_CHANNELS"
  shows "e = e' \<and> m = m' \<and> c = c' \<and> py_str s = py_str s'"
proof -
  have channel: "CHR '':'' \<notin> set d" if "d \<in> set KNOWN_WS_CHANNELS" for d
  proof -
    have "list_all (\<lambda>d. CHR '':'' \<notin> set d) KNOWN_WS_CHANNELS" by code_simp
    then show ?thesis using that by (simp add: list_all_iff)
  qed
  have one: "e = e' \<and> market_value m @ CHR '':'' # c @ CHR '':'' # py_str s = market_value m' @ CHR '':'' # c' @ CHR '':'' # py_str s'"
    by (rule sep_inj [OF _ assms(2,3)]) (use assms(1) in \<open>simp add: stream_key_def\<close>)
  have two: "market_value m = market_value m' \<and> c @ CHR '':'' # py_str s = c' @ CHR '':'' # py_str s'"
    by (rule sep_inj [OF _ market_value_no_colon market_value_no_colon]) (use one in blast)
  have "c = c' \<and> py_str s = py_str s'"
    by (rule sep_inj [OF _ channel [OF assms(4)] channel [OF assms(5)]]) (use two in blast)
  then show ?thesis using one two by (simp add: market_value_inj)
qed

lemma stream_key_injective_witness:
  "\<not> (\<exists>s. stream_key ''okx'' Spot ''trades'' (PStr ''BTC'') = stream_key ''okx'' Linear ''trades'' s)"
proof
  assume "\<exists>s. stream_key ''okx'' Spot ''trades'' (PStr ''BTC'') = stream_key ''okx'' Linear ''trades'' s"
  then obtain s where "stream_key ''okx'' Spot ''trades'' (PStr ''BTC'') = stream_key ''okx'' Linear ''trades'' s" by blast
  from stream_key_injective [OF this] show False by (simp add: KNOWN_WS_CHANNELS_def)
qed

end
