(* ===== verification/Adapters.thy ===== *)
theory Adapters
  imports Builders Effects Capabilities
begin

text \<open>
  What the adapters have in common: the environment of their coroutines (the request helper, the
  metadata caches and the clock), the reading of venue payloads field by field, and the streams,
  whose \<open>try\<close> skips a malformed frame (\<^verbatim>\<open>exchange_router/exchanges/*/adapter.py\<close>).
\<close>

section \<open>Environment\<close>

text \<open>
  \<open>env_request\<close> is the \<open>_make_request\<close> of the adapter, \<open>env_info\<close> its \<open>_info_for\<close>,
  \<open>env_cycle\<close> the funding interval it keeps for a symbol, \<open>env_now_ms\<close> the value of
  \<open>int(time.time() * 1000)\<close>, \<open>env_iso\<close> the ISO reading of a timestamp text.
\<close>

record 'w adapter_env =
  env_request :: "string \<Rightarrow> (string \<times> pyval) list \<Rightarrow> ('w, pyexc, pyval) io"
  env_info :: "market_type \<Rightarrow> string \<Rightarrow> ('w, pyexc, symbol_info option) io"
  env_cycle :: "market_type \<Rightarrow> string \<Rightarrow> ('w, pyexc, int option) io"
  env_now_ms :: "('w, pyexc, int) io"
  env_iso :: "string \<Rightarrow> int option"

section \<open>Fields\<close>

definition item_float :: "pyval \<Rightarrow> string \<Rightarrow> pyfloat res" where
  "item_float d k = bindr (py_item d k) py_float"

definition index_float :: "pyval \<Rightarrow> nat \<Rightarrow> pyfloat res" where
  "index_float r i = bindr (py_index r i) py_float"

text \<open>\<open>str(d[k])\<close>\<close>

definition item_text :: "pyval \<Rightarrow> string \<Rightarrow> string res" where
  "item_text d k = bindr (py_item d k) (\<lambda>v. Inr (py_str v))"

text \<open>A value that has to be a string, for a string method.\<close>

fun as_string :: "string \<Rightarrow> pyval \<Rightarrow> string res" where
  "as_string meth (PStr s) = Inr s"
| "as_string meth v = Inl (AttributeError (quoted (type_name v) @ '' object has no attribute '' @ quoted meth))"

definition item_symbol :: "pyval \<Rightarrow> string \<Rightarrow> string res" where
  "item_symbol d k = bindr (py_item d k) (as_string ''upper'')"

text \<open>\<open>data[0]\<close> when the answer is a list.\<close>

definition first_row :: "pyval \<Rightarrow> pyval res" where
  "first_row data = (case data of PList xs \<Rightarrow> py_index data 0 | _ \<Rightarrow> Inr data)"

text \<open>\<open>xs[:n]\<close>\<close>

definition head_slice :: "int \<Rightarrow> 'a list \<Rightarrow> 'a list" where
  "head_slice n xs = (if 0 \<le> n then take (nat n) xs else take (length xs - nat (- n)) xs)"

fun py_head :: "pyval \<Rightarrow> int \<Rightarrow> pyval res" where
  "py_head (PList xs) n = Inr (PList (head_slice n xs))"
| "py_head (PStr s) n = Inr (PStr (head_slice n s))"
| "py_head (PDict d) n = Inl (TypeError (''unhashable type: '' @ quoted ''slice''))"
| "py_head v n = Inl (TypeError (quoted (type_name v) @ '' object is not subscriptable''))"

text \<open>\<open>[[float(p), float(q)] for p, q in rows]\<close>\<close>

definition unpack2 :: "pyval \<Rightarrow> (pyval \<times> pyval) res" where
  "unpack2 v = bindr (py_iter v) (\<lambda>xs. case xs of
       [a, b] \<Rightarrow> Inr (a, b)
     | _ \<Rightarrow> Inl (ValueError (if length xs < 2
         then ''not enough values to unpack (expected 2, got '' @ show_int (int (length xs)) @ '')''
         else ''too many values to unpack (expected 2)'')))"

definition level :: "pyval \<Rightarrow> pyfloat list res" where
  "level v = bindr (unpack2 v) (\<lambda>(p, q). bindr (py_float p) (\<lambda>p. bindr (py_float q) (\<lambda>q. Inr [p, q])))"

definition levels :: "pyval \<Rightarrow> pyfloat list list res" where
  "levels v = bindr (py_iter v) (mapr level)"

text \<open>\<open>d.get(k1) or d.get(k2) or ... or x\<close>\<close>

fun first_truthy :: "pyval \<Rightarrow> string list \<Rightarrow> pyval \<Rightarrow> pyval res" where
  "first_truthy d [] x = Inr x"
| "first_truthy d (k # ks) x = bindr (py_get d k) (\<lambda>v. if truthy v then Inr v else first_truthy d ks x)"

section \<open>Metadata of the instrument\<close>

definition quote_of :: "symbol_info option \<Rightarrow> string" where
  "quote_of info = (case info of None \<Rightarrow> [] | Some i \<Rightarrow> si_quote_asset i)"

definition contract_size_of :: "symbol_info option \<Rightarrow> pyfloat option" where
  "contract_size_of info = (case info of None \<Rightarrow> None | Some i \<Rightarrow> si_contract_size i)"

section \<open>Requests and pages\<close>

text \<open>\<open>get_capabilities()["markets"][mt][route][key]\<close>\<close>

definition cap_field :: "pyval \<Rightarrow> market_type \<Rightarrow> string \<Rightarrow> string \<Rightarrow> pyval res" where
  "cap_field caps mt route key =
     bindr (py_item caps ''markets'') (\<lambda>ms.
     bindr (py_item ms (market_value mt)) (\<lambda>m. bindr (py_item m route) (\<lambda>r. py_item r key)))"

definition not_supported :: "string \<Rightarrow> string \<Rightarrow> market_type \<Rightarrow> pyexc" where
  "not_supported name what mt = NotImplementedError (name @ '' does not support '' @ what @ '' for '' @ market_value mt)"

text \<open>\<open>data.get(k1) or data.get(k2) or now\<close>; the clock is read only when it is needed.\<close>

fun first_of_keys :: "'w adapter_env \<Rightarrow> pyval \<Rightarrow> string list \<Rightarrow> ('w, pyexc, pyval) io" where
  "first_of_keys env data [] = bindw (env_now_ms env) (\<lambda>n. retw (PInt n))"
| "first_of_keys env data (k # ks) =
     bindw (liftw (py_get data k)) (\<lambda>v. if truthy v then retw v else first_of_keys env data ks)"

fun ints_of :: "pyval list \<Rightarrow> int list" where
  "ints_of [] = []"
| "ints_of (PInt n # xs) = n # ints_of xs"
| "ints_of (v # xs) = ints_of xs"

text \<open>\<open>next((d for d in depths if d >= depth), max_depth)\<close>\<close>

definition depth_bucket :: "int list \<Rightarrow> int \<Rightarrow> int \<Rightarrow> int" where
  "depth_bucket depths max_depth depth = (case List.find (\<lambda>d. depth \<le> d) depths of Some d \<Rightarrow> d | None \<Rightarrow> max_depth)"

text \<open>The bound of a page: \<open>end_ts\<close> of the pagination, or the start time the caller gave; \<open>0\<close> is no bound.\<close>

definition anchor :: "int option \<Rightarrow> int option \<Rightarrow> int option" where
  "anchor end_ts start_time = (case end_ts of Some e \<Rightarrow> Some e | None \<Rightarrow> start_time)"

definition end_param :: "string \<Rightarrow> int option \<Rightarrow> (string \<times> pyval) list" where
  "end_param key a = (case a of Some t \<Rightarrow> if t \<noteq> 0 then [(key, PInt t)] else [] | None \<Rightarrow> [])"

text \<open>The rows of an answer, parsed in order.\<close>

definition parsed_rows :: "(pyval \<Rightarrow> 'a res) \<Rightarrow> pyval \<Rightarrow> ('w, pyexc, 'a list) io" where
  "parsed_rows parse data = liftw (bindr (py_iter data) (mapr parse))"

text \<open>The number of decimals a step size is written with.\<close>

definition step_decimals :: "pyval \<Rightarrow> int res" where
  "step_decimals v =
     (if \<not> truthy v then Inr 0
      else bindr (py_in ''.'' v) (\<lambda>dotted.
        if \<not> dotted then Inr 0
        else bindr (as_string ''split'' v) (\<lambda>s. Inr (int (length (rstrip_char CHR ''0'' (split_all CHR ''.'' s ! 1)))))))"

text \<open>The served depths of an adapter and the deepest of them.\<close>

definition cap_depths :: "pyval \<Rightarrow> market_type \<Rightarrow> (int list \<times> int) res" where
  "cap_depths caps mt =
     bindr (cap_field caps mt ''orderbook'' ''depths'') (\<lambda>ds.
     bindr (cap_field caps mt ''orderbook'' ''max_depth'') (\<lambda>m.
     bindr (py_int m) (\<lambda>m. Inr (ints_of (elements ds), m))))"

text \<open>A field that pydantic types as a string.\<close>

fun field_str :: "pyval \<Rightarrow> string res" where
  "field_str (PStr s) = Inr s"
| "field_str v = Inl (ValidationError ''Input should be a valid string'')"

definition opt_str :: "pyval \<Rightarrow> string option res" where
  "opt_str v = (if v = PNone then Inr None else bindr (field_str v) (\<lambda>s. Inr (Some s)))"

text \<open>\<open>float(d.get(k, 0))\<close>\<close>

definition get_float :: "pyval \<Rightarrow> string \<Rightarrow> pyfloat res" where
  "get_float d k = bindr (py_get_or d k (PInt 0)) py_float"

section \<open>Streams\<close>

text \<open>
  The body of a stream runs on one frame after the other: it yields, goes on without yielding, or
  raises. The exceptions of this list are logged and the frame skipped, any other ends the stream.
\<close>

fun skipped :: "pyexc \<Rightarrow> bool" where
  "skipped (ValueError _) = True"
| "skipped (ValidationError _) = True"
| "skipped (TypeError _) = True"
| "skipped (KeyError _) = True"
| "skipped (IndexError _) = True"
| "skipped (AttributeError _) = True"
| "skipped _ = False"

fun run_stream :: "('f \<Rightarrow> 'm list res) \<Rightarrow> 'f list \<Rightarrow> 'm list \<times> pyexc option" where
  "run_stream body [] = ([], None)"
| "run_stream body (f # fs) =
     (case body f of
        Inr ms \<Rightarrow> (let (rest, e) = run_stream body fs in (ms @ rest, e))
      | Inl e \<Rightarrow> if skipped e then run_stream body fs else ([], Some e))"

definition one :: "'m res \<Rightarrow> 'm list res" where
  "one r = bindr r (\<lambda>m. Inr [m])"

text \<open>What a frame contributes on its own.\<close>

definition frame_yield :: "('f \<Rightarrow> 'm list res) \<Rightarrow> 'f \<Rightarrow> 'm list" where
  "frame_yield body f = (case body f of Inr ms \<Rightarrow> ms | Inl e \<Rightarrow> [])"

definition frame_safe :: "('f \<Rightarrow> 'm list res) \<Rightarrow> 'f \<Rightarrow> bool" where
  "frame_safe body f \<longleftrightarrow> (case body f of Inr ms \<Rightarrow> True | Inl e \<Rightarrow> skipped e)"

lemma frame_cases:
  "body f = Inr ms \<Longrightarrow> frame_yield body f = ms" "body f = Inl e \<Longrightarrow> frame_yield body f = []"
  by (simp_all add: frame_yield_def)

lemma run_stream_safe:
  "list_all (frame_safe body) fs \<Longrightarrow> run_stream body fs = (concat (map (frame_yield body) fs), None)"
  by (induction fs) (auto simp: frame_safe_def frame_yield_def split: sum.splits)

lemma run_stream_prefix:
  "\<exists>n \<le> length fs. fst (run_stream body fs) = concat (map (frame_yield body) (take n fs))
     \<and> (snd (run_stream body fs) = None \<longrightarrow> n = length fs)"
proof (induction fs)
  case (Cons f fs)
  obtain n where n: "n \<le> length fs" "fst (run_stream body fs) = concat (map (frame_yield body) (take n fs))"
    "snd (run_stream body fs) = None \<longrightarrow> n = length fs"
    using Cons.IH by (elim exE conjE)
  show ?case
  proof (cases "frame_safe body f")
    case True
    then show ?thesis using n
      by (intro exI [of _ "Suc n"]) (auto simp: frame_safe_def frame_cases split: sum.splits prod.splits)
  next
    case False
    then show ?thesis by (intro exI [of _ 0]) (auto simp: frame_safe_def split: sum.splits)
  qed
qed simp

subsection \<open>Streams that keep something between frames\<close>

text \<open>
  The loop goes on with the next frame, returns, or lets an exception out; the run of a stream over
  the frames that have come is what it yielded and how it stands.
\<close>

datatype frame_end = Next | Stop | Raise pyexc

datatype 's stream_stop = Listening 's | Returned | Escaped pyexc

fun drive :: "('s \<Rightarrow> 'f \<Rightarrow> 's \<times> 'm list \<times> frame_end) \<Rightarrow> 's \<Rightarrow> 'f list \<Rightarrow> 'm list \<times> 's stream_stop" where
  "drive body s [] = ([], Listening s)"
| "drive body s (f # fs) = (case body s f of
       (s, ms, Next) \<Rightarrow> (case drive body s fs of (rest, e) \<Rightarrow> (ms @ rest, e))
     | (s, ms, Stop) \<Rightarrow> (ms, Returned)
     | (s, ms, Raise e) \<Rightarrow> (ms, Escaped e))"

text \<open>A frame that raised: logged and skipped, or the end of the stream.\<close>

definition skipping :: "pyexc option \<Rightarrow> frame_end" where
  "skipping r = (case r of None \<Rightarrow> Next | Some e \<Rightarrow> if skipped e then Next else Raise e)"

definition stopping :: "pyexc option \<Rightarrow> frame_end" where
  "stopping r = (case r of None \<Rightarrow> Next | Some e \<Rightarrow> if skipped e then Stop else Raise e)"

text \<open>Rows yielded one by one, up to the first that raises.\<close>

fun each_row :: "(pyval \<Rightarrow> 'm list res) \<Rightarrow> pyval list \<Rightarrow> 'm list \<times> pyexc option" where
  "each_row f [] = ([], None)"
| "each_row f (r # rs) = (case f r of
       Inl e \<Rightarrow> ([], Some e)
     | Inr ms \<Rightarrow> (case each_row f rs of (rest, e) \<Rightarrow> (ms @ rest, e)))"

definition rows_step :: "('f \<Rightarrow> pyval list res) \<Rightarrow> ('f \<Rightarrow> pyval \<Rightarrow> 'm list res) \<Rightarrow> unit \<Rightarrow> 'f \<Rightarrow> unit \<times> 'm list \<times> frame_end" where
  "rows_step rows f s frame = (case rows frame of
       Inl e \<Rightarrow> ((), [], skipping (Some e))
     | Inr rs \<Rightarrow> (case each_row (f frame) rs of (ms, e) \<Rightarrow> ((), ms, skipping e)))"

text \<open>A stream whose frames are read one by one.\<close>

definition frame_step :: "('f \<Rightarrow> 'm list res) \<Rightarrow> unit \<Rightarrow> 'f \<Rightarrow> unit \<times> 'm list \<times> frame_end" where
  "frame_step body s frame = (case body frame of
       Inl e \<Rightarrow> ((), [], skipping (Some e))
     | Inr ms \<Rightarrow> ((), ms, Next))"

text \<open>The rows of a message, up to the first that ends the stream.\<close>

fun over_rows :: "('s \<Rightarrow> pyval \<Rightarrow> 's \<times> 'm list \<times> frame_end) \<Rightarrow> 's \<Rightarrow> pyval list \<Rightarrow> 's \<times> 'm list \<times> frame_end" where
  "over_rows f s [] = (s, [], Next)"
| "over_rows f s (r # rs) = (case f s r of
       (s, ms, Next) \<Rightarrow> (case over_rows f s rs of (s, rest, e) \<Rightarrow> (s, ms @ rest, e))
     | (s, ms, e) \<Rightarrow> (s, ms, e))"

lemma drive_append:
  "drive body s (xs @ ys) = (case drive body s xs of
     (ms, Listening s) \<Rightarrow> (case drive body s ys of (rest, e) \<Rightarrow> (ms @ rest, e))
   | (ms, e) \<Rightarrow> (ms, e))"
  by (induction xs arbitrary: s) (auto split: prod.splits frame_end.splits stream_stop.splits)

section \<open>Bodies that only raise what a stream skips\<close>

text \<open>
  A reading of a frame is soft when all it can raise is skipped, a number beyond the range of a
  float apart: \<open>int()\<close> of an infinity and \<open>float()\<close> of a huge integer raise an \<open>OverflowError\<close>,
  which no stream lists.
\<close>

fun too_large :: "pyexc \<Rightarrow> bool" where
  "too_large (OverflowError s) = True"
| "too_large _ = False"

definition soft :: "'a res \<Rightarrow> bool" where
  "soft r \<longleftrightarrow> (case r of Inr v \<Rightarrow> True | Inl e \<Rightarrow> skipped e \<or> too_large e)"

named_theorems soft_intros "readings that raise nothing but what a stream skips"

lemma soft_Inr [soft_intros, simp]: "soft (Inr v)"
  by (simp add: soft_def)

lemma soft_Inl [simp]: "soft (Inl e) \<longleftrightarrow> skipped e \<or> too_large e"
  by (simp add: soft_def)

lemma soft_bindr [soft_intros]: "soft r \<Longrightarrow> (\<And>v. soft (f v)) \<Longrightarrow> soft (bindr r f)"
  by (cases r) simp_all

lemma soft_if [soft_intros]: "soft a \<Longrightarrow> soft b \<Longrightarrow> soft (if c then a else b)"
  by simp

lemma soft_option [soft_intros]: "soft a \<Longrightarrow> (\<And>v. soft (f v)) \<Longrightarrow> soft (case x of None \<Rightarrow> a | Some v \<Rightarrow> f v)"
  by (cases x) simp_all

lemma soft_prod [soft_intros]: "(\<And>a b. soft (f a b)) \<Longrightarrow> soft (case p of (a, b) \<Rightarrow> f a b)"
  by (cases p) simp

lemma soft_one [soft_intros]: "soft r \<Longrightarrow> soft (one r)"
  by (simp add: one_def soft_bindr)

lemma soft_mapr [soft_intros]: "(\<And>x. soft (f x)) \<Longrightarrow> soft (mapr f xs)"
  by (induction xs) (simp_all add: soft_bindr)

lemma soft_py_get [soft_intros]: "soft (py_get d k)"
  by (cases "(d, k)" rule: py_get.cases) simp_all

lemma soft_first_truthy [soft_intros]: "soft (first_truthy d ks x)"
  by (induction ks) (simp_all add: soft_bindr soft_py_get)

lemma soft_py_get_or [soft_intros]: "soft (py_get_or d k x)"
  by (cases "(d, k, x)" rule: py_get_or.cases) simp_all

lemma soft_py_item [soft_intros]: "soft (py_item d k)"
  by (cases "(d, k)" rule: py_item.cases) (simp_all split: option.split)

lemma soft_py_index [soft_intros]: "soft (py_index r i)"
  by (cases "(r, i)" rule: py_index.cases) simp_all

lemma soft_py_iter [soft_intros]: "soft (py_iter v)"
  by (cases v rule: py_iter.cases) simp_all

lemma soft_py_head [soft_intros]: "soft (py_head v n)"
  by (cases "(v, n)" rule: py_head.cases) simp_all

lemma soft_float_of_int [soft_intros]: "soft (float_of_int n)"
  by (simp add: float_of_int_def split: pyfloat.split)

lemma soft_int_of_float [soft_intros]: "soft (int_of_float x)"
  by (simp add: int_of_float_def split: pyfloat.split)

lemma soft_py_float [soft_intros]: "soft (py_float v)"
  by (cases v rule: py_float.cases) (simp_all add: soft_float_of_int split: option.split)

lemma soft_py_int [soft_intros]: "soft (py_int v)"
  by (cases v rule: py_int.cases) (simp_all add: soft_int_of_float split: option.split)

lemma soft_as_string [soft_intros]: "soft (as_string meth v)"
  by (cases v) simp_all

lemma soft_normalize_num [soft_intros]: "soft (normalize_timestamp_num v)"
  by (simp add: normalize_timestamp_num_def soft_int_of_float split: pyval.split)

lemma soft_normalize [soft_intros]: "soft (normalize_timestamp iso_ms v)"
  by (simp add: normalize_timestamp_def soft_normalize_num split: pyval.split option.split)

lemma soft_unit_of [soft_intros]: "soft (unit_of s)"
  by (simp add: unit_of_def)

lemma soft_side_of [soft_intros]: "soft (side_of s)"
  by (simp add: side_of_def)

lemma soft_funding_kind_of [soft_intros]: "soft (funding_kind_of s)"
  by (simp add: funding_kind_of_def)

lemma soft_build_qty_value [soft_intros]: "soft (build_qty_value n u cs p)"
  unfolding build_qty_value_def QtyValue_def by (intro soft_intros | simp)+

lemma soft_build_volume_value [soft_intros]: "soft (build_volume_value n u cs p)"
  unfolding build_volume_value_def VolumeValue_def UsdBasis_def by (intro soft_intros | simp)+

lemma soft_build_oi_value [soft_intros]: "soft (build_oi_value n u cs c t)"
  unfolding build_oi_value_def OiValue_def UsdBasis_def by (intro soft_intros | simp)+

lemma soft_build_funding_current [soft_intros]: "soft (build_funding_current k p c v)"
  unfolding build_funding_current_def FundingCurrent_def by (intro soft_intros | simp)+

lemma soft_MarkPrice [soft_intros]: "soft (MarkPrice sy mt q mp ip fu ts)"
  unfolding MarkPrice_def by simp

lemma soft_unpack2 [soft_intros]: "soft (unpack2 v)"
  unfolding unpack2_def by (intro soft_intros) (simp split: list.split)

lemma soft_levels [soft_intros]: "soft (levels v)"
  unfolding levels_def level_def by (intro soft_intros)

lemma soft_item_float [soft_intros]: "soft (item_float d k)"
  unfolding item_float_def by (intro soft_intros)

lemma soft_index_float [soft_intros]: "soft (index_float d k)"
  unfolding index_float_def by (intro soft_intros)

lemma soft_item_text [soft_intros]: "soft (item_text d k)"
  unfolding item_text_def by (intro soft_intros)

lemma soft_item_symbol [soft_intros]: "soft (item_symbol d k)"
  unfolding item_symbol_def by (intro soft_intros)

lemma soft_field_str [soft_intros]: "soft (field_str v)"
  by (cases v) simp_all

lemma soft_opt_str [soft_intros]: "soft (opt_str v)"
  unfolding opt_str_def by (intro soft_intros)

lemma soft_get_float [soft_intros]: "soft (get_float d k)"
  unfolding get_float_def by (intro soft_intros)

text \<open>
  What a stream with such a body promises: a malformed frame costs itself alone, and only a
  number beyond the float range ends the stream.
\<close>

definition robust_stream :: "('f \<Rightarrow> 'm list res) \<Rightarrow> 'f list \<Rightarrow> bool" where
  "robust_stream body fs \<longleftrightarrow>
     (if list_all (frame_safe body) fs
      then run_stream body fs = (concat (map (frame_yield body) fs), None)
      else (case snd (run_stream body fs) of None \<Rightarrow> False | Some e \<Rightarrow> too_large e))"

lemma run_stream_end:
  "snd (run_stream body fs) = None \<Longrightarrow> list_all (frame_safe body) fs"
  by (induction fs) (auto simp: frame_safe_def split: sum.splits prod.splits if_splits)

lemma run_stream_error:
  "snd (run_stream body fs) = Some e \<Longrightarrow> \<exists>f \<in> set fs. body f = Inl e \<and> \<not> skipped e"
  by (induction fs) (auto split: sum.splits prod.splits if_splits)

lemma robust_streamI:
  assumes "\<And>f. soft (body f)"
  shows "robust_stream body fs"
proof (cases "snd (run_stream body fs)")
  case None
  then show ?thesis using run_stream_end [OF None] by (simp add: robust_stream_def run_stream_safe)
next
  case (Some e)
  obtain f where f: "body f = Inl e" "\<not> skipped e"
    using run_stream_error [OF Some] by (elim bexE conjE)
  have "too_large e" using assms [of f] f by simp
  then show ?thesis using Some by (simp add: robust_stream_def run_stream_safe)
qed

end
