(* ===== verification/Binance.thy ===== *)
theory Binance
  imports Adapters Symbols Pagination
begin

text \<open>
  The Binance adapter, \<^verbatim>\<open>exchange_router/exchanges/binance/adapter.py\<close>: one definition per read
  method, from the URL and parameters it asks for to the rows it returns, and one per stream.
\<close>

section \<open>URLs and units\<close>

fun binance_rest_url :: "market_type \<Rightarrow> string" where
  "binance_rest_url Spot = ''https://api.binance.com''"
| "binance_rest_url Linear = ''https://fapi.binance.com''"
| "binance_rest_url Inverse = ''https://dapi.binance.com''"

fun binance_api :: "market_type \<Rightarrow> string" where
  "binance_api Spot = ''/api/v3/''"
| "binance_api Linear = ''/fapi/v1/''"
| "binance_api Inverse = ''/dapi/v1/''"

definition binance_url :: "market_type \<Rightarrow> string \<Rightarrow> string" where
  "binance_url mt path = binance_rest_url mt @ binance_api mt @ path"

definition binance_unit :: "market_type \<Rightarrow> string" where
  "binance_unit mt = (if mt = Inverse then ''contract'' else ''base'')"

definition binance_unit_kind :: "market_type \<Rightarrow> unit_kind" where
  "binance_unit_kind mt = (if mt = Inverse then Contract else Base)"

definition binance_cap :: "market_type \<Rightarrow> string \<Rightarrow> string \<Rightarrow> pyval res" where
  "binance_cap mt route key = cap_field binance_capabilities mt route key"

section \<open>Tickers\<close>

definition binance_ticker :: "(string \<Rightarrow> int option) \<Rightarrow> market_type \<Rightarrow> string \<Rightarrow> symbol_info option \<Rightarrow> pyval \<Rightarrow> ticker res" where
  "binance_ticker iso_ms mt model_sym info data =
     bindr (item_float data ''volume'') (\<lambda>volume_native.
     bindr (item_float data ''lastPrice'') (\<lambda>close_price.
     bindr (item_float data ''openPrice'') (\<lambda>open_24h.
     bindr (item_float data ''highPrice'') (\<lambda>high_24h.
     bindr (item_float data ''lowPrice'') (\<lambda>low_24h.
     bindr (build_volume_value volume_native (binance_unit mt) (contract_size_of info) close_price) (\<lambda>volume.
     bindr (item_float data ''priceChangePercent'') (\<lambda>change.
     bindr (bindr (py_item data ''closeTime'') (normalize_timestamp iso_ms)) (\<lambda>ts.
     Inr \<lparr>tk_symbol = model_sym, tk_market_type = mt, tk_quote = quote_of info, tk_price = close_price,
       tk_open_24h = open_24h, tk_high_24h = high_24h, tk_low_24h = low_24h, tk_volume_24h = volume,
       tk_price_change_percent = change, tk_timestamp = ts\<rparr>))))))))"

text \<open>The answer about one instrument, its symbol, and the metadata.\<close>

definition binance_point :: "'w adapter_env \<Rightarrow> market_type \<Rightarrow> string \<Rightarrow> string \<Rightarrow>
    (pyval \<Rightarrow> string \<Rightarrow> symbol_info option \<Rightarrow> ('w, pyexc, 'a) io) \<Rightarrow> ('w, pyexc, 'a) io" where
  "binance_point env mt path symbol k =
     bindw (env_request env (binance_url mt path) [(''symbol'', PStr (binance_get_api_symbol symbol mt))]) (\<lambda>answer.
     bindw (liftw (first_row answer)) (\<lambda>data.
     bindw (liftw (item_symbol data ''symbol'')) (\<lambda>s.
     let model_sym = binance_get_model_symbol s mt in
     bindw (env_info env mt model_sym) (\<lambda>info. k data model_sym info))))"

definition binance_get_ticker :: "'w adapter_env \<Rightarrow> market_type \<Rightarrow> string \<Rightarrow> ('w, pyexc, ticker) io" where
  "binance_get_ticker env mt symbol =
     binance_point env mt ''ticker/24hr'' symbol (\<lambda>data model_sym info. liftw (binance_ticker (env_iso env) mt model_sym info data))"

text \<open>The two sides of a book ticker; \<open>ts\<close> is already chosen.\<close>

definition binance_book_ticker :: "(string \<Rightarrow> int option) \<Rightarrow> market_type \<Rightarrow> string \<Rightarrow> symbol_info option \<Rightarrow>
    pyfloat \<Rightarrow> pyfloat \<Rightarrow> pyfloat res \<Rightarrow> pyfloat res \<Rightarrow> pyval \<Rightarrow> book_ticker res" where
  "binance_book_ticker iso_ms mt model_sym info bid_price ask_price bid_size ask_size ts =
     bindr (bindr bid_size (\<lambda>n. build_qty_value n (binance_unit mt) (contract_size_of info) bid_price)) (\<lambda>bid_qty.
     bindr (bindr ask_size (\<lambda>n. build_qty_value n (binance_unit mt) (contract_size_of info) ask_price)) (\<lambda>ask_qty.
     bindr (normalize_timestamp iso_ms ts) (\<lambda>t.
     Inr \<lparr>bt_symbol = model_sym, bt_market_type = mt, bt_quote = quote_of info, bt_bid_price = bid_price,
       bt_bid_qty = bid_qty, bt_ask_price = ask_price, bt_ask_qty = ask_qty, bt_timestamp = t\<rparr>)))"

definition binance_get_book_ticker :: "'w adapter_env \<Rightarrow> market_type \<Rightarrow> string \<Rightarrow> ('w, pyexc, book_ticker) io" where
  "binance_get_book_ticker env mt symbol =
     binance_point env mt ''ticker/bookTicker'' symbol (\<lambda>data model_sym info.
     bindw (liftw (item_float data ''bidPrice'')) (\<lambda>bid_price.
     bindw (liftw (item_float data ''askPrice'')) (\<lambda>ask_price.
     bindw (first_of_keys env data [''time'']) (\<lambda>ts.
     liftw (binance_book_ticker (env_iso env) mt model_sym info bid_price ask_price
       (item_float data ''bidQty'') (item_float data ''askQty'') ts)))))"

section \<open>Order book\<close>

definition binance_depths :: "market_type \<Rightarrow> (int list \<times> int) res" where
  "binance_depths mt = cap_depths binance_capabilities mt"

definition binance_get_orderbook :: "'w adapter_env \<Rightarrow> market_type \<Rightarrow> string \<Rightarrow> int \<Rightarrow> ('w, pyexc, order_book) io" where
  "binance_get_orderbook env mt symbol depth =
     bindw (liftw (binance_depths mt)) (\<lambda>(depths, max_depth).
     let api_symbol = binance_get_api_symbol symbol mt in
     bindw (env_request env (binance_url mt ''depth'')
       [(''symbol'', PStr api_symbol), (''limit'', PInt (depth_bucket depths max_depth depth))]) (\<lambda>data.
     bindw (first_of_keys env data [''E'', ''T'']) (\<lambda>ts.
     let model_sym = binance_get_model_symbol api_symbol mt in
     bindw (env_info env mt model_sym) (\<lambda>info.
     bindw (liftw (bindr (py_item data ''bids'') (\<lambda>v. bindr (py_head v depth) levels))) (\<lambda>bids.
     bindw (liftw (bindr (py_item data ''asks'') (\<lambda>v. bindr (py_head v depth) levels))) (\<lambda>asks.
     bindw (liftw (normalize_timestamp (env_iso env) ts)) (\<lambda>t.
     retw \<lparr>ob_symbol = model_sym, ob_market_type = mt, ob_quote = quote_of info, ob_bids = bids, ob_asks = asks,
       ob_qty_unit = binance_unit_kind mt, ob_timestamp = t\<rparr>)))))))"

section \<open>Trades\<close>

definition taker_side :: "pyval \<Rightarrow> side" where
  "taker_side buyer_is_maker = (if truthy buyer_is_maker then Sell else Buy)"

definition binance_trade :: "(string \<Rightarrow> int option) \<Rightarrow> market_type \<Rightarrow> string \<Rightarrow> symbol_info option \<Rightarrow> pyval \<Rightarrow> trade res" where
  "binance_trade iso_ms mt model_sym info t =
     bindr (item_float t ''price'') (\<lambda>price.
     bindr (item_text t ''id'') (\<lambda>tid.
     bindr (bindr (item_float t ''qty'') (\<lambda>n. build_qty_value n (binance_unit mt) (contract_size_of info) price)) (\<lambda>qty.
     bindr (py_item t ''isBuyerMaker'') (\<lambda>maker.
     bindr (bindr (py_item t ''time'') (normalize_timestamp iso_ms)) (\<lambda>ts.
     Inr \<lparr>td_id = Some tid, td_symbol = model_sym, td_market_type = mt, td_quote = quote_of info, td_price = price,
       td_qty = qty, td_side = taker_side maker, td_timestamp = ts\<rparr>)))))"

definition binance_get_trades :: "'w adapter_env \<Rightarrow> market_type \<Rightarrow> string \<Rightarrow> int \<Rightarrow> ('w, pyexc, trade list) io" where
  "binance_get_trades env mt symbol limit0 =
     bindw (liftw (bindr (binance_cap mt ''trades'' ''max_limit'') py_int)) (\<lambda>max_limit.
     let limit = min limit0 max_limit; api_symbol = binance_get_api_symbol symbol mt in
     bindw (env_request env (binance_url mt ''trades'') [(''symbol'', PStr api_symbol), (''limit'', PInt limit)]) (\<lambda>data.
     let model_sym = binance_get_model_symbol api_symbol mt in
     bindw (env_info env mt model_sym) (\<lambda>info.
     bindw (liftw (bindr (py_iter data) (mapr (binance_trade (env_iso env) mt model_sym info)))) (\<lambda>trades.
     retw (slice_last limit (sort_key td_timestamp trades))))))"

definition binance_agg_trade :: "(string \<Rightarrow> int option) \<Rightarrow> market_type \<Rightarrow> string \<Rightarrow> symbol_info option \<Rightarrow> pyval \<Rightarrow> agg_trade res" where
  "binance_agg_trade iso_ms mt model_sym info t =
     bindr (item_float t ''p'') (\<lambda>price.
     bindr (item_text t ''a'') (\<lambda>agg_id.
     bindr (bindr (item_float t ''q'') (\<lambda>n. build_qty_value n (binance_unit mt) (contract_size_of info) price)) (\<lambda>qty.
     bindr (item_text t ''f'') (\<lambda>first_id.
     bindr (item_text t ''l'') (\<lambda>last_id.
     bindr (py_item t ''m'') (\<lambda>maker.
     bindr (bindr (py_item t ''T'') (normalize_timestamp iso_ms)) (\<lambda>ts.
     Inr \<lparr>at_agg_id = agg_id, at_symbol = model_sym, at_market_type = mt, at_quote = quote_of info, at_price = price,
       at_qty = qty, at_first_trade_id = first_id, at_last_trade_id = last_id, at_side = taker_side maker,
       at_timestamp = ts\<rparr>)))))))"

definition binance_agg_page :: "'w adapter_env \<Rightarrow> market_type \<Rightarrow> string \<Rightarrow> symbol_info option \<Rightarrow> int option \<Rightarrow>
    int option \<Rightarrow> int \<Rightarrow> ('w, pyexc, agg_trade list) io" where
  "binance_agg_page env mt api_symbol info start_time end_ts l =
     bindw (env_request env (binance_url mt ''aggTrades'')
       ([(''symbol'', PStr api_symbol), (''limit'', PInt l)] @ end_param ''endTime'' (anchor end_ts start_time)))
     (parsed_rows (binance_agg_trade (env_iso env) mt (binance_get_model_symbol api_symbol mt) info))"

definition binance_get_agg_trades :: "'w adapter_env \<Rightarrow> market_type \<Rightarrow> string \<Rightarrow> int option \<Rightarrow> int \<Rightarrow> ('w, pyexc, agg_trade list) io" where
  "binance_get_agg_trades env mt symbol start_time limit =
     (let api_symbol = binance_get_api_symbol symbol mt in
      bindw (env_info env mt (binance_get_model_symbol api_symbol mt)) (\<lambda>info.
      if (case start_time of None \<Rightarrow> False | Some s \<Rightarrow> s \<noteq> 0) \<or> 1000 < limit then
        paginate_backwards (binance_agg_page env mt api_symbol info start_time) at_timestamp (\<lambda>r. r) limit 1000
      else binance_agg_page env mt api_symbol info start_time None limit))"

section \<open>Candles\<close>

definition binance_candle :: "(string \<Rightarrow> int option) \<Rightarrow> market_type \<Rightarrow> string \<Rightarrow> symbol_info option \<Rightarrow> string \<Rightarrow> pyval \<Rightarrow> candle res" where
  "binance_candle iso_ms mt model_sym info interval k =
     bindr (index_float k 4) (\<lambda>close.
     bindr (bindr (py_index k 0) (normalize_timestamp iso_ms)) (\<lambda>ts.
     bindr (index_float k 1) (\<lambda>opening.
     bindr (index_float k 2) (\<lambda>high.
     bindr (index_float k 3) (\<lambda>low.
     bindr (bindr (index_float k 5) (\<lambda>n. build_volume_value n (binance_unit mt) (contract_size_of info) close)) (\<lambda>volume.
     Inr \<lparr>cd_symbol = model_sym, cd_market_type = mt, cd_quote = quote_of info, cd_interval = interval, cd_timestamp = ts,
       cd_open = opening, cd_high = high, cd_low = low, cd_close = close, cd_volume = volume\<rparr>))))))"

definition binance_candle_page :: "'w adapter_env \<Rightarrow> market_type \<Rightarrow> string \<Rightarrow> symbol_info option \<Rightarrow> string \<Rightarrow> int option \<Rightarrow>
    int option \<Rightarrow> int \<Rightarrow> ('w, pyexc, candle list) io" where
  "binance_candle_page env mt api_symbol info interval start_time end_ts l =
     bindw (env_request env (binance_url mt ''klines'')
       ([(''symbol'', PStr api_symbol), (''interval'', PStr interval), (''limit'', PInt l)]
         @ end_param ''endTime'' (anchor end_ts start_time)))
     (parsed_rows (binance_candle (env_iso env) mt (binance_get_model_symbol api_symbol mt) info interval))"

definition binance_get_candles :: "'w adapter_env \<Rightarrow> market_type \<Rightarrow> string \<Rightarrow> string \<Rightarrow> int option \<Rightarrow> int \<Rightarrow> ('w, pyexc, candle list) io" where
  "binance_get_candles env mt symbol interval start_time limit =
     (let api_symbol = binance_get_api_symbol symbol mt;
          max_per_req = (if mt \<noteq> Spot then 1500 else 1000)
      in bindw (env_info env mt (binance_get_model_symbol api_symbol mt)) (\<lambda>info.
         if start_time \<noteq> None \<or> max_per_req < limit then
           paginate_backwards (binance_candle_page env mt api_symbol info interval start_time) cd_timestamp (\<lambda>r. r) limit max_per_req
         else binance_candle_page env mt api_symbol info interval start_time None limit))"

section \<open>Mark price\<close>

text \<open>
  The funding block of a mark price: there when the rate, the interval of the symbol and the next
  funding time are known; it is valid for at least a millisecond.
\<close>

definition binance_funding :: "(string \<Rightarrow> int option) \<Rightarrow> int option \<Rightarrow> int \<Rightarrow> pyval \<Rightarrow> pyval \<Rightarrow> funding_current option res" where
  "binance_funding iso_ms cycle_ms ts next_raw rate_raw =
     bindr (if truthy next_raw then bindr (normalize_timestamp iso_ms next_raw) (\<lambda>n. Inr (Some n)) else Inr None) (\<lambda>next_ft.
     case (cycle_ms, next_ft) of
       (Some c, Some n) \<Rightarrow>
         (if rate_raw = PNone then Inr None
          else bindr (py_float rate_raw) (\<lambda>rate.
            bindr (build_funding_current ''discrete'' rate c (max n (ts + 1))) (\<lambda>f. Inr (Some f))))
     | _ \<Rightarrow> Inr None)"

text \<open>\<open>next_k\<close>, \<open>rate_k\<close>, \<open>mark_k\<close> and \<open>index_k\<close> are the names of the fields, which REST and streams spell differently.\<close>

definition binance_mark_price :: "(string \<Rightarrow> int option) \<Rightarrow> market_type \<Rightarrow> string res \<Rightarrow> symbol_info option \<Rightarrow> int option \<Rightarrow>
    string \<Rightarrow> string \<Rightarrow> string \<Rightarrow> string \<Rightarrow> string \<Rightarrow> pyval \<Rightarrow> mark_price res" where
  "binance_mark_price iso_ms mt model_sym info cycle_ms time_k next_k rate_k mark_k index_k data =
     bindr (bindr (py_item data time_k) (normalize_timestamp iso_ms)) (\<lambda>ts.
     bindr (py_get data next_k) (\<lambda>next_raw.
     bindr (py_get data rate_k) (\<lambda>rate_raw.
     bindr (binance_funding iso_ms cycle_ms ts next_raw rate_raw) (\<lambda>funding.
     bindr model_sym (\<lambda>sym.
     bindr (item_float data mark_k) (\<lambda>mark.
     bindr (item_float data index_k) (\<lambda>index.
     MarkPrice sym mt (quote_of info) mark (Some index) funding ts)))))))"

definition binance_get_mark_price :: "'w adapter_env \<Rightarrow> market_type \<Rightarrow> string \<Rightarrow> ('w, pyexc, mark_price) io" where
  "binance_get_mark_price env mt symbol =
     (if mt = Spot then liftw (Inl (not_supported ''binance'' ''mark_price'' mt))
      else binance_point env mt ''premiumIndex'' symbol (\<lambda>data model_sym info.
        bindw (env_cycle env mt model_sym) (\<lambda>cycle_ms.
        liftw (binance_mark_price (env_iso env) mt (Inr model_sym) info cycle_ms
          ''time'' ''nextFundingTime'' ''lastFundingRate'' ''markPrice'' ''indexPrice'' data))))"

section \<open>Open interest and long/short ratio\<close>

definition binance_raw_symbol :: "string \<Rightarrow> string" where
  "binance_raw_symbol symbol = remove_sub ''_PERP'' (normalize_symbol symbol)"

definition binance_oi_row :: "(string \<Rightarrow> int option) \<Rightarrow> market_type \<Rightarrow> string \<Rightarrow> symbol_info option \<Rightarrow> string \<Rightarrow> pyval \<Rightarrow> open_interest res" where
  "binance_oi_row iso_ms mt model_sym info period i =
     bindr (bindr (item_float i ''sumOpenInterest'')
       (\<lambda>n. build_oi_value n (binance_unit mt) (contract_size_of info) None None)) (\<lambda>oi.
     bindr (bindr (py_item i ''timestamp'') (normalize_timestamp iso_ms)) (\<lambda>ts.
     Inr \<lparr>oi_symbol = model_sym, oi_market_type = mt, oi_quote = quote_of info, oi_interval = period,
       oi_open_interest = oi, oi_timestamp = ts\<rparr>))"

definition symbol_key :: "market_type \<Rightarrow> string" where
  "symbol_key mt = (if mt = Linear then ''symbol'' else ''pair'')"

definition binance_get_open_interest :: "'w adapter_env \<Rightarrow> market_type \<Rightarrow> string \<Rightarrow> string \<Rightarrow> int option \<Rightarrow> int \<Rightarrow>
    ('w, pyexc, open_interest list) io" where
  "binance_get_open_interest env mt symbol period start_time limit =
     (if mt = Spot then liftw (Inl (not_supported ''binance'' ''open_interest'' mt))
      else
        let raw_symbol = binance_raw_symbol symbol; model_sym = binance_get_model_symbol raw_symbol mt in
        bindw (env_info env mt model_sym) (\<lambda>info.
        paginate_backwards (\<lambda>end_ts l.
            bindw (env_request env (binance_rest_url mt @ ''/futures/data/openInterestHist'')
              ([(symbol_key mt, PStr raw_symbol), (''period'', PStr period), (''limit'', PInt l)]
                @ end_param ''endTime'' (anchor end_ts start_time)
                @ (if mt = Inverse then [(''contractType'', PStr ''PERPETUAL'')] else [])))
            (parsed_rows (binance_oi_row (env_iso env) mt model_sym info period)))
          oi_timestamp (\<lambda>r. r) limit 500))"

definition binance_ratio_row :: "(string \<Rightarrow> int option) \<Rightarrow> market_type \<Rightarrow> string \<Rightarrow> string \<Rightarrow> pyval \<Rightarrow> long_short_ratio res" where
  "binance_ratio_row iso_ms mt model_sym period i =
     bindr (item_float i ''longShortRatio'') (\<lambda>ratio.
     bindr (item_float i ''longAccount'') (\<lambda>long_account.
     bindr (item_float i ''shortAccount'') (\<lambda>short_account.
     bindr (bindr (py_item i ''timestamp'') (normalize_timestamp iso_ms)) (\<lambda>ts.
     Inr \<lparr>ls_symbol = model_sym, ls_market_type = mt, ls_interval = period, ls_ratio = ratio,
       ls_long_account = Some long_account, ls_short_account = Some short_account, ls_account_scope = AllAccounts,
       ls_timestamp = ts\<rparr>))))"

definition binance_get_long_short_ratio :: "'w adapter_env \<Rightarrow> market_type \<Rightarrow> string \<Rightarrow> string \<Rightarrow> int option \<Rightarrow> int \<Rightarrow>
    ('w, pyexc, long_short_ratio list) io" where
  "binance_get_long_short_ratio env mt symbol period start_time limit =
     (if mt = Spot then liftw (Inl (not_supported ''binance'' ''long_short_ratio'' mt))
      else
        let raw_symbol = binance_raw_symbol symbol; model_sym = binance_get_model_symbol raw_symbol mt in
        paginate_backwards (\<lambda>end_ts l.
            bindw (env_request env (binance_rest_url mt @ ''/futures/data/globalLongShortAccountRatio'')
              ([(''period'', PStr period), (''limit'', PInt l)] @ end_param ''endTime'' (anchor end_ts start_time)
                @ [(symbol_key mt, PStr raw_symbol)]))
            (parsed_rows (binance_ratio_row (env_iso env) mt model_sym period)))
          ls_timestamp (\<lambda>r. r) limit 500)"

definition binance_get_liquidations :: "market_type \<Rightarrow> ('w, pyexc, liquidation list) io" where
  "binance_get_liquidations mt = liftw (Inl (if mt = Spot then not_supported ''binance'' ''liquidations'' mt
     else NotImplementedError (''binance does not support liquidations REST for '' @ market_value mt @ ''; use stream_liquidations instead'')))"

section \<open>Funding history\<close>

definition binance_funding_row :: "(string \<Rightarrow> int option) \<Rightarrow> market_type \<Rightarrow> symbol_info option \<Rightarrow> int \<Rightarrow> pyval \<Rightarrow> funding_rate res" where
  "binance_funding_row iso_ms mt info cycle_ms i =
     bindr (item_symbol i ''symbol'') (\<lambda>s.
     bindr (bindr (item_float i ''fundingRate'') (\<lambda>r. build_funding_historical ''discrete'' r cycle_ms)) (\<lambda>rate.
     bindr (bindr (py_item i ''fundingTime'') (normalize_timestamp iso_ms)) (\<lambda>ts.
     Inr \<lparr>fr_symbol = binance_get_model_symbol s mt, fr_market_type = mt, fr_quote = quote_of info, fr_rate = rate,
       fr_timestamp = ts\<rparr>)))"

definition binance_funding_call :: "'w adapter_env \<Rightarrow> market_type \<Rightarrow> symbol_info option \<Rightarrow> int \<Rightarrow> (string \<times> pyval) list \<Rightarrow>
    ('w, pyexc, funding_rate list) io" where
  "binance_funding_call env mt info cycle_ms params =
     bindw (env_request env (binance_url mt ''fundingRate'') params)
       (parsed_rows (binance_funding_row (env_iso env) mt info cycle_ms))"

text \<open>
  The cadence of the newest rows, and the pages before them; \<open>safety\<close> counts the pages left.
  \<open>min\<close> of nothing raises.
\<close>

fun gaps :: "int list \<Rightarrow> int list" where
  "gaps (a # b # ts) = (b - a) # gaps (b # ts)"
| "gaps _ = []"

definition default_cadence_ms :: int where "default_cadence_ms = 8 * 3600000"

definition cadence :: "int list \<Rightarrow> int" where
  "cadence ts = (if 2 \<le> length ts then max (sort (gaps ts) ! (length (gaps ts) div 2)) 60000 else default_cadence_ms)"

definition py_min_of :: "int list \<Rightarrow> int res" where
  "py_min_of xs = (if xs = [] then Inl (ValueError ''min() iterable argument is empty'') else Inr (Min (set xs)))"

fun funding_pages :: "nat \<Rightarrow> ((string \<times> pyval) list \<Rightarrow> ('w, pyexc, funding_rate list) io) \<Rightarrow> string \<Rightarrow> int \<Rightarrow> int \<Rightarrow>
    funding_rate list \<Rightarrow> int set \<Rightarrow> ('w, pyexc, funding_rate list) io" where
  "funding_pages 0 get api_symbol cadence_ms limit collected seen = retw collected"
| "funding_pages (Suc safety) get api_symbol cadence_ms limit collected seen =
     (if \<not> int (length collected) < limit then retw collected
      else
        bindw (liftw (py_min_of (map fr_timestamp collected))) (\<lambda>oldest_ts.
        bindw (get [(''symbol'', PStr api_symbol), (''limit'', PInt 1000),
            (''startTime'', PInt (max 0 (oldest_ts - 1000 * cadence_ms))), (''endTime'', PInt (oldest_ts - 1))]) (\<lambda>batch.
        let new_rows = filter (\<lambda>r. fr_timestamp r \<notin> seen) batch in
        if new_rows = [] then retw collected
        else funding_pages safety get api_symbol cadence_ms limit (collected @ new_rows)
               (seen \<union> fr_timestamp ` set new_rows))))"

definition binance_get_funding_rate :: "'w adapter_env \<Rightarrow> market_type \<Rightarrow> string \<Rightarrow> int option \<Rightarrow> int \<Rightarrow> ('w, pyexc, funding_rate list) io" where
  "binance_get_funding_rate env mt symbol start_time limit =
     (if mt = Spot then liftw (Inl (not_supported ''binance'' ''funding_rate'' mt))
      else
        let api_symbol = binance_get_api_symbol symbol mt; model_sym = binance_get_model_symbol api_symbol mt in
        bindw (env_info env mt model_sym) (\<lambda>info.
        bindw (env_cycle env mt model_sym) (\<lambda>interval_ms.
        let cycle_ms = (case interval_ms of Some c \<Rightarrow> c | None \<Rightarrow> default_cadence_ms);
            get = binance_funding_call env mt info cycle_ms
        in case start_time of
          Some s \<Rightarrow>
            bindw (get [(''symbol'', PStr api_symbol), (''limit'', PInt (min limit 1000)),
                (''startTime'', PInt (max 0 (s - min limit 1000 * cycle_ms))), (''endTime'', PInt s)])
              (\<lambda>rows. retw (slice_last limit rows))
        | None \<Rightarrow>
            bindw (get [(''symbol'', PStr api_symbol), (''limit'', PInt (min limit 200))]) (\<lambda>recent.
            if limit \<le> int (length recent) then retw (slice_last limit recent)
            else
              bindw (funding_pages 10 get api_symbol (cadence (map fr_timestamp recent)) limit recent (fr_timestamp ` set recent))
                (\<lambda>collected. retw (slice_last limit (sort_key fr_timestamp collected)))))))"

section \<open>Instrument metadata\<close>

text \<open>\<open>fundingInfo\<close>: rows that do not read are left out; a failed request leaves out all of them.\<close>

fun hashable :: "pyval \<Rightarrow> bool" where
  "hashable (PList _) = False"
| "hashable (PDict _) = False"
| "hashable _ = True"

definition funding_override :: "pyval \<Rightarrow> (pyval \<times> int) res" where
  "funding_override i =
     bindr (item_float i ''fundingIntervalHours'') (\<lambda>hours.
     bindr (int_of_float (fmul hours (Fin 3600000))) (\<lambda>ms.
     bindr (py_item i ''symbol'') (\<lambda>s.
     if hashable s then Inr (s, ms) else Inl (TypeError (''unhashable type: '' @ quoted (type_name s))))))"

fun unreadable :: "pyexc \<Rightarrow> bool" where
  "unreadable (KeyError _) = True"
| "unreadable (TypeError _) = True"
| "unreadable e = is_value_error e"

fun funding_overrides :: "pyval list \<Rightarrow> (pyval, int) dict \<Rightarrow> (pyval, int) dict res" where
  "funding_overrides [] out = Inr out"
| "funding_overrides (i # rest) out = (case funding_override i of
       Inr (s, ms) \<Rightarrow> funding_overrides rest (dset out s ms)
     | Inl e \<Rightarrow> if unreadable e then funding_overrides rest out else Inl e)"

definition fetch_funding_overrides :: "'w adapter_env \<Rightarrow> market_type \<Rightarrow> ('w, pyexc, (pyval, int) dict) io" where
  "fetch_funding_overrides env mt =
     (if mt = Spot then retw []
      else (\<lambda>w. case env_request env (binance_url mt ''fundingInfo'') [] w of
          (Inl e, w) \<Rightarrow> (if is_exception e then Inr [] else Inl e, w)
        | (Inr data, w) \<Rightarrow> (if truthy data then bindr (py_iter data) (\<lambda>rows. funding_overrides rows []) else Inr [], w)))"

text \<open>The filters of an instrument: what each of them sets.\<close>

record binance_filters =
  bf_min_qty :: "pyfloat option"
  bf_max_qty :: "pyfloat option"
  bf_min_notional :: "pyfloat option"
  bf_tick_size :: pyval
  bf_step_size :: pyval

definition no_filters :: binance_filters where
  "no_filters = \<lparr>bf_min_qty = None, bf_max_qty = None, bf_min_notional = None, bf_tick_size = PStr [], bf_step_size = PStr []\<rparr>"

text \<open>\<open>f.get(k, "") or old\<close>\<close>

definition text_or :: "pyval \<Rightarrow> string \<Rightarrow> pyval \<Rightarrow> pyval res" where
  "text_or f k old = bindr (py_get f k) (\<lambda>v. Inr (py_or v old))"

definition apply_filter :: "binance_filters \<Rightarrow> pyval \<Rightarrow> binance_filters res" where
  "apply_filter b f =
     bindr (py_item f ''filterType'') (\<lambda>kind.
     if kind = PStr ''LOT_SIZE'' then
       bindr (item_float f ''minQty'') (\<lambda>lo. bindr (item_float f ''maxQty'') (\<lambda>hi.
       bindr (text_or f ''stepSize'' (bf_step_size b)) (\<lambda>step.
       Inr (b\<lparr>bf_min_qty := Some lo, bf_max_qty := Some hi, bf_step_size := step\<rparr>))))
     else if kind = PStr ''PRICE_FILTER'' then
       bindr (text_or f ''tickSize'' (bf_tick_size b)) (\<lambda>tick. Inr (b\<lparr>bf_tick_size := tick\<rparr>))
     else if kind = PStr ''MIN_NOTIONAL'' \<or> kind = PStr ''NOTIONAL'' then
       bindr (py_get f ''minNotional'') (\<lambda>m.
       bindr (if truthy m then Inr m else py_get f ''notional'') (\<lambda>raw_notional.
       if raw_notional = PNone then Inr b
       else bindr (py_float raw_notional) (\<lambda>x. Inr (b\<lparr>bf_min_notional := Some x\<rparr>))))
     else Inr b)"

fun apply_filters :: "binance_filters \<Rightarrow> pyval list \<Rightarrow> binance_filters res" where
  "apply_filters b [] = Inr b"
| "apply_filters b (f # fs) = bindr (apply_filter b f) (\<lambda>b. apply_filters b fs)"

text \<open>
  One instrument of \<open>exchangeInfo\<close>, with the funding interval to remember: \<open>None\<close> for what is not
  a trading instrument of the market. \<open>field_int\<close> is pydantic's reading of an integer field.
\<close>

definition binance_listed :: "market_type \<Rightarrow> pyval \<Rightarrow> bool res" where
  "binance_listed mt s =
     bindr (py_get s ''status'') (\<lambda>a. bindr (if truthy a then Inr a else py_get s ''contractStatus'') (\<lambda>status.
     if status \<noteq> PStr ''TRADING'' then Inr False
     else if mt = Spot then Inr True
     else bindr (py_get s ''contractType'') (\<lambda>c. Inr (c = PStr ''PERPETUAL'' \<or> c = PStr ''TRADIFI_PERPETUAL''))))"

definition binance_contract_size :: "market_type \<Rightarrow> pyval \<Rightarrow> pyfloat option res" where
  "binance_contract_size mt s =
     (if mt \<noteq> Inverse then Inr None
      else bindr (py_get s ''contractSize'') (\<lambda>raw.
        if raw = PNone then Inr None
        else (case py_float raw of
            Inr x \<Rightarrow> Inr (Some x)
          | Inl (TypeError t) \<Rightarrow> Inr None
          | Inl e \<Rightarrow> if is_value_error e then Inr None else Inl e)))"

definition binance_precision :: "market_type \<Rightarrow> pyval \<Rightarrow> string \<Rightarrow> string \<Rightarrow> pyval \<Rightarrow> pyval res" where
  "binance_precision mt step spot_key other_key s =
     (if mt = Spot then
        (if truthy step then bindr (step_decimals step) (\<lambda>n. Inr (PInt n)) else py_get_or s spot_key (PInt 8))
      else py_get_or s other_key (PInt 8))"

definition binance_info_row :: "(pyval \<Rightarrow> int res) \<Rightarrow> market_type \<Rightarrow> (pyval, int) dict \<Rightarrow> pyval \<Rightarrow>
    (symbol_info \<times> int option) option res" where
  "binance_info_row field_int mt overrides s =
     bindr (binance_listed mt s) (\<lambda>listed.
     if \<not> listed then Inr None
     else
       bindr (py_get_or s ''filters'' (PList [])) (\<lambda>fs.
       bindr (py_iter fs) (\<lambda>fs.
       bindr (apply_filters no_filters fs) (\<lambda>b.
       bindr (binance_precision mt (bf_tick_size b) ''quotePrecision'' ''pricePrecision'' s) (\<lambda>price_prec.
       bindr (binance_precision mt (bf_step_size b) ''baseAssetPrecision'' ''quantityPrecision'' s) (\<lambda>quantity_prec.
       bindr (binance_contract_size mt s) (\<lambda>contract_size.
       bindr (if mt = Spot then Inr None
              else bindr (py_item s ''symbol'') (\<lambda>sym. Inr (Some (case dget overrides sym of Some ms \<Rightarrow> ms | None \<Rightarrow> default_cadence_ms)))) (\<lambda>interval_ms.
       bindr (if mt = Spot then Inr None else bindr (build_funding_convention ''discrete'') (\<lambda>f. Inr (Some f))) (\<lambda>funding.
       bindr (item_symbol s ''symbol'') (\<lambda>native.
       bindr (bindr (py_item s ''baseAsset'') field_str) (\<lambda>base.
       bindr (bindr (py_item s ''quoteAsset'') field_str) (\<lambda>quote.
       bindr (field_int price_prec) (\<lambda>pp.
       bindr (field_int quantity_prec) (\<lambda>qp.
       Inr (Some (\<lparr>si_symbol = binance_get_model_symbol native mt, si_native_symbol = native, si_base_asset = base,
         si_quote_asset = quote, si_price_precision = pp, si_quantity_precision = qp, si_min_qty = bf_min_qty b,
         si_max_qty = bf_max_qty b, si_min_notional = bf_min_notional b, si_qty_unit = binance_unit_kind mt,
         si_contract_size = contract_size, si_funding = funding, si_tick_size = build_step [bf_tick_size b],
         si_qty_step = build_step [bf_step_size b]\<rparr>, interval_ms))))))))))))))))"

text \<open>The rows, and the funding intervals the adapter remembers from them.\<close>

fun binance_infos :: "(pyval \<Rightarrow> (symbol_info \<times> int option) option res) \<Rightarrow> pyval list \<Rightarrow> (string, int) dict \<Rightarrow>
    (symbol_info list \<times> (string, int) dict) res" where
  "binance_infos row [] cycles = Inr ([], cycles)"
| "binance_infos row (s # rest) cycles = bindr (row s) (\<lambda>r. case r of
       None \<Rightarrow> binance_infos row rest cycles
     | Some (info, ms) \<Rightarrow>
         bindr (binance_infos row rest (case ms of None \<Rightarrow> cycles | Some n \<Rightarrow> dset cycles (si_symbol info) n))
           (\<lambda>(infos, cycles). Inr (info # infos, cycles)))"

definition binance_fetch_exchange_info :: "(pyval \<Rightarrow> int res) \<Rightarrow> 'w adapter_env \<Rightarrow> market_type \<Rightarrow>
    (string, int) dict \<Rightarrow> ('w, pyexc, symbol_info list \<times> (string, int) dict) io" where
  "binance_fetch_exchange_info field_int env mt cycles =
     bindw (env_request env (binance_url mt ''exchangeInfo'') []) (\<lambda>data.
     bindw (fetch_funding_overrides env mt) (\<lambda>overrides.
     liftw (bindr (py_item data ''symbols'') (\<lambda>rows. bindr (py_iter rows) (\<lambda>rows.
       binance_infos (binance_info_row field_int mt overrides) rows cycles)))))"

definition binance_get_symbol_info :: "(string, symbol_info) dict \<Rightarrow> market_type \<Rightarrow> string \<Rightarrow> symbol_info res" where
  "binance_get_symbol_info cache mt symbol =
     (case dget cache (binance_get_model_symbol (binance_get_api_symbol symbol mt) mt) of
        None \<Rightarrow> Inl (ValueError (''Symbol '' @ symbol @ '' not found on Binance '' @ market_value mt))
      | Some info \<Rightarrow> Inr info)"

end
