(* ===== verification/BinanceStreams.thy ===== *)
theory BinanceStreams
  imports Binance
begin

text \<open>
  The streams of the Binance adapter, \<^verbatim>\<open>exchange_router/exchanges/binance/adapter.py\<close>: the topic a
  stream subscribes to, the hub it goes to, and the body of its loop, which reads one message of
  the queue with the time of the clock. A malformed frame is skipped.
\<close>

section \<open>Hubs\<close>

definition binance_USDM_BUCKETS :: "(string \<times> string) list" where
  "binance_USDM_BUCKETS = [(''ticker'', ''market''), (''miniTicker'', ''market''), (''markPrice'', ''market''),
     (''aggTrade'', ''market''), (''forceOrder'', ''market''), (''trade'', ''public''), (''bookTicker'', ''public''),
     (''depth'', ''public'')]"

definition binance_usdm_bucket :: "string \<Rightarrow> string" where
  "binance_usdm_bucket topic = (case split_once CHR ''@'' topic of
       None \<Rightarrow> ''public''
     | Some (s, rest) \<Rightarrow>
         let channel = (case split_once CHR ''@'' rest of None \<Rightarrow> rest | Some (c, r) \<Rightarrow> c);
             channel = (if starts_with ''depth'' channel then ''depth'' else channel)
         in case map_of binance_USDM_BUCKETS channel of None \<Rightarrow> ''public'' | Some b \<Rightarrow> b)"

definition binance_hub_key :: "market_type \<Rightarrow> string \<Rightarrow> string" where
  "binance_hub_key mt topic =
     (if mt = Linear then market_value mt @ '':'' @ binance_usdm_bucket topic else market_value mt)"

definition binance_hub_url :: "market_type \<Rightarrow> string \<Rightarrow> string" where
  "binance_hub_url mt topic =
     (case mt of
        Linear \<Rightarrow> ''wss://fstream.binance.com/'' @ binance_usdm_bucket topic @ ''/stream''
      | Spot \<Rightarrow> ''wss://stream.binance.com:9443/stream''
      | Inverse \<Rightarrow> ''wss://dstream.binance.com/stream'')"

text \<open>The topic of a message of the hub.\<close>

definition binance_route :: "pyval \<Rightarrow> pyval" where
  "binance_route msg = (case msg of PDict d \<Rightarrow> (case dget d ''stream'' of None \<Rightarrow> PNone | Some v \<Rightarrow> v) | _ \<Rightarrow> PNone)"

section \<open>The loop\<close>

text \<open>\<open>_ws_connect\<close> hands on the \<open>data\<close> of a message, if it has one.\<close>

definition binance_ws_data :: "pyval \<Rightarrow> pyval" where
  "binance_ws_data msg = (case msg of PDict d \<Rightarrow> (case dget d ''data'' of None \<Rightarrow> PNone | Some v \<Rightarrow> v) | _ \<Rightarrow> PNone)"

definition binance_frames :: "(int \<Rightarrow> pyval \<Rightarrow> 'm list res) \<Rightarrow> int \<times> pyval \<Rightarrow> 'm list res" where
  "binance_frames body = (\<lambda>(now, msg).
     let data = binance_ws_data msg in if data = PNone then Inr [] else body now data)"

text \<open>
  A stream that has started: the hub key, the topic, and the body its messages go through. The
  symbol is looked up once, before the first message.
\<close>

definition binance_stream :: "'w adapter_env \<Rightarrow> market_type \<Rightarrow> string \<Rightarrow> string \<Rightarrow>
    (string \<Rightarrow> symbol_info option \<Rightarrow> int \<Rightarrow> pyval \<Rightarrow> 'm list res) \<Rightarrow>
    ('w, pyexc, string \<times> string \<times> (int \<times> pyval \<Rightarrow> 'm list res)) io" where
  "binance_stream env mt symbol chan body =
     (let topic = binance_get_stream_symbol symbol mt @ chan;
          model_sym = binance_get_model_symbol (binance_get_api_symbol symbol mt) mt
      in bindw (env_info env mt model_sym) (\<lambda>info.
         retw (binance_hub_key mt topic, topic, binance_frames (body model_sym info))))"

section \<open>One body per stream\<close>

definition binance_ticker_frame :: "(string \<Rightarrow> int option) \<Rightarrow> market_type \<Rightarrow> symbol_info option \<Rightarrow> pyval \<Rightarrow> ticker res" where
  "binance_ticker_frame iso_ms mt info data =
     bindr (item_float data ''c'') (\<lambda>close_price.
     bindr (item_symbol data ''s'') (\<lambda>s.
     bindr (item_float data ''o'') (\<lambda>open_24h.
     bindr (item_float data ''h'') (\<lambda>high_24h.
     bindr (item_float data ''l'') (\<lambda>low_24h.
     bindr (bindr (item_float data ''v'')
       (\<lambda>n. build_volume_value n (binance_unit mt) (contract_size_of info) close_price)) (\<lambda>volume.
     bindr (item_float data ''P'') (\<lambda>change.
     bindr (bindr (py_item data ''E'') (normalize_timestamp iso_ms)) (\<lambda>ts.
     Inr \<lparr>tk_symbol = binance_get_model_symbol s mt, tk_market_type = mt, tk_quote = quote_of info, tk_price = close_price,
       tk_open_24h = open_24h, tk_high_24h = high_24h, tk_low_24h = low_24h, tk_volume_24h = volume,
       tk_price_change_percent = change, tk_timestamp = ts\<rparr>))))))))"

definition binance_stream_ticker :: "'w adapter_env \<Rightarrow> market_type \<Rightarrow> string \<Rightarrow>
    ('w, pyexc, string \<times> string \<times> (int \<times> pyval \<Rightarrow> ticker list res)) io" where
  "binance_stream_ticker env mt symbol =
     binance_stream env mt symbol ''@ticker'' (\<lambda>model_sym info now data. one (binance_ticker_frame (env_iso env) mt info data))"

definition binance_book_ticker_frame :: "(string \<Rightarrow> int option) \<Rightarrow> market_type \<Rightarrow> symbol_info option \<Rightarrow> int \<Rightarrow> pyval \<Rightarrow>
    book_ticker res" where
  "binance_book_ticker_frame iso_ms mt info now data =
     bindr (item_float data ''b'') (\<lambda>bid_price.
     bindr (item_float data ''a'') (\<lambda>ask_price.
     bindr (item_symbol data ''s'') (\<lambda>s.
     bindr (bindr (item_float data ''B'') (\<lambda>n. build_qty_value n (binance_unit mt) (contract_size_of info) bid_price)) (\<lambda>bid_qty.
     bindr (bindr (item_float data ''A'') (\<lambda>n. build_qty_value n (binance_unit mt) (contract_size_of info) ask_price)) (\<lambda>ask_qty.
     bindr (bindr (first_truthy data [''T'', ''E''] (PInt now)) (normalize_timestamp iso_ms)) (\<lambda>ts.
     Inr \<lparr>bt_symbol = binance_get_model_symbol s mt, bt_market_type = mt, bt_quote = quote_of info, bt_bid_price = bid_price,
       bt_bid_qty = bid_qty, bt_ask_price = ask_price, bt_ask_qty = ask_qty, bt_timestamp = ts\<rparr>))))))"

definition binance_stream_book_ticker :: "'w adapter_env \<Rightarrow> market_type \<Rightarrow> string \<Rightarrow>
    ('w, pyexc, string \<times> string \<times> (int \<times> pyval \<Rightarrow> book_ticker list res)) io" where
  "binance_stream_book_ticker env mt symbol =
     binance_stream env mt symbol ''@bookTicker''
       (\<lambda>model_sym info now data. one (binance_book_ticker_frame (env_iso env) mt info now data))"

definition binance_depth_topic :: "market_type \<Rightarrow> int \<Rightarrow> string \<Rightarrow> string" where
  "binance_depth_topic mt depth update_speed =
     (let target_depth = (if depth \<in> {5, 10, 20} then depth else 20); base = ''@depth'' @ show_int target_depth
      in if mt = Spot then (if update_speed = ''1000ms'' then base else base @ ''@100ms'')
         else if update_speed \<in> {''250ms'', ''500ms''} then base @ ''@'' @ update_speed
         else base @ ''@100ms'')"

text \<open>\<open>data.get(a) or data.get(b) or []\<close>\<close>

definition either_key :: "pyval \<Rightarrow> string \<Rightarrow> string \<Rightarrow> pyval res" where
  "either_key data a b = bindr (py_get data a) (\<lambda>x. if truthy x then Inr x
     else bindr (py_get data b) (\<lambda>y. Inr (py_or y (PList []))))"

definition binance_orderbook_frame :: "(string \<Rightarrow> int option) \<Rightarrow> market_type \<Rightarrow> string \<Rightarrow> symbol_info option \<Rightarrow> int \<Rightarrow> pyval \<Rightarrow>
    order_book res" where
  "binance_orderbook_frame iso_ms mt model_sym info now data =
     bindr (either_key data ''bids'' ''b'') (\<lambda>bids.
     bindr (either_key data ''asks'' ''a'') (\<lambda>asks.
     bindr (first_truthy data [''E'', ''T''] (PInt now)) (\<lambda>ts.
     bindr (levels bids) (\<lambda>bids.
     bindr (levels asks) (\<lambda>asks.
     bindr (normalize_timestamp iso_ms ts) (\<lambda>t.
     Inr \<lparr>ob_symbol = model_sym, ob_market_type = mt, ob_quote = quote_of info, ob_bids = bids, ob_asks = asks,
       ob_qty_unit = binance_unit_kind mt, ob_timestamp = t\<rparr>))))))"

definition binance_stream_orderbook :: "'w adapter_env \<Rightarrow> market_type \<Rightarrow> string \<Rightarrow> int \<Rightarrow> string \<Rightarrow>
    ('w, pyexc, string \<times> string \<times> (int \<times> pyval \<Rightarrow> order_book list res)) io" where
  "binance_stream_orderbook env mt symbol depth update_speed =
     binance_stream env mt symbol (binance_depth_topic mt depth update_speed)
       (\<lambda>model_sym info now data. one (binance_orderbook_frame (env_iso env) mt model_sym info now data))"

text \<open>A trade without a positive price and quantity is no trade.\<close>

definition float_or_zero :: "pyval \<Rightarrow> string \<Rightarrow> pyfloat res" where
  "float_or_zero data k = bindr (py_get_or data k (PInt 0)) (\<lambda>v. py_float (py_or v (PInt 0)))"

definition binance_trade_frame :: "(string \<Rightarrow> int option) \<Rightarrow> market_type \<Rightarrow> string \<Rightarrow> symbol_info option \<Rightarrow> pyval \<Rightarrow> trade list res" where
  "binance_trade_frame iso_ms mt model_sym info data =
     bindr (float_or_zero data ''p'') (\<lambda>price.
     bindr (float_or_zero data ''q'') (\<lambda>qty.
     if fle price (Fin 0) \<or> fle qty (Fin 0) then Inr []
     else
       bindr (item_text data ''t'') (\<lambda>tid.
       bindr (build_qty_value qty (binance_unit mt) (contract_size_of info) price) (\<lambda>qty_value.
       bindr (py_item data ''m'') (\<lambda>maker.
       bindr (bindr (py_item data ''T'') (normalize_timestamp iso_ms)) (\<lambda>ts.
       Inr [\<lparr>td_id = Some tid, td_symbol = model_sym, td_market_type = mt, td_quote = quote_of info, td_price = price,
         td_qty = qty_value, td_side = taker_side maker, td_timestamp = ts\<rparr>]))))))"

definition binance_stream_trades :: "'w adapter_env \<Rightarrow> market_type \<Rightarrow> string \<Rightarrow>
    ('w, pyexc, string \<times> string \<times> (int \<times> pyval \<Rightarrow> trade list res)) io" where
  "binance_stream_trades env mt symbol =
     binance_stream env mt symbol ''@trade'' (\<lambda>model_sym info now data. binance_trade_frame (env_iso env) mt model_sym info data)"

text \<open>A frame of aggregate trades is a row of the REST answer.\<close>

definition binance_stream_agg_trades :: "'w adapter_env \<Rightarrow> market_type \<Rightarrow> string \<Rightarrow>
    ('w, pyexc, string \<times> string \<times> (int \<times> pyval \<Rightarrow> agg_trade list res)) io" where
  "binance_stream_agg_trades env mt symbol =
     binance_stream env mt symbol ''@aggTrade''
       (\<lambda>model_sym info now data. one (binance_agg_trade (env_iso env) mt model_sym info data))"

definition binance_stream_mark_price :: "'w adapter_env \<Rightarrow> market_type \<Rightarrow> string \<Rightarrow>
    ('w, pyexc, string \<times> string \<times> (int \<times> pyval \<Rightarrow> mark_price list res)) io" where
  "binance_stream_mark_price env mt symbol =
     (if mt = Spot then liftw (Inl (not_supported ''binance'' ''stream_mark_price'' mt))
      else
        let topic = binance_get_stream_symbol symbol mt @ ''@markPrice'';
            model_sym = binance_get_model_symbol (binance_get_api_symbol symbol mt) mt
        in bindw (env_info env mt model_sym) (\<lambda>info.
           bindw (env_cycle env mt model_sym) (\<lambda>cycle_ms.
           retw (binance_hub_key mt topic, topic, binance_frames (\<lambda>now data.
             one (binance_mark_price (env_iso env) mt
               (bindr (item_symbol data ''s'') (\<lambda>s. Inr (binance_get_model_symbol s mt)))
               info cycle_ms ''E'' ''T'' ''r'' ''p'' ''i'' data))))))"

definition binance_liquidation_frame :: "(string \<Rightarrow> int option) \<Rightarrow> market_type \<Rightarrow> symbol_info option \<Rightarrow> pyval \<Rightarrow> liquidation list res" where
  "binance_liquidation_frame iso_ms mt info data =
     bindr (py_get_or data ''o'' (PDict [])) (\<lambda>ord.
     if \<not> truthy ord then Inr []
     else
       bindr (item_float ord ''p'') (\<lambda>price.
       bindr (item_symbol ord ''s'') (\<lambda>s.
       bindr (bindr (py_item ord ''S'') (as_string ''lower'')) (\<lambda>side_text.
       bindr (bindr (item_float ord ''q'') (\<lambda>n. build_qty_value n (binance_unit mt) (contract_size_of info) price)) (\<lambda>qty.
       bindr (bindr (py_item data ''E'') (normalize_timestamp iso_ms)) (\<lambda>ts.
       bindr (side_of (lower side_text)) (\<lambda>taker.
       Inr [\<lparr>lq_symbol = binance_get_model_symbol s mt, lq_market_type = mt, lq_quote = quote_of info, lq_side = taker,
         lq_price = price, lq_qty = qty, lq_timestamp = ts\<rparr>])))))))"

definition binance_stream_liquidations :: "'w adapter_env \<Rightarrow> market_type \<Rightarrow> string \<Rightarrow>
    ('w, pyexc, string \<times> string \<times> (int \<times> pyval \<Rightarrow> liquidation list res)) io" where
  "binance_stream_liquidations env mt symbol =
     (if mt = Spot then liftw (Inl (not_supported ''binance'' ''stream_liquidations'' mt))
      else binance_stream env mt symbol ''@forceOrder''
        (\<lambda>model_sym info now data. binance_liquidation_frame (env_iso env) mt info data))"

section \<open>Malformed frames\<close>

lemma soft_either_key [soft_intros]: "soft (either_key data a b)"
  unfolding either_key_def by (intro soft_intros)

lemma soft_float_or_zero [soft_intros]: "soft (float_or_zero data k)"
  unfolding float_or_zero_def by (intro soft_intros)

lemma soft_ticker_frame [soft_intros]: "soft (binance_ticker_frame iso_ms mt info data)"
  unfolding binance_ticker_frame_def by (intro soft_intros)

lemma soft_book_ticker_frame [soft_intros]: "soft (binance_book_ticker_frame iso_ms mt info now data)"
  unfolding binance_book_ticker_frame_def by (intro soft_intros)

lemma soft_orderbook_frame [soft_intros]: "soft (binance_orderbook_frame iso_ms mt model_sym info now data)"
  unfolding binance_orderbook_frame_def by (intro soft_intros)

lemma soft_trade_frame [soft_intros]: "soft (binance_trade_frame iso_ms mt model_sym info data)"
  unfolding binance_trade_frame_def by (intro soft_intros)

lemma soft_agg_trade [soft_intros]: "soft (binance_agg_trade iso_ms mt model_sym info data)"
  unfolding binance_agg_trade_def by (intro soft_intros)

lemma soft_binance_funding [soft_intros]: "soft (binance_funding iso_ms cycle_ms ts next_raw rate_raw)"
  unfolding binance_funding_def by (intro soft_intros)

lemma soft_mark_price [soft_intros]: "soft sy \<Longrightarrow> soft (binance_mark_price iso_ms mt sy info cycle_ms a b c d e data)"
  unfolding binance_mark_price_def by (intro soft_intros)

lemma soft_liquidation_frame [soft_intros]: "soft (binance_liquidation_frame iso_ms mt info data)"
  unfolding binance_liquidation_frame_def by (intro soft_intros)

lemma soft_frames: "(\<And>now data. soft (body now data)) \<Longrightarrow> soft (binance_frames body f)"
  by (cases f) (simp add: binance_frames_def Let_def)

lemma robust_frames: "(\<And>now data. soft (body now data)) \<Longrightarrow> robust_stream (binance_frames body) fs"
  by (intro robust_streamI soft_frames)

lemma binance_stream_robust:
  assumes "\<And>model_sym info now data. soft (body model_sym info now data)"
    and "binance_stream env mt symbol chan body w = (Inr (k, t, b), w')"
  shows "robust_stream b fs"
  using assms by (auto simp: binance_stream_def bindw_Inr_iff retw_eq Let_def intro: robust_frames)

text \<open>
  C7. A malformed frame costs a Binance stream itself and nothing else: whatever frames arrive,
  each of the seven streams yields, in order, what every frame yields on its own, and goes on;
  all that can end one is a number beyond the range of a float.
\<close>

theorem binance_streams_robust:
  assumes "binance_stream_ticker env mt symbol w1 = (Inr (k1, t1, ticker_body), w1')"
    and "binance_stream_book_ticker env mt symbol w2 = (Inr (k2, t2, book_body), w2')"
    and "binance_stream_orderbook env mt symbol depth speed w3 = (Inr (k3, t3, depth_body), w3')"
    and "binance_stream_trades env mt symbol w4 = (Inr (k4, t4, trade_body), w4')"
    and "binance_stream_agg_trades env mt symbol w5 = (Inr (k5, t5, agg_body), w5')"
    and "binance_stream_mark_price env mt symbol w6 = (Inr (k6, t6, mark_body), w6')"
    and "binance_stream_liquidations env mt symbol w7 = (Inr (k7, t7, liquidation_body), w7')"
  shows "robust_stream ticker_body fs \<and> robust_stream book_body fs \<and> robust_stream depth_body fs \<and> robust_stream trade_body fs
    \<and> robust_stream agg_body fs \<and> robust_stream mark_body fs \<and> robust_stream liquidation_body fs"
proof (intro conjI)
  show "robust_stream ticker_body fs"
    by (rule binance_stream_robust [OF _ assms(1) [unfolded binance_stream_ticker_def]]) (intro soft_intros)
  show "robust_stream book_body fs"
    by (rule binance_stream_robust [OF _ assms(2) [unfolded binance_stream_book_ticker_def]]) (intro soft_intros)
  show "robust_stream depth_body fs"
    by (rule binance_stream_robust [OF _ assms(3) [unfolded binance_stream_orderbook_def]]) (intro soft_intros)
  show "robust_stream trade_body fs"
    by (rule binance_stream_robust [OF _ assms(4) [unfolded binance_stream_trades_def]]) (intro soft_intros)
  show "robust_stream agg_body fs"
    by (rule binance_stream_robust [OF _ assms(5) [unfolded binance_stream_agg_trades_def]]) (intro soft_intros)
  show "robust_stream mark_body fs"
    using assms(6)
    by (auto simp: binance_stream_mark_price_def bindw_Inr_iff retw_eq liftw_def Let_def split: if_splits
        intro!: robust_frames soft_intros)
  show "robust_stream liquidation_body fs"
    using assms(7) unfolding binance_stream_liquidations_def
    by (cases "mt = Spot") (auto simp: liftw_def intro!: binance_stream_robust [of "\<lambda>m i n d. binance_liquidation_frame (env_iso env) mt i d"] soft_intros)
qed

text \<open>An adapter that knows no instrument, and its seven streams.\<close>

definition quiet_env :: "unit adapter_env" where
  "quiet_env = \<lparr>env_request = (\<lambda>url params. retw (PDict [])), env_info = (\<lambda>mt s. retw None), env_cycle = (\<lambda>mt s. retw None),
     env_now_ms = retw 0, env_iso = (\<lambda>s. None)\<rparr>"

lemma quiet_streams:
  "\<exists>k t b. binance_stream_ticker quiet_env Linear ''BTCUSDT'' () = (Inr (k, t, b), ())"
  "\<exists>k t b. binance_stream_book_ticker quiet_env Linear ''BTCUSDT'' () = (Inr (k, t, b), ())"
  "\<exists>k t b. binance_stream_orderbook quiet_env Linear ''BTCUSDT'' 20 ''100ms'' () = (Inr (k, t, b), ())"
  "\<exists>k t b. binance_stream_trades quiet_env Linear ''BTCUSDT'' () = (Inr (k, t, b), ())"
  "\<exists>k t b. binance_stream_agg_trades quiet_env Linear ''BTCUSDT'' () = (Inr (k, t, b), ())"
  "\<exists>k t b. binance_stream_mark_price quiet_env Linear ''BTCUSDT'' () = (Inr (k, t, b), ())"
  "\<exists>k t b. binance_stream_liquidations quiet_env Linear ''BTCUSDT'' () = (Inr (k, t, b), ())"
  by (simp_all add: quiet_env_def binance_stream_ticker_def binance_stream_book_ticker_def binance_stream_orderbook_def
      binance_stream_trades_def binance_stream_agg_trades_def binance_stream_mark_price_def binance_stream_liquidations_def
      binance_stream_def Let_def retw_eq bindw_def)

lemma binance_streams_robust_witness:
  "\<exists>k t b. binance_stream_trades quiet_env Linear ''BTCUSDT'' () = (Inr (k, t, b), ())
     \<and> robust_stream b [(0, PInt 7), (0, PDict [(''data'', PInt 7)]), (0, PDict [(''data'', PDict [])])]"
proof -
  obtain k1 t1 b1 where 1: "binance_stream_ticker quiet_env Linear ''BTCUSDT'' () = (Inr (k1, t1, b1), ())"
    using quiet_streams(1) by (elim exE)
  obtain k2 t2 b2 where 2: "binance_stream_book_ticker quiet_env Linear ''BTCUSDT'' () = (Inr (k2, t2, b2), ())"
    using quiet_streams(2) by (elim exE)
  obtain k3 t3 b3 where 3: "binance_stream_orderbook quiet_env Linear ''BTCUSDT'' 20 ''100ms'' () = (Inr (k3, t3, b3), ())"
    using quiet_streams(3) by (elim exE)
  obtain k4 t4 b4 where 4: "binance_stream_trades quiet_env Linear ''BTCUSDT'' () = (Inr (k4, t4, b4), ())"
    using quiet_streams(4) by (elim exE)
  obtain k5 t5 b5 where 5: "binance_stream_agg_trades quiet_env Linear ''BTCUSDT'' () = (Inr (k5, t5, b5), ())"
    using quiet_streams(5) by (elim exE)
  obtain k6 t6 b6 where 6: "binance_stream_mark_price quiet_env Linear ''BTCUSDT'' () = (Inr (k6, t6, b6), ())"
    using quiet_streams(6) by (elim exE)
  obtain k7 t7 b7 where 7: "binance_stream_liquidations quiet_env Linear ''BTCUSDT'' () = (Inr (k7, t7, b7), ())"
    using quiet_streams(7) by (elim exE)
  show ?thesis
    by (intro exI [of _ k4] exI [of _ t4] exI [of _ b4] conjI 4
        binance_streams_robust [OF 1 2 3 4 5 6 7, THEN conjunct2, THEN conjunct2, THEN conjunct2, THEN conjunct1])
qed

end
