(* ===== verification/BinanceLaws.thy ===== *)
theory BinanceLaws
  imports BinanceStreams
begin

text \<open>
  What the read methods of the Binance adapter promise: an order book asks for the least depth the
  venue serves that covers the request and never hands out more levels than asked for; a contract
  without funding history.
\<close>

section \<open>Order book\<close>

lemma py_head_length: "py_head v n = Inr u \<Longrightarrow> 0 \<le> n \<Longrightarrow> py_iter u = Inr xs \<Longrightarrow> int (length xs) \<le> n"
  by (cases "(v, n)" rule: py_head.cases) (auto simp: head_slice_def)

lemma levels_length:
  assumes "bindr (py_item data k) (\<lambda>v. bindr (py_head v n) levels) = Inr ls" "0 \<le> n"
  shows "int (length ls) \<le> n"
  using assms by (auto simp: bindr_Inr_iff levels_def dest!: py_head_length mapr_length)

lemma find_depth:
  assumes "sorted ds" "List.find (\<lambda>d. depth \<le> d) ds = Some L"
  shows "L \<in> set ds" "depth \<le> L" "\<forall>d\<in>set ds. depth \<le> d \<longrightarrow> L \<le> d"
  using assms by (induction ds) (auto split: if_splits)

definition served_depths :: "int list" where
  "served_depths = [5, 10, 20, 50, 100, 500, 1000]"

lemma binance_depths_market:
  "binance_depths Spot = Inr (served_depths, last served_depths)"
  "binance_depths Linear = Inr (served_depths, last served_depths)"
  "binance_depths Inverse = Inr (served_depths, last served_depths)"
  by code_simp+

lemma binance_depths_served: "binance_depths mt = Inr (served_depths, last served_depths)"
  by (cases mt) (simp_all only: binance_depths_market)

lemma bucket_served:
  assumes "sorted ds" "ds \<noteq> []"
  shows "depth_bucket ds (last ds) depth \<in> set ds"
    "depth \<le> last ds \<Longrightarrow> depth \<le> depth_bucket ds (last ds) depth"
    "\<forall>d\<in>set ds. depth \<le> d \<longrightarrow> depth_bucket ds (last ds) depth \<le> d"
proof -
  have "depth_bucket ds (last ds) depth \<in> set ds \<and> (depth \<le> last ds \<longrightarrow> depth \<le> depth_bucket ds (last ds) depth)
      \<and> (\<forall>d\<in>set ds. depth \<le> d \<longrightarrow> depth_bucket ds (last ds) depth \<le> d)"
  proof (cases "List.find (\<lambda>d. depth \<le> d) ds")
    case None
    then have "depth_bucket ds (last ds) depth = last ds" by (simp add: depth_bucket_def)
    then show ?thesis using None assms(2) by (auto simp: find_None_iff)
  next
    case (Some L)
    then show ?thesis using find_depth [OF assms(1) Some] by (simp add: depth_bucket_def)
  qed
  then show "depth_bucket ds (last ds) depth \<in> set ds"
    "depth \<le> last ds \<Longrightarrow> depth \<le> depth_bucket ds (last ds) depth"
    "\<forall>d\<in>set ds. depth \<le> d \<longrightarrow> depth_bucket ds (last ds) depth \<le> d"
    by simp_all
qed

lemma sorted_served: "sorted served_depths" "served_depths \<noteq> []"
  by (simp_all add: served_depths_def)

text \<open>
  C30. An order book asks Binance for the least depth it serves that covers the request, the
  deepest one when none does, and hands out at most the levels asked for on either side.
\<close>

theorem binance_orderbook_depth:
  assumes "binance_get_orderbook env mt symbol depth w = (Inr book, w')" "0 \<le> depth"
  shows "\<exists>L data w1. env_request env (binance_url mt ''depth'')
       [(''symbol'', PStr (binance_get_api_symbol symbol mt)), (''limit'', PInt L)] w = (Inr data, w1)
     \<and> L \<in> set served_depths \<and> (depth \<le> last served_depths \<longrightarrow> depth \<le> L)
     \<and> (\<forall>d\<in>set served_depths. depth \<le> d \<longrightarrow> L \<le> d)
     \<and> int (length (ob_bids book)) \<le> depth \<and> int (length (ob_asks book)) \<le> depth"
proof -
  let ?L = "depth_bucket served_depths (last served_depths) depth"
  obtain data w1 where data: "env_request env (binance_url mt ''depth'')
       [(''symbol'', PStr (binance_get_api_symbol symbol mt)), (''limit'', PInt ?L)] w = (Inr data, w1)"
    and bids: "bindr (py_item data ''bids'') (\<lambda>v. bindr (py_head v depth) levels) = Inr (ob_bids book)"
    and asks: "bindr (py_item data ''asks'') (\<lambda>v. bindr (py_head v depth) levels) = Inr (ob_asks book)"
    using assms(1)
    by (auto simp: binance_get_orderbook_def binance_depths_served bindw_Inr_iff Let_def retw_eq liftw_def)
  show ?thesis
    using data bucket_served [OF sorted_served] levels_length [OF bids assms(2)] levels_length [OF asks assms(2)]
    by (intro exI [of _ ?L] exI [of _ data] exI [of _ w1]) blast
qed

section \<open>Funding history\<close>

text \<open>
  A contract that has no funding history yet: the venue answers an empty list, and instead of
  an empty history the call raises the \<open>ValueError\<close> of \<open>min()\<close> of nothing.
\<close>

theorem binance_no_funding_history:
  assumes "mt \<noteq> Spot" "0 < limit"
    and "env_info env mt (binance_get_model_symbol (binance_get_api_symbol symbol mt) mt) w = (Inr info, w1)"
    and "env_cycle env mt (binance_get_model_symbol (binance_get_api_symbol symbol mt) mt) w1 = (Inr cycle, w2)"
    and "env_request env (binance_url mt ''fundingRate'')
           [(''symbol'', PStr (binance_get_api_symbol symbol mt)), (''limit'', PInt (min limit 200))] w2 = (Inr (PList []), w3)"
  shows "binance_get_funding_rate env mt symbol None limit w = (Inl (ValueError ''min() iterable argument is empty''), w3)"
proof -
  have first: "binance_funding_call env mt info c
       [(''symbol'', PStr (binance_get_api_symbol symbol mt)), (''limit'', PInt (min limit 200))] w2 = (Inr [], w3)" for c
    by (simp add: binance_funding_call_def bindw_def assms(5) parsed_rows_def retw_eq)
  have pages: "funding_pages 10 get api cad limit [] seen = liftw (Inl (ValueError ''min() iterable argument is empty''))"
    for get :: "(string \<times> pyval) list \<Rightarrow> ('a, pyexc, funding_rate list) io" and api cad seen
    using assms(2) by (simp add: numeral_eq_Suc py_min_of_def)
  show ?thesis
    using assms(1,2) unfolding binance_get_funding_rate_def
    by (simp add: Let_def bindw_def assms(3,4) first pages, simp add: liftw_def)
qed

subsection \<open>On a venue that answers\<close>

definition book_env :: "unit adapter_env" where
  "book_env = quiet_env\<lparr>env_request := (\<lambda>url params. retw (PDict
     [(''bids'', PList [PList [PInt 3, PInt 1], PList [PInt 2, PInt 1]]), (''asks'', PList []), (''E'', PInt 1700000000000)]))\<rparr>"

lemma book_levels: "bindr (py_head (PList [PList [PInt 3, PInt 1], PList [PInt 2, PInt 1]]) 1) levels = Inr [[Fin 3, Fin 1]]"
  by (simp add: head_slice_def levels_def level_def unpack2_def float_of_int_def round64_int [of 3, simplified]
      round64_int [of 2, simplified] round64_int [of 1, simplified])

lemma binance_orderbook_depth_witness:
  "\<exists>book. binance_get_orderbook book_env Spot ''BTCUSDT'' 1 () = (Inr book, ()) \<and> int (length (ob_bids book)) \<le> 1"
proof -
  have "\<exists>book. binance_get_orderbook book_env Spot ''BTCUSDT'' 1 () = (Inr book, ())"
    using book_levels
    by (simp add: binance_get_orderbook_def binance_depths_served book_env_def quiet_env_def bindw_def retw_eq liftw_def
        Let_def head_slice_def levels_def normalize_timestamp_def normalize_timestamp_num_def)
  then obtain book where "binance_get_orderbook book_env Spot ''BTCUSDT'' 1 () = (Inr book, ())" by (elim exE)
  then show ?thesis using binance_orderbook_depth [of book_env Spot "''BTCUSDT''" 1 "()" book "()"] by auto
qed

definition new_contract :: "unit adapter_env" where
  "new_contract = quiet_env\<lparr>env_request := (\<lambda>url params. retw (PList []))\<rparr>"

lemma binance_no_funding_history_witness:
  "binance_get_funding_rate new_contract Linear ''NEWUSDT'' None 100 () = (Inl (ValueError ''min() iterable argument is empty''), ())"
  by (rule binance_no_funding_history) (simp_all add: new_contract_def quiet_env_def retw_eq)

end
