(* ===== verification/Bybit.thy ===== *)
theory Bybit
  imports Adapters Symbols Intervals Pagination
begin

text \<open>
  The read methods of the Bybit adapter, \<^verbatim>\<open>exchange_router/exchanges/bybit/adapter.py\<close>. Its
  \<open>_make_request\<close> takes a path, so \<open>env_request\<close> is asked for one.
\<close>

section \<open>Timestamps and units\<close>

definition bybit_normalize_timestamp :: "pyval \<Rightarrow> int res" where
  "bybit_normalize_timestamp ts = (case bindr (py_float ts) int_of_float of
       Inr v \<Rightarrow> Inr (if v < 100000000000 then v * 1000 else v)
     | Inl (TypeError t) \<Rightarrow> Inl (ValueError (''Invalid Bybit timestamp: '' @ py_str ts))
     | Inl e \<Rightarrow> if is_value_error e then Inl (ValueError (''Invalid Bybit timestamp: '' @ py_str ts)) else Inl e)"

definition bybit_unit :: "market_type \<Rightarrow> string" where
  "bybit_unit mt = (if mt = Inverse then ''contract'' else ''base'')"

definition bybit_unit_kind :: "market_type \<Rightarrow> unit_kind" where
  "bybit_unit_kind mt = (if mt = Inverse then Contract else Base)"

text \<open>The first parameters of every request: the category, named like the market, and the symbol.\<close>

definition bybit_get_category :: "market_type \<Rightarrow> string" where
  "bybit_get_category mt = (case mt of Spot \<Rightarrow> ''spot'' | Linear \<Rightarrow> ''linear'' | Inverse \<Rightarrow> ''inverse'')"

definition bybit_params :: "market_type \<Rightarrow> string \<Rightarrow> (string \<times> pyval) list" where
  "bybit_params mt api_symbol = [(''category'', PStr (bybit_get_category mt)), (''symbol'', PStr api_symbol)]"

section \<open>Tickers\<close>

text \<open>The one row of the tickers answer, its symbol, and the metadata.\<close>

definition bybit_point :: "'w adapter_env \<Rightarrow> market_type \<Rightarrow> string \<Rightarrow>
    (pyval \<Rightarrow> pyval \<Rightarrow> string \<Rightarrow> symbol_info option \<Rightarrow> ('w, pyexc, 'a) io) \<Rightarrow> ('w, pyexc, 'a) io" where
  "bybit_point env mt symbol k =
     (let api_symbol = bybit_get_api_symbol symbol mt in
      bindw (env_request env ''/v5/market/tickers'' (bybit_params mt api_symbol)) (\<lambda>data.
      bindw (liftw (py_item data ''list'')) (\<lambda>rows.
      if \<not> truthy rows then liftw (Inl (ValueError (''Symbol '' @ api_symbol @ '' not found'')))
      else
        bindw (liftw (py_index rows 0)) (\<lambda>t.
        bindw (liftw (item_symbol t ''symbol'')) (\<lambda>s.
        let model_sym = bybit_get_model_symbol s mt in
        bindw (env_info env mt model_sym) (\<lambda>info. k data t model_sym info))))))"

definition bybit_ticker :: "market_type \<Rightarrow> string \<Rightarrow> symbol_info option \<Rightarrow> pyval \<Rightarrow> (int \<Rightarrow> ticker) res" where
  "bybit_ticker mt model_sym info t =
     bindr (item_float t ''lastPrice'') (\<lambda>close.
     bindr (item_float t ''prevPrice24h'') (\<lambda>open_24h.
     bindr (item_float t ''highPrice24h'') (\<lambda>high_24h.
     bindr (item_float t ''lowPrice24h'') (\<lambda>low_24h.
     bindr (bindr (item_float t ''volume24h'') (\<lambda>n. build_volume_value n (bybit_unit mt) (contract_size_of info) close)) (\<lambda>volume.
     bindr (item_float t ''price24hPcnt'') (\<lambda>change.
     Inr (\<lambda>ts. \<lparr>tk_symbol = model_sym, tk_market_type = mt, tk_quote = quote_of info, tk_price = close,
       tk_open_24h = open_24h, tk_high_24h = high_24h, tk_low_24h = low_24h, tk_volume_24h = volume,
       tk_price_change_percent = fmul change (Fin 100), tk_timestamp = ts\<rparr>)))))))"

definition bybit_get_ticker :: "'w adapter_env \<Rightarrow> market_type \<Rightarrow> string \<Rightarrow> ('w, pyexc, ticker) io" where
  "bybit_get_ticker env mt symbol =
     bybit_point env mt symbol (\<lambda>data t model_sym info.
     bindw (liftw (bybit_ticker mt model_sym info t)) (\<lambda>row.
     bindw (first_of_keys env data [''_envelope_ts'']) (\<lambda>ts.
     liftw (bindr (bybit_normalize_timestamp ts) (\<lambda>n. Inr (row n))))))"

definition bybit_book_ticker :: "market_type \<Rightarrow> string \<Rightarrow> symbol_info option \<Rightarrow> pyval \<Rightarrow> (int \<Rightarrow> book_ticker) res" where
  "bybit_book_ticker mt model_sym info t =
     bindr (get_float t ''bid1Price'') (\<lambda>bid_price.
     bindr (get_float t ''ask1Price'') (\<lambda>ask_price.
     bindr (bindr (get_float t ''bid1Size'') (\<lambda>n. build_qty_value n (bybit_unit mt) (contract_size_of info) bid_price)) (\<lambda>bid_qty.
     bindr (bindr (get_float t ''ask1Size'') (\<lambda>n. build_qty_value n (bybit_unit mt) (contract_size_of info) ask_price)) (\<lambda>ask_qty.
     Inr (\<lambda>ts. \<lparr>bt_symbol = model_sym, bt_market_type = mt, bt_quote = quote_of info, bt_bid_price = bid_price,
       bt_bid_qty = bid_qty, bt_ask_price = ask_price, bt_ask_qty = ask_qty, bt_timestamp = ts\<rparr>)))))"

definition bybit_get_book_ticker :: "'w adapter_env \<Rightarrow> market_type \<Rightarrow> string \<Rightarrow> ('w, pyexc, book_ticker) io" where
  "bybit_get_book_ticker env mt symbol =
     bybit_point env mt symbol (\<lambda>data t model_sym info.
     bindw (liftw (bybit_book_ticker mt model_sym info t)) (\<lambda>row.
     bindw (first_of_keys env data [''_envelope_ts'']) (\<lambda>ts.
     liftw (bindr (bybit_normalize_timestamp ts) (\<lambda>n. Inr (row n))))))"

section \<open>Order book and trades\<close>

definition bybit_get_orderbook :: "'w adapter_env \<Rightarrow> market_type \<Rightarrow> string \<Rightarrow> int \<Rightarrow> ('w, pyexc, order_book) io" where
  "bybit_get_orderbook env mt symbol depth =
     bindw (liftw (cap_depths bybit_capabilities mt)) (\<lambda>(depths, max_depth).
     bindw (env_request env ''/v5/market/orderbook''
       (bybit_params mt (bybit_get_api_symbol symbol mt) @ [(''limit'', PInt (depth_bucket depths max_depth depth))])) (\<lambda>data.
     bindw (liftw (item_symbol data ''s'')) (\<lambda>s.
     let model_sym = bybit_get_model_symbol s mt in
     bindw (env_info env mt model_sym) (\<lambda>info.
     liftw (
       bindr (bindr (py_item data ''b'') (\<lambda>v. bindr (py_head v depth) levels)) (\<lambda>bids.
       bindr (bindr (py_item data ''a'') (\<lambda>v. bindr (py_head v depth) levels)) (\<lambda>asks.
       bindr (bindr (py_item data ''ts'') bybit_normalize_timestamp) (\<lambda>t.
       Inr \<lparr>ob_symbol = model_sym, ob_market_type = mt, ob_quote = quote_of info, ob_bids = bids, ob_asks = asks,
         ob_qty_unit = bybit_unit_kind mt, ob_timestamp = t\<rparr>))))))))"

text \<open>A trade under the field names of the REST rows or of the stream; the model reads id and side last.\<close>

definition bybit_trade :: "string \<Rightarrow> string \<Rightarrow> string \<Rightarrow> string \<Rightarrow> string \<Rightarrow> market_type \<Rightarrow> string \<Rightarrow> symbol_info option \<Rightarrow> pyval \<Rightarrow> trade res" where
  "bybit_trade price_k id_k size_k side_k time_k mt model_sym info t =
     bindr (item_float t price_k) (\<lambda>price.
     bindr (py_item t id_k) (\<lambda>tid.
     bindr (bindr (item_float t size_k) (\<lambda>n. build_qty_value n (bybit_unit mt) (contract_size_of info) price)) (\<lambda>qty.
     bindr (bindr (py_item t side_k) (as_string ''lower'')) (\<lambda>side_text.
     bindr (bindr (py_item t time_k) bybit_normalize_timestamp) (\<lambda>ts.
     bindr (opt_str tid) (\<lambda>tid.
     bindr (side_of (lower side_text)) (\<lambda>taker.
     Inr \<lparr>td_id = tid, td_symbol = model_sym, td_market_type = mt, td_quote = quote_of info, td_price = price,
       td_qty = qty, td_side = taker, td_timestamp = ts\<rparr>)))))))"

definition bybit_get_trades :: "'w adapter_env \<Rightarrow> market_type \<Rightarrow> string \<Rightarrow> int \<Rightarrow> ('w, pyexc, trade list) io" where
  "bybit_get_trades env mt symbol limit =
     (let api_symbol = bybit_get_api_symbol symbol mt; model_sym = bybit_get_model_symbol api_symbol mt in
      bindw (liftw (bindr (cap_field bybit_capabilities mt ''trades'' ''max_limit'') py_int)) (\<lambda>max_limit.
      bindw (env_request env ''/v5/market/recent-trade'' (bybit_params mt api_symbol @ [(''limit'', PInt (min limit max_limit))])) (\<lambda>data.
      bindw (env_info env mt model_sym) (\<lambda>info.
      bindw (bindw (liftw (py_item data ''list''))
        (parsed_rows (bybit_trade ''price'' ''execId'' ''size'' ''side'' ''time'' mt model_sym info))) (\<lambda>trades.
      retw (slice_last limit (sort_key td_timestamp trades)))))))"

definition bybit_get_agg_trades :: "market_type \<Rightarrow> ('w, pyexc, agg_trade list) io" where
  "bybit_get_agg_trades mt = liftw (Inl (not_supported ''bybit'' ''agg_trades'' mt))"

section \<open>History\<close>

text \<open>One page: the rows under \<open>list\<close>, read in order and sorted by time.\<close>

definition sorted_page :: "('a \<Rightarrow> int) \<Rightarrow> ('w, pyexc, 'a list) io \<Rightarrow> ('w, pyexc, 'a list) io" where
  "sorted_page ts m = bindw m (\<lambda>rows. retw (sort_key ts rows))"

definition bybit_candle :: "market_type \<Rightarrow> string \<Rightarrow> symbol_info option \<Rightarrow> string \<Rightarrow> pyval \<Rightarrow> candle res" where
  "bybit_candle mt model_sym info interval k =
     bindr (index_float k 4) (\<lambda>close.
     bindr (bindr (py_index k 0) bybit_normalize_timestamp) (\<lambda>ts.
     bindr (index_float k 1) (\<lambda>opening.
     bindr (index_float k 2) (\<lambda>high.
     bindr (index_float k 3) (\<lambda>low.
     bindr (bindr (index_float k 5) (\<lambda>n. build_volume_value n (bybit_unit mt) (contract_size_of info) close)) (\<lambda>volume.
     Inr \<lparr>cd_symbol = model_sym, cd_market_type = mt, cd_quote = quote_of info, cd_interval = interval, cd_timestamp = ts,
       cd_open = opening, cd_high = high, cd_low = low, cd_close = close, cd_volume = volume\<rparr>))))))"

definition bybit_candle_page :: "'w adapter_env \<Rightarrow> market_type \<Rightarrow> string \<Rightarrow> symbol_info option \<Rightarrow> string \<Rightarrow> string \<Rightarrow> int option \<Rightarrow>
    int option \<Rightarrow> int \<Rightarrow> ('w, pyexc, candle list) io" where
  "bybit_candle_page env mt api_symbol info interval bybit_interval start_time end_ts l =
     bindw (env_request env ''/v5/market/kline'' (bybit_params mt api_symbol
       @ [(''interval'', PStr bybit_interval), (''limit'', PInt (min l 1000))] @ end_param ''end'' (anchor end_ts start_time))) (\<lambda>data.
     bindw (liftw (py_item data ''list'')) (\<lambda>rows.
     if \<not> truthy rows then retw []
     else sorted_page cd_timestamp
       (parsed_rows (bybit_candle mt (bybit_get_model_symbol api_symbol mt) info interval) rows)))"

definition bybit_get_candles :: "'w adapter_env \<Rightarrow> market_type \<Rightarrow> string \<Rightarrow> string \<Rightarrow> int option \<Rightarrow> int \<Rightarrow> ('w, pyexc, candle list) io" where
  "bybit_get_candles env mt symbol interval start_time limit =
     (let api_symbol = bybit_get_api_symbol symbol mt in
      bindw (env_info env mt (bybit_get_model_symbol api_symbol mt)) (\<lambda>info.
      bindw (liftw (bybit_map_candle_interval interval)) (\<lambda>bybit_interval.
      let page = bybit_candle_page env mt api_symbol info interval bybit_interval start_time in
      if start_time \<noteq> None \<or> 1000 < limit then paginate_backwards page cd_timestamp (\<lambda>r. r) limit 1000
      else page None limit)))"

definition bybit_funding_row :: "market_type \<Rightarrow> string \<Rightarrow> symbol_info option \<Rightarrow> int \<Rightarrow> pyval \<Rightarrow> funding_rate res" where
  "bybit_funding_row mt model_sym info cycle_ms i =
     bindr (bindr (item_float i ''fundingRate'') (\<lambda>r. build_funding_historical ''discrete'' r cycle_ms)) (\<lambda>rate.
     bindr (bindr (py_item i ''fundingRateTimestamp'') bybit_normalize_timestamp) (\<lambda>ts.
     Inr \<lparr>fr_symbol = model_sym, fr_market_type = mt, fr_quote = quote_of info, fr_rate = rate, fr_timestamp = ts\<rparr>))"

definition bybit_get_funding_rate :: "'w adapter_env \<Rightarrow> market_type \<Rightarrow> string \<Rightarrow> int option \<Rightarrow> int \<Rightarrow> ('w, pyexc, funding_rate list) io" where
  "bybit_get_funding_rate env mt symbol start_time limit =
     (if mt = Spot then liftw (Inl (not_supported ''bybit'' ''funding_rate'' mt))
      else
        let api_symbol = bybit_get_api_symbol symbol mt; model_sym = bybit_get_model_symbol api_symbol mt in
        bindw (env_info env mt model_sym) (\<lambda>info.
        bindw (env_cycle env mt model_sym) (\<lambda>cycle.
        let cycle_ms = (case cycle of Some c \<Rightarrow> c | None \<Rightarrow> 8 * 3600000) in
        paginate_backwards (\<lambda>end_ts l.
            bindw (env_request env ''/v5/market/funding/history'' (bybit_params mt api_symbol
              @ [(''limit'', PInt (min l 200))] @ end_param ''endTime'' (anchor end_ts start_time))) (\<lambda>data.
            bindw (liftw (py_get_or data ''list'' (PList []))) (\<lambda>rows.
            sorted_page fr_timestamp (parsed_rows (bybit_funding_row mt model_sym info cycle_ms) rows))))
          fr_timestamp (\<lambda>r. r) limit 200)))"

definition bybit_oi_row :: "market_type \<Rightarrow> string \<Rightarrow> symbol_info option \<Rightarrow> string \<Rightarrow> pyval \<Rightarrow> open_interest res" where
  "bybit_oi_row mt model_sym info period i =
     bindr (bindr (item_float i ''openInterest'')
       (\<lambda>n. build_oi_value n (bybit_unit mt) (contract_size_of info) None None)) (\<lambda>oi.
     bindr (bindr (py_item i ''timestamp'') bybit_normalize_timestamp) (\<lambda>ts.
     Inr \<lparr>oi_symbol = model_sym, oi_market_type = mt, oi_quote = quote_of info, oi_interval = period,
       oi_open_interest = oi, oi_timestamp = ts\<rparr>))"

definition bybit_get_open_interest :: "'w adapter_env \<Rightarrow> market_type \<Rightarrow> string \<Rightarrow> string \<Rightarrow> int option \<Rightarrow> int \<Rightarrow>
    ('w, pyexc, open_interest list) io" where
  "bybit_get_open_interest env mt symbol period start_time limit =
     (if mt = Spot then liftw (Inl (not_supported ''bybit'' ''open_interest'' mt))
      else
        let api_symbol = bybit_get_api_symbol symbol mt; model_sym = bybit_get_model_symbol api_symbol mt in
        bindw (env_info env mt model_sym) (\<lambda>info.
        paginate_backwards (\<lambda>end_ts l.
            bindw (env_request env ''/v5/market/open-interest'' (bybit_params mt api_symbol
              @ [(''intervalTime'', PStr (bybit_map_metric_interval period)), (''limit'', PInt (min l 200))]
              @ end_param ''endTime'' (anchor end_ts start_time))) (\<lambda>data.
            bindw (liftw (py_item data ''list'')) (\<lambda>rows.
            sorted_page oi_timestamp (parsed_rows (bybit_oi_row mt model_sym info period) rows))))
          oi_timestamp (\<lambda>r. r) limit 200))"

text \<open>A ratio row with no accounts on the short side is left out.\<close>

definition bybit_ratio_rows :: "market_type \<Rightarrow> string \<Rightarrow> string \<Rightarrow> pyval \<Rightarrow> long_short_ratio list res" where
  "bybit_ratio_rows mt model_sym period i =
     bindr (item_float i ''sellRatio'') (\<lambda>sell.
     if fle sell (Fin 0) then Inr []
     else
       bindr (bindr (item_float i ''buyRatio'') (\<lambda>b. fdiv b sell)) (\<lambda>ratio.
       bindr (item_float i ''buyRatio'') (\<lambda>buy.
       bindr (bindr (py_item i ''timestamp'') bybit_normalize_timestamp) (\<lambda>ts.
       Inr [\<lparr>ls_symbol = model_sym, ls_market_type = mt, ls_interval = period, ls_ratio = ratio, ls_long_account = Some buy,
         ls_short_account = Some sell, ls_account_scope = AllAccounts, ls_timestamp = ts\<rparr>]))))"

definition bybit_get_long_short_ratio :: "'w adapter_env \<Rightarrow> market_type \<Rightarrow> string \<Rightarrow> string \<Rightarrow> int option \<Rightarrow> int \<Rightarrow>
    ('w, pyexc, long_short_ratio list) io" where
  "bybit_get_long_short_ratio env mt symbol period start_time limit =
     (if mt = Spot then liftw (Inl (not_supported ''bybit'' ''long_short_ratio'' mt))
      else
        let api_symbol = bybit_get_api_symbol symbol mt; model_sym = bybit_get_model_symbol api_symbol mt in
        paginate_backwards (\<lambda>end_ts l.
            bindw (env_request env ''/v5/market/account-ratio'' (bybit_params mt api_symbol
              @ [(''period'', PStr (bybit_map_metric_interval period)), (''limit'', PInt (min l 500))]
              @ end_param ''endTime'' (anchor end_ts start_time))) (\<lambda>data.
            bindw (liftw (py_get_or data ''list'' (PList []))) (\<lambda>rows.
            bindw (parsed_rows (bybit_ratio_rows mt model_sym period) rows) (\<lambda>rs. retw (concat rs)))))
          ls_timestamp (\<lambda>r. r) limit 500)"

section \<open>Mark price\<close>

text \<open>\<open>int(next_ft_raw)\<close> where it reads and is positive.\<close>

definition bybit_next_funding :: "pyval \<Rightarrow> int option res" where
  "bybit_next_funding raw_time =
     (if \<not> truthy raw_time then Inr None
      else case py_int raw_time of
        Inr v \<Rightarrow> Inr (if 0 < v then Some v else None)
      | Inl (TypeError t) \<Rightarrow> Inr None
      | Inl e \<Rightarrow> if is_value_error e then Inr None else Inl e)"

definition bybit_mark_price :: "market_type \<Rightarrow> string \<Rightarrow> symbol_info option \<Rightarrow> int option \<Rightarrow> int \<Rightarrow> pyval \<Rightarrow> mark_price res" where
  "bybit_mark_price mt model_sym info cycle_ms ts t =
     bindr (py_get t ''nextFundingTime'') (\<lambda>next_raw.
     bindr (bybit_next_funding next_raw) (\<lambda>next_ft.
     bindr (py_get t ''fundingRate'') (\<lambda>rate_raw.
     bindr (case (cycle_ms, next_ft) of
         (Some c, Some n) \<Rightarrow>
           if rate_raw = PNone then Inr None
           else bindr (py_float rate_raw) (\<lambda>r. bindr (build_funding_current ''discrete'' r c (max n (ts + 1))) (\<lambda>f. Inr (Some f)))
       | _ \<Rightarrow> Inr None) (\<lambda>funding.
     bindr (item_float t ''markPrice'') (\<lambda>mark.
     bindr (item_float t ''indexPrice'') (\<lambda>index.
     MarkPrice model_sym mt (quote_of info) mark (Some index) funding ts))))))"

definition bybit_get_mark_price :: "'w adapter_env \<Rightarrow> market_type \<Rightarrow> string \<Rightarrow> ('w, pyexc, mark_price) io" where
  "bybit_get_mark_price env mt symbol =
     (if mt = Spot then liftw (Inl (not_supported ''bybit'' ''mark_price'' mt))
      else bybit_point env mt symbol (\<lambda>data t model_sym info.
        bindw (env_cycle env mt model_sym) (\<lambda>cycle_ms.
        bindw (first_of_keys env data [''_envelope_ts'']) (\<lambda>raw_ts.
        bindw (liftw (bybit_normalize_timestamp raw_ts)) (\<lambda>ts.
        liftw (bybit_mark_price mt model_sym info cycle_ms ts t))))))"

section \<open>Instrument metadata\<close>

text \<open>
  The pages of a listing: at most \<open>n\<close> of them, a cursor leads from one to the next and stays among
  the parameters. \<open>rows\<close> reads the rows of one answer.
\<close>

fun cursor_pages :: "nat \<Rightarrow> ((string, pyval) dict \<Rightarrow> ('w, pyexc, pyval) io) \<Rightarrow> (pyval \<Rightarrow> pyval list res) \<Rightarrow>
    (string, pyval) dict \<Rightarrow> pyval \<Rightarrow> pyval list \<Rightarrow> ('w, pyexc, pyval list) io" where
  "cursor_pages 0 get rows params cursor got = retw got"
| "cursor_pages (Suc n) get rows params cursor got =
     (let params = (if truthy cursor then dset params ''cursor'' cursor else params) in
      bindw (get params) (\<lambda>data.
      bindw (liftw (rows data)) (\<lambda>more.
      bindw (liftw (py_get data ''nextPageCursor'')) (\<lambda>cursor.
      if \<not> truthy cursor then retw (got @ more)
      else cursor_pages n get rows params cursor (got @ more)))))"

text \<open>\<open>float(raw)\<close> where it is positive, \<open>None\<close> for what is not there.\<close>

definition positive_or_none :: "pyval \<Rightarrow> pyfloat option res" where
  "positive_or_none raw_value =
     (if raw_value = PNone then Inr None
      else bindr (py_float raw_value) (\<lambda>v. Inr (if flt (Fin 0) v then Some v else None)))"

text \<open>The same where a value that does not read counts as not there.\<close>

definition lenient :: "'a option res \<Rightarrow> 'a option res" where
  "lenient r = (case r of
       Inl (TypeError t) \<Rightarrow> Inr None
     | Inl e \<Rightarrow> if is_value_error e then Inr None else Inl e
     | Inr v \<Rightarrow> Inr v)"

definition bybit_listed :: "market_type \<Rightarrow> pyval \<Rightarrow> bool res" where
  "bybit_listed mt s =
     bindr (py_item s ''status'') (\<lambda>status.
     if status \<noteq> PStr ''Trading'' then Inr False
     else if mt = Spot then Inr True
     else bindr (py_get s ''contractType'') (\<lambda>c.
       Inr (c = PStr (if mt = Linear then ''LinearPerpetual'' else ''InversePerpetual''))))"

definition bybit_cycle :: "market_type \<Rightarrow> pyval \<Rightarrow> int option res" where
  "bybit_cycle mt s =
     (if mt = Spot then Inr None
      else bindr (py_get s ''fundingInterval'') (\<lambda>raw_minutes.
        if raw_minutes = PNone then Inr None
        else lenient (bindr (py_int raw_minutes) (\<lambda>n. Inr (Some (n * 60000))))))"

definition bybit_info_row :: "market_type \<Rightarrow> pyval \<Rightarrow> (symbol_info \<times> int option) option res" where
  "bybit_info_row mt s =
     bindr (bybit_listed mt s) (\<lambda>listed.
     if \<not> listed then Inr None
     else
       bindr (bindr (py_get s ''lotSizeFilter'') (\<lambda>v. Inr (py_or v (PDict [])))) (\<lambda>lot.
       let step_field = (if mt = Spot then ''basePrecision'' else ''qtyStep'');
           notional_field = (if mt = Spot then ''minOrderAmt'' else ''minNotionalValue'') in
       bindr (py_get lot ''minOrderQty'') (\<lambda>raw_min.
       bindr (py_get lot ''maxOrderQty'') (\<lambda>raw_max.
       bindr (py_get lot notional_field) (\<lambda>raw_notional.
       bindr (positive_or_none raw_min) (\<lambda>min_qty.
       bindr (positive_or_none raw_max) (\<lambda>max_qty.
       bindr (lenient (positive_or_none raw_notional)) (\<lambda>min_notional.
       bindr (bybit_cycle mt s) (\<lambda>cycle_ms.
       bindr (if mt = Spot then Inr None else bindr (build_funding_convention ''discrete'') (\<lambda>f. Inr (Some f))) (\<lambda>funding.
       bindr (py_item s ''symbol'') (\<lambda>native.
       bindr (py_item s ''baseCoin'') (\<lambda>base.
       bindr (py_item s ''quoteCoin'') (\<lambda>quote.
       bindr (py_get_or s ''priceFilter'' (PDict [])) (\<lambda>price_filter.
       bindr (bindr (py_get_or price_filter ''tickSize'' (PStr ''0.01'')) step_decimals) (\<lambda>price_prec.
       bindr (bindr (py_get_or lot step_field (PStr ''0.001'')) step_decimals) (\<lambda>quantity_prec.
       bindr (py_get price_filter ''tickSize'') (\<lambda>tick.
       bindr (py_get lot step_field) (\<lambda>step.
       bindr (field_str native) (\<lambda>native.
       bindr (field_str base) (\<lambda>base.
       bindr (field_str quote) (\<lambda>quote.
       Inr (Some (\<lparr>si_symbol = native, si_native_symbol = native, si_base_asset = base, si_quote_asset = quote,
         si_price_precision = price_prec, si_quantity_precision = quantity_prec, si_min_qty = min_qty,
         si_max_qty = max_qty, si_min_notional = min_notional, si_qty_unit = bybit_unit_kind mt,
         si_contract_size = (if mt = Inverse then Some (Fin 1) else None), si_funding = funding,
         si_tick_size = build_step [tick], si_qty_step = build_step [step]\<rparr>, cycle_ms)))))))))))))))))))))))"

definition bybit_instruments :: "'w adapter_env \<Rightarrow> market_type \<Rightarrow> ('w, pyexc, pyval list) io" where
  "bybit_instruments env mt =
     cursor_pages 50 (env_request env ''/v5/market/instruments-info'') (\<lambda>data. bindr (py_item data ''list'') py_iter)
       ([(''category'', PStr (bybit_get_category mt)), (''limit'', PInt 1000)]
         @ (case mt of Spot \<Rightarrow> [] | Linear \<Rightarrow> [(''contractType'', PStr ''LinearPerpetual'')]
            | Inverse \<Rightarrow> [(''contractType'', PStr ''InversePerpetual'')])) PNone []"

text \<open>The rows in their order, and the funding intervals the adapter keeps by symbol.\<close>

definition kept_infos :: "(symbol_info \<times> int option) option list \<Rightarrow> symbol_info list" where
  "kept_infos rows = map fst (List.map_filter (\<lambda>r. r) rows)"

definition kept_cycles :: "(symbol_info \<times> int option) option list \<Rightarrow> (string, int) dict \<Rightarrow> (string, int) dict" where
  "kept_cycles rows cycles =
     foldl (\<lambda>c (info, ms). case ms of None \<Rightarrow> c | Some n \<Rightarrow> dset c (si_symbol info) n) cycles (List.map_filter (\<lambda>r. r) rows)"

definition bybit_fetch_exchange_info :: "'w adapter_env \<Rightarrow> market_type \<Rightarrow> (string, int) dict \<Rightarrow>
    ('w, pyexc, symbol_info list \<times> (string, int) dict) io" where
  "bybit_fetch_exchange_info env mt cycles =
     bindw (bybit_instruments env mt) (\<lambda>instruments.
     liftw (bindr (mapr (bybit_info_row mt) instruments) (\<lambda>rows. Inr (kept_infos rows, kept_cycles rows cycles))))"

definition bybit_get_symbol_info :: "(string, symbol_info) dict \<Rightarrow> market_type \<Rightarrow> string \<Rightarrow> symbol_info res" where
  "bybit_get_symbol_info cache mt symbol =
     (case dget cache (bybit_get_model_symbol (bybit_get_api_symbol symbol mt) mt) of
        None \<Rightarrow> Inl (ValueError (''Symbol '' @ symbol @ '' not found on Bybit '' @ market_value mt))
      | Some info \<Rightarrow> Inr info)"

section \<open>Margin tiers\<close>

definition bybit_tier :: "(pyval \<Rightarrow> pyfloat res) \<Rightarrow> pyval \<Rightarrow> margin_tier res" where
  "bybit_tier coerce row =
     bindr (py_get row ''riskLimitValue'') (\<lambda>up_to.
     bindr (py_get row ''maxLeverage'') (\<lambda>leverage.
     bindr (py_get row ''maintenanceMargin'') (\<lambda>mmr.
     bindr (py_get row ''initialMargin'') (\<lambda>imr.
     bindr (py_get row ''mmDeduction'') (\<lambda>ded. build_margin_tier coerce up_to leverage mmr imr ded)))))"

definition bybit_tiers :: "(pyval \<Rightarrow> pyfloat res) \<Rightarrow> 'w adapter_env \<Rightarrow> market_type \<Rightarrow> string \<Rightarrow> ('w, pyexc, margin_tier list) io" where
  "bybit_tiers coerce env mt api_symbol =
     bindw (cursor_pages 10 (env_request env ''/v5/market/risk-limit'')
         (\<lambda>data. bindr (py_get data ''list'') (\<lambda>v. py_iter (py_or v (PList [])))) (bybit_params mt api_symbol) PNone []) (\<lambda>rows.
     liftw (mapr (bybit_tier coerce) rows))"

text \<open>\<open>cached\<close> is the adapter's \<open>_margin_table\<close>: the table under a key, by the fetch when it is due.\<close>

definition bybit_get_margin_tiers :: "(pyval \<Rightarrow> pyfloat res) \<Rightarrow> (string \<Rightarrow> ('w, pyexc, margin_tier list) io \<Rightarrow> ('w, pyexc, margin_tier list \<times> int) io) \<Rightarrow>
    'w adapter_env \<Rightarrow> (string, symbol_info) dict \<Rightarrow> market_type \<Rightarrow> string \<Rightarrow> ('w, pyexc, margin_tiers) io" where
  "bybit_get_margin_tiers coerce cached env infos mt symbol =
     (if mt = Spot then liftw (Inl (NotImplementedError (''Margin tiers not supported on bybit '' @ market_value mt)))
      else
        let api_symbol = bybit_get_api_symbol symbol mt in
        bindw (liftw (bybit_get_symbol_info infos mt symbol)) (\<lambda>info.
        bindw (cached (market_value mt @ '' '' @ api_symbol) (bybit_tiers coerce env mt api_symbol)) (\<lambda>(tiers, read_at).
        retw \<lparr>mts_symbol = si_symbol info, mts_market_type = mt, mts_quote = si_quote_asset info,
          mts_up_to_unit = (if mt = Linear then TierQuote else TierBase), mts_tiers = tiers, mts_timestamp = read_at\<rparr>)))"

end
