(* ===== verification/FloatOrder.thy ===== *)
theory FloatOrder
  imports PyFloat
begin

text \<open>
  Floats in a linear order, for the sorting of price levels: the order of the numbers, with the
  infinities at its ends and \<open>NaN\<close> above them. On everything but \<open>NaN\<close> it is Python's \<open><\<close>.
\<close>

fun float_rank :: "pyfloat \<Rightarrow> nat \<times> rat" where
  "float_rank NegInf = (0, 0)"
| "float_rank (Fin q) = (1, q)"
| "float_rank PosInf = (2, 0)"
| "float_rank NaN = (3, 0)"

lemma float_rank_inject: "float_rank x = float_rank y \<longleftrightarrow> x = y"
  by (cases x; cases y) simp_all

instantiation pyfloat :: linorder
begin

definition less_eq_pyfloat :: "pyfloat \<Rightarrow> pyfloat \<Rightarrow> bool" where
  "less_eq_pyfloat x y \<longleftrightarrow> fst (float_rank x) < fst (float_rank y)
     \<or> fst (float_rank x) = fst (float_rank y) \<and> snd (float_rank x) \<le> snd (float_rank y)"

definition less_pyfloat :: "pyfloat \<Rightarrow> pyfloat \<Rightarrow> bool" where
  "less_pyfloat x y \<longleftrightarrow> x \<le> y \<and> \<not> y \<le> (x :: pyfloat)"

instance
proof
  fix x y z :: pyfloat
  show "x < y \<longleftrightarrow> x \<le> y \<and> \<not> y \<le> x" by (simp add: less_pyfloat_def)
  show "x \<le> x" by (simp add: less_eq_pyfloat_def)
  show "x \<le> z" if "x \<le> y" "y \<le> z" using that by (auto simp: less_eq_pyfloat_def)
  show "x = y" if "x \<le> y" "y \<le> x"
    using that by (auto simp: less_eq_pyfloat_def float_rank_inject [symmetric] prod_eq_iff)
  show "x \<le> y \<or> y \<le> x" by (auto simp: less_eq_pyfloat_def)
qed

end

lemma Fin_le [simp]: "Fin a \<le> Fin b \<longleftrightarrow> a \<le> b"
  by (simp add: less_eq_pyfloat_def)

lemma Fin_less [simp]: "Fin a < Fin b \<longleftrightarrow> a < b"
  by (auto simp: less_pyfloat_def)

lemma flt_less: "x \<noteq> NaN \<Longrightarrow> y \<noteq> NaN \<Longrightarrow> flt x y \<longleftrightarrow> x < y"
  by (cases x; cases y) (auto simp: less_pyfloat_def less_eq_pyfloat_def)

lemma fneg_inject [simp]: "fneg x = fneg y \<longleftrightarrow> x = y"
  by (cases x; cases y) simp_all

lemma fneg_less: "x \<noteq> NaN \<Longrightarrow> y \<noteq> NaN \<Longrightarrow> fneg x < fneg y \<longleftrightarrow> y < x"
  by (cases x; cases y) (auto simp: less_pyfloat_def less_eq_pyfloat_def)

end
