(* ===== verification/LocalBook.thy ===== *)
theory LocalBook
  imports Adapters FloatOrder
begin

text \<open>
  The local order books that streams keep from a snapshot and the changes after it, in several
  adapters under \<^verbatim>\<open>exchange_router/exchanges\<close>: a dictionary from price to quantity per side, where a
  change of quantity zero takes a level out, and the sorted view of it that is handed on. The
  reference is the venue's book, a quantity for every price.
\<close>

section \<open>One side\<close>

type_synonym book_side = "(pyfloat, pyfloat) dict"

definition set_level :: "book_side \<Rightarrow> pyfloat \<times> pyfloat \<Rightarrow> book_side" where
  "set_level side l = (case l of (p, q) \<Rightarrow> if feq q (Fin 0) then dpop side p else dset side p q)"

text \<open>\<open>for p_str, q_str in rows: ...\<close>\<close>

fun apply_rows :: "book_side \<Rightarrow> pyval list \<Rightarrow> book_side res" where
  "apply_rows side [] = Inr side"
| "apply_rows side (r # rs) =
     bindr (unpack2 r) (\<lambda>(p, q). bindr (py_float p) (\<lambda>p. bindr (py_float q) (\<lambda>q. apply_rows (set_level side (p, q)) rs)))"

definition apply_levels :: "book_side \<Rightarrow> pyval \<Rightarrow> book_side res" where
  "apply_levels side v = bindr (py_iter v) (apply_rows side)"

text \<open>\<open>sorted(side.items(), key=...)[:depth]\<close>, as lists of price and quantity.\<close>

definition as_levels :: "book_side \<Rightarrow> pyfloat list list" where
  "as_levels side = map (\<lambda>(p, q). [p, q]) side"

definition top_bids :: "int \<Rightarrow> book_side \<Rightarrow> pyfloat list list" where
  "top_bids depth bids = as_levels (head_slice depth (sort_key (\<lambda>(p, q). fneg p) bids))"

definition top_asks :: "int \<Rightarrow> book_side \<Rightarrow> pyfloat list list" where
  "top_asks depth asks = as_levels (head_slice depth (sort_key (\<lambda>(p, q). p) asks))"

text \<open>\<open>max(side)\<close> and \<open>min(side)\<close> over the prices, of a side that is not empty.\<close>

fun best :: "(pyfloat \<Rightarrow> pyfloat \<Rightarrow> bool) \<Rightarrow> pyfloat list \<Rightarrow> pyfloat" where
  "best better (p # ps) = foldl (\<lambda>m x. if better x m then x else m) p ps"
| "best better [] = NaN"

definition max_price :: "book_side \<Rightarrow> pyfloat" where "max_price side = best (\<lambda>x m. flt m x) (dkeys side)"
definition min_price :: "book_side \<Rightarrow> pyfloat" where "min_price side = best (\<lambda>x m. flt x m) (dkeys side)"

text \<open>\<open>a != b\<close>, for the sequence numbers of a feed\<close>

fun number_of :: "pyval \<Rightarrow> pyfloat option" where
  "number_of (PInt n) = Some (Fin (of_int n))"
| "number_of (PBool b) = Some (Fin (if b then 1 else 0))"
| "number_of (PFloat x) = Some x"
| "number_of v = None"

definition py_differ :: "pyval \<Rightarrow> pyval \<Rightarrow> bool" where
  "py_differ a b = (case (number_of a, number_of b) of (Some x, Some y) \<Rightarrow> \<not> feq x y | _ \<Rightarrow> a \<noteq> b)"

section \<open>The venue's side\<close>

text \<open>A quantity for every price, zero where there is no level.\<close>

type_synonym venue_side = "pyfloat \<Rightarrow> pyfloat"

definition venue_empty :: venue_side where "venue_empty = (\<lambda>p. Fin 0)"

definition venue_apply :: "venue_side \<Rightarrow> (pyfloat \<times> pyfloat) list \<Rightarrow> venue_side" where
  "venue_apply b ls = foldl (\<lambda>b (p, q). b(p := q)) b ls"

definition qty_at :: "book_side \<Rightarrow> venue_side" where
  "qty_at side p = (case dget side p of None \<Rightarrow> Fin 0 | Some q \<Rightarrow> q)"

text \<open>A local side is sound: no price twice, no level of quantity zero, prices and quantities finite.\<close>

definition side_ok :: "book_side \<Rightarrow> bool" where
  "side_ok side \<longleftrightarrow> dict_ok side \<and> list_all (\<lambda>(p, q). is_finite p \<and> is_finite q \<and> q \<noteq> Fin 0) side"

definition level_ok :: "pyfloat \<times> pyfloat \<Rightarrow> bool" where
  "level_ok l \<longleftrightarrow> is_finite (fst l) \<and> is_finite (snd l)"

lemma dict_entries: "dict_ok d \<Longrightarrow> (k, v) \<in> set d \<longleftrightarrow> dget d k = Some v"
  by (auto simp: dict_ok_def dkeys_def dget_def)

lemma side_okD: "side_ok s \<Longrightarrow> dget s p = Some q \<Longrightarrow> is_finite p \<and> is_finite q \<and> q \<noteq> Fin 0"
  by (force simp: side_ok_def list_all_iff dict_entries [symmetric])

lemma side_okI:
  assumes "dict_ok s" "\<And>p q. dget s p = Some q \<Longrightarrow> is_finite p \<and> is_finite q \<and> q \<noteq> Fin 0"
  shows "side_ok s"
  using assms(1) by (auto simp: side_ok_def list_all_iff dict_entries dest: assms(2))

lemma side_ok_Nil [simp]: "side_ok []"
  by (simp add: side_ok_def)

lemma qty_at_Nil [simp]: "qty_at [] = venue_empty"
  by (simp add: qty_at_def venue_empty_def fun_eq_iff)

lemma feq_finite: "is_finite q \<Longrightarrow> feq q (Fin 0) \<longleftrightarrow> q = Fin 0"
  by (cases q) (auto simp: is_finite_def)

lemma set_level_ok:
  assumes "side_ok s" "level_ok l"
  shows "side_ok (set_level s l)"
proof (rule side_okI)
  show "dict_ok (set_level s l)"
    using assms(1) by (simp add: side_ok_def set_level_def split: prod.split)
  show "is_finite p \<and> is_finite q \<and> q \<noteq> Fin 0" if "dget (set_level s l) p = Some q" for p q
    using that assms(2) side_okD [OF assms(1)]
    by (auto simp: set_level_def level_ok_def feq_finite split: prod.splits if_splits)
qed

lemma qty_at_set_level:
  assumes "level_ok (p, q)"
  shows "qty_at (set_level s (p, q)) = (qty_at s)(p := q)"
  using assms by (auto simp: set_level_def qty_at_def level_ok_def feq_finite fun_eq_iff)

text \<open>Rows that read as levels, and what applying them does.\<close>

definition row_level :: "pyval \<Rightarrow> (pyfloat \<times> pyfloat) res" where
  "row_level r = bindr (unpack2 r) (\<lambda>(p, q). bindr (py_float p) (\<lambda>p. bindr (py_float q) (\<lambda>q. Inr (p, q))))"

lemma apply_rows_levels:
  assumes "mapr row_level rs = Inr ls"
  shows "apply_rows s rs = Inr (foldl set_level s ls)"
  using assms
  by (induction rs arbitrary: s ls) (auto simp: bindr_Inr_iff row_level_def split: prod.splits)

lemma foldl_set_level:
  assumes "side_ok s" "list_all level_ok ls"
  shows "side_ok (foldl set_level s ls) \<and> qty_at (foldl set_level s ls) = venue_apply (qty_at s) ls"
  using assms
proof (induction ls arbitrary: s)
  case (Cons l ls)
  obtain p q where l: "l = (p, q)" by force
  have "side_ok (set_level s l)" using Cons.prems by (simp add: set_level_ok)
  then show ?case
    using Cons.IH [of "set_level s l"] Cons.prems
    by (simp add: venue_apply_def l qty_at_set_level)
qed (simp add: venue_apply_def)

section \<open>The view\<close>

text \<open>
  \<open>view\<close> is the top of a venue's side: at most \<open>depth\<close> levels, best price first, each with the
  venue's quantity, and every level left out is behind all of them and the depth is used up.
\<close>

definition shows_side :: "(pyfloat \<Rightarrow> pyfloat \<Rightarrow> bool) \<Rightarrow> int \<Rightarrow> venue_side \<Rightarrow> pyfloat list list \<Rightarrow> bool" where
  "shows_side ahead depth b view \<longleftrightarrow>
     (\<exists>ls. view = as_levels ls \<and> sorted_wrt ahead (map fst ls)
       \<and> (\<forall>(p, q)\<in>set ls. q \<noteq> Fin 0 \<and> b p = q)
       \<and> int (length ls) \<le> depth
       \<and> (\<forall>p. b p \<noteq> Fin 0 \<longrightarrow> p \<in> fst ` set ls \<or> int (length ls) = depth \<and> (\<forall>x\<in>fst ` set ls. ahead x p)))"

lemma sorted_key_strict:
  assumes "distinct (map f xs)"
  shows "sorted_wrt (\<lambda>x y. f x < (f y :: 'a :: linorder)) (sort_key f xs)"
proof -
  have "distinct (map f (sort_key f xs))" using assms by (metis distinct_map distinct_sort set_sort)
  then have "sorted_wrt (<) (map f (sort_key f xs))"
    using sorted_sort_key [of f xs] by (simp add: strict_sorted_iff)
  then show ?thesis by (simp add: sorted_wrt_map)
qed

lemma shows_sorted:
  assumes "side_ok side" "0 \<le> depth"
    and order: "\<And>x y. x \<in> set side \<Longrightarrow> y \<in> set side \<Longrightarrow> f x < (f y :: pyfloat) \<Longrightarrow> ahead (fst x) (fst y)"
    and inj: "\<And>x y. x \<in> set side \<Longrightarrow> y \<in> set side \<Longrightarrow> f x = f y \<Longrightarrow> fst x = fst y"
  shows "shows_side ahead depth (qty_at side) (as_levels (head_slice depth (sort_key f side)))"
proof -
  let ?all = "sort_key f side" and ?n = "nat depth"
  let ?ls = "take ?n ?all"
  have keys: "distinct (map fst side)" using assms(1) by (simp add: side_ok_def dict_ok_def dkeys_def)
  have "inj_on f (set side)"
  proof (rule inj_onI)
    fix x y assume "x \<in> set side" "y \<in> set side" "f x = f y"
    then show "x = y" using keys inj [of x y] by (metis distinct_map inj_onD)
  qed
  then have "distinct (map f side)" using keys by (simp add: distinct_map)
  then have strict: "sorted_wrt (\<lambda>x y. f x < f y) ?all" by (rule sorted_key_strict)
  have ahead: "sorted_wrt (\<lambda>x y. ahead (fst x) (fst y)) ?all"
    by (rule sorted_wrt_mono_rel [OF _ strict]) (use order in auto)
  have entry: "q \<noteq> Fin 0 \<and> qty_at side p = q" if "(p, q) \<in> set side" for p q
  proof -
    have "dget side p = Some q" using that assms(1) by (simp add: side_ok_def dict_entries)
    then show ?thesis using side_okD [OF assms(1)] by (simp add: qty_at_def)
  qed
  have behind: "p \<in> fst ` set ?ls \<or> int (length ?ls) = depth \<and> (\<forall>x\<in>fst ` set ?ls. ahead x p)"
    if "qty_at side p \<noteq> Fin 0" for p
  proof -
    obtain q where "dget side p = Some q" using \<open>qty_at side p \<noteq> Fin 0\<close> by (auto simp: qty_at_def split: option.splits)
    then have "(p, q) \<in> set ?all" using assms(1) by (simp add: side_ok_def dict_entries)
    then have "(p, q) \<in> set ?ls \<or> (p, q) \<in> set (drop ?n ?all)" by (metis Un_iff append_take_drop_id set_append)
    moreover have "int (length ?ls) = depth \<and> (\<forall>x\<in>fst ` set ?ls. ahead x p)" if late: "(p, q) \<in> set (drop ?n ?all)"
    proof -
      have "?n < length ?all" using late by (metis drop_all empty_iff empty_set not_less)
      moreover have "sorted_wrt (\<lambda>x y. ahead (fst x) (fst y)) (?ls @ drop ?n ?all)" using ahead by simp
      ultimately have "int (length ?ls) = depth" "\<forall>x\<in>set ?ls. \<forall>y\<in>set (drop ?n ?all). ahead (fst x) (fst y)"
        using assms(2) by (simp_all add: sorted_wrt_append del: append_take_drop_id)
      then show ?thesis using late by (metis (no_types, lifting) fst_conv imageE)
    qed
    ultimately show ?thesis by force
  qed
  have "sorted_wrt ahead (map fst ?ls)" using sorted_wrt_take [OF ahead] by (simp add: sorted_wrt_map)
  moreover have "\<forall>(p, q)\<in>set ?ls. q \<noteq> Fin 0 \<and> qty_at side p = q"
    by (auto dest!: in_set_takeD dest: entry)
  ultimately show ?thesis
    unfolding shows_side_def using assms(2) behind
    by (intro exI [of _ ?ls]) (auto simp: head_slice_def)
qed

lemma side_not_NaN:
  assumes "side_ok side" "(p, q) \<in> set side"
  shows "p \<noteq> NaN"
proof -
  have "is_finite p" using assms by (auto simp: side_ok_def list_all_iff)
  then show ?thesis by (auto simp: is_finite_def)
qed

lemma top_bids_shows: "side_ok bids \<Longrightarrow> 0 \<le> depth \<Longrightarrow> shows_side (\<lambda>x y. flt y x) depth (qty_at bids) (top_bids depth bids)"
  unfolding top_bids_def
  by (rule shows_sorted) (auto simp: flt_less side_not_NaN fneg_less split: prod.splits)

lemma top_asks_shows: "side_ok asks \<Longrightarrow> 0 \<le> depth \<Longrightarrow> shows_side flt depth (qty_at asks) (top_asks depth asks)"
  unfolding top_asks_def
  by (rule shows_sorted) (auto simp: flt_less side_not_NaN split: prod.splits)

end
