(* ===== verification/BybitStreams.thy ===== *)
theory BybitStreams
  imports Bybit LocalBook
begin

text \<open>
  The streams of the Bybit adapter, \<^verbatim>\<open>exchange_router/exchanges/bybit/adapter.py\<close>. Tickers are
  merged from changes; order books and book tickers are kept from a snapshot and the changes after
  it, whose numbers \<open>u\<close> have to be consecutive: the stream returns at a gap, so that its clients
  subscribe again.
\<close>

section \<open>Start\<close>

text \<open>One hub per market; a frame is the time of the clock in seconds, and the message.\<close>

definition bybit_stream :: "'w adapter_env \<Rightarrow> market_type \<Rightarrow> string \<Rightarrow> string \<Rightarrow>
    (string \<Rightarrow> symbol_info option \<Rightarrow> 'b) \<Rightarrow> ('w, pyexc, market_type \<times> string \<times> 'b) io" where
  "bybit_stream env mt symbol channel body =
     (let api_symbol = bybit_get_api_symbol symbol mt in
      bindw (env_info env mt (bybit_get_model_symbol api_symbol mt)) (\<lambda>info.
      retw (mt, channel @ api_symbol, body api_symbol info)))"

text \<open>\<open>get_model_symbol(d.get(k, api_symbol), market_type)\<close>\<close>

definition bybit_named :: "pyval \<Rightarrow> string \<Rightarrow> string \<Rightarrow> market_type \<Rightarrow> string res" where
  "bybit_named d k api_symbol mt =
     bindr (py_get_or d k (PStr api_symbol)) (\<lambda>v. bindr (as_string ''upper'' v) (\<lambda>s. Inr (bybit_get_model_symbol s mt)))"

section \<open>Tickers\<close>

text \<open>
  \<open>dict.update(d)\<close> for the JSON of a frame: an object, or a sequence of pairs, which is taken up to
  the first that is none. A key that is no text is put as well, but nothing reads it.
\<close>

definition no_pair :: "'a res" where
  "no_pair = Inl (ValueError ''dictionary update sequence element has the wrong length; 2 is required'')"

definition pair_of :: "pyval \<Rightarrow> (pyval \<times> pyval) res" where
  "pair_of v = bindr (py_iter v) (\<lambda>xs. case xs of [k, x] \<Rightarrow> Inr (k, x) | _ \<Rightarrow> no_pair)"

fun put_key :: "(string, pyval) dict \<Rightarrow> pyval \<times> pyval \<Rightarrow> (string, pyval) dict res" where
  "put_key d (PStr k, v) = Inr (dset d k v)"
| "put_key d (PList xs, v) = Inl (TypeError (''unhashable type: '' @ quoted ''list''))"
| "put_key d (PDict e, v) = Inl (TypeError (''unhashable type: '' @ quoted ''dict''))"
| "put_key d (k, v) = Inr d"

fun put_pairs :: "(string, pyval) dict \<Rightarrow> pyval list \<Rightarrow> pyexc option \<times> (string, pyval) dict" where
  "put_pairs d [] = (None, d)"
| "put_pairs d (x # xs) = (case bindr (pair_of x) (put_key d) of
       Inl e \<Rightarrow> (Some e, d)
     | Inr d \<Rightarrow> put_pairs d xs)"

definition py_update :: "(string, pyval) dict \<Rightarrow> pyval \<Rightarrow> pyexc option \<times> (string, pyval) dict" where
  "py_update d v = (case v of
       PDict e \<Rightarrow> (None, dict_of e d)
     | _ \<Rightarrow> (case py_iter v of Inl e \<Rightarrow> (Some e, d) | Inr xs \<Rightarrow> put_pairs d xs))"

definition state_float :: "(string, pyval) dict \<Rightarrow> string \<Rightarrow> pyfloat res" where
  "state_float st k = py_float (py_or (case dget st k of None \<Rightarrow> PNone | Some v \<Rightarrow> v) (PInt 0))"

definition bybit_ticker_view :: "market_type \<Rightarrow> string \<Rightarrow> symbol_info option \<Rightarrow> (string, pyval) dict \<Rightarrow> pyfloat \<Rightarrow> pyval \<Rightarrow> ticker res" where
  "bybit_ticker_view mt api_symbol info st now msg =
     bindr (state_float st ''lastPrice'') (\<lambda>close_price.
     bindr (bybit_named (PDict st) ''symbol'' api_symbol mt) (\<lambda>model_sym.
     bindr (state_float st ''prevPrice24h'') (\<lambda>open_24h.
     bindr (state_float st ''highPrice24h'') (\<lambda>high_24h.
     bindr (state_float st ''lowPrice24h'') (\<lambda>low_24h.
     bindr (bindr (state_float st ''volume24h'')
       (\<lambda>n. build_volume_value n (bybit_unit mt) (contract_size_of info) close_price)) (\<lambda>volume.
     bindr (state_float st ''price24hPcnt'') (\<lambda>change.
     bindr (bindr (py_get_or msg ''ts'' (PFloat now)) bybit_normalize_timestamp) (\<lambda>ts.
     Inr \<lparr>tk_symbol = model_sym, tk_market_type = mt, tk_quote = quote_of info, tk_price = close_price,
       tk_open_24h = open_24h, tk_high_24h = high_24h, tk_low_24h = low_24h, tk_volume_24h = volume,
       tk_price_change_percent = fmul change (Fin 100), tk_timestamp = ts\<rparr>))))))))"

text \<open>
  The merged fields and whether a snapshot has come: a snapshot that is no object leaves the fields as
  they were, an update has changed them up to what it raises on.
\<close>

definition bybit_ticker_merge :: "(string, pyval) dict \<times> bool \<Rightarrow> pyval \<Rightarrow> pyexc option \<times> (string, pyval) dict \<times> bool" where
  "bybit_ticker_merge st msg =
     (case bindr (py_get msg ''data'') (\<lambda>d. bindr (py_get msg ''type'') (\<lambda>kind. Inr (py_or d (PDict []), kind))) of
        Inl e \<Rightarrow> (Some e, st)
      | Inr (d, kind) \<Rightarrow>
          if kind = PStr ''snapshot'' then (case py_update [] d of
              (None, merged) \<Rightarrow> (None, merged, True)
            | (Some e, merged) \<Rightarrow> (Some e, st))
          else (case py_update (fst st) d of (e, merged) \<Rightarrow> (e, merged, snd st)))"

definition bybit_ticker_step :: "market_type \<Rightarrow> string \<Rightarrow> symbol_info option \<Rightarrow> (string, pyval) dict \<times> bool \<Rightarrow> pyfloat \<times> pyval \<Rightarrow>
    ((string, pyval) dict \<times> bool) \<times> ticker list \<times> frame_end" where
  "bybit_ticker_step mt api_symbol info st frame = (case frame of (now, msg) \<Rightarrow>
     (case bybit_ticker_merge st msg of
        (Some e, st) \<Rightarrow> (st, [], skipping (Some e))
      | (None, st) \<Rightarrow>
          if \<not> snd st then (st, [], Next)
          else (case bybit_ticker_view mt api_symbol info (fst st) now msg of
              Inl e \<Rightarrow> (st, [], skipping (Some e))
            | Inr t \<Rightarrow> (st, [t], Next))))"

definition bybit_stream_ticker where
  "bybit_stream_ticker env mt symbol = bybit_stream env mt symbol ''tickers.'' (bybit_ticker_step mt)"

section \<open>Books\<close>

record bybit_book =
  bb_bids :: book_side
  bb_asks :: book_side
  bb_last_u :: pyval
  bb_bootstrapped :: bool

definition bybit_book_init :: bybit_book where
  "bybit_book_init = \<lparr>bb_bids = [], bb_asks = [], bb_last_u = PNone, bb_bootstrapped = False\<rparr>"

text \<open>\<open>u != last_u + 1\<close>\<close>

fun py_succ :: "pyval \<Rightarrow> pyval res" where
  "py_succ (PInt n) = Inr (PInt (n + 1))"
| "py_succ (PBool b) = Inr (PInt (if b then 2 else 1))"
| "py_succ (PFloat x) = Inr (PFloat (fadd x (Fin 1)))"
| "py_succ v = Inl (TypeError (''unsupported operand type(s) for +: '' @ quoted (type_name v) @ '' and '' @ quoted ''int''))"

text \<open>
  One message taken into the book: \<open>None\<close> is the gap, otherwise the book, the data of the message,
  and whether there is something to show.
\<close>

definition bybit_levels_in :: "bybit_book \<Rightarrow> pyval \<Rightarrow> pyval \<Rightarrow> (bybit_book \<times> pyval \<times> bool) option res" where
  "bybit_levels_in st u d =
     (let st = st\<lparr>bb_last_u := u\<rparr> in
      if \<not> bb_bootstrapped st then Inr (Some (st, d, False))
      else
        bindr (bindr (py_get_or d ''b'' (PList [])) (apply_levels (bb_bids st))) (\<lambda>bids.
        bindr (bindr (py_get_or d ''a'' (PList [])) (apply_levels (bb_asks st))) (\<lambda>asks.
        Inr (Some (st\<lparr>bb_bids := bids, bb_asks := asks\<rparr>, d, True)))))"

definition bybit_take :: "bybit_book \<Rightarrow> pyval \<Rightarrow> (bybit_book \<times> pyval \<times> bool) option res" where
  "bybit_take st msg =
     bindr (bindr (py_get msg ''data'') (\<lambda>d. Inr (py_or d (PDict [])))) (\<lambda>d.
     bindr (py_get d ''u'') (\<lambda>u.
     bindr (py_get msg ''type'') (\<lambda>kind.
     if kind = PStr ''snapshot'' then
       bybit_levels_in (st\<lparr>bb_bids := [], bb_asks := [], bb_bootstrapped := True\<rparr>) u d
     else if bb_last_u st \<noteq> PNone \<and> u \<noteq> PNone then
       bindr (py_succ (bb_last_u st)) (\<lambda>n. if py_differ u n then Inr None else bybit_levels_in st u d)
     else bybit_levels_in st u d)))"

definition bybit_book_step :: "(bybit_book \<Rightarrow> pyval \<Rightarrow> pyval \<Rightarrow> 'm list res) \<Rightarrow> bybit_book \<Rightarrow> pyfloat \<times> pyval \<Rightarrow>
    bybit_book \<times> 'm list \<times> frame_end" where
  "bybit_book_step view st frame =
     (case bybit_take st (snd frame) of
        Inl e \<Rightarrow> (st, [], stopping (Some e))
      | Inr None \<Rightarrow> (st, [], Stop)
      | Inr (Some (st, d, show_it)) \<Rightarrow>
          if \<not> show_it then (st, [], Next)
          else (case view st d (snd frame) of
              Inl e \<Rightarrow> (st, [], stopping (Some e))
            | Inr ms \<Rightarrow> (st, ms, Next)))"

definition bybit_orderbook_view :: "market_type \<Rightarrow> int \<Rightarrow> string \<Rightarrow> symbol_info option \<Rightarrow> bybit_book \<Rightarrow> pyval \<Rightarrow> pyval \<Rightarrow>
    order_book list res" where
  "bybit_orderbook_view mt depth api_symbol info st d msg =
     bindr (bybit_named d ''s'' api_symbol mt) (\<lambda>model_sym.
     bindr (bindr (py_get msg ''ts'') bybit_normalize_timestamp) (\<lambda>ts.
     Inr [\<lparr>ob_symbol = model_sym, ob_market_type = mt, ob_quote = quote_of info, ob_bids = top_bids depth (bb_bids st),
       ob_asks = top_asks depth (bb_asks st), ob_qty_unit = bybit_unit_kind mt, ob_timestamp = ts\<rparr>]))"

definition bybit_book_level :: "int \<Rightarrow> int" where
  "bybit_book_level depth = (if depth \<le> 1 then 1 else if depth \<le> 50 then 50 else if depth \<le> 200 then 200 else 500)"

definition bybit_orderbook_step where
  "bybit_orderbook_step mt depth api_symbol info = bybit_book_step (bybit_orderbook_view mt depth api_symbol info)"

definition bybit_stream_orderbook where
  "bybit_stream_orderbook env mt symbol depth =
     bybit_stream env mt symbol (''orderbook.'' @ show_int (bybit_book_level depth) @ ''.'') (bybit_orderbook_step mt depth)"

definition bybit_book_ticker_view :: "market_type \<Rightarrow> string \<Rightarrow> symbol_info option \<Rightarrow> bybit_book \<Rightarrow> pyval \<Rightarrow> pyval \<Rightarrow>
    book_ticker list res" where
  "bybit_book_ticker_view mt api_symbol info st d msg =
     (if bb_bids st = [] \<or> bb_asks st = [] then Inr []
      else
        let bid_price = max_price (bb_bids st); ask_price = min_price (bb_asks st);
            qty = (\<lambda>side p. case dget side p of Some q \<Rightarrow> Inr q | None \<Rightarrow> Inl (KeyError ''price'')) in
        bindr (bybit_named d ''s'' api_symbol mt) (\<lambda>model_sym.
        bindr (bindr (qty (bb_bids st) bid_price) (\<lambda>n. build_qty_value n (bybit_unit mt) (contract_size_of info) bid_price)) (\<lambda>bid_qty.
        bindr (bindr (qty (bb_asks st) ask_price) (\<lambda>n. build_qty_value n (bybit_unit mt) (contract_size_of info) ask_price)) (\<lambda>ask_qty.
        bindr (bindr (py_get msg ''ts'') bybit_normalize_timestamp) (\<lambda>ts.
        Inr [\<lparr>bt_symbol = model_sym, bt_market_type = mt, bt_quote = quote_of info, bt_bid_price = bid_price,
          bt_bid_qty = bid_qty, bt_ask_price = ask_price, bt_ask_qty = ask_qty, bt_timestamp = ts\<rparr>])))))"

definition bybit_stream_book_ticker where
  "bybit_stream_book_ticker env mt symbol =
     bybit_stream env mt symbol ''orderbook.1.'' (\<lambda>api_symbol info. bybit_book_step (bybit_book_ticker_view mt api_symbol info))"

section \<open>Trades and liquidations\<close>

text \<open>\<open>for row in msg.get("data", [])\<close>\<close>

definition bybit_rows :: "pyfloat \<times> pyval \<Rightarrow> pyval list res" where
  "bybit_rows frame = bindr (py_get_or (snd frame) ''data'' (PList [])) py_iter"

definition bybit_stream_trades where
  "bybit_stream_trades env mt symbol =
     bybit_stream env mt symbol ''publicTrade.'' (\<lambda>api_symbol info.
       rows_step bybit_rows (\<lambda>frame t.
         one (bybit_trade ''p'' ''i'' ''v'' ''S'' ''T'' mt (bybit_get_model_symbol api_symbol mt) info t)))"

definition bybit_liquidation_row :: "market_type \<Rightarrow> string \<Rightarrow> symbol_info option \<Rightarrow> pyfloat \<times> pyval \<Rightarrow> pyval \<Rightarrow> liquidation list res" where
  "bybit_liquidation_row mt api_symbol info frame d =
     bindr (py_get d ''S'') (\<lambda>side_raw.
     if side_raw = PNone then Inr []
     else
       bindr (as_string ''lower'' side_raw) (\<lambda>side_text.
       if lower side_text \<noteq> ''buy'' \<and> lower side_text \<noteq> ''sell'' then Inr []
       else
         bindr (get_float d ''p'') (\<lambda>price.
         bindr (bybit_named d ''s'' api_symbol mt) (\<lambda>model_sym.
         bindr (bindr (get_float d ''v'') (\<lambda>n. build_qty_value n (bybit_unit mt) (contract_size_of info) price)) (\<lambda>qty.
         bindr (py_get (snd frame) ''ts'') (\<lambda>dflt_ts.
         bindr (bindr (py_get_or d ''T'' dflt_ts) bybit_normalize_timestamp) (\<lambda>ts.
         bindr (side_of (lower side_text)) (\<lambda>taker.
         Inr [\<lparr>lq_symbol = model_sym, lq_market_type = mt, lq_quote = quote_of info, lq_side = taker,
           lq_price = price, lq_qty = qty, lq_timestamp = ts\<rparr>]))))))))"

definition bybit_stream_liquidations where
  "bybit_stream_liquidations env mt symbol =
     (if mt = Spot then liftw (Inl (not_supported ''bybit'' ''stream_liquidations'' mt))
      else bybit_stream env mt symbol ''allLiquidation.'' (\<lambda>api_symbol info.
        rows_step bybit_rows (bybit_liquidation_row mt api_symbol info)))"

end
