(* ===== verification/BookFeed.thy ===== *)
theory BookFeed
  imports LocalBook
begin

text \<open>
  Feeds of an order book: the venue sends a snapshot and then changes, each linked to the one
  before by its numbers; its book is a quantity for every price, in which a change overwrites the
  quantities of the prices it names. The locale is the contract of a stream that keeps up with such
  a feed one frame at a time; its lemma is about whole runs.
\<close>

section \<open>The venue\<close>

record venue_frame =
  vf_snapshot :: bool
  vf_u :: int
  vf_bids :: "pyval list"
  vf_asks :: "pyval list"
  vf_ts :: int

type_synonym venue_book = "venue_side \<times> venue_side"

text \<open>\<open>lv\<close> reads the rows of a frame as levels.\<close>

definition venue_step :: "(pyval list \<Rightarrow> (pyfloat \<times> pyfloat) list) \<Rightarrow> venue_book \<Rightarrow> 'z venue_frame_scheme \<Rightarrow> venue_book" where
  "venue_step lv v f =
     (let v = (if vf_snapshot f then (venue_empty, venue_empty) else v)
      in (venue_apply (fst v) (lv (vf_bids f)), venue_apply (snd v) (lv (vf_asks f))))"

text \<open>The book after each frame.\<close>

fun venue_books :: "(pyval list \<Rightarrow> (pyfloat \<times> pyfloat) list) \<Rightarrow> venue_book \<Rightarrow> 'z venue_frame_scheme list \<Rightarrow> venue_book list" where
  "venue_books lv v [] = []"
| "venue_books lv v (f # fs) = venue_step lv v f # venue_books lv (venue_step lv v f) fs"

text \<open>Frames without a gap after number \<open>u\<close>; a snapshot starts anew.\<close>

fun gapless :: "(int \<Rightarrow> 'z venue_frame_scheme \<Rightarrow> bool) \<Rightarrow> int \<Rightarrow> 'z venue_frame_scheme list \<Rightarrow> bool" where
  "gapless linked u [] = True"
| "gapless linked u (f # fs) = ((vf_snapshot f \<or> linked u f) \<and> gapless linked (vf_u f) fs)"

definition shows_book :: "int \<Rightarrow> venue_book \<Rightarrow> order_book \<Rightarrow> bool" where
  "shows_book depth v book \<longleftrightarrow> shows_side (\<lambda>x y. flt y x) depth (fst v) (ob_bids book) \<and> shows_side flt depth (snd v) (ob_asks book)"

text \<open>A time in milliseconds that a float holds exactly.\<close>

definition ts_ok :: "int \<Rightarrow> bool" where
  "ts_ok ts \<longleftrightarrow> 100000000000 \<le> ts \<and> ts < 2 ^ 53"

section \<open>Streams that keep up\<close>

locale book_follow =
  fixes step :: "'s \<Rightarrow> 'f \<Rightarrow> 's \<times> order_book list \<times> frame_end"
    and msg :: "'z venue_frame_scheme \<Rightarrow> 'f"
    and depth :: int
    and lv :: "pyval list \<Rightarrow> (pyfloat \<times> pyfloat) list"
    and ok :: "'z venue_frame_scheme \<Rightarrow> bool"
    and linked :: "int \<Rightarrow> 'z venue_frame_scheme \<Rightarrow> bool"
    and follows :: "'s \<Rightarrow> int \<Rightarrow> venue_book \<Rightarrow> bool"
  assumes takes: "ok f \<Longrightarrow> vf_snapshot f \<or> follows st u v \<and> linked u f \<Longrightarrow>
      \<exists>st' book. step st (msg f) = (st', [book], Next) \<and> follows st' (vf_u f) (venue_step lv v f)
        \<and> shows_book depth (venue_step lv v f) book \<and> ob_timestamp book = vf_ts f"
begin

lemma run_follows:
  assumes "follows st u v" "list_all ok fs" "gapless linked u fs"
  shows "\<exists>books st' v'. drive step st (map msg fs) = (books, Listening st')
     \<and> list_all2 (shows_book depth) (venue_books lv v fs) books \<and> map ob_timestamp books = map vf_ts fs
     \<and> follows st' (last (u # map vf_u fs)) v'"
  using assms
proof (induction fs arbitrary: st u v)
  case (Cons f fs)
  obtain st' book where step: "step st (msg f) = (st', [book], Next)" "follows st' (vf_u f) (venue_step lv v f)"
      "shows_book depth (venue_step lv v f) book" "ob_timestamp book = vf_ts f"
    using takes [of f st u v] Cons.prems by auto
  obtain books st'' v' where run: "drive step st' (map msg fs) = (books, Listening st'')"
      "list_all2 (shows_book depth) (venue_books lv (venue_step lv v f) fs) books" "map ob_timestamp books = map vf_ts fs"
      "follows st'' (last (vf_u f # map vf_u fs)) v'"
    using Cons.IH [OF step(2)] Cons.prems by auto
  show ?case
    by (intro exI [of _ "book # books"] exI [of _ st''] exI [of _ v']) (use step run in simp)
qed auto

lemma snapshot_follows:
  assumes "vf_snapshot f" "list_all ok (f # fs)" "gapless linked (vf_u f) fs"
  shows "\<exists>books st' v'. drive step st (map msg (f # fs)) = (books, Listening st')
     \<and> list_all2 (shows_book depth) (venue_books lv (venue_empty, venue_empty) (f # fs)) books
     \<and> map ob_timestamp books = map vf_ts (f # fs) \<and> follows st' (vf_u (last (f # fs))) v'"
proof -
  have frames: "ok f" "list_all ok fs" using assms(2) by simp_all
  let ?v = "venue_step lv (venue_empty, venue_empty) f"
  obtain st1 book where step: "step st (msg f) = (st1, [book], Next)" "follows st1 (vf_u f) ?v"
      "shows_book depth ?v book" "ob_timestamp book = vf_ts f"
    using takes [OF frames(1) disjI1 [OF assms(1)], of st "(venue_empty, venue_empty)"] by auto
  obtain books st' v' where run: "drive step st1 (map msg fs) = (books, Listening st')"
      "list_all2 (shows_book depth) (venue_books lv ?v fs) books" "map ob_timestamp books = map vf_ts fs"
      "follows st' (last (vf_u f # map vf_u fs)) v'"
    using run_follows [OF step(2) frames(2) assms(3)] by auto
  have "last (vf_u f # map vf_u fs) = vf_u (last (f # fs))" by (simp add: last_map)
  then show ?thesis
    by (intro exI [of _ "book # books"] exI [of _ st'] exI [of _ v']) (use step run in simp)
qed

end

text \<open>A stream that also sees a gap in the numbers ends there.\<close>

locale book_feed = book_follow step msg depth lv ok linked follows
  for step :: "'s \<Rightarrow> 'f \<Rightarrow> 's \<times> order_book list \<times> frame_end"
    and msg :: "'z venue_frame_scheme \<Rightarrow> 'f"
    and depth :: int
    and lv :: "pyval list \<Rightarrow> (pyfloat \<times> pyfloat) list"
    and ok :: "'z venue_frame_scheme \<Rightarrow> bool"
    and linked :: "int \<Rightarrow> 'z venue_frame_scheme \<Rightarrow> bool"
    and follows :: "'s \<Rightarrow> int \<Rightarrow> venue_book \<Rightarrow> bool" +
  assumes gap: "follows st u v \<Longrightarrow> \<not> vf_snapshot f \<Longrightarrow> \<not> linked u f \<Longrightarrow> step st (msg f) = (st, [], Stop)"
begin

lemma feed_follows:
  assumes "vf_snapshot f" "list_all ok (f # fs)" "gapless linked (vf_u f) fs"
    and "\<not> vf_snapshot g" "\<not> linked (vf_u (last (f # fs))) g"
  shows "\<exists>books st'. drive step st (map msg (f # fs)) = (books, Listening st')
     \<and> list_all2 (shows_book depth) (venue_books lv (venue_empty, venue_empty) (f # fs)) books
     \<and> map ob_timestamp books = map vf_ts (f # fs)
     \<and> drive step st (map msg (f # fs) @ msg g # later) = (books, Returned)"
proof -
  obtain books st' v' where run: "drive step st (map msg (f # fs)) = (books, Listening st')"
      "list_all2 (shows_book depth) (venue_books lv (venue_empty, venue_empty) (f # fs)) books"
      "map ob_timestamp books = map vf_ts (f # fs)" "follows st' (vf_u (last (f # fs))) v'"
    using snapshot_follows [OF assms(1-3), of st] by auto
  have "step st' (msg g) = (st', [], Stop)" by (rule gap [OF run(4) assms(4,5)])
  then show ?thesis
    by (intro exI [of _ books] exI [of _ st'])
      (use run in \<open>simp add: drive_append del: list.map venue_books.simps\<close>)
qed

end

end
