(* ===== verification/BybitLaws.thy ===== *)
theory BybitLaws
  imports BybitStreams BookFeed
begin

text \<open>
  The order book stream of Bybit keeps up with the venue's book. Its changes carry consecutive
  numbers.
\<close>

section \<open>Frames\<close>

definition venue_message :: "string \<Rightarrow> venue_frame \<Rightarrow> pyval" where
  "venue_message sy f = PDict [
     (''type'', PStr (if vf_snapshot f then ''snapshot'' else ''delta'')), (''ts'', PInt (vf_ts f)),
     (''data'', PDict [(''s'', PStr sy), (''b'', PList (vf_bids f)), (''a'', PList (vf_asks f)), (''u'', PInt (vf_u f))])]"

definition levels_of :: "pyval list \<Rightarrow> (pyfloat \<times> pyfloat) list" where
  "levels_of rs = (case mapr row_level rs of Inr ls \<Rightarrow> ls | Inl e \<Rightarrow> [])"

text \<open>Rows of finite numbers.\<close>

definition rows_ok :: "pyval list \<Rightarrow> bool" where
  "rows_ok rs \<longleftrightarrow> (case mapr row_level rs of Inr ls \<Rightarrow> list_all level_ok ls | Inl e \<Rightarrow> False)"

definition frame_ok :: "venue_frame \<Rightarrow> bool" where
  "frame_ok f \<longleftrightarrow> rows_ok (vf_bids f) \<and> rows_ok (vf_asks f) \<and> ts_ok (vf_ts f)"

definition consecutive :: "int \<Rightarrow> venue_frame \<Rightarrow> bool" where
  "consecutive u f \<longleftrightarrow> vf_u f = u + 1"

section \<open>One frame\<close>

definition follows :: "bybit_book \<Rightarrow> int \<Rightarrow> venue_book \<Rightarrow> bool" where
  "follows st u v \<longleftrightarrow> bb_bootstrapped st \<and> bb_last_u st = PInt u \<and> side_ok (bb_bids st) \<and> side_ok (bb_asks st)
     \<and> qty_at (bb_bids st) = fst v \<and> qty_at (bb_asks st) = snd v"

lemma apply_levels_ok:
  assumes "rows_ok rs" "side_ok s"
  shows "\<exists>s'. apply_levels s (PList rs) = Inr s' \<and> side_ok s' \<and> qty_at s' = venue_apply (qty_at s) (levels_of rs)"
proof -
  obtain ls where ls: "mapr row_level rs = Inr ls" "list_all level_ok ls" "levels_of rs = ls"
    using assms(1) by (auto simp: rows_ok_def levels_of_def split: sum.splits)
  show ?thesis
    using apply_rows_levels [OF ls(1)] foldl_set_level [OF assms(2) ls(2)] by (simp add: apply_levels_def ls(3))
qed

lemma levels_in_follows:
  assumes "frame_ok f" "bb_bootstrapped st" "side_ok (bb_bids st)" "side_ok (bb_asks st)"
  shows "\<exists>st'. bybit_levels_in st (PInt (vf_u f)) (PDict [(''s'', PStr sy), (''b'', PList (vf_bids f)), (''a'', PList (vf_asks f)),
         (''u'', PInt (vf_u f))]) = Inr (Some (st', PDict [(''s'', PStr sy), (''b'', PList (vf_bids f)), (''a'', PList (vf_asks f)),
         (''u'', PInt (vf_u f))], True))
     \<and> follows st' (vf_u f) (venue_apply (qty_at (bb_bids st)) (levels_of (vf_bids f)), venue_apply (qty_at (bb_asks st)) (levels_of (vf_asks f)))"
proof -
  obtain bids where bids: "apply_levels (bb_bids st) (PList (vf_bids f)) = Inr bids" "side_ok bids"
      "qty_at bids = venue_apply (qty_at (bb_bids st)) (levels_of (vf_bids f))"
    using apply_levels_ok assms(1,3) unfolding frame_ok_def by blast
  obtain asks where asks: "apply_levels (bb_asks st) (PList (vf_asks f)) = Inr asks" "side_ok asks"
      "qty_at asks = venue_apply (qty_at (bb_asks st)) (levels_of (vf_asks f))"
    using apply_levels_ok assms(1,4) unfolding frame_ok_def by blast
  show ?thesis using bids asks assms(2) by (simp add: bybit_levels_in_def follows_def)
qed

lemma take_follows:
  assumes "frame_ok f" "vf_snapshot f \<or> follows st u v \<and> consecutive u f"
  shows "\<exists>st'. bybit_take st (venue_message sy f) = Inr (Some (st', PDict [(''s'', PStr sy), (''b'', PList (vf_bids f)),
       (''a'', PList (vf_asks f)), (''u'', PInt (vf_u f))], True)) \<and> follows st' (vf_u f) (venue_step levels_of v f)"
proof (cases "vf_snapshot f")
  case True
  then show ?thesis
    using levels_in_follows [OF assms(1), of "st\<lparr>bb_bids := [], bb_asks := [], bb_bootstrapped := True\<rparr>" sy]
    by (simp add: bybit_take_def venue_message_def venue_step_def py_or_def)
next
  case False
  then have "follows st u v" "vf_u f = u + 1" using assms(2) by (simp_all add: consecutive_def)
  then show ?thesis
    using False levels_in_follows [OF assms(1), of st sy]
    by (simp add: bybit_take_def venue_message_def venue_step_def py_or_def follows_def py_differ_def)
qed

lemma view_shows:
  assumes "follows st u v" "frame_ok f" "0 \<le> depth"
  shows "\<exists>book. bybit_orderbook_view mt depth api info st (PDict [(''s'', PStr sy), (''b'', bs), (''a'', as), (''u'', n)])
       (venue_message sy f) = Inr [book] \<and> shows_book depth v book \<and> ob_timestamp book = vf_ts f"
proof -
  have "round64 (of_int (vf_ts f)) = Fin (of_int (vf_ts f))"
    using assms(2) by (intro round64_int) (simp add: frame_ok_def ts_ok_def)
  then have "bybit_normalize_timestamp (PInt (vf_ts f)) = Inr (vf_ts f)"
    using assms(2) by (simp add: bybit_normalize_timestamp_def float_of_int_def int_of_float_def trunc_rat_def frame_ok_def ts_ok_def)
  then show ?thesis
    using assms(1,3) top_bids_shows [of "bb_bids st" depth] top_asks_shows [of "bb_asks st" depth]
    by (simp add: bybit_orderbook_view_def bybit_named_def venue_message_def shows_book_def follows_def)
qed

lemma step_follows:
  assumes "frame_ok f" "vf_snapshot f \<or> follows st u v \<and> consecutive u f" "0 \<le> depth"
  shows "\<exists>st' book. bybit_orderbook_step mt depth api info st (now, venue_message sy f) = (st', [book], Next)
     \<and> follows st' (vf_u f) (venue_step levels_of v f) \<and> shows_book depth (venue_step levels_of v f) book \<and> ob_timestamp book = vf_ts f"
proof -
  let ?d = "PDict [(''s'', PStr sy), (''b'', PList (vf_bids f)), (''a'', PList (vf_asks f)), (''u'', PInt (vf_u f))]"
  obtain st' where st': "bybit_take st (venue_message sy f) = Inr (Some (st', ?d, True))" "follows st' (vf_u f) (venue_step levels_of v f)"
    using take_follows [OF assms(1,2)] by blast
  obtain book where "bybit_orderbook_view mt depth api info st' ?d (venue_message sy f) = Inr [book]"
      "shows_book depth (venue_step levels_of v f) book" "ob_timestamp book = vf_ts f"
    using view_shows [OF st'(2) assms(1,3)] by blast
  then show ?thesis using st' by (simp add: bybit_orderbook_step_def bybit_book_step_def)
qed

lemma gap_stops:
  assumes "follows st u v" "\<not> vf_snapshot g" "\<not> consecutive u g"
  shows "bybit_orderbook_step mt depth api info st (now, venue_message sy g) = (st, [], Stop)"
  using assms by (simp add: follows_def consecutive_def bybit_orderbook_step_def bybit_book_step_def bybit_take_def venue_message_def py_or_def py_differ_def)

interpretation bybit_feed: book_feed "bybit_orderbook_step mt (int depth) api info" "\<lambda>f. (now, venue_message sy f)"
    "int depth" levels_of frame_ok consecutive follows
  for mt depth api info now sy
  by unfold_locales (use step_follows gap_stops in auto)

text \<open>
  C8. The order book stream of Bybit hands on the venue's book or nothing: from a snapshot and
  changes with consecutive numbers it yields one book per frame, whose sides are the best levels
  of the venue's book after that frame, best price first, cut at the depth asked for; at the first
  gap in the numbers it ends without yielding again.
\<close>

theorem bybit_book_follows_venue:
  assumes "vf_snapshot f" "list_all frame_ok (f # fs)" "gapless consecutive (vf_u f) fs" "0 \<le> depth"
    and "\<not> vf_snapshot g" "\<not> consecutive (vf_u (last (f # fs))) g"
  shows "\<exists>books st. drive (bybit_orderbook_step mt depth api info) bybit_book_init (map (\<lambda>x. (now, venue_message sy x)) (f # fs))
         = (books, Listening st)
     \<and> list_all2 (shows_book depth) (venue_books levels_of (venue_empty, venue_empty) (f # fs)) books
     \<and> map ob_timestamp books = map vf_ts (f # fs)
     \<and> drive (bybit_orderbook_step mt depth api info) bybit_book_init
         (map (\<lambda>x. (now, venue_message sy x)) (f # fs) @ (now, venue_message sy g) # later) = (books, Returned)"
proof -
  have "int (nat depth) = depth" using assms(4) by simp
  then show ?thesis
    using bybit_feed.feed_follows [OF assms(1-3,5,6), where depth = "nat depth"] by metis
qed

text \<open>A snapshot, a change that takes its best bid out, and a gap.\<close>

definition demo_frames :: "venue_frame list" where
  "demo_frames = [
     \<lparr>vf_snapshot = True, vf_u = 7, vf_bids = [PList [PFloat (Fin 9), PFloat (Fin 2)], PList [PFloat (Fin 10), PFloat (Fin 1)]],
       vf_asks = [PList [PFloat (Fin 11), PFloat (Fin 3)]], vf_ts = 1700000000000\<rparr>,
     \<lparr>vf_snapshot = False, vf_u = 8, vf_bids = [PList [PFloat (Fin 10), PFloat (Fin 0)]], vf_asks = [], vf_ts = 1700000000100\<rparr>,
     \<lparr>vf_snapshot = False, vf_u = 10, vf_bids = [], vf_asks = [], vf_ts = 1700000000200\<rparr>]"

lemma bybit_book_follows_venue_witness:
  "\<exists>books. drive (bybit_orderbook_step Spot 1 ''BTCUSDT'' None) bybit_book_init
       (map (\<lambda>x. (Fin 0, venue_message ''BTCUSDT'' x)) demo_frames) = (books, Returned)
     \<and> map ob_timestamp books = [1700000000000, 1700000000100]"
proof -
  let ?f = "demo_frames ! 0" and ?d = "demo_frames ! 1" and ?g = "demo_frames ! 2"
  have "vf_snapshot ?f" "list_all frame_ok [?f, ?d]" "gapless consecutive (vf_u ?f) [?d]" "\<not> vf_snapshot ?g"
    "\<not> consecutive (vf_u (last [?f, ?d])) ?g" "(0 :: int) \<le> 1"
    by (simp_all add: demo_frames_def consecutive_def ts_ok_def frame_ok_def rows_ok_def row_level_def unpack2_def level_ok_def is_finite_def)
  from bybit_book_follows_venue [OF this(1-3) this(6) this(4,5), of Spot "''BTCUSDT''" None "Fin 0" "''BTCUSDT''" "[]"]
  show ?thesis by (auto simp: demo_frames_def)
qed

end
