(* ===== verification/FloatMono.thy ===== *)
theory FloatMono
  imports FloatOrder
begin

text \<open>
  Correct rounding preserves the order: of two numbers the smaller one never rounds above the
  larger. Differences of clock readings compare the way the readings do.
\<close>

section \<open>Rounding to integers\<close>

definition round_half_even :: "rat \<Rightarrow> int" where
  "round_half_even z = (let f = \<lfloor>z\<rfloor>; r = z - of_int f in
     if r < 1 / 2 then f else if 1 / 2 < r then f + 1 else if even f then f else f + 1)"

lemma div_half_even_rat:
  assumes "0 < b"
  shows "div_half_even a b = round_half_even (of_int a / of_int b)"
proof -
  have fl: "\<lfloor>of_int a / of_int b :: rat\<rfloor> = a div b" by (rule floor_divide_of_int_eq)
  have "(of_int a :: rat) = of_int (a div b) * of_int b + of_int (a mod b)"
    by (metis div_mult_mod_eq of_int_add of_int_mult)
  then have r: "of_int a / of_int b - of_int (a div b) = (of_int (a mod b) / of_int b :: rat)"
    using assms by (simp add: field_simps)
  have "(of_int (a mod b) / of_int b < (1 / 2 :: rat)) = (2 * (a mod b) < b)"
    "((1 / 2 :: rat) < of_int (a mod b) / of_int b) = (b < 2 * (a mod b))"
    using assms by (simp_all add: divide_simps flip: of_int_mult) linarith+
  then show ?thesis unfolding div_half_even_def round_half_even_def fl Let_def r by simp
qed

lemma round_half_even_int [simp]: "round_half_even (of_int n) = n"
  by (simp add: round_half_even_def)

lemma round_half_even_mono:
  assumes "y \<le> z"
  shows "round_half_even y \<le> round_half_even z"
proof (cases "\<lfloor>y\<rfloor> = \<lfloor>z\<rfloor>")
  case True
  then show ?thesis using assms by (auto simp: round_half_even_def Let_def)
next
  case False
  then have "\<lfloor>y\<rfloor> + 1 \<le> \<lfloor>z\<rfloor>" using floor_mono [OF assms] by simp
  moreover have "round_half_even y \<le> \<lfloor>y\<rfloor> + 1" "\<lfloor>z\<rfloor> \<le> round_half_even z"
    by (auto simp: round_half_even_def Let_def)
  ultimately show ?thesis by simp
qed

lemma scaled_int_rat:
  assumes "0 < q"
  shows "scaled_int p q e = round_half_even (of_int p / of_int q / pow2 e)"
  using assms by (simp add: scaled_int_def div_half_even_rat pow2_def field_simps)

lemma round_abs_grid: "round_abs x = of_int (round_half_even (\<bar>x\<bar> / pow2 (quantum x))) * pow2 (quantum x)"
proof -
  obtain p q where pq: "quotient_of \<bar>x\<bar> = (p, q)" by force
  note x = quotient_of_abs [OF pq]
  show ?thesis by (simp add: round_abs_def pq scaled_int_rat [OF x(2)] x(1) [symmetric])
qed

section \<open>The binade of a number\<close>

lemma quantum_binade:
  assumes "x \<noteq> 0"
  shows "\<exists>e. quantum x = max (e - 52) (- 1074) \<and> pow2 e \<le> \<bar>x\<bar> \<and> \<bar>x\<bar> < pow2 (e + 1)"
proof -
  obtain p q where pq: "quotient_of \<bar>x\<bar> = (p, q)" by force
  note x = quotient_of_abs [OF pq]
  define e0 where "e0 = int (nlog2 p) - int (nlog2 q)"
  have "p \<noteq> 0" using assms x by auto
  then have p: "1 \<le> p" using x by simp
  have q: "1 \<le> q" using x by simp
  have bounds: "(2 ^ nlog2 n :: rat) \<le> of_int n \<and> (of_int n :: rat) < 2 * 2 ^ nlog2 n" if "1 \<le> n" for n
  proof -
    have "(of_int (2 ^ nlog2 n) :: rat) \<le> of_int n" "(of_int n :: rat) < of_int (2 * 2 ^ nlog2 n)"
      using nlog2_bounds [OF that] by (simp_all only: of_int_le_iff of_int_less_iff)
    then show ?thesis by simp
  qed
  have "pow2 (e0 - 1) = 2 ^ nlog2 p / (2 * 2 ^ nlog2 q)" "pow2 (e0 + 1) = 2 * 2 ^ nlog2 p / 2 ^ nlog2 q"
    by (simp_all add: e0_def pow2_diff pow2_add pow2_def [of 1])
  moreover have "2 ^ nlog2 p / (2 * 2 ^ nlog2 q) \<le> (of_int p / of_int q :: rat)"
    using bounds [OF p] bounds [OF q] p q by (intro frac_le) auto
  moreover have "(of_int p / of_int q :: rat) < 2 * 2 ^ nlog2 p / 2 ^ nlog2 q"
    using bounds [OF p] bounds [OF q] p by (intro frac_less) auto
  ultimately have e0: "pow2 (e0 - 1) \<le> \<bar>x\<bar>" "\<bar>x\<bar> < pow2 (e0 + 1)" using x by simp_all
  have "quantum x = max ((if pow2 e0 \<le> \<bar>x\<bar> then e0 else e0 - 1) - 52) (- 1074)"
    by (simp add: quantum_def pq e0_def Let_def)
  then show ?thesis using e0 by (cases "pow2 e0 \<le> \<bar>x\<bar>") (auto intro: exI [of _ e0] exI [of _ "e0 - 1"])
qed

lemma pow2_multiple: "d \<le> e \<Longrightarrow> pow2 e / pow2 d = of_int (2 ^ nat (e - d))"
  using pow2_nat [of "nat (e - d)"] by (simp flip: pow2_diff)

lemma pow2_mono: "a \<le> b \<Longrightarrow> pow2 a \<le> pow2 b"
  by (simp add: pow2_powi power_int_increasing)

lemma pow2_le_iff [simp]: "pow2 a \<le> pow2 b \<longleftrightarrow> a \<le> b"
proof
  assume le: "pow2 a \<le> pow2 b"
  show "a \<le> b"
  proof (rule ccontr)
    assume "\<not> a \<le> b"
    then have "pow2 (b + 1) \<le> pow2 a" by (intro pow2_mono) simp
    then have "pow2 (b + 1) \<le> pow2 b" using le by linarith
    moreover have "pow2 (b + 1) = 2 * pow2 b" by (simp add: pow2_add pow2_def [of 1])
    ultimately have "2 * pow2 b \<le> pow2 b" by linarith
    then show False using pow2_pos [of b] by linarith
  qed
qed (rule pow2_mono)

lemma pow2_less_iff [simp]: "pow2 a < pow2 b \<longleftrightarrow> a < b"
  by (simp add: not_le [symmetric])

lemma round_abs_bound:
  assumes "quantum x \<le> e"
  shows "\<bar>x\<bar> \<le> pow2 e \<Longrightarrow> round_abs x \<le> pow2 e" "pow2 e \<le> \<bar>x\<bar> \<Longrightarrow> pow2 e \<le> round_abs x"
proof -
  let ?g = "pow2 (quantum x)"
  define n :: int where "n = 2 ^ nat (e - quantum x)"
  have "pow2 e / ?g = of_int n" using pow2_multiple [OF assms] by (simp add: n_def)
  then have n: "pow2 e = of_int n * ?g" using pow2_pos [of "quantum x"] by (simp add: field_simps)
  { assume "\<bar>x\<bar> \<le> pow2 e"
    then have "\<bar>x\<bar> / ?g \<le> of_int n" by (simp add: n divide_le_eq)
    then have "round_half_even (\<bar>x\<bar> / ?g) \<le> n" using round_half_even_mono by fastforce
    then show "round_abs x \<le> pow2 e" by (simp add: round_abs_grid n) }
  { assume "pow2 e \<le> \<bar>x\<bar>"
    then have "of_int n \<le> \<bar>x\<bar> / ?g" by (simp add: n le_divide_eq)
    then have "n \<le> round_half_even (\<bar>x\<bar> / ?g)" using round_half_even_mono by fastforce
    then show "pow2 e \<le> round_abs x" by (simp add: round_abs_grid n) }
qed

lemma round_abs_mono:
  assumes "\<bar>x\<bar> \<le> \<bar>y\<bar>"
  shows "round_abs x \<le> round_abs y"
proof (cases "x = 0")
  case True
  then show ?thesis by (simp add: round_abs_grid [of 0] round_abs_nonneg round_half_even_def)
next
  case False
  then have "y \<noteq> 0" using assms by auto
  obtain e where e: "quantum x = max (e - 52) (- 1074)" "pow2 e \<le> \<bar>x\<bar>" "\<bar>x\<bar> < pow2 (e + 1)"
    using quantum_binade [OF False] by auto
  obtain d where d: "quantum y = max (d - 52) (- 1074)" "pow2 d \<le> \<bar>y\<bar>" "\<bar>y\<bar> < pow2 (d + 1)"
    using quantum_binade [OF \<open>y \<noteq> 0\<close>] by auto
  have "pow2 e < pow2 (d + 1)" using e(2) d(3) assms by linarith
  then have "e \<le> d" by simp
  show ?thesis
  proof (cases "quantum x = quantum y")
    case True
    have "\<bar>x\<bar> / pow2 (quantum y) \<le> \<bar>y\<bar> / pow2 (quantum y)" using assms by (intro divide_right_mono) (simp_all add: less_imp_le)
    then show ?thesis unfolding round_abs_grid True by (simp add: round_half_even_mono)
  next
    case False
    then have "e < d" "quantum x \<le> d" "quantum y \<le> d" using \<open>e \<le> d\<close> e(1) d(1) by auto
    then have "pow2 (e + 1) \<le> pow2 d" by (simp only: pow2_le_iff)
    then have "\<bar>x\<bar> \<le> pow2 d" using e(3) by linarith
    then have "round_abs x \<le> pow2 d" using \<open>quantum x \<le> d\<close> by (rule round_abs_bound(1) [rotated])
    also have "\<dots> \<le> round_abs y" using \<open>quantum y \<le> d\<close> d(2) by (rule round_abs_bound(2))
    finally show ?thesis .
  qed
qed

section \<open>Floats\<close>

lemma PosInf_top [simp]: "x \<noteq> NaN \<Longrightarrow> x \<le> PosInf"
  by (cases x) (auto simp: less_eq_pyfloat_def)

lemma NegInf_bot [simp]: "NegInf \<le> x"
  by (cases x) (auto simp: less_eq_pyfloat_def)

lemma round64_not_NaN [simp]: "round64 x \<noteq> NaN"
  by (simp add: round64_def Let_def)

theorem round64_mono:
  assumes "x \<le> y"
  shows "round64 x \<le> round64 y"
proof -
  consider "0 \<le> x" | "y < 0" | "x < 0" "0 \<le> y" using assms by linarith
  then show ?thesis
  proof cases
    case 1
    then have "round_abs x \<le> round_abs y" using assms by (intro round_abs_mono) simp
    then show ?thesis using 1 assms by (auto simp: round64_def Let_def)
  next
    case 2
    then have "round_abs y \<le> round_abs x" using assms by (intro round_abs_mono) simp
    then show ?thesis using 2 assms by (auto simp: round64_def Let_def)
  next
    case 3
    then show ?thesis using round_abs_nonneg [of x] round_abs_nonneg [of y] by (auto simp: round64_def Let_def)
  qed
qed

lemma finite_Fin: "is_finite x \<longleftrightarrow> (\<exists>a. x = Fin a)"
  by (cases x) (simp_all add: is_finite_def)

text \<open>\<open>a - b\<close> is monotone in \<open>a\<close>.\<close>

lemma fsub_Fin: "fsub (Fin a) (Fin b) = round64 (a - b)"
  by (simp add: fsub_def)

lemma fsub_mono: "a \<le> b \<Longrightarrow> fsub (Fin a) (Fin w) \<le> fsub (Fin b) (Fin w)"
  by (simp add: fsub_Fin round64_mono)

end
