(* ===== verification/Contracts.thy ===== *)
theory Contracts
  imports Adapters FloatMono Symbols Intervals Pagination
begin

text \<open>
  What the adapters of venues that trade in contracts share beyond \<open>Adapters\<close>: the resolution of
  symbols against the venue's listing, the contract multiplier that turns contracts into coins,
  rows that are skipped when they do not read, and the rounding of Python's \<open>round\<close> and \<open>format\<close>.
\<close>

section \<open>Environment\<close>

text \<open>
  \<open>ce_resolve\<close> is the \<open>_resolve_symbol\<close> of the adapter and \<open>ce_multiplier\<close> its
  \<open>_multiplier_for\<close>; the rest is the environment of every adapter.
\<close>

record 'w contract_env =
  ce_env :: "'w adapter_env"
  ce_resolve :: "market_type \<Rightarrow> string \<Rightarrow> ('w, pyexc, string) io"
  ce_multiplier :: "market_type \<Rightarrow> string \<Rightarrow> ('w, pyexc, pyfloat option) io"

abbreviation ce_request where "ce_request env \<equiv> env_request (ce_env env)"
abbreviation ce_info where "ce_info env \<equiv> env_info (ce_env env)"
abbreviation ce_cycle where "ce_cycle env \<equiv> env_cycle (ce_env env)"
abbreviation ce_iso where "ce_iso env \<equiv> env_iso (ce_env env)"

text \<open>\<open>try: ... except ...:\<close> around awaited calls.\<close>

definition tryw :: "('w, 'e, 'a) io \<Rightarrow> ('e \<Rightarrow> ('w, 'e, 'a) io) \<Rightarrow> ('w, 'e, 'a) io" where
  "tryw m h w = (case m w of (Inl e, w) \<Rightarrow> h e w | (Inr v, w) \<Rightarrow> (Inr v, w))"

section \<open>Fields\<close>

text \<open>\<open>d.get(k) or x\<close> and \<open>float(d.get(k) or 0)\<close>\<close>

definition get_else :: "pyval \<Rightarrow> string \<Rightarrow> pyval \<Rightarrow> pyval res" where
  "get_else d k x = bindr (py_get d k) (\<lambda>v. Inr (py_or v x))"

definition get_or_zero :: "pyval \<Rightarrow> string \<Rightarrow> pyfloat res" where
  "get_or_zero d k = bindr (get_else d k (PInt 0)) py_float"

fun field_side :: "pyval \<Rightarrow> side res" where
  "field_side (PStr s) = side_of s"
| "field_side v = Inl (ValidationError ''Input should be buy or sell'')"

text \<open>\<open>a, b, *_ = v\<close>\<close>

definition unpack_head :: "pyval \<Rightarrow> (pyval \<times> pyval) res" where
  "unpack_head v = bindr (py_iter v) (\<lambda>xs. case xs of
       a # b # rest \<Rightarrow> Inr (a, b)
     | _ \<Rightarrow> Inl (ValueError (''not enough values to unpack (expected at least 2, got '' @ show_int (int (length xs)) @ '')'')))"

definition plain_level :: "pyval \<Rightarrow> pyfloat list res" where
  "plain_level v = bindr (unpack_head v) (\<lambda>(p, q). bindr (py_float p) (\<lambda>p. bindr (py_float q) (\<lambda>q. Inr [p, q])))"

definition scaled_level :: "pyfloat \<Rightarrow> pyval \<Rightarrow> pyfloat list res" where
  "scaled_level m v = bindr (unpack_head v) (\<lambda>(p, q). bindr (py_float p) (\<lambda>p. bindr (py_float q) (\<lambda>q. Inr [p, fmul q m])))"

fun py_len :: "pyval \<Rightarrow> nat res" where
  "py_len (PList xs) = Inr (length xs)"
| "py_len (PStr s) = Inr (length s)"
| "py_len (PDict d) = Inr (length d)"
| "py_len v = Inl (TypeError (''object of type '' @ quoted (type_name v) @ '' has no len()''))"

text \<open>\<open>((price - open) / open) * 100\<close> when the price a day ago is positive\<close>

definition day_change :: "pyfloat \<Rightarrow> pyfloat \<Rightarrow> pyfloat res" where
  "day_change price open_24h =
     (if flt (Fin 0) open_24h then bindr (fdiv (fsub price open_24h) open_24h) (\<lambda>r. Inr (fmul r (Fin 100))) else Inr (Fin 0))"

section \<open>Rows that may not read\<close>

text \<open>\<open>except (...): continue\<close> around the reading of one row, which yields at most one value.\<close>

definition skip_row :: "(pyexc \<Rightarrow> bool) \<Rightarrow> 'a list res \<Rightarrow> 'a list res" where
  "skip_row caught r = (case r of Inl e \<Rightarrow> if caught e then Inr [] else Inl e | Inr xs \<Rightarrow> Inr xs)"

fun row_error :: "pyexc \<Rightarrow> bool" where
  "row_error (TypeError t) = True"
| "row_error e = is_value_error e"

fun row_or_key_error :: "pyexc \<Rightarrow> bool" where
  "row_or_key_error (KeyError k) = True"
| "row_or_key_error e = row_error e"

definition rows_of :: "(pyval \<Rightarrow> 'a list res) \<Rightarrow> pyval list \<Rightarrow> 'a list res" where
  "rows_of f rows = bindr (mapr f rows) (\<lambda>xs. Inr (concat xs))"

text \<open>\<open>isinstance(r, list) and len(r) >= n\<close>\<close>

fun list_with :: "nat \<Rightarrow> pyval \<Rightarrow> bool" where
  "list_with n (PList xs) = (n \<le> length xs)"
| "list_with n v = False"

text \<open>Parts that yield one after the other, up to the first exception.\<close>

fun each_part :: "(pyval \<Rightarrow> 'm list \<times> pyexc option) \<Rightarrow> pyval list \<Rightarrow> 'm list \<times> pyexc option" where
  "each_part f [] = ([], None)"
| "each_part f (r # rs) = (case f r of
       (ms, Some e) \<Rightarrow> (ms, Some e)
     | (ms, None) \<Rightarrow> (case each_part f rs of (rest, e) \<Rightarrow> (ms @ rest, e)))"

section \<open>Contracts\<close>

text \<open>The multiplier, which linear markets cannot do without.\<close>

definition checked_multiplier :: "'w contract_env \<Rightarrow> string \<Rightarrow> market_type \<Rightarrow> string \<Rightarrow> ('w, pyexc, pyfloat option) io" where
  "checked_multiplier env venue mt model_sym =
     bindw (ce_multiplier env mt model_sym) (\<lambda>m.
     if mt = Linear \<and> m = None
     then liftw (Inl (ValueError (''Contract multiplier unavailable for '' @ model_sym @ '' on '' @ venue @ '' linear'')))
     else retw m)"

definition contract_qty :: "market_type \<Rightarrow> pyfloat option \<Rightarrow> pyfloat option \<Rightarrow> pyfloat \<Rightarrow> pyfloat \<Rightarrow> qty_value res" where
  "contract_qty mt multiplier contract_size native price = (case mt of
       Linear \<Rightarrow> (case multiplier of
           None \<Rightarrow> Inl (TypeError ''unsupported operand type(s) for *'')
         | Some m \<Rightarrow> build_qty_value (fmul native m) ''base'' None price)
     | Inverse \<Rightarrow> build_qty_value native ''contract'' contract_size price
     | Spot \<Rightarrow> build_qty_value native ''base'' None price)"

definition qty_mult_of :: "market_type \<Rightarrow> pyfloat option \<Rightarrow> pyfloat" where
  "qty_mult_of mt multiplier = (case (mt, multiplier) of (Linear, Some m) \<Rightarrow> m | _ \<Rightarrow> Fin 1)"

definition unit_of_market :: "market_type \<Rightarrow> unit_kind" where
  "unit_of_market mt = (if mt = Inverse then Contract else Base)"

section \<open>round and format\<close>

text \<open>\<open>round(x, n)\<close>: the decimal nearest to the exact value, ties to even, read back as a float.\<close>

definition py_round :: "nat \<Rightarrow> pyfloat \<Rightarrow> pyfloat res" where
  "py_round n x = (case x of
       Fin q \<Rightarrow> (case round64 (of_int (round_half_even (q * 10 ^ n)) / 10 ^ n) of
           Fin y \<Rightarrow> Inr (Fin y)
         | _ \<Rightarrow> Inl (OverflowError ''rounded value too large to represent''))
     | _ \<Rightarrow> Inr x)"

text \<open>\<open>f"{x:.nf}"\<close>\<close>

definition format_fixed :: "nat \<Rightarrow> pyfloat \<Rightarrow> string" where
  "format_fixed n x = (case x of
       Fin q \<Rightarrow> (let d = round_half_even (\<bar>q\<bar> * 10 ^ n); frac = show_nat (d mod 10 ^ n) in
         (if q < 0 then ''-'' else []) @ show_nat (d div 10 ^ n)
           @ (if n = 0 then [] else ''.'' @ zeros (n - length frac) @ frac))
     | PosInf \<Rightarrow> ''inf'' | NegInf \<Rightarrow> ''-inf'' | NaN \<Rightarrow> ''nan'')"

section \<open>Instrument metadata\<close>

text \<open>A bound on quantities as it stands, and in coins: left out when it is not positive.\<close>

definition read_bound :: "pyval \<Rightarrow> pyfloat option res" where
  "read_bound raw_value =
     (if raw_value = PNone then Inr None
      else bindr (py_float raw_value) (\<lambda>v. Inr (Some v)))"

definition bound_in_coins :: "market_type \<Rightarrow> pyfloat option \<Rightarrow> pyfloat option \<Rightarrow> pyfloat option res" where
  "bound_in_coins mt multiplier bound =
     (case bound of
        None \<Rightarrow> Inr None
      | Some v \<Rightarrow>
          if fle v (Fin 0) then Inr None
          else if mt \<noteq> Linear then Inr (Some v)
          else case multiplier of
            None \<Rightarrow> Inr None
          | Some m \<Rightarrow> bindr (py_round 12 (fmul v m)) (\<lambda>x. Inr (Some x)))"

text \<open>The rows in their order, and what the adapter keeps by symbol.\<close>

definition kept_rows :: "(symbol_info \<times> 'a option) option list \<Rightarrow> (symbol_info \<times> 'a option) list" where
  "kept_rows rows = List.map_filter (\<lambda>r. r) rows"

definition note_values :: "(symbol_info \<times> 'a option) list \<Rightarrow> (string, 'a) dict \<Rightarrow> (string, 'a) dict" where
  "note_values rows kept =
     foldl (\<lambda>d (info, v). case v of None \<Rightarrow> d | Some x \<Rightarrow> dset d (si_symbol info) x) kept rows"

section \<open>History\<close>

text \<open>Every history route: one page for the newest rows, backwards pages for more.\<close>

definition paged_history :: "int \<Rightarrow> (int option \<Rightarrow> int \<Rightarrow> ('w, pyexc, 'a list) io) \<Rightarrow> ('a \<Rightarrow> int) \<Rightarrow> int option \<Rightarrow> int \<Rightarrow> ('w, pyexc, 'a list) io" where
  "paged_history per_req page ts start_time limit =
     (if start_time \<noteq> None \<or> per_req < limit then paginate_backwards page ts (\<lambda>r. r) limit per_req
      else bindw (page None limit) (\<lambda>rows. retw (slice_last limit rows)))"

section \<open>Soft readings\<close>

lemma soft_get_else [soft_intros]: "soft (get_else d k x)"
  unfolding get_else_def by (intro soft_intros)

lemma soft_get_or_zero [soft_intros]: "soft (get_or_zero d k)"
  unfolding get_or_zero_def by (intro soft_intros)

lemma soft_field_side [soft_intros]: "soft (field_side v)"
  by (cases v) (simp_all add: soft_side_of)

lemma soft_unpack_head [soft_intros]: "soft (unpack_head v)"
  unfolding unpack_head_def by (intro soft_intros) (simp split: list.split)

lemma soft_plain_level [soft_intros]: "soft (plain_level v)"
  unfolding plain_level_def by (intro soft_intros)

lemma soft_scaled_level [soft_intros]: "soft (scaled_level m v)"
  unfolding scaled_level_def by (intro soft_intros)

lemma soft_contract_qty [soft_intros]: "soft (contract_qty mt m cs n p)"
  unfolding contract_qty_def
  by (cases mt) (auto intro: soft_intros split: option.split)

lemma soft_py_round [soft_intros]: "soft (py_round n x)"
  by (simp add: py_round_def split: pyfloat.split)

lemma soft_fdiv: "soft (fdiv a b) \<longleftrightarrow> b \<noteq> Fin 0"
  by (cases "(a, b)" rule: fdiv.cases) (auto split: pyfloat.split)

end
