(* ===== verification/RateBucket.thy ===== *)
theory RateBucket
  imports FloatMono
begin

text \<open>
  The rate bucket of the OKX adapter (\<open>_RateBucket\<close> in \<^verbatim>\<open>exchange_router/exchanges/okx/adapter.py\<close>):
  every request waits until fewer than \<open>max\<close> requests were let through in the last window. One
  round of \<open>acquire\<close> runs under the lock of the bucket, so the rounds of all callers are a
  sequence; the sleep between two rounds of a caller is outside.
\<close>

section \<open>The bucket\<close>

record rate_bucket =
  rb_max :: int
  rb_window :: pyfloat
  rb_timestamps :: "pyfloat list"

definition new_bucket :: "int \<Rightarrow> pyfloat \<Rightarrow> rate_bucket" where
  "new_bucket max_requests window_s = \<lparr>rb_max = max_requests, rb_window = window_s, rb_timestamps = []\<rparr>"

definition bucket_rubik :: rate_bucket where "bucket_rubik = new_bucket 4 (Fin 2)"
definition bucket_default :: rate_bucket where "bucket_default = new_bucket 18 (Fin 2)"

text \<open>One round at the time \<open>now\<close>: \<open>None\<close> lets the request through, \<open>Some wait\<close> is the wait before the next round.\<close>

definition bucket_try :: "pyfloat \<Rightarrow> rate_bucket \<Rightarrow> pyfloat option res \<times> rate_bucket" where
  "bucket_try now b =
     (let ts = dropWhile (\<lambda>t. flt t (fsub now (rb_window b))) (rb_timestamps b) in
      if int (length ts) < rb_max b then (Inr None, b\<lparr>rb_timestamps := ts @ [now]\<rparr>)
      else case ts of
        [] \<Rightarrow> (Inl (IndexError ''deque index out of range''), b\<lparr>rb_timestamps := ts\<rparr>)
      | t # _ \<Rightarrow> (Inr (Some (fsub (fadd t (rb_window b)) now)), b\<lparr>rb_timestamps := ts\<rparr>))"

text \<open>\<open>max(wait, 0.01) + random.uniform(0, 0.05)\<close>\<close>

definition bucket_sleep :: "pyfloat \<Rightarrow> pyfloat \<Rightarrow> pyfloat" where
  "bucket_sleep wait jitter = fadd (if flt wait (round64 (1 / 100)) then round64 (1 / 100) else wait) jitter"

text \<open>The rounds of all callers in their order; the result lists the ticks at which requests were let through.\<close>

fun bucket_run :: "rate_bucket \<Rightarrow> pyfloat list \<Rightarrow> pyfloat list \<times> rate_bucket" where
  "bucket_run b [] = ([], b)"
| "bucket_run b (now # ticks) =
     (case bucket_try now b of
        (Inr None, b) \<Rightarrow> (case bucket_run b ticks of (grants, b) \<Rightarrow> (now # grants, b))
      | (_, b) \<Rightarrow> bucket_run b ticks)"

section \<open>The window\<close>

definition spaced :: "nat \<Rightarrow> pyfloat \<Rightarrow> pyfloat list \<Rightarrow> bool" where
  "spaced n w gs \<longleftrightarrow> (\<forall>i. i + n < length gs \<longrightarrow> flt (gs ! i) (fsub (gs ! (i + n)) w))"

definition clock :: "pyfloat list \<Rightarrow> bool" where
  "clock ticks \<longleftrightarrow> list_all is_finite ticks \<and> sorted ticks"

text \<open>
  What holds between two rounds: the bucket holds the latest of the requests let through so far,
  and the older ones have left the window.
\<close>

definition bucket_inv :: "rate_bucket \<Rightarrow> pyfloat list \<Rightarrow> pyfloat \<Rightarrow> bool" where
  "bucket_inv b gs now \<longleftrightarrow> is_finite now \<and> is_finite (rb_window b) \<and> 0 < rb_max b \<and> list_all is_finite gs
     \<and> int (length (rb_timestamps b)) \<le> rb_max b
     \<and> (\<exists>old. gs = old @ rb_timestamps b \<and> (\<forall>t\<in>set old. flt t (fsub now (rb_window b))))
     \<and> spaced (nat (rb_max b)) (rb_window b) gs"

lemma flt_later:
  assumes "is_finite now" "is_finite w" "is_finite now'" "now \<le> now'" "is_finite t" "flt t (fsub now w)"
  shows "flt t (fsub now' w)"
proof -
  obtain a b c s where f: "now = Fin a" "w = Fin b" "now' = Fin c" "t = Fin s" using assms(1-3,5) by (auto simp: finite_Fin)
  then have "fsub now w \<le> fsub now' w" using assms(4) by (simp add: fsub_mono)
  moreover have "fsub now w \<noteq> NaN" "fsub now' w \<noteq> NaN" using f by (simp_all add: fsub_Fin)
  ultimately show ?thesis using assms(6) f by (auto simp: flt_less)
qed

lemma spaced_snoc:
  assumes "spaced n w gs" "n \<le> length gs \<Longrightarrow> flt (gs ! (length gs - n)) (fsub t w)" "0 < n"
  shows "spaced n w (gs @ [t])"
  unfolding spaced_def
proof (intro allI impI)
  fix i assume i: "i + n < length (gs @ [t])"
  show "flt ((gs @ [t]) ! i) (fsub ((gs @ [t]) ! (i + n)) w)"
  proof (cases "i + n = length gs")
    case True
    then have "i < length gs" "i = length gs - n" using assms(3) by simp_all
    then show ?thesis using True assms(2) by (simp add: nth_append)
  next
    case False
    then have "i + n < length gs" using i by simp
    then show ?thesis using assms(1) by (simp add: spaced_def nth_append)
  qed
qed

lemma bucket_try_fields [simp]:
  "rb_max (snd (bucket_try t b)) = rb_max b" "rb_window (snd (bucket_try t b)) = rb_window b"
  by (simp_all add: bucket_try_def Let_def split: list.split)

lemma bucket_try_inv:
  assumes inv: "bucket_inv b gs now" and t: "is_finite t" "now \<le> t"
  shows "bucket_inv (snd (bucket_try t b)) (gs @ (if fst (bucket_try t b) = Inr None then [t] else [])) t"
proof -
  let ?P = "\<lambda>x. flt x (fsub t (rb_window b))"
  define gone keep where "gone = takeWhile ?P (rb_timestamps b)" and "keep = dropWhile ?P (rb_timestamps b)"
  obtain old where old: "gs = old @ rb_timestamps b" "\<forall>x\<in>set old. flt x (fsub now (rb_window b))"
    using inv by (auto simp: bucket_inv_def)
  have ts: "rb_timestamps b = gone @ keep" by (simp add: gone_def keep_def)
  have gs: "gs = (old @ gone) @ keep" using old(1) ts by simp
  have fin: "is_finite now" "is_finite (rb_window b)" "list_all is_finite gs" "0 < rb_max b"
      "int (length (rb_timestamps b)) \<le> rb_max b" "spaced (nat (rb_max b)) (rb_window b) gs"
    using inv by (simp_all add: bucket_inv_def)
  have out: "\<forall>x\<in>set (old @ gone). ?P x"
  proof
    fix x assume x: "x \<in> set (old @ gone)"
    show "?P x"
    proof (cases "x \<in> set gone")
      case True
      then show ?thesis by (auto simp: gone_def dest: set_takeWhileD)
    next
      case False
      then have "x \<in> set old" using x by simp
      moreover have "is_finite x" using \<open>x \<in> set old\<close> fin(3) old(1) by (simp add: list_all_iff)
      ultimately show ?thesis using flt_later [OF fin(1,2) t] old(2) by blast
    qed
  qed
  have len: "int (length keep) \<le> rb_max b" using fin(5) ts by simp
  show ?thesis
  proof (cases "int (length keep) < rb_max b")
    case True
    have "flt (gs ! (length gs - nat (rb_max b))) (fsub t (rb_window b))" if "nat (rb_max b) \<le> length gs"
    proof -
      have "length gs - nat (rb_max b) < length (old @ gone)" using that True fin(4) by (simp add: gs)
      then show ?thesis using out nth_mem by (fastforce simp: gs nth_append simp del: append_assoc)
    qed
    then have "spaced (nat (rb_max b)) (rb_window b) (gs @ [t])" using fin(4,6) by (intro spaced_snoc) simp_all
    moreover have "bucket_try t b = (Inr None, b\<lparr>rb_timestamps := keep @ [t]\<rparr>)"
      using True by (simp add: bucket_try_def keep_def)
    moreover have "\<exists>old'. gs @ [t] = old' @ keep @ [t] \<and> (\<forall>x\<in>set old'. ?P x)"
      by (intro exI [of _ "old @ gone"] conjI) (use gs out in simp_all)
    ultimately show ?thesis using fin t True by (simp add: bucket_inv_def)
  next
    case False
    then have "fst (bucket_try t b) \<noteq> Inr None" "snd (bucket_try t b) = b\<lparr>rb_timestamps := keep\<rparr>"
      by (simp_all add: bucket_try_def keep_def Let_def split: list.split)
    moreover have "\<exists>old'. gs = old' @ keep \<and> (\<forall>x\<in>set old'. ?P x)"
      by (intro exI [of _ "old @ gone"] conjI) (use gs out in simp_all)
    ultimately show ?thesis using fin t len by (simp add: bucket_inv_def)
  qed
qed

lemma bucket_run_inv:
  assumes "bucket_inv b gs now" "clock (now # ticks)"
  shows "bucket_inv (snd (bucket_run b ticks)) (gs @ fst (bucket_run b ticks)) (last (now # ticks))"
  using assms
proof (induction ticks arbitrary: b gs now)
  case (Cons t ticks)
  have t: "is_finite t" "now \<le> t" "clock (t # ticks)" using Cons.prems(2) by (simp_all add: clock_def)
  obtain r b' where round: "bucket_try t b = (r, b')" by force
  have "bucket_inv b' (gs @ (if r = Inr None then [t] else [])) t"
    using bucket_try_inv [OF Cons.prems(1) t(1,2)] by (simp add: round)
  from Cons.IH [OF this t(3)] show ?case
    by (auto simp: round split: prod.splits sum.splits option.splits)
qed simp

lemma bucket_run_fields [simp]:
  "rb_max (snd (bucket_run b ticks)) = rb_max b \<and> rb_window (snd (bucket_run b ticks)) = rb_window b"
proof (induction ticks arbitrary: b)
  case (Cons t ticks)
  obtain r b' where round: "bucket_try t b = (r, b')" by force
  then have "rb_max b' = rb_max b" "rb_window b' = rb_window b" using bucket_try_fields [of t b] by simp_all
  moreover have "snd (bucket_run b (t # ticks)) = snd (bucket_run b' ticks)"
    by (simp add: round split: prod.split sum.split option.split)
  ultimately show ?case using Cons.IH [of b'] by simp
qed simp

lemma bucket_waits:
  assumes "bucket_inv b gs now" "fst (bucket_try t b) \<noteq> Inr None"
  obtains oldest rest where "rb_timestamps (snd (bucket_try t b)) = oldest # rest"
    "int (length (oldest # rest)) = rb_max b"
    "fst (bucket_try t b) = Inr (Some (fsub (fadd oldest (rb_window b)) t))"
proof -
  define keep where "keep = dropWhile (\<lambda>x. flt x (fsub t (rb_window b))) (rb_timestamps b)"
  have "length keep \<le> length (rb_timestamps b)" unfolding keep_def by (rule length_dropWhile_le)
  moreover have "\<not> int (length keep) < rb_max b"
    using assms(2) by (simp add: bucket_try_def keep_def Let_def split: if_splits)
  moreover have "int (length (rb_timestamps b)) \<le> rb_max b" "0 < rb_max b" using assms(1) by (simp_all add: bucket_inv_def)
  ultimately have len: "int (length keep) = rb_max b" "keep \<noteq> []" by auto
  obtain oldest rest where keep: "keep = oldest # rest" using len(2) by (cases keep) auto
  then show ?thesis
    using len(1) by (intro that [of oldest rest]) (simp_all add: bucket_try_def flip: keep_def)
qed

text \<open>A bucket whose oldest entry has left the window has room.\<close>

lemma bucket_room:
  assumes "rb_timestamps b = oldest # rest" "int (length (oldest # rest)) = rb_max b" "flt oldest (fsub t (rb_window b))"
  shows "fst (bucket_try t b) = Inr None"
proof -
  have "length (dropWhile (\<lambda>x. flt x (fsub t (rb_window b))) rest) \<le> length rest" by (rule length_dropWhile_le)
  then show ?thesis using assms by (simp add: bucket_try_def Let_def)
qed

text \<open>
  C10. As long as the clock does not step back, the OKX rate bucket keeps the venue's limit whatever
  the interleaving of its callers: of any
  \<open>n + 1\<close> requests let through one after the other, the last was let through more than a window
  after the first. A caller that is held back is told to wait for the oldest request to leave the
  window, and its next round lets it through when that has happened and nobody came before it.
\<close>

theorem rate_bucket_window:
  fixes w :: rat
  assumes "0 < n" "clock (ticks @ [t])"
  defines "b \<equiv> snd (bucket_run (new_bucket n (Fin w)) ticks)"
  shows "spaced (nat n) (Fin w) (fst (bucket_run (new_bucket n (Fin w)) (ticks @ [t])))
     \<and> (fst (bucket_try t b) \<noteq> Inr None \<longrightarrow>
         (\<exists>oldest. fst (bucket_try t b) = Inr (Some (fsub (fadd oldest (Fin w)) t))
            \<and> (\<forall>t'. flt oldest (fsub t' (Fin w)) \<longrightarrow> fst (bucket_try t' (snd (bucket_try t b))) = Inr None)))"
proof -
  let ?b0 = "new_bucket n (Fin w)"
  define start where "start = hd (ticks @ [t])"
  have "is_finite start" using assms(2) by (cases ticks) (simp_all add: clock_def start_def)
  then have inv0: "bucket_inv ?b0 [] start"
    using assms(1) by (simp add: bucket_inv_def new_bucket_def is_finite_def spaced_def)
  have clk: "clock (start # ticks @ [t])" "clock (start # ticks)"
    using assms(2) by (cases ticks; auto simp: clock_def start_def sorted_append)+
  have b: "rb_window b = Fin w" "rb_max b = n" by (simp_all add: b_def) (simp_all add: new_bucket_def)
  have inv: "bucket_inv b (fst (bucket_run ?b0 ticks)) (last (start # ticks))"
    using bucket_run_inv [OF inv0 clk(2)] by (simp add: b_def)
  have "\<exists>oldest. fst (bucket_try t b) = Inr (Some (fsub (fadd oldest (Fin w)) t))
            \<and> (\<forall>t'. flt oldest (fsub t' (Fin w)) \<longrightarrow> fst (bucket_try t' (snd (bucket_try t b))) = Inr None)"
    if held: "fst (bucket_try t b) \<noteq> Inr None"
  proof -
    obtain oldest rest where o: "rb_timestamps (snd (bucket_try t b)) = oldest # rest" "int (length (oldest # rest)) = rb_max b"
        "fst (bucket_try t b) = Inr (Some (fsub (fadd oldest (rb_window b)) t))"
      using bucket_waits [OF inv held] .
    show ?thesis using o bucket_room [OF o(1)] by (intro exI [of _ oldest]) (simp add: b)
  qed
  then show ?thesis
    using bucket_run_inv [OF inv0 clk(1)] by (simp add: bucket_inv_def) (simp add: new_bucket_def)
qed

lemma rate_bucket_window_witness:
  "spaced 2 (Fin 2) (fst (bucket_run (new_bucket 2 (Fin 2)) [Fin 1, Fin 2, Fin 3, Fin 5]))"
proof -
  have "(0 :: int) < 2" "clock ([Fin 1, Fin 2, Fin 3] @ [Fin 5])" by (simp_all add: clock_def is_finite_def)
  from rate_bucket_window [OF this, of 2] show ?thesis by simp
qed

end
