(* ===== verification/Okx.thy ===== *)
theory Okx
  imports Contracts RateBucket
begin

text \<open>
  The read methods of the OKX adapter, \<^verbatim>\<open>exchange_router/exchanges/okx/adapter.py\<close>. Linear
  contracts are quoted in contracts and turned into coins by their multiplier.
\<close>

section \<open>Symbols and funding intervals\<close>

definition okx_named :: "pyval \<Rightarrow> market_type \<Rightarrow> string res" where
  "okx_named v mt = bindr (as_string ''upper'' v) (\<lambda>s. Inr (okx_get_model_symbol s mt))"

text \<open>The first of the \<open>quotes\<close> that ends \<open>s\<close> is cut off.\<close>

fun okx_cut_quote :: "string list \<Rightarrow> string \<Rightarrow> string" where
  "okx_cut_quote [] s = s"
| "okx_cut_quote (q # qs) s = (if ends_with s q \<and> length q < length s then chop (length q) s else okx_cut_quote qs s)"

definition okx_base_ccy :: "string \<Rightarrow> market_type \<Rightarrow> string" where
  "okx_base_ccy symbol mt =
     (let s = okx_normalize_symbol symbol in
      if mt = Inverse then okx_cut_quote [''USD''] s
      else okx_cut_quote [''USDT'', ''USDC'', ''USD'', ''EUR'', ''GBP'', ''DAI''] s)"

definition okx_inst_type :: "market_type \<Rightarrow> string" where
  "okx_inst_type mt = (if mt = Spot then ''SPOT'' else ''SWAP'')"

definition okx_family :: "string \<Rightarrow> string" where
  "okx_family api_symbol = remove_sub ''-SWAP'' api_symbol"

definition okx_default_interval :: int where "okx_default_interval = 8 * 3600000"

definition okx_interval_of :: "pyval \<Rightarrow> int res" where
  "okx_interval_of item =
     (case bindr (bindr (py_get_or item ''nextFundingTime'' (PInt 0)) py_int) (\<lambda>next_ms.
           bindr (bindr (py_get_or item ''fundingTime'' (PInt 0)) py_int) (\<lambda>cur_ms.
           Inr (if cur_ms < next_ms \<and> 0 < cur_ms then next_ms - cur_ms else okx_default_interval))) of
        Inl e \<Rightarrow> if row_error e then Inr okx_default_interval else Inl e
      | Inr n \<Rightarrow> Inr n)"

text \<open>\<open>_funding_interval_ms_for\<close> over the cache of the adapter and the outside world.\<close>

definition okx_funding_interval :: "(string \<Rightarrow> (string \<times> pyval) list \<Rightarrow> ('w, pyexc, pyval) io) \<Rightarrow> string \<Rightarrow>
    ((string, int) dict \<times> 'w, pyexc, int) io" where
  "okx_funding_interval request inst_id world = (case world of (cache, w) \<Rightarrow>
     (case dget cache inst_id of
        Some n \<Rightarrow> (Inr n, (cache, w))
      | None \<Rightarrow>
          (case request ''/api/v5/public/funding-rate'' [(''instId'', PStr inst_id)] w of
             (Inl e, w) \<Rightarrow> (if is_exception e then Inr okx_default_interval else Inl e, (cache, w))
           | (Inr data, w) \<Rightarrow>
               (case (case data of PList items \<Rightarrow> items | _ \<Rightarrow> []) of
                  [] \<Rightarrow> (Inr okx_default_interval, (cache, w))
                | item # _ \<Rightarrow>
                    (case okx_interval_of item of
                       Inl e \<Rightarrow> (Inl e, (cache, w))
                     | Inr n \<Rightarrow> (Inr n, (dset cache inst_id n, w)))))))"

section \<open>Tickers\<close>

text \<open>\<open>data[0]\<close> of an answer that is not empty.\<close>

definition okx_first :: "string \<Rightarrow> pyval \<Rightarrow> pyval res" where
  "okx_first missing data = (if \<not> truthy data then Inl (ValueError missing) else py_index data 0)"

definition okx_change :: "pyfloat \<Rightarrow> pyfloat \<Rightarrow> pyfloat res" where
  "okx_change price open_24h =
     (if open_24h = Fin 0 then Inr (Fin 0)
      else bindr (fdiv (fsub price open_24h) open_24h) (\<lambda>r. Inr (fmul r (Fin 100))))"

definition okx_moves :: "pyval \<Rightarrow> (pyfloat \<times> pyfloat \<times> pyfloat) res" where
  "okx_moves t =
     bindr (get_or_zero t ''last'') (\<lambda>price.
     bindr (get_or_zero t ''open24h'') (\<lambda>open_24h.
     bindr (okx_change price open_24h) (\<lambda>pct. Inr (price, open_24h, pct))))"

definition okx_ticker :: "(string \<Rightarrow> int option) \<Rightarrow> market_type \<Rightarrow> string \<Rightarrow> symbol_info option \<Rightarrow> pyval \<Rightarrow>
    pyfloat \<times> pyfloat \<times> pyfloat \<Rightarrow> ticker res" where
  "okx_ticker iso_ms mt model_sym info t moves = (case moves of (price, open_24h, pct) \<Rightarrow>
     bindr (get_or_zero t (if mt = Linear then ''volCcy24h'' else ''vol24h'')) (\<lambda>vol_native.
     bindr (get_or_zero t ''high24h'') (\<lambda>high_24h.
     bindr (get_or_zero t ''low24h'') (\<lambda>low_24h.
     bindr (build_volume_value vol_native (if mt = Inverse then ''contract'' else ''base'')
       (if mt = Inverse then contract_size_of info else None) price) (\<lambda>volume.
     bindr (bindr (py_item t ''ts'') (normalize_timestamp iso_ms)) (\<lambda>ts.
     Inr \<lparr>tk_symbol = model_sym, tk_market_type = mt, tk_quote = quote_of info, tk_price = price,
       tk_open_24h = open_24h, tk_high_24h = high_24h, tk_low_24h = low_24h, tk_volume_24h = volume,
       tk_price_change_percent = pct, tk_timestamp = ts\<rparr>))))))"

definition okx_get_ticker :: "'w contract_env \<Rightarrow> market_type \<Rightarrow> string \<Rightarrow> ('w, pyexc, ticker) io" where
  "okx_get_ticker env mt symbol =
     bindw (ce_resolve env mt symbol) (\<lambda>api_symbol.
     bindw (ce_request env ''/api/v5/market/ticker'' [(''instId'', PStr api_symbol)]) (\<lambda>data.
     bindw (liftw (okx_first (''Symbol '' @ api_symbol @ '' not found'') data)) (\<lambda>t.
     bindw (liftw (okx_moves t)) (\<lambda>moves.
     bindw (liftw (bindr (py_item t ''instId'') (\<lambda>v. okx_named v mt))) (\<lambda>model_sym.
     bindw (ce_info env mt model_sym) (\<lambda>info.
     liftw (okx_ticker (ce_iso env) mt model_sym info t moves)))))))"

definition okx_book_ticker :: "(string \<Rightarrow> int option) \<Rightarrow> market_type \<Rightarrow> string \<Rightarrow> symbol_info option \<Rightarrow> pyfloat option \<Rightarrow> pyval \<Rightarrow>
    (pyfloat \<times> pyfloat) \<times> (pyfloat \<times> pyfloat) \<Rightarrow> book_ticker res" where
  "okx_book_ticker iso_ms mt model_sym info multiplier t quotes = (case quotes of ((bid_price, bid_raw), (ask_price, ask_raw)) \<Rightarrow>
     bindr (contract_qty mt multiplier (contract_size_of info) bid_raw bid_price) (\<lambda>bid_qty.
     bindr (contract_qty mt multiplier (contract_size_of info) ask_raw ask_price) (\<lambda>ask_qty.
     bindr (bindr (py_item t ''ts'') (normalize_timestamp iso_ms)) (\<lambda>ts.
     Inr \<lparr>bt_symbol = model_sym, bt_market_type = mt, bt_quote = quote_of info, bt_bid_price = bid_price,
       bt_bid_qty = bid_qty, bt_ask_price = ask_price, bt_ask_qty = ask_qty, bt_timestamp = ts\<rparr>))))"

text \<open>The market multiplier is asked for before the quotes are read and missed after.\<close>

definition okx_get_book_ticker :: "'w contract_env \<Rightarrow> market_type \<Rightarrow> string \<Rightarrow> ('w, pyexc, book_ticker) io" where
  "okx_get_book_ticker env mt symbol =
     bindw (ce_resolve env mt symbol) (\<lambda>api_symbol.
     bindw (ce_request env ''/api/v5/market/ticker'' [(''instId'', PStr api_symbol)]) (\<lambda>data.
     bindw (liftw (okx_first (''Symbol '' @ api_symbol @ '' not found'') data)) (\<lambda>t.
     bindw (liftw (bindr (py_item t ''instId'') (\<lambda>v. okx_named v mt))) (\<lambda>model_sym.
     bindw (ce_info env mt model_sym) (\<lambda>info.
     bindw (ce_multiplier env mt model_sym) (\<lambda>multiplier.
     liftw (
       bindr (get_or_zero t ''bidPx'') (\<lambda>bid_price.
       bindr (get_or_zero t ''askPx'') (\<lambda>ask_price.
       bindr (get_or_zero t ''bidSz'') (\<lambda>bid_raw.
       bindr (get_or_zero t ''askSz'') (\<lambda>ask_raw.
       if mt = Linear \<and> multiplier = None
       then Inl (ValueError (''Contract multiplier unavailable for '' @ model_sym @ '' on OKX linear''))
       else okx_book_ticker (ce_iso env) mt model_sym info multiplier t ((bid_price, bid_raw), (ask_price, ask_raw)))))))))))))"

section \<open>Order book and trades\<close>

definition okx_levels :: "market_type \<Rightarrow> pyfloat option \<Rightarrow> pyval \<Rightarrow> string \<Rightarrow> pyfloat list list res" where
  "okx_levels mt multiplier b k =
     bindr (bindr (py_get_or b k (PList [])) py_iter) (mapr (case (mt, multiplier) of
       (Linear, Some m) \<Rightarrow> scaled_level m | _ \<Rightarrow> plain_level))"

definition okx_get_orderbook :: "'w contract_env \<Rightarrow> market_type \<Rightarrow> string \<Rightarrow> int \<Rightarrow> ('w, pyexc, order_book) io" where
  "okx_get_orderbook env mt symbol depth =
     bindw (ce_resolve env mt symbol) (\<lambda>api_symbol.
     bindw (liftw (bindr (cap_field okx_capabilities mt ''orderbook'' ''max_depth'') py_int)) (\<lambda>max_depth.
     bindw (ce_request env ''/api/v5/market/books'' [(''instId'', PStr api_symbol), (''sz'', PInt (max 1 (min depth max_depth)))]) (\<lambda>data.
     bindw (liftw (okx_first (''Orderbook not found for '' @ api_symbol) data)) (\<lambda>b.
     let model_sym = okx_get_model_symbol api_symbol mt in
     bindw (ce_info env mt model_sym) (\<lambda>info.
     bindw (checked_multiplier env ''OKX'' mt model_sym) (\<lambda>multiplier.
     liftw (
       bindr (okx_levels mt multiplier b ''bids'') (\<lambda>bids.
       bindr (okx_levels mt multiplier b ''asks'') (\<lambda>asks.
       bindr (bindr (py_item b ''ts'') (normalize_timestamp (ce_iso env))) (\<lambda>ts.
       Inr \<lparr>ob_symbol = model_sym, ob_market_type = mt, ob_quote = quote_of info, ob_bids = bids, ob_asks = asks,
         ob_qty_unit = unit_of_market mt, ob_timestamp = ts\<rparr>))))))))))"

definition okx_trade :: "(string \<Rightarrow> int option) \<Rightarrow> market_type \<Rightarrow> string \<Rightarrow> symbol_info option \<Rightarrow> pyfloat option \<Rightarrow> pyval \<Rightarrow> trade res" where
  "okx_trade iso_ms mt model_sym info multiplier t =
     bindr (item_float t ''px'') (\<lambda>price.
     bindr (item_float t ''sz'') (\<lambda>sz_raw.
     bindr (item_text t ''tradeId'') (\<lambda>tid.
     bindr (contract_qty mt multiplier (contract_size_of info) sz_raw price) (\<lambda>qty.
     bindr (py_item t ''side'') (\<lambda>side_raw.
     bindr (bindr (py_item t ''ts'') (normalize_timestamp iso_ms)) (\<lambda>ts.
     bindr (field_side side_raw) (\<lambda>taker.
     Inr \<lparr>td_id = Some tid, td_symbol = model_sym, td_market_type = mt, td_quote = quote_of info, td_price = price,
       td_qty = qty, td_side = taker, td_timestamp = ts\<rparr>)))))))"

definition okx_get_trades :: "'w contract_env \<Rightarrow> market_type \<Rightarrow> string \<Rightarrow> int \<Rightarrow> ('w, pyexc, trade list) io" where
  "okx_get_trades env mt symbol limit =
     bindw (ce_resolve env mt symbol) (\<lambda>api_symbol.
     bindw (liftw (bindr (cap_field okx_capabilities mt ''trades'' ''max_limit'') py_int)) (\<lambda>max_limit.
     bindw (ce_request env ''/api/v5/market/trades'' [(''instId'', PStr api_symbol), (''limit'', PInt (min limit max_limit))]) (\<lambda>data.
     let model_sym = okx_get_model_symbol api_symbol mt in
     bindw (ce_info env mt model_sym) (\<lambda>info.
     bindw (checked_multiplier env ''OKX'' mt model_sym) (\<lambda>multiplier.
     bindw (parsed_rows (okx_trade (ce_iso env) mt model_sym info multiplier) data) (\<lambda>trades.
     retw (slice_last limit (sort_key td_timestamp trades))))))))"

definition okx_get_agg_trades :: "market_type \<Rightarrow> ('w, pyexc, agg_trade list) io" where
  "okx_get_agg_trades mt = liftw (Inl (not_supported ''okx'' ''agg_trades'' mt))"

section \<open>History\<close>

text \<open>\<open>after\<close> is exclusive, so a page that ends at a time asks for what is before the next millisecond.\<close>

definition okx_after :: "int option \<Rightarrow> (string \<times> pyval) list" where
  "okx_after a = (case a of Some t \<Rightarrow> if t \<noteq> 0 then [(''after'', PStr (show_int (t + 1)))] else [] | None \<Rightarrow> [])"

definition okx_end :: "int option \<Rightarrow> (string \<times> pyval) list" where
  "okx_end a = (case a of Some t \<Rightarrow> if t \<noteq> 0 then [(''end'', PStr (show_int t))] else [] | None \<Rightarrow> [])"

definition okx_candle :: "(string \<Rightarrow> int option) \<Rightarrow> market_type \<Rightarrow> string \<Rightarrow> symbol_info option \<Rightarrow> string \<Rightarrow> pyval \<Rightarrow> candle list res" where
  "okx_candle iso_ms mt model_sym info interval r =
     (if \<not> list_with 6 r then Inr []
      else skip_row row_or_key_error (
        bindr (bindr (py_index r 0) (normalize_timestamp iso_ms)) (\<lambda>ts.
        if ts \<le> 0 then Inr []
        else
          bindr (index_float r 4) (\<lambda>close.
          bindr (index_float r (if mt = Linear \<and> list_with 7 r then 6 else 5)) (\<lambda>vol_native.
          bindr (index_float r 1) (\<lambda>opening.
          bindr (index_float r 2) (\<lambda>high.
          bindr (index_float r 3) (\<lambda>low.
          bindr (build_volume_value vol_native (if mt = Inverse then ''contract'' else ''base'')
            (if mt = Inverse then contract_size_of info else None) close) (\<lambda>volume.
          Inr [\<lparr>cd_symbol = model_sym, cd_market_type = mt, cd_quote = quote_of info, cd_interval = interval,
            cd_timestamp = ts, cd_open = opening, cd_high = high, cd_low = low, cd_close = close, cd_volume = volume\<rparr>])))))))))"

definition okx_candles :: "(pyval \<Rightarrow> candle list res) \<Rightarrow> pyval \<Rightarrow> candle list res" where
  "okx_candles row data = (case data of
       PList rows \<Rightarrow> bindr (rows_of row rows) (\<lambda>cs. Inr (sort_key cd_timestamp cs))
     | _ \<Rightarrow> Inr [])"

definition okx_candle_page :: "'w contract_env \<Rightarrow> (pyval \<Rightarrow> candle list res) \<Rightarrow> string \<Rightarrow> int \<Rightarrow> string \<Rightarrow> string \<Rightarrow> int option \<Rightarrow>
    int option \<Rightarrow> int \<Rightarrow> ('w, pyexc, candle list) io" where
  "okx_candle_page env row path most api_symbol bar start_time end_ts l =
     bindw (ce_request env path ([(''instId'', PStr api_symbol), (''bar'', PStr bar), (''limit'', PInt (min l most))]
       @ okx_after (anchor end_ts start_time))) (\<lambda>data.
     liftw (okx_candles row data))"

text \<open>\<open>sorted({c.timestamp: c for c in ...}.values(), key=...)\<close>\<close>

definition okx_merge :: "candle list \<Rightarrow> candle list" where
  "okx_merge cs = sort_key cd_timestamp (dvalues (dict_of (map (\<lambda>c. (cd_timestamp c, c)) cs) []))"

text \<open>
  Candles of the recent route first, older ones from the history route, which ends before the
  oldest recent one.
\<close>

definition okx_get_candles :: "'w contract_env \<Rightarrow> market_type \<Rightarrow> string \<Rightarrow> string \<Rightarrow> int option \<Rightarrow> int \<Rightarrow> ('w, pyexc, candle list) io" where
  "okx_get_candles env mt symbol interval start_time limit =
     bindw (ce_resolve env mt symbol) (\<lambda>api_symbol.
     let bar = okx_map_candle_interval interval; model_sym = okx_get_model_symbol api_symbol mt in
     bindw (ce_info env mt model_sym) (\<lambda>info.
     let row = okx_candle (ce_iso env) mt model_sym info interval;
         recent = okx_candle_page env row ''/api/v5/market/candles'' 300 api_symbol bar start_time;
         history = okx_candle_page env row ''/api/v5/market/history-candles'' 100 api_symbol bar start_time in
     if start_time = None \<and> limit \<le> 300
     then bindw (recent None limit) (\<lambda>rows. retw (slice_last limit rows))
     else
       bindw (recent None (min limit 300)) (\<lambda>recent_batch.
       if recent_batch = [] then paginate_backwards history cd_timestamp (\<lambda>r. r) limit 100
       else if limit \<le> int (length recent_batch) then retw (slice_last limit recent_batch)
       else
         let oldest_recent = cd_timestamp (hd recent_batch) in
         bindw (paginate_backwards
             (\<lambda>end_ts l. history (Some (case end_ts of Some e \<Rightarrow> e | None \<Rightarrow> oldest_recent - 1)) l)
             cd_timestamp (\<lambda>r. r) (limit - int (length recent_batch)) 100) (\<lambda>history_batch.
         retw (slice_last limit (okx_merge (history_batch @ recent_batch)))))))"

definition okx_funding_row :: "(string \<Rightarrow> int option) \<Rightarrow> market_type \<Rightarrow> string \<Rightarrow> symbol_info option \<Rightarrow> int \<Rightarrow> pyval \<Rightarrow> funding_rate res" where
  "okx_funding_row iso_ms mt model_sym info cycle_ms r =
     bindr (bindr (item_float r ''fundingRate'') (\<lambda>x. build_funding_historical ''discrete'' x cycle_ms)) (\<lambda>rate.
     bindr (bindr (py_item r ''fundingTime'') (normalize_timestamp iso_ms)) (\<lambda>ts.
     Inr \<lparr>fr_symbol = model_sym, fr_market_type = mt, fr_quote = quote_of info, fr_rate = rate, fr_timestamp = ts\<rparr>))"

definition okx_get_funding_rate :: "'w contract_env \<Rightarrow> market_type \<Rightarrow> string \<Rightarrow> int option \<Rightarrow> int \<Rightarrow> ('w, pyexc, funding_rate list) io" where
  "okx_get_funding_rate env mt symbol start_time limit =
     (if mt = Spot then liftw (Inl (not_supported ''okx'' ''funding_rate'' mt))
      else
        bindw (ce_resolve env mt symbol) (\<lambda>api_symbol.
        bindw (ce_cycle env mt api_symbol) (\<lambda>cycle.
        let cycle_ms = (case cycle of Some c \<Rightarrow> c | None \<Rightarrow> okx_default_interval);
            model_sym = okx_get_model_symbol api_symbol mt in
        bindw (ce_info env mt model_sym) (\<lambda>info.
        paged_history 100 (\<lambda>end_ts l.
            bindw (ce_request env ''/api/v5/public/funding-rate-history'' ([(''instId'', PStr api_symbol), (''limit'', PInt (min l 100))]
              @ okx_after (anchor end_ts start_time))) (\<lambda>data.
            bindw (parsed_rows (okx_funding_row (ce_iso env) mt model_sym info cycle_ms) data) (\<lambda>rows.
            retw (sort_key fr_timestamp rows))))
          fr_timestamp start_time limit))))"

text \<open>A row of the statistics routes, skipped when it is short, undated or does not read.\<close>

definition okx_stat_row :: "(string \<Rightarrow> int option) \<Rightarrow> (pyval \<Rightarrow> int \<Rightarrow> 'a res) \<Rightarrow> pyval \<Rightarrow> 'a list res" where
  "okx_stat_row iso_ms value r =
     (if \<not> list_with 2 r then Inr []
      else skip_row row_error (
        bindr (bindr (py_index r 0) (normalize_timestamp iso_ms)) (\<lambda>ts.
        if ts \<le> 0 then Inr [] else bindr (value r ts) (\<lambda>x. Inr [x]))))"

definition okx_open_interest :: "market_type \<Rightarrow> string \<Rightarrow> symbol_info option \<Rightarrow> string \<Rightarrow> pyval \<Rightarrow> int \<Rightarrow> open_interest res" where
  "okx_open_interest mt model_sym info period r ts =
     (let in_base = (mt = Linear \<and> list_with 3 r) in
      bindr (index_float r (if in_base then 2 else 1)) (\<lambda>native_value.
      bindr (build_oi_value native_value (if in_base then ''base'' else ''contract'')
        (if in_base then None else contract_size_of info) None None) (\<lambda>oi.
      Inr \<lparr>oi_symbol = model_sym, oi_market_type = mt, oi_quote = quote_of info, oi_interval = period,
        oi_open_interest = oi, oi_timestamp = ts\<rparr>)))"

definition okx_get_open_interest :: "'w contract_env \<Rightarrow> market_type \<Rightarrow> string \<Rightarrow> string \<Rightarrow> int option \<Rightarrow> int \<Rightarrow>
    ('w, pyexc, open_interest list) io" where
  "okx_get_open_interest env mt symbol period start_time limit =
     (if mt = Spot then liftw (Inl (not_supported ''okx'' ''open_interest'' mt))
      else
        bindw (ce_resolve env mt symbol) (\<lambda>api_symbol.
        let model_sym = okx_get_model_symbol api_symbol mt in
        bindw (ce_info env mt model_sym) (\<lambda>info.
        paged_history 100 (\<lambda>end_ts l.
            bindw (ce_request env ''/api/v5/rubik/stat/contracts/open-interest-history''
              ([(''instId'', PStr api_symbol), (''period'', PStr (okx_map_candle_interval period)), (''limit'', PInt (min l 100))]
               @ okx_end (anchor end_ts start_time))) (\<lambda>data.
            liftw (bindr (bindr (py_iter data) (rows_of (okx_stat_row (ce_iso env) (okx_open_interest mt model_sym info period))))
              (\<lambda>rows. Inr (sort_key oi_timestamp rows)))))
          oi_timestamp start_time limit)))"

definition okx_ratio :: "market_type \<Rightarrow> string \<Rightarrow> string \<Rightarrow> pyval \<Rightarrow> int \<Rightarrow> long_short_ratio res" where
  "okx_ratio mt model_sym period r ts =
     bindr (index_float r 1) (\<lambda>ratio.
     Inr \<lparr>ls_symbol = model_sym, ls_market_type = mt, ls_interval = period, ls_ratio = ratio, ls_long_account = None,
       ls_short_account = None, ls_account_scope = Opaque, ls_timestamp = ts\<rparr>)"

definition okx_get_long_short_ratio :: "'w contract_env \<Rightarrow> market_type \<Rightarrow> string \<Rightarrow> string \<Rightarrow> int option \<Rightarrow> int \<Rightarrow>
    ('w, pyexc, long_short_ratio list) io" where
  "okx_get_long_short_ratio env mt symbol period start_time limit =
     (if mt = Spot then liftw (Inl (not_supported ''okx'' ''long_short_ratio'' mt))
      else
        let model_sym = okx_get_model_symbol (okx_get_api_symbol [] symbol mt) mt in
        paged_history 100 (\<lambda>end_ts l.
            bindw (ce_request env ''/api/v5/rubik/stat/contracts/long-short-account-ratio''
              ([(''ccy'', PStr (okx_base_ccy symbol mt)), (''period'', PStr (okx_map_candle_interval period)), (''limit'', PInt (min l 100))]
               @ okx_end (anchor end_ts start_time))) (\<lambda>data.
            liftw (bindr (bindr (py_iter data) (rows_of (okx_stat_row (ce_iso env) (okx_ratio mt model_sym period))))
              (\<lambda>rows. Inr (sort_key ls_timestamp rows)))))
          ls_timestamp start_time limit)"

end
