(* ===== verification/OkxMeta.thy ===== *)
theory OkxMeta
  imports Okx
begin

text \<open>
  The rest of the reads of the OKX adapter, \<^verbatim>\<open>exchange_router/exchanges/okx/adapter.py\<close>: mark
  prices with their funding, liquidations, instrument metadata and margin tiers.
\<close>

section \<open>Mark price\<close>

text \<open>The rate and the next funding time of the funding answer, which may be empty.\<close>

definition okx_funding_quote :: "(string \<Rightarrow> int option) \<Rightarrow> pyval \<Rightarrow> (pyfloat option \<times> int option) res" where
  "okx_funding_quote iso_ms f_data =
     (if \<not> truthy f_data then Inr (None, None)
      else
        bindr (py_index f_data 0) (\<lambda>f.
        bindr (py_get f ''fundingRate'') (\<lambda>rate_raw.
        bindr (if rate_raw = PNone then Inr None else bindr (py_float rate_raw) (\<lambda>x. Inr (Some x))) (\<lambda>rate.
        bindr (get_else f ''nextFundingTime'' (PInt 0)) (\<lambda>nft_raw.
        bindr (if \<not> truthy nft_raw then Inr None
               else bindr (normalize_timestamp iso_ms nft_raw) (\<lambda>n. Inr (if 0 < n then Some n else None))) (\<lambda>next_funding.
        Inr (rate, next_funding)))))))"

fun index_missing :: "pyexc \<Rightarrow> bool" where
  "index_missing (HTTPStatusError s t) = True"
| "index_missing e = is_value_error e"

text \<open>The index price is left out when it cannot be read.\<close>

definition okx_index_price :: "'w contract_env \<Rightarrow> string \<Rightarrow> ('w, pyexc, pyfloat option) io" where
  "okx_index_price env api_symbol =
     tryw
       (bindw (ce_request env ''/api/v5/market/index-tickers'' [(''instId'', PStr (okx_family api_symbol))]) (\<lambda>i_data.
        liftw (if \<not> truthy i_data then Inr None
               else bindr (py_index i_data 0) (\<lambda>i. bindr (py_get i ''idxPx'') (\<lambda>idx_raw.
                 if idx_raw = PNone then Inr None else bindr (py_float idx_raw) (\<lambda>x. Inr (Some x)))))))
       (\<lambda>e. if index_missing e then retw None else liftw (Inl e))"

definition okx_mark_price :: "(string \<Rightarrow> int option) \<Rightarrow> market_type \<Rightarrow> string \<Rightarrow> symbol_info option \<Rightarrow> int option \<Rightarrow>
    pyfloat option \<times> int option \<Rightarrow> pyfloat option \<Rightarrow> pyval \<Rightarrow> mark_price res" where
  "okx_mark_price iso_ms mt model_sym info cycle_ms funding index_price m =
     bindr (bindr (py_item m ''ts'') (normalize_timestamp iso_ms)) (\<lambda>ts.
     bindr (case (fst funding, cycle_ms, snd funding) of
         (Some rate, Some cycle, Some next_funding) \<Rightarrow>
           bindr (build_funding_current ''discrete'' rate cycle (max next_funding (ts + 1))) (\<lambda>f. Inr (Some f))
       | _ \<Rightarrow> Inr None) (\<lambda>funding_block.
     bindr (item_float m ''markPx'') (\<lambda>mark.
     MarkPrice model_sym mt (quote_of info) mark index_price funding_block ts)))"

definition okx_get_mark_price :: "'w contract_env \<Rightarrow> market_type \<Rightarrow> string \<Rightarrow> ('w, pyexc, mark_price) io" where
  "okx_get_mark_price env mt symbol =
     (if mt = Spot then liftw (Inl (not_supported ''okx'' ''mark_price'' mt))
      else
        bindw (ce_resolve env mt symbol) (\<lambda>api_symbol.
        bindw (ce_request env ''/api/v5/public/mark-price'' [(''instType'', PStr ''SWAP''), (''instId'', PStr api_symbol)]) (\<lambda>mark_data.
        bindw (liftw (okx_first (''Mark price not found for '' @ api_symbol) mark_data)) (\<lambda>m.
        bindw (liftw (bindr (py_item m ''instId'') (\<lambda>v. okx_named v mt))) (\<lambda>model_sym.
        bindw (ce_info env mt model_sym) (\<lambda>info.
        bindw (ce_cycle env mt api_symbol) (\<lambda>cycle_ms.
        bindw (ce_request env ''/api/v5/public/funding-rate'' [(''instId'', PStr api_symbol)]) (\<lambda>f_data.
        bindw (liftw (okx_funding_quote (ce_iso env) f_data)) (\<lambda>funding.
        bindw (okx_index_price env api_symbol) (\<lambda>index_price.
        liftw (okx_mark_price (ce_iso env) mt model_sym info cycle_ms funding index_price m)))))))))))"

section \<open>Liquidations\<close>

text \<open>One detail: other sides than buying and selling are left out.\<close>

definition okx_liquidation :: "(string \<Rightarrow> int option) \<Rightarrow> market_type \<Rightarrow> string \<Rightarrow> symbol_info option \<Rightarrow> pyfloat option \<Rightarrow> pyval \<Rightarrow>
    liquidation list res" where
  "okx_liquidation iso_ms mt model_sym info multiplier d =
     bindr (bindr (py_get_or d ''side'' (PStr [])) (as_string ''lower'')) (\<lambda>side_raw.
     if lower side_raw \<noteq> ''buy'' \<and> lower side_raw \<noteq> ''sell'' then Inr []
     else
       bindr (item_float d ''bkPx'') (\<lambda>price.
       bindr (item_float d ''sz'') (\<lambda>sz_raw.
       bindr (contract_qty mt multiplier (contract_size_of info) sz_raw price) (\<lambda>qty.
       bindr (bindr (py_item d ''ts'') (normalize_timestamp iso_ms)) (\<lambda>ts.
       bindr (side_of (lower side_raw)) (\<lambda>taker.
       Inr [\<lparr>lq_symbol = model_sym, lq_market_type = mt, lq_quote = quote_of info, lq_side = taker,
         lq_price = price, lq_qty = qty, lq_timestamp = ts\<rparr>]))))))"

text \<open>The details of the entries that are about the instrument.\<close>

definition okx_details :: "string \<Rightarrow> pyval \<Rightarrow> pyval list res" where
  "okx_details api_symbol entry =
     bindr (py_get entry ''instId'') (\<lambda>inst.
     if inst \<noteq> PStr api_symbol then Inr []
     else bindr (py_get_or entry ''details'' (PList [])) py_iter)"

definition okx_liquidations :: "(pyval \<Rightarrow> liquidation list res) \<Rightarrow> string \<Rightarrow> pyval \<Rightarrow> liquidation list res" where
  "okx_liquidations row api_symbol data =
     bindr (bindr (py_iter data) (rows_of (\<lambda>entry. bindr (okx_details api_symbol entry) (rows_of row)))) (\<lambda>ls.
     Inr (sort_key lq_timestamp ls))"

definition okx_liquidation_page :: "'w contract_env \<Rightarrow> (pyval \<Rightarrow> liquidation list res) \<Rightarrow> string \<Rightarrow> int option \<Rightarrow> int option \<Rightarrow> int \<Rightarrow>
    ('w, pyexc, liquidation list) io" where
  "okx_liquidation_page env row api_symbol start_time end_ts l =
     bindw (tryw
         (bindw (ce_request env ''/api/v5/public/liquidation-orders'' ([(''instType'', PStr ''SWAP''), (''uly'', PStr (okx_family api_symbol)),
            (''state'', PStr ''filled''), (''limit'', PInt (min l 100))] @ okx_after (anchor end_ts start_time)))
          (\<lambda>rows. retw (Some rows)))
         (\<lambda>e. if index_missing e then retw None else liftw (Inl e))) (\<lambda>answer.
     case answer of None \<Rightarrow> retw [] | Some rows \<Rightarrow> liftw (okx_liquidations row api_symbol rows))"

definition okx_get_liquidations :: "'w contract_env \<Rightarrow> market_type \<Rightarrow> string \<Rightarrow> int option \<Rightarrow> int \<Rightarrow> ('w, pyexc, liquidation list) io" where
  "okx_get_liquidations env mt symbol start_time limit =
     (if mt = Spot then liftw (Inl (not_supported ''okx'' ''liquidations'' mt))
      else
        bindw (ce_resolve env mt symbol) (\<lambda>api_symbol.
        let model_sym = okx_get_model_symbol api_symbol mt in
        bindw (ce_info env mt model_sym) (\<lambda>info.
        bindw (checked_multiplier env ''OKX'' mt model_sym) (\<lambda>multiplier.
        paged_history 100 (okx_liquidation_page env (okx_liquidation (ce_iso env) mt model_sym info multiplier) api_symbol start_time)
          lq_timestamp start_time limit))))"

section \<open>Instrument metadata\<close>

definition okx_listed :: "market_type \<Rightarrow> pyval \<Rightarrow> bool res" where
  "okx_listed mt s =
     bindr (py_get s ''state'') (\<lambda>state.
     if state \<noteq> PStr ''live'' then Inr False
     else if mt = Spot then Inr True
     else bindr (py_get s ''ctType'') (\<lambda>c. Inr (c = PStr (if mt = Linear then ''linear'' else ''inverse''))))"

text \<open>Base and quote asset; an instrument that misses one is left out.\<close>

definition okx_assets :: "market_type \<Rightarrow> pyval \<Rightarrow> (pyval \<times> pyval) option res" where
  "okx_assets mt s =
     bindr (if mt = Spot
            then bindr (py_get s ''baseCcy'') (\<lambda>b. bindr (py_get s ''quoteCcy'') (\<lambda>q. Inr (b, q)))
            else bindr (bindr (py_get_or s ''uly'' (PStr [])) (as_string ''split'')) (\<lambda>uly.
              case split_all CHR ''-'' uly of
                b # q # _ \<Rightarrow> Inr (PStr b, PStr q)
              | _ \<Rightarrow> Inr (PNone, PNone))) (\<lambda>(b, q).
     Inr (if truthy b \<and> truthy q then Some (b, q) else None))"

definition okx_multiplier :: "market_type \<Rightarrow> pyval \<Rightarrow> pyfloat option res" where
  "okx_multiplier mt s =
     (if mt = Spot then Inr None
      else bindr (py_get s ''ctVal'') (\<lambda>raw_value.
        if raw_value = PNone then Inr None
        else case py_float raw_value of
          Inr m \<Rightarrow> Inr (Some m)
        | Inl e \<Rightarrow> if row_error e then Inr None else Inl e))"

definition okx_qty_precision :: "market_type \<Rightarrow> pyfloat option \<Rightarrow> pyval \<Rightarrow> int res" where
  "okx_qty_precision mt multiplier lot_raw =
     (case (mt, multiplier) of
        (Linear, Some m) \<Rightarrow>
          (case bindr (py_float lot_raw) (\<lambda>x. step_decimals (PStr (format_fixed 10 (fmul x m)))) of
             Inl e \<Rightarrow> if row_error e then step_decimals lot_raw else Inl e
           | Inr n \<Rightarrow> Inr n)
      | _ \<Rightarrow> step_decimals lot_raw)"

definition okx_info_row :: "market_type \<Rightarrow> pyval \<Rightarrow> (symbol_info \<times> pyfloat option) option res" where
  "okx_info_row mt s =
     bindr (okx_listed mt s) (\<lambda>listed.
     if \<not> listed then Inr None
     else
       bindr (py_item s ''instId'') (\<lambda>api_sym.
       bindr (okx_assets mt s) (\<lambda>assets.
       case assets of None \<Rightarrow> Inr None
       | Some (base, quote) \<Rightarrow>
         bindr (okx_multiplier mt s) (\<lambda>multiplier.
         bindr (py_get s ''minSz'') (\<lambda>raw_min.
         bindr (bindr (py_get s ''maxLmtSz'') (\<lambda>v. if truthy v then Inr v else py_get s ''maxMktSz'')) (\<lambda>raw_max.
         bindr (read_bound raw_min) (\<lambda>min_qty.
         bindr (read_bound raw_max) (\<lambda>max_qty.
         bindr (bound_in_coins mt multiplier min_qty) (\<lambda>min_qty.
         bindr (bound_in_coins mt multiplier max_qty) (\<lambda>max_qty.
         bindr (py_get_or s ''lotSz'' (PStr ''0'')) (\<lambda>lot_raw.
         bindr (okx_qty_precision mt multiplier lot_raw) (\<lambda>qty_precision.
         bindr (py_get s ''ctVal'') (\<lambda>ct_val.
         bindr (if mt = Spot then Inr None else bindr (build_funding_convention ''discrete'') (\<lambda>f. Inr (Some f))) (\<lambda>funding.
         bindr (okx_named api_sym mt) (\<lambda>model_sym.
         bindr (bindr (py_get_or s ''tickSz'' (PStr ''0'')) step_decimals) (\<lambda>price_precision.
         bindr (py_get s ''tickSz'') (\<lambda>tick.
         bindr (field_str api_sym) (\<lambda>native.
         bindr (field_str base) (\<lambda>base.
         bindr (field_str quote) (\<lambda>quote.
         Inr (Some (\<lparr>si_symbol = model_sym, si_native_symbol = native, si_base_asset = base, si_quote_asset = quote,
           si_price_precision = price_precision, si_quantity_precision = qty_precision, si_min_qty = min_qty,
           si_max_qty = max_qty, si_min_notional = None, si_qty_unit = unit_of_market mt,
           si_contract_size = (if mt = Inverse then multiplier else None), si_funding = funding,
           si_tick_size = build_step [tick],
           si_qty_step = build_step (if mt = Linear then [lot_raw, ct_val] else [lot_raw])\<rparr>,
           multiplier))))))))))))))))))))))"

definition okx_fetch_exchange_info :: "'w contract_env \<Rightarrow> market_type \<Rightarrow> (string, pyfloat) dict \<Rightarrow>
    ('w, pyexc, symbol_info list \<times> (string, pyfloat) dict) io" where
  "okx_fetch_exchange_info env mt multipliers =
     bindw (ce_request env ''/api/v5/public/instruments'' [(''instType'', PStr (okx_inst_type mt))]) (\<lambda>data.
     liftw (bindr (bindr (py_iter data) (mapr (okx_info_row mt))) (\<lambda>rows.
       Inr (map fst (kept_rows rows), note_values (kept_rows rows) multipliers))))"

definition okx_get_symbol_info :: "'w contract_env \<Rightarrow> (string, symbol_info) dict \<Rightarrow> market_type \<Rightarrow> string \<Rightarrow> ('w, pyexc, symbol_info) io" where
  "okx_get_symbol_info env cache mt symbol =
     bindw (ce_resolve env mt symbol) (\<lambda>api_symbol.
     case dget cache (okx_get_model_symbol api_symbol mt) of
       None \<Rightarrow> liftw (Inl (ValueError (''Symbol '' @ symbol @ '' not found on OKX '' @ market_value mt)))
     | Some info \<Rightarrow> if mt = Spot then retw info else bindw (ce_cycle env mt api_symbol) (\<lambda>cycle. retw info))"

section \<open>Margin tiers\<close>

definition okx_tier :: "(pyval \<Rightarrow> pyfloat res) \<Rightarrow> market_type \<Rightarrow> pyfloat option \<Rightarrow> pyval \<Rightarrow> margin_tier res" where
  "okx_tier coerce mt multiplier row =
     bindr (py_get row ''maxSz'') (\<lambda>up_to.
     bindr (py_get row ''maxLever'') (\<lambda>leverage.
     bindr (py_get row ''mmr'') (\<lambda>mmr.
     bindr (py_get row ''imr'') (\<lambda>imr.
     bindr (build_margin_tier coerce up_to leverage mmr imr PNone) (\<lambda>tier.
     case (mt, mg_up_to tier, multiplier) of
       (Linear, Some u, Some m) \<Rightarrow> bindr (py_round 12 (fmul u m)) (\<lambda>x. Inr (tier\<lparr>mg_up_to := Some x\<rparr>))
     | _ \<Rightarrow> Inr tier)))))"

definition okx_get_margin_tiers :: "(pyval \<Rightarrow> pyfloat res) \<Rightarrow> (string \<Rightarrow> ('w, pyexc, margin_tier list) io \<Rightarrow> ('w, pyexc, margin_tier list \<times> int) io) \<Rightarrow>
    'w contract_env \<Rightarrow> market_type \<Rightarrow> string \<Rightarrow> ('w, pyexc, margin_tiers) io" where
  "okx_get_margin_tiers coerce cached env mt symbol =
     (if mt = Spot then liftw (Inl (NotImplementedError (''Margin tiers not supported on okx '' @ market_value mt)))
      else
        bindw (ce_resolve env mt symbol) (\<lambda>api_symbol.
        let model_sym = okx_get_model_symbol api_symbol mt in
        bindw (ce_info env mt model_sym) (\<lambda>info.
        case info of
          None \<Rightarrow> liftw (Inl (ValueError (''Symbol '' @ symbol @ '' not found on OKX '' @ market_value mt)))
        | Some i \<Rightarrow>
            bindw (checked_multiplier env ''OKX'' mt model_sym) (\<lambda>multiplier.
            bindw (cached (market_value mt @ '' '' @ okx_family api_symbol)
              (bindw (ce_request env ''/api/v5/public/position-tiers''
                 [(''instType'', PStr ''SWAP''), (''tdMode'', PStr ''cross''), (''instFamily'', PStr (okx_family api_symbol))])
               (\<lambda>data. parsed_rows (okx_tier coerce mt multiplier) data))) (\<lambda>(tiers, read_at).
            retw \<lparr>mts_symbol = model_sym, mts_market_type = mt, mts_quote = si_quote_asset i,
              mts_up_to_unit = (if mt = Linear then TierBase else TierContract), mts_tiers = tiers, mts_timestamp = read_at\<rparr>)))))"

end
