(* ===== verification/OkxStreams.thy ===== *)
theory OkxStreams
  imports OkxMeta LocalBook
begin

text \<open>
  The streams of the OKX adapter, \<^verbatim>\<open>exchange_router/exchanges/okx/adapter.py\<close>: one hub for all
  markets, whose topics name a channel and an instrument; the body of each stream; and the order
  book kept from a snapshot and linked changes.
\<close>

section \<open>Topics\<close>

text \<open>The key of a subscription argument, its payloads, and the topic of a message.\<close>

definition okx_topic_key_for_arg :: "(string, pyval) dict \<Rightarrow> string" where
  "okx_topic_key_for_arg arg =
     (let field = (\<lambda>k. case dget arg k of None \<Rightarrow> PNone | Some v \<Rightarrow> v);
          ch = (case dget arg ''channel'' of None \<Rightarrow> PStr [] | Some v \<Rightarrow> v);
          val = py_or (py_or (field ''instId'') (field ''instType'')) (PStr [])
      in py_str ch @ '':'' @ py_str val)"

definition okx_payload :: "string \<Rightarrow> (string, (string, pyval) dict) dict \<Rightarrow> string list \<Rightarrow> pyval list" where
  "okx_payload op topic_args topics =
     (let args = List.map_filter (dget topic_args) topics in
      if args = [] then [] else [PDict [(''op'', PStr op), (''args'', PList (map PDict args))]])"

definition okx_route :: "pyval \<Rightarrow> string option" where
  "okx_route msg = (case msg of
       PDict d \<Rightarrow> (case dget d ''arg'' of
           Some (PDict arg) \<Rightarrow> if dget d ''data'' = None then None else Some (okx_topic_key_for_arg arg)
         | _ \<Rightarrow> None)
     | _ \<Rightarrow> None)"

text \<open>
  \<open>_ws_connect\<close> notes the argument under its key before it subscribes to the key. \<open>start\<close> resolves
  the symbol; \<open>body\<close> is run over the messages of the topic.
\<close>

definition okx_channel :: "string \<Rightarrow> string \<Rightarrow> (string, pyval) dict" where
  "okx_channel channel api_symbol = [(''channel'', PStr channel), (''instId'', PStr api_symbol)]"

definition okx_start :: "'w contract_env \<Rightarrow> market_type \<Rightarrow> string \<Rightarrow>
    (string \<Rightarrow> string \<Rightarrow> symbol_info option \<Rightarrow> ('w, pyexc, 'b) io) \<Rightarrow> ('w, pyexc, 'b) io" where
  "okx_start env mt symbol k =
     bindw (ce_resolve env mt symbol) (\<lambda>api_symbol.
     let model_sym = okx_get_model_symbol api_symbol mt in
     bindw (ce_info env mt model_sym) (\<lambda>info. k api_symbol model_sym info))"

definition okx_rows :: "pyval \<Rightarrow> pyval list res" where
  "okx_rows msg = bindr (py_get_or msg ''data'' (PList [])) py_iter"

section \<open>Rows of one channel\<close>

definition okx_ticker_row :: "(string \<Rightarrow> int option) \<Rightarrow> market_type \<Rightarrow> string \<Rightarrow> symbol_info option \<Rightarrow> pyval \<Rightarrow> pyval \<Rightarrow> ticker list res" where
  "okx_ticker_row iso_ms mt model_sym info msg t =
     one (bindr (okx_moves t) (okx_ticker iso_ms mt model_sym info t))"

definition okx_stream_ticker where
  "okx_stream_ticker env mt symbol =
     okx_start env mt symbol (\<lambda>api_symbol model_sym info.
       retw (okx_channel ''tickers'' api_symbol, rows_step okx_rows (okx_ticker_row (ce_iso env) mt model_sym info)))"

text \<open>The best level of a side: \<open>float(side[0][0])\<close> and \<open>float(side[0][1])\<close>.\<close>

definition okx_best :: "pyval \<Rightarrow> nat \<Rightarrow> pyfloat res" where
  "okx_best rows i = bindr (py_index rows 0) (\<lambda>l. index_float l i)"

definition okx_book_ticker_row :: "(string \<Rightarrow> int option) \<Rightarrow> market_type \<Rightarrow> string \<Rightarrow> symbol_info option \<Rightarrow> pyfloat option \<Rightarrow>
    pyval \<Rightarrow> pyval \<Rightarrow> book_ticker list res" where
  "okx_book_ticker_row iso_ms mt model_sym info multiplier msg b =
     bindr (py_get_or b ''bids'' (PList [])) (\<lambda>bids.
     bindr (py_get_or b ''asks'' (PList [])) (\<lambda>asks.
     if \<not> truthy bids \<or> \<not> truthy asks then Inr []
     else
       bindr (okx_best bids 0) (\<lambda>bid_price.
       bindr (okx_best asks 0) (\<lambda>ask_price.
       bindr (okx_best bids 1) (\<lambda>bid_raw.
       bindr (okx_best asks 1) (\<lambda>ask_raw.
       one (okx_book_ticker iso_ms mt model_sym info multiplier b ((bid_price, bid_raw), (ask_price, ask_raw)))))))))"

definition okx_stream_book_ticker where
  "okx_stream_book_ticker env mt symbol =
     okx_start env mt symbol (\<lambda>api_symbol model_sym info.
       bindw (checked_multiplier env ''OKX'' mt model_sym) (\<lambda>multiplier.
       retw (okx_channel ''bbo-tbt'' api_symbol,
         rows_step okx_rows (okx_book_ticker_row (ce_iso env) mt model_sym info multiplier))))"

definition okx_trade_row :: "(string \<Rightarrow> int option) \<Rightarrow> market_type \<Rightarrow> string \<Rightarrow> symbol_info option \<Rightarrow> pyfloat option \<Rightarrow>
    pyval \<Rightarrow> pyval \<Rightarrow> trade list res" where
  "okx_trade_row iso_ms mt model_sym info multiplier msg t = one (okx_trade iso_ms mt model_sym info multiplier t)"

definition okx_stream_trades where
  "okx_stream_trades env mt symbol =
     okx_start env mt symbol (\<lambda>api_symbol model_sym info.
       bindw (checked_multiplier env ''OKX'' mt model_sym) (\<lambda>multiplier.
       retw (okx_channel ''trades'' api_symbol,
         rows_step okx_rows (okx_trade_row (ce_iso env) mt model_sym info multiplier))))"

definition okx_mark_price_row :: "(string \<Rightarrow> int option) \<Rightarrow> market_type \<Rightarrow> string \<Rightarrow> symbol_info option \<Rightarrow> pyval \<Rightarrow> pyval \<Rightarrow>
    mark_price list res" where
  "okx_mark_price_row iso_ms mt model_sym info msg m =
     one (bindr (item_float m ''markPx'') (\<lambda>mark.
          bindr (bindr (py_item m ''ts'') (normalize_timestamp iso_ms)) (\<lambda>ts.
          MarkPrice model_sym mt (quote_of info) mark None None ts)))"

definition okx_stream_mark_price where
  "okx_stream_mark_price env mt symbol =
     (if mt = Spot then liftw (Inl (not_supported ''okx'' ''stream_mark_price'' mt))
      else okx_start env mt symbol (\<lambda>api_symbol model_sym info.
        retw (okx_channel ''mark-price'' api_symbol, rows_step okx_rows (okx_mark_price_row (ce_iso env) mt model_sym info))))"

text \<open>Liquidations come for all instruments at once; every entry holds details.\<close>

definition okx_liquidation_entry :: "(pyval \<Rightarrow> liquidation list res) \<Rightarrow> string \<Rightarrow> pyval \<Rightarrow> liquidation list \<times> pyexc option" where
  "okx_liquidation_entry row api_symbol entry =
     (case okx_details api_symbol entry of Inl e \<Rightarrow> ([], Some e) | Inr ds \<Rightarrow> each_row row ds)"

definition okx_liquidation_step :: "(pyval \<Rightarrow> liquidation list res) \<Rightarrow> string \<Rightarrow> unit \<Rightarrow> pyval \<Rightarrow> unit \<times> liquidation list \<times> frame_end" where
  "okx_liquidation_step row api_symbol s msg =
     (case okx_rows msg of
        Inl e \<Rightarrow> ((), [], skipping (Some e))
      | Inr entries \<Rightarrow> (case each_part (okx_liquidation_entry row api_symbol) entries of (ms, e) \<Rightarrow> ((), ms, skipping e)))"

definition okx_stream_liquidations where
  "okx_stream_liquidations env mt symbol =
     (if mt = Spot then liftw (Inl (not_supported ''okx'' ''stream_liquidations'' mt))
      else okx_start env mt symbol (\<lambda>api_symbol model_sym info.
        bindw (checked_multiplier env ''OKX'' mt model_sym) (\<lambda>multiplier.
        retw ([(''channel'', PStr ''liquidation-orders''), (''instType'', PStr ''SWAP'')],
          okx_liquidation_step (okx_liquidation (ce_iso env) mt model_sym info multiplier) api_symbol))))"

section \<open>The order book\<close>

record okx_book =
  kb_bids :: book_side
  kb_asks :: book_side
  kb_last_seq :: pyval
  kb_bootstrapped :: bool

definition okx_book_init :: okx_book where
  "okx_book_init = \<lparr>kb_bids = [], kb_asks = [], kb_last_seq = PNone, kb_bootstrapped = False\<rparr>"

text \<open>\<open>for entry in rows: ...\<close>, with the quantities in coins.\<close>

definition okx_entry :: "pyfloat \<Rightarrow> book_side \<Rightarrow> pyval \<Rightarrow> book_side res" where
  "okx_entry m side entry =
     bindr (index_float entry 0) (\<lambda>p.
     bindr (index_float entry 1) (\<lambda>q.
     Inr (if feq q (Fin 0) then dpop side p else dset side p (fmul q m))))"

fun okx_entries :: "pyfloat \<Rightarrow> book_side \<Rightarrow> pyval list \<Rightarrow> book_side res" where
  "okx_entries m side [] = Inr side"
| "okx_entries m side (e # es) = bindr (okx_entry m side e) (\<lambda>side. okx_entries m side es)"

definition okx_apply :: "pyfloat \<Rightarrow> book_side \<Rightarrow> pyval \<Rightarrow> string \<Rightarrow> book_side res" where
  "okx_apply m side b k = bindr (bindr (py_get_or b k (PList [])) py_iter) (okx_entries m side)"

text \<open>The sequence numbers: \<open>None\<close> is a gap.\<close>

definition okx_sequence :: "bool \<Rightarrow> okx_book \<Rightarrow> pyval \<Rightarrow> okx_book option res" where
  "okx_sequence delta st b =
     (if \<not> delta
      then bindr (py_get b ''seqId'') (\<lambda>s. Inr (Some \<lparr>kb_bids = [], kb_asks = [], kb_last_seq = s, kb_bootstrapped = True\<rparr>))
      else
        bindr (py_get b ''prevSeqId'') (\<lambda>prev.
        if kb_last_seq st \<noteq> PNone \<and> prev \<noteq> PNone \<and> py_differ prev (kb_last_seq st) then Inr None
        else bindr (py_get b ''seqId'') (\<lambda>s. Inr (Some (st\<lparr>kb_last_seq := s\<rparr>)))))"

definition okx_book_view :: "(string \<Rightarrow> int option) \<Rightarrow> market_type \<Rightarrow> string \<Rightarrow> symbol_info option \<Rightarrow> int \<Rightarrow> okx_book \<Rightarrow> pyval \<Rightarrow>
    order_book res" where
  "okx_book_view iso_ms mt model_sym info depth st b =
     bindr (bindr (py_item b ''ts'') (normalize_timestamp iso_ms)) (\<lambda>ts.
     Inr \<lparr>ob_symbol = model_sym, ob_market_type = mt, ob_quote = quote_of info, ob_bids = top_bids depth (kb_bids st),
       ob_asks = top_asks depth (kb_asks st), ob_qty_unit = unit_of_market mt, ob_timestamp = ts\<rparr>)"

definition okx_book_row :: "(okx_book \<Rightarrow> pyval \<Rightarrow> order_book res) \<Rightarrow> pyfloat \<Rightarrow> bool \<Rightarrow> okx_book \<Rightarrow> pyval \<Rightarrow>
    okx_book \<times> order_book list \<times> frame_end" where
  "okx_book_row view m delta st b =
     (case okx_sequence delta st b of
        Inl e \<Rightarrow> (st, [], stopping (Some e))
      | Inr None \<Rightarrow> (st, [], Stop)
      | Inr (Some st) \<Rightarrow>
          if \<not> kb_bootstrapped st then (st, [], Next)
          else
            (case bindr (okx_apply m (kb_bids st) b ''bids'') (\<lambda>bids.
                  bindr (okx_apply m (kb_asks st) b ''asks'') (\<lambda>asks.
                  let st = st\<lparr>kb_bids := bids, kb_asks := asks\<rparr> in
                  bindr (view st b) (\<lambda>book. Inr (st, book)))) of
               Inl e \<Rightarrow> (st, [], stopping (Some e))
             | Inr (st, book) \<Rightarrow> (st, [book], Next)))"

definition okx_book_channel :: "int \<Rightarrow> string" where
  "okx_book_channel depth = (if depth \<le> 1 then ''bbo-tbt'' else if depth \<le> 5 then ''books5'' else ''books'')"

definition okx_orderbook_step :: "(string \<Rightarrow> int option) \<Rightarrow> market_type \<Rightarrow> string \<Rightarrow> symbol_info option \<Rightarrow> pyfloat \<Rightarrow> int \<Rightarrow>
    okx_book \<Rightarrow> pyval \<Rightarrow> okx_book \<times> order_book list \<times> frame_end" where
  "okx_orderbook_step iso_ms mt model_sym info qty_mult depth st msg =
     (case bindr (py_get msg ''action'') (\<lambda>action. bindr (okx_rows msg) (\<lambda>rows. Inr (action, rows))) of
        Inl e \<Rightarrow> (st, [], stopping (Some e))
      | Inr (action, rows) \<Rightarrow>
          over_rows (okx_book_row (okx_book_view iso_ms mt model_sym info depth) qty_mult
            (okx_book_channel depth = ''books'' \<and> action = PStr ''update'')) st rows)"

definition okx_stream_orderbook where
  "okx_stream_orderbook env mt symbol depth =
     okx_start env mt symbol (\<lambda>api_symbol model_sym info.
       bindw (checked_multiplier env ''OKX'' mt model_sym) (\<lambda>multiplier.
       retw (okx_channel (okx_book_channel depth) api_symbol,
         okx_orderbook_step (ce_iso env) mt model_sym info (qty_mult_of mt multiplier) depth)))"

end
