(* ===== verification/OkxLaws.thy ===== *)
theory OkxLaws
  imports OkxStreams BookFeed
begin

text \<open>
  The order book stream of OKX keeps up with the venue's book, in coins. Its changes name the
  sequence number they follow.
\<close>

section \<open>Frames\<close>

record okx_frame = venue_frame +
  vf_prev :: int

definition okx_message :: "string \<Rightarrow> okx_frame \<Rightarrow> pyval" where
  "okx_message inst f = PDict [
     (''arg'', PDict (okx_channel ''books'' inst)),
     (''action'', PStr (if vf_snapshot f then ''snapshot'' else ''update'')),
     (''data'', PList [PDict [(''bids'', PList (vf_bids f)), (''asks'', PList (vf_asks f)), (''ts'', PInt (vf_ts f)),
        (''seqId'', PInt (vf_u f)), (''prevSeqId'', PInt (vf_prev f))]])]"

definition okx_level :: "pyval \<Rightarrow> (pyfloat \<times> pyfloat) res" where
  "okx_level e = bindr (index_float e 0) (\<lambda>p. bindr (index_float e 1) (\<lambda>q. Inr (p, q)))"

text \<open>A level in coins; \<open>0\<close> takes a level out and stays \<open>0\<close>.\<close>

definition in_coins :: "pyfloat \<Rightarrow> pyfloat \<times> pyfloat \<Rightarrow> pyfloat \<times> pyfloat" where
  "in_coins m l = (fst l, if snd l = Fin 0 then Fin 0 else fmul (snd l) m)"

definition okx_levels_of :: "pyfloat \<Rightarrow> pyval list \<Rightarrow> (pyfloat \<times> pyfloat) list" where
  "okx_levels_of m rs = (case mapr okx_level rs of Inr ls \<Rightarrow> map (in_coins m) ls | Inl e \<Rightarrow> [])"

text \<open>Finite numbers, whose quantities neither overflow nor vanish when they become coins.\<close>

definition coin_level_ok :: "pyfloat \<Rightarrow> pyfloat \<times> pyfloat \<Rightarrow> bool" where
  "coin_level_ok m l \<longleftrightarrow> level_ok l \<and> level_ok (in_coins m l) \<and> (snd (in_coins m l) = Fin 0 \<longrightarrow> snd l = Fin 0)"

definition okx_rows_ok :: "pyfloat \<Rightarrow> pyval list \<Rightarrow> bool" where
  "okx_rows_ok m rs \<longleftrightarrow> (case mapr okx_level rs of Inr ls \<Rightarrow> list_all (coin_level_ok m) ls | Inl e \<Rightarrow> False)"

definition okx_frame_ok :: "pyfloat \<Rightarrow> okx_frame \<Rightarrow> bool" where
  "okx_frame_ok m f \<longleftrightarrow> okx_rows_ok m (vf_bids f) \<and> okx_rows_ok m (vf_asks f) \<and> ts_ok (vf_ts f)"

definition okx_linked :: "int \<Rightarrow> okx_frame \<Rightarrow> bool" where
  "okx_linked u f \<longleftrightarrow> vf_prev f = u"

section \<open>One frame\<close>

definition okx_follows :: "okx_book \<Rightarrow> int \<Rightarrow> venue_book \<Rightarrow> bool" where
  "okx_follows st u v \<longleftrightarrow> kb_bootstrapped st \<and> kb_last_seq st = PInt u \<and> side_ok (kb_bids st) \<and> side_ok (kb_asks st)
     \<and> qty_at (kb_bids st) = fst v \<and> qty_at (kb_asks st) = snd v"

lemma okx_entry_level:
  assumes "okx_level r = Inr l" "coin_level_ok m l"
  shows "okx_entry m s r = Inr (set_level s (in_coins m l))"
proof -
  obtain p q where l: "l = (p, q)" by force
  have "index_float r 0 = Inr p" "index_float r 1 = Inr q"
    using assms(1) by (auto simp: okx_level_def bindr_Inr_iff l)
  then have e: "okx_entry m s r = Inr (if feq q (Fin 0) then dpop s p else dset s p (fmul q m))"
    by (simp add: okx_entry_def)
  have q: "feq q (Fin 0) \<longleftrightarrow> q = Fin 0" using assms(2) by (simp add: coin_level_ok_def level_ok_def l feq_finite)
  show ?thesis
  proof (cases "q = Fin 0")
    case True
    then show ?thesis by (simp add: e set_level_def in_coins_def l)
  next
    case False
    then have "is_finite (fmul q m)" "fmul q m \<noteq> Fin 0" using assms(2) by (auto simp: coin_level_ok_def level_ok_def in_coins_def l)
    then show ?thesis using False q by (simp add: e set_level_def in_coins_def l feq_finite)
  qed
qed

lemma okx_entries_levels:
  assumes "mapr okx_level rs = Inr ls" "list_all (coin_level_ok m) ls"
  shows "okx_entries m s rs = Inr (foldl set_level s (map (in_coins m) ls))"
  using assms
proof (induction rs arbitrary: s ls)
  case (Cons r rs)
  obtain l ls' where l: "okx_level r = Inr l" "mapr okx_level rs = Inr ls'" "ls = l # ls'"
    using Cons.prems(1) by (auto simp: bindr_Inr_iff)
  then have ok: "coin_level_ok m l" "list_all (coin_level_ok m) ls'" using Cons.prems(2) by simp_all
  have "okx_entry m s r = Inr (set_level s (in_coins m l))" by (rule okx_entry_level [OF l(1) ok(1)])
  then show ?case using Cons.IH [OF l(2) ok(2)] by (simp add: l(3))
qed simp

lemma okx_apply_ok:
  assumes "okx_rows_ok m rs" "side_ok s" "py_get_or b k (PList []) = Inr (PList rs)"
  obtains s' where "okx_apply m s b k = Inr s'" "side_ok s'" "qty_at s' = venue_apply (qty_at s) (okx_levels_of m rs)"
proof -
  obtain ls where ls: "mapr okx_level rs = Inr ls" "list_all (coin_level_ok m) ls"
    using assms(1) by (auto simp: okx_rows_ok_def split: sum.splits)
  have lv: "okx_levels_of m rs = map (in_coins m) ls" by (simp add: okx_levels_of_def ls(1))
  have "list_all level_ok (map (in_coins m) ls)" using ls(2) by (simp add: list_all_iff coin_level_ok_def)
  from foldl_set_level [OF assms(2) this] show ?thesis
    using okx_entries_levels [OF ls] assms(3)
    by (intro that [of "foldl set_level s (map (in_coins m) ls)"]) (simp_all add: okx_apply_def lv)
qed

lemma okx_takes:
  assumes "okx_frame_ok m f" "vf_snapshot f \<or> okx_follows st u v \<and> okx_linked u f" "5 < depth"
  shows "\<exists>st' book. okx_orderbook_step iso_ms mt sy info m depth st (okx_message inst f) = (st', [book], Next)
     \<and> okx_follows st' (vf_u f) (venue_step (okx_levels_of m) v f)
     \<and> shows_book depth (venue_step (okx_levels_of m) v f) book \<and> ob_timestamp book = vf_ts f"
proof -
  define b where "b = PDict [(''bids'', PList (vf_bids f)), (''asks'', PList (vf_asks f)), (''ts'', PInt (vf_ts f)),
     (''seqId'', PInt (vf_u f)), (''prevSeqId'', PInt (vf_prev f))]"
  define v0 where "v0 = (if vf_snapshot f then (venue_empty, venue_empty) else v)"
  obtain st0 where st0: "okx_sequence (\<not> vf_snapshot f) st b = Inr (Some st0)" "okx_follows st0 (vf_u f) v0"
  proof (cases "vf_snapshot f")
    case True
    then show ?thesis
      by (intro that [of "\<lparr>kb_bids = [], kb_asks = [], kb_last_seq = PInt (vf_u f), kb_bootstrapped = True\<rparr>"])
        (simp_all add: okx_sequence_def b_def okx_follows_def v0_def)
  next
    case False
    then have "okx_follows st u v" "vf_prev f = u" using assms(2) by (simp_all add: okx_linked_def)
    then show ?thesis using False
      by (intro that [of "st\<lparr>kb_last_seq := PInt (vf_u f)\<rparr>"])
        (simp_all add: okx_sequence_def b_def okx_follows_def v0_def py_differ_def)
  qed
  have rows: "okx_rows_ok m (vf_bids f)" "okx_rows_ok m (vf_asks f)" "100000000000 \<le> vf_ts f"
    using assms(1) by (simp_all add: okx_frame_ok_def ts_ok_def)
  have sides: "side_ok (kb_bids st0)" "side_ok (kb_asks st0)" "kb_bootstrapped st0"
    using st0(2) by (simp_all add: okx_follows_def)
  obtain bids where bids: "okx_apply m (kb_bids st0) b ''bids'' = Inr bids" "side_ok bids"
      "qty_at bids = venue_apply (qty_at (kb_bids st0)) (okx_levels_of m (vf_bids f))"
    using okx_apply_ok [OF rows(1) sides(1), of b "''bids''"] by (auto simp: b_def)
  obtain asks where asks: "okx_apply m (kb_asks st0) b ''asks'' = Inr asks" "side_ok asks"
      "qty_at asks = venue_apply (qty_at (kb_asks st0)) (okx_levels_of m (vf_asks f))"
    using okx_apply_ok [OF rows(2) sides(2), of b "''asks''"] by (auto simp: b_def)
  define st' where "st' = st0\<lparr>kb_bids := bids, kb_asks := asks\<rparr>"
  define book where "book = \<lparr>ob_symbol = sy, ob_market_type = mt, ob_quote = quote_of info, ob_bids = top_bids depth bids,
     ob_asks = top_asks depth asks, ob_qty_unit = unit_of_market mt, ob_timestamp = vf_ts f\<rparr>"
  have "py_item b ''ts'' = Inr (PInt (vf_ts f))" by (simp add: b_def)
  then have view: "okx_book_view iso_ms mt sy info depth st' b = Inr book"
    using rows(3) by (simp add: okx_book_view_def normalize_timestamp_def normalize_timestamp_num_def st'_def book_def)
  have row: "okx_book_row (okx_book_view iso_ms mt sy info depth) m (\<not> vf_snapshot f) st b = (st', [book], Next)"
    using st0(1) bids(1) asks(1) sides(3) view by (simp add: okx_book_row_def st'_def Let_def)
  have "okx_book_channel depth = ''books''" using assms(3) by (simp add: okx_book_channel_def)
  then have "okx_orderbook_step iso_ms mt sy info m depth st (okx_message inst f) = (st', [book], Next)"
    using row by (cases "vf_snapshot f") (simp_all add: okx_orderbook_step_def okx_message_def okx_rows_def b_def [symmetric])
  moreover have "okx_follows st' (vf_u f) (venue_step (okx_levels_of m) v f)"
    using st0(2) bids asks by (simp add: okx_follows_def venue_step_def st'_def v0_def Let_def)
  moreover have "shows_book depth (venue_step (okx_levels_of m) v f) book"
    using st0(2) bids asks assms(3) top_bids_shows [of bids depth] top_asks_shows [of asks depth]
    by (simp add: shows_book_def okx_follows_def venue_step_def v0_def Let_def book_def)
  moreover have "ob_timestamp book = vf_ts f" by (simp add: book_def)
  ultimately show ?thesis by blast
qed

lemma okx_gap:
  assumes "okx_follows st u v" "\<not> vf_snapshot f" "\<not> okx_linked u f" "5 < depth"
  shows "okx_orderbook_step iso_ms mt sy info m depth st (okx_message inst f) = (st, [], Stop)"
  using assms
  by (simp add: okx_orderbook_step_def okx_message_def okx_rows_def okx_book_channel_def okx_book_row_def okx_sequence_def
      okx_follows_def okx_linked_def py_differ_def)

interpretation okx_feed: book_feed "okx_orderbook_step iso_ms mt sy info m (int depth + 6)" "okx_message inst" "int depth + 6"
    "okx_levels_of m" "okx_frame_ok m" okx_linked okx_follows
  for iso_ms mt sy info m depth inst
  by unfold_locales (use okx_takes okx_gap in auto)

text \<open>
  C9. The full order book stream of OKX, which a depth above 5 subscribes to, hands on the venue's
  book in its quantity unit or nothing: from a snapshot and well-formed changes each of which names
  the number of the one before, it yields one book per frame, whose sides are the best levels of the
  venue's book after that frame, best price first, cut at the depth asked for; at the first gap in
  the numbers it ends without yielding again.
\<close>

theorem okx_book_follows_venue:
  assumes "vf_snapshot f" "list_all (okx_frame_ok m) (f # fs)" "gapless okx_linked (vf_u f) fs" "5 < depth"
    and "\<not> vf_snapshot g" "\<not> okx_linked (vf_u (last (f # fs))) g"
  shows "\<exists>books st. drive (okx_orderbook_step iso_ms mt sy info m depth) okx_book_init (map (okx_message inst) (f # fs))
         = (books, Listening st)
     \<and> list_all2 (shows_book depth) (venue_books (okx_levels_of m) (venue_empty, venue_empty) (f # fs)) books
     \<and> map ob_timestamp books = map vf_ts (f # fs)
     \<and> drive (okx_orderbook_step iso_ms mt sy info m depth) okx_book_init
         (map (okx_message inst) (f # fs) @ okx_message inst g # later) = (books, Returned)"
proof -
  have "int (nat (depth - 6)) + 6 = depth" using assms(4) by simp
  then show ?thesis
    using okx_feed.feed_follows [OF assms(1-3,5,6), where depth = "nat (depth - 6)"] by metis
qed

text \<open>A snapshot in contracts of a tenth of a coin, a change that takes its best bid out, and a gap.\<close>

definition okx_demo :: "okx_frame list" where
  "okx_demo = [
     \<lparr>vf_snapshot = True, vf_u = 7, vf_bids = [PList [PFloat (Fin 9), PFloat (Fin 2)], PList [PFloat (Fin 10), PFloat (Fin 1)]],
       vf_asks = [PList [PFloat (Fin 11), PFloat (Fin 3)]], vf_ts = 1700000000000, vf_prev = -1\<rparr>,
     \<lparr>vf_snapshot = False, vf_u = 9, vf_bids = [PList [PFloat (Fin 10), PFloat (Fin 0)]], vf_asks = [], vf_ts = 1700000000100,
       vf_prev = 7\<rparr>,
     \<lparr>vf_snapshot = False, vf_u = 12, vf_bids = [], vf_asks = [], vf_ts = 1700000000200, vf_prev = 10\<rparr>]"

lemma okx_book_follows_venue_witness:
  "\<exists>books. drive (okx_orderbook_step (\<lambda>s. None) Linear ''BTCUSDT'' None (Fin 10) 20) okx_book_init
       (map (okx_message ''BTC-USDT-SWAP'') okx_demo) = (books, Returned)
     \<and> map ob_timestamp books = [1700000000000, 1700000000100]"
proof -
  let ?f = "okx_demo ! 0" and ?d = "okx_demo ! 1" and ?g = "okx_demo ! 2"
  have r: "round64 10 = Fin 10" "round64 20 = Fin 20" "round64 30 = Fin 30"
    using round64_int [of 10] round64_int [of 20] round64_int [of 30] by simp_all
  have "vf_snapshot ?f" "list_all (okx_frame_ok (Fin 10)) [?f, ?d]" "gapless okx_linked (vf_u ?f) [?d]" "\<not> vf_snapshot ?g"
    "\<not> okx_linked (vf_u (last [?f, ?d])) ?g" "(5 :: int) < 20"
    by (simp_all add: okx_demo_def okx_linked_def okx_frame_ok_def ts_ok_def okx_rows_ok_def okx_level_def index_float_def
        coin_level_ok_def level_ok_def in_coins_def is_finite_def r)
  from okx_book_follows_venue [OF this(1-3) this(6) this(4,5), of "\<lambda>s. None" Linear "''BTCUSDT''" None "''BTC-USDT-SWAP''" "[]"]
  show ?thesis by (auto simp: okx_demo_def)
qed

end
