(* ===== verification/Kucoin.thy ===== *)
theory Kucoin
  imports Contracts
begin

text \<open>
  The read methods of the KuCoin adapter, \<^verbatim>\<open>exchange_router/exchanges/kucoin/adapter.py\<close>. Its
  \<open>_make_request\<close> takes a base and an endpoint; \<open>env_request\<close> is asked for both in one.
\<close>

section \<open>Addresses, timestamps and precisions\<close>

definition kucoin_spot_rest_url :: string where "kucoin_spot_rest_url = ''https://api.kucoin.com''"
definition kucoin_fut_rest_url :: string where "kucoin_fut_rest_url = ''https://api-futures.kucoin.com''"

definition kucoin_rest_base :: "market_type \<Rightarrow> string" where
  "kucoin_rest_base mt = (if mt = Spot then kucoin_spot_rest_url else kucoin_fut_rest_url)"

definition kucoin_ns_to_ms :: "pyval \<Rightarrow> int res" where
  "kucoin_ns_to_ms ts = (case py_int ts of
       Inr v \<Rightarrow> Inr (if 10 ^ 14 < v then v div 1000000 else v)
     | Inl e \<Rightarrow> if row_error e then Inr 0 else Inl e)"

definition kucoin_s_to_ms :: "pyval \<Rightarrow> int res" where
  "kucoin_s_to_ms ts = (case py_int ts of
       Inr v \<Rightarrow> Inr (if v < 10 ^ 11 then v * 1000 else v)
     | Inl e \<Rightarrow> if row_error e then Inr 0 else Inl e)"

definition kucoin_precision :: "pyval \<Rightarrow> int" where
  "kucoin_precision value = (case count_decimals value of None \<Rightarrow> 0 | Some n \<Rightarrow> n)"

text \<open>An answer that is there.\<close>

definition some_answer :: "string \<Rightarrow> pyval \<Rightarrow> pyval res" where
  "some_answer missing data = (if truthy data then Inr data else Inl (ValueError missing))"

text \<open>The symbol, its name and its metadata come first in every method.\<close>

definition kucoin_start :: "'w contract_env \<Rightarrow> market_type \<Rightarrow> string \<Rightarrow>
    (string \<Rightarrow> string \<Rightarrow> symbol_info option \<Rightarrow> ('w, pyexc, 'b) io) \<Rightarrow> ('w, pyexc, 'b) io" where
  "kucoin_start env mt symbol k =
     bindw (ce_resolve env mt symbol) (\<lambda>api_symbol.
     let model_sym = kucoin_get_model_symbol api_symbol mt in
     bindw (ce_info env mt model_sym) (\<lambda>info. k api_symbol model_sym info))"

text \<open>\<open>reading\<close> of a field that the clock stands in for, after the rest of the row was read.\<close>

definition stamped :: "'w contract_env \<Rightarrow> (int \<Rightarrow> 'a) res \<Rightarrow> pyval \<Rightarrow> string list \<Rightarrow> (pyval \<Rightarrow> int res) \<Rightarrow> ('w, pyexc, 'a) io" where
  "stamped env row d ks reading =
     bindw (liftw row) (\<lambda>row.
     bindw (first_of_keys (ce_env env) d ks) (\<lambda>v.
     liftw (bindr (reading v) (\<lambda>ts. Inr (row ts)))))"

section \<open>Tickers\<close>

text \<open>
  A ticker under the field names of a route: the last price, the change as a part of one, the
  high, the low and the volume; \<open>opening\<close> reads the price a day ago.
\<close>

definition kucoin_ticker :: "(pyval \<Rightarrow> pyfloat \<Rightarrow> pyfloat res) \<Rightarrow> string \<Rightarrow> string \<Rightarrow> string \<Rightarrow> string \<Rightarrow> market_type \<Rightarrow> string \<Rightarrow>
    symbol_info option \<Rightarrow> pyfloat \<Rightarrow> pyval \<Rightarrow> (int \<Rightarrow> ticker) res" where
  "kucoin_ticker opening high_k low_k vol_k pct_k mt model_sym info last_price d =
     bindr (opening d last_price) (\<lambda>open_24h.
     bindr (get_or_zero d high_k) (\<lambda>high_24h.
     bindr (get_or_zero d low_k) (\<lambda>low_24h.
     bindr (bindr (get_or_zero d vol_k) (\<lambda>n. build_volume_value n (if mt = Inverse then ''contract'' else ''base'')
       (contract_size_of info) last_price)) (\<lambda>volume.
     bindr (get_or_zero d pct_k) (\<lambda>pct.
     Inr (\<lambda>ts. \<lparr>tk_symbol = model_sym, tk_market_type = mt, tk_quote = quote_of info, tk_price = last_price,
       tk_open_24h = open_24h, tk_high_24h = high_24h, tk_low_24h = low_24h, tk_volume_24h = volume,
       tk_price_change_percent = fmul pct (Fin 100), tk_timestamp = ts\<rparr>))))))"

text \<open>\<open>last - float(d.get(k) or 0)\<close>\<close>

definition less_change :: "string \<Rightarrow> pyval \<Rightarrow> pyfloat \<Rightarrow> pyfloat res" where
  "less_change k d last_price = bindr (get_or_zero d k) (\<lambda>c. Inr (fsub last_price c))"

definition kucoin_get_ticker :: "'w contract_env \<Rightarrow> market_type \<Rightarrow> string \<Rightarrow> ('w, pyexc, ticker) io" where
  "kucoin_get_ticker env mt symbol =
     kucoin_start env mt symbol (\<lambda>api_symbol model_sym info.
     if mt = Spot then
       bindw (ce_request env (kucoin_spot_rest_url @ ''/api/v1/market/stats'') [(''symbol'', PStr api_symbol)]) (\<lambda>data.
       bindw (liftw (some_answer (''Symbol '' @ api_symbol @ '' not found'') data)) (\<lambda>t.
       stamped env (bindr (get_or_zero t ''last'') (\<lambda>last_price.
           kucoin_ticker (less_change ''changePrice'') ''high'' ''low'' ''vol'' ''changeRate'' mt model_sym info last_price t))
         t [''time''] py_int))
     else
       bindw (ce_request env (kucoin_fut_rest_url @ ''/api/v1/contracts/'' @ api_symbol) []) (\<lambda>data.
       bindw (liftw (some_answer (''Symbol '' @ api_symbol @ '' not found'') data)) (\<lambda>c.
       stamped env (bindr (get_or_zero c ''lastTradePrice'') (\<lambda>last_price.
           kucoin_ticker (less_change ''priceChg'') ''highPrice'' ''lowPrice'' ''volumeOf24h'' ''priceChgPct'' mt model_sym info last_price c))
         c [] py_int)))"

definition kucoin_book_ticker :: "market_type \<Rightarrow> string \<Rightarrow> symbol_info option \<Rightarrow> pyfloat option \<Rightarrow>
    pyfloat \<Rightarrow> pyfloat \<Rightarrow> pyfloat \<Rightarrow> pyfloat \<Rightarrow> (int \<Rightarrow> book_ticker) res" where
  "kucoin_book_ticker mt model_sym info multiplier bid_price bid_sz ask_price ask_sz =
     bindr (contract_qty mt multiplier (contract_size_of info) bid_sz bid_price) (\<lambda>bid_qty.
     bindr (contract_qty mt multiplier (contract_size_of info) ask_sz ask_price) (\<lambda>ask_qty.
     Inr (\<lambda>ts. \<lparr>bt_symbol = model_sym, bt_market_type = mt, bt_quote = quote_of info, bt_bid_price = bid_price,
       bt_bid_qty = bid_qty, bt_ask_price = ask_price, bt_ask_qty = ask_qty, bt_timestamp = ts\<rparr>)))"

text \<open>Prices and sizes under the names of a route, all of which have to be there.\<close>

definition kucoin_quotes :: "string \<Rightarrow> string \<Rightarrow> string \<Rightarrow> pyval \<Rightarrow> (pyfloat \<times> pyfloat \<times> pyfloat \<times> pyfloat) res" where
  "kucoin_quotes missing bid_k ask_k d =
     bindr (py_get d bid_k) (\<lambda>bid_raw.
     bindr (py_get d ask_k) (\<lambda>ask_raw.
     bindr (py_get d ''bestBidSize'') (\<lambda>bid_sz_raw.
     bindr (py_get d ''bestAskSize'') (\<lambda>ask_sz_raw.
     if bid_raw = PNone \<or> ask_raw = PNone \<or> bid_sz_raw = PNone \<or> ask_sz_raw = PNone then Inl (ValueError missing)
     else
       bindr (py_float bid_raw) (\<lambda>bid_price.
       bindr (py_float ask_raw) (\<lambda>ask_price.
       bindr (py_float bid_sz_raw) (\<lambda>bid_sz.
       bindr (py_float ask_sz_raw) (\<lambda>ask_sz. Inr (bid_price, bid_sz, ask_price, ask_sz)))))))))"

definition kucoin_get_book_ticker :: "'w contract_env \<Rightarrow> market_type \<Rightarrow> string \<Rightarrow> ('w, pyexc, book_ticker) io" where
  "kucoin_get_book_ticker env mt symbol =
     kucoin_start env mt symbol (\<lambda>api_symbol model_sym info.
     bindw (checked_multiplier env ''KuCoin'' mt model_sym) (\<lambda>multiplier.
     let missing = ''Book ticker not found for '' @ api_symbol;
         none = ''No quotes available for '' @ api_symbol @ '' on KuCoin '' @ market_value mt;
         row = (\<lambda>bid_k ask_k d. bindr (kucoin_quotes none bid_k ask_k d) (\<lambda>(bid_price, bid_sz, ask_price, ask_sz).
           kucoin_book_ticker mt model_sym info multiplier bid_price bid_sz ask_price ask_sz)) in
     if mt = Spot then
       bindw (ce_request env (kucoin_spot_rest_url @ ''/api/v1/market/orderbook/level1'') [(''symbol'', PStr api_symbol)]) (\<lambda>data.
       bindw (liftw (some_answer missing data)) (\<lambda>d.
       stamped env (row ''bestBid'' ''bestAsk'' d) d [''time''] py_int))
     else
       bindw (ce_request env (kucoin_fut_rest_url @ ''/api/v1/ticker'') [(''symbol'', PStr api_symbol)]) (\<lambda>data.
       bindw (liftw (some_answer missing data)) (\<lambda>d.
       stamped env (row ''bestBidPrice'' ''bestAskPrice'' d) d [''ts''] kucoin_ns_to_ms))))"

section \<open>Order book and trades\<close>

text \<open>\<open>[[float(p), float(q) * m] for p, q, *_ in d.get(k, [])][:depth]\<close>\<close>

definition kucoin_levels :: "pyfloat \<Rightarrow> int \<Rightarrow> pyval \<Rightarrow> string \<Rightarrow> pyfloat list list res" where
  "kucoin_levels m depth d k =
     bindr (bindr (bindr (py_get_or d k (PList [])) py_iter) (mapr (scaled_level m))) (\<lambda>ls. Inr (head_slice depth ls))"

definition kucoin_book :: "market_type \<Rightarrow> string \<Rightarrow> symbol_info option \<Rightarrow> pyfloat option \<Rightarrow> int \<Rightarrow> pyval \<Rightarrow> (int \<Rightarrow> order_book) res" where
  "kucoin_book mt model_sym info multiplier depth d =
     bindr (kucoin_levels (qty_mult_of mt multiplier) depth d ''bids'') (\<lambda>bids.
     bindr (kucoin_levels (qty_mult_of mt multiplier) depth d ''asks'') (\<lambda>asks.
     Inr (\<lambda>ts. \<lparr>ob_symbol = model_sym, ob_market_type = mt, ob_quote = quote_of info, ob_bids = bids, ob_asks = asks,
       ob_qty_unit = unit_of_market mt, ob_timestamp = ts\<rparr>)))"

definition kucoin_get_orderbook :: "'w contract_env \<Rightarrow> market_type \<Rightarrow> string \<Rightarrow> int \<Rightarrow> ('w, pyexc, order_book) io" where
  "kucoin_get_orderbook env mt symbol depth =
     bindw (ce_resolve env mt symbol) (\<lambda>api_symbol.
     let model_sym = kucoin_get_model_symbol api_symbol mt in
     bindw (liftw (cap_depths kucoin_capabilities mt)) (\<lambda>(depths, max_depth).
     let bucket = show_int (depth_bucket depths max_depth depth) in
     bindw (ce_request env (kucoin_rest_base mt @ (if mt = Spot then ''/api/v1/market/orderbook/level2_'' else ''/api/v1/level2/depth'') @ bucket)
       [(''symbol'', PStr api_symbol)]) (\<lambda>data.
     bindw (liftw (some_answer (''Orderbook not found for '' @ api_symbol) data)) (\<lambda>d.
     bindw (liftw (if mt = Spot then bindr (get_else d ''time'' (PInt 0)) py_int
                   else bindr (get_else d ''ts'' (PInt 0)) kucoin_ns_to_ms)) (\<lambda>ts.
     bindw (ce_info env mt model_sym) (\<lambda>info.
     bindw (checked_multiplier env ''KuCoin'' mt model_sym) (\<lambda>multiplier.
     liftw (bindr (kucoin_book mt model_sym info multiplier depth d) (\<lambda>book. Inr (book ts))))))))))"

text \<open>A trade whose side is known; \<open>number\<close> reads the price and the size.\<close>

definition kucoin_trade :: "(pyval \<Rightarrow> string \<Rightarrow> pyfloat res) \<Rightarrow> market_type \<Rightarrow> string \<Rightarrow> symbol_info option \<Rightarrow> pyfloat option \<Rightarrow> pyval \<Rightarrow>
    (int \<Rightarrow> trade) option res" where
  "kucoin_trade number mt model_sym info multiplier d =
     bindr (py_get d ''side'') (\<lambda>side_raw.
     if side_raw = PNone then Inr None
     else
       bindr (as_string ''lower'' side_raw) (\<lambda>side_text.
       if lower side_text \<noteq> ''buy'' \<and> lower side_text \<noteq> ''sell'' then Inr None
       else
         bindr (bindr (py_get d ''tradeId'') (\<lambda>v. if truthy v then Inr v else py_get d ''sequence'')) (\<lambda>raw_id.
         bindr (number d ''price'') (\<lambda>price.
         bindr (number d ''size'') (\<lambda>size_raw.
         bindr (contract_qty mt multiplier (contract_size_of info) size_raw price) (\<lambda>qty.
         bindr (side_of (lower side_text)) (\<lambda>taker.
         Inr (Some (\<lambda>ts. \<lparr>td_id = (if truthy raw_id then Some (py_str raw_id) else None), td_symbol = model_sym,
           td_market_type = mt, td_quote = quote_of info, td_price = price, td_qty = qty, td_side = taker,
           td_timestamp = ts\<rparr>)))))))))"

definition kucoin_build_trade :: "'w contract_env \<Rightarrow> (pyval \<Rightarrow> (int \<Rightarrow> trade) option res) \<Rightarrow> string \<Rightarrow> pyval \<Rightarrow> ('w, pyexc, trade option) io" where
  "kucoin_build_trade env row ts_key d =
     bindw (liftw (row d)) (\<lambda>made.
     case made of
       None \<Rightarrow> retw None
     | Some t \<Rightarrow> stamped env (Inr (\<lambda>ts. Some (t ts))) d [ts_key] kucoin_ns_to_ms)"

definition kucoin_get_trades :: "'w contract_env \<Rightarrow> market_type \<Rightarrow> string \<Rightarrow> int \<Rightarrow> ('w, pyexc, trade list) io" where
  "kucoin_get_trades env mt symbol limit =
     bindw (liftw (bindr (cap_field kucoin_capabilities mt ''trades'' ''max_limit'') py_int)) (\<lambda>max_limit.
     kucoin_start env mt symbol (\<lambda>api_symbol model_sym info.
     bindw (checked_multiplier env ''KuCoin'' mt model_sym) (\<lambda>multiplier.
     bindw (ce_request env (kucoin_rest_base mt @ (if mt = Spot then ''/api/v1/market/histories'' else ''/api/v1/trade/history''))
       [(''symbol'', PStr api_symbol)]) (\<lambda>data.
     bindw (liftw (py_iter (py_or data (PList [])))) (\<lambda>rows.
     bindw (mapw (kucoin_build_trade env (kucoin_trade item_float mt model_sym info multiplier) (if mt = Spot then ''time'' else ''ts'')) rows)
       (\<lambda>trades. retw (slice_last (min limit max_limit) (sort_key td_timestamp (List.map_filter (\<lambda>t. t) trades)))))))))"

definition kucoin_get_agg_trades :: "market_type \<Rightarrow> ('w, pyexc, agg_trade list) io" where
  "kucoin_get_agg_trades mt = liftw (Inl (not_supported ''kucoin'' ''agg_trades'' mt))"

section \<open>Candles\<close>

text \<open>A candle row of a route: how its time reads and where open, high, low, close and volume stand.\<close>

definition kucoin_candle :: "(pyval \<Rightarrow> int res) \<Rightarrow> nat \<Rightarrow> nat \<Rightarrow> nat \<Rightarrow> (pyfloat \<Rightarrow> pyfloat \<Rightarrow> volume_value res) \<Rightarrow> market_type \<Rightarrow> string \<Rightarrow>
    symbol_info option \<Rightarrow> string \<Rightarrow> pyval \<Rightarrow> candle list res" where
  "kucoin_candle time_of close_i high_i low_i volume_of mt model_sym info interval r =
     (if \<not> list_with 6 r then Inr []
      else skip_row row_error (
        bindr (bindr (py_index r 0) time_of) (\<lambda>ts.
        if ts \<le> 0 then Inr []
        else
          bindr (index_float r close_i) (\<lambda>close.
          bindr (index_float r 5) (\<lambda>vol_raw.
          bindr (index_float r 1) (\<lambda>opening.
          bindr (index_float r high_i) (\<lambda>high.
          bindr (index_float r low_i) (\<lambda>low.
          bindr (volume_of vol_raw close) (\<lambda>volume.
          Inr [\<lparr>cd_symbol = model_sym, cd_market_type = mt, cd_quote = quote_of info, cd_interval = interval,
            cd_timestamp = ts, cd_open = opening, cd_high = high, cd_low = low, cd_close = close, cd_volume = volume\<rparr>])))))))))"

definition kucoin_candles :: "(pyval \<Rightarrow> candle list res) \<Rightarrow> pyval \<Rightarrow> candle list res" where
  "kucoin_candles row data = (case data of
       PList rows \<Rightarrow> bindr (rows_of row rows) (\<lambda>cs. Inr (sort_key cd_timestamp cs))
     | _ \<Rightarrow> Inr [])"

definition kucoin_get_candles_spot :: "'w contract_env \<Rightarrow> string \<Rightarrow> string \<Rightarrow> int option \<Rightarrow> int \<Rightarrow> ('w, pyexc, candle list) io" where
  "kucoin_get_candles_spot env api_symbol interval start_time limit =
     bindw (liftw (kucoin_map_spot_interval interval)) (\<lambda>ktype.
     let interval_ms = kucoin_interval_to_ms interval; model_sym = kucoin_get_model_symbol api_symbol Spot in
     bindw (ce_info env Spot model_sym) (\<lambda>info.
     paged_history 1500 (\<lambda>end_ts l.
         bindw (case anchor end_ts start_time of Some t \<Rightarrow> retw t | None \<Rightarrow> env_now_ms (ce_env env)) (\<lambda>anchor_ms.
         let end_s = anchor_ms div 1000 + 1; window_s = max (interval_ms * l div 1000) 60 in
         bindw (ce_request env (kucoin_spot_rest_url @ ''/api/v1/market/candles'')
           [(''symbol'', PStr api_symbol), (''type'', PStr ktype), (''startAt'', PInt (max (end_s - window_s) 0)), (''endAt'', PInt end_s)]) (\<lambda>data.
         liftw (kucoin_candles (kucoin_candle kucoin_s_to_ms 2 3 4 (\<lambda>vol close. build_volume_value vol ''base'' None close)
           Spot model_sym info interval) data))))
       cd_timestamp start_time limit))"

definition kucoin_get_candles_futures :: "'w contract_env \<Rightarrow> market_type \<Rightarrow> string \<Rightarrow> string \<Rightarrow> int option \<Rightarrow> int \<Rightarrow> ('w, pyexc, candle list) io" where
  "kucoin_get_candles_futures env mt api_symbol interval start_time limit =
     bindw (liftw (kucoin_map_futures_granularity interval)) (\<lambda>granularity.
     let model_sym = kucoin_get_model_symbol api_symbol mt in
     bindw (ce_info env mt model_sym) (\<lambda>info.
     bindw (checked_multiplier env ''KuCoin'' mt model_sym) (\<lambda>multiplier.
     let volume_of = (\<lambda>vol close. case (mt, multiplier) of
           (Inverse, _) \<Rightarrow> build_volume_value vol ''contract'' (contract_size_of info) close
         | (_, Some m) \<Rightarrow> build_volume_value (fmul vol m) ''base'' None close
         | (_, None) \<Rightarrow> Inl (TypeError ''unsupported operand type(s) for *'')) in
     paged_history 200 (\<lambda>end_ts l.
         bindw (ce_request env (kucoin_fut_rest_url @ ''/api/v1/kline/query'') ([(''symbol'', PStr api_symbol), (''granularity'', PInt granularity)]
           @ (case anchor end_ts start_time of Some t \<Rightarrow> if t \<noteq> 0 then [(''to'', PInt (t + 1))] else [] | None \<Rightarrow> []))) (\<lambda>data.
         liftw (kucoin_candles (kucoin_candle py_int 4 2 3 volume_of mt model_sym info interval) data)))
       cd_timestamp start_time limit)))"

definition kucoin_get_candles :: "'w contract_env \<Rightarrow> market_type \<Rightarrow> string \<Rightarrow> string \<Rightarrow> int option \<Rightarrow> int \<Rightarrow> ('w, pyexc, candle list) io" where
  "kucoin_get_candles env mt symbol interval start_time limit =
     bindw (ce_resolve env mt symbol) (\<lambda>api_symbol.
     if mt = Spot then kucoin_get_candles_spot env api_symbol interval start_time limit
     else kucoin_get_candles_futures env mt api_symbol interval start_time limit)"

end
