(* ===== verification/KucoinMeta.thy ===== *)
theory KucoinMeta
  imports Kucoin
begin

text \<open>
  The rest of the reads of the KuCoin adapter, \<^verbatim>\<open>exchange_router/exchanges/kucoin/adapter.py\<close>:
  mark prices, funding rates, open interest and instrument metadata.
\<close>

section \<open>Mark price\<close>

text \<open>
  The funding of the contract answer: its rate, and the milliseconds until the next payment, which
  the clock turns into a time.
\<close>

definition kucoin_funding_quote :: "pyval \<Rightarrow> (pyfloat option \<times> int option) res" where
  "kucoin_funding_quote contract =
     (if \<not> truthy contract then Inr (None, None)
      else
        bindr (py_get contract ''fundingFeeRate'') (\<lambda>rate_raw.
        bindr (if rate_raw = PNone then Inr None else bindr (py_float rate_raw) (\<lambda>x. Inr (Some x))) (\<lambda>rate.
        bindr (bindr (get_else contract ''nextFundingRateTime'' (PInt 0)) py_int) (\<lambda>ms_until.
        Inr (rate, if 0 < ms_until then Some ms_until else None)))))"

definition kucoin_mark_price :: "market_type \<Rightarrow> string \<Rightarrow> symbol_info option \<Rightarrow> int option \<Rightarrow> pyfloat option \<Rightarrow> int option \<Rightarrow>
    pyfloat option \<Rightarrow> int \<Rightarrow> pyfloat res \<Rightarrow> mark_price res" where
  "kucoin_mark_price mt model_sym info cycle_ms rate next_funding index_price ts mark =
     bindr (case (rate, cycle_ms, next_funding) of
         (Some r, Some cycle, Some n) \<Rightarrow>
           bindr (build_funding_current ''discrete'' r cycle (max n (ts + 1))) (\<lambda>f. Inr (Some f))
       | _ \<Rightarrow> Inr None) (\<lambda>funding_block.
     bindr mark (\<lambda>mark.
     MarkPrice model_sym mt (quote_of info) mark index_price funding_block ts))"

definition optional_float :: "pyval \<Rightarrow> pyfloat option res" where
  "optional_float v = (if v = PNone then Inr None else bindr (py_float v) (\<lambda>x. Inr (Some x)))"

definition kucoin_get_mark_price :: "'w contract_env \<Rightarrow> market_type \<Rightarrow> string \<Rightarrow> ('w, pyexc, mark_price) io" where
  "kucoin_get_mark_price env mt symbol =
     (if mt = Spot then liftw (Inl (not_supported ''kucoin'' ''mark_price'' mt))
      else
        kucoin_start env mt symbol (\<lambda>api_symbol model_sym info.
        bindw (ce_cycle env mt model_sym) (\<lambda>cycle_ms.
        bindw (ce_request env (kucoin_fut_rest_url @ ''/api/v1/mark-price/'' @ api_symbol @ ''/current'') []) (\<lambda>data.
        bindw (liftw (some_answer (''Mark price not found for '' @ api_symbol) data)) (\<lambda>m.
        bindw (ce_request env (kucoin_fut_rest_url @ ''/api/v1/contracts/'' @ api_symbol) []) (\<lambda>contract.
        bindw (liftw (kucoin_funding_quote contract)) (\<lambda>(rate, ms_until).
        bindw (case ms_until of
            None \<Rightarrow> retw None
          | Some ms \<Rightarrow> bindw (env_now_ms (ce_env env)) (\<lambda>now. retw (Some (now + ms)))) (\<lambda>next_funding.
        bindw (liftw (bindr (py_get m ''indexPrice'') optional_float)) (\<lambda>index_price.
        bindw (bindw (first_of_keys (ce_env env) m [''timePoint'']) (\<lambda>v. liftw (py_int v))) (\<lambda>ts.
        liftw (kucoin_mark_price mt model_sym info cycle_ms rate next_funding index_price ts (get_or_zero m ''value''))))))))))))"

section \<open>Funding rates and open interest\<close>

text \<open>One dated row of \<open>for r in rows or []\<close>; rows that do not read are left out.\<close>

definition dated_row :: "(pyval \<Rightarrow> pyval res) \<Rightarrow> (pyval \<Rightarrow> int \<Rightarrow> 'a res) \<Rightarrow> pyval \<Rightarrow> 'a list res" where
  "dated_row time_of value r =
     skip_row row_error (
       bindr (bindr (time_of r) py_int) (\<lambda>ts.
       if ts \<le> 0 then Inr [] else bindr (value r ts) (\<lambda>x. Inr [x])))"

definition dated_rows :: "(pyval \<Rightarrow> 'a list res) \<Rightarrow> ('a \<Rightarrow> int) \<Rightarrow> pyval \<Rightarrow> 'a list res" where
  "dated_rows row ts data =
     bindr (bindr (py_iter (py_or data (PList []))) (rows_of row)) (\<lambda>rows. Inr (sort_key ts rows))"

definition kucoin_funding_row :: "market_type \<Rightarrow> string \<Rightarrow> symbol_info option \<Rightarrow> int \<Rightarrow> pyval \<Rightarrow> int \<Rightarrow> funding_rate res" where
  "kucoin_funding_row mt model_sym info cycle_ms r ts =
     bindr (bindr (get_or_zero r ''fundingRate'') (\<lambda>x. build_funding_historical ''discrete'' x cycle_ms)) (\<lambda>rate.
     Inr \<lparr>fr_symbol = model_sym, fr_market_type = mt, fr_quote = quote_of info, fr_rate = rate, fr_timestamp = ts\<rparr>)"

text \<open>The end of a page: just after its bound, or the time of the clock.\<close>

definition kucoin_page_end :: "int option \<Rightarrow> int \<Rightarrow> int" where
  "kucoin_page_end a now_ms = (case a of Some t \<Rightarrow> if t \<noteq> 0 then t + 1 else now_ms | None \<Rightarrow> now_ms)"

definition kucoin_get_funding_rate :: "'w contract_env \<Rightarrow> market_type \<Rightarrow> string \<Rightarrow> int option \<Rightarrow> int \<Rightarrow> ('w, pyexc, funding_rate list) io" where
  "kucoin_get_funding_rate env mt symbol start_time limit =
     (if mt = Spot then liftw (Inl (not_supported ''kucoin'' ''funding_rate'' mt))
      else
        kucoin_start env mt symbol (\<lambda>api_symbol model_sym info.
        bindw (ce_cycle env mt model_sym) (\<lambda>cycle.
        let cycle_ms = (case cycle of Some c \<Rightarrow> c | None \<Rightarrow> 8 * 3600000) in
        paged_history 100 (\<lambda>end_ts l.
            bindw (env_now_ms (ce_env env)) (\<lambda>now_ms.
            let to_ms = kucoin_page_end (anchor end_ts start_time) now_ms; from_ms = max (to_ms - 28800000 * 100) 0 in
            bindw (ce_request env (kucoin_fut_rest_url @ ''/api/v1/contract/funding-rates'')
              [(''symbol'', PStr api_symbol), (''from'', PInt from_ms), (''to'', PInt to_ms)]) (\<lambda>data.
            liftw (dated_rows (dated_row (\<lambda>r. first_truthy r [''timepoint'', ''timePoint''] (PInt 0))
              (kucoin_funding_row mt model_sym info cycle_ms)) fr_timestamp data))))
          fr_timestamp start_time limit)))"

definition kucoin_oi_row :: "market_type \<Rightarrow> string \<Rightarrow> symbol_info option \<Rightarrow> pyfloat option \<Rightarrow> string \<Rightarrow> pyval \<Rightarrow> int \<Rightarrow> open_interest res" where
  "kucoin_oi_row mt model_sym info multiplier period r ts =
     bindr (get_or_zero r ''openInterest'') (\<lambda>native_oi.
     bindr (case (mt, multiplier) of
         (Inverse, _) \<Rightarrow> build_oi_value native_oi ''contract'' (contract_size_of info) None None
       | (_, Some m) \<Rightarrow> build_oi_value (fmul native_oi m) ''base'' None None None
       | (_, None) \<Rightarrow> Inl (TypeError ''unsupported operand type(s) for *'')) (\<lambda>oi.
     Inr \<lparr>oi_symbol = model_sym, oi_market_type = mt, oi_quote = quote_of info, oi_interval = period,
       oi_open_interest = oi, oi_timestamp = ts\<rparr>))"

text \<open>The window of a page of open interest, whose ends are multiples of the period.\<close>

definition kucoin_oi_window :: "int \<Rightarrow> int \<Rightarrow> int \<times> int" where
  "kucoin_oi_window period_ms raw_end =
     (let end_ms = (if period_ms \<noteq> 0 then raw_end - raw_end mod period_ms else raw_end)
      in (if period_ms \<noteq> 0 then max (end_ms - period_ms * 200) 0 else 0, end_ms))"

definition kucoin_get_open_interest :: "'w contract_env \<Rightarrow> market_type \<Rightarrow> string \<Rightarrow> string \<Rightarrow> int option \<Rightarrow> int \<Rightarrow>
    ('w, pyexc, open_interest list) io" where
  "kucoin_get_open_interest env mt symbol period start_time limit =
     (if mt = Spot then liftw (Inl (not_supported ''kucoin'' ''open_interest'' mt))
      else
        bindw (ce_resolve env mt symbol) (\<lambda>api_symbol.
        let model_sym = kucoin_get_model_symbol api_symbol mt in
        bindw (liftw (kucoin_map_oi_interval period)) (\<lambda>interval.
        bindw (ce_info env mt model_sym) (\<lambda>info.
        bindw (checked_multiplier env ''KuCoin'' mt model_sym) (\<lambda>multiplier.
        paged_history 200 (\<lambda>end_ts l.
            bindw (env_now_ms (ce_env env)) (\<lambda>now_ms.
            let (start_ms, end_ms) = kucoin_oi_window (kucoin_interval_to_ms period) (kucoin_page_end (anchor end_ts start_time) now_ms) in
            bindw (ce_request env (kucoin_spot_rest_url @ ''/api/ua/v1/market/open-interest'')
              [(''symbol'', PStr api_symbol), (''interval'', PStr interval), (''startAt'', PInt start_ms), (''endAt'', PInt end_ms),
               (''pageSize'', PInt (min l 200))]) (\<lambda>data.
            liftw (dated_rows (dated_row (\<lambda>r. get_else r ''ts'' (PInt 0)) (kucoin_oi_row mt model_sym info multiplier period))
              oi_timestamp data))))
          oi_timestamp start_time limit)))))"

section \<open>Instrument metadata\<close>

definition fabs :: "pyfloat \<Rightarrow> pyfloat" where
  "fabs x = (if flt x (Fin 0) then fneg x else x)"

definition kucoin_spot_info :: "pyval \<Rightarrow> symbol_info option res" where
  "kucoin_spot_info s =
     bindr (py_get s ''enableTrading'') (\<lambda>enabled.
     if \<not> truthy enabled then Inr None
     else
       bindr (py_item s ''symbol'') (\<lambda>api_sym.
       bindr (py_get s ''baseCurrency'') (\<lambda>base.
       bindr (py_get s ''quoteCurrency'') (\<lambda>quote.
       if \<not> truthy base \<or> \<not> truthy quote then Inr None
       else
         bindr (py_get s ''baseMinSize'') (\<lambda>raw_min.
         bindr (py_get s ''baseMaxSize'') (\<lambda>raw_max.
         bindr (bindr (py_get s ''minFunds'') (\<lambda>v. if truthy v then Inr v else py_get s ''quoteMinSize'')) (\<lambda>raw_notional.
         bindr (read_bound raw_min) (\<lambda>min_qty.
         bindr (read_bound raw_max) (\<lambda>max_qty.
         bindr (read_bound raw_notional) (\<lambda>min_notional.
         bindr (bound_in_coins Spot None min_qty) (\<lambda>min_qty.
         bindr (bound_in_coins Spot None max_qty) (\<lambda>max_qty.
         bindr (bound_in_coins Spot None min_notional) (\<lambda>min_notional.
         bindr (bindr (as_string ''upper'' api_sym) (\<lambda>x. Inr (kucoin_get_model_symbol x Spot))) (\<lambda>model_sym.
         bindr (py_get_or s ''priceIncrement'' (PStr ''0'')) (\<lambda>price_inc.
         bindr (py_get_or s ''baseIncrement'' (PStr ''0'')) (\<lambda>base_inc.
         bindr (py_get s ''priceIncrement'') (\<lambda>tick.
         bindr (py_get s ''baseIncrement'') (\<lambda>step.
         bindr (field_str api_sym) (\<lambda>native.
         bindr (field_str base) (\<lambda>base.
         bindr (field_str quote) (\<lambda>quote.
         Inr (Some \<lparr>si_symbol = model_sym, si_native_symbol = native, si_base_asset = base, si_quote_asset = quote,
           si_price_precision = kucoin_precision price_inc, si_quantity_precision = kucoin_precision base_inc,
           si_min_qty = min_qty, si_max_qty = max_qty, si_min_notional = min_notional, si_qty_unit = Base,
           si_contract_size = None, si_funding = None, si_tick_size = build_step [tick], si_qty_step = build_step [step]\<rparr>))))))))))))))))))))))"

definition kucoin_listed :: "market_type \<Rightarrow> pyval \<Rightarrow> bool res" where
  "kucoin_listed mt s =
     bindr (py_get s ''status'') (\<lambda>status.
     if status \<noteq> PStr ''Open'' then Inr False
     else bindr (py_get s ''isInverse'') (\<lambda>inv. Inr (if mt = Linear then \<not> truthy inv else truthy inv)))"

text \<open>\<open>try: f(raw) except (TypeError, ValueError): None\<close>, for a value that may be missing.\<close>

definition read_or_none :: "(pyval \<Rightarrow> 'a res) \<Rightarrow> pyval \<Rightarrow> 'a option res" where
  "read_or_none f raw_value =
     (if raw_value = PNone then Inr None
      else case f raw_value of
        Inr v \<Rightarrow> Inr (Some v)
      | Inl e \<Rightarrow> if row_error e then Inr None else Inl e)"

definition kucoin_qty_precision :: "market_type \<Rightarrow> pyfloat option \<Rightarrow> pyval \<Rightarrow> pyval \<Rightarrow> int res" where
  "kucoin_qty_precision mt multiplier raw_lot lot_size =
     (case (mt, multiplier) of
        (Linear, Some m) \<Rightarrow>
          (if raw_lot = PNone then Inr (kucoin_precision lot_size)
           else bindr (py_float raw_lot) (\<lambda>x. Inr (kucoin_precision (PStr (format_fixed 10 (fmul x m))))))
      | _ \<Rightarrow> Inr (kucoin_precision lot_size))"

text \<open>A contract with what the adapter keeps by symbol: its multiplier and its funding interval.\<close>

definition kucoin_contract_info :: "market_type \<Rightarrow> pyval \<Rightarrow> (symbol_info \<times> pyfloat option \<times> int option) option res" where
  "kucoin_contract_info mt s =
     bindr (kucoin_listed mt s) (\<lambda>listed.
     if \<not> listed then Inr None
     else
       bindr (py_item s ''symbol'') (\<lambda>api_sym.
       bindr (bindr (py_get s ''multiplier'') (read_or_none (\<lambda>v. bindr (py_float v) (\<lambda>x. Inr (fabs x))))) (\<lambda>multiplier.
       bindr (bindr (py_get s ''fundingRateGranularity'') (read_or_none py_int)) (\<lambda>cycle_ms.
       bindr (py_get s ''baseCurrency'') (\<lambda>base.
       bindr (py_get s ''quoteCurrency'') (\<lambda>quote.
       if \<not> truthy base \<or> \<not> truthy quote then Inr None
       else
         bindr (py_get s ''lotSize'') (\<lambda>raw_lot.
         bindr (py_get s ''maxOrderQty'') (\<lambda>raw_max.
         bindr (read_bound raw_lot) (\<lambda>min_qty.
         bindr (read_bound raw_max) (\<lambda>max_qty.
         bindr (bound_in_coins mt multiplier min_qty) (\<lambda>min_qty.
         bindr (bound_in_coins mt multiplier max_qty) (\<lambda>max_qty.
         bindr (py_get_or s ''lotSize'' (PStr ''0'')) (\<lambda>lot_size.
         bindr (kucoin_qty_precision mt multiplier raw_lot lot_size) (\<lambda>qty_precision.
         bindr (bindr (as_string ''upper'' api_sym) (\<lambda>x. Inr (kucoin_get_model_symbol x mt))) (\<lambda>model_sym.
         bindr (py_get_or s ''tickSize'' (PStr ''0'')) (\<lambda>tick_size.
         bindr (build_funding_convention ''discrete'') (\<lambda>funding.
         bindr (py_get s ''tickSize'') (\<lambda>tick.
         bindr (field_str api_sym) (\<lambda>native.
         bindr (field_str base) (\<lambda>base.
         bindr (field_str quote) (\<lambda>quote.
         Inr (Some (\<lparr>si_symbol = model_sym, si_native_symbol = native, si_base_asset = base, si_quote_asset = quote,
           si_price_precision = kucoin_precision tick_size, si_quantity_precision = qty_precision,
           si_min_qty = min_qty, si_max_qty = max_qty, si_min_notional = None, si_qty_unit = unit_of_market mt,
           si_contract_size = (if mt = Inverse then Some (case multiplier of Some m \<Rightarrow> m | None \<Rightarrow> Fin 1) else None),
           si_funding = Some funding, si_tick_size = build_step [tick],
           si_qty_step = build_step (if mt = Linear then [raw_lot, case multiplier of Some m \<Rightarrow> PFloat m | None \<Rightarrow> PNone] else [raw_lot])\<rparr>,
           multiplier, cycle_ms)))))))))))))))))))))))"

definition kucoin_fetch_exchange_info :: "'w contract_env \<Rightarrow> market_type \<Rightarrow> (string, pyfloat) dict \<Rightarrow> (string, int) dict \<Rightarrow>
    ('w, pyexc, symbol_info list \<times> (string, pyfloat) dict \<times> (string, int) dict) io" where
  "kucoin_fetch_exchange_info env mt multipliers cycles =
     (if mt = Spot then
        bindw (ce_request env (kucoin_spot_rest_url @ ''/api/v1/symbols'') []) (\<lambda>data.
        liftw (bindr (bindr (py_iter (py_or data (PList []))) (mapr kucoin_spot_info)) (\<lambda>rows.
          Inr (List.map_filter (\<lambda>r. r) rows, multipliers, cycles))))
      else
        bindw (ce_request env (kucoin_fut_rest_url @ ''/api/v1/contracts/active'') []) (\<lambda>data.
        liftw (bindr (bindr (py_iter (py_or data (PList []))) (mapr (kucoin_contract_info mt))) (\<lambda>rows.
          let kept = List.map_filter (\<lambda>r. r) rows in
          Inr (map fst kept, note_values (map (\<lambda>(i, m, c). (i, m)) kept) multipliers,
            note_values (map (\<lambda>(i, m, c). (i, c)) kept) cycles)))))"

definition kucoin_get_symbol_info :: "'w contract_env \<Rightarrow> (string, symbol_info) dict \<Rightarrow> market_type \<Rightarrow> string \<Rightarrow> ('w, pyexc, symbol_info) io" where
  "kucoin_get_symbol_info env cache mt symbol =
     bindw (ce_resolve env mt symbol) (\<lambda>api_symbol.
     case dget cache (kucoin_get_model_symbol api_symbol mt) of
       None \<Rightarrow> liftw (Inl (ValueError (''Symbol '' @ symbol @ '' not found on KuCoin '' @ market_value mt)))
     | Some info \<Rightarrow> retw info)"

end
