(* ===== verification/KucoinStreams.thy ===== *)
theory KucoinStreams
  imports KucoinMeta
begin

text \<open>
  The streams of the KuCoin adapter, \<^verbatim>\<open>exchange_router/exchanges/kucoin/adapter.py\<close>. A frame is
  the time of the clock in milliseconds, and the message. Every message holds the whole of what it
  is about, so no stream keeps anything between frames.
\<close>

section \<open>Topics\<close>

definition kucoin_payload :: "string \<Rightarrow> string \<Rightarrow> string list \<Rightarrow> pyval list" where
  "kucoin_payload kind request_id topics =
     map (\<lambda>t. PDict [(''id'', PStr request_id), (''type'', PStr kind), (''topic'', PStr t),
       (''privateChannel'', PBool False), (''response'', PBool False)]) topics"

definition kucoin_route :: "pyval \<Rightarrow> pyval" where
  "kucoin_route msg = (case msg of
       PDict d \<Rightarrow> (if dget d ''type'' \<noteq> Some (PStr ''message'') then PNone
                  else (case dget d ''topic'' of None \<Rightarrow> PNone | Some t \<Rightarrow> t))
     | _ \<Rightarrow> PNone)"

text \<open>\<open>_get_bullet\<close>: the address of the socket, its token and the interval of its pings.\<close>

definition kucoin_get_bullet :: "'w contract_env \<Rightarrow> market_type \<Rightarrow> ('w, pyexc, pyval \<times> pyval \<times> int) io" where
  "kucoin_get_bullet env mt =
     bindw (ce_request env (kucoin_rest_base mt @ ''/api/v1/bullet-public'') []) (\<lambda>data.
     liftw (
       bindr (bindr (py_item data ''instanceServers'') (\<lambda>s. py_index s 0)) (\<lambda>server.
       bindr (py_item server ''endpoint'') (\<lambda>endpoint.
       bindr (py_item data ''token'') (\<lambda>token.
       bindr (bindr (py_get_or server ''pingInterval'' (PInt 18000)) py_int) (\<lambda>ping_ms.
       Inr (endpoint, token, ping_ms)))))))"

text \<open>\<open>msg.get("data") or {}\<close>\<close>

definition kucoin_data :: "pyval \<Rightarrow> pyval res" where
  "kucoin_data msg = get_else msg ''data'' (PDict [])"

definition at_time :: "(int \<Rightarrow> 'a) res \<Rightarrow> pyval \<Rightarrow> string list \<Rightarrow> int \<Rightarrow> (pyval \<Rightarrow> int res) \<Rightarrow> 'a res" where
  "at_time row d ks now reading =
     bindr row (\<lambda>row. bindr (first_truthy d ks (PInt now)) (\<lambda>v. bindr (reading v) (\<lambda>ts. Inr (row ts))))"

section \<open>Tickers\<close>

definition kucoin_opening :: "pyval \<Rightarrow> pyfloat \<Rightarrow> pyfloat res" where
  "kucoin_opening d last_price = get_or_zero d ''open''"

definition kucoin_spot_ticker_frame :: "string \<Rightarrow> symbol_info option \<Rightarrow> int \<times> pyval \<Rightarrow> ticker list res" where
  "kucoin_spot_ticker_frame model_sym info frame = (case frame of (now, msg) \<Rightarrow>
     bindr (bindr (kucoin_data msg) (\<lambda>outer. get_else outer ''data'' (PDict []))) (\<lambda>d.
     if \<not> truthy d then Inr []
     else
       bindr (bindr (first_truthy d [''lastTradedPrice'', ''close''] (PInt 0)) py_float) (\<lambda>last_price.
       one (at_time (kucoin_ticker kucoin_opening ''high'' ''low'' ''vol'' ''changeRate'' Spot model_sym info last_price d)
         d [''datetime''] now py_int))))"

definition kucoin_futures_ticker_frame :: "market_type \<Rightarrow> string \<Rightarrow> symbol_info option \<Rightarrow> int \<times> pyval \<Rightarrow> ticker list res" where
  "kucoin_futures_ticker_frame mt model_sym info frame = (case frame of (now, msg) \<Rightarrow>
     bindr (kucoin_data msg) (\<lambda>d.
     bindr (get_or_zero d ''lastPrice'') (\<lambda>last_price.
     one (at_time (kucoin_ticker (less_change ''priceChg'') ''highPrice'' ''lowPrice'' ''volume'' ''priceChgPct'' mt model_sym info last_price d)
       d [''ts'', ''datetime''] now kucoin_ns_to_ms))))"

definition kucoin_stream_ticker where
  "kucoin_stream_ticker env mt symbol =
     kucoin_start env mt symbol (\<lambda>api_symbol model_sym info.
     retw (if mt = Spot then (''/market/snapshot:'' @ api_symbol, frame_step (kucoin_spot_ticker_frame model_sym info))
       else (''/contractMarket/snapshot:'' @ api_symbol, frame_step (kucoin_futures_ticker_frame mt model_sym info))))"

section \<open>Book tickers\<close>

text \<open>\<open>float(side[1]) if len(side) > 1 else 0.0\<close>, of a side that is not empty\<close>

definition second_or_zero :: "pyval \<Rightarrow> pyfloat res" where
  "second_or_zero side = bindr (py_iter side) (\<lambda>xs. if 1 < length xs then index_float side 1 else Inr (Fin 0))"

definition kucoin_spot_quotes_frame :: "string \<Rightarrow> symbol_info option \<Rightarrow> int \<times> pyval \<Rightarrow> book_ticker list res" where
  "kucoin_spot_quotes_frame model_sym info frame = (case frame of (now, msg) \<Rightarrow>
     bindr (kucoin_data msg) (\<lambda>d.
     bindr (get_else d ''bids'' (PList [])) (\<lambda>bids.
     bindr (get_else d ''asks'' (PList [])) (\<lambda>asks.
     if \<not> truthy bids \<or> \<not> truthy asks then Inr []
     else
       bindr (index_float bids 0) (\<lambda>bid_price.
       bindr (index_float asks 0) (\<lambda>ask_price.
       bindr (second_or_zero bids) (\<lambda>bid_sz.
       bindr (second_or_zero asks) (\<lambda>ask_sz.
       one (at_time (kucoin_book_ticker Spot model_sym info None bid_price bid_sz ask_price ask_sz)
         d [''timestamp'', ''time''] now kucoin_ns_to_ms)))))))))"

definition kucoin_futures_quotes_frame :: "market_type \<Rightarrow> string \<Rightarrow> symbol_info option \<Rightarrow> pyfloat option \<Rightarrow> int \<times> pyval \<Rightarrow> book_ticker list res" where
  "kucoin_futures_quotes_frame mt model_sym info multiplier frame = (case frame of (now, msg) \<Rightarrow>
     bindr (kucoin_data msg) (\<lambda>d.
     bindr (get_or_zero d ''bestBidPrice'') (\<lambda>bid_price.
     bindr (get_or_zero d ''bestAskPrice'') (\<lambda>ask_price.
     bindr (get_or_zero d ''bestBidSize'') (\<lambda>bid_sz.
     bindr (get_or_zero d ''bestAskSize'') (\<lambda>ask_sz.
     one (at_time (kucoin_book_ticker mt model_sym info multiplier bid_price bid_sz ask_price ask_sz)
       d [''ts''] now kucoin_ns_to_ms)))))))"

definition kucoin_stream_book_ticker where
  "kucoin_stream_book_ticker env mt symbol =
     kucoin_start env mt symbol (\<lambda>api_symbol model_sym info.
     bindw (checked_multiplier env ''KuCoin'' mt model_sym) (\<lambda>multiplier.
     retw (if mt = Spot then (''/spotMarket/level1:'' @ api_symbol, frame_step (kucoin_spot_quotes_frame model_sym info))
       else (''/contractMarket/tickerV2:'' @ api_symbol, frame_step (kucoin_futures_quotes_frame mt model_sym info multiplier)))))"

section \<open>Order books\<close>

definition kucoin_book_frame :: "market_type \<Rightarrow> string \<Rightarrow> symbol_info option \<Rightarrow> pyfloat option \<Rightarrow> int \<Rightarrow> int \<times> pyval \<Rightarrow> order_book list res" where
  "kucoin_book_frame mt model_sym info multiplier depth frame =
     bindr (kucoin_data (snd frame)) (\<lambda>d.
     bindr (first_truthy d [''timestamp'', ''ts'', ''time''] (PInt 0)) (\<lambda>ts.
     one (bindr (kucoin_book mt model_sym info multiplier depth d) (\<lambda>book. bindr (kucoin_ns_to_ms ts) (\<lambda>n. Inr (book n))))))"

definition kucoin_book_topic :: "market_type \<Rightarrow> int \<Rightarrow> string \<Rightarrow> string" where
  "kucoin_book_topic mt depth api_symbol =
     (if mt = Spot then ''/spotMarket'' else ''/contractMarket'') @ ''/level2Depth'' @ (if depth \<le> 5 then ''5'' else ''50'') @ '':'' @ api_symbol"

definition kucoin_stream_orderbook where
  "kucoin_stream_orderbook env mt symbol depth =
     kucoin_start env mt symbol (\<lambda>api_symbol model_sym info.
     bindw (checked_multiplier env ''KuCoin'' mt model_sym) (\<lambda>multiplier.
     retw (kucoin_book_topic mt depth api_symbol, frame_step (kucoin_book_frame mt model_sym info multiplier depth))))"

section \<open>Trades and mark prices\<close>

definition kucoin_trade_frame :: "market_type \<Rightarrow> string \<Rightarrow> symbol_info option \<Rightarrow> pyfloat option \<Rightarrow> int \<times> pyval \<Rightarrow> trade list res" where
  "kucoin_trade_frame mt model_sym info multiplier frame = (case frame of (now, msg) \<Rightarrow>
     bindr (kucoin_data msg) (\<lambda>d.
     bindr (kucoin_trade get_or_zero mt model_sym info multiplier d) (\<lambda>made.
     case made of
       None \<Rightarrow> Inr []
     | Some t \<Rightarrow> one (at_time (Inr t) d [if mt = Spot then ''time'' else ''ts''] now kucoin_ns_to_ms))))"

definition kucoin_stream_trades where
  "kucoin_stream_trades env mt symbol =
     kucoin_start env mt symbol (\<lambda>api_symbol model_sym info.
     bindw (checked_multiplier env ''KuCoin'' mt model_sym) (\<lambda>multiplier.
     retw ((if mt = Spot then ''/market/match:'' else ''/contractMarket/execution:'') @ api_symbol,
       frame_step (kucoin_trade_frame mt model_sym info multiplier))))"

definition kucoin_next_funding :: "pyval \<Rightarrow> int option res" where
  "kucoin_next_funding raw_time =
     (if \<not> truthy raw_time then Inr None
      else bindr (read_or_none py_int raw_time) (\<lambda>v. Inr (case v of Some n \<Rightarrow> if 0 < n then Some n else None | None \<Rightarrow> None)))"

text \<open>Other messages of the instrument channel without a mark price are left out.\<close>

definition kucoin_mark_frame :: "market_type \<Rightarrow> string \<Rightarrow> symbol_info option \<Rightarrow> int option \<Rightarrow> int \<times> pyval \<Rightarrow> mark_price list res" where
  "kucoin_mark_frame mt model_sym info cycle_ms frame = (case frame of (now, msg) \<Rightarrow>
     bindr (kucoin_data msg) (\<lambda>d.
     bindr (py_get_or msg ''subject'' (PStr [])) (\<lambda>subject.
     bindr (get_or_zero d ''markPrice'') (\<lambda>mark.
     if mark = Fin 0 \<and> subject \<noteq> PStr ''mark.index.price'' then Inr []
     else
       bindr (bindr (py_get d ''nextFundingTime'') kucoin_next_funding) (\<lambda>next_ft.
       bindr (py_get d ''indexPrice'') (\<lambda>idx_raw.
       bindr (py_get d ''fundingRate'') (\<lambda>rate_raw.
       bindr (bindr (first_truthy d [''timestamp'', ''ts''] (PInt now)) kucoin_ns_to_ms) (\<lambda>ts.
       bindr (if cycle_ms \<noteq> None \<and> next_ft \<noteq> None then optional_float rate_raw else Inr None) (\<lambda>rate.
       bindr (optional_float idx_raw) (\<lambda>index_price.
       one (kucoin_mark_price mt model_sym info cycle_ms rate next_ft index_price ts (Inr mark))))))))))))"

definition kucoin_stream_mark_price where
  "kucoin_stream_mark_price env mt symbol =
     (if mt = Spot then liftw (Inl (not_supported ''kucoin'' ''stream_mark_price'' mt))
      else kucoin_start env mt symbol (\<lambda>api_symbol model_sym info.
        bindw (ce_cycle env mt model_sym) (\<lambda>cycle_ms.
        retw (''/contract/instrument:'' @ api_symbol, frame_step (kucoin_mark_frame mt model_sym info cycle_ms)))))"

end
