(* ===== verification/Requests.thy ===== *)
theory Requests
  imports Adapters
begin

text \<open>
  The request helper of the adapters: \<open>_make_request\<close> of \<^verbatim>\<open>binance/adapter.py\<close>,
  \<^verbatim>\<open>bybit/adapter.py\<close>, \<^verbatim>\<open>okx/adapter.py\<close>, \<^verbatim>\<open>kucoin/adapter.py\<close> and
  \<^verbatim>\<open>hyperliquid/adapter.py\<close> under \<^verbatim>\<open>exchange_router/exchanges\<close>. Each of them waits out a backoff,
  sends the request, reads the answer, and either returns, raises, or goes round its
  \<open>while retries > 0\<close> again, with one retry less or, after an answer it has no case for, with as
  many. The loop is a \<open>partial_function\<close>, whose value \<open>None\<close> is a loop that never ends.
\<close>

section \<open>World and environment\<close>

text \<open>
  \<open>rq_backoff\<close> is \<open>_backoff_until\<close>, a dictionary over hosts for Binance and a single number, under
  the empty key, for the others; \<open>rq_queue\<close> the \<open>_backoff_queue\<close> of Hyperliquid. Other coroutines of
  the adapter may change them wherever this one waits, so the environment's actions, one HTTP
  exchange, \<open>time.time\<close>, \<open>asyncio.sleep\<close> and \<open>random.uniform(0.05, b)\<close>, are given the whole of it.
\<close>

record 'w request_world =
  rq_backoff :: "(string, pyfloat) dict"
  rq_queue :: int
  rq_world :: 'w

text \<open>\<open>vr_json\<close> is \<open>None\<close> for a body that is not JSON, \<open>vr_error\<close> the text of the exception of \<open>raise_for_status\<close>.\<close>

record venue_response =
  vr_status :: int
  vr_headers :: "(string \<times> string) list"
  vr_json :: "pyval option"
  vr_text :: string
  vr_error :: string

type_synonym ('w, 'a) rio = "('w request_world, pyexc, 'a) io"

record 'w http_env =
  he_send :: "('w, venue_response) rio"
  he_now :: "('w, pyfloat) rio"
  he_sleep :: "pyfloat \<Rightarrow> ('w, unit) rio"
  he_uniform :: "pyfloat \<Rightarrow> ('w, pyfloat) rio"

definition get_until :: "string \<Rightarrow> ('w, pyfloat) rio" where
  "get_until key st = (Inr (case dget (rq_backoff st) key of None \<Rightarrow> Fin 0 | Some t \<Rightarrow> t), st)"

definition set_until :: "string \<Rightarrow> pyfloat \<Rightarrow> ('w, unit) rio" where
  "set_until key t st = (Inr (), st\<lparr>rq_backoff := dset (rq_backoff st) key t\<rparr>)"

definition py_max :: "pyfloat \<Rightarrow> pyfloat \<Rightarrow> pyfloat" where
  "py_max a b = (if flt a b then b else a)"

definition py_minf :: "pyfloat \<Rightarrow> pyfloat \<Rightarrow> pyfloat" where
  "py_minf a b = (if flt b a then b else a)"

text \<open>\<open>max(xs)\<close> and \<open>min(xs)\<close> of a list that is not empty\<close>

fun py_max_of :: "pyfloat list \<Rightarrow> pyfloat" where
  "py_max_of [] = Fin 0"
| "py_max_of (d # ds) = foldl py_max d ds"

fun py_min_of_list :: "pyfloat list \<Rightarrow> pyfloat" where
  "py_min_of_list [] = Fin 0"
| "py_min_of_list (d # ds) = foldl py_minf d ds"

text \<open>\<open>self._backoff_until = max(self._backoff_until, t)\<close>\<close>

definition raise_until :: "string \<Rightarrow> pyfloat \<Rightarrow> ('w, unit) rio" where
  "raise_until key t = bindw (get_until key) (\<lambda>u. set_until key (py_max u t))"

text \<open>\<open>f"{x:.0f}"\<close>\<close>

definition fixed0 :: "pyfloat \<Rightarrow> string" where
  "fixed0 x = (case x of
       Fin q \<Rightarrow> (let (a, b) = quotient_of q in show_int (div_half_even a b))
     | PosInf \<Rightarrow> ''inf'' | NegInf \<Rightarrow> ''-inf'' | NaN \<Rightarrow> ''nan'')"

text \<open>The \<open>retry_after\<close> of an exception; an infinite wait has no number of seconds and is carried as none.\<close>

definition wait_hint :: "pyfloat \<Rightarrow> rat option" where
  "wait_hint x = (case x of Fin q \<Rightarrow> Some q | _ \<Rightarrow> None)"

definition raisew :: "pyexc \<Rightarrow> ('w, 'a) rio" where
  "raisew e = liftw (Inl e)"

section \<open>One round\<close>

datatype attempt = Answer pyval | Spent | Again

datatype failure = StatusFailure venue_response | OtherFailure pyexc

definition vr_success :: "venue_response \<Rightarrow> bool" where
  "vr_success r \<longleftrightarrow> 200 \<le> vr_status r \<and> vr_status r < 300"

definition catchw :: "('w, failure, 'a) io \<Rightarrow> (failure \<Rightarrow> ('w, pyexc, 'a) io) \<Rightarrow> ('w, pyexc, 'a) io" where
  "catchw m h w = (case m w of (Inl f, w) \<Rightarrow> h f w | (Inr v, w) \<Rightarrow> (Inr v, w))"

text \<open>
  The \<open>try\<close> body: \<open>answer\<close> reads the response, and is \<open>None\<close> when control reaches
  \<open>raise_for_status\<close>, after which the loop goes round unless it raised.
\<close>

definition exchange :: "'w http_env \<Rightarrow> (venue_response \<Rightarrow> ('w, attempt option) rio) \<Rightarrow>
    ('w request_world, failure, attempt) io" where
  "exchange env answer =
     bindw (failw OtherFailure (he_send env)) (\<lambda>resp.
     bindw (failw OtherFailure (answer resp)) (\<lambda>r.
     case r of
       Some a \<Rightarrow> retw a
     | None \<Rightarrow> if vr_success resp then retw Again else liftw (Inl (StatusFailure resp))))"

definition body_json :: "venue_response \<Rightarrow> pyval res" where
  "body_json resp = (case vr_json resp of
       Some v \<Rightarrow> Inr v | None \<Rightarrow> Inl (ValueError ''Expecting value: line 1 column 1 (char 0)''))"

text \<open>\<open>int(resp.headers.get(k, dflt))\<close>\<close>

definition int_header :: "venue_response \<Rightarrow> string \<Rightarrow> int \<Rightarrow> int res" where
  "int_header resp k dflt = (case map_of (vr_headers resp) k of None \<Rightarrow> Inr dflt | Some s \<Rightarrow> py_int (PStr s))"

text \<open>\<open>await asyncio.sleep(1)\<close> with a retry less.\<close>

definition pause :: "'w http_env \<Rightarrow> ('w, attempt) rio" where
  "pause env = bindw (he_sleep env (Fin 1)) (\<lambda>_. retw Spent)"

definition transient_statuses :: "int list" where "transient_statuses = [502, 503, 504, 520]"

definition other_handler :: "'w http_env \<Rightarrow> (pyexc \<Rightarrow> bool) \<Rightarrow> pyexc \<Rightarrow> ('w, attempt) rio" where
  "other_handler env reraised e = (if \<not> is_exception e \<or> reraised e then raisew e else pause env)"

definition status_handler :: "'w http_env \<Rightarrow> string \<Rightarrow> string \<Rightarrow> venue_response \<Rightarrow> ('w, attempt) rio" where
  "status_handler env name what resp =
     (if vr_status resp \<in> set transient_statuses then pause env
      else if 500 \<le> vr_status resp then
        raisew (UpstreamUnavailableError (name @ '' upstream error '' @ show_int (vr_status resp) @ '' on '' @ what) None)
      else raisew (HTTPStatusError (vr_status resp) (vr_error resp)))"

definition venue_handler :: "'w http_env \<Rightarrow> (pyexc \<Rightarrow> bool) \<Rightarrow> string \<Rightarrow> string \<Rightarrow> failure \<Rightarrow> ('w, attempt) rio" where
  "venue_handler env reraised name what f = (case f of
       StatusFailure resp \<Rightarrow> status_handler env name what resp
     | OtherFailure e \<Rightarrow> other_handler env reraised e)"

text \<open>Waiting out the backoff: a wait beyond \<open>patience\<close> seconds is refused with \<open>told\<close>.\<close>

definition wait_backoff :: "'w http_env \<Rightarrow> rat \<Rightarrow> string \<Rightarrow> ('w, unit) rio" where
  "wait_backoff env patience told =
     bindw (he_now env) (\<lambda>now.
     bindw (get_until []) (\<lambda>u.
     if \<not> flt now u then retw ()
     else
       let wait_time = fsub u now in
       if flt (Fin patience) wait_time then
         raisew (UpstreamUnavailableError (told @ '' Retry in '' @ fixed0 wait_time @ ''s.'') (wait_hint wait_time))
       else bindw (he_uniform env (Fin 1)) (\<lambda>j. he_sleep env (fadd wait_time j))))"

definition exhausted :: "'w http_env \<Rightarrow> string \<Rightarrow> string \<Rightarrow> ('w, pyval) rio" where
  "exhausted env key what =
     bindw (get_until key) (\<lambda>u.
     bindw (he_now env) (\<lambda>now.
     let remaining = fsub u now in
     raisew (UpstreamUnavailableError (''Max retries exceeded for '' @ what)
       (if flt (Fin 0) remaining then wait_hint remaining else None))))"

section \<open>The loop\<close>

partial_function (option) retry_loop ::
  "(nat \<Rightarrow> ('w, attempt) rio) \<Rightarrow> ('w, pyval) rio \<Rightarrow> nat \<Rightarrow> 'w request_world \<Rightarrow> (pyval res \<times> 'w request_world) option" where
  "retry_loop attempt give_up retries w =
     (if retries = 0 then Some (give_up w)
      else case attempt retries w of
        (Inl e, w) \<Rightarrow> Some (Inl e, w)
      | (Inr a, w) \<Rightarrow>
          (case a of
             Answer v \<Rightarrow> Some (Inr v, w)
           | Spent \<Rightarrow> retry_loop attempt give_up (retries - 1) w
           | Again \<Rightarrow> retry_loop attempt give_up retries w))"

text \<open>The reference: \<open>n\<close> rounds at most, one after the other.\<close>

fun rounds :: "(nat \<Rightarrow> ('w, attempt) rio) \<Rightarrow> ('w, pyval) rio \<Rightarrow> nat \<Rightarrow> ('w, pyval) rio" where
  "rounds attempt give_up 0 = give_up"
| "rounds attempt give_up (Suc n) = bindw (attempt (Suc n)) (\<lambda>a. case a of
       Answer v \<Rightarrow> retw v
     | _ \<Rightarrow> rounds attempt give_up n)"

section \<open>Binance\<close>

definition binance_WEIGHT_LIMITS :: "(string \<times> int) list" where
  "binance_WEIGHT_LIMITS = [(''api.binance.com'', 6000), (''fapi.binance.com'', 2400), (''dapi.binance.com'', 2400)]"

definition url_host :: "string \<Rightarrow> string" where
  "url_host url = split_all CHR ''/'' url ! 2"

definition binance_note_weight :: "'w http_env \<Rightarrow> string \<Rightarrow> int \<Rightarrow> ('w, unit) rio" where
  "binance_note_weight env host used_weight =
     (let weight_limit = (case map_of binance_WEIGHT_LIMITS host of None \<Rightarrow> 1200 | Some n \<Rightarrow> n) in
      if \<not> flt (fmul (Fin (of_int weight_limit)) (round64 (95 / 100))) (Fin (of_int used_weight)) then retw ()
      else
        bindw (he_now env) (\<lambda>now.
        bindw (get_until host) (\<lambda>u.
        if flt u now then bindw (he_now env) (\<lambda>now. set_until host (fadd now (Fin 2))) else retw ())))"

definition retry_after_or :: "venue_response \<Rightarrow> int \<Rightarrow> int res" where
  "retry_after_or resp dflt = (case int_header resp ''Retry-After'' dflt of
       Inr n \<Rightarrow> Inr n
     | Inl (TypeError t) \<Rightarrow> Inr dflt
     | Inl e \<Rightarrow> if is_value_error e then Inr dflt else Inl e)"

definition binance_answer :: "'w http_env \<Rightarrow> string \<Rightarrow> venue_response \<Rightarrow> ('w, attempt option) rio" where
  "binance_answer env host resp =
     bindw (liftw (int_header resp ''x-mbx-used-weight-1m'' 0)) (\<lambda>used_weight.
     bindw (binance_note_weight env host used_weight) (\<lambda>_.
     if vr_status resp = 200 then liftw (bindr (body_json resp) (\<lambda>v. Inr (Some (Answer v))))
     else if vr_status resp = 429 \<or> vr_status resp = 418 then
       bindw (liftw (retry_after_or resp 5)) (\<lambda>retry_after.
       bindw (he_now env) (\<lambda>now.
       bindw (liftw (float_of_int retry_after)) (\<lambda>wait.
       bindw (raise_until host (fadd now wait)) (\<lambda>_. retw (Some Spent)))))
     else retw None))"

text \<open>The message of a refused request: the \<open>msg\<close> of its JSON, or its text.\<close>

definition binance_message :: "venue_response \<Rightarrow> string" where
  "binance_message resp = (case bindr (body_json resp) (\<lambda>v. py_get_or v ''msg'' (PStr ''Unknown API Error'')) of
       Inr m \<Rightarrow> py_str m
     | Inl e \<Rightarrow> vr_text resp)"

definition binance_handler :: "'w http_env \<Rightarrow> string \<Rightarrow> failure \<Rightarrow> ('w, attempt) rio" where
  "binance_handler env url f = (case f of
       StatusFailure resp \<Rightarrow>
         if vr_status resp \<in> {400, 404, 405} then
           raisew (ValueError (''Binance API Error ('' @ show_int (vr_status resp) @ ''): '' @ binance_message resp))
         else status_handler env ''Binance'' url resp
     | OtherFailure e \<Rightarrow> other_handler env is_value_error e)"

definition binance_attempt :: "'w http_env \<Rightarrow> string \<Rightarrow> nat \<Rightarrow> ('w, attempt) rio" where
  "binance_attempt env url retries =
     (let host = url_host url in
      bindw (he_now env) (\<lambda>now.
      bindw (get_until host) (\<lambda>u.
      bindw (if flt now u then bindw (he_uniform env (Fin 1)) (\<lambda>j. he_sleep env (fadd (fsub u now) j)) else retw ()) (\<lambda>_.
      catchw (exchange env (binance_answer env host)) (binance_handler env url)))))"

definition binance_make_request :: "'w http_env \<Rightarrow> string \<Rightarrow> 'w request_world \<Rightarrow> (pyval res \<times> 'w request_world) option" where
  "binance_make_request env url = retry_loop (binance_attempt env url) (exhausted env (url_host url) url) 3"

section \<open>Bybit\<close>

text \<open>\<open>v == n\<close> for a JSON value and an integer.\<close>

fun equals_int :: "pyval \<Rightarrow> int \<Rightarrow> bool" where
  "equals_int (PInt m) n = (m = n)"
| "equals_int (PFloat x) n = (x = Fin (of_int n))"
| "equals_int (PBool b) n = ((if b then 1 else 0) = n)"
| "equals_int _ n = False"

definition upstream_or_value_error :: "pyexc \<Rightarrow> bool" where
  "upstream_or_value_error e \<longleftrightarrow> is_value_error e \<or> (case e of UpstreamUnavailableError m r \<Rightarrow> True | _ \<Rightarrow> False)"

definition bybit_note_limit :: "'w http_env \<Rightarrow> venue_response \<Rightarrow> ('w, unit) rio" where
  "bybit_note_limit env resp =
     bindw (liftw (int_header resp ''X-Bapi-Limit-Status'' 100)) (\<lambda>remaining.
     if \<not> remaining < 10 then retw ()
     else
       bindw (he_now env) (\<lambda>now.
       bindw (liftw (int_of_float (fmul now (Fin 1000)))) (\<lambda>now_ms.
       bindw (liftw (int_header resp ''X-Bapi-Limit-Reset-Timestamp'' (now_ms + 5000))) (\<lambda>reset_ms.
       bindw (liftw (bindr (float_of_int reset_ms) (\<lambda>x. fdiv x (Fin 1000)))) (\<lambda>reset.
       raise_until [] reset)))))"

text \<open>The result, with the time of the envelope where it has none of its own.\<close>

definition bybit_result :: "pyval \<Rightarrow> pyval res" where
  "bybit_result data =
     bindr (py_item data ''result'') (\<lambda>result.
     case result of
       PDict d \<Rightarrow> bindr (py_in ''time'' data) (\<lambda>timed.
         if timed \<and> dget d ''_envelope_ts'' = None then bindr (py_item data ''time'') (\<lambda>t. Inr (PDict (dset d ''_envelope_ts'' t)))
         else Inr result)
     | _ \<Rightarrow> Inr result)"

definition bybit_answer :: "'w http_env \<Rightarrow> venue_response \<Rightarrow> ('w, attempt option) rio" where
  "bybit_answer env resp =
     bindw (bybit_note_limit env resp) (\<lambda>_.
     if vr_status resp = 200 then
       bindw (liftw (body_json resp)) (\<lambda>data.
       bindw (liftw (py_item data ''retCode'')) (\<lambda>code.
       if equals_int code 10006 then
         bindw (he_now env) (\<lambda>now. bindw (raise_until [] (fadd now (Fin 2))) (\<lambda>_. retw (Some Spent)))
       else if \<not> equals_int code 0 then
         bindw (liftw (py_item data ''retMsg'')) (\<lambda>m.
         raisew (ValueError (''Bybit API Error ('' @ py_str code @ ''): '' @ py_str m)))
       else bindw (liftw (bybit_result data)) (\<lambda>result. retw (Some (Answer result)))))
     else if vr_status resp = 403 then
       bindw (he_now env) (\<lambda>now. bindw (raise_until [] (fadd now (Fin 600))) (\<lambda>_.
       raisew (UpstreamUnavailableError ''Bybit IP ban triggered (403). Retry in 10 minutes.'' (Some 600))))
     else if vr_status resp = 429 then
       bindw (he_now env) (\<lambda>now. bindw (raise_until [] (fadd now (Fin 5))) (\<lambda>_. retw (Some Spent)))
     else retw None)"

definition bybit_attempt :: "'w http_env \<Rightarrow> string \<Rightarrow> nat \<Rightarrow> ('w, attempt) rio" where
  "bybit_attempt env endpoint retries =
     bindw (wait_backoff env 30 ''Bybit IP ban in effect.'') (\<lambda>_.
     catchw (exchange env (bybit_answer env)) (venue_handler env upstream_or_value_error ''Bybit'' endpoint))"

definition bybit_rest_url :: string where "bybit_rest_url = ''https://api.bybit.com''"

definition bybit_make_request :: "'w http_env \<Rightarrow> string \<Rightarrow> 'w request_world \<Rightarrow> (pyval res \<times> 'w request_world) option" where
  "bybit_make_request env endpoint =
     retry_loop (bybit_attempt env endpoint) (exhausted env [] (bybit_rest_url @ endpoint)) 3"

section \<open>OKX\<close>

text \<open>\<open>max(float(header), 2.0) if header else 10.0\<close>, and \<open>10.0\<close> for a header that is no number.\<close>

definition okx_retry_wait :: "venue_response \<Rightarrow> pyfloat" where
  "okx_retry_wait resp = (case map_of (vr_headers resp) ''Retry-After'' of
       None \<Rightarrow> Fin 10
     | Some h \<Rightarrow> if h = [] then Fin 10 else (case parse_float h of Some x \<Rightarrow> py_max x (Fin 2) | None \<Rightarrow> Fin 10))"

definition okx_answer :: "'w http_env \<Rightarrow> venue_response \<Rightarrow> ('w, attempt option) rio" where
  "okx_answer env resp =
     (if vr_status resp = 429 then
        bindw (he_now env) (\<lambda>now. bindw (raise_until [] (fadd now (okx_retry_wait resp))) (\<lambda>_. retw (Some Spent)))
      else if vr_status resp = 200 then
        bindw (liftw (body_json resp)) (\<lambda>body.
        bindw (liftw (py_get_or body ''code'' (PStr ''0''))) (\<lambda>code.
        if code \<noteq> PStr ''0'' then
          bindw (liftw (py_get_or body ''msg'' (PStr ''Unknown error''))) (\<lambda>m.
          raisew (ValueError (''OKX API Error ('' @ py_str code @ ''): '' @ py_str m)))
        else bindw (liftw (py_get_or body ''data'' (PList []))) (\<lambda>data. retw (Some (Answer data)))))
      else retw None)"

definition okx_attempt :: "'w http_env \<Rightarrow> string \<Rightarrow> nat \<Rightarrow> ('w, attempt) rio" where
  "okx_attempt env endpoint retries =
     bindw (wait_backoff env 60 ''OKX backoff active.'') (\<lambda>_.
     catchw (exchange env (okx_answer env)) (venue_handler env is_value_error ''OKX'' endpoint))"

definition okx_rest_url :: string where "okx_rest_url = ''https://www.okx.com''"

definition okx_make_request :: "'w http_env \<Rightarrow> string \<Rightarrow> 'w request_world \<Rightarrow> (pyval res \<times> 'w request_world) option" where
  "okx_make_request env endpoint =
     retry_loop (okx_attempt env endpoint) (exhausted env [] (okx_rest_url @ endpoint)) 3"

section \<open>KuCoin\<close>

definition kucoin_answer :: "'w http_env \<Rightarrow> venue_response \<Rightarrow> ('w, attempt option) rio" where
  "kucoin_answer env resp =
     (if vr_status resp = 429 then
        bindw (he_now env) (\<lambda>now. bindw (raise_until [] (fadd now (Fin 5))) (\<lambda>_. retw (Some Spent)))
      else if vr_status resp = 200 then
        bindw (liftw (body_json resp)) (\<lambda>body.
        bindw (liftw (py_get_or body ''code'' (PStr ''200000''))) (\<lambda>code.
        if code \<noteq> PStr ''200000'' then
          bindw (liftw (py_get_or body ''msg'' (PStr ''Unknown error''))) (\<lambda>m.
          raisew (ValueError (''KuCoin API Error ('' @ py_str code @ ''): '' @ py_str m)))
        else bindw (liftw (py_get body ''data'')) (\<lambda>data. retw (Some (Answer data)))))
      else retw None)"

definition kucoin_attempt :: "'w http_env \<Rightarrow> string \<Rightarrow> nat \<Rightarrow> ('w, attempt) rio" where
  "kucoin_attempt env endpoint retries =
     bindw (wait_backoff env 30 ''KuCoin backoff active.'') (\<lambda>_.
     catchw (exchange env (kucoin_answer env)) (venue_handler env is_value_error ''KuCoin'' endpoint))"

definition kucoin_make_request :: "'w http_env \<Rightarrow> string \<Rightarrow> string \<Rightarrow> 'w request_world \<Rightarrow>
    (pyval res \<times> 'w request_world) option" where
  "kucoin_make_request env base endpoint =
     retry_loop (kucoin_attempt env endpoint) (exhausted env [] (base @ endpoint)) 3"

section \<open>Hyperliquid\<close>

text \<open>The wait of Hyperliquid spreads the callers that queue up behind a backoff.\<close>

definition queue_up :: "int \<Rightarrow> ('w, int) rio" where
  "queue_up n st = (Inr (rq_queue st + n), st\<lparr>rq_queue := rq_queue st + n\<rparr>)"

definition finallyw :: "('w, 'a) rio \<Rightarrow> ('w, unit) rio \<Rightarrow> ('w, 'a) rio" where
  "finallyw m f w = (case m w of (r, w) \<Rightarrow> (case f w of (Inl e, w) \<Rightarrow> (Inl e, w) | (Inr _, w) \<Rightarrow> (r, w)))"

definition hyperliquid_wait :: "'w http_env \<Rightarrow> ('w, unit) rio" where
  "hyperliquid_wait env =
     bindw (he_now env) (\<lambda>now.
     bindw (get_until []) (\<lambda>u.
     if \<not> flt now u then retw ()
     else
       let wait_time = fsub u now in
       if flt (Fin 30) wait_time then
         raisew (UpstreamUnavailableError (''Hyperliquid backoff in effect. Retry in '' @ fixed0 wait_time @ ''s.'') (wait_hint wait_time))
       else
         bindw (queue_up 1) (\<lambda>n.
         finallyw
           (bindw (he_uniform env (py_minf (fadd (round64 (5 / 100)) (fmul (Fin (of_int n)) (Fin (1 / 4)))) (Fin 5))) (\<lambda>j.
              he_sleep env (fadd wait_time j)))
           (bindw (queue_up (- 1)) (\<lambda>_. retw ())))))"

definition hyperliquid_answer :: "'w http_env \<Rightarrow> string \<Rightarrow> nat \<Rightarrow> venue_response \<Rightarrow> ('w, attempt option) rio" where
  "hyperliquid_answer env info_type retries resp =
     (if vr_status resp = 200 then liftw (bindr (body_json resp) (\<lambda>v. Inr (Some (Answer v))))
      else if vr_status resp = 429 then
        bindw (he_now env) (\<lambda>now.
        bindw (raise_until [] (fadd now (Fin (of_int (5 * (4 - int retries)))))) (\<lambda>_. retw (Some Spent)))
      else if vr_status resp = 422 then raisew (ValueError (''Hyperliquid rejected '' @ info_type @ '' request (422)''))
      else retw None)"

definition hyperliquid_attempt :: "'w http_env \<Rightarrow> string \<Rightarrow> nat \<Rightarrow> ('w, attempt) rio" where
  "hyperliquid_attempt env info_type retries =
     bindw (hyperliquid_wait env) (\<lambda>_.
     catchw (exchange env (hyperliquid_answer env info_type retries))
       (venue_handler env upstream_or_value_error ''Hyperliquid'' info_type))"

definition hyperliquid_make_request :: "'w http_env \<Rightarrow> string \<Rightarrow> 'w request_world \<Rightarrow>
    (pyval res \<times> 'w request_world) option" where
  "hyperliquid_make_request env info_type =
     retry_loop (hyperliquid_attempt env info_type) (exhausted env [] info_type) 3"

section \<open>Termination\<close>

text \<open>A venue that answers no success but 200: the answer every helper has a case for.\<close>

definition plain_venue :: "'w http_env \<Rightarrow> bool" where
  "plain_venue env \<longleftrightarrow> (\<forall>w resp w'. he_send env w = (Inr resp, w') \<longrightarrow> vr_success resp \<longrightarrow> vr_status resp = 200)"

definition moves :: "('w, attempt) rio \<Rightarrow> bool" where
  "moves m \<longleftrightarrow> (\<forall>w w'. m w \<noteq> (Inr Again, w'))"

lemma retry_loop_rounds:
  assumes "\<And>n. moves (attempt n)"
  shows "retry_loop attempt give_up n w = Some (rounds attempt give_up n w)"
proof (induction n arbitrary: w)
  case 0
  show ?case by (subst retry_loop.simps) simp
next
  case (Suc n)
  show ?case
    using assms [of "Suc n"] Suc.IH
    by (subst retry_loop.simps) (auto simp: bindw_def moves_def retw_eq split: sum.splits prod.splits attempt.splits)
qed

lemma moves_bindw: "(\<And>v. moves (f v)) \<Longrightarrow> moves (bindw m f)"
  by (auto simp: moves_def bindw_def split: sum.splits prod.splits)

lemma moves_raise: "moves (raisew e)" "moves (pause env)"
  by (auto simp: moves_def raisew_def liftw_def pause_def bindw_def retw_eq split: sum.splits prod.splits)

lemma moves_other: "moves (other_handler env reraised e)"
  by (simp add: other_handler_def moves_raise)

lemma moves_status: "moves (status_handler env name what resp)"
  by (simp add: status_handler_def moves_raise)

lemma moves_handlers: "moves (venue_handler env reraised name what f)" "moves (binance_handler env url f)"
  by (auto simp: venue_handler_def binance_handler_def moves_other moves_status moves_raise split: failure.split)

definition answers_plain :: "(venue_response \<Rightarrow> ('w, attempt option) rio) \<Rightarrow> bool" where
  "answers_plain answer \<longleftrightarrow> (\<forall>resp w w'. answer resp w \<noteq> (Inr (Some Again), w')
     \<and> (vr_status resp = 200 \<longrightarrow> answer resp w \<noteq> (Inr None, w')))"

lemma failw_Inr_iff: "failw f m w = (Inr v, w') \<longleftrightarrow> m w = (Inr v, w')"
  by (cases "m w"; cases "fst (m w)") (auto simp: failw_def)

lemma exchange_moves:
  assumes "plain_venue env" "answers_plain answer" "\<And>f. moves (h f)"
  shows "moves (catchw (exchange env answer) h)"
proof -
  have "exchange env answer w \<noteq> (Inr Again, w')" for w w'
  proof
    assume "exchange env answer w = (Inr Again, w')"
    then obtain resp w1 r w2 where "he_send env w = (Inr resp, w1)" "answer resp w1 = (Inr r, w2)"
      "r = Some Again \<or> r = None \<and> vr_success resp"
      by (auto simp: exchange_def bindw_Inr_iff failw_Inr_iff retw_eq liftw_def split: option.splits if_splits)
        (metis option.exhaust)
    then show False using assms(1,2) unfolding plain_venue_def answers_plain_def by metis
  qed
  then show ?thesis
    using assms(3) by (auto simp: moves_def catchw_def split: sum.splits prod.splits) 
qed

lemma answers_plainI:
  assumes "\<And>resp w a w'. answer resp w = (Inr a, w') \<Longrightarrow> a = Some Spent \<or> (\<exists>v. a = Some (Answer v)) \<or> a = None \<and> vr_status resp \<noteq> 200"
  shows "answers_plain answer"
  using assms unfolding answers_plain_def by (metis attempt.distinct(4,6) option.distinct(1) option.inject)

lemmas answer_simps = bindw_Inr_iff retw_eq liftw_def raisew_def bindr_Inr_iff

lemma binance_answers_plain: "answers_plain (binance_answer env host)"
  by (rule answers_plainI) (auto simp: binance_answer_def answer_simps split: if_splits)

lemma bybit_answers_plain: "answers_plain (bybit_answer env)"
  by (rule answers_plainI) (auto simp: bybit_answer_def answer_simps split: if_splits)

lemma okx_answers_plain: "answers_plain (okx_answer env)"
  by (rule answers_plainI) (auto simp: okx_answer_def answer_simps split: if_splits)

lemma kucoin_answers_plain: "answers_plain (kucoin_answer env)"
  by (rule answers_plainI) (auto simp: kucoin_answer_def answer_simps split: if_splits)

lemma hyperliquid_answers_plain: "answers_plain (hyperliquid_answer env info_type n)"
  by (rule answers_plainI) (auto simp: hyperliquid_answer_def answer_simps split: if_splits)

lemma requests_bounded:
  assumes "plain_venue env"
  shows "binance_make_request env url w = Some (rounds (binance_attempt env url) (exhausted env (url_host url) url) 3 w)"
    and "bybit_make_request env endpoint w
      = Some (rounds (bybit_attempt env endpoint) (exhausted env [] (bybit_rest_url @ endpoint)) 3 w)"
    and "okx_make_request env endpoint w
      = Some (rounds (okx_attempt env endpoint) (exhausted env [] (okx_rest_url @ endpoint)) 3 w)"
    and "kucoin_make_request env base endpoint w
      = Some (rounds (kucoin_attempt env endpoint) (exhausted env [] (base @ endpoint)) 3 w)"
    and "hyperliquid_make_request env info_type w
      = Some (rounds (hyperliquid_attempt env info_type) (exhausted env [] info_type) 3 w)"
proof -
  note ends = exchange_moves [OF assms _ moves_handlers(1)]
  show "binance_make_request env url w = Some (rounds (binance_attempt env url) (exhausted env (url_host url) url) 3 w)"
    unfolding binance_make_request_def
    by (rule retry_loop_rounds) (simp add: binance_attempt_def Let_def moves_bindw
        exchange_moves [OF assms binance_answers_plain moves_handlers(2)])
  show "bybit_make_request env endpoint w
      = Some (rounds (bybit_attempt env endpoint) (exhausted env [] (bybit_rest_url @ endpoint)) 3 w)"
    unfolding bybit_make_request_def
    by (rule retry_loop_rounds) (simp add: bybit_attempt_def moves_bindw ends [OF bybit_answers_plain])
  show "okx_make_request env endpoint w
      = Some (rounds (okx_attempt env endpoint) (exhausted env [] (okx_rest_url @ endpoint)) 3 w)"
    unfolding okx_make_request_def
    by (rule retry_loop_rounds) (simp add: okx_attempt_def moves_bindw ends [OF okx_answers_plain])
  show "kucoin_make_request env base endpoint w
      = Some (rounds (kucoin_attempt env endpoint) (exhausted env [] (base @ endpoint)) 3 w)"
    unfolding kucoin_make_request_def
    by (rule retry_loop_rounds) (simp add: kucoin_attempt_def moves_bindw ends [OF kucoin_answers_plain])
  show "hyperliquid_make_request env info_type w
      = Some (rounds (hyperliquid_attempt env info_type) (exhausted env [] info_type) 3 w)"
    unfolding hyperliquid_make_request_def
    by (rule retry_loop_rounds) (simp add: hyperliquid_attempt_def moves_bindw ends [OF hyperliquid_answers_plain])
qed

text \<open>
  C5. Every request ends: on a venue whose only success is 200, the request helper of each of the
  five adapters returns or raises after at most three rounds, one HTTP exchange each.
\<close>

theorem requests_end:
  assumes "plain_venue env"
  shows "binance_make_request env url w = Some (rounds (binance_attempt env url) (exhausted env (url_host url) url) 3 w)
    \<and> bybit_make_request env endpoint w = Some (rounds (bybit_attempt env endpoint) (exhausted env [] (bybit_rest_url @ endpoint)) 3 w)
    \<and> okx_make_request env endpoint w = Some (rounds (okx_attempt env endpoint) (exhausted env [] (okx_rest_url @ endpoint)) 3 w)
    \<and> kucoin_make_request env base endpoint w = Some (rounds (kucoin_attempt env endpoint) (exhausted env [] (base @ endpoint)) 3 w)
    \<and> hyperliquid_make_request env info_type w = Some (rounds (hyperliquid_attempt env info_type) (exhausted env [] info_type) 3 w)"
  using assms by (intro conjI requests_bounded)

subsection \<open>Another success\<close>

lemma retry_loop_diverges:
  assumes "attempt n w = (Inr Again, w)" "0 < n"
  shows "retry_loop attempt give_up n w = None"
proof (rule ccontr)
  assume "retry_loop attempt give_up n w \<noteq> None"
  then obtain y where "retry_loop attempt give_up n w = Some y" by blast
  then have "\<not> (attempt = attempt \<and> n = n \<and> w = w)"
  proof (rule retry_loop.raw_induct [of "\<lambda>a g k v r. \<not> (a = attempt \<and> k = n \<and> v = w)", rotated])
    fix loop and a :: "nat \<Rightarrow> ('a, attempt) rio" and g k v r
    assume IH: "\<And>a g k v r. loop a g k v = Some r \<Longrightarrow> \<not> (a = attempt \<and> k = n \<and> v = w)"
      and run: "(if k = 0 then Some (g v) else case a k v of (Inl e, w) \<Rightarrow> Some (Inl e, w)
        | (Inr x, w) \<Rightarrow> (case x of Answer v \<Rightarrow> Some (Inr v, w) | Spent \<Rightarrow> loop a g (k - 1) w | Again \<Rightarrow> loop a g k w)) = Some r"
    show "\<not> (a = attempt \<and> k = n \<and> v = w)"
    proof
      assume "a = attempt \<and> k = n \<and> v = w"
      then have "loop attempt g n w = Some r" using run assms by simp
      then show False using IH by blast
    qed
  qed
  then show False by simp
qed

text \<open>A venue that answers every request with \<open>status\<close> at once.\<close>

definition one_answer :: "int \<Rightarrow> unit http_env" where
  "one_answer status = \<lparr>
     he_send = retw \<lparr>vr_status = status, vr_headers = [], vr_json = None, vr_text = [], vr_error = []\<rparr>,
     he_now = retw (Fin 1), he_sleep = (\<lambda>s. retw ()), he_uniform = (\<lambda>b. retw (Fin 1))\<rparr>"

definition at_rest :: "unit request_world" where
  "at_rest = \<lparr>rq_backoff = [], rq_queue = 0, rq_world = ()\<rparr>"

lemma round64_nonneg: "0 \<le> x \<Longrightarrow> round64 x = PosInf \<or> (\<exists>y\<ge>0. round64 x = Fin y)"
  using round_abs_nonneg [of x] by (auto simp: round64_def Let_def)

lemma fmul_nonneg:
  assumes "0 \<le> a" "y = PosInf \<or> (\<exists>b\<ge>0. y = Fin b)"
  shows "\<not> flt (fmul (Fin a) y) (Fin 0)"
proof (cases "y = PosInf")
  case True
  then show ?thesis using assms(1) by simp
next
  case False
  then obtain b where "0 \<le> b" "y = Fin b" using assms(2) by blast
  then show ?thesis using round64_nonneg [of "a * b"] assms(1) by auto
qed

lemma light_load: "0 \<le> n \<Longrightarrow> \<not> flt (fmul (Fin (of_int n)) (round64 (95 / 100))) (Fin 0)"
  by (rule fmul_nonneg) (simp_all add: round64_nonneg)

lemma other_success_loops:
  assumes "200 < status" "status < 300"
  shows "binance_make_request (one_answer status) url at_rest = None"
    and "bybit_make_request (one_answer status) endpoint at_rest = None"
    and "okx_make_request (one_answer status) endpoint at_rest = None"
    and "kucoin_make_request (one_answer status) base endpoint at_rest = None"
    and "hyperliquid_make_request (one_answer status) info_type at_rest = None"
proof -
  note round = one_answer_def at_rest_def exchange_def catchw_def bindw_def failw_def retw_eq liftw_def get_until_def
    wait_backoff_def hyperliquid_wait_def int_header_def vr_success_def Let_def
  have weight: "\<not> flt (fmul (Fin (of_int (case map_of binance_WEIGHT_LIMITS host of None \<Rightarrow> 1200 | Some n \<Rightarrow> n))) (round64 (95 / 100))) (Fin 0)"
    for host by (rule light_load) (auto simp: binance_WEIGHT_LIMITS_def)
  show "binance_make_request (one_answer status) url at_rest = None"
    unfolding binance_make_request_def
    using assms by (intro retry_loop_diverges)
      (simp_all add: binance_attempt_def binance_answer_def binance_note_weight_def round, use weight in \<open>simp add: Let_def\<close>)
  show "bybit_make_request (one_answer status) endpoint at_rest = None"
    unfolding bybit_make_request_def using assms
    by (intro retry_loop_diverges) (simp_all add: bybit_attempt_def bybit_answer_def bybit_note_limit_def round)
  show "okx_make_request (one_answer status) endpoint at_rest = None"
    unfolding okx_make_request_def using assms
    by (intro retry_loop_diverges) (simp_all add: okx_attempt_def okx_answer_def round)
  show "kucoin_make_request (one_answer status) base endpoint at_rest = None"
    unfolding kucoin_make_request_def using assms
    by (intro retry_loop_diverges) (simp_all add: kucoin_attempt_def kucoin_answer_def round)
  show "hyperliquid_make_request (one_answer status) info_type at_rest = None"
    unfolding hyperliquid_make_request_def using assms
    by (intro retry_loop_diverges) (simp_all add: hyperliquid_attempt_def hyperliquid_answer_def round)
qed

text \<open>
  A success other than 200, such as 204, is not counted as a try: each of the five request
  helpers sends the request again and again, and its loop does not end.
\<close>

theorem other_success_loops_forever:
  assumes "200 < status" "status < 300"
  shows "binance_make_request (one_answer status) url at_rest = None
    \<and> bybit_make_request (one_answer status) endpoint at_rest = None
    \<and> okx_make_request (one_answer status) endpoint at_rest = None
    \<and> kucoin_make_request (one_answer status) base endpoint at_rest = None
    \<and> hyperliquid_make_request (one_answer status) info_type at_rest = None"
  using assms by (intro conjI other_success_loops)

lemma other_success_loops_forever_witness:
  "okx_make_request (one_answer 204) ''/api/v5/public/time'' at_rest = None"
  by (rule other_success_loops_forever [THEN conjunct2, THEN conjunct2, THEN conjunct1]) simp_all

lemma requests_end_witness:
  "plain_venue (one_answer 503) \<and> okx_make_request (one_answer 503) ''/api/v5/public/time'' at_rest
     = Some (rounds (okx_attempt (one_answer 503) ''/api/v5/public/time'')
         (exhausted (one_answer 503) [] (okx_rest_url @ ''/api/v5/public/time'')) 3 at_rest)"
proof
  show plain: "plain_venue (one_answer 503)" by (simp add: plain_venue_def one_answer_def retw_eq vr_success_def)
  show "okx_make_request (one_answer 503) ''/api/v5/public/time'' at_rest
     = Some (rounds (okx_attempt (one_answer 503) ''/api/v5/public/time'')
         (exhausted (one_answer 503) [] (okx_rest_url @ ''/api/v5/public/time'')) 3 at_rest)"
    by (rule requests_end [OF plain, THEN conjunct2, THEN conjunct2, THEN conjunct1])
qed

end
