(* ===== verification/KrakenRequests.thy ===== *)
theory KrakenRequests
  imports Requests FloatMono
begin

text \<open>
  The throttle, the backoff and the request helper of the Kraken adapter,
  \<^verbatim>\<open>exchange_router/exchanges/kraken/adapter.py\<close>. Every request waits for its turn: a round of
  \<open>_await_throttle\<close> under the lock either grants the turn or says how long to sleep. That turns
  are apart however the callers interleave is proved of the rounds alone.
\<close>

section \<open>Addresses\<close>

definition kraken_spot_rest_url :: string where "kraken_spot_rest_url = ''https://api.kraken.com/0/public''"
definition kraken_futures_rest_url :: string where
  "kraken_futures_rest_url = ''https://futures.kraken.com/derivatives/api/v3''"
definition kraken_futures_chart_url :: string where
  "kraken_futures_chart_url = ''https://futures.kraken.com/api/charts/v1''"

text \<open>\<open>url.rsplit("/", 1)[1]\<close>\<close>

definition kraken_pair_endpoint :: "string \<Rightarrow> string option" where
  "kraken_pair_endpoint url =
     (if starts_with url kraken_spot_rest_url \<and> (ends_with url ''/OHLC'' \<or> ends_with url ''/Trades'')
      then Some (last (split_all CHR ''/'' url)) else None)"

text \<open>The endpoint and the pair of a request that has both.\<close>

definition kraken_pair_key :: "string \<Rightarrow> (string \<times> pyval) list \<Rightarrow> (string \<times> string) option" where
  "kraken_pair_key url params = (case kraken_pair_endpoint url of
       None \<Rightarrow> None
     | Some endpoint \<Rightarrow> (case dget params ''pair'' of
           None \<Rightarrow> None
         | Some pair \<Rightarrow> if truthy pair then Some (endpoint, py_str pair) else None))"

section \<open>The throttle\<close>

record kraken_rates =
  kr_backoff_until :: pyfloat
  kr_slowdown_until :: pyfloat
  kr_extra_interval_ms :: pyfloat
  kr_last_request_at :: pyfloat
  kr_last_pair_call_at :: "(string \<times> string, pyfloat) dict"

definition kraken_rates_init :: kraken_rates where
  "kraken_rates_init = \<lparr>kr_backoff_until = Fin 0, kr_slowdown_until = Fin 0, kr_extra_interval_ms = Fin 0,
     kr_last_request_at = Fin 0, kr_last_pair_call_at = []\<rparr>"

text \<open>\<open>x / 1000.0\<close>\<close>

definition thousandth :: "pyfloat \<Rightarrow> pyfloat" where
  "thousandth x = (case x of Fin q \<Rightarrow> round64 (q / 1000) | _ \<Rightarrow> x)"

definition kraken_base_interval_ms :: pyfloat where "kraken_base_interval_ms = Fin 200"
definition kraken_pair_interval_ms :: pyfloat where "kraken_pair_interval_ms = Fin 1100"

definition kraken_global_interval :: "pyfloat \<Rightarrow> kraken_rates \<Rightarrow> pyfloat" where
  "kraken_global_interval now r =
     thousandth (if flt now (kr_slowdown_until r) then fadd kraken_base_interval_ms (kr_extra_interval_ms r)
                 else kraken_base_interval_ms)"

text \<open>The time still missing since an earlier request: none when there was no such request.\<close>

definition still_missing :: "pyfloat \<Rightarrow> pyfloat \<Rightarrow> pyfloat \<Rightarrow> pyfloat list" where
  "still_missing now since_t gap =
     (if flt (Fin 0) since_t then
        let since = fsub now since_t in (if flt since gap then [fsub gap since] else [])
      else [])"

definition pair_call_at :: "(string \<times> string) \<Rightarrow> kraken_rates \<Rightarrow> pyfloat" where
  "pair_call_at k r = (case dget (kr_last_pair_call_at r) k of None \<Rightarrow> Fin 0 | Some t \<Rightarrow> t)"

definition kraken_delays :: "pyfloat \<Rightarrow> (string \<times> string) option \<Rightarrow> kraken_rates \<Rightarrow> pyfloat list" where
  "kraken_delays now key r =
     (if flt now (kr_backoff_until r) then [fsub (kr_backoff_until r) now] else [])
     @ still_missing now (kr_last_request_at r) (kraken_global_interval now r)
     @ (case key of None \<Rightarrow> [] | Some k \<Rightarrow> still_missing now (pair_call_at k r) (thousandth kraken_pair_interval_ms))"

text \<open>One round: \<open>None\<close> grants the turn, \<open>Some wait\<close> is the wait before the next round.\<close>

definition kraken_round :: "pyfloat \<Rightarrow> (string \<times> string) option \<Rightarrow> kraken_rates \<Rightarrow> pyfloat option \<times> kraken_rates" where
  "kraken_round now key r =
     (let wait = py_max_of (kraken_delays now key r) in
      if fle wait (Fin 0) then
        (None, r\<lparr>kr_last_request_at := now,
          kr_last_pair_call_at := (case key of None \<Rightarrow> kr_last_pair_call_at r | Some k \<Rightarrow> dset (kr_last_pair_call_at r) k now)\<rparr>)
      else (Some wait, r))"

text \<open>What \<open>_set_backoff\<close> writes at the time \<open>now\<close>.\<close>

definition kraken_penalty :: "pyfloat \<Rightarrow> pyfloat \<Rightarrow> bool \<Rightarrow> kraken_rates \<Rightarrow> kraken_rates" where
  "kraken_penalty now wait strong r =
     (let r = r\<lparr>kr_backoff_until := py_max (kr_backoff_until r) (fadd now wait)\<rparr> in
      if strong then r\<lparr>kr_slowdown_until := py_max (kr_slowdown_until r) (fadd now (Fin 60)),
        kr_extra_interval_ms := py_max (kr_extra_interval_ms r) (Fin 1000)\<rparr> else r)"

section \<open>World and environment\<close>

text \<open>
  Other coroutines change the rates while one waits, so the environment's actions are given the
  whole of the world. \<open>kh_jitter\<close> is \<open>random.uniform(0.01, 0.1)\<close>, \<open>kh_random\<close> is \<open>random.random()\<close>,
  \<open>kh_describe\<close> the class and the text of an exception.
\<close>

record 'w kraken_world =
  kw_rates :: kraken_rates
  kw_world :: 'w

type_synonym ('w, 'a) kio = "('w kraken_world, pyexc, 'a) io"

record 'w kraken_http =
  kh_send :: "string \<Rightarrow> (string \<times> pyval) list \<Rightarrow> ('w, venue_response) kio"
  kh_now :: "('w, pyfloat) kio"
  kh_sleep :: "pyfloat \<Rightarrow> ('w, unit) kio"
  kh_jitter :: "('w, pyfloat) kio"
  kh_random :: "('w, pyfloat) kio"
  kh_describe :: "pyexc \<Rightarrow> string"

definition with_rates :: "(kraken_rates \<Rightarrow> 'a \<times> kraken_rates) \<Rightarrow> ('w, 'a) kio" where
  "with_rates f w = (case f (kw_rates w) of (v, r) \<Rightarrow> (Inr v, w\<lparr>kw_rates := r\<rparr>))"

definition kraken_turn :: "'w kraken_http \<Rightarrow> (string \<times> string) option \<Rightarrow> ('w, pyfloat option) kio" where
  "kraken_turn env key = bindw (kh_now env) (\<lambda>now. with_rates (kraken_round now key))"

definition kraken_pause :: "'w kraken_http \<Rightarrow> pyfloat \<Rightarrow> ('w, unit) kio" where
  "kraken_pause env wait = bindw (kh_jitter env) (\<lambda>j. kh_sleep env (fadd wait j))"

text \<open>\<open>while True\<close>: the value \<open>None\<close> is a caller whose turn never comes.\<close>

partial_function (option) kraken_await_throttle ::
  "'w kraken_http \<Rightarrow> (string \<times> string) option \<Rightarrow> 'w kraken_world \<Rightarrow> (unit res \<times> 'w kraken_world) option" where
  "kraken_await_throttle env key w =
     (case kraken_turn env key w of
        (Inl e, w) \<Rightarrow> Some (Inl e, w)
      | (Inr None, w) \<Rightarrow> Some (Inr (), w)
      | (Inr (Some wait), w) \<Rightarrow>
          (case kraken_pause env wait w of
             (Inl e, w) \<Rightarrow> Some (Inl e, w)
           | (Inr u, w) \<Rightarrow> kraken_await_throttle env key w))"

section \<open>Backoff\<close>

text \<open>\<open>min(60.0, 1.0 * (2 ** attempt)) * (0.5 + random.random())\<close>\<close>

definition kraken_backoff_wait :: "nat \<Rightarrow> pyfloat \<Rightarrow> pyfloat" where
  "kraken_backoff_wait attempt draw =
     fmul (py_minf (Fin 60) (round64 (2 ^ attempt))) (fadd (Fin (1 / 2)) draw)"

text \<open>\<open>if retry_until and retry_until > now\<close>\<close>

definition kraken_set_backoff :: "'w kraken_http \<Rightarrow> nat \<Rightarrow> pyfloat option \<Rightarrow> bool \<Rightarrow> ('w, pyfloat) kio" where
  "kraken_set_backoff env attempt retry_until strong =
     bindw (kh_now env) (\<lambda>now.
     bindw (case retry_until of
         Some u \<Rightarrow> if u \<noteq> Fin 0 \<and> flt now u then retw (fsub u now)
                   else bindw (kh_random env) (\<lambda>d. retw (kraken_backoff_wait attempt d))
       | None \<Rightarrow> bindw (kh_random env) (\<lambda>d. retw (kraken_backoff_wait attempt d))) (\<lambda>wait.
     bindw (with_rates (\<lambda>r. ((), kraken_penalty now wait strong r))) (\<lambda>_. retw wait)))"

text \<open>The time a throttled answer names: \<open>s.split(mark, 1)[1]\<close>, its first word without brackets and quotes.\<close>

fun after_sub :: "string \<Rightarrow> string \<Rightarrow> string option" where
  "after_sub p [] = (if p = [] then Some [] else None)"
| "after_sub p (c # s) = (if starts_with (c # s) p then Some (drop (length p) (c # s)) else after_sub p s)"

definition has_sub :: "string \<Rightarrow> string \<Rightarrow> bool" where
  "has_sub p s \<longleftrightarrow> after_sub p s \<noteq> None"

definition rstrip_set :: "string \<Rightarrow> string \<Rightarrow> string" where
  "rstrip_set cs s = rev (dropWhile (\<lambda>c. c \<in> set cs) (rev s))"

definition first_word :: "string \<Rightarrow> string option" where
  "first_word s = (case takeWhile (\<lambda>c. \<not> is_space c) (lstrip s) of [] \<Rightarrow> None | t \<Rightarrow> Some t)"

definition kraken_quotes :: string where "kraken_quotes = [CHR '']'', CHR 0x22, CHR 0x27]"

definition kraken_parse_throttle_until :: "string \<Rightarrow> pyfloat option" where
  "kraken_parse_throttle_until err_str = (case after_sub ''EService:Throttled:'' err_str of
       None \<Rightarrow> None
     | Some tail \<Rightarrow> (case first_word (rstrip_set kraken_quotes (strip tail)) of
           None \<Rightarrow> None
         | Some tok \<Rightarrow> parse_float (rstrip_set (CHR '','' # kraken_quotes) tok)))"

section \<open>Requests\<close>

text \<open>What the attempts so far have noted for the exception at the end, and how an attempt ends.\<close>

record kraken_notes =
  kn_status :: "int option"
  kn_error :: "string option"

datatype kraken_result = KAnswer pyval | KNext kraken_notes

datatype kraken_body = Usable pyval | Throttled string "pyfloat option"

definition kraken_read_body :: "string \<Rightarrow> pyval \<Rightarrow> kraken_body res" where
  "kraken_read_body url data = (case data of
       PDict d \<Rightarrow>
         (let err = (case dget d ''error'' of None \<Rightarrow> PNone | Some e \<Rightarrow> e) in
          if truthy err then
            (let err_str = py_str err; throttle_until = kraken_parse_throttle_until err_str in
             if (case throttle_until of None \<Rightarrow> False | Some x \<Rightarrow> x \<noteq> Fin 0) \<or> has_sub ''Rate limit exceeded'' err_str \<or> has_sub ''Too many requests'' err_str
             then Inr (Throttled err_str throttle_until)
             else Inl (ValueError (''Kraken Spot API Error: '' @ err_str)))
          else if dget d ''result'' = Some (PStr ''error'') then
            Inl (ValueError (''Kraken Futures API Error: '' @ py_str (case dget d ''errors'' of None \<Rightarrow> data | Some e \<Rightarrow> e)))
          else (case dget d ''result'' of
              Some (PDict r) \<Rightarrow> Inr (Usable (if starts_with url kraken_futures_chart_url then data else PDict r))
            | _ \<Rightarrow> Inr (Usable data)))
     | _ \<Rightarrow> Inr (Usable data))"

text \<open>\<open>time.time() + float(ra)\<close> of a \<open>Retry-After\<close> that is a number\<close>

definition kraken_retry_until :: "'w kraken_http \<Rightarrow> venue_response \<Rightarrow> ('w, pyfloat option) kio" where
  "kraken_retry_until env resp = (case map_of (vr_headers resp) ''Retry-After'' of
       None \<Rightarrow> retw None
     | Some ra \<Rightarrow>
         if ra = [] then retw None
         else bindw (kh_now env) (\<lambda>now. retw (map_option (fadd now) (parse_float ra))))"

text \<open>The body of the \<open>try\<close> once there is a response.\<close>

definition kraken_answer :: "'w kraken_http \<Rightarrow> string \<Rightarrow> nat \<Rightarrow> kraken_notes \<Rightarrow> venue_response \<Rightarrow>
    ('w kraken_world, failure, kraken_result) io" where
  "kraken_answer env url attempt notes resp =
     (if vr_status resp \<in> {429, 418, 502, 503, 504, 520} then
        failw OtherFailure (
          bindw (kraken_retry_until env resp) (\<lambda>retry_until.
          bindw (kraken_set_backoff env attempt retry_until (vr_status resp \<in> {429, 418})) (\<lambda>wait. retw (KNext notes))))
      else if vr_status resp = 200 then
        failw OtherFailure (case vr_json resp of
            None \<Rightarrow> bindw (kraken_set_backoff env attempt None False) (\<lambda>wait. retw (KNext (notes\<lparr>kn_error := Some ''JSONDecodeError''\<rparr>)))
          | Some data \<Rightarrow> bindw (liftw (kraken_read_body url data)) (\<lambda>body. case body of
                Usable v \<Rightarrow> retw (KAnswer v)
              | Throttled err_str throttle_until \<Rightarrow>
                  bindw (kraken_set_backoff env attempt throttle_until True) (\<lambda>wait. retw (KNext (notes\<lparr>kn_error := Some err_str\<rparr>)))))
      else if vr_success resp then retw (KNext notes)
      else liftw (Inl (StatusFailure resp)))"

definition kraken_handler :: "'w kraken_http \<Rightarrow> string \<Rightarrow> nat \<Rightarrow> kraken_notes \<Rightarrow> failure \<Rightarrow> ('w, kraken_result) kio" where
  "kraken_handler env url attempt notes f = (case f of
       StatusFailure resp \<Rightarrow>
         (let told = ''Kraken API Error ('' @ show_int (vr_status resp) @ '') on '' @ url @ '': '' @ vr_text resp in
          liftw (Inl (if 500 \<le> vr_status resp then UpstreamUnavailableError told None else ValueError told)))
     | OtherFailure e \<Rightarrow>
         if is_value_error e \<or> \<not> is_exception e then liftw (Inl e)
         else bindw (kraken_set_backoff env attempt None False) (\<lambda>wait. retw (KNext (notes\<lparr>kn_error := Some (kh_describe env e)\<rparr>))))"

text \<open>\<open>last_status\<close> is noted as soon as there is a response.\<close>

definition kraken_attempt :: "'w kraken_http \<Rightarrow> string \<Rightarrow> (string \<times> pyval) list \<Rightarrow> nat \<Rightarrow> kraken_notes \<Rightarrow> ('w, kraken_result) kio" where
  "kraken_attempt env url params attempt notes w = (case kh_send env url params w of
       (Inl e, w) \<Rightarrow> kraken_handler env url attempt notes (OtherFailure e) w
     | (Inr resp, w) \<Rightarrow>
         (let notes = notes\<lparr>kn_status := Some (vr_status resp)\<rparr> in
          catchw (kraken_answer env url attempt notes resp) (kraken_handler env url attempt notes) w))"

definition kraken_spent :: "string \<Rightarrow> kraken_notes \<Rightarrow> pyexc" where
  "kraken_spent url notes = UpstreamUnavailableError (''Kraken throttled or unavailable: '' @ url @ '' (last_status=''
     @ (case kn_status notes of None \<Rightarrow> ''None'' | Some n \<Rightarrow> show_int n) @ '', last_body_error=''
     @ (case kn_error notes of None \<Rightarrow> ''None'' | Some e \<Rightarrow> e) @ '')'') None"

text \<open>\<open>for attempt in range(max_retries)\<close>: every attempt waits for its turn first.\<close>

fun kraken_attempts :: "'w kraken_http \<Rightarrow> string \<Rightarrow> (string \<times> pyval) list \<Rightarrow> nat list \<Rightarrow> kraken_notes \<Rightarrow>
    'w kraken_world \<Rightarrow> (pyval res \<times> 'w kraken_world) option" where
  "kraken_attempts env url params [] notes w = Some (Inl (kraken_spent url notes), w)"
| "kraken_attempts env url params (a # rest) notes w =
     (case kraken_await_throttle env (kraken_pair_key url params) w of
        None \<Rightarrow> None
      | Some (Inl e, w) \<Rightarrow> Some (Inl e, w)
      | Some (Inr u, w) \<Rightarrow> (case kraken_attempt env url params a notes w of
            (Inl e, w) \<Rightarrow> Some (Inl e, w)
          | (Inr (KAnswer v), w) \<Rightarrow> Some (Inr v, w)
          | (Inr (KNext notes), w) \<Rightarrow> kraken_attempts env url params rest notes w))"

definition kraken_max_retries :: "string \<Rightarrow> nat" where
  "kraken_max_retries url = (if starts_with url kraken_spot_rest_url then 8 else 5)"

definition kraken_make_request :: "'w kraken_http \<Rightarrow> string \<Rightarrow> (string \<times> pyval) list \<Rightarrow>
    'w kraken_world \<Rightarrow> (pyval res \<times> 'w kraken_world) option" where
  "kraken_make_request env url params =
     kraken_attempts env url params [0..<kraken_max_retries url] \<lparr>kn_status = None, kn_error = None\<rparr>"

end
