(* ===== verification/KrakenThrottle.thy ===== *)
theory KrakenThrottle
  imports KrakenRequests
begin

text \<open>
  The turns of the Kraken throttle are apart whatever the interleaving of its callers. A wait is the
  difference of two floats; on the grid of the subnormals a positive one never rounds to zero, so
  a round grants a turn only when nothing is missing.
\<close>

section \<open>Differences of floats\<close>

text \<open>Every finite float is a multiple of the least subnormal.\<close>

definition on_grid :: "pyfloat \<Rightarrow> bool" where
  "on_grid x \<longleftrightarrow> (\<exists>k. x = Fin (of_int k * pow2 (- 1074)))"

lemma quantum_bound: "- 1074 \<le> quantum x"
  by (simp add: quantum_def Let_def split: prod.split)

lemma round64_grid: "round64 x = Fin y \<Longrightarrow> on_grid (Fin y)"
proof -
  assume r: "round64 x = Fin y"
  define n :: int where "n = 2 ^ nat (quantum x + 1074)"
  have "pow2 (quantum x) = of_int n * pow2 (- 1074)"
    using pow2_multiple [OF quantum_bound [of x]] pow2_pos [of "- 1074"] by (simp add: n_def field_simps)
  then have "round_abs x = of_int (round_half_even (\<bar>x\<bar> / pow2 (quantum x)) * n) * pow2 (- 1074)"
    by (simp add: round_abs_grid [of x])
  moreover have "y = round_abs x \<or> y = - round_abs x"
    using r by (auto simp: round64_def Let_def split: if_splits)
  ultimately show ?thesis unfolding on_grid_def by (metis minus_mult_left of_int_minus)
qed

lemma round_abs_above:
  assumes "- 1074 \<le> e" "pow2 e \<le> x"
  shows "pow2 e \<le> round_abs x"
proof -
  have e: "0 < pow2 e" by simp
  obtain n where n: "quantum (pow2 e) = max (n - 52) (- 1074)" "pow2 n \<le> \<bar>pow2 e\<bar>"
    using quantum_binade [of "pow2 e"] e by (metis less_irrefl)
  have "n \<le> e" using n(2) e by simp
  then have "quantum (pow2 e) \<le> e" using n(1) assms(1) by simp
  then have "pow2 e \<le> round_abs (pow2 e)" using round_abs_bound(2) [of "pow2 e" e] e by simp
  also have "\<dots> \<le> round_abs x" using assms(2) e by (intro round_abs_mono) linarith
  finally show ?thesis .
qed

lemma round64_pos:
  assumes "pow2 (- 1074) \<le> x"
  shows "flt (Fin 0) (round64 x)"
proof -
  have "0 < round_abs x" "\<not> x < 0"
    using round_abs_above [of "- 1074" x] assms pow2_pos [of "- 1074"] by linarith+
  then show ?thesis by (simp add: round64_def Let_def)
qed

lemma fsub_pos:
  assumes "on_grid a" "on_grid b" "flt b a"
  shows "flt (Fin 0) (fsub a b)"
proof -
  obtain i j where ij: "a = Fin (of_int i * pow2 (- 1074))" "b = Fin (of_int j * pow2 (- 1074))"
    using assms(1,2) by (auto simp: on_grid_def)
  then have "j < i" using assms(3) pow2_pos [of "- 1074"] by (simp add: mult_less_cancel_right)
  then have "(1 :: rat) \<le> of_int (i - j)" by simp
  then have "1 * pow2 (- 1074) \<le> of_int (i - j) * pow2 (- 1074)"
    using pow2_pos [of "- 1074"] by (intro mult_right_mono) linarith+
  then show ?thesis using ij by (simp add: fsub_Fin round64_pos left_diff_distrib)
qed

text \<open>What a round compares is zero or more only when nothing is missing.\<close>

lemma py_max_nonpos:
  "fle (foldl py_max m ds) (Fin 0) \<Longrightarrow> fle m (Fin 0) \<and> \<not> flt (Fin 0) m \<and> (\<forall>d\<in>set ds. \<not> flt (Fin 0) d)"
proof (induction ds arbitrary: m)
  case (Cons d ds)
  then have m: "fle (py_max m d) (Fin 0)" and ds: "\<forall>d\<in>set ds. \<not> flt (Fin 0) d" by auto
  have "fle m (Fin 0) \<and> \<not> flt (Fin 0) m \<and> \<not> flt (Fin 0) d"
    using m by (cases m; cases d) (auto simp: py_max_def fle_def split: if_splits)
  then show ?case using ds by simp
next
  case Nil
  then show ?case by (cases m) (auto simp: fle_def)
qed

lemma py_max_of_nonpos: "fle (py_max_of ds) (Fin 0) \<Longrightarrow> d \<in> set ds \<Longrightarrow> \<not> flt (Fin 0) d"
  using py_max_nonpos [of "hd ds" "tl ds"] by (cases ds) auto

section \<open>Turns\<close>

text \<open>
  What the adapter does under its lock: a caller's round, or a backoff. A turn is what a round has
  granted.
\<close>

datatype throttle_event = Round pyfloat "(string \<times> string) option" | Backoff pyfloat pyfloat bool

type_synonym turn = "pyfloat \<times> (string \<times> string) option"

fun throttle_do :: "turn list \<times> kraken_rates \<Rightarrow> throttle_event \<Rightarrow> turn list \<times> kraken_rates" where
  "throttle_do (gs, r) (Round now key) = (case kraken_round now key r of
       (None, r) \<Rightarrow> (gs @ [(now, key)], r)
     | (Some wait, r) \<Rightarrow> (gs, r))"
| "throttle_do (gs, r) (Backoff now wait strong) = (gs, kraken_penalty now wait strong r)"

definition throttle_run :: "throttle_event list \<Rightarrow> turn list \<times> kraken_rates" where
  "throttle_run evs = foldl throttle_do ([], kraken_rates_init) evs"

fun event_time :: "throttle_event \<Rightarrow> pyfloat" where
  "event_time (Round now key) = now"
| "event_time (Backoff now wait strong) = now"

text \<open>A clock that goes forward from the epoch.\<close>

definition clock_time :: "pyfloat \<Rightarrow> bool" where
  "clock_time t \<longleftrightarrow> on_grid t \<and> flt (Fin 0) t"

definition ticking :: "throttle_event list \<Rightarrow> bool" where
  "ticking evs \<longleftrightarrow> list_all clock_time (map event_time evs) \<and> sorted (map event_time evs)"

text \<open>A fifth of a second between any two turns, and 1.1 seconds when they are for the same endpoint and pair.\<close>

definition apart :: "turn \<Rightarrow> turn \<Rightarrow> bool" where
  "apart g h \<longleftrightarrow> \<not> flt (fsub (fst h) (fst g)) (thousandth kraken_base_interval_ms)
     \<and> (snd g \<noteq> None \<and> snd h = snd g \<longrightarrow> \<not> flt (fsub (fst h) (fst g)) (thousandth kraken_pair_interval_ms))"

section \<open>The invariant\<close>

definition last_turn :: "turn list \<Rightarrow> pyfloat" where
  "last_turn gs = (if gs = [] then Fin 0 else fst (last gs))"

definition throttle_ok :: "turn list \<Rightarrow> kraken_rates \<Rightarrow> pyfloat \<Rightarrow> bool" where
  "throttle_ok gs r now \<longleftrightarrow> list_all (\<lambda>g. clock_time (fst g) \<and> fst g \<le> now) gs \<and> sorted (map fst gs)
     \<and> kr_last_request_at r = last_turn gs
     \<and> (\<forall>k. pair_call_at k r = last_turn (filter (\<lambda>g. snd g = Some k) gs))
     \<and> kr_extra_interval_ms r \<in> {Fin 0, Fin 1000}
     \<and> (is_finite (kr_backoff_until r) \<longrightarrow> on_grid (kr_backoff_until r))
     \<and> sorted_wrt apart gs"

lemma clock_time_Fin: "clock_time t \<Longrightarrow> \<exists>q. t = Fin q \<and> 0 < q"
  by (auto simp: clock_time_def on_grid_def)

lemma small_gap: "0 \<le> q \<Longrightarrow> q \<le> 2 \<Longrightarrow> \<exists>y. round64 q = Fin y"
  using round64_mono [of 0 q] round64_mono [of q 2] round64_int [of 0] round64_int [of 2]
  by (cases "round64 q") (auto simp: less_eq_pyfloat_def)

text \<open>When nothing of a gap on the grid is missing, it has passed.\<close>

lemma nothing_missing:
  assumes "\<And>d. d \<in> set (still_missing now t gap) \<Longrightarrow> \<not> flt (Fin 0) d"
    and "flt (Fin 0) t" "on_grid gap"
  shows "\<not> flt (fsub now t) gap"
proof
  assume early: "flt (fsub now t) gap"
  then have "\<not> flt (Fin 0) (fsub gap (fsub now t))"
    using assms(1,2) by (simp add: still_missing_def Let_def)
  moreover have "flt (Fin 0) (fsub gap (fsub now t))"
  proof (cases "fsub now t")
    case (Fin y)
    then have "on_grid (fsub now t)" using round64_grid by (cases now; cases t) (auto simp: fsub_def)
    then show ?thesis using fsub_pos assms(3) early by simp
  qed (use early assms(3) in \<open>auto simp: on_grid_def fsub_def\<close>)
  ultimately show False by simp
qed

text \<open>A gap that has passed since a later time has passed since an earlier one, and a shorter one with it.\<close>

lemma passed_earlier:
  assumes "\<not> flt (fsub now t) gap" "now = Fin n" "t = Fin b" "s = Fin a" "a \<le> b" "gap' \<le> gap" "gap = Fin g" "gap' = Fin g'"
  shows "\<not> flt (fsub now s) gap'"
proof -
  have "gap \<le> fsub now t" using assms(1-3,7) by (simp add: flt_less fsub_Fin not_less)
  also have "\<dots> \<le> fsub now s" using assms(2-5) by (simp add: fsub_Fin round64_mono)
  finally have "gap' \<le> fsub now s" using assms(6) by (rule order_trans [rotated])
  then show ?thesis using assms(2,4,8) by (simp add: flt_less fsub_Fin not_less)
qed

lemma base_gap: "\<exists>y. thousandth kraken_base_interval_ms = Fin y"
  using small_gap [of "200 / 1000"] by (simp add: thousandth_def kraken_base_interval_ms_def)

lemma pair_gap: "\<exists>y. thousandth kraken_pair_interval_ms = Fin y" "on_grid (thousandth kraken_pair_interval_ms)"
proof -
  obtain y where y: "round64 (1100 / 1000) = Fin y" using small_gap [of "1100 / 1000"] by auto
  then show "\<exists>y. thousandth kraken_pair_interval_ms = Fin y" "on_grid (thousandth kraken_pair_interval_ms)"
    using round64_grid [OF y] by (simp_all add: thousandth_def kraken_pair_interval_ms_def)
qed

lemma global_gap:
  assumes "kr_extra_interval_ms r \<in> {Fin 0, Fin 1000}"
  shows "\<exists>y. kraken_global_interval now r = Fin y" "on_grid (kraken_global_interval now r)"
    "thousandth kraken_base_interval_ms \<le> kraken_global_interval now r"
proof -
  have sums: "fadd (Fin 200) (Fin 0) = Fin 200" "fadd (Fin 200) (Fin 1000) = Fin 1200"
    using round64_int [of 200] round64_int [of 1200] by simp_all
  have "\<exists>q\<in>{1 / 5, 6 / 5}. kraken_global_interval now r = round64 q"
    using assms sums by (auto simp: kraken_global_interval_def thousandth_def kraken_base_interval_ms_def)
  then obtain q where q: "kraken_global_interval now r = round64 q" "q \<in> {1 / 5, 6 / 5}" by blast
  obtain y where y: "round64 q = Fin y" using small_gap [of q] q(2) by auto
  show "\<exists>y. kraken_global_interval now r = Fin y" using q y by simp
  show "on_grid (kraken_global_interval now r)" using q(1) y round64_grid [OF y] by simp
  show "thousandth kraken_base_interval_ms \<le> kraken_global_interval now r"
    using q(2) round64_mono [of "1 / 5" q] by (auto simp: q(1) thousandth_def kraken_base_interval_ms_def)
qed

text \<open>The last turn of a list, and those before it.\<close>

lemma last_turn_latest:
  assumes "sorted (map fst gs)" "g \<in> set gs"
  shows "fst g \<le> last_turn gs" "\<exists>h\<in>set gs. last_turn gs = fst h"
proof -
  have "gs \<noteq> []" using assms(2) by auto
  then obtain init h where gs: "gs = init @ [h]" by (metis append_butlast_last_id)
  then show "fst g \<le> last_turn gs" "\<exists>h\<in>set gs. last_turn gs = fst h"
    using assms by (auto simp: last_turn_def sorted_append)
qed

lemma passed_since:
  assumes "sorted (map fst gs)" "list_all (\<lambda>g. clock_time (fst g)) gs" "g \<in> set gs" "clock_time now"
    and "\<And>d. d \<in> set (still_missing now (last_turn gs) gap) \<Longrightarrow> \<not> flt (Fin 0) d"
    and "on_grid gap" "gap = Fin y" "gap' = Fin y'" "gap' \<le> gap"
  shows "\<not> flt (fsub now (fst g)) gap'"
proof -
  obtain h where h: "h \<in> set gs" "last_turn gs = fst h" using last_turn_latest(2) [OF assms(1,3)] by blast
  have times: "clock_time (fst g)" "clock_time (fst h)" using assms(2,3) h(1) by (auto simp: list_all_iff)
  obtain a b n where Fins: "fst g = Fin a" "fst h = Fin b" "now = Fin n"
    using times assms(4) by (meson clock_time_Fin)
  have "\<not> flt (fsub now (fst h)) gap"
    using nothing_missing [of now "last_turn gs" gap] assms(5,6) times(2) h(2) by (simp add: clock_time_def)
  moreover have "a \<le> b" using last_turn_latest(1) [OF assms(1,3)] h(2) Fins by simp
  ultimately show ?thesis using passed_earlier [OF _ Fins(3,2,1) _ assms(9,7,8)] by simp
qed

section \<open>Every step keeps it\<close>

lemma round_cases:
  assumes "kraken_round now key r = (out, r')"
  shows "out = None \<Longrightarrow> d \<in> set (kraken_delays now key r) \<Longrightarrow> \<not> flt (Fin 0) d"
    and "out \<noteq> None \<Longrightarrow> r' = r"
    and "out = None \<Longrightarrow> kr_last_request_at r' = now"
    and "out = None \<Longrightarrow> pair_call_at k r' = (if key = Some k then now else pair_call_at k r)"
    and "kr_extra_interval_ms r' = kr_extra_interval_ms r" "kr_backoff_until r' = kr_backoff_until r"
  using assms by (auto simp: kraken_round_def Let_def pair_call_at_def dget_dset dest: py_max_of_nonpos split: if_splits option.splits)

lemma throttle_okD:
  assumes "throttle_ok gs r now"
  shows "list_all (\<lambda>g. clock_time (fst g)) gs" "sorted (map fst gs)" "sorted_wrt apart gs"
    "kr_extra_interval_ms r \<in> {Fin 0, Fin 1000}"
  using assms by (auto simp: throttle_ok_def list_all_iff)

lemma throttle_ok_later: "throttle_ok gs r now \<Longrightarrow> now \<le> now' \<Longrightarrow> throttle_ok gs r now'"
  by (auto simp: throttle_ok_def list_all_iff)

lemma granted_apart:
  assumes "throttle_ok gs r now0" "clock_time now" "kraken_round now key r = (None, r')" "g \<in> set gs"
  shows "apart g (now, key)"
proof -
  note ok = throttle_okD [OF assms(1)]
  have free: "\<not> flt (Fin 0) d" if "d \<in> set (kraken_delays now key r)" for d using round_cases(1) [OF assms(3)] that by simp
  obtain b G P where fin: "thousandth kraken_base_interval_ms = Fin b" "kraken_global_interval now r = Fin G"
      "thousandth kraken_pair_interval_ms = Fin P"
    using base_gap global_gap(1) [OF ok(4)] pair_gap(1) by metis
  have since: "kr_last_request_at r = last_turn gs" using assms(1) by (simp add: throttle_ok_def)
  have "\<not> flt (fsub now (fst g)) (thousandth kraken_base_interval_ms)"
    using free passed_since [OF ok(2,1) assms(4,2) _ global_gap(2) [OF ok(4), where now = now] fin(2,1) global_gap(3) [OF ok(4)]]
    by (auto simp: kraken_delays_def since)
  moreover have "\<not> flt (fsub now (fst g)) (thousandth kraken_pair_interval_ms)" if k: "snd g = Some k" "key = Some k" for k
  proof -
    let ?gs = "filter (\<lambda>g. snd g = Some k) gs"
    have pair: "pair_call_at k r = last_turn ?gs" using assms(1) by (cases k) (simp add: throttle_ok_def)
    have "sorted (map fst ?gs)" using ok(2) by (simp add: sorted_filter)
    moreover have "list_all (\<lambda>g. clock_time (fst g)) ?gs" using ok(1) by (auto simp: list_all_iff)
    moreover have "g \<in> set ?gs" using assms(4) k(1) by simp
    ultimately show ?thesis
      using free passed_since [OF _ _ _ assms(2) _ pair_gap(2) fin(3,3) order_refl] k(2)
      by (auto simp: kraken_delays_def pair)
  qed
  ultimately show ?thesis by (auto simp: apart_def)
qed

lemma round_ok:
  assumes "throttle_ok gs r now0" "now0 \<le> now" "clock_time now"
  shows "throttle_ok (fst (throttle_do (gs, r) (Round now key))) (snd (throttle_do (gs, r) (Round now key))) now"
proof (cases "kraken_round now key r")
  case (Pair out r')
  note c = round_cases [OF Pair]
  show ?thesis
  proof (cases out)
    case None
    have "throttle_ok (gs @ [(now, key)]) r' now"
      using assms c(3-6) None granted_apart [OF assms(1,3) Pair [unfolded None]]
      by (auto simp: throttle_ok_def list_all_iff sorted_append sorted_wrt_append last_turn_def)
    then show ?thesis using Pair None by simp
  next
    case (Some wait)
    then show ?thesis using Pair c(2) throttle_ok_later [OF assms(1,2)] by simp
  qed
qed

lemma backoff_ok:
  assumes "throttle_ok gs r now0" "now0 \<le> now"
  shows "throttle_ok gs (kraken_penalty now wait strong r) now"
proof -
  have "is_finite (fadd now wait) \<Longrightarrow> on_grid (fadd now wait)"
    using round64_grid by (cases now; cases wait) (auto simp: is_finite_def split: pyfloat.splits)
  then show ?thesis
    using throttle_ok_later [OF assms]
    by (auto simp: throttle_ok_def kraken_penalty_def Let_def py_max_def pair_call_at_def)
qed

lemma throttle_run_ok:
  assumes "ticking evs"
  shows "\<exists>now. throttle_ok (fst (throttle_run evs)) (snd (throttle_run evs)) now
     \<and> (evs \<noteq> [] \<longrightarrow> now = event_time (last evs)) \<and> (evs = [] \<longrightarrow> now = Fin 0)"
  using assms
proof (induction evs rule: rev_induct)
  case Nil
  show ?case by (auto simp: throttle_run_def throttle_ok_def kraken_rates_init_def last_turn_def pair_call_at_def on_grid_def intro: exI [of _ 0])
next
  case (snoc e evs)
  have ev: "ticking evs" "clock_time (event_time e)" using snoc.prems by (auto simp: ticking_def sorted_append)
  obtain now where now: "throttle_ok (fst (throttle_run evs)) (snd (throttle_run evs)) now"
      "evs \<noteq> [] \<longrightarrow> now = event_time (last evs)" "evs = [] \<longrightarrow> now = Fin 0"
    using snoc.IH [OF ev(1)] by blast
  have le: "now \<le> event_time e"
  proof (cases "evs = []")
    case True
    then show ?thesis using now(3) clock_time_Fin [OF ev(2)] by auto
  next
    case False
    then show ?thesis using now(2) snoc.prems by (auto simp: ticking_def sorted_append)
  qed
  show ?case
  proof (intro exI [of _ "event_time e"] conjI)
    show "throttle_ok (fst (throttle_run (evs @ [e]))) (snd (throttle_run (evs @ [e]))) (event_time e)"
    proof (cases e)
      case (Round t key)
      then show ?thesis using round_ok [OF now(1)] le ev(2) by (simp add: throttle_run_def)
    next
      case (Backoff t wait strong)
      then show ?thesis using backoff_ok [OF now(1)] le
        by (cases "foldl throttle_do ([], kraken_rates_init) evs") (simp add: throttle_run_def)
    qed
  qed simp_all
qed

lemma until_lasts:
  assumes "throttle_ok gs r now" "on_grid t" "flt t (kr_backoff_until r)"
  shows "fst (kraken_round t key r) \<noteq> None"
proof -
  have "flt (Fin 0) (fsub (kr_backoff_until r) t)"
  proof (cases "kr_backoff_until r")
    case (Fin u)
    then show ?thesis using assms fsub_pos by (auto simp: throttle_ok_def is_finite_def)
  qed (use assms(2,3) in \<open>auto simp: on_grid_def fsub_def\<close>)
  then have "\<exists>d\<in>set (kraken_delays t key r). flt (Fin 0) d" using assms(3) by (auto simp: kraken_delays_def)
  then show ?thesis using round_cases(1) by (metis prod.collapse)
qed

text \<open>A backoff once set stays until it has passed, whatever turns and backoffs follow.\<close>

lemma py_max_above: "flt t x \<Longrightarrow> flt t (py_max x y)" "flt t y \<Longrightarrow> x \<noteq> NaN \<Longrightarrow> flt t (py_max x y)" "x \<noteq> NaN \<Longrightarrow> py_max x y \<noteq> NaN"
  by (cases t; cases x; cases y; simp add: py_max_def)+

lemma backoffs_kept:
  "kr_backoff_until (snd (throttle_run evs)) \<noteq> NaN
   \<and> (\<forall>t0 wait strong t. Backoff t0 wait strong \<in> set evs \<and> flt t (fadd t0 wait) \<longrightarrow> flt t (kr_backoff_until (snd (throttle_run evs))))"
proof (induction evs rule: rev_induct)
  case (snoc e evs)
  obtain gs r where run: "throttle_run evs = (gs, r)" by (cases "throttle_run evs")
  then have next_run: "throttle_run (evs @ [e]) = throttle_do (gs, r) e" by (simp add: throttle_run_def)
  show ?case
  proof (cases e)
    case (Round now key)
    have "kr_backoff_until (snd (throttle_do (gs, r) e)) = kr_backoff_until r"
      using Round round_cases(6) [of now key r] by (cases "kraken_round now key r") (auto split: option.split)
    then show ?thesis using snoc Round run unfolding next_run by simp
  next
    case (Backoff t0 wait strong)
    have "kr_backoff_until (snd (throttle_do (gs, r) e)) = py_max (kr_backoff_until r) (fadd t0 wait)"
      using Backoff by (simp add: kraken_penalty_def Let_def)
    then show ?thesis using snoc Backoff run unfolding next_run by (auto simp: py_max_above)
  qed
qed (simp add: throttle_run_def kraken_rates_init_def)

text \<open>
  C11. However its callers interleave, as long as the clock does not step back, the Kraken throttle
  keeps turns apart: any two requests get their turns a fifth of a second from each other or more,
  and two for the same endpoint and pair 1.1 seconds; and whatever happened since, no request gets
  a turn before every backoff that was set has passed.
\<close>

theorem kraken_turns_apart:
  assumes "ticking evs"
  shows "sorted_wrt apart (fst (throttle_run evs))
     \<and> (\<forall>t0 wait strong t key. Backoff t0 wait strong \<in> set evs \<and> on_grid t \<and> flt t (fadd t0 wait)
          \<longrightarrow> fst (kraken_round t key (snd (throttle_run evs))) \<noteq> None)"
proof (intro conjI allI impI)
  obtain now where ok: "throttle_ok (fst (throttle_run evs)) (snd (throttle_run evs)) now"
    using throttle_run_ok [OF assms] by blast
  show "sorted_wrt apart (fst (throttle_run evs))" by (rule throttle_okD(3) [OF ok])
  fix t0 wait strong t and key :: "(string \<times> string) option"
  assume t: "Backoff t0 wait strong \<in> set evs \<and> on_grid t \<and> flt t (fadd t0 wait)"
  then have "flt t (kr_backoff_until (snd (throttle_run evs)))" using backoffs_kept [of evs] by blast
  then show "fst (kraken_round t key (snd (throttle_run evs))) \<noteq> None" using until_lasts [OF ok] t by blast
qed

lemma kraken_turns_apart_witness:
  "sorted_wrt apart (fst (throttle_run [Round (Fin 1) None, Backoff (Fin 2) (Fin 4) True, Backoff (Fin 3) (Fin 1) False]))
   \<and> fst (kraken_round (Fin 5) None (snd (throttle_run [Round (Fin 1) None, Backoff (Fin 2) (Fin 4) True, Backoff (Fin 3) (Fin 1) False]))) \<noteq> None"
proof -
  have grid: "on_grid (Fin (of_int n))" for n
    using round64_grid
    unfolding on_grid_def by (intro exI [of _ "n * 2 ^ 1074"]) (simp add: pow2_def)
  from grid [of 1] grid [of 2] grid [of 3] have "ticking [Round (Fin 1) None, Backoff (Fin 2) (Fin 4) True, Backoff (Fin 3) (Fin 1) False]"
    by (simp add: ticking_def clock_time_def)
  note turns = kraken_turns_apart [OF this]
  have "flt (Fin 5) (fadd (Fin 2) (Fin 4))" using round64_int [of 6] by simp
  then show ?thesis using turns grid [of 5] by fastforce
qed

section \<open>A turn comes\<close>

lemma round64_top: "pow2 1024 \<le> x \<Longrightarrow> round64 x = PosInf"
  using round_abs_above [of 1024 x] by (simp add: round64_def Let_def pow2_def)

lemma long_after: "a + pow2 1024 \<le> n \<Longrightarrow> still_missing (Fin n) (Fin a) gap = []"
  using round64_top [of "n - a"] by (cases gap) (simp_all add: still_missing_def Let_def fsub_Fin)

lemma free_in_time:
  assumes "kr_backoff_until r \<noteq> PosInf" "is_finite (kr_last_request_at r)" "\<forall>k. is_finite (pair_call_at k r)"
  shows "\<exists>T. \<forall>n\<ge>T. kraken_delays (Fin n) key r = []"
proof -
  obtain a where a: "kr_last_request_at r = Fin a" using assms(2) by (auto simp: finite_Fin)
  obtain u where u: "\<not> flt (Fin n) (kr_backoff_until r)" if "u \<le> n" for n
  proof (cases "kr_backoff_until r")
    case (Fin x)
    then show ?thesis using that [of x] by auto
  qed (use assms(1) that in auto)
  have "\<exists>c. \<forall>n\<ge>c. (case key of None \<Rightarrow> [] | Some k \<Rightarrow> still_missing (Fin n) (pair_call_at k r) (thousandth kraken_pair_interval_ms)) = []"
  proof (cases key)
    case (Some k)
    then obtain b where "pair_call_at k r = Fin b" using assms(3) by (metis finite_Fin)
    then show ?thesis using Some long_after [of b] by (intro exI [of _ "b + pow2 1024"]) simp
  qed simp
  then obtain c where c: "(case key of None \<Rightarrow> [] | Some k \<Rightarrow> still_missing (Fin n) (pair_call_at k r) (thousandth kraken_pair_interval_ms)) = []"
    if "c \<le> n" for n by blast
  show ?thesis
    using a u c long_after [of a] by (intro exI [of _ "max u (max (a + pow2 1024) c)"]) (simp add: kraken_delays_def)
qed

text \<open>
  A caller that waits for its turn alone gets it: when the clock is ahead after every sleep and
  the adapter is not under an infinite backoff, the loop of the throttle ends.
\<close>

theorem kraken_throttle_ends:
  fixes time_of :: "'w kraken_world \<Rightarrow> rat"
  assumes "\<And>w. kh_now env w = (Inr (Fin (time_of w)), w)"
    and "\<And>wait w. \<exists>w'. kraken_pause env wait w = (Inr (), w') \<and> kw_rates w' = kw_rates w \<and> time_of w + 1 / 100 \<le> time_of w'"
    and "kr_backoff_until (kw_rates w) \<noteq> PosInf" "is_finite (kr_last_request_at (kw_rates w))"
    and "\<forall>k. is_finite (pair_call_at k (kw_rates w))"
  shows "\<exists>w'. kraken_await_throttle env key w = Some (Inr (), w')"
proof -
  define r where "r = kw_rates w"
  obtain T where T: "kraken_delays (Fin n) key r = []" if "T \<le> n" for n
    using free_in_time [of r key] assms(3-5) by (auto simp: r_def)
  have "\<exists>w'. kraken_await_throttle env key v = Some (Inr (), w')" if "kw_rates v = r" "T \<le> time_of v + of_nat n / 100" for n v
    using that
  proof (induction n arbitrary: v)
    case 0
    then have "kraken_delays (Fin (time_of v)) key (kw_rates v) = []" using T by simp
    then show ?case
      by (subst kraken_await_throttle.simps)
        (simp add: kraken_turn_def bindw_def assms(1) with_rates_def kraken_round_def fle_def)
  next
    case (Suc n)
    show ?case
    proof (cases "kraken_round (Fin (time_of v)) key r")
      case (Pair out r')
      have turn: "kraken_turn env key v = (Inr out, v\<lparr>kw_rates := r'\<rparr>)"
        using Pair Suc.prems(1) by (simp add: kraken_turn_def bindw_def assms(1) with_rates_def)
      show ?thesis
      proof (cases out)
        case None
        then show ?thesis by (subst kraken_await_throttle.simps) (simp add: turn)
      next
        case (Some wait)
        have same: "v\<lparr>kw_rates := r'\<rparr> = v" using round_cases(2) [OF Pair] Some Suc.prems(1) by simp
        obtain v' where v': "kraken_pause env wait v = (Inr (), v')" "kw_rates v' = r" "time_of v + 1 / 100 \<le> time_of v'"
          using assms(2) [of wait v] Suc.prems(1) by auto
        obtain w' where "kraken_await_throttle env key v' = Some (Inr (), w')"
          using Suc.IH [OF v'(2)] Suc.prems(2) v'(3) by (auto simp: field_simps)
        then show ?thesis by (subst kraken_await_throttle.simps) (simp add: turn Some same v'(1))
      qed
    qed
  qed
  moreover obtain n :: nat where "(T - time_of w) * 100 \<le> of_nat n" using real_arch_simple by blast
  then have "T \<le> time_of w + of_nat n / 100" by simp
  ultimately show ?thesis using r_def by blast
qed

text \<open>A caller on its own, whose world is its clock.\<close>

definition lone_http :: "rat kraken_http" where
  "lone_http = \<lparr>kh_send = (\<lambda>url params. liftw (Inl (TransportError []))), kh_now = (\<lambda>w. (Inr (Fin (kw_world w)), w)),
     kh_sleep = (\<lambda>d w. (Inr (), w\<lparr>kw_world := kw_world w + 1\<rparr>)), kh_jitter = retw (Fin (1 / 10)), kh_random = retw (Fin 0),
     kh_describe = (\<lambda>e. [])\<rparr>"

lemma kraken_throttle_ends_witness:
  "\<exists>w'. kraken_await_throttle lone_http None \<lparr>kw_rates = kraken_rates_init\<lparr>kr_backoff_until := Fin 3\<rparr>, kw_world = 1\<rparr> = Some (Inr (), w')"
  by (rule kraken_throttle_ends [where time_of = kw_world])
    (simp_all add: lone_http_def kraken_pause_def bindw_def retw_def kraken_rates_init_def is_finite_def pair_call_at_def)

end
