(* ===== verification/Kraken.thy ===== *)
theory Kraken
  imports Contracts KrakenRequests
begin

text \<open>
  The read methods of the Kraken adapter for tickers, books, trades and candles,
  \<^verbatim>\<open>exchange_router/exchanges/kraken/adapter.py\<close>. The spot market and the futures have APIs of
  their own; the tickers of all futures come in one answer, which the adapter keeps for a second.
\<close>

section \<open>Environment\<close>

text \<open>\<open>ke_now\<close> is \<open>time.time()\<close>, \<open>ke_tickers\<close> the adapter's \<open>_futures_tickers\<close>.\<close>

record 'w kraken_env =
  ke_env :: "'w adapter_env"
  ke_now :: "('w, pyexc, pyfloat) io"
  ke_tickers :: "('w, pyexc, pyval) io"

abbreviation ke_request where "ke_request env \<equiv> env_request (ke_env env)"
abbreviation ke_info where "ke_info env \<equiv> env_info (ke_env env)"
abbreviation ke_iso where "ke_iso env \<equiv> env_iso (ke_env env)"
abbreviation ke_now_ms where "ke_now_ms env \<equiv> env_now_ms (ke_env env)"

text \<open>The tickers that are kept, and when they came, by the monotonic clock; the lock is held throughout.\<close>

record 'w tickers_world =
  tw_data :: pyval
  tw_at :: pyfloat
  tw_world :: 'w

definition kraken_futures_tickers :: "('w tickers_world, pyexc, pyfloat) io \<Rightarrow>
    (string \<Rightarrow> (string \<times> pyval) list \<Rightarrow> ('w tickers_world, pyexc, pyval) io) \<Rightarrow> ('w tickers_world, pyexc, pyval) io" where
  "kraken_futures_tickers monotonic request =
     bindw monotonic (\<lambda>now w.
     if tw_data w \<noteq> PNone \<and> flt (fsub now (tw_at w)) (Fin 1) then (Inr (tw_data w), w)
     else
       bindw (request (kraken_futures_rest_url @ ''/tickers'') []) (\<lambda>data.
       bindw monotonic (\<lambda>came w. (Inr data, w\<lparr>tw_data := data, tw_at := came\<rparr>))) w)"

text \<open>The symbol, its name and its metadata come first in every method.\<close>

definition kraken_start :: "'w kraken_env \<Rightarrow> market_type \<Rightarrow> string \<Rightarrow>
    (string \<Rightarrow> string \<Rightarrow> symbol_info option \<Rightarrow> ('w, pyexc, 'b) io) \<Rightarrow> ('w, pyexc, 'b) io" where
  "kraken_start env mt symbol k =
     (let api_symbol = kraken_get_api_symbol symbol mt; model_sym = kraken_get_model_symbol api_symbol mt in
      bindw (ke_info env mt model_sym) (\<lambda>info. k api_symbol model_sym info))"

text \<open>\<open>contract\<close> or \<open>base\<close>\<close>

definition kraken_unit :: "market_type \<Rightarrow> string" where
  "kraken_unit mt = (if mt = Inverse then ''contract'' else ''base'')"

section \<open>Parts of answers\<close>

text \<open>\<open>data[list(data.keys())[0]]\<close>, and the first key that is not \<open>last\<close>\<close>

fun kraken_pair_value :: "pyval \<Rightarrow> pyval res" where
  "kraken_pair_value (PDict ((k, v) # d)) = Inr v"
| "kraken_pair_value (PDict []) = Inl (IndexError ''list index out of range'')"
| "kraken_pair_value v = Inl (AttributeError (quoted (type_name v) @ '' object has no attribute '' @ quoted ''keys''))"

definition kraken_series :: "pyval \<Rightarrow> pyval res" where
  "kraken_series data = (case data of
       PDict d \<Rightarrow> kraken_pair_value (PDict (filter (\<lambda>(k, v). k \<noteq> ''last'') d))
     | v \<Rightarrow> kraken_pair_value v)"

text \<open>\<open>float(t[k][i])\<close>\<close>

definition item_index_float :: "pyval \<Rightarrow> string \<Rightarrow> nat \<Rightarrow> pyfloat res" where
  "item_index_float t k i = bindr (py_item t k) (\<lambda>v. index_float v i)"

text \<open>The time of a futures answer: its \<open>serverTime\<close>, or the clock's.\<close>

definition kraken_server_ts :: "'w kraken_env \<Rightarrow> pyval \<Rightarrow> ('w, pyexc, int) io" where
  "kraken_server_ts env data =
     bindw (liftw (py_get data ''serverTime'')) (\<lambda>st.
     if truthy st then liftw (bindr (py_item data ''serverTime'') (normalize_timestamp (ke_iso env))) else ke_now_ms env)"

text \<open>\<open>for t in data.get("tickers", []): if t["symbol"] == api_symbol\<close>\<close>

fun kraken_named :: "string \<Rightarrow> pyval list \<Rightarrow> pyval option res" where
  "kraken_named api_symbol [] = Inr None"
| "kraken_named api_symbol (t # ts) =
     bindr (py_item t ''symbol'') (\<lambda>s. if s = PStr api_symbol then Inr (Some t) else kraken_named api_symbol ts)"

text \<open>The ticker of one futures symbol, with the time of the answer.\<close>

definition kraken_futures_row :: "'w kraken_env \<Rightarrow> string \<Rightarrow> ('w, pyexc, pyval \<times> int) io" where
  "kraken_futures_row env api_symbol =
     bindw (ke_tickers env) (\<lambda>data.
     bindw (kraken_server_ts env data) (\<lambda>server_ts.
     bindw (liftw (bindr (bindr (py_get_or data ''tickers'' (PList [])) py_iter) (kraken_named api_symbol))) (\<lambda>found.
     case found of
       None \<Rightarrow> liftw (Inl (ValueError (''Symbol '' @ api_symbol @ '' not found'')))
     | Some t \<Rightarrow> retw (t, server_ts))))"

section \<open>Tickers\<close>

definition kraken_spot_ticker :: "string \<Rightarrow> symbol_info option \<Rightarrow> pyval \<Rightarrow> (int \<Rightarrow> ticker) res" where
  "kraken_spot_ticker model_sym info t =
     bindr (item_index_float t ''c'' 0) (\<lambda>c_price.
     bindr (item_float t ''o'') (\<lambda>open_price.
     bindr (item_index_float t ''v'' 1) (\<lambda>vol.
     bindr (item_index_float t ''h'' 1) (\<lambda>high_24h.
     bindr (item_index_float t ''l'' 1) (\<lambda>low_24h.
     bindr (build_volume_value vol ''base'' None c_price) (\<lambda>volume.
     bindr (day_change c_price open_price) (\<lambda>pct.
     Inr (\<lambda>ts. \<lparr>tk_symbol = model_sym, tk_market_type = Spot, tk_quote = quote_of info, tk_price = c_price,
       tk_open_24h = open_price, tk_high_24h = high_24h, tk_low_24h = low_24h, tk_volume_24h = volume,
       tk_price_change_percent = pct, tk_timestamp = ts\<rparr>))))))))"

definition kraken_futures_ticker :: "market_type \<Rightarrow> string \<Rightarrow> symbol_info option \<Rightarrow> pyval \<Rightarrow> int \<Rightarrow> ticker res" where
  "kraken_futures_ticker mt model_sym info t server_ts =
     bindr (get_float t ''last'') (\<lambda>last_price.
     bindr (get_float t ''vol24h'') (\<lambda>vol.
     bindr (get_float t ''open24h'') (\<lambda>open_24h.
     bindr (day_change last_price open_24h) (\<lambda>pc.
     bindr (get_float t ''high24h'') (\<lambda>high_24h.
     bindr (get_float t ''low24h'') (\<lambda>low_24h.
     bindr (build_volume_value vol (kraken_unit mt) (contract_size_of info) last_price) (\<lambda>volume.
     Inr \<lparr>tk_symbol = model_sym, tk_market_type = mt, tk_quote = quote_of info, tk_price = last_price,
       tk_open_24h = open_24h, tk_high_24h = high_24h, tk_low_24h = low_24h, tk_volume_24h = volume,
       tk_price_change_percent = pc, tk_timestamp = server_ts\<rparr>)))))))"

definition kraken_get_ticker :: "'w kraken_env \<Rightarrow> market_type \<Rightarrow> string \<Rightarrow> ('w, pyexc, ticker) io" where
  "kraken_get_ticker env mt symbol =
     kraken_start env mt symbol (\<lambda>api_symbol model_sym info.
     if mt = Spot then
       bindw (ke_request env (kraken_spot_rest_url @ ''/Ticker'') [(''pair'', PStr api_symbol)]) (\<lambda>data.
       bindw (liftw (bindr (kraken_pair_value data) (kraken_spot_ticker model_sym info))) (\<lambda>row.
       bindw (ke_now_ms env) (\<lambda>ts. retw (row ts))))
     else
       bindw (kraken_futures_row env api_symbol) (\<lambda>(t, server_ts).
       liftw (kraken_futures_ticker mt model_sym info t server_ts)))"

section \<open>Book tickers and order books\<close>

definition kraken_book_ticker :: "market_type \<Rightarrow> string \<Rightarrow> symbol_info option \<Rightarrow> pyfloat \<Rightarrow> pyfloat \<Rightarrow>
    pyfloat res \<Rightarrow> pyfloat res \<Rightarrow> (int \<Rightarrow> book_ticker) res" where
  "kraken_book_ticker mt model_sym info bid_price ask_price bid_size ask_size =
     bindr (bindr bid_size (\<lambda>n. build_qty_value n (kraken_unit mt) (if mt = Spot then None else contract_size_of info) bid_price)) (\<lambda>bid_qty.
     bindr (bindr ask_size (\<lambda>n. build_qty_value n (kraken_unit mt) (if mt = Spot then None else contract_size_of info) ask_price)) (\<lambda>ask_qty.
     Inr (\<lambda>ts. \<lparr>bt_symbol = model_sym, bt_market_type = mt, bt_quote = quote_of info, bt_bid_price = bid_price,
       bt_bid_qty = bid_qty, bt_ask_price = ask_price, bt_ask_qty = ask_qty, bt_timestamp = ts\<rparr>)))"

text \<open>\<open>float(rows[0][i])\<close>\<close>

definition best_float :: "pyval \<Rightarrow> nat \<Rightarrow> pyfloat res" where
  "best_float rows i = bindr (py_index rows 0) (\<lambda>l. index_float l i)"

definition kraken_spot_book_ticker :: "(string \<Rightarrow> int option) \<Rightarrow> string \<Rightarrow> string \<Rightarrow> symbol_info option \<Rightarrow> pyval \<Rightarrow> book_ticker res" where
  "kraken_spot_book_ticker iso_ms api_symbol model_sym info data =
     bindr (bindr (kraken_pair_value data) (\<lambda>v. py_get_or v ''bids'' (PList []))) (\<lambda>bids.
     bindr (bindr (kraken_pair_value data) (\<lambda>v. py_get_or v ''asks'' (PList []))) (\<lambda>asks.
     if \<not> truthy bids \<or> \<not> truthy asks then Inl (ValueError (''No quotes available for '' @ api_symbol @ '' on Kraken spot''))
     else
       bindr (best_float bids 0) (\<lambda>bid_price.
       bindr (best_float asks 0) (\<lambda>ask_price.
       bindr (kraken_book_ticker Spot model_sym info bid_price ask_price (best_float bids 1) (best_float asks 1)) (\<lambda>row.
       bindr (bindr (bindr (py_index bids 0) (\<lambda>l. py_index l 2)) (normalize_timestamp iso_ms)) (\<lambda>ts. Inr (row ts)))))))"

definition kraken_futures_book_ticker :: "market_type \<Rightarrow> string \<Rightarrow> symbol_info option \<Rightarrow> pyval \<Rightarrow> int \<Rightarrow> book_ticker res" where
  "kraken_futures_book_ticker mt model_sym info t server_ts =
     bindr (get_float t ''bid'') (\<lambda>bid_price.
     bindr (get_float t ''ask'') (\<lambda>ask_price.
     bindr (kraken_book_ticker mt model_sym info bid_price ask_price (get_float t ''bidSize'') (get_float t ''askSize'')) (\<lambda>row.
     Inr (row server_ts))))"

definition kraken_get_book_ticker :: "'w kraken_env \<Rightarrow> market_type \<Rightarrow> string \<Rightarrow> ('w, pyexc, book_ticker) io" where
  "kraken_get_book_ticker env mt symbol =
     kraken_start env mt symbol (\<lambda>api_symbol model_sym info.
     if mt = Spot then
       bindw (ke_request env (kraken_spot_rest_url @ ''/Depth'') [(''pair'', PStr api_symbol), (''count'', PInt 1)]) (\<lambda>data.
       liftw (kraken_spot_book_ticker (ke_iso env) api_symbol model_sym info data))
     else
       bindw (kraken_futures_row env api_symbol) (\<lambda>(t, server_ts).
       liftw (kraken_futures_book_ticker mt model_sym info t server_ts)))"

text \<open>\<open>[[float(p), float(q)] for p, q, _ in rows]\<close>\<close>

definition level3 :: "pyval \<Rightarrow> pyfloat list res" where
  "level3 v = bindr (py_iter v) (\<lambda>xs. case xs of
       [p, q, r] \<Rightarrow> bindr (py_float p) (\<lambda>p. bindr (py_float q) (\<lambda>q. Inr [p, q]))
     | _ \<Rightarrow> Inl (ValueError (if length xs < 3
         then ''not enough values to unpack (expected 3, got '' @ show_int (int (length xs)) @ '')''
         else ''too many values to unpack (expected 3)'')))"

text \<open>Sorted sides of a book, best price first.\<close>

definition kraken_sides :: "(pyval \<Rightarrow> pyfloat list res) \<Rightarrow> int \<Rightarrow> pyval \<Rightarrow> (pyfloat list list \<times> pyfloat list list) res" where
  "kraken_sides reading req_depth book =
     bindr (bindr (bindr (py_get_or book ''bids'' (PList [])) py_iter) (mapr reading)) (\<lambda>bids.
     bindr (bindr (bindr (py_get_or book ''asks'' (PList [])) py_iter) (mapr reading)) (\<lambda>asks.
     Inr (head_slice req_depth (sort_key (\<lambda>r. fneg (hd r)) bids), head_slice req_depth (sort_key hd asks))))"

definition kraken_order_book :: "market_type \<Rightarrow> string \<Rightarrow> symbol_info option \<Rightarrow> pyfloat list list \<times> pyfloat list list \<Rightarrow> int \<Rightarrow> order_book" where
  "kraken_order_book mt model_sym info sides ts =
     \<lparr>ob_symbol = model_sym, ob_market_type = mt, ob_quote = quote_of info, ob_bids = fst sides, ob_asks = snd sides,
      ob_qty_unit = unit_of_market mt, ob_timestamp = ts\<rparr>"

definition kraken_get_orderbook :: "'w kraken_env \<Rightarrow> market_type \<Rightarrow> string \<Rightarrow> int \<Rightarrow> ('w, pyexc, order_book) io" where
  "kraken_get_orderbook env mt symbol depth =
     kraken_start env mt symbol (\<lambda>api_symbol model_sym info.
     bindw (liftw (bindr (cap_field kraken_capabilities mt ''orderbook'' ''max_depth'') py_int)) (\<lambda>max_depth.
     let req_depth = min depth max_depth in
     if mt = Spot then
       bindw (ke_request env (kraken_spot_rest_url @ ''/Depth'') [(''pair'', PStr api_symbol), (''count'', PInt req_depth)]) (\<lambda>data.
       bindw (liftw (bindr (kraken_pair_value data) (\<lambda>book. bindr (py_get book ''bids'') (\<lambda>bids. Inr (book, bids))))) (\<lambda>(book, bids).
       bindw (if truthy bids
              then liftw (bindr (bindr (bindr (py_item book ''bids'') (\<lambda>b. py_index b 0)) (\<lambda>l. py_index l 2)) py_float)
              else ke_now env) (\<lambda>ts.
       liftw (bindr (kraken_sides level3 req_depth book) (\<lambda>sides.
         bindr (normalize_timestamp (ke_iso env) (PFloat ts)) (\<lambda>ts. Inr (kraken_order_book mt model_sym info sides ts)))))))
     else
       bindw (ke_request env (kraken_futures_rest_url @ ''/orderbook'') [(''symbol'', PStr api_symbol)]) (\<lambda>data.
       bindw (kraken_server_ts env data) (\<lambda>server_ts.
       liftw (bindr (py_get_or data ''orderBook'' (PDict [])) (\<lambda>book.
         bindr (kraken_sides level req_depth book) (\<lambda>sides. Inr (kraken_order_book mt model_sym info sides server_ts))))))))"

end
