(* ===== verification/KrakenHistory.thy ===== *)
theory KrakenHistory
  imports Kraken
begin

text \<open>
  The histories of the Kraken adapter, \<^verbatim>\<open>exchange_router/exchanges/kraken/adapter.py\<close>: trades,
  candles, funding rates, open interest and long/short ratios, and the mark price with its funding.
\<close>

section \<open>Numbers\<close>

text \<open>\<open>int(start_time / 1000)\<close>\<close>

definition kraken_seconds :: "int \<Rightarrow> int res" where
  "kraken_seconds ms = (case round64 (of_int ms / 1000) of
       Fin q \<Rightarrow> Inr (trunc_rat q)
     | _ \<Rightarrow> Inl (OverflowError ''integer division result too large for a float''))"

text \<open>\<open>int(time.time())\<close>\<close>

definition kraken_now_secs :: "'w kraken_env \<Rightarrow> ('w, pyexc, int) io" where
  "kraken_now_secs env = bindw (ke_now env) (\<lambda>now. liftw (int_of_float now))"

text \<open>A start time that is given and not zero.\<close>

definition given :: "int option \<Rightarrow> int option" where
  "given start_time = (case start_time of Some t \<Rightarrow> if t \<noteq> 0 then Some t else None | None \<Rightarrow> None)"

definition kraken_anchor :: "'w kraken_env \<Rightarrow> int option \<Rightarrow> ('w, pyexc, int) io" where
  "kraken_anchor env start_time = (case given start_time of
       Some t \<Rightarrow> liftw (kraken_seconds t)
     | None \<Rightarrow> kraken_now_secs env)"

text \<open>Rows in their order, up to the start time, the last \<open>limit\<close> of them.\<close>

definition kraken_newest :: "('a \<Rightarrow> int) \<Rightarrow> int option \<Rightarrow> int \<Rightarrow> 'a list \<Rightarrow> 'a list" where
  "kraken_newest ts start_time limit rows =
     slice_last limit (filter (\<lambda>r. case given start_time of None \<Rightarrow> True | Some t \<Rightarrow> ts r \<le> t) (sort_key ts rows))"

text \<open>\<open>v * n\<close> of a JSON value and an integer: repetition, for texts and lists.\<close>

fun py_times :: "pyval \<Rightarrow> nat \<Rightarrow> pyval res" where
  "py_times (PInt i) n = Inr (PInt (i * int n))"
| "py_times (PBool b) n = Inr (PInt (if b then int n else 0))"
| "py_times (PFloat x) n = Inr (PFloat (fmul x (Fin (of_nat n))))"
| "py_times (PStr s) n = Inr (PStr (concat (replicate n s)))"
| "py_times (PList xs) n = Inr (PList (concat (replicate n xs)))"
| "py_times v n = Inl (TypeError (''unsupported operand type(s) for *: '' @ quoted (type_name v) @ '' and '' @ quoted ''int''))"

section \<open>Trades\<close>

definition kraken_trade :: "market_type \<Rightarrow> string \<Rightarrow> symbol_info option \<Rightarrow> string \<Rightarrow> pyfloat \<Rightarrow> pyfloat res \<Rightarrow> string res \<Rightarrow>
    int res \<Rightarrow> trade res" where
  "kraken_trade mt model_sym info trade_id price amount side_text ts =
     bindr (bindr amount (\<lambda>n. build_qty_value n (kraken_unit mt) (contract_size_of info) price)) (\<lambda>qty.
     bindr side_text (\<lambda>side_norm.
     bindr ts (\<lambda>ts.
     bindr (side_of side_norm) (\<lambda>taker.
     Inr \<lparr>td_id = Some trade_id, td_symbol = model_sym, td_market_type = mt, td_quote = quote_of info, td_price = price,
       td_qty = qty, td_side = taker, td_timestamp = ts\<rparr>))))"

text \<open>\<open>str(t[6]) if len(t) > 6 else str(int(t[2] * 1000000)) + str(i)\<close>\<close>

definition kraken_trade_id :: "nat \<Rightarrow> pyval \<Rightarrow> string res" where
  "kraken_trade_id i t =
     bindr (py_len t) (\<lambda>n.
     if 6 < n then bindr (py_index t 6) (\<lambda>v. Inr (py_str v))
     else bindr (bindr (bindr (py_index t 2) (\<lambda>v. py_times v 1000000)) py_int) (\<lambda>us. Inr (show_int us @ show_int (int i))))"

definition kraken_spot_trade :: "(string \<Rightarrow> int option) \<Rightarrow> string \<Rightarrow> symbol_info option \<Rightarrow> nat \<times> pyval \<Rightarrow> trade res" where
  "kraken_spot_trade iso_ms model_sym info row = (case row of (i, t) \<Rightarrow>
     bindr (index_float t 0) (\<lambda>price.
     bindr (kraken_trade_id i t) (\<lambda>trade_id.
     kraken_trade Spot model_sym info trade_id price (index_float t 1)
       (bindr (py_index t 3) (\<lambda>side_raw. Inr (if side_raw = PStr ''b'' then ''buy'' else ''sell'')))
       (bindr (py_index t 2) (normalize_timestamp iso_ms)))))"

text \<open>\<open>continue\<close> on a trade whose side is missing or unknown.\<close>

definition known_side :: "pyval \<Rightarrow> (string \<Rightarrow> 'a res) \<Rightarrow> 'a option res" where
  "known_side t k =
     bindr (py_get t ''side'') (\<lambda>side_raw.
     if side_raw = PNone then Inr None
     else
       bindr (as_string ''lower'' side_raw) (\<lambda>s.
       if lower s = ''buy'' \<or> lower s = ''sell'' then bindr (k (lower s)) (\<lambda>x. Inr (Some x)) else Inr None))"

definition kraken_futures_trade :: "(string \<Rightarrow> int option) \<Rightarrow> market_type \<Rightarrow> string \<Rightarrow> symbol_info option \<Rightarrow> pyval \<Rightarrow> trade option res" where
  "kraken_futures_trade iso_ms mt model_sym info t =
     known_side t (\<lambda>side_norm.
     bindr (item_float t ''price'') (\<lambda>price.
     bindr (bindr (py_get t ''uid'') (\<lambda>v. if truthy v then Inr v else py_get t ''time'')) (\<lambda>raw_id.
     kraken_trade mt model_sym info (py_str raw_id) price (item_float t ''size'') (Inr side_norm)
       (bindr (py_item t ''time'') (normalize_timestamp iso_ms)))))"

definition kraken_get_trades :: "'w kraken_env \<Rightarrow> market_type \<Rightarrow> string \<Rightarrow> int \<Rightarrow> ('w, pyexc, trade list) io" where
  "kraken_get_trades env mt symbol limit =
     bindw (liftw (bindr (cap_field kraken_capabilities mt ''trades'' ''max_limit'') py_int)) (\<lambda>max_limit.
     kraken_start env mt symbol (\<lambda>api_symbol model_sym info.
     bindw (if mt = Spot then
         bindw (ke_request env (kraken_spot_rest_url @ ''/Trades'') [(''pair'', PStr api_symbol)]) (\<lambda>data.
         liftw (bindr (bindr (kraken_series data) py_iter) (\<lambda>raw_rows.
           mapr (kraken_spot_trade (ke_iso env) model_sym info) (enumerate 0 raw_rows))))
       else
         bindw (ke_request env (kraken_futures_rest_url @ ''/history'') [(''symbol'', PStr api_symbol)]) (\<lambda>data.
         liftw (bindr (bindr (py_get_or data ''history'' (PList [])) py_iter) (\<lambda>raw_rows.
           bindr (mapr (kraken_futures_trade (ke_iso env) mt model_sym info) raw_rows) (\<lambda>ts. Inr (List.map_filter (\<lambda>t. t) ts))))))
       (\<lambda>trades. retw (slice_last (min limit max_limit) (sort_key td_timestamp trades)))))"

definition kraken_get_agg_trades :: "market_type \<Rightarrow> ('w, pyexc, agg_trade list) io" where
  "kraken_get_agg_trades mt = liftw (Inl (not_supported ''kraken'' ''agg_trades'' mt))"

section \<open>Candles\<close>

definition kraken_candle :: "market_type \<Rightarrow> string \<Rightarrow> symbol_info option \<Rightarrow> string \<Rightarrow> int \<Rightarrow> pyfloat \<Rightarrow>
    pyfloat res \<Rightarrow> pyfloat res \<Rightarrow> pyfloat res \<Rightarrow> pyfloat res \<Rightarrow> candle res" where
  "kraken_candle mt model_sym info interval ts close opening high low vol =
     bindr opening (\<lambda>opening.
     bindr high (\<lambda>high.
     bindr low (\<lambda>low.
     bindr (bindr vol (\<lambda>n. build_volume_value n (kraken_unit mt) (contract_size_of info) close)) (\<lambda>volume.
     Inr \<lparr>cd_symbol = model_sym, cd_market_type = mt, cd_quote = quote_of info, cd_interval = interval, cd_timestamp = ts,
       cd_open = opening, cd_high = high, cd_low = low, cd_close = close, cd_volume = volume\<rparr>))))"

definition kraken_spot_candle :: "(string \<Rightarrow> int option) \<Rightarrow> string \<Rightarrow> symbol_info option \<Rightarrow> string \<Rightarrow> pyval \<Rightarrow> candle res" where
  "kraken_spot_candle iso_ms model_sym info interval b =
     bindr (index_float b 4) (\<lambda>close.
     bindr (bindr (py_index b 0) (normalize_timestamp iso_ms)) (\<lambda>ts.
     kraken_candle Spot model_sym info interval ts close (index_float b 1) (index_float b 2) (index_float b 3) (index_float b 6)))"

definition kraken_spot_candles :: "'w kraken_env \<Rightarrow> string \<Rightarrow> string \<Rightarrow> symbol_info option \<Rightarrow> string \<Rightarrow> int option \<Rightarrow> int \<Rightarrow>
    ('w, pyexc, candle list) io" where
  "kraken_spot_candles env api_symbol model_sym info interval start_time limit =
     bindw (liftw (kraken_map_spot_interval interval)) (\<lambda>interval_min.
     bindw (liftw (case given start_time of
         None \<Rightarrow> Inr []
       | Some t \<Rightarrow> bindr (kraken_seconds t) (\<lambda>anchor_secs. Inr [(''since'', PInt (max 0 (anchor_secs - limit * (interval_min * 60))))]))) (\<lambda>since.
     bindw (ke_request env (kraken_spot_rest_url @ ''/OHLC'')
       ([(''pair'', PStr api_symbol), (''interval'', PInt interval_min)] @ since)) (\<lambda>data.
     bindw (liftw (bindr (bindr (kraken_series data) py_iter) (mapr (kraken_spot_candle (ke_iso env) model_sym info interval)))) (\<lambda>rows.
     retw (kraken_newest cd_timestamp start_time limit rows)))))"

definition kraken_futures_candle :: "market_type \<Rightarrow> string \<Rightarrow> symbol_info option \<Rightarrow> string \<Rightarrow> int \<Rightarrow> pyval \<Rightarrow> candle res" where
  "kraken_futures_candle mt model_sym info interval ts_ms b =
     bindr (item_float b ''close'') (\<lambda>close.
     kraken_candle mt model_sym info interval ts_ms close (item_float b ''open'') (item_float b ''high'') (item_float b ''low'')
       (item_float b ''volume''))"

text \<open>One batch: the candles whose time is new, and the time in seconds of the last row.\<close>

fun kraken_batch :: "(pyval \<Rightarrow> int res) \<Rightarrow> (int \<Rightarrow> pyval \<Rightarrow> candle res) \<Rightarrow> pyval list \<Rightarrow> candle list \<Rightarrow> int \<Rightarrow> (candle list \<times> int) res" where
  "kraken_batch time_of row [] got last_secs = Inr (got, last_secs)"
| "kraken_batch time_of row (b # bs) got last_secs =
     bindr (time_of b) (\<lambda>ts_ms.
     bindr (if ts_ms \<in> cd_timestamp ` set got then Inr got else bindr (row ts_ms b) (\<lambda>c. Inr (got @ [c]))) (\<lambda>got.
     kraken_batch time_of row bs got (ts_ms div 1000)))"

text \<open>
  The walk forward: \<open>None\<close> is a request that failed in one of the ways that end it. A batch that
  adds nothing, or reaches the anchor, is the last one.
\<close>

definition kraken_soft_request :: "('w, pyexc, pyval) io \<Rightarrow> ('w, pyexc, pyval option) io" where
  "kraken_soft_request request =
     tryw (bindw request (\<lambda>v. retw (Some v)))
       (\<lambda>e. case e of HTTPStatusError n s \<Rightarrow> retw None | e \<Rightarrow> if is_value_error e then retw None else liftw (Inl e))"

fun kraken_walk :: "(int \<Rightarrow> ('w, pyexc, pyval) io) \<Rightarrow> (pyval \<Rightarrow> int res) \<Rightarrow> (int \<Rightarrow> pyval \<Rightarrow> candle res) \<Rightarrow> int \<Rightarrow> int \<Rightarrow>
    nat \<Rightarrow> int \<Rightarrow> candle list \<Rightarrow> ('w, pyexc, candle list) io" where
  "kraken_walk request time_of row anchor_secs interval_secs 0 from_ts got = retw got"
| "kraken_walk request time_of row anchor_secs interval_secs (Suc n) from_ts got =
     bindw (kraken_soft_request (request from_ts)) (\<lambda>answer. case answer of
         None \<Rightarrow> retw got
       | Some data \<Rightarrow>
           bindw (liftw (py_get_or data ''candles'' (PList []))) (\<lambda>batch.
           if \<not> truthy batch then retw got
           else
             bindw (liftw (bindr (py_iter batch) (\<lambda>rows. kraken_batch time_of row rows got from_ts))) (\<lambda>(all_candles, last_ts_secs).
             if length all_candles = length got \<or> anchor_secs - interval_secs \<le> last_ts_secs then retw all_candles
             else kraken_walk request time_of row anchor_secs interval_secs n (last_ts_secs + interval_secs) all_candles)))"

definition kraken_futures_candles :: "'w kraken_env \<Rightarrow> market_type \<Rightarrow> string \<Rightarrow> string \<Rightarrow> symbol_info option \<Rightarrow> string \<Rightarrow> int option \<Rightarrow> int \<Rightarrow>
    ('w, pyexc, candle list) io" where
  "kraken_futures_candles env mt api_symbol model_sym info interval start_time limit =
     bindw (liftw (kraken_map_futures_interval interval)) (\<lambda>interval_secs.
     bindw (kraken_now_secs env) (\<lambda>now_secs.
     bindw (liftw (case given start_time of Some t \<Rightarrow> kraken_seconds t | None \<Rightarrow> Inr now_secs)) (\<lambda>anchor_secs.
     bindw (kraken_walk
         (\<lambda>from_ts. ke_request env (kraken_futures_chart_url @ ''/trade/'' @ api_symbol @ ''/'' @ interval) [(''from'', PInt from_ts)])
         (\<lambda>b. bindr (py_item b ''time'') (normalize_timestamp (ke_iso env)))
         (kraken_futures_candle mt model_sym info interval) anchor_secs interval_secs 20 (anchor_secs - limit * interval_secs) []) (\<lambda>rows.
     retw (kraken_newest cd_timestamp start_time limit rows)))))"

definition kraken_get_candles :: "'w kraken_env \<Rightarrow> market_type \<Rightarrow> string \<Rightarrow> string \<Rightarrow> int option \<Rightarrow> int \<Rightarrow> ('w, pyexc, candle list) io" where
  "kraken_get_candles env mt symbol interval start_time limit =
     kraken_start env mt symbol (\<lambda>api_symbol model_sym info.
     if mt = Spot then kraken_spot_candles env api_symbol model_sym info interval start_time limit
     else kraken_futures_candles env mt api_symbol model_sym info interval start_time limit)"

end
