(* ===== verification/KrakenMeta.thy ===== *)
theory KrakenMeta
  imports KrakenHistory
begin

text \<open>
  The mark price, the funding rates and the analytics of the Kraken adapter, its instrument
  metadata and the names of pairs on its WebSocket, \<^verbatim>\<open>exchange_router/exchanges/kraken/adapter.py\<close>.
\<close>

section \<open>Mark price and funding\<close>

text \<open>\<open>float(v) if v is not None else None\<close>\<close>

definition float_or_none :: "pyval \<Rightarrow> pyfloat option res" where
  "float_or_none v = (if v = PNone then Inr None else bindr (py_float v) (\<lambda>x. Inr (Some x)))"

text \<open>The absolute rate as a part of the price: by division for linear contracts, by multiplication for inverse ones.\<close>

definition kraken_relative_rate :: "market_type \<Rightarrow> pyfloat \<Rightarrow> pyval \<Rightarrow> pyfloat option res" where
  "kraken_relative_rate mt mark abs_rate_raw =
     (if abs_rate_raw \<noteq> PNone \<and> flt (Fin 0) mark then
        bindr (py_float abs_rate_raw) (\<lambda>abs_rate.
        if mt = Linear then bindr (fdiv abs_rate mark) (\<lambda>r. Inr (Some r)) else Inr (Some (fmul abs_rate mark)))
      else Inr None)"

definition kraken_mark_block :: "market_type \<Rightarrow> string \<Rightarrow> symbol_info option \<Rightarrow> pyfloat \<Rightarrow> pyfloat option \<Rightarrow> pyfloat option \<Rightarrow> int \<Rightarrow>
    mark_price res" where
  "kraken_mark_block mt model_sym info mark rel_rate idx_price ts =
     bindr (case rel_rate of
         None \<Rightarrow> Inr None
       | Some r \<Rightarrow> bindr (build_funding_current ''continuous'' r 3600000 (ts + 3600000)) (\<lambda>f. Inr (Some f))) (\<lambda>funding_block.
     MarkPrice model_sym mt (quote_of info) mark idx_price funding_block ts)"

definition kraken_mark_price :: "market_type \<Rightarrow> string \<Rightarrow> string \<Rightarrow> symbol_info option \<Rightarrow> pyval \<Rightarrow> int \<Rightarrow> mark_price res" where
  "kraken_mark_price mt api_symbol model_sym info t server_ts =
     bindr (py_get t ''markPrice'') (\<lambda>mark_raw.
     if mark_raw = PNone then Inl (ValueError (''No markPrice available for '' @ api_symbol @ '' on Kraken''))
     else
       bindr (py_float mark_raw) (\<lambda>mark.
       if fle mark (Fin 0) then Inl (ValueError (''Non-positive markPrice '' @ repr_float mark @ '' for '' @ api_symbol @ '' on Kraken''))
       else
         bindr (bindr (py_get t ''fundingRate'') (kraken_relative_rate mt mark)) (\<lambda>rel_rate.
         bindr (bindr (py_get t ''indexPrice'') float_or_none) (\<lambda>idx_price.
         kraken_mark_block mt model_sym info mark rel_rate idx_price server_ts))))"

definition kraken_get_mark_price :: "'w kraken_env \<Rightarrow> market_type \<Rightarrow> string \<Rightarrow> ('w, pyexc, mark_price) io" where
  "kraken_get_mark_price env mt symbol =
     (if mt = Spot then liftw (Inl (not_supported ''kraken'' ''mark_price'' mt))
      else kraken_start env mt symbol (\<lambda>api_symbol model_sym info.
        bindw (kraken_futures_row env api_symbol) (\<lambda>(t, server_ts).
        liftw (kraken_mark_price mt api_symbol model_sym info t server_ts))))"

text \<open>One rate of the history; what is later than the start time is left out before it is read.\<close>

definition kraken_funding_row :: "(string \<Rightarrow> int option) \<Rightarrow> market_type \<Rightarrow> string \<Rightarrow> symbol_info option \<Rightarrow> int option \<Rightarrow> pyval \<Rightarrow>
    funding_rate list res" where
  "kraken_funding_row iso_ms mt model_sym info start_time r =
     bindr (bindr (py_get r ''timestamp'') (normalize_timestamp iso_ms)) (\<lambda>ts.
     if (case given start_time of None \<Rightarrow> False | Some t \<Rightarrow> t < ts) then Inr []
     else
       bindr (bindr (get_float r ''relativeFundingRate'') (\<lambda>x. build_funding_historical ''continuous'' x 3600000)) (\<lambda>rate.
       Inr [\<lparr>fr_symbol = model_sym, fr_market_type = mt, fr_quote = quote_of info, fr_rate = rate, fr_timestamp = ts\<rparr>]))"

definition kraken_get_funding_rate :: "'w kraken_env \<Rightarrow> market_type \<Rightarrow> string \<Rightarrow> int option \<Rightarrow> int \<Rightarrow> ('w, pyexc, funding_rate list) io" where
  "kraken_get_funding_rate env mt symbol start_time limit =
     (if mt = Spot then liftw (Inl (not_supported ''kraken'' ''funding_rate'' mt))
      else
        let api_symbol = kraken_get_api_symbol symbol mt; model_sym = kraken_get_model_symbol api_symbol mt in
        bindw (ke_request env (kraken_futures_rest_url @ ''/historical-funding-rates'') [(''symbol'', PStr api_symbol)]) (\<lambda>data.
        bindw (liftw (py_get_or data ''rates'' (PList []))) (\<lambda>rates.
        bindw (ke_info env mt model_sym) (\<lambda>info.
        bindw (liftw (bindr (py_iter rates) (rows_of (kraken_funding_row (ke_iso env) mt model_sym info start_time)))) (\<lambda>rows.
        retw (slice_last limit (sort_key fr_timestamp rows)))))))"

section \<open>Analytics\<close>

text \<open>Pairs of a time and a value, from one of the three shapes the endpoint answers in.\<close>

definition candle_elements :: "string \<Rightarrow> pyval list \<Rightarrow> (pyval \<times> pyval) list res" where
  "candle_elements field_name candles =
     rows_of (\<lambda>c. case c of
         PDict d \<Rightarrow> (case (dget d field_name, dget d ''time'') of
             (Some v, Some t) \<Rightarrow> bindr (py_times t 1000) (\<lambda>t. Inr [(t, v)])
           | _ \<Rightarrow> Inr [])
       | _ \<Rightarrow> Inr []) candles"

definition row_elements :: "pyval list \<Rightarrow> pyval list \<Rightarrow> (pyval \<times> pyval) list res" where
  "row_elements timestamps payload =
     bindr (mapr (\<lambda>(t, row).
       let v = (case row of PList (x # xs) \<Rightarrow> last (x # xs) | _ \<Rightarrow> row) in
       if v = PNone then Inr [] else bindr (py_float v) (\<lambda>x. Inr [(t, PFloat x)])) (zip timestamps payload)) (\<lambda>xs. Inr (concat xs))"

definition column_elements :: "pyval list \<Rightarrow> pyval list \<Rightarrow> (pyval \<times> pyval) list" where
  "column_elements timestamps values = filter (\<lambda>(t, v). v \<noteq> PNone) (zip timestamps values)"

definition result_elements :: "string \<Rightarrow> pyval \<Rightarrow> (pyval \<times> pyval) list res" where
  "result_elements field_name found = (case found of
       PDict r \<Rightarrow> (case (dget r ''timestamp'', dget r ''data'') of
           (Some (PList ts), Some (PList payload)) \<Rightarrow> row_elements ts payload
         | (Some (PList ts), Some (PDict payload)) \<Rightarrow> (case dget payload field_name of
               Some (PList values) \<Rightarrow> Inr (column_elements ts values)
             | _ \<Rightarrow> Inr [])
         | _ \<Rightarrow> Inr [])
     | _ \<Rightarrow> Inr [])"

definition kraken_extract_analytics :: "pyval \<Rightarrow> string \<Rightarrow> (pyval \<times> pyval) list res" where
  "kraken_extract_analytics data field_name = (case data of
       PDict d \<Rightarrow>
         bindr (case dget d ''candles'' of Some (PList cs) \<Rightarrow> candle_elements field_name cs | _ \<Rightarrow> Inr []) (\<lambda>results.
         if results \<noteq> [] then Inr results
         else case dget d ''result'' of None \<Rightarrow> Inr [] | Some found \<Rightarrow> result_elements field_name found)
     | _ \<Rightarrow> Inr [])"

definition kraken_analytics :: "'w kraken_env \<Rightarrow> market_type \<Rightarrow> string \<Rightarrow> string \<Rightarrow> string \<Rightarrow> string \<Rightarrow> int option \<Rightarrow> int \<Rightarrow>
    ('w, pyexc, (pyval \<times> pyval) list) io" where
  "kraken_analytics env mt api_symbol path field_name period start_time limit =
     bindw (liftw (kraken_map_analytics_interval period)) (\<lambda>interval_secs.
     bindw (kraken_anchor env start_time) (\<lambda>anchor_secs.
     bindw (ke_request env (kraken_futures_chart_url @ ''/analytics/'' @ api_symbol @ ''/'' @ path)
       [(''interval'', PInt interval_secs), (''since'', PInt (max 0 (anchor_secs - limit * interval_secs)))]) (\<lambda>data.
     liftw (kraken_extract_analytics data field_name))))"

definition kraken_oi_row :: "(string \<Rightarrow> int option) \<Rightarrow> market_type \<Rightarrow> string \<Rightarrow> symbol_info option \<Rightarrow> string \<Rightarrow> pyval \<times> pyval \<Rightarrow> open_interest res" where
  "kraken_oi_row iso_ms mt model_sym info period e =
     bindr (bindr (py_float (snd e)) (\<lambda>n. build_oi_value n (kraken_unit mt) (contract_size_of info) None None)) (\<lambda>oi.
     bindr (normalize_timestamp iso_ms (fst e)) (\<lambda>ts.
     Inr \<lparr>oi_symbol = model_sym, oi_market_type = mt, oi_quote = quote_of info, oi_interval = period,
       oi_open_interest = oi, oi_timestamp = ts\<rparr>))"

definition kraken_get_open_interest :: "'w kraken_env \<Rightarrow> market_type \<Rightarrow> string \<Rightarrow> string \<Rightarrow> int option \<Rightarrow> int \<Rightarrow>
    ('w, pyexc, open_interest list) io" where
  "kraken_get_open_interest env mt symbol period start_time limit =
     (if mt = Spot then liftw (Inl (not_supported ''kraken'' ''open_interest'' mt))
      else
        let api_symbol = kraken_get_api_symbol symbol mt; model_sym = kraken_get_model_symbol api_symbol mt in
        bindw (kraken_analytics env mt api_symbol ''open-interest'' ''openInterest'' period start_time limit) (\<lambda>elements.
        bindw (ke_info env mt model_sym) (\<lambda>info.
        bindw (liftw (mapr (kraken_oi_row (ke_iso env) mt model_sym info period) elements)) (\<lambda>rows.
        retw (kraken_newest oi_timestamp start_time limit rows)))))"

definition kraken_get_liquidations :: "market_type \<Rightarrow> ('w, pyexc, liquidation list) io" where
  "kraken_get_liquidations mt = liftw (Inl (not_supported ''kraken'' ''liquidations'' mt))"

definition kraken_ratio_row :: "(string \<Rightarrow> int option) \<Rightarrow> market_type \<Rightarrow> string \<Rightarrow> string \<Rightarrow> pyval \<times> pyval \<Rightarrow> long_short_ratio res" where
  "kraken_ratio_row iso_ms mt model_sym period e =
     bindr (py_float (snd e)) (\<lambda>ratio.
     bindr (normalize_timestamp iso_ms (fst e)) (\<lambda>ts.
     Inr \<lparr>ls_symbol = model_sym, ls_market_type = mt, ls_interval = period, ls_ratio = ratio, ls_long_account = None,
       ls_short_account = None, ls_account_scope = Opaque, ls_timestamp = ts\<rparr>))"

definition kraken_get_long_short_ratio :: "'w kraken_env \<Rightarrow> market_type \<Rightarrow> string \<Rightarrow> string \<Rightarrow> int option \<Rightarrow> int \<Rightarrow>
    ('w, pyexc, long_short_ratio list) io" where
  "kraken_get_long_short_ratio env mt symbol period start_time limit =
     (if mt = Spot then liftw (Inl (not_supported ''kraken'' ''long_short_ratio'' mt))
      else
        let api_symbol = kraken_get_api_symbol symbol mt; model_sym = kraken_get_model_symbol api_symbol mt in
        bindw (kraken_analytics env mt api_symbol ''long-short-ratio'' ''ratio'' period start_time limit) (\<lambda>elements.
        bindw (liftw (mapr (kraken_ratio_row (ke_iso env) mt model_sym period) elements)) (\<lambda>rows.
        retw (kraken_newest ls_timestamp start_time limit rows))))"

section \<open>Instrument metadata\<close>

definition kraken_decimal_places :: "pyfloat \<Rightarrow> int" where
  "kraken_decimal_places value =
     (if value = Fin 0 \<or> fle value (Fin 0) then 8
      else case count_decimals (PFloat value) of None \<Rightarrow> 0 | Some n \<Rightarrow> n)"

text \<open>\<open>base, quote = wsname.split("/")\<close> when there is a slash, else the two fields.\<close>

definition kraken_pair_assets :: "pyval \<Rightarrow> (pyval \<times> pyval) res" where
  "kraken_pair_assets v =
     bindr (py_get_or v ''wsname'' (PStr ''/'')) (\<lambda>wsname.
     bindr (py_in ''/'' wsname) (\<lambda>slashed.
     if slashed then
       bindr (as_string ''split'' wsname) (\<lambda>s. case split_all CHR ''/'' s of
           [b, q] \<Rightarrow> Inr (PStr b, PStr q)
         | _ \<Rightarrow> Inl (ValueError ''too many values to unpack (expected 2)''))
     else
       bindr (py_get_or v ''base'' (PStr [])) (\<lambda>b. bindr (py_get_or v ''quote'' (PStr [])) (\<lambda>q. Inr (b, q)))))"

definition kraken_spot_info :: "string \<times> pyval \<Rightarrow> symbol_info option res" where
  "kraken_spot_info kv = (case kv of (k, v) \<Rightarrow>
     if CHR ''.'' \<in> set k then Inr None
     else
       bindr (py_get v ''status'') (\<lambda>status.
       if status \<noteq> PStr ''online'' then Inr None
       else
         bindr (kraken_pair_assets v) (\<lambda>(base, quote).
         bindr (py_get v ''ordermin'') (\<lambda>raw_ordermin.
         bindr (py_get v ''costmin'') (\<lambda>raw_costmin.
         bindr (read_bound raw_ordermin) (\<lambda>min_qty.
         bindr (read_bound raw_costmin) (\<lambda>min_notional.
         bindr (bound_in_coins Spot None min_qty) (\<lambda>min_qty.
         bindr (bound_in_coins Spot None min_notional) (\<lambda>min_notional.
         bindr (py_get_or v ''altname'' (PStr k)) (\<lambda>altname.
         bindr (bindr (as_string ''upper'' altname) (\<lambda>s. Inr (kraken_get_model_symbol s Spot))) (\<lambda>model_sym.
         bindr (bindr (py_get_or v ''pair_decimals'' (PInt 8)) py_int) (\<lambda>price_precision.
         bindr (bindr (py_get_or v ''lot_decimals'' (PInt 8)) py_int) (\<lambda>quantity_precision.
         bindr (py_get v ''tick_size'') (\<lambda>tick.
         bindr (py_get v ''lot_decimals'') (\<lambda>lot.
         bindr (field_str altname) (\<lambda>native.
         bindr (field_str base) (\<lambda>base.
         bindr (field_str quote) (\<lambda>quote.
         Inr (Some \<lparr>si_symbol = model_sym, si_native_symbol = native, si_base_asset = base, si_quote_asset = quote,
           si_price_precision = price_precision, si_quantity_precision = quantity_precision,
           si_min_qty = min_qty, si_max_qty = None, si_min_notional = min_notional, si_qty_unit = Base,
           si_contract_size = None, si_funding = None, si_tick_size = build_step [tick],
           si_qty_step = build_step_from_decimals lot\<rparr>)))))))))))))))))))"

text \<open>A future is listed under the type and the prefix of its market.\<close>

definition kraken_listed :: "market_type \<Rightarrow> pyval \<Rightarrow> bool res" where
  "kraken_listed mt v =
     bindr (py_get v ''tradeable'') (\<lambda>tradeable.
     if \<not> truthy tradeable then Inr False
     else
       bindr (py_get_or v ''type'' (PStr [])) (\<lambda>t.
       bindr (py_get_or v ''symbol'' (PStr [])) (\<lambda>sym.
       if t \<noteq> PStr (if mt = Inverse then ''futures_inverse'' else ''flexible_futures'') then Inr False
       else bindr (as_string ''startswith'' sym) (\<lambda>s. Inr (starts_with s (if mt = Inverse then ''PI_'' else ''PF_''))))))"

definition kraken_FUT_QUOTES :: "string list" where
  "kraken_FUT_QUOTES = [''USDT'', ''USDC'', ''USD'', ''EUR'', ''GBP'', ''JPY'', ''CHF'', ''CAD'', ''AUD'']"

text \<open>The assets as they are given, or cut from the name at a known quote.\<close>

definition cut_quote :: "string list \<Rightarrow> string \<Rightarrow> (string \<times> string) option" where
  "cut_quote quotes s = map_option (\<lambda>q. (chop (length q) s, q)) (List.find (\<lambda>q. ends_with s q \<and> length q < length s) quotes)"

definition kraken_future_assets :: "market_type \<Rightarrow> pyval \<Rightarrow> (string \<times> string) res" where
  "kraken_future_assets mt v =
     bindr (bindr (get_else v ''baseCurrency'' (PStr [])) (as_string ''upper'')) (\<lambda>b.
     bindr (bindr (get_else v ''quoteCurrency'' (PStr [])) (as_string ''upper'')) (\<lambda>q.
     if b \<noteq> [] \<and> q \<noteq> [] then Inr (upper b, upper q)
     else
       bindr (bindr (py_item v ''symbol'') (as_string ''upper'')) (\<lambda>s.
       Inr (case cut_quote kraken_FUT_QUOTES (kraken_get_model_symbol s mt) of
           Some assets \<Rightarrow> assets
         | None \<Rightarrow> (upper b, upper q)))))"

text \<open>\<open>abs(float(raw))\<close>, and 1 for what is missing or does not read.\<close>

definition kraken_contract_size :: "pyval \<Rightarrow> pyfloat res" where
  "kraken_contract_size raw_size =
     (if raw_size = PNone then Inr (Fin 1)
      else case py_float raw_size of
        Inr x \<Rightarrow> Inr (if flt x (Fin 0) then fneg x else x)
      | Inl e \<Rightarrow> if row_error e then Inr (Fin 1) else Inl e)"

definition kraken_future_info :: "market_type \<Rightarrow> pyval \<Rightarrow> symbol_info option res" where
  "kraken_future_info mt v =
     bindr (kraken_listed mt v) (\<lambda>listed.
     if \<not> listed then Inr None
     else
       bindr (bindr (py_get_or v ''tickSize'' (PInt 0)) (\<lambda>t. py_float (py_or t (PInt 0)))) (\<lambda>tick.
       bindr (py_get v ''minTradeSize'') (\<lambda>raw_min.
       bindr (py_get v ''maxTradeSize'') (\<lambda>raw_max.
       bindr (read_bound raw_min) (\<lambda>min_size.
       bindr (read_bound raw_max) (\<lambda>max_size.
       bindr (bound_in_coins Spot None min_size) (\<lambda>min_size.
       bindr (bound_in_coins Spot None max_size) (\<lambda>max_size.
       bindr (py_get v ''contractValueTradePrecision'') (\<lambda>trade_precision.
       bindr (kraken_future_assets mt v) (\<lambda>(base_asset, quote_asset).
       bindr (if mt = Inverse then bindr (bindr (py_get v ''contractSize'') kraken_contract_size) (\<lambda>x. Inr (Some x)) else Inr None) (\<lambda>contract_size.
       bindr (py_item v ''symbol'') (\<lambda>api_sym.
       bindr (bindr (as_string ''upper'' api_sym) (\<lambda>s. Inr (kraken_get_model_symbol s mt))) (\<lambda>model_sym.
       bindr (build_funding_convention ''continuous'') (\<lambda>funding.
       bindr (py_get v ''tickSize'') (\<lambda>raw_tick.
       bindr (field_str api_sym) (\<lambda>native.
       let qty_step = build_step_from_decimals trade_precision in
       Inr (Some \<lparr>si_symbol = model_sym, si_native_symbol = native, si_base_asset = base_asset, si_quote_asset = quote_asset,
         si_price_precision = kraken_decimal_places tick,
         si_quantity_precision = kraken_decimal_places (case qty_step of None \<Rightarrow> Fin 0 | Some x \<Rightarrow> x),
         si_min_qty = min_size, si_max_qty = max_size, si_min_notional = None, si_qty_unit = unit_of_market mt,
         si_contract_size = contract_size, si_funding = Some funding, si_tick_size = build_step [raw_tick],
         si_qty_step = qty_step\<rparr>)))))))))))))))))"

fun py_items :: "pyval \<Rightarrow> (string \<times> pyval) list res" where
  "py_items (PDict d) = Inr d"
| "py_items v = Inl (AttributeError (quoted (type_name v) @ '' object has no attribute '' @ quoted ''items''))"

definition kraken_fetch_exchange_info :: "'w kraken_env \<Rightarrow> market_type \<Rightarrow> ('w, pyexc, symbol_info list) io" where
  "kraken_fetch_exchange_info env mt =
     (if mt = Spot then
        bindw (ke_request env (kraken_spot_rest_url @ ''/AssetPairs'') []) (\<lambda>data.
        liftw (bindr (bindr (py_items data) (mapr kraken_spot_info)) (\<lambda>rows. Inr (List.map_filter (\<lambda>r. r) rows))))
      else
        bindw (ke_request env (kraken_futures_rest_url @ ''/instruments'') []) (\<lambda>data.
        liftw (bindr (bindr (bindr (py_get_or data ''instruments'' (PList [])) py_iter) (mapr (kraken_future_info mt)))
          (\<lambda>rows. Inr (List.map_filter (\<lambda>r. r) rows)))))"

definition kraken_get_symbol_info :: "(string, symbol_info) dict \<Rightarrow> market_type \<Rightarrow> string \<Rightarrow> symbol_info res" where
  "kraken_get_symbol_info cache mt symbol =
     (case dget cache (kraken_get_model_symbol (kraken_get_api_symbol symbol mt) mt) of
        None \<Rightarrow> Inl (ValueError (''Symbol '' @ symbol @ '' not found on Kraken '' @ market_value mt))
      | Some info \<Rightarrow> Inr info)"

section \<open>Names of pairs on the WebSocket\<close>

fun replace_sub :: "string \<Rightarrow> string \<Rightarrow> string \<Rightarrow> string" where
  "replace_sub p r [] = []"
| "replace_sub p r (c # s) =
     (if p \<noteq> [] \<and> starts_with (c # s) p then r @ replace_sub p r (drop (length p - 1) s) else c # replace_sub p r s)"

definition kraken_to_v2_wsname :: "string \<Rightarrow> string" where
  "kraken_to_v2_wsname wsname = replace_sub ''XDG'' ''DOGE'' (replace_sub ''XBT'' ''BTC'' wsname)"

definition kraken_WS_QUOTES :: "string list" where
  "kraken_WS_QUOTES = [''USDT'', ''USDC'', ''USD'', ''EUR'', ''GBP'', ''JPY'', ''CAD'', ''AUD'', ''CHF'', ''BTC'', ''ETH'', ''DOT'']"

definition kraken_heuristic_ws_symbol :: "string \<Rightarrow> string" where
  "kraken_heuristic_ws_symbol api_symbol =
     (if CHR ''/'' \<in> set api_symbol then kraken_to_v2_wsname api_symbol
      else let s = kraken_to_v2_wsname (upper api_symbol) in
        case cut_quote kraken_WS_QUOTES s of None \<Rightarrow> s | Some (b, q) \<Rightarrow> b @ ''/'' @ q)"

definition note_ws_name :: "(string, string) dict \<Rightarrow> string \<times> pyval \<Rightarrow> (string, string) dict res" where
  "note_ws_name built kv = (case kv of (k, v) \<Rightarrow>
     if CHR ''.'' \<in> set k then Inr built
     else
       bindr (py_get v ''wsname'') (\<lambda>wsname.
       if \<not> truthy wsname then Inr built
       else
         bindr (as_string ''replace'' wsname) (\<lambda>wsname.
         let ws_v2 = kraken_to_v2_wsname wsname in
         bindr (bindr (get_else v ''altname'' (PStr k)) (as_string ''upper'')) (\<lambda>alt.
         let altname = upper alt in
         Inr (foldl (\<lambda>d name. dset d name ws_v2) built
           [altname, kraken_to_v2_wsname altname, upper (remove_char CHR ''/'' wsname), upper (remove_char CHR ''/'' ws_v2)])))))"

fun note_ws_names :: "(string, string) dict \<Rightarrow> (string \<times> pyval) list \<Rightarrow> (string, string) dict res" where
  "note_ws_names built [] = Inr built"
| "note_ws_names built (kv # kvs) = bindr (note_ws_name built kv) (\<lambda>built. note_ws_names built kvs)"

text \<open>The map is loaded once; what is there is kept.\<close>

definition kraken_ensure_spot_ws_map :: "'w kraken_env \<Rightarrow> (string, string) dict \<Rightarrow> ('w, pyexc, (string, string) dict) io" where
  "kraken_ensure_spot_ws_map env ws_map =
     (if ws_map \<noteq> [] then retw ws_map
      else bindw (ke_request env (kraken_spot_rest_url @ ''/AssetPairs'') []) (\<lambda>data.
        liftw (bindr (py_items data) (note_ws_names []))))"

text \<open>The name with the map as it is afterwards.\<close>

definition kraken_spot_ws_symbol :: "'w kraken_env \<Rightarrow> (string, string) dict \<Rightarrow> string \<Rightarrow> ('w, pyexc, string \<times> (string, string) dict) io" where
  "kraken_spot_ws_symbol env ws_map api_symbol =
     (if CHR ''/'' \<in> set api_symbol then retw (api_symbol, ws_map)
      else
        tryw
          (bindw (kraken_ensure_spot_ws_map env ws_map) (\<lambda>ws_map. retw
             (case dget ws_map (upper api_symbol) of
                Some m \<Rightarrow> if m \<noteq> [] then m else kraken_heuristic_ws_symbol api_symbol
              | None \<Rightarrow> kraken_heuristic_ws_symbol api_symbol, ws_map)))
          (\<lambda>e. if is_exception e then retw (kraken_heuristic_ws_symbol api_symbol, ws_map) else liftw (Inl e)))"

end
