(* ===== verification/KrakenStreams.thy ===== *)
theory KrakenStreams
  imports KrakenMeta LocalBook "HOL-Library.List_Lexorder"
begin

text \<open>
  The streams of the Kraken adapter, \<^verbatim>\<open>exchange_router/exchanges/kraken/adapter.py\<close>: the topics and
  the payloads that its hubs share, the body of each stream on the two WebSockets, and the order
  books kept from snapshots and changes. A frame is the clock's time with the message.
\<close>

section \<open>Topics\<close>

definition kraken_spot_ws_url :: string where "kraken_spot_ws_url = ''wss://ws.kraken.com/v2''"
definition kraken_futures_ws_url :: string where "kraken_futures_ws_url = ''wss://futures.kraken.com/ws/v1''"

type_synonym payload = "(string \<times> pyval) list"

definition pay_get :: "payload \<Rightarrow> string \<Rightarrow> pyval" where
  "pay_get p k = (case dget p k of None \<Rightarrow> PStr [] | Some v \<Rightarrow> v)"

text \<open>\<open>payload.get("params") or {}\<close>, and the first of a list of names, \<open>(p.get(k) or [""])[0]\<close>.\<close>

definition pay_params :: "payload \<Rightarrow> payload" where
  "pay_params p = (case dget p ''params'' of Some (PDict d) \<Rightarrow> d | _ \<Rightarrow> [])"

definition pay_first :: "payload \<Rightarrow> string \<Rightarrow> pyval" where
  "pay_first p k = (case dget p k of Some (PList (x # xs)) \<Rightarrow> x | _ \<Rightarrow> PStr [])"

definition kraken_hub_key :: "string \<Rightarrow> payload \<Rightarrow> string" where
  "kraken_hub_key url payload =
     (if has_sub ''/v2'' url then
        ''spot:'' @ join '':'' (map (\<lambda>k. py_str (pay_get (pay_params payload) k)) [''channel'', ''event_trigger'', ''depth'', ''snapshot''])
      else ''fut:'' @ py_str (pay_get payload ''feed''))"

definition kraken_topic_key :: "string \<Rightarrow> payload \<Rightarrow> string" where
  "kraken_topic_key url payload =
     (if has_sub ''/v2'' url then
        py_str (pay_get (pay_params payload) ''channel'') @ '':'' @ py_str (pay_first (pay_params payload) ''symbol'')
      else py_str (pay_get payload ''feed'') @ '':'' @ py_str (pay_first payload ''product_ids''))"

text \<open>The payloads of topics are kept by topic, for all hubs together.\<close>

definition kraken_sub :: "(string, payload) dict \<Rightarrow> string list \<Rightarrow> payload list" where
  "kraken_sub topic_payloads topics = List.map_filter (dget topic_payloads) topics"

definition kraken_unsub :: "string \<Rightarrow> (string, payload) dict \<Rightarrow> string list \<Rightarrow> payload list" where
  "kraken_unsub url topic_payloads topics =
     map (\<lambda>p. if has_sub ''/v2'' url then [(''method'', PStr ''unsubscribe''), (''params'', PDict (pay_params p))]
       else [(''event'', PStr ''unsubscribe''), (''feed'', case dget p ''feed'' of None \<Rightarrow> PNone | Some v \<Rightarrow> v),
         (''product_ids'', case dget p ''product_ids'' of None \<Rightarrow> PNone | Some v \<Rightarrow> v)])
       (kraken_sub topic_payloads topics)"

definition kraken_spot_route :: "pyval \<Rightarrow> string option" where
  "kraken_spot_route msg = (case msg of
       PDict d \<Rightarrow> (case (dget d ''channel'', dget d ''data'') of
           (Some ch, Some (PList (PDict row # rows))) \<Rightarrow>
             (case dget row ''symbol'' of
                Some pair \<Rightarrow> if truthy ch \<and> truthy pair then Some (py_str ch @ '':'' @ py_str pair) else None
              | None \<Rightarrow> None)
         | _ \<Rightarrow> None)
     | _ \<Rightarrow> None)"

definition kraken_futures_route :: "pyval \<Rightarrow> string option res" where
  "kraken_futures_route msg = (case msg of
       PDict d \<Rightarrow> (case (dget d ''feed'', dget d ''product_id'') of
           (Some feed, Some pid) \<Rightarrow>
             if \<not> truthy feed \<or> \<not> truthy pid then Inr None
             else bindr (as_string ''endswith'' feed) (\<lambda>f.
               Inr (Some ((if ends_with f ''_snapshot'' then chop 9 f else f) @ '':'' @ py_str pid)))
         | _ \<Rightarrow> Inr None)
     | _ \<Rightarrow> Inr None)"

definition kraken_spot_payload :: "string \<Rightarrow> string \<Rightarrow> payload \<Rightarrow> payload" where
  "kraken_spot_payload channel ws_sym extra =
     [(''method'', PStr ''subscribe''), (''params'', PDict ([(''channel'', PStr channel), (''symbol'', PList [PStr ws_sym])] @ extra))]"

definition kraken_futures_payload :: "string \<Rightarrow> string \<Rightarrow> payload" where
  "kraken_futures_payload feed api_symbol =
     [(''event'', PStr ''subscribe''), (''feed'', PStr feed), (''product_ids'', PList [PStr api_symbol])]"

section \<open>Hubs\<close>

text \<open>
  \<open>_ws_connect\<close> has an \<open>await\<close> for the lock of the hubs and one in the hub's \<open>subscribe\<close>, and other
  streams run meanwhile. Up to the lock a stream notes its payload for its topic; then it finds or
  makes its hub and enters its topic there; the hub (\<open>StreamHub\<close>) asks for the topics entered when
  it is connected, with the payloads noted by then. A stream is a number, its address, its payload
  and whether it has entered its hub.
\<close>

record kraken_hubs =
  kt_payloads :: "(string, payload) dict"
  kt_hubs :: "(string, string) dict"
  kt_streams :: "(nat \<times> string \<times> payload \<times> bool) list"
  kt_next :: nat

definition kraken_hubs_init :: kraken_hubs where
  "kraken_hubs_init = \<lparr>kt_payloads = [], kt_hubs = [], kt_streams = [], kt_next = 0\<rparr>"

definition kraken_note :: "string \<Rightarrow> payload \<Rightarrow> kraken_hubs \<Rightarrow> kraken_hubs" where
  "kraken_note url payload k =
     k\<lparr>kt_payloads := dset (kt_payloads k) (kraken_topic_key url payload) payload,
       kt_streams := kt_streams k @ [(kt_next k, url, payload, False)], kt_next := kt_next k + 1\<rparr>"

text \<open>\<open>_get_kraken_hub\<close> once it has its lock; a hub is what it connects to.\<close>

definition kraken_get_hub :: "string \<Rightarrow> payload \<Rightarrow> kraken_hubs \<Rightarrow> kraken_hubs" where
  "kraken_get_hub url payload k =
     (let hub_key = kraken_hub_key url payload in
      case dget (kt_hubs k) hub_key of
        Some hub \<Rightarrow> k
      | None \<Rightarrow> k\<lparr>kt_hubs := dset (kt_hubs k) hub_key url\<rparr>)"

definition kraken_enter :: "nat \<Rightarrow> kraken_hubs \<Rightarrow> kraken_hubs" where
  "kraken_enter n k = (case map_of (kt_streams k) n of
       Some (url, payload, False) \<Rightarrow>
         (kraken_get_hub url payload k)\<lparr>kt_streams :=
           map (\<lambda>(m, u, p, b). (m, u, p, b \<or> m = n)) (kt_streams k)\<rparr>
     | _ \<Rightarrow> k)"

text \<open>A stream that ends, or is cancelled while it opens; what it has noted stays.\<close>

definition kraken_leave :: "nat \<Rightarrow> kraken_hubs \<Rightarrow> kraken_hubs" where
  "kraken_leave n k = k\<lparr>kt_streams := filter (\<lambda>(m, _). m \<noteq> n) (kt_streams k)\<rparr>"

text \<open>
  What every stream begins with. \<open>ws_name\<close> is the adapter's \<open>_spot_ws_symbol\<close>; a stream is its
  address, its payload and the step that is run over the frames of its topic.
\<close>

definition kraken_spot_start :: "(string \<Rightarrow> ('w, pyexc, string) io) \<Rightarrow> string \<Rightarrow> string \<Rightarrow> payload \<Rightarrow> 'b \<Rightarrow> ('w, pyexc, string \<times> payload \<times> 'b) io" where
  "kraken_spot_start ws_name channel api_symbol extra step =
     bindw (ws_name api_symbol) (\<lambda>ws_sym. retw (kraken_spot_ws_url, kraken_spot_payload channel ws_sym extra, step))"

definition kraken_futures_start :: "string \<Rightarrow> string \<Rightarrow> 'b \<Rightarrow> ('w, pyexc, string \<times> payload \<times> 'b) io" where
  "kraken_futures_start feed api_symbol step =
     retw (kraken_futures_ws_url, kraken_futures_payload feed api_symbol, step)"

section \<open>Frames\<close>

text \<open>The rows of a message of a spot channel; other messages have none.\<close>

definition kraken_rows :: "string \<Rightarrow> pyfloat \<times> pyval \<Rightarrow> pyval list res" where
  "kraken_rows channel frame =
     bindr (py_get (snd frame) ''type'') (\<lambda>kind.
     bindr (py_get (snd frame) ''channel'') (\<lambda>ch.
     if (kind = PStr ''snapshot'' \<or> kind = PStr ''update'') \<and> ch = PStr channel
     then bindr (py_get_or (snd frame) ''data'' (PList [])) py_iter
     else Inr []))"

text \<open>\<open>data.get("feed") == feed and key in data\<close>\<close>

definition has_key :: "string \<Rightarrow> pyval \<Rightarrow> bool" where
  "has_key k v = (case v of PDict d \<Rightarrow> dget d k \<noteq> None | _ \<Rightarrow> False)"

definition kraken_feed :: "string \<Rightarrow> string \<Rightarrow> pyval \<Rightarrow> 'm list res \<Rightarrow> 'm list res" where
  "kraken_feed feed key data body =
     bindr (py_get data ''feed'') (\<lambda>f. if f = PStr feed \<and> has_key key data then body else Inr [])"

text \<open>\<open>normalize_timestamp(d.get(k, time.time()))\<close>\<close>

definition stamp_or_now :: "(string \<Rightarrow> int option) \<Rightarrow> pyfloat \<Rightarrow> pyval \<Rightarrow> string \<Rightarrow> int res" where
  "stamp_or_now iso_ms now d k = bindr (py_get_or d k (PFloat now)) (normalize_timestamp iso_ms)"

section \<open>Tickers\<close>

definition kraken_ticker_row :: "(string \<Rightarrow> int option) \<Rightarrow> string \<Rightarrow> symbol_info option \<Rightarrow> pyfloat \<times> pyval \<Rightarrow> pyval \<Rightarrow> ticker list res" where
  "kraken_ticker_row iso_ms model_sym info frame d =
     bindr (get_float d ''last'') (\<lambda>last_price.
     bindr (get_float d ''change'') (\<lambda>change.
     bindr (get_float d ''high'') (\<lambda>high_24h.
     bindr (get_float d ''low'') (\<lambda>low_24h.
     bindr (bindr (get_float d ''volume'') (\<lambda>n. build_volume_value n ''base'' None last_price)) (\<lambda>volume.
     bindr (get_float d ''change_pct'') (\<lambda>pct.
     bindr (stamp_or_now iso_ms (fst frame) d ''timestamp'') (\<lambda>ts.
     Inr [\<lparr>tk_symbol = model_sym, tk_market_type = Spot, tk_quote = quote_of info, tk_price = last_price,
       tk_open_24h = fsub last_price change, tk_high_24h = high_24h, tk_low_24h = low_24h, tk_volume_24h = volume,
       tk_price_change_percent = pct, tk_timestamp = ts\<rparr>])))))))"

definition kraken_ticker_frame :: "(string \<Rightarrow> int option) \<Rightarrow> market_type \<Rightarrow> string \<Rightarrow> symbol_info option \<Rightarrow> pyfloat \<times> pyval \<Rightarrow> ticker list res" where
  "kraken_ticker_frame iso_ms mt model_sym info frame = (case frame of (now, data) \<Rightarrow>
     kraken_feed ''ticker'' ''last'' data (
       bindr (item_float data ''last'') (\<lambda>last_price.
       bindr (get_float data ''open'') (\<lambda>open_24h.
       bindr (if flt (Fin 0) open_24h
              then bindr (bindr (get_float data ''change'') (\<lambda>c. fdiv c open_24h)) (\<lambda>r. Inr (fmul r (Fin 100)))
              else Inr (Fin 0)) (\<lambda>pc.
       bindr (get_float data ''high'') (\<lambda>high_24h.
       bindr (get_float data ''low'') (\<lambda>low_24h.
       bindr (bindr (get_float data ''volume'') (\<lambda>n. build_volume_value n (kraken_unit mt) (contract_size_of info) last_price)) (\<lambda>volume.
       bindr (stamp_or_now iso_ms now data ''time'') (\<lambda>ts.
       Inr [\<lparr>tk_symbol = model_sym, tk_market_type = mt, tk_quote = quote_of info, tk_price = last_price,
         tk_open_24h = open_24h, tk_high_24h = high_24h, tk_low_24h = low_24h, tk_volume_24h = volume,
         tk_price_change_percent = pc, tk_timestamp = ts\<rparr>])))))))))"

definition kraken_stream_ticker where
  "kraken_stream_ticker env ws_name mt symbol =
     kraken_start env mt symbol (\<lambda>api_symbol model_sym info.
     if mt = Spot then kraken_spot_start ws_name ''ticker'' api_symbol []
         (rows_step (kraken_rows ''ticker'') (kraken_ticker_row (ke_iso env) model_sym info))
     else kraken_futures_start ''ticker'' api_symbol (frame_step (kraken_ticker_frame (ke_iso env) mt model_sym info)))"

section \<open>Book tickers\<close>

definition kraken_quotes_row :: "(string \<Rightarrow> int option) \<Rightarrow> market_type \<Rightarrow> string \<Rightarrow> symbol_info option \<Rightarrow> string \<Rightarrow> string \<Rightarrow> string \<Rightarrow>
    pyfloat \<Rightarrow> pyval \<Rightarrow> book_ticker list res" where
  "kraken_quotes_row iso_ms mt model_sym info bid_qty_k ask_qty_k time_k now d =
     bindr (get_float d ''bid'') (\<lambda>bid_price.
     bindr (get_float d ''ask'') (\<lambda>ask_price.
     bindr (kraken_book_ticker mt model_sym info bid_price ask_price (get_float d bid_qty_k) (get_float d ask_qty_k)) (\<lambda>row.
     bindr (stamp_or_now iso_ms now d time_k) (\<lambda>ts. Inr [row ts]))))"

definition kraken_spot_quotes_row :: "(string \<Rightarrow> int option) \<Rightarrow> string \<Rightarrow> symbol_info option \<Rightarrow> pyfloat \<times> pyval \<Rightarrow> pyval \<Rightarrow> book_ticker list res" where
  "kraken_spot_quotes_row iso_ms model_sym info frame d =
     kraken_quotes_row iso_ms Spot model_sym info ''bid_qty'' ''ask_qty'' ''timestamp'' (fst frame) d"

definition kraken_quotes_frame :: "(string \<Rightarrow> int option) \<Rightarrow> market_type \<Rightarrow> string \<Rightarrow> symbol_info option \<Rightarrow> pyfloat \<times> pyval \<Rightarrow> book_ticker list res" where
  "kraken_quotes_frame iso_ms mt model_sym info frame = (case frame of (now, data) \<Rightarrow>
     kraken_feed ''ticker'' ''bid'' data (kraken_quotes_row iso_ms mt model_sym info ''bid_size'' ''ask_size'' ''time'' now data))"

definition kraken_stream_book_ticker where
  "kraken_stream_book_ticker env ws_name mt symbol =
     kraken_start env mt symbol (\<lambda>api_symbol model_sym info.
     if mt = Spot then kraken_spot_start ws_name ''ticker'' api_symbol [(''event_trigger'', PStr ''bbo'')]
         (rows_step (kraken_rows ''ticker'') (kraken_spot_quotes_row (ke_iso env) model_sym info))
     else kraken_futures_start ''ticker'' api_symbol (frame_step (kraken_quotes_frame (ke_iso env) mt model_sym info)))"

section \<open>Order books\<close>

record kraken_book =
  xb_bids :: book_side
  xb_asks :: book_side
  xb_bootstrapped :: bool

definition kraken_book_init :: kraken_book where
  "kraken_book_init = \<lparr>xb_bids = [], xb_asks = [], xb_bootstrapped = False\<rparr>"

text \<open>\<open>for b in rows: ...\<close>, each row an object with its price and its quantity.\<close>

definition kraken_level :: "pyval \<Rightarrow> (pyfloat \<times> pyfloat) res" where
  "kraken_level b = bindr (item_float b ''price'') (\<lambda>p. bindr (item_float b ''qty'') (\<lambda>q. Inr (p, q)))"

definition kraken_levels_in :: "(book_side \<Rightarrow> pyfloat \<times> pyfloat \<Rightarrow> book_side) \<Rightarrow> book_side \<Rightarrow> pyval \<Rightarrow> string \<Rightarrow> book_side res" where
  "kraken_levels_in put side d k =
     bindr (bindr (bindr (py_get_or d k (PList [])) py_iter) (mapr kraken_level)) (\<lambda>ls. Inr (foldl put side ls))"

text \<open>The depth that is subscribed to.\<close>

definition kraken_ws_depth :: "int \<Rightarrow> int" where
  "kraken_ws_depth depth = (if depth \<le> 10 then 10 else if depth \<le> 25 then 25 else 100)"

definition kraken_book_view :: "(string \<Rightarrow> int option) \<Rightarrow> market_type \<Rightarrow> string \<Rightarrow> symbol_info option \<Rightarrow> int \<Rightarrow> pyfloat \<Rightarrow>
    kraken_book \<Rightarrow> pyval \<Rightarrow> order_book res" where
  "kraken_book_view iso_ms mt model_sym info depth now st d =
     bindr (stamp_or_now iso_ms now d ''timestamp'') (\<lambda>ts.
     Inr \<lparr>ob_symbol = model_sym, ob_market_type = mt, ob_quote = quote_of info, ob_bids = top_bids depth (xb_bids st),
       ob_asks = top_asks depth (xb_asks st), ob_qty_unit = unit_of_market mt, ob_timestamp = ts\<rparr>)"

definition kraken_book_row :: "(kraken_book \<Rightarrow> pyval \<Rightarrow> order_book res) \<Rightarrow> kraken_book \<Rightarrow> pyval \<Rightarrow> kraken_book \<times> order_book list \<times> frame_end" where
  "kraken_book_row view st d =
     (case bindr (kraken_levels_in set_level (xb_bids st) d ''bids'') (\<lambda>bids.
           bindr (kraken_levels_in set_level (xb_asks st) d ''asks'') (\<lambda>asks.
           let st = st\<lparr>xb_bids := bids, xb_asks := asks\<rparr> in bindr (view st d) (\<lambda>book. Inr (st, book)))) of
        Inl e \<Rightarrow> (st, [], stopping (Some e))
      | Inr (st, book) \<Rightarrow> (st, [book], Next))"

definition kraken_spot_book_step :: "(string \<Rightarrow> int option) \<Rightarrow> string \<Rightarrow> symbol_info option \<Rightarrow> int \<Rightarrow> kraken_book \<Rightarrow> pyfloat \<times> pyval \<Rightarrow>
    kraken_book \<times> order_book list \<times> frame_end" where
  "kraken_spot_book_step iso_ms model_sym info depth st frame = (case frame of (now, data) \<Rightarrow>
     (case bindr (py_get data ''channel'') (\<lambda>ch. bindr (py_get data ''type'') (\<lambda>kind. Inr (ch, kind))) of
        Inl e \<Rightarrow> (st, [], stopping (Some e))
      | Inr (ch, kind) \<Rightarrow>
          if ch \<noteq> PStr ''book'' \<or> (kind \<noteq> PStr ''snapshot'' \<and> kind \<noteq> PStr ''update'') then (st, [], Next)
          else
            let st = (if kind = PStr ''snapshot'' then \<lparr>xb_bids = [], xb_asks = [], xb_bootstrapped = True\<rparr> else st) in
            if \<not> xb_bootstrapped st then (st, [], Next)
            else (case bindr (py_get_or data ''data'' (PList [])) py_iter of
                Inl e \<Rightarrow> (st, [], stopping (Some e))
              | Inr items \<Rightarrow> over_rows (kraken_book_row (kraken_book_view iso_ms Spot model_sym info depth now)) st items)))"

text \<open>The futures send a snapshot whole and then one level at a time. \<open>None\<close> is a message to pass over.\<close>

definition put_positive :: "book_side \<Rightarrow> pyfloat \<times> pyfloat \<Rightarrow> book_side" where
  "put_positive side l = (if flt (Fin 0) (snd l) then dset side (fst l) (snd l) else side)"

definition kraken_futures_change :: "kraken_book \<Rightarrow> pyval \<Rightarrow> kraken_book option res" where
  "kraken_futures_change st data =
     bindr (item_float data ''price'') (\<lambda>p.
     bindr (get_float data ''qty'') (\<lambda>q.
     bindr (bindr (py_get_or data ''side'' (PStr [])) (as_string ''lower'')) (\<lambda>s.
     Inr (if lower s = ''buy'' then Some (st\<lparr>xb_bids := set_level (xb_bids st) (p, q)\<rparr>)
          else if lower s = ''sell'' then Some (st\<lparr>xb_asks := set_level (xb_asks st) (p, q)\<rparr>)
          else None))))"

definition kraken_futures_take :: "kraken_book \<Rightarrow> pyval \<Rightarrow> kraken_book option res" where
  "kraken_futures_take st data =
     bindr (py_get data ''feed'') (\<lambda>feed.
     if feed = PStr ''book_snapshot'' then
       bindr (kraken_levels_in put_positive [] data ''bids'') (\<lambda>bids.
       bindr (kraken_levels_in put_positive [] data ''asks'') (\<lambda>asks.
       Inr (Some \<lparr>xb_bids = bids, xb_asks = asks, xb_bootstrapped = True\<rparr>)))
     else if feed = PStr ''book'' \<and> has_key ''side'' data \<and> has_key ''price'' data then
       (if xb_bootstrapped st then kraken_futures_change st data else Inr None)
     else Inr None)"

definition kraken_futures_book_step :: "(string \<Rightarrow> int option) \<Rightarrow> market_type \<Rightarrow> string \<Rightarrow> symbol_info option \<Rightarrow> int \<Rightarrow>
    kraken_book \<Rightarrow> pyfloat \<times> pyval \<Rightarrow> kraken_book \<times> order_book list \<times> frame_end" where
  "kraken_futures_book_step iso_ms mt model_sym info depth st frame = (case frame of (now, data) \<Rightarrow>
     (case kraken_futures_take st data of
        Inl e \<Rightarrow> (st, [], stopping (Some e))
      | Inr None \<Rightarrow> (st, [], Next)
      | Inr (Some st) \<Rightarrow>
          if xb_bids st = [] \<or> xb_asks st = [] then (st, [], Next)
          else (case kraken_book_view iso_ms mt model_sym info depth now st data of
              Inl e \<Rightarrow> (st, [], stopping (Some e))
            | Inr book \<Rightarrow> (st, [book], Next))))"

definition kraken_stream_orderbook where
  "kraken_stream_orderbook env ws_name mt symbol depth =
     kraken_start env mt symbol (\<lambda>api_symbol model_sym info.
     if mt = Spot then kraken_spot_start ws_name ''book'' api_symbol [(''depth'', PInt (kraken_ws_depth depth))]
         (kraken_spot_book_step (ke_iso env) model_sym info depth)
     else kraken_futures_start ''book'' api_symbol (kraken_futures_book_step (ke_iso env) mt model_sym info depth))"

section \<open>Trades and mark prices\<close>

definition kraken_trade_of :: "(string \<Rightarrow> int option) \<Rightarrow> market_type \<Rightarrow> string \<Rightarrow> symbol_info option \<Rightarrow> (pyval \<Rightarrow> pyval res) \<Rightarrow>
    (pyval \<Rightarrow> pyfloat res) \<Rightarrow> string \<Rightarrow> pyfloat \<Rightarrow> pyval \<Rightarrow> trade list res" where
  "kraken_trade_of iso_ms mt model_sym info id_of price_of time_k now t =
     bindr (known_side t (\<lambda>side_norm.
       bindr (id_of t) (\<lambda>trade_id.
       bindr (price_of t) (\<lambda>price.
       kraken_trade mt model_sym info (py_str trade_id) price (get_float t ''qty'') (Inr side_norm)
         (stamp_or_now iso_ms now t time_k))))) (\<lambda>made. Inr (case made of None \<Rightarrow> [] | Some x \<Rightarrow> [x]))"

definition kraken_spot_trade_row :: "(string \<Rightarrow> int option) \<Rightarrow> string \<Rightarrow> symbol_info option \<Rightarrow> pyfloat \<times> pyval \<Rightarrow> pyval \<Rightarrow> trade list res" where
  "kraken_spot_trade_row iso_ms model_sym info frame t =
     kraken_trade_of iso_ms Spot model_sym info
       (\<lambda>t. bindr (py_get_or t ''timestamp'' (PFloat (fst frame))) (py_get_or t ''trade_id''))
       (\<lambda>t. get_float t ''price'') ''timestamp'' (fst frame) t"

definition kraken_futures_trade_row :: "(string \<Rightarrow> int option) \<Rightarrow> market_type \<Rightarrow> string \<Rightarrow> symbol_info option \<Rightarrow> pyfloat \<Rightarrow> pyval \<Rightarrow> trade list res" where
  "kraken_futures_trade_row iso_ms mt model_sym info now t =
     kraken_trade_of iso_ms mt model_sym info
       (\<lambda>t. bindr (py_get t ''time'') (py_get_or t ''uid'')) (\<lambda>t. item_float t ''price'') ''time'' now t"

text \<open>\<open>sorted(rows, key=...)\<close> of keys that are all numbers, or all texts; others do not compare.\<close>

fun all_numbers :: "pyval list \<Rightarrow> bool" where
  "all_numbers [] = True"
| "all_numbers (v # vs) = (number_of v \<noteq> None \<and> all_numbers vs)"

fun text_codes :: "pyval \<Rightarrow> nat list" where
  "text_codes (PStr s) = map of_char s"
| "text_codes v = []"

fun is_text :: "pyval \<Rightarrow> bool" where
  "is_text (PStr s) = True"
| "is_text v = False"

definition sorted_by :: "(pyval \<Rightarrow> pyval res) \<Rightarrow> pyval list \<Rightarrow> pyval list res" where
  "sorted_by key rows =
     bindr (mapr key rows) (\<lambda>ks.
     if length rows \<le> 1 then Inr rows
     else if all_numbers ks then Inr (map snd (sort_key (\<lambda>(k, r). case number_of k of Some x \<Rightarrow> x | None \<Rightarrow> NaN) (zip ks rows)))
     else if list_all is_text ks then Inr (map snd (sort_key (\<lambda>(k, r). text_codes k) (zip ks rows)))
     else Inl (TypeError (quoted ''<'' @ '' not supported between instances'')))"

text \<open>A trade of its own, or the trades of a snapshot in the order of their times.\<close>

definition kraken_trade_rows :: "pyfloat \<times> pyval \<Rightarrow> pyval list res" where
  "kraken_trade_rows frame = (case frame of (now, data) \<Rightarrow>
     bindr (py_get data ''feed'') (\<lambda>feed.
     if feed = PStr ''trade'' \<and> has_key ''price'' data then Inr [data]
     else if feed = PStr ''trade_snapshot'' \<and> has_key ''trades'' data then
       bindr (bindr (py_item data ''trades'') py_iter) (sorted_by (\<lambda>t. py_get_or t ''time'' (PInt 0)))
     else Inr []))"

definition kraken_stream_trades where
  "kraken_stream_trades env ws_name mt symbol =
     kraken_start env mt symbol (\<lambda>api_symbol model_sym info.
     if mt = Spot then kraken_spot_start ws_name ''trade'' api_symbol [(''snapshot'', PBool True)]
         (rows_step (kraken_rows ''trade'') (kraken_spot_trade_row (ke_iso env) model_sym info))
     else kraken_futures_start ''trade'' api_symbol
         (rows_step kraken_trade_rows (\<lambda>frame. kraken_futures_trade_row (ke_iso env) mt model_sym info (fst frame))))"

definition kraken_mark_frame :: "(string \<Rightarrow> int option) \<Rightarrow> market_type \<Rightarrow> string \<Rightarrow> symbol_info option \<Rightarrow> pyfloat \<times> pyval \<Rightarrow> mark_price list res" where
  "kraken_mark_frame iso_ms mt model_sym info frame = (case frame of (now, data) \<Rightarrow>
     kraken_feed ''ticker'' ''markPrice'' data (
       bindr (item_float data ''markPrice'') (\<lambda>mark.
       bindr (bindr (py_get data ''indexPrice'') float_or_none) (\<lambda>idx_price.
       bindr (bindr (py_get data ''relative_funding_rate'') float_or_none) (\<lambda>rel_rate.
       bindr (if rel_rate \<noteq> None then Inr rel_rate
              else bindr (py_get data ''funding_rate'') (kraken_relative_rate mt mark)) (\<lambda>rel_rate.
       bindr (stamp_or_now iso_ms now data ''time'') (\<lambda>ts.
       one (kraken_mark_block mt model_sym info mark rel_rate idx_price ts))))))))"

definition kraken_stream_mark_price where
  "kraken_stream_mark_price env mt symbol =
     (if mt = Spot then liftw (Inl (not_supported ''kraken'' ''stream_mark_price'' mt))
      else kraken_start env mt symbol (\<lambda>api_symbol model_sym info.
        kraken_futures_start ''ticker'' api_symbol (frame_step (kraken_mark_frame (ke_iso env) mt model_sym info))))"

end
