(* ===== verification/KrakenLaws.thy ===== *)
theory KrakenLaws
  imports KrakenStreams BookFeed
begin

text \<open>
  The order book stream of the Kraken spot market keeps up with the venue's book, which it sends
  without numbers.
\<close>

section \<open>Frames of the spot book\<close>

text \<open>A frame carries its time as text.\<close>

record kraken_frame = venue_frame +
  vf_time :: string

definition kraken_message :: "string \<Rightarrow> pyfloat \<Rightarrow> kraken_frame \<Rightarrow> pyfloat \<times> pyval" where
  "kraken_message ws_sym now f = (now, PDict [
     (''channel'', PStr ''book''),
     (''type'', PStr (if vf_snapshot f then ''snapshot'' else ''update'')),
     (''data'', PList [PDict [(''symbol'', PStr ws_sym), (''bids'', PList (vf_bids f)), (''asks'', PList (vf_asks f)),
        (''timestamp'', PStr (vf_time f))]])])"

definition kraken_levels_of :: "pyval list \<Rightarrow> (pyfloat \<times> pyfloat) list" where
  "kraken_levels_of rs = (case mapr kraken_level rs of Inr ls \<Rightarrow> ls | Inl e \<Rightarrow> [])"

definition kraken_rows_ok :: "pyval list \<Rightarrow> bool" where
  "kraken_rows_ok rs \<longleftrightarrow> (case mapr kraken_level rs of Inr ls \<Rightarrow> list_all level_ok ls | Inl e \<Rightarrow> False)"

definition kraken_frame_ok :: "(string \<Rightarrow> int option) \<Rightarrow> kraken_frame \<Rightarrow> bool" where
  "kraken_frame_ok iso_ms f \<longleftrightarrow> kraken_rows_ok (vf_bids f) \<and> kraken_rows_ok (vf_asks f)
     \<and> parse_float (vf_time f) = None \<and> iso_ms (vf_time f) = Some (vf_ts f)"

text \<open>The frames are not numbered, so every one follows the one before.\<close>

definition kraken_linked :: "int \<Rightarrow> kraken_frame \<Rightarrow> bool" where
  "kraken_linked u f \<longleftrightarrow> True"

definition kraken_follows :: "kraken_book \<Rightarrow> int \<Rightarrow> venue_book \<Rightarrow> bool" where
  "kraken_follows st u v \<longleftrightarrow> xb_bootstrapped st \<and> side_ok (xb_bids st) \<and> side_ok (xb_asks st)
     \<and> qty_at (xb_bids st) = fst v \<and> qty_at (xb_asks st) = snd v"

lemma kraken_levels_in_ok:
  assumes "kraken_rows_ok rs" "side_ok s" "py_get_or b k (PList []) = Inr (PList rs)"
  obtains s' where "kraken_levels_in set_level s b k = Inr s'" "side_ok s'" "qty_at s' = venue_apply (qty_at s) (kraken_levels_of rs)"
proof -
  obtain ls where ls: "mapr kraken_level rs = Inr ls" "list_all level_ok ls"
    using assms(1) by (auto simp: kraken_rows_ok_def split: sum.splits)
  from foldl_set_level [OF assms(2) ls(2)] show ?thesis
    using ls(1) assms(3)
    by (intro that [of "foldl set_level s ls"]) (simp_all add: kraken_levels_in_def kraken_levels_of_def)
qed

lemma kraken_takes:
  assumes "kraken_frame_ok iso_ms f" "vf_snapshot f \<or> kraken_follows st u v" "0 \<le> depth"
  shows "\<exists>st' book. kraken_spot_book_step iso_ms sy info depth st (kraken_message ws_sym now f) = (st', [book], Next)
     \<and> kraken_follows st' (vf_u f) (venue_step kraken_levels_of v f)
     \<and> shows_book depth (venue_step kraken_levels_of v f) book \<and> ob_timestamp book = vf_ts f"
proof -
  define b where "b = PDict [(''symbol'', PStr ws_sym), (''bids'', PList (vf_bids f)), (''asks'', PList (vf_asks f)),
     (''timestamp'', PStr (vf_time f))]"
  define v0 where "v0 = (if vf_snapshot f then (venue_empty, venue_empty) else v)"
  define st0 where "st0 = (if vf_snapshot f then \<lparr>xb_bids = [], xb_asks = [], xb_bootstrapped = True\<rparr> else st)"
  have st0: "kraken_follows st0 u v0" using assms(2) by (auto simp: st0_def v0_def kraken_follows_def)
  then have sides: "side_ok (xb_bids st0)" "side_ok (xb_asks st0)" "xb_bootstrapped st0" by (simp_all add: kraken_follows_def)
  have rows: "kraken_rows_ok (vf_bids f)" "kraken_rows_ok (vf_asks f)" using assms(1) by (simp_all add: kraken_frame_ok_def)
  obtain bids where bids: "kraken_levels_in set_level (xb_bids st0) b ''bids'' = Inr bids" "side_ok bids"
      "qty_at bids = venue_apply (qty_at (xb_bids st0)) (kraken_levels_of (vf_bids f))"
    using kraken_levels_in_ok [OF rows(1) sides(1), of b "''bids''"] by (auto simp: b_def)
  obtain asks where asks: "kraken_levels_in set_level (xb_asks st0) b ''asks'' = Inr asks" "side_ok asks"
      "qty_at asks = venue_apply (qty_at (xb_asks st0)) (kraken_levels_of (vf_asks f))"
    using kraken_levels_in_ok [OF rows(2) sides(2), of b "''asks''"] by (auto simp: b_def)
  define st' where "st' = st0\<lparr>xb_bids := bids, xb_asks := asks\<rparr>"
  define book where "book = \<lparr>ob_symbol = sy, ob_market_type = Spot, ob_quote = quote_of info, ob_bids = top_bids depth bids,
     ob_asks = top_asks depth asks, ob_qty_unit = unit_of_market Spot, ob_timestamp = vf_ts f\<rparr>"
  have view: "kraken_book_view iso_ms Spot sy info depth now st' b = Inr book"
    using assms(1) by (simp add: kraken_book_view_def stamp_or_now_def b_def normalize_timestamp_def kraken_frame_ok_def st'_def book_def)
  then have row: "kraken_book_row (kraken_book_view iso_ms Spot sy info depth now) st0 b = (st', [book], Next)"
    using bids(1) asks(1) by (simp add: kraken_book_row_def st'_def Let_def)
  have "kraken_spot_book_step iso_ms sy info depth st (kraken_message ws_sym now f) = (st', [book], Next)"
    using row sides(3) by (cases "vf_snapshot f") (simp_all add: kraken_spot_book_step_def kraken_message_def b_def [symmetric] st0_def)
  moreover have "kraken_follows st' (vf_u f) (venue_step kraken_levels_of v f)"
    using st0 bids asks by (simp add: kraken_follows_def venue_step_def st'_def v0_def Let_def)
  moreover have "shows_book depth (venue_step kraken_levels_of v f) book"
    using st0 bids asks assms(3) top_bids_shows [of bids depth] top_asks_shows [of asks depth]
    by (simp add: shows_book_def kraken_follows_def venue_step_def v0_def Let_def book_def)
  moreover have "ob_timestamp book = vf_ts f" by (simp add: book_def)
  ultimately show ?thesis by blast
qed

interpretation kraken_feed: book_follow "kraken_spot_book_step iso_ms sy info (int depth)" "kraken_message ws_sym now" "int depth"
    kraken_levels_of "kraken_frame_ok iso_ms" kraken_linked kraken_follows
  for iso_ms sy info ws_sym now depth
  by unfold_locales (rule kraken_takes; auto)

lemma gapless_unnumbered: "gapless kraken_linked u fs"
  by (induction fs arbitrary: u) (auto simp: kraken_linked_def)

text \<open>A message with a level that cannot be read.\<close>

definition kraken_unreadable :: "kraken_frame \<Rightarrow> bool" where
  "kraken_unreadable f = (case mapr kraken_level (vf_bids f) of
       Inl e \<Rightarrow> skipped e
     | Inr bids \<Rightarrow> (case mapr kraken_level (vf_asks f) of Inl e \<Rightarrow> skipped e | Inr asks \<Rightarrow> False))"

lemma kraken_stops:
  assumes "kraken_unreadable g" "xb_bootstrapped st"
  shows "\<exists>st'. kraken_spot_book_step iso_ms sy info depth st (kraken_message ws_sym now g) = (st', [], Stop)"
  using assms
  by (auto simp: kraken_unreadable_def kraken_spot_book_step_def kraken_message_def kraken_book_row_def
      kraken_levels_in_def stopping_def Let_def split: sum.splits)

text \<open>
  C13. The spot order book stream of Kraken hands on the book that the venue's messages make: from a
  snapshot and whatever well-formed updates and snapshots follow, it yields one book per message,
  whose sides are the best levels of that book, best price first, cut at the depth asked for, and it
  keeps listening; a message with a level that cannot be read ends it without another book.
\<close>

theorem kraken_book_follows_venue:
  assumes "vf_snapshot f" "list_all (kraken_frame_ok iso_ms) (f # fs)" "0 \<le> depth"
  shows "\<exists>books st. drive (kraken_spot_book_step iso_ms sy info depth) kraken_book_init (map (kraken_message ws_sym now) (f # fs))
         = (books, Listening st)
     \<and> list_all2 (shows_book depth) (venue_books kraken_levels_of (venue_empty, venue_empty) (f # fs)) books
     \<and> map ob_timestamp books = map vf_ts (f # fs)
     \<and> (\<forall>g later. kraken_unreadable g \<longrightarrow> drive (kraken_spot_book_step iso_ms sy info depth) kraken_book_init
          (map (kraken_message ws_sym now) (f # fs) @ kraken_message ws_sym now g # later) = (books, Returned))"
proof -
  obtain books st v where run: "drive (kraken_spot_book_step iso_ms sy info depth) kraken_book_init
        (map (kraken_message ws_sym now) (f # fs)) = (books, Listening st)"
      "list_all2 (shows_book depth) (venue_books kraken_levels_of (venue_empty, venue_empty) (f # fs)) books"
      "map ob_timestamp books = map vf_ts (f # fs)" "kraken_follows st (vf_u (last (f # fs))) v"
    using kraken_feed.snapshot_follows [OF assms(1,2) gapless_unnumbered, of sy info "nat depth" kraken_book_init ws_sym now] assms(3)
    by (simp del: list.map venue_books.simps) blast
  have "drive (kraken_spot_book_step iso_ms sy info depth) kraken_book_init
      (map (kraken_message ws_sym now) (f # fs) @ kraken_message ws_sym now g # later) = (books, Returned)"
    if bad: "kraken_unreadable g" for g later
    using kraken_stops [OF bad, of st iso_ms sy info depth ws_sym now] run(1,4)
    by (auto simp: drive_append kraken_follows_def simp del: list.map)
  then show ?thesis using run(1-3) by blast
qed

text \<open>A snapshot and an update that takes its best bid out.\<close>

definition kraken_demo :: "kraken_frame list" where
  "kraken_demo = (let row = (\<lambda>p q. PDict [(''price'', PFloat (Fin p)), (''qty'', PFloat (Fin q))]) in [
     \<lparr>vf_snapshot = True, vf_u = 0, vf_bids = [row 9 2, row 10 1], vf_asks = [row 11 3], vf_ts = 5, vf_time = ''now''\<rparr>,
     \<lparr>vf_snapshot = False, vf_u = 0, vf_bids = [row 10 0], vf_asks = [], vf_ts = 6, vf_time = ''later''\<rparr>])"

definition kraken_demo_ms :: "string \<Rightarrow> int option" where
  "kraken_demo_ms s = (if s = ''now'' then Some 5 else Some 6)"

lemma kraken_book_follows_venue_witness:
  "\<exists>books st. drive (kraken_spot_book_step kraken_demo_ms ''BTCUSD'' None 20) kraken_book_init
       (map (kraken_message ''BTC/USD'' (Fin 0)) kraken_demo) = (books, Listening st)
     \<and> map ob_timestamp books = [5, 6]"
proof -
  let ?f = "kraken_demo ! 0" and ?d = "kraken_demo ! 1"
  have "vf_snapshot ?f" "list_all (kraken_frame_ok kraken_demo_ms) [?f, ?d]" "(0 :: int) \<le> 20"
    by (code_simp)+
  from kraken_book_follows_venue [OF this, of "''BTCUSD''" None "''BTC/USD''" "Fin 0"]
  show ?thesis by (auto simp: kraken_demo_def Let_def)
qed

end
