(* ===== verification/KrakenHubs.thy ===== *)
theory KrakenHubs
  imports KrakenStreams
begin

text \<open>
  The hubs of Kraken's streams, \<^verbatim>\<open>exchange_router/exchanges/kraken/adapter.py\<close>: streams open,
  enter their hubs and leave in any order, and the payloads of their topics are shared by all hubs.
\<close>

section \<open>Streams\<close>

text \<open>The streams that open, by their channel or feed, symbol, and what else a spot payload has.\<close>

datatype kraken_stream = SpotStream string string payload | FuturesStream string string

datatype kraken_event = Opens kraken_stream | Enters nat | Leaves nat

fun url_of :: "kraken_stream \<Rightarrow> string" where
  "url_of (SpotStream channel pair extra) = kraken_spot_ws_url"
| "url_of (FuturesStream feed product) = kraken_futures_ws_url"

fun payload_of :: "kraken_stream \<Rightarrow> payload" where
  "payload_of (SpotStream channel pair extra) = kraken_spot_payload channel pair extra"
| "payload_of (FuturesStream feed product) = kraken_futures_payload feed product"

text \<open>The same channel of the same symbol, on the same socket.\<close>

fun same_subject :: "kraken_stream \<Rightarrow> kraken_stream \<Rightarrow> bool" where
  "same_subject (SpotStream c s e) (SpotStream c' s' e') \<longleftrightarrow> c = c' \<and> s = s'"
| "same_subject (FuturesStream f p) (FuturesStream f' p') \<longleftrightarrow> f = f' \<and> p = p'"
| "same_subject x y \<longleftrightarrow> False"

text \<open>The names of the spot socket are written BASE/QUOTE, those of the futures have no slash.\<close>

fun stream_named :: "kraken_stream \<Rightarrow> bool" where
  "stream_named (SpotStream channel pair extra) \<longleftrightarrow> CHR '':'' \<notin> set channel \<and> CHR ''/'' \<in> set pair"
| "stream_named (FuturesStream feed product) \<longleftrightarrow> CHR '':'' \<notin> set feed \<and> CHR ''/'' \<notin> set feed \<and> CHR ''/'' \<notin> set product"

fun kraken_happens :: "kraken_event \<Rightarrow> kraken_hubs \<Rightarrow> kraken_hubs" where
  "kraken_happens (Opens x) k = kraken_note (url_of x) (payload_of x) k"
| "kraken_happens (Enters n) k = kraken_enter n k"
| "kraken_happens (Leaves n) k = kraken_leave n k"

definition kraken_hubs_after :: "kraken_event list \<Rightarrow> kraken_hubs" where
  "kraken_hubs_after evs = foldl (\<lambda>k e. kraken_happens e k) kraken_hubs_init evs"

fun opened :: "kraken_event list \<Rightarrow> kraken_stream list" where
  "opened [] = []"
| "opened (Opens x # evs) = x # opened evs"
| "opened (e # evs) = opened evs"

lemma opened_append [simp]: "opened (evs @ fs) = opened evs @ opened fs"
  by (induction evs rule: opened.induct) simp_all

lemma after_snoc: "kraken_hubs_after (evs @ [e]) = kraken_happens e (kraken_hubs_after evs)"
  by (simp add: kraken_hubs_after_def)

definition topic_of :: "kraken_stream \<Rightarrow> string" where
  "topic_of x = kraken_topic_key (url_of x) (payload_of x)"

definition hub_key_of :: "kraken_stream \<Rightarrow> string" where
  "hub_key_of x = kraken_hub_key (url_of x) (payload_of x)"

lemma socket_urls: "has_sub ''/v2'' kraken_spot_ws_url" "\<not> has_sub ''/v2'' kraken_futures_ws_url"
  "kraken_spot_ws_url \<noteq> kraken_futures_ws_url"
  by code_simp+

lemma topic_of_simps:
  "topic_of (SpotStream channel pair extra) = channel @ '':'' @ pair"
  "topic_of (FuturesStream feed product) = feed @ '':'' @ product"
  by (simp_all add: topic_of_def kraken_topic_key_def socket_urls kraken_spot_payload_def kraken_futures_payload_def
      pay_params_def pay_get_def pay_first_def)

lemma distinct_filtered: "distinct (map f xs) \<Longrightarrow> distinct (map f (filter P xs))"
  by (induction xs) auto

lemma before_colon: "CHR '':'' \<notin> set a \<Longrightarrow> takeWhile (\<lambda>c. c \<noteq> CHR '':'') (a @ CHR '':'' # b) = a"
  by (induction a) auto

text \<open>A topic says which channel of which symbol on which socket it is.\<close>

lemma topic_says:
  assumes "stream_named x" "stream_named y"
  shows "topic_of x = topic_of y \<longleftrightarrow> same_subject x y"
proof -
  have split: "a @ CHR '':'' # b = c @ CHR '':'' # d \<longleftrightarrow> a = c \<and> b = d"
    if "CHR '':'' \<notin> set a" "CHR '':'' \<notin> set c" for a b c d :: string
  proof
    assume e: "a @ CHR '':'' # b = c @ CHR '':'' # d"
    then have "a = c" using before_colon [OF that(1), of b] before_colon [OF that(2), of d] by simp
    then show "a = c \<and> b = d" using e by simp
  qed simp
  show ?thesis using assms by (cases x; cases y) (auto simp: topic_of_simps split)
qed

lemma sockets_apart: "hub_key_of x = hub_key_of y \<Longrightarrow> url_of x = url_of y"
  by (cases x; cases y) (simp_all add: hub_key_of_def kraken_hub_key_def socket_urls)

text \<open>What is noted for a topic is what the last stream that opened on it noted.\<close>

lemma noted_payload:
  assumes "list_all stream_named (opened evs)" "stream_named x"
  shows "dget (kt_payloads (kraken_hubs_after evs)) (topic_of x) =
    (case filter (same_subject x) (opened evs) of [] \<Rightarrow> None | ys \<Rightarrow> Some (payload_of (last ys)))"
  using assms
proof (induction evs rule: rev_induct)
  case (snoc e evs)
  show ?case
  proof (cases e)
    case (Opens y)
    then have "topic_of y = topic_of x \<longleftrightarrow> same_subject x y" using snoc.prems topic_says [of x y] by auto
    moreover have "kt_payloads (kraken_hubs_after (evs @ [e])) =
        dset (kt_payloads (kraken_hubs_after evs)) (topic_of y) (payload_of y)"
      using Opens by (simp add: after_snoc kraken_note_def topic_of_def)
    ultimately show ?thesis using snoc Opens
      by (cases "filter (same_subject x) (opened evs)") (auto simp: dget_dset)
  next
    case (Enters n)
    then have "kt_payloads (kraken_hubs_after (evs @ [e])) = kt_payloads (kraken_hubs_after evs)"
      by (simp add: after_snoc kraken_enter_def kraken_get_hub_def Let_def split: option.split prod.split bool.split)
    then show ?thesis using snoc Enters by simp
  next
    case (Leaves n)
    then have "kt_payloads (kraken_hubs_after (evs @ [e])) = kt_payloads (kraken_hubs_after evs)"
      by (simp add: after_snoc kraken_leave_def)
    then show ?thesis using snoc Leaves by simp
  qed
qed (simp add: kraken_hubs_after_def kraken_hubs_init_def)

section \<open>Every stream in its hub\<close>

text \<open>A stream is the one that opened under its number, and one that entered has a hub on its socket.\<close>

definition stream_ok :: "kraken_event list \<Rightarrow> kraken_hubs \<Rightarrow> nat \<times> string \<times> payload \<times> bool \<Rightarrow> bool" where
  "stream_ok evs k s = (case s of (n, url, payload, entered) \<Rightarrow>
     n < length (opened evs) \<and> url = url_of (opened evs ! n) \<and> payload = payload_of (opened evs ! n)
     \<and> (entered \<longrightarrow> dget (kt_hubs k) (kraken_hub_key url payload) = Some url))"

definition hubs_ok :: "kraken_event list \<Rightarrow> kraken_hubs \<Rightarrow> bool" where
  "hubs_ok evs k \<longleftrightarrow> (\<forall>key url. dget (kt_hubs k) key = Some url \<longrightarrow> (\<exists>x\<in>set (opened evs). key = hub_key_of x \<and> url = url_of x))"

definition streams_ok :: "kraken_event list \<Rightarrow> kraken_hubs \<Rightarrow> bool" where
  "streams_ok evs k \<longleftrightarrow> kt_next k = length (opened evs) \<and> distinct (map fst (kt_streams k))
     \<and> list_all (stream_ok evs k) (kt_streams k) \<and> hubs_ok evs k"

lemma get_hub_keeps [simp]:
  "kt_streams (kraken_get_hub url payload k) = kt_streams k" "kt_next (kraken_get_hub url payload k) = kt_next k"
  "kt_payloads (kraken_get_hub url payload k) = kt_payloads k"
  by (simp_all add: kraken_get_hub_def Let_def split: option.split)

lemma get_hub_hubs: "dget (kt_hubs (kraken_get_hub url payload k)) key =
    (if key = kraken_hub_key url payload \<and> dget (kt_hubs k) key = None then Some url else dget (kt_hubs k) key)"
  by (auto simp: kraken_get_hub_def Let_def split: option.split)

lemma note_ok:
  assumes "streams_ok evs k"
  shows "streams_ok (evs @ [Opens x]) (kraken_note (url_of x) (payload_of x) k)"
proof -
  have "list_all (\<lambda>s. fst s < kt_next k) (kt_streams k)"
    using assms by (auto simp: streams_ok_def list_all_iff stream_ok_def)
  moreover have "stream_ok (evs @ [Opens x]) (kraken_note (url_of x) (payload_of x) k) s" if "stream_ok evs k s" for s
    using that by (cases s) (auto simp: stream_ok_def kraken_note_def nth_append)
  ultimately show ?thesis using assms
    by (auto simp: streams_ok_def hubs_ok_def list_all_iff kraken_note_def stream_ok_def)
qed

lemma entered_hub:
  assumes "streams_ok evs k" "(n, url, payload, b) \<in> set (kt_streams k)"
  shows "dget (kt_hubs (kraken_get_hub url payload k)) (kraken_hub_key url payload) = Some url"
    "hubs_ok evs (kraken_get_hub url payload k)"
proof -
  define x where "x = opened evs ! n"
  have x: "url = url_of x" "payload = payload_of x" "x \<in> set (opened evs)"
    using assms by (auto simp: streams_ok_def stream_ok_def list_all_iff x_def)
  then have key: "kraken_hub_key url payload = hub_key_of x" by (simp add: hub_key_of_def)
  have hubs: "hubs_ok evs k" using assms(1) by (simp add: streams_ok_def)
  then have "url' = url" if "dget (kt_hubs k) (hub_key_of x) = Some url'" for url'
    using that sockets_apart x(1) unfolding hubs_ok_def by metis
  then show "dget (kt_hubs (kraken_get_hub url payload k)) (kraken_hub_key url payload) = Some url"
    by (cases "dget (kt_hubs k) (hub_key_of x)") (simp_all add: get_hub_hubs key)
  show "hubs_ok evs (kraken_get_hub url payload k)"
    using hubs x(1,3) key unfolding hubs_ok_def get_hub_hubs by (metis option.inject)
qed

lemma enter_ok:
  assumes "streams_ok evs k"
  shows "streams_ok evs (kraken_enter n k)"
proof (cases "map_of (kt_streams k) n")
  case (Some s)
  obtain url payload b where s: "s = (url, payload, b)" by (cases s)
  have here: "(n, url, payload, b) \<in> set (kt_streams k)" using Some s by (simp add: map_of_SomeD)
  show ?thesis
  proof (cases b)
    case False
    define k' where "k' = kraken_get_hub url payload k"
    define mark :: "nat \<times> string \<times> payload \<times> bool \<Rightarrow> nat \<times> string \<times> payload \<times> bool"
      where "mark = (\<lambda>(m, u, p, b). (m, u, p, b \<or> m = n))"
    have e: "kraken_enter n k = k'\<lparr>kt_streams := map mark (kt_streams k)\<rparr>"
      using Some s False by (simp add: kraken_enter_def k'_def mark_def)
    have "stream_ok evs (k'\<lparr>kt_streams := ss\<rparr>) (mark t)" if t: "t \<in> set (kt_streams k)" for t ss
    proof -
      obtain m u p c where t': "t = (m, u, p, c)" by (cases t)
      have ok: "stream_ok evs k t" using assms t by (simp add: streams_ok_def list_all_iff)
      have "m = n \<Longrightarrow> u = url \<and> p = payload"
        using t here assms unfolding t' streams_ok_def by (metis eq_key_imp_eq_value prod.inject)
      then show ?thesis using ok entered_hub(1) [OF assms here]
        by (auto simp: stream_ok_def t' mark_def k'_def get_hub_hubs)
    qed
    moreover have "fst \<circ> mark = fst" by (auto simp: mark_def)
    then have "distinct (map (fst \<circ> mark) (kt_streams k))" using assms by (simp add: streams_ok_def)
    ultimately show ?thesis using assms entered_hub(2) [OF assms here]
      by (simp add: e streams_ok_def list_all_iff hubs_ok_def k'_def)
  qed (use assms Some s in \<open>simp add: kraken_enter_def\<close>)
qed (use assms in \<open>simp add: kraken_enter_def\<close>)

lemma leave_ok: "streams_ok evs k \<Longrightarrow> streams_ok evs (kraken_leave n k)"
  by (auto simp: streams_ok_def kraken_leave_def list_all_iff hubs_ok_def stream_ok_def distinct_filtered)

lemma streams_ok_skip: "opened evs = opened evs' \<Longrightarrow> streams_ok evs k = streams_ok evs' k"
  by (simp add: streams_ok_def hubs_ok_def stream_ok_def [abs_def])

lemma hubs_after_ok: "streams_ok evs (kraken_hubs_after evs)"
proof (induction evs rule: rev_induct)
  case (snoc e evs)
  have skip: "opened [f] = [] \<Longrightarrow> streams_ok (evs @ [f]) k = streams_ok evs k" for f k
    by (rule streams_ok_skip) simp
  show ?case using snoc
    by (cases e) (simp_all add: after_snoc note_ok enter_ok leave_ok skip)
qed (simp add: kraken_hubs_after_def kraken_hubs_init_def streams_ok_def hubs_ok_def)

text \<open>
  C40. Whatever the order in which Kraken's streams open, enter their hubs and leave: a stream in a
  hub is on the socket of its own venue, and whenever that hub asks for its topic it asks for the
  stream's own channel and symbol, with the payload of the stream that opened last for that channel
  and symbol. That can be another stream's, of another depth or trigger.
\<close>

theorem kraken_topic_payloads:
  assumes "list_all stream_named (opened evs)" "k = kraken_hubs_after evs"
    and "(n, url, payload, True) \<in> set (kt_streams k)"
  shows "n < length (opened evs) \<and> url = url_of (opened evs ! n) \<and> payload = payload_of (opened evs ! n)
     \<and> dget (kt_hubs k) (kraken_hub_key url payload) = Some url
     \<and> kraken_sub (kt_payloads k) [kraken_topic_key url payload] =
          [payload_of (last (filter (same_subject (opened evs ! n)) (opened evs)))]"
proof -
  define x where "x = opened evs ! n"
  have ok: "stream_ok evs k (n, url, payload, True)"
    using hubs_after_ok [of evs] assms(2,3) by (simp add: streams_ok_def list_all_iff)
  then have x: "n < length (opened evs)" "url = url_of x" "payload = payload_of x" "x \<in> set (opened evs)"
    by (simp_all add: stream_ok_def x_def)
  have "stream_named x" using assms(1) x(4) by (simp add: list_all_iff)
  then have noted: "dget (kt_payloads k) (topic_of x) =
      (case filter (same_subject x) (opened evs) of [] \<Rightarrow> None | ys \<Rightarrow> Some (payload_of (last ys)))"
    unfolding assms(2) by (rule noted_payload [OF assms(1)])
  have "same_subject x x" by (cases x) simp_all
  then have "filter (same_subject x) (opened evs) \<noteq> []" using x(4) by (auto simp: filter_empty_conv)
  then have "dget (kt_payloads k) (topic_of x) = Some (payload_of (last (filter (same_subject x) (opened evs))))"
    using noted by (auto split: list.splits)
  then show ?thesis using ok x(2,3)
    by (simp add: stream_ok_def x_def [symmetric] kraken_sub_def topic_of_def List.map_filter_simps)
qed

text \<open>
  An order book stream of depth 100 enters its hub; before the hub asks, one of depth 10 for the same
  symbol opens. The hub for depth 100 then asks for depth 10.
\<close>

definition books_of_one_symbol :: "kraken_event list" where
  "books_of_one_symbol =
     [Opens (SpotStream ''book'' ''BTC/USD'' [(''depth'', PInt (kraken_ws_depth 100))]), Enters 0,
      Opens (SpotStream ''book'' ''BTC/USD'' [(''depth'', PInt (kraken_ws_depth 10))])]"

lemma kraken_topic_payloads_witness:
  "(let k = kraken_hubs_after books_of_one_symbol;
        deep = kraken_spot_payload ''book'' ''BTC/USD'' [(''depth'', PInt 100)];
        flat = kraken_spot_payload ''book'' ''BTC/USD'' [(''depth'', PInt 10)]
    in kraken_sub (kt_payloads k) [kraken_topic_key kraken_spot_ws_url deep] = [flat])"
proof -
  let ?deep = "kraken_spot_payload ''book'' ''BTC/USD'' [(''depth'', PInt 100)]"
  have "list_all stream_named (opened books_of_one_symbol)" by code_simp
  moreover have "(0, kraken_spot_ws_url, ?deep, True) \<in> set (kt_streams (kraken_hubs_after books_of_one_symbol))" by code_simp
  ultimately show ?thesis
    using kraken_topic_payloads [OF _ refl, of books_of_one_symbol 0 kraken_spot_ws_url ?deep]
    by (simp add: books_of_one_symbol_def kraken_ws_depth_def)
qed

text \<open>So a hub asks, for a stream in it, for what another stream wanted.\<close>

lemma kraken_hub_asks_for_another:
  "\<exists>k n payload. k = kraken_hubs_after books_of_one_symbol \<and> (n, kraken_spot_ws_url, payload, True) \<in> set (kt_streams k)
     \<and> kraken_sub (kt_payloads k) [kraken_topic_key kraken_spot_ws_url payload] \<noteq> [payload]"
proof -
  let ?deep = "kraken_spot_payload ''book'' ''BTC/USD'' [(''depth'', PInt 100)]"
  let ?k = "kraken_hubs_after books_of_one_symbol"
  have "(0, kraken_spot_ws_url, ?deep, True) \<in> set (kt_streams ?k)"
    "kraken_sub (kt_payloads ?k) [kraken_topic_key kraken_spot_ws_url ?deep] \<noteq> [?deep]"
    by code_simp+
  then show ?thesis by blast
qed

end
