(* ===== verification/Hyperliquid.thy ===== *)
theory Hyperliquid
  imports Contracts Requests
begin

text \<open>
  The read methods of the Hyperliquid adapter, \<^verbatim>\<open>exchange_router/exchanges/hyperliquid/adapter.py\<close>.
  Prices, funding and open interest come from snapshots of all assets, which are kept for three
  seconds; the extremes of a day are seeded from candles every two minutes and follow the price
  in between.
\<close>

section \<open>World and environment\<close>

text \<open>
  \<open>hw_ctx\<close> and \<open>hw_hl\<close> are the caches \<open>_ctx_cache\<close> and \<open>_hl_cache\<close>, whose entries begin with the
  monotonic time they were read at. \<open>hy_acquire\<close> waits for a lock of theirs, in which time other
  coroutines may run. The requests of \<open>hy_env\<close> take the type and the body.
\<close>

record 'w hyper_world =
  hw_ctx :: "(string, pyfloat \<times> pyval) dict"
  hw_hl :: "(string, pyfloat \<times> pyfloat option \<times> pyfloat option) dict"
  hw_metas :: "(pyval, pyval) dict"
  hw_metas_at :: int
  hw_world :: 'w

type_synonym ('w, 'a) hio = "('w hyper_world, pyexc, 'a) io"

record 'w hyper_env =
  hy_env :: "'w hyper_world adapter_env"
  hy_monotonic :: "('w, pyfloat) hio"
  hy_acquire :: "string \<Rightarrow> ('w, unit) hio"

abbreviation hy_request where "hy_request env \<equiv> env_request (hy_env env)"
abbreviation hy_iso where "hy_iso env \<equiv> env_iso (hy_env env)"
abbreviation hy_now_ms where "hy_now_ms env \<equiv> env_now_ms (hy_env env)"

definition hyper_CYCLE_MS :: int where "hyper_CYCLE_MS = 3600000"

text \<open>\<open>_lookup\<close>: the name, the coin and the quote of a listed symbol.\<close>

definition hyper_lookup :: "'w hyper_env \<Rightarrow> market_type \<Rightarrow> string \<Rightarrow> ('w, string \<times> string \<times> string) hio" where
  "hyper_lookup env mt symbol =
     (let model_sym = hyperliquid_get_model_symbol (hyperliquid_get_api_symbol symbol mt) mt in
      bindw (env_info (hy_env env) mt model_sym) (\<lambda>info. case info of
          None \<Rightarrow> liftw (Inl (ValueError (''Symbol '' @ symbol @ '' not found on Hyperliquid '' @ market_value mt)))
        | Some i \<Rightarrow> retw (model_sym, si_native_symbol i, si_quote_asset i)))"

section \<open>Snapshots of all assets\<close>

definition hyper_kept :: "'w hyper_env \<Rightarrow> string \<Rightarrow> ('w, pyval option) hio" where
  "hyper_kept env key w = (case dget (hw_ctx w) key of
       None \<Rightarrow> (Inr None, w)
     | Some (read_at, data) \<Rightarrow>
         bindw (hy_monotonic env) (\<lambda>now. retw (if flt (fsub now read_at) (Fin 3) then Some data else None)) w)"

definition hyper_ctx_snapshot :: "'w hyper_env \<Rightarrow> string \<Rightarrow> (string \<times> pyval) list \<Rightarrow> string \<Rightarrow> ('w, pyval) hio" where
  "hyper_ctx_snapshot env info_type body key =
     bindw (hyper_kept env key) (\<lambda>kept. case kept of
         Some data \<Rightarrow> retw data
       | None \<Rightarrow>
           bindw (hy_acquire env key) (\<lambda>_.
           bindw (hyper_kept env key) (\<lambda>kept. case kept of
               Some data \<Rightarrow> retw data
             | None \<Rightarrow>
                 bindw (hy_request env info_type body) (\<lambda>data.
                 bindw (hy_monotonic env) (\<lambda>read_at w. (Inr data, w\<lparr>hw_ctx := dset (hw_ctx w) key (read_at, data)\<rparr>))))))"

fun ctx_of_coin :: "string \<Rightarrow> pyval list \<Rightarrow> pyval option res" where
  "ctx_of_coin coin [] = Inr None"
| "ctx_of_coin coin (c # cs) = bindr (py_get c ''coin'') (\<lambda>v. if v = PStr coin then Inr (Some c) else ctx_of_coin coin cs)"

fun ctx_of_name :: "string \<Rightarrow> (pyval \<times> pyval) list \<Rightarrow> pyval option res" where
  "ctx_of_name coin [] = Inr None"
| "ctx_of_name coin ((u, c) # cs) = bindr (py_item u ''name'') (\<lambda>v. if v = PStr coin then Inr (Some c) else ctx_of_name coin cs)"

definition found_ctx :: "string \<Rightarrow> string \<Rightarrow> pyval option \<Rightarrow> pyval res" where
  "found_ctx coin market c = (case c of
       Some c \<Rightarrow> Inr c | None \<Rightarrow> Inl (ValueError (''Coin '' @ coin @ '' not found on Hyperliquid '' @ market)))"

text \<open>A coin of a builder's exchange names it before a colon.\<close>

definition hyper_dex :: "string \<Rightarrow> string option" where
  "hyper_dex coin = map_option fst (split_once CHR '':'' coin)"

definition hyper_asset_ctx :: "'w hyper_env \<Rightarrow> market_type \<Rightarrow> string \<Rightarrow> ('w, pyval) hio" where
  "hyper_asset_ctx env mt coin =
     (if mt = Spot then
        bindw (hyper_ctx_snapshot env ''spotMetaAndAssetCtxs'' [(''type'', PStr ''spotMetaAndAssetCtxs'')] ''spot'') (\<lambda>data.
        liftw (bindr (bindr (bindr (py_index data 1) py_iter) (ctx_of_coin coin)) (found_ctx coin ''spot'')))
      else
        bindw (hyper_ctx_snapshot env ''metaAndAssetCtxs''
            ([(''type'', PStr ''metaAndAssetCtxs'')] @ (case hyper_dex coin of None \<Rightarrow> [] | Some dex \<Rightarrow> [(''dex'', PStr dex)]))
            (case hyper_dex coin of None \<Rightarrow> ''linear'' | Some dex \<Rightarrow> ''linear:'' @ dex)) (\<lambda>data.
        liftw (
          bindr (bindr (py_index data 0) (\<lambda>d. py_item d ''universe'')) (\<lambda>universe.
          bindr (py_index data 1) (\<lambda>ctxs.
          bindr (py_iter universe) (\<lambda>us.
          bindr (py_iter ctxs) (\<lambda>cs.
          bindr (ctx_of_name coin (zip us cs)) (found_ctx coin ''linear'')))))))) "

section \<open>The extremes of a day\<close>

definition hyper_candles_body :: "string \<Rightarrow> string \<Rightarrow> int \<Rightarrow> int \<Rightarrow> (string \<times> pyval) list" where
  "hyper_candles_body coin interval start_ms end_ms =
     [(''type'', PStr ''candleSnapshot''),
      (''req'', PDict [(''coin'', PStr coin), (''interval'', PStr interval), (''startTime'', PInt start_ms), (''endTime'', PInt end_ms)])]"

definition hyper_extremes :: "pyval \<Rightarrow> (pyfloat option \<times> pyfloat option) res" where
  "hyper_extremes rows =
     (if \<not> truthy rows then Inr (None, None)
      else
        bindr (bindr (py_iter rows) (mapr (\<lambda>r. item_float r ''h''))) (\<lambda>highs.
        bindr (bindr (py_iter rows) (mapr (\<lambda>r. item_float r ''l''))) (\<lambda>lows.
        Inr (Some (py_max_of highs), Some (py_min_of_list lows)))))"

definition hyper_high_low_24h :: "'w hyper_env \<Rightarrow> string \<Rightarrow> ('w, pyfloat option \<times> pyfloat option) hio" where
  "hyper_high_low_24h env coin =
     bindw (hy_now_ms env) (\<lambda>now.
     bindw (hy_request env ''candleSnapshot'' (hyper_candles_body coin ''1h'' (now - 86400000) now)) (\<lambda>rows.
     liftw (hyper_extremes rows)))"

text \<open>The seed that is kept while it is young enough.\<close>

definition hyper_seed :: "'w hyper_env \<Rightarrow> string \<Rightarrow> ('w, (pyfloat \<times> pyfloat option \<times> pyfloat option) option) hio" where
  "hyper_seed env coin w = (case dget (hw_hl w) coin of
       None \<Rightarrow> (Inr None, w)
     | Some (seeded, ext) \<Rightarrow>
         bindw (hy_monotonic env) (\<lambda>now. retw (if fle (Fin 120) (fsub now seeded) then None else Some (seeded, ext))) w)"

text \<open>The extremes with the price taken in.\<close>

definition widen :: "pyfloat \<Rightarrow> pyfloat option \<times> pyfloat option \<Rightarrow> pyfloat option \<times> pyfloat option" where
  "widen close ext =
     ((case fst ext of None \<Rightarrow> Some close | Some h \<Rightarrow> if flt h close then Some close else Some h),
      (case snd ext of None \<Rightarrow> Some close | Some l \<Rightarrow> if flt close l then Some close else Some l))"

definition hyper_high_low_24h_cached :: "'w hyper_env \<Rightarrow> string \<Rightarrow> pyfloat \<Rightarrow> ('w, pyfloat option \<times> pyfloat option) hio" where
  "hyper_high_low_24h_cached env coin close =
     bindw (hyper_seed env coin) (\<lambda>seed.
     bindw (case seed of
         Some s \<Rightarrow> retw s
       | None \<Rightarrow>
           bindw (hy_acquire env coin) (\<lambda>_.
           bindw (hyper_seed env coin) (\<lambda>seed. case seed of
               Some s \<Rightarrow> retw s
             | None \<Rightarrow>
                 bindw (hyper_high_low_24h env coin) (\<lambda>ext.
                 bindw (hy_monotonic env) (\<lambda>seeded w. (Inr (seeded, ext), w\<lparr>hw_hl := dset (hw_hl w) coin (seeded, ext)\<rparr>)))))) (\<lambda>(seeded, ext).
     if flt (Fin 0) close
     then (\<lambda>w. (Inr (widen close ext), w\<lparr>hw_hl := dset (hw_hl w) coin (seeded, widen close ext)\<rparr>))
     else retw ext))"

section \<open>Tickers, quotes and books\<close>

definition hyper_ticker :: "market_type \<Rightarrow> string \<Rightarrow> string \<Rightarrow> pyfloat \<Rightarrow> pyfloat \<Rightarrow> pyfloat \<Rightarrow> pyfloat \<Rightarrow> pyval \<Rightarrow> (int \<Rightarrow> ticker) res" where
  "hyper_ticker mt model_sym quote close prev high low ctx =
     bindr (bindr (get_or_zero ctx ''dayBaseVlm'') (\<lambda>n. build_volume_value n ''base'' None close)) (\<lambda>volume.
     bindr (day_change close prev) (\<lambda>pct.
     Inr (\<lambda>ts. \<lparr>tk_symbol = model_sym, tk_market_type = mt, tk_quote = quote, tk_price = close, tk_open_24h = prev,
       tk_high_24h = high, tk_low_24h = low, tk_volume_24h = volume, tk_price_change_percent = pct, tk_timestamp = ts\<rparr>)))"

definition or_close :: "pyfloat \<Rightarrow> pyfloat option \<Rightarrow> pyfloat" where
  "or_close close x = (case x of Some v \<Rightarrow> v | None \<Rightarrow> close)"

definition hyper_get_ticker :: "'w hyper_env \<Rightarrow> market_type \<Rightarrow> string \<Rightarrow> ('w, ticker) hio" where
  "hyper_get_ticker env mt symbol =
     bindw (hyper_lookup env mt symbol) (\<lambda>(model_sym, coin, quote).
     bindw (hyper_asset_ctx env mt coin) (\<lambda>ctx.
     bindw (liftw (bindr (py_get ctx ''midPx'') (\<lambda>v. if truthy v then Inr v else py_get ctx ''markPx''))) (\<lambda>px.
     if px = PNone then liftw (Inl (ValueError (''Hyperliquid returned no price for '' @ coin)))
     else
       bindw (liftw (py_float px)) (\<lambda>close.
       bindw (hyper_high_low_24h_cached env coin close) (\<lambda>(high, low).
       bindw (liftw (get_or_zero ctx ''prevDayPx'')) (\<lambda>prev.
       bindw (liftw (hyper_ticker mt model_sym quote close prev (or_close close high) (or_close close low) ctx)) (\<lambda>row.
       bindw (hy_now_ms env) (\<lambda>ts. retw (row ts)))))))))"

text \<open>The best bid and ask as a row; each is an object with its price and its size.\<close>

definition hyper_book_ticker :: "market_type \<Rightarrow> string \<Rightarrow> string \<Rightarrow> pyval \<Rightarrow> pyval \<Rightarrow> (int \<Rightarrow> book_ticker) res" where
  "hyper_book_ticker mt model_sym quote bid ask =
     bindr (item_float bid ''px'') (\<lambda>bid_price.
     bindr (item_float ask ''px'') (\<lambda>ask_price.
     bindr (bindr (item_float bid ''sz'') (\<lambda>n. build_qty_value n ''base'' None bid_price)) (\<lambda>bid_qty.
     bindr (bindr (item_float ask ''sz'') (\<lambda>n. build_qty_value n ''base'' None ask_price)) (\<lambda>ask_qty.
     Inr (\<lambda>ts. \<lparr>bt_symbol = model_sym, bt_market_type = mt, bt_quote = quote, bt_bid_price = bid_price,
       bt_bid_qty = bid_qty, bt_ask_price = ask_price, bt_ask_qty = ask_qty, bt_timestamp = ts\<rparr>)))))"

text \<open>\<open>len(levels) < 2 or not levels[0] or not levels[1]\<close>\<close>

definition hyper_two_sides :: "string \<Rightarrow> pyval \<Rightarrow> (pyval \<times> pyval) res" where
  "hyper_two_sides missing lvls =
     bindr (py_len lvls) (\<lambda>n.
     if n < 2 then Inl (ValueError missing)
     else
       bindr (py_index lvls 0) (\<lambda>bids.
       bindr (py_index lvls 1) (\<lambda>asks.
       if \<not> truthy bids \<or> \<not> truthy asks then Inl (ValueError missing) else Inr (bids, asks))))"

definition hyper_get_book_ticker :: "'w hyper_env \<Rightarrow> market_type \<Rightarrow> string \<Rightarrow> ('w, book_ticker) hio" where
  "hyper_get_book_ticker env mt symbol =
     bindw (hyper_lookup env mt symbol) (\<lambda>(model_sym, coin, quote).
     bindw (hy_request env ''l2Book'' [(''type'', PStr ''l2Book''), (''coin'', PStr coin)]) (\<lambda>data.
     liftw (
       bindr (bindr (get_else data ''levels'' (PList []))
         (hyper_two_sides (''Empty order book for '' @ symbol @ '' on Hyperliquid '' @ market_value mt))) (\<lambda>(bids, asks).
       bindr (py_index bids 0) (\<lambda>bid.
       bindr (py_index asks 0) (\<lambda>ask.
       bindr (hyper_book_ticker mt model_sym quote bid ask) (\<lambda>row.
       bindr (bindr (py_item data ''time'') (normalize_timestamp (hy_iso env))) (\<lambda>ts. Inr (row ts)))))))))"

definition hyper_level :: "pyval \<Rightarrow> pyfloat list res" where
  "hyper_level l = bindr (item_float l ''px'') (\<lambda>p. bindr (item_float l ''sz'') (\<lambda>q. Inr [p, q]))"

definition hyper_side :: "int \<Rightarrow> pyval \<Rightarrow> nat \<Rightarrow> pyfloat list list res" where
  "hyper_side depth lvls i = bindr (bindr (bindr (py_index lvls i) (\<lambda>s. py_head s depth)) py_iter) (mapr hyper_level)"

definition hyper_order_book :: "market_type \<Rightarrow> string \<Rightarrow> string \<Rightarrow> int \<Rightarrow> pyval \<Rightarrow> (int \<Rightarrow> order_book) res" where
  "hyper_order_book mt model_sym quote depth lvls =
     bindr (hyper_side depth lvls 0) (\<lambda>bids.
     bindr (hyper_side depth lvls 1) (\<lambda>asks.
     Inr (\<lambda>ts. \<lparr>ob_symbol = model_sym, ob_market_type = mt, ob_quote = quote, ob_bids = bids, ob_asks = asks,
       ob_qty_unit = Base, ob_timestamp = ts\<rparr>)))"

definition hyper_get_orderbook :: "'w hyper_env \<Rightarrow> market_type \<Rightarrow> string \<Rightarrow> int \<Rightarrow> ('w, order_book) hio" where
  "hyper_get_orderbook env mt symbol depth =
     bindw (hyper_lookup env mt symbol) (\<lambda>(model_sym, coin, quote).
     bindw (hy_request env ''l2Book'' [(''type'', PStr ''l2Book''), (''coin'', PStr coin)]) (\<lambda>data.
     liftw (
       bindr (get_else data ''levels'' (PList [PList [], PList []])) (\<lambda>lvls.
       bindr (py_len lvls) (\<lambda>n.
       if n < 2 then Inl (ValueError (''Malformed order book for '' @ symbol @ '' on Hyperliquid '' @ market_value mt))
       else
         bindr (hyper_order_book mt model_sym quote depth lvls) (\<lambda>book.
         bindr (bindr (py_item data ''time'') (normalize_timestamp (hy_iso env))) (\<lambda>ts. Inr (book ts))))))))"

end
