(* ===== verification/HyperliquidMeta.thy ===== *)
theory HyperliquidMeta
  imports Hyperliquid LocalBook
begin

text \<open>
  The histories, the mark price, the instrument metadata and the margin tiers of the Hyperliquid
  adapter, \<^verbatim>\<open>exchange_router/exchanges/hyperliquid/adapter.py\<close>.
\<close>

section \<open>Mark price and open interest\<close>

text \<open>The next payment: after a whole cycle for a builder's coin, else at the next full one.\<close>

definition hyper_valid_until :: "string \<Rightarrow> int \<Rightarrow> int \<Rightarrow> int" where
  "hyper_valid_until coin cycle_ms ts =
     (if CHR '':'' \<in> set coin then ts + cycle_ms else (ts div cycle_ms + 1) * cycle_ms)"

definition cycle_or_default :: "int option \<Rightarrow> int" where
  "cycle_or_default cycle = (case cycle of Some c \<Rightarrow> c | None \<Rightarrow> hyper_CYCLE_MS)"

definition hyper_mark_price :: "string \<Rightarrow> string \<Rightarrow> string \<Rightarrow> int \<Rightarrow> pyval \<Rightarrow> pyval \<Rightarrow> pyval \<Rightarrow> int \<Rightarrow> mark_price res" where
  "hyper_mark_price model_sym coin quote cycle_ms mark oracle rate ts =
     bindr (if rate = PNone then Inr None
            else bindr (py_float rate) (\<lambda>r.
              bindr (build_funding_current ''discrete'' r cycle_ms (max (hyper_valid_until coin cycle_ms ts) (ts + 1))) (\<lambda>f. Inr (Some f)))) (\<lambda>funding.
     bindr (py_float mark) (\<lambda>mark.
     bindr (if oracle = PNone then Inr None else bindr (py_float oracle) (\<lambda>x. Inr (Some x))) (\<lambda>oracle.
     MarkPrice model_sym Linear quote mark oracle funding ts)))"

definition hyper_get_mark_price :: "'w hyper_env \<Rightarrow> market_type \<Rightarrow> string \<Rightarrow> ('w, mark_price) hio" where
  "hyper_get_mark_price env mt symbol =
     (if mt \<noteq> Linear then liftw (Inl (not_supported ''hyperliquid'' ''mark_price'' mt))
      else
        bindw (hyper_lookup env mt symbol) (\<lambda>(model_sym, coin, quote).
        bindw (hyper_asset_ctx env mt coin) (\<lambda>ctx.
        bindw (env_cycle (hy_env env) mt model_sym) (\<lambda>cycle.
        bindw (liftw (py_get ctx ''markPx'')) (\<lambda>mark.
        if mark = PNone then liftw (Inl (ValueError (''Hyperliquid returned no mark price for '' @ coin)))
        else
          bindw (liftw (py_get ctx ''oraclePx'')) (\<lambda>oracle.
          bindw (liftw (py_get ctx ''funding'')) (\<lambda>rate.
          bindw (hy_now_ms env) (\<lambda>ts.
          liftw (hyper_mark_price model_sym coin quote (cycle_or_default cycle) mark oracle rate ts)))))))))"

text \<open>The one row of open interest there is, at the beginning of its period.\<close>

definition hyper_get_open_interest :: "'w hyper_env \<Rightarrow> market_type \<Rightarrow> string \<Rightarrow> string \<Rightarrow> ('w, open_interest list) hio" where
  "hyper_get_open_interest env mt symbol period =
     (if mt \<noteq> Linear then liftw (Inl (not_supported ''hyperliquid'' ''open_interest'' mt))
      else
        bindw (hyper_lookup env mt symbol) (\<lambda>(model_sym, coin, quote).
        bindw (hyper_asset_ctx env mt coin) (\<lambda>ctx.
        bindw (liftw (py_get ctx ''openInterest'')) (\<lambda>oi.
        if oi = PNone then liftw (Inl (ValueError (''Hyperliquid returned no open interest for '' @ coin)))
        else
          bindw (hy_now_ms env) (\<lambda>now_ms.
          let period_ms = hyperliquid_interval_to_ms period in
          liftw (bindr (bindr (py_float oi) (\<lambda>n. build_oi_value n ''base'' None None None)) (\<lambda>value.
            Inr [\<lparr>oi_symbol = model_sym, oi_market_type = mt, oi_quote = quote, oi_interval = period, oi_open_interest = value,
              oi_timestamp = (if 0 < period_ms then now_ms div period_ms * period_ms else now_ms)\<rparr>]))))))) "

section \<open>Trades, candles and funding rates\<close>

definition hyper_trade :: "(string \<Rightarrow> int option) \<Rightarrow> market_type \<Rightarrow> string \<Rightarrow> string \<Rightarrow> pyval \<Rightarrow> trade res" where
  "hyper_trade iso_ms mt model_sym quote t =
     bindr (item_float t ''px'') (\<lambda>price.
     bindr (item_text t ''tid'') (\<lambda>trade_id.
     bindr (bindr (item_float t ''sz'') (\<lambda>n. build_qty_value n ''base'' None price)) (\<lambda>qty.
     bindr (py_get t ''side'') (\<lambda>side_raw.
     bindr (bindr (py_item t ''time'') (normalize_timestamp iso_ms)) (\<lambda>ts.
     bindr (side_of (if side_raw = PStr ''B'' then ''buy'' else ''sell'')) (\<lambda>taker.
     Inr \<lparr>td_id = Some trade_id, td_symbol = model_sym, td_market_type = mt, td_quote = quote, td_price = price,
       td_qty = qty, td_side = taker, td_timestamp = ts\<rparr>))))))"

definition hyper_get_trades :: "'w hyper_env \<Rightarrow> market_type \<Rightarrow> string \<Rightarrow> int \<Rightarrow> ('w, trade list) hio" where
  "hyper_get_trades env mt symbol limit =
     bindw (hyper_lookup env mt symbol) (\<lambda>(model_sym, coin, quote).
     bindw (liftw (bindr (cap_field hyperliquid_capabilities mt ''trades'' ''max_limit'') py_int)) (\<lambda>max_limit.
     bindw (hy_request env ''recentTrades'' [(''type'', PStr ''recentTrades''), (''coin'', PStr coin)]) (\<lambda>data.
     bindw (parsed_rows (hyper_trade (hy_iso env) mt model_sym quote) data) (\<lambda>trades.
     retw (slice_last (min limit max_limit) (sort_key td_timestamp trades))))))"

definition hyper_get_agg_trades :: "market_type \<Rightarrow> ('w, agg_trade list) hio" where
  "hyper_get_agg_trades mt = liftw (Inl (not_supported ''hyperliquid'' ''agg_trades'' mt))"

definition hyper_candle :: "(string \<Rightarrow> int option) \<Rightarrow> market_type \<Rightarrow> string \<Rightarrow> string \<Rightarrow> string \<Rightarrow> pyval \<Rightarrow> candle res" where
  "hyper_candle iso_ms mt model_sym quote interval k =
     bindr (item_float k ''c'') (\<lambda>close.
     bindr (bindr (py_item k ''t'') (normalize_timestamp iso_ms)) (\<lambda>ts.
     bindr (item_float k ''o'') (\<lambda>opening.
     bindr (item_float k ''h'') (\<lambda>high.
     bindr (item_float k ''l'') (\<lambda>low.
     bindr (bindr (item_float k ''v'') (\<lambda>n. build_volume_value n ''base'' None close)) (\<lambda>volume.
     Inr \<lparr>cd_symbol = model_sym, cd_market_type = mt, cd_quote = quote, cd_interval = interval, cd_timestamp = ts,
       cd_open = opening, cd_high = high, cd_low = low, cd_close = close, cd_volume = volume\<rparr>))))))"

text \<open>A page ends at its bound, never in the future, and reaches back as many intervals as are asked for.\<close>

definition hyper_window :: "int \<Rightarrow> int \<Rightarrow> int option \<Rightarrow> int \<Rightarrow> int \<times> int" where
  "hyper_window interval_ms now a wanted =
     (let end_ms = (case a of Some t \<Rightarrow> min t now | None \<Rightarrow> now) in (max (end_ms - wanted * interval_ms) 0, end_ms))"

definition hyper_candle_page :: "'w hyper_env \<Rightarrow> market_type \<Rightarrow> string \<Rightarrow> string \<Rightarrow> string \<Rightarrow> string \<Rightarrow> int \<Rightarrow> int option \<Rightarrow>
    int option \<Rightarrow> int \<Rightarrow> ('w, candle list) hio" where
  "hyper_candle_page env mt model_sym coin quote interval interval_ms start_time end_ts l =
     bindw (hy_now_ms env) (\<lambda>now.
     let (start_ms, end_ms) = hyper_window interval_ms now (anchor end_ts start_time) (min l 5000) in
     bindw (hy_request env ''candleSnapshot'' (hyper_candles_body coin interval start_ms end_ms)) (\<lambda>rows.
     if \<not> truthy rows then retw []
     else bindw (parsed_rows (hyper_candle (hy_iso env) mt model_sym quote interval) rows) (\<lambda>parsed.
       retw (sort_key cd_timestamp parsed))))"

definition hyper_get_candles :: "'w hyper_env \<Rightarrow> market_type \<Rightarrow> string \<Rightarrow> string \<Rightarrow> int option \<Rightarrow> int \<Rightarrow> ('w, candle list) hio" where
  "hyper_get_candles env mt symbol interval start_time limit =
     bindw (hyper_lookup env mt symbol) (\<lambda>(model_sym, coin, quote).
     let interval_ms = hyperliquid_interval_to_ms interval in
     if interval_ms \<le> 0 then liftw (Inl (ValueError (''Unsupported candle interval '' @ interval @ '' for Hyperliquid'')))
     else paged_history 5000 (hyper_candle_page env mt model_sym coin quote interval interval_ms start_time) cd_timestamp start_time limit)"

definition hyper_funding_row :: "(string \<Rightarrow> int option) \<Rightarrow> market_type \<Rightarrow> string \<Rightarrow> string \<Rightarrow> int \<Rightarrow> pyval \<Rightarrow> funding_rate res" where
  "hyper_funding_row iso_ms mt model_sym quote cycle_ms r =
     bindr (bindr (item_float r ''fundingRate'') (\<lambda>x. build_funding_historical ''discrete'' x cycle_ms)) (\<lambda>rate.
     bindr (bindr (py_item r ''time'') (normalize_timestamp iso_ms)) (\<lambda>ts.
     Inr \<lparr>fr_symbol = model_sym, fr_market_type = mt, fr_quote = quote, fr_rate = rate, fr_timestamp = ts\<rparr>))"

definition hyper_funding_page :: "'w hyper_env \<Rightarrow> market_type \<Rightarrow> string \<Rightarrow> string \<Rightarrow> string \<Rightarrow> int \<Rightarrow> int option \<Rightarrow>
    int option \<Rightarrow> int \<Rightarrow> ('w, funding_rate list) hio" where
  "hyper_funding_page env mt model_sym coin quote cycle_ms start_time end_ts l =
     bindw (case anchor end_ts start_time of Some t \<Rightarrow> retw t | None \<Rightarrow> hy_now_ms env) (\<lambda>end_ms.
     bindw (hy_request env ''fundingHistory''
       [(''type'', PStr ''fundingHistory''), (''coin'', PStr coin), (''startTime'', PInt (end_ms - min l 500 * cycle_ms)), (''endTime'', PInt end_ms)]) (\<lambda>rows.
     bindw (parsed_rows (hyper_funding_row (hy_iso env) mt model_sym quote cycle_ms) rows) (\<lambda>parsed.
     retw (sort_key fr_timestamp parsed))))"

definition hyper_get_funding_rate :: "'w hyper_env \<Rightarrow> market_type \<Rightarrow> string \<Rightarrow> int option \<Rightarrow> int \<Rightarrow> ('w, funding_rate list) hio" where
  "hyper_get_funding_rate env mt symbol start_time limit =
     (if mt \<noteq> Linear then liftw (Inl (not_supported ''hyperliquid'' ''funding_rate'' mt))
      else
        bindw (hyper_lookup env mt symbol) (\<lambda>(model_sym, coin, quote).
        bindw (env_cycle (hy_env env) mt model_sym) (\<lambda>cycle.
        paginate_backwards (hyper_funding_page env mt model_sym coin quote (cycle_or_default cycle) start_time)
          fr_timestamp (\<lambda>r. r) limit 500)))"

section \<open>Instrument metadata\<close>

definition hyper_symbol_info :: "string \<Rightarrow> string \<Rightarrow> string \<Rightarrow> string \<Rightarrow> int \<Rightarrow> int \<Rightarrow> funding_convention option \<Rightarrow> symbol_info" where
  "hyper_symbol_info model_sym native base quote digits sz_dec funding =
     \<lparr>si_symbol = model_sym, si_native_symbol = native, si_base_asset = base, si_quote_asset = quote,
      si_price_precision = max (digits - sz_dec) 0, si_quantity_precision = sz_dec,
      si_min_qty = None, si_max_qty = None, si_min_notional = Some (Fin 10), si_qty_unit = Base,
      si_contract_size = None, si_funding = funding, si_tick_size = None, si_qty_step = build_step_from_decimals (PInt sz_dec)\<rparr>"

definition hyper_linear_symbol_info :: "string \<Rightarrow> string \<Rightarrow> string \<Rightarrow> int \<Rightarrow> symbol_info res" where
  "hyper_linear_symbol_info model_sym native base sz_dec =
     bindr (build_funding_convention ''discrete'') (\<lambda>f. Inr (hyper_symbol_info model_sym native base ''USDC'' 6 sz_dec (Some f)))"

text \<open>
  The listed assets of one universe, those whose symbol was seen before left out. What comes before
  an asset that does not read is kept: the rows, the symbols seen, and the exception.
\<close>

definition hyper_listed :: "(string \<Rightarrow> string \<times> string) \<Rightarrow> pyval \<Rightarrow> (string \<times> symbol_info) option res" where
  "hyper_listed naming u =
     bindr (py_get u ''isDelisted'') (\<lambda>delisted.
     if truthy delisted then Inr None
     else
       bindr (bindr (py_item u ''name'') (as_string ''upper'')) (\<lambda>native.
       bindr (bindr (py_item u ''szDecimals'') py_int) (\<lambda>sz_dec.
       case naming native of (model_sym, base) \<Rightarrow>
         bindr (hyper_linear_symbol_info model_sym native base sz_dec) (\<lambda>info. Inr (Some (model_sym, info))))))"

fun hyper_universe :: "(string \<Rightarrow> string \<times> string) \<Rightarrow> string list \<Rightarrow> pyval list \<Rightarrow> symbol_info list \<times> string list \<times> pyexc option" where
  "hyper_universe naming seen [] = ([], seen, None)"
| "hyper_universe naming seen (u # us) = (case hyper_listed naming u of
       Inl e \<Rightarrow> ([], seen, Some e)
     | Inr None \<Rightarrow> hyper_universe naming seen us
     | Inr (Some (model_sym, info)) \<Rightarrow>
         if model_sym \<in> set seen then hyper_universe naming seen us
         else (case hyper_universe naming (seen @ [model_sym]) us of (infos, seen, e) \<Rightarrow> (info # infos, seen, e)))"

definition hyper_assets :: "(string \<Rightarrow> string \<times> string) \<Rightarrow> string list \<Rightarrow> pyval \<Rightarrow> symbol_info list \<times> string list \<times> pyexc option" where
  "hyper_assets naming seen universe = (case py_iter universe of
       Inl e \<Rightarrow> ([], seen, Some e)
     | Inr us \<Rightarrow> hyper_universe naming seen us)"

definition universe_of :: "pyval \<Rightarrow> (pyval \<times> pyval) res" where
  "universe_of data = bindr (py_index data 0) (\<lambda>meta. bindr (py_item meta ''universe'') (\<lambda>us. Inr (meta, us)))"

definition linear_naming :: "string \<Rightarrow> string \<times> string" where
  "linear_naming coin = (hyperliquid_get_model_symbol coin Linear, coin)"

definition builder_naming :: "pyval \<Rightarrow> string \<Rightarrow> string \<times> string" where
  "builder_naming dex native =
     (let base = (case split_once CHR '':'' native of Some (d, b) \<Rightarrow> b | None \<Rightarrow> native)
      in (hyperliquid_get_model_symbol (py_str dex @ base) Linear, base))"

text \<open>The markets of builders: one that fails is left out, but for what it had added.\<close>

fun hyper_builders :: "'w hyper_env \<Rightarrow> string list \<Rightarrow> (pyval, pyval) dict \<Rightarrow> pyval list \<Rightarrow> ('w, symbol_info list \<times> (pyval, pyval) dict) hio" where
  "hyper_builders env seen metas [] = retw ([], metas)"
| "hyper_builders env seen metas (entry # entries) =
     (if \<not> truthy entry then hyper_builders env seen metas entries
      else
        bindw (liftw (py_get entry ''name'')) (\<lambda>dex.
        if \<not> truthy dex then hyper_builders env seen metas entries
        else
          bindw (tryw (bindw (hy_request env ''metaAndAssetCtxs'' [(''type'', PStr ''metaAndAssetCtxs''), (''dex'', dex)]) (\<lambda>data.
              liftw (bindr (universe_of data) (\<lambda>x. Inr (Some x)))))
            (\<lambda>e. if is_exception e then retw None else liftw (Inl e))) (\<lambda>got. case got of
              None \<Rightarrow> hyper_builders env seen metas entries
            | Some (meta, us) \<Rightarrow> (case hyper_assets (builder_naming dex) seen us of (infos, seen, e) \<Rightarrow>
                bindw (hyper_builders env seen (dset metas dex meta) entries) (\<lambda>(rest, metas). retw (infos @ rest, metas))))))"

definition hyper_fetch_builder_info :: "'w hyper_env \<Rightarrow> string list \<Rightarrow> (pyval, pyval) dict \<Rightarrow> ('w, symbol_info list \<times> (pyval, pyval) dict) hio" where
  "hyper_fetch_builder_info env seen metas =
     bindw (tryw (bindw (hy_request env ''perpDexs'' [(''type'', PStr ''perpDexs'')]) (\<lambda>dexs. retw (Some dexs)))
       (\<lambda>e. if is_exception e then retw None else liftw (Inl e))) (\<lambda>dexs. case dexs of
         None \<Rightarrow> retw ([], metas)
       | Some ds \<Rightarrow> bindw (liftw (py_iter ds)) (hyper_builders env seen metas))"

text \<open>The tokens of the spot market by index.\<close>

fun hashable :: "pyval \<Rightarrow> bool" where
  "hashable (PList xs) = False"
| "hashable (PDict d) = False"
| "hashable v = True"

fun by_index :: "(pyval \<Rightarrow> 'a res) \<Rightarrow> (pyval, 'a) dict \<Rightarrow> pyval list \<Rightarrow> (pyval, 'a) dict res" where
  "by_index f d [] = Inr d"
| "by_index f d (t # ts) =
     bindr (py_item t ''index'') (\<lambda>i.
     bindr (f t) (\<lambda>v.
     if \<not> hashable i then Inl (TypeError (''unhashable type: '' @ quoted (type_name i)))
     else by_index f (dset d i v) ts))"

definition hyper_spot_pair :: "(pyval, pyval) dict \<Rightarrow> (pyval, int) dict \<Rightarrow> pyval \<Rightarrow> symbol_info option res" where
  "hyper_spot_pair names szdec pair =
     bindr (bindr (py_item pair ''tokens'') (\<lambda>t. py_index t 0)) (\<lambda>base_idx.
     bindr (bindr (py_item pair ''tokens'') (\<lambda>t. py_index t 1)) (\<lambda>quote_idx.
     if \<not> hashable base_idx \<or> \<not> hashable quote_idx then Inl (TypeError ''unhashable type'')
     else
       let base = (case dget names base_idx of None \<Rightarrow> PNone | Some v \<Rightarrow> v);
           quote = (case dget names quote_idx of None \<Rightarrow> PNone | Some v \<Rightarrow> v);
           base_sz = (case dget szdec base_idx of None \<Rightarrow> 0 | Some n \<Rightarrow> n)
       in if base = PNone \<or> quote = PNone then Inr None
          else
            bindr (py_item pair ''name'') (\<lambda>native.
            bindr (field_str native) (\<lambda>native.
            bindr (field_str base) (\<lambda>base.
            bindr (field_str quote) (\<lambda>quote.
            Inr (Some (hyper_symbol_info (upper (base @ quote)) native base quote 8 base_sz None))))))))"

definition hyper_fetch_spot_info :: "'w hyper_env \<Rightarrow> ('w, symbol_info list) hio" where
  "hyper_fetch_spot_info env =
     bindw (hy_request env ''spotMeta'' [(''type'', PStr ''spotMeta'')]) (\<lambda>data.
     liftw (
       bindr (bindr (bindr (py_item data ''tokens'') py_iter) (by_index (\<lambda>t. py_item t ''name'') [])) (\<lambda>names.
       bindr (bindr (bindr (py_item data ''tokens'') py_iter) (by_index (\<lambda>t. bindr (py_item t ''szDecimals'') py_int) [])) (\<lambda>szdec.
       bindr (bindr (bindr (py_item data ''universe'') py_iter) (mapr (hyper_spot_pair names szdec))) (\<lambda>rows.
       Inr (List.map_filter (\<lambda>r. r) rows))))))"

definition hyper_fetch_exchange_info :: "'w hyper_env \<Rightarrow> market_type \<Rightarrow> ('w, symbol_info list) hio" where
  "hyper_fetch_exchange_info env mt =
     (if mt = Spot then hyper_fetch_spot_info env
      else if mt \<noteq> Linear then retw []
      else
        bindw (hy_request env ''metaAndAssetCtxs'' [(''type'', PStr ''metaAndAssetCtxs'')]) (\<lambda>data.
        bindw (liftw (bindr (universe_of data) (\<lambda>(meta, us). case hyper_assets linear_naming [] us of
            (infos, seen, None) \<Rightarrow> Inr (meta, infos, seen)
          | (infos, seen, Some e) \<Rightarrow> Inl e))) (\<lambda>(meta, infos, seen).
        bindw (hyper_fetch_builder_info env seen [(PStr [], meta)]) (\<lambda>(built, metas).
        bindw (hy_now_ms env) (\<lambda>now w. (Inr (infos @ built), w\<lparr>hw_metas := metas, hw_metas_at := now\<rparr>))))))"

text \<open>The funding intervals of the linear market: an hour for every symbol that is listed.\<close>

definition hyper_intervals :: "symbol_info list \<Rightarrow> (string, int) dict" where
  "hyper_intervals infos = foldl (\<lambda>d i. dset d (si_symbol i) hyper_CYCLE_MS) [] infos"

definition hyper_get_symbol_info :: "(string, symbol_info) dict \<Rightarrow> market_type \<Rightarrow> string \<Rightarrow> symbol_info res" where
  "hyper_get_symbol_info cache mt symbol =
     (case dget cache (hyperliquid_get_model_symbol (hyperliquid_get_api_symbol symbol mt) mt) of
        None \<Rightarrow> Inl (ValueError (''Symbol '' @ symbol @ '' not found on Hyperliquid '' @ market_value mt))
      | Some info \<Rightarrow> Inr info)"

section \<open>Margin tiers\<close>

text \<open>\<open>next((t for t in tables if isinstance(t, list) and t and t[0] == table_id), None)\<close>\<close>

definition is_table :: "int \<Rightarrow> pyval \<Rightarrow> bool" where
  "is_table table_id t = (case t of PList (x # xs) \<Rightarrow> \<not> py_differ x (PInt table_id) | _ \<Rightarrow> False)"

fun py_tail :: "pyval \<Rightarrow> pyval list res" where
  "py_tail (PList xs) = Inr (drop 1 xs)"
| "py_tail (PStr s) = Inr (map (\<lambda>c. PStr [c]) (drop 1 s))"
| "py_tail v = Inl (TypeError (quoted (type_name v) @ '' object is not subscriptable''))"

definition hyper_table_tiers :: "(pyval \<Rightarrow> pyfloat res) \<Rightarrow> pyval \<Rightarrow> margin_tier list res" where
  "hyper_table_tiers coerce entry =
     bindr (bindr (py_index entry 1) (\<lambda>e. py_item e ''marginTiers'')) (\<lambda>rows.
     bindr (bindr (py_tail rows) (mapr (\<lambda>r. py_item r ''lowerBound''))) (\<lambda>bounds.
     bindr (py_iter rows) (\<lambda>rs.
     mapr (\<lambda>(row, bound). bindr (py_item row ''maxLeverage'') (\<lambda>lev. build_margin_tier coerce bound lev PNone PNone PNone))
       (zip rs (bounds @ [PNone])))))"

definition hyper_margin_tiers_of :: "(pyval \<Rightarrow> pyfloat res) \<Rightarrow> pyval \<Rightarrow> pyval \<Rightarrow> margin_tier list res" where
  "hyper_margin_tiers_of coerce asset tables =
     bindr (py_get asset ''marginTableId'') (\<lambda>raw_id.
     case raw_id of
       PInt table_id \<Rightarrow>
         if table_id < 50 then
           bindr (py_get asset ''maxLeverage'') (\<lambda>lev. bindr (build_margin_tier coerce PNone lev PNone PNone PNone) (\<lambda>t. Inr [t]))
         else
           bindr (py_iter tables) (\<lambda>ts. case List.find (is_table table_id) ts of
               Some entry \<Rightarrow> hyper_table_tiers coerce entry
             | None \<Rightarrow> bindr (py_get asset ''name'') (\<lambda>name.
                 Inl (OtherError (''Hyperliquid lists no margin table '' @ show_int table_id @ '' for '' @ py_str name))))
     | _ \<Rightarrow>
         bindr (py_get asset ''maxLeverage'') (\<lambda>lev. bindr (build_margin_tier coerce PNone lev PNone PNone PNone) (\<lambda>t. Inr [t])))"

fun asset_named :: "string \<Rightarrow> pyval list \<Rightarrow> pyval res" where
  "asset_named coin [] = Inr PNone"
| "asset_named coin (u # us) = bindr (py_get u ''name'') (\<lambda>n. if n = PStr coin then Inr u else asset_named coin us)"

definition hyper_get_margin_tiers :: "(pyval \<Rightarrow> pyfloat res) \<Rightarrow> 'w hyper_env \<Rightarrow> market_type \<Rightarrow> string \<Rightarrow> ('w, margin_tiers) hio" where
  "hyper_get_margin_tiers coerce env mt symbol =
     (if mt \<noteq> Linear then liftw (Inl (NotImplementedError (''Margin tiers not supported on hyperliquid '' @ market_value mt)))
      else
        bindw (hyper_lookup env mt symbol) (\<lambda>(model_sym, coin, quote) w.
          (bindr (case dget (hw_metas w) (PStr (case hyper_dex coin of None \<Rightarrow> [] | Some dex \<Rightarrow> dex)) of
               None \<Rightarrow> Inr (PDict []) | Some m \<Rightarrow> Inr (py_or m (PDict []))) (\<lambda>meta.
           bindr (bindr (bindr (py_get_or meta ''universe'' (PList [])) py_iter) (asset_named coin)) (\<lambda>asset.
           bindr (if truthy asset
                  then bindr (get_else meta ''marginTables'' (PList [])) (hyper_margin_tiers_of coerce asset)
                  else Inr []) (\<lambda>tiers.
           Inr \<lparr>mts_symbol = model_sym, mts_market_type = mt, mts_quote = quote, mts_up_to_unit = TierQuote,
             mts_tiers = tiers, mts_timestamp = hw_metas_at w\<rparr>))), w)))"

end
