(* ===== verification/HyperliquidStreams.thy ===== *)
theory HyperliquidStreams
  imports HyperliquidMeta
begin

text \<open>
  The streams of the Hyperliquid adapter, \<^verbatim>\<open>exchange_router/exchanges/hyperliquid/adapter.py\<close>: the
  placement of topics on a limited number of connections, the routing of messages, and the body of
  each stream.
\<close>

section \<open>Placement of topics\<close>

text \<open>
  The hubs in the order they were made, each by the topics on it; \<open>hp_topic_hub\<close> gives the position
  of the hub of a topic. Every step runs under \<open>_hubs_lock\<close>.
\<close>

record hyper_places =
  hp_hubs :: "string list list"
  hp_topic_hub :: "(string, nat) dict"
  hp_topic_args :: "(string, pyval) dict"
  hp_topic_refs :: "(string, int) dict"

definition hyper_no_places :: hyper_places where
  "hyper_no_places = \<lparr>hp_hubs = [], hp_topic_hub = [], hp_topic_args = [], hp_topic_refs = []\<rparr>"

definition hyper_MAX_SUBS_PER_HUB :: nat where "hyper_MAX_SUBS_PER_HUB = 900"
definition hyper_MAX_HUBS :: nat where "hyper_MAX_HUBS = 10"

definition refs_of :: "hyper_places \<Rightarrow> string \<Rightarrow> int \<Rightarrow> int" where
  "refs_of st topic dflt = (case dget (hp_topic_refs st) topic of Some n \<Rightarrow> n | None \<Rightarrow> dflt)"

text \<open>The hub of a topic: the one it is on, the first with room, or a new one.\<close>

definition hyper_place :: "hyper_places \<Rightarrow> string \<Rightarrow> (nat \<times> hyper_places) option" where
  "hyper_place st topic = (case dget (hp_topic_hub st) topic of
       Some h \<Rightarrow> Some (h, st)
     | None \<Rightarrow> (case List.find (\<lambda>i. length (hp_hubs st ! i) < hyper_MAX_SUBS_PER_HUB) [0..<length (hp_hubs st)] of
           Some i \<Rightarrow> Some (i, st\<lparr>hp_hubs := (hp_hubs st)[i := List.insert topic (hp_hubs st ! i)],
               hp_topic_hub := dset (hp_topic_hub st) topic i\<rparr>)
         | None \<Rightarrow>
             if hyper_MAX_HUBS \<le> length (hp_hubs st) then None
             else Some (length (hp_hubs st), st\<lparr>hp_hubs := hp_hubs st @ [[topic]],
               hp_topic_hub := dset (hp_topic_hub st) topic (length (hp_hubs st))\<rparr>)))"

definition hyper_acquire_topic :: "string \<Rightarrow> pyval \<Rightarrow> hyper_places \<Rightarrow> nat res \<times> hyper_places" where
  "hyper_acquire_topic topic sub_arg st = (case hyper_place st topic of
       None \<Rightarrow> (Inl (UpstreamUnavailableError ''Hyperliquid WS subscription capacity reached'' None), st)
     | Some (h, st) \<Rightarrow> (Inr h, st\<lparr>hp_topic_args := dset (hp_topic_args st) topic sub_arg,
         hp_topic_refs := dset (hp_topic_refs st) topic (refs_of st topic 0 + 1)\<rparr>))"

definition hyper_release_topic :: "string \<Rightarrow> hyper_places \<Rightarrow> hyper_places" where
  "hyper_release_topic topic st =
     (let n = refs_of st topic 1 - 1 in
      if 0 < n then st\<lparr>hp_topic_refs := dset (hp_topic_refs st) topic n\<rparr>
      else st\<lparr>hp_topic_refs := dpop (hp_topic_refs st) topic, hp_topic_args := dpop (hp_topic_args st) topic,
        hp_topic_hub := dpop (hp_topic_hub st) topic,
        hp_hubs := (case dget (hp_topic_hub st) topic of
            None \<Rightarrow> hp_hubs st | Some h \<Rightarrow> (hp_hubs st)[h := remove1 topic (hp_hubs st ! h)])\<rparr>)"

text \<open>What a subscriber's coroutine does to the places: nothing is released when \<open>hub.subscribe\<close> raises.\<close>

datatype places_event = Acquire string pyval | Release string

fun places_do :: "hyper_places \<Rightarrow> places_event \<Rightarrow> hyper_places" where
  "places_do st (Acquire topic arg) = snd (hyper_acquire_topic topic arg st)"
| "places_do st (Release topic) = hyper_release_topic topic st"

definition hyper_ws_connect :: "string \<Rightarrow> pyval \<Rightarrow> bool \<Rightarrow> places_event list" where
  "hyper_ws_connect topic sub_arg subscribed = (if subscribed then [Acquire topic sub_arg, Release topic] else [Acquire topic sub_arg])"

definition hyper_payload :: "string \<Rightarrow> hyper_places \<Rightarrow> string list \<Rightarrow> pyval list" where
  "hyper_payload meth st topics =
     map (\<lambda>arg. PDict [(''method'', PStr meth), (''subscription'', arg)]) (List.map_filter (dget (hp_topic_args st)) topics)"

section \<open>Routing\<close>

text \<open>\<open>f"{channel}:{coin}" if coin else None\<close>\<close>

definition coin_topic :: "pyval \<Rightarrow> pyval \<Rightarrow> string option" where
  "coin_topic channel coin = (if truthy coin then Some (py_str channel @ '':'' @ py_str coin) else None)"

definition field_of :: "(string \<times> pyval) list \<Rightarrow> string \<Rightarrow> pyval" where
  "field_of d k = (case dget d k of None \<Rightarrow> PNone | Some v \<Rightarrow> v)"

definition hyper_route :: "pyval \<Rightarrow> string option res" where
  "hyper_route msg = (case msg of
       PDict d \<Rightarrow>
         (let raw = field_of d ''channel'';
              channel = (if raw = PStr ''activeSpotAssetCtx'' then PStr ''activeAssetCtx'' else raw)
          in if raw \<in> {PStr ''subscriptionResponse'', PStr ''pong'', PNone} then Inr None
             else if channel = PStr ''trades'' then
               (case field_of d ''data'' of
                  PList (row # rows) \<Rightarrow> bindr (py_get row ''coin'') (\<lambda>coin. Inr (coin_topic channel coin))
                | _ \<Rightarrow> Inr None)
             else if channel = PStr ''candle'' then
               (case field_of d ''data'' of
                  PDict x \<Rightarrow> Inr (Some (''candle:'' @ py_str (field_of x ''s'') @ '':'' @ py_str (field_of x ''i'')))
                | _ \<Rightarrow> Inr None)
             else
               (case field_of d ''data'' of
                  PDict x \<Rightarrow> Inr (coin_topic channel (field_of x ''coin''))
                | _ \<Rightarrow> Inr None))
     | _ \<Rightarrow> Inr None)"

text \<open>A stream is its topic, its argument and the step that is run over the frames of its topic.\<close>

definition hyper_start :: "string \<Rightarrow> string \<Rightarrow> 'b \<Rightarrow> string \<times> pyval \<times> 'b" where
  "hyper_start channel coin step = (channel @ '':'' @ coin, PDict [(''type'', PStr channel), (''coin'', PStr coin)], step)"

section \<open>Tickers\<close>

text \<open>
  A frame with what the clock and the candle request would give while it is worked on: the time
  that is compared, the time the next seed is counted from, the seed, and the milliseconds at the
  end.
\<close>

record hyper_tick =
  hk_msg :: pyval
  hk_now :: pyfloat
  hk_restart :: pyfloat
  hk_seed :: "(pyfloat option \<times> pyfloat option) res"
  hk_ms :: int

type_synonym hyper_day = "(pyfloat option \<times> pyfloat option) \<times> pyfloat"

text \<open>\<open>(msg.get("data") or {}).get("ctx") or {}\<close>\<close>

definition hyper_ctx :: "pyval \<Rightarrow> pyval res" where
  "hyper_ctx msg = bindr (get_else msg ''data'' (PDict [])) (\<lambda>d. get_else d ''ctx'' (PDict []))"

fun required :: "pyfloat option \<Rightarrow> pyfloat res" where
  "required (Some x) = Inr x"
| "required None = Inl (ValidationError ''Input should be a valid number'')"

definition hyper_tick_row :: "market_type \<Rightarrow> string \<Rightarrow> string \<Rightarrow> pyfloat \<Rightarrow> pyfloat option \<times> pyfloat option \<Rightarrow> pyval \<Rightarrow> int \<Rightarrow> ticker res" where
  "hyper_tick_row mt model_sym quote close ext ctx ts =
     bindr (get_or_zero ctx ''prevDayPx'') (\<lambda>prev.
     bindr (required (fst ext)) (\<lambda>high.
     bindr (required (snd ext)) (\<lambda>low.
     bindr (hyper_ticker mt model_sym quote close prev high low ctx) (\<lambda>row. Inr (row ts)))))"

definition hyper_ticker_step :: "market_type \<Rightarrow> string \<Rightarrow> string \<Rightarrow> hyper_day \<Rightarrow> hyper_tick \<Rightarrow> hyper_day \<times> ticker list \<times> frame_end" where
  "hyper_ticker_step mt model_sym quote day f = (case day of (ext, reseed_at) \<Rightarrow>
     (case bindr (hyper_ctx (hk_msg f)) (\<lambda>ctx. bindr (bindr (first_truthy ctx [''midPx'', ''markPx''] (PInt 0)) py_float)
           (\<lambda>close. Inr (ctx, close))) of
        Inl e \<Rightarrow> (day, [], skipping (Some e))
      | Inr (ctx, close) \<Rightarrow>
          if fle close (Fin 0) then (day, [], Next)
          else
            let ext = widen close ext; due = fle reseed_at (hk_now f);
                reseed_at = (if due then fadd (hk_restart f) (Fin 120) else reseed_at)
            in case (if due then hk_seed f else Inr ext) of
                 Inl e \<Rightarrow> ((ext, reseed_at), [], skipping (Some e))
               | Inr seed \<Rightarrow>
                   (let ext = (if fst seed = None then ext else seed) in
                    case hyper_tick_row mt model_sym quote close ext ctx (hk_ms f) of
                      Inl e \<Rightarrow> ((ext, reseed_at), [], skipping (Some e))
                    | Inr t \<Rightarrow> ((ext, reseed_at), [t], Next))))"

definition hyper_stream_ticker :: "'w hyper_env \<Rightarrow> ('w, pyfloat) hio \<Rightarrow> market_type \<Rightarrow> string \<Rightarrow>
    ('w, hyper_day \<times> string \<times> pyval \<times> (hyper_day \<Rightarrow> hyper_tick \<Rightarrow> hyper_day \<times> ticker list \<times> frame_end)) hio" where
  "hyper_stream_ticker env now mt symbol =
     bindw (hyper_lookup env mt symbol) (\<lambda>(model_sym, coin, quote).
     bindw (hyper_high_low_24h env coin) (\<lambda>ext.
     bindw now (\<lambda>t.
     retw ((ext, fadd t (Fin 120)), hyper_start ''activeAssetCtx'' coin (hyper_ticker_step mt model_sym quote)))))"

section \<open>The other streams\<close>

text \<open>A frame is the clock's time in milliseconds with the message.\<close>

definition hyper_stamp :: "(string \<Rightarrow> int option) \<Rightarrow> int \<Rightarrow> pyval \<Rightarrow> int res" where
  "hyper_stamp iso_ms now d = bindr (first_truthy d [''time''] (PInt now)) (normalize_timestamp iso_ms)"

definition hyper_quotes_frame :: "(string \<Rightarrow> int option) \<Rightarrow> market_type \<Rightarrow> string \<Rightarrow> string \<Rightarrow> int \<times> pyval \<Rightarrow> book_ticker list res" where
  "hyper_quotes_frame iso_ms mt model_sym quote frame = (case frame of (now, msg) \<Rightarrow>
     bindr (get_else msg ''data'' (PDict [])) (\<lambda>d.
     bindr (get_else d ''bbo'' (PList [])) (\<lambda>bbo.
     bindr (py_len bbo) (\<lambda>n.
     if n < 2 then Inr []
     else
       bindr (py_index bbo 0) (\<lambda>bid.
       if bid = PNone then Inr []
       else
         bindr (py_index bbo 1) (\<lambda>ask.
         if ask = PNone then Inr []
         else
           bindr (hyper_book_ticker mt model_sym quote bid ask) (\<lambda>row.
           bindr (hyper_stamp iso_ms now d) (\<lambda>ts. Inr [row ts]))))))))"

definition hyper_mark_frame :: "string \<Rightarrow> string \<Rightarrow> string \<Rightarrow> int \<times> pyval \<Rightarrow> mark_price list res" where
  "hyper_mark_frame model_sym coin quote frame = (case frame of (ts, msg) \<Rightarrow>
     bindr (hyper_ctx msg) (\<lambda>ctx.
     bindr (item_float ctx ''markPx'') (\<lambda>mark.
     bindr (item_float ctx ''oraclePx'') (\<lambda>oracle.
     bindr (item_float ctx ''funding'') (\<lambda>rate.
     bindr (build_funding_current ''discrete'' rate hyper_CYCLE_MS (max (hyper_valid_until coin hyper_CYCLE_MS ts) (ts + 1))) (\<lambda>funding.
     one (MarkPrice model_sym Linear quote mark (Some oracle) (Some funding) ts)))))))"

definition hyper_trade_rows :: "int \<times> pyval \<Rightarrow> pyval list res" where
  "hyper_trade_rows frame = bindr (py_get_or (snd frame) ''data'' (PList [])) py_iter"

text \<open>The order book comes whole with every frame; one that does not read ends the stream.\<close>

definition hyper_book_frame :: "(string \<Rightarrow> int option) \<Rightarrow> market_type \<Rightarrow> string \<Rightarrow> string \<Rightarrow> int \<Rightarrow> int \<times> pyval \<Rightarrow> order_book res" where
  "hyper_book_frame iso_ms mt model_sym quote depth frame = (case frame of (now, msg) \<Rightarrow>
     bindr (get_else msg ''data'' (PDict [])) (\<lambda>d.
     bindr (get_else d ''levels'' (PList [PList [], PList []])) (\<lambda>lvls.
     bindr (hyper_order_book mt model_sym quote depth lvls) (\<lambda>book.
     bindr (hyper_stamp iso_ms now d) (\<lambda>ts. Inr (book ts))))))"

definition hyper_book_step :: "(string \<Rightarrow> int option) \<Rightarrow> market_type \<Rightarrow> string \<Rightarrow> string \<Rightarrow> int \<Rightarrow> unit \<Rightarrow> int \<times> pyval \<Rightarrow>
    unit \<times> order_book list \<times> frame_end" where
  "hyper_book_step iso_ms mt model_sym quote depth s frame = (case hyper_book_frame iso_ms mt model_sym quote depth frame of
       Inl e \<Rightarrow> ((), [], stopping (Some e))
     | Inr book \<Rightarrow> ((), [book], Next))"

definition hyper_stream_book_ticker where
  "hyper_stream_book_ticker env mt symbol =
     bindw (hyper_lookup env mt symbol) (\<lambda>(model_sym, coin, quote).
     retw (hyper_start ''bbo'' coin (frame_step (hyper_quotes_frame (hy_iso env) mt model_sym quote))))"

definition hyper_stream_mark_price where
  "hyper_stream_mark_price env mt symbol =
     (if mt \<noteq> Linear then liftw (Inl (not_supported ''hyperliquid'' ''mark_price'' mt))
      else bindw (hyper_lookup env mt symbol) (\<lambda>(model_sym, coin, quote).
        retw (hyper_start ''activeAssetCtx'' coin (frame_step (hyper_mark_frame model_sym coin quote)))))"

definition hyper_stream_trades where
  "hyper_stream_trades env mt symbol =
     bindw (hyper_lookup env mt symbol) (\<lambda>(model_sym, coin, quote).
     retw (hyper_start ''trades'' coin
       (rows_step hyper_trade_rows (\<lambda>frame t. one (hyper_trade (hy_iso env) mt model_sym quote t)))))"

definition hyper_stream_orderbook where
  "hyper_stream_orderbook env mt symbol depth =
     bindw (hyper_lookup env mt symbol) (\<lambda>(model_sym, coin, quote).
     retw (hyper_start ''l2Book'' coin (hyper_book_step (hy_iso env) mt model_sym quote depth)))"

end
