(* ===== verification/HyperliquidLaws.thy ===== *)
theory HyperliquidLaws
  imports HyperliquidStreams
begin

text \<open>
  What the placement of topics keeps true whatever the order of subscribers, and what the extremes
  of the ticker stream are.
\<close>

section \<open>Places\<close>

text \<open>
  The places and how many subscribers hold each topic: a subscriber holds a topic from the step
  that acquires it to the step that releases it.
\<close>

inductive places_reached :: "hyper_places \<Rightarrow> (string \<Rightarrow> nat) \<Rightarrow> bool" where
  start: "places_reached hyper_no_places (\<lambda>t. 0)"
| acquired: "places_reached st held \<Longrightarrow> hyper_acquire_topic t arg st = (Inr h, st') \<Longrightarrow> places_reached st' (held(t := Suc (held t)))"
| refused: "places_reached st held \<Longrightarrow> hyper_acquire_topic t arg st = (Inl e, st') \<Longrightarrow> places_reached st' held"
| released: "places_reached st held \<Longrightarrow> 0 < held t \<Longrightarrow> places_reached (hyper_release_topic t st) (held(t := held t - 1))"

definition on_hub :: "hyper_places \<Rightarrow> nat \<Rightarrow> string \<Rightarrow> bool" where
  "on_hub st h t \<longleftrightarrow> h < length (hp_hubs st) \<and> t \<in> set (hp_hubs st ! h)"

definition places_ok :: "hyper_places \<Rightarrow> (string \<Rightarrow> nat) \<Rightarrow> bool" where
  "places_ok st held \<longleftrightarrow> length (hp_hubs st) \<le> hyper_MAX_HUBS
     \<and> (\<forall>ts\<in>set (hp_hubs st). distinct ts \<and> length ts \<le> hyper_MAX_SUBS_PER_HUB)
     \<and> (\<forall>t h. dget (hp_topic_hub st) t = Some h \<longleftrightarrow> on_hub st h t)
     \<and> (\<forall>t. dget (hp_topic_refs st) t = (if held t = 0 then None else Some (int (held t))))
     \<and> (\<forall>t. dget (hp_topic_hub st) t = None \<longleftrightarrow> held t = 0)
     \<and> (\<forall>t. dget (hp_topic_args st) t = None \<longleftrightarrow> held t = 0)"

lemma places_okD:
  assumes "places_ok st held"
  shows "length (hp_hubs st) \<le> hyper_MAX_HUBS" "ts \<in> set (hp_hubs st) \<Longrightarrow> distinct ts \<and> length ts \<le> hyper_MAX_SUBS_PER_HUB"
    "dget (hp_topic_hub st) t = Some h \<longleftrightarrow> on_hub st h t" "dget (hp_topic_hub st) t = None \<longleftrightarrow> held t = 0"
    "dget (hp_topic_args st) t = None \<longleftrightarrow> held t = 0"
    "dget (hp_topic_refs st) t = (if held t = 0 then None else Some (int (held t)))"
  using assms by (auto simp: places_ok_def)

text \<open>Where a topic that nobody holds is put.\<close>

lemma hyper_place_new:
  assumes "dget (hp_topic_hub st) t = None"
  obtains (room) i where "i < length (hp_hubs st)" "length (hp_hubs st ! i) < hyper_MAX_SUBS_PER_HUB"
      "hyper_place st t = Some (i, st\<lparr>hp_hubs := (hp_hubs st)[i := List.insert t (hp_hubs st ! i)], hp_topic_hub := dset (hp_topic_hub st) t i\<rparr>)"
    | (new) "length (hp_hubs st) < hyper_MAX_HUBS"
      "hyper_place st t = Some (length (hp_hubs st), st\<lparr>hp_hubs := hp_hubs st @ [[t]], hp_topic_hub := dset (hp_topic_hub st) t (length (hp_hubs st))\<rparr>)"
    | (full) "hyper_MAX_HUBS \<le> length (hp_hubs st)" "hyper_place st t = None"
      "\<forall>i < length (hp_hubs st). hyper_MAX_SUBS_PER_HUB \<le> length (hp_hubs st ! i)"
proof (cases "List.find (\<lambda>i. length (hp_hubs st ! i) < hyper_MAX_SUBS_PER_HUB) [0..<length (hp_hubs st)]")
  case None
  then have "\<forall>i < length (hp_hubs st). hyper_MAX_SUBS_PER_HUB \<le> length (hp_hubs st ! i)"
    by (simp only: find_None_iff set_upt atLeastLessThan_iff not_less) auto
  then show ?thesis
    using new full None assms by (cases "hyper_MAX_HUBS \<le> length (hp_hubs st)") (simp_all add: hyper_place_def)
next
  case (Some i)
  then have "i < length (hp_hubs st)" "length (hp_hubs st ! i) < hyper_MAX_SUBS_PER_HUB"
    by (auto simp: find_Some_iff)
  then show ?thesis using room Some assms by (simp add: hyper_place_def)
qed

text \<open>A place for a topic that has none keeps the hubs in order.\<close>

definition hubs_ok :: "hyper_places \<Rightarrow> bool" where
  "hubs_ok st \<longleftrightarrow> length (hp_hubs st) \<le> hyper_MAX_HUBS
     \<and> (\<forall>ts\<in>set (hp_hubs st). distinct ts \<and> length ts \<le> hyper_MAX_SUBS_PER_HUB)
     \<and> (\<forall>t h. dget (hp_topic_hub st) t = Some h \<longleftrightarrow> on_hub st h t)"

lemma hubs_ok_put:
  assumes "hubs_ok st" "dget (hp_topic_hub st) t = None" "length hubs \<le> hyper_MAX_HUBS"
    "\<And>ts. ts \<in> set hubs \<Longrightarrow> ts \<in> set (hp_hubs st) \<or> distinct ts \<and> length ts \<le> hyper_MAX_SUBS_PER_HUB"
    "\<And>i t'. i < length hubs \<and> t' \<in> set (hubs ! i) \<longleftrightarrow> on_hub st i t' \<or> i = h \<and> t' = t"
  shows "hubs_ok (st\<lparr>hp_hubs := hubs, hp_topic_hub := dset (hp_topic_hub st) t h\<rparr>)"
proof -
  have keys: "dget (hp_topic_hub st) t' = Some i \<longleftrightarrow> on_hub st i t'" for t' i
    using assms(1) by (simp add: hubs_ok_def)
  have "\<not> on_hub st i t" for i using keys [of t i] assms(2) by simp
  then have "dget (dset (hp_topic_hub st) t h) t' = Some i \<longleftrightarrow> i < length hubs \<and> t' \<in> set (hubs ! i)" for t' i
    using keys [of t' i] unfolding assms(5) by (cases "t' = t") auto
  then show ?thesis using assms(1,3,4) unfolding hubs_ok_def on_hub_def by simp blast
qed

lemma hyper_place_ok:
  assumes "hubs_ok st" "hyper_place st t = Some (h, st')"
  shows "hubs_ok st'" "dget (hp_topic_hub st') t = Some h" "t' \<noteq> t \<Longrightarrow> dget (hp_topic_hub st') t' = dget (hp_topic_hub st) t'"
    "hp_topic_refs st' = hp_topic_refs st" "hp_topic_args st' = hp_topic_args st"
proof -
  have all: "hubs_ok st' \<and> dget (hp_topic_hub st') t = Some h
     \<and> (\<forall>t'. t' \<noteq> t \<longrightarrow> dget (hp_topic_hub st') t' = dget (hp_topic_hub st) t')
     \<and> hp_topic_refs st' = hp_topic_refs st \<and> hp_topic_args st' = hp_topic_args st"
  proof (cases "dget (hp_topic_hub st) t")
    case (Some i)
    then show ?thesis using assms by (simp add: hyper_place_def)
  next
    case None
    from None show ?thesis
    proof (cases rule: hyper_place_new)
      case (room i)
      have "hp_hubs st ! i \<in> set (hp_hubs st)" using room(1) by simp
      then have "distinct (List.insert t (hp_hubs st ! i))" using assms(1) by (simp add: hubs_ok_def)
      moreover have "length (List.insert t (hp_hubs st ! i)) \<le> hyper_MAX_SUBS_PER_HUB"
        using room(2) by (simp add: List.insert_def)
      ultimately have "hubs_ok (st\<lparr>hp_hubs := (hp_hubs st)[i := List.insert t (hp_hubs st ! i)], hp_topic_hub := dset (hp_topic_hub st) t i\<rparr>)"
        using room(1) set_update_subset_insert [of "hp_hubs st" i "List.insert t (hp_hubs st ! i)"] assms(1)
        by (intro hubs_ok_put [OF assms(1) None]) (auto simp: hubs_ok_def on_hub_def nth_list_update split: if_splits)
      then show ?thesis using assms(2) room(3) by auto
    next
      case new
      then have "hubs_ok (st\<lparr>hp_hubs := hp_hubs st @ [[t]], hp_topic_hub := dset (hp_topic_hub st) t (length (hp_hubs st))\<rparr>)"
        by (intro hubs_ok_put [OF assms(1) None])
           (auto simp: on_hub_def nth_append less_Suc_eq hyper_MAX_SUBS_PER_HUB_def split: if_splits)
      then show ?thesis using assms(2) new(2) by auto
    next
      case full
      then show ?thesis using assms(2) by simp
    qed
  qed
  then show "hubs_ok st'" "dget (hp_topic_hub st') t = Some h" "t' \<noteq> t \<Longrightarrow> dget (hp_topic_hub st') t' = dget (hp_topic_hub st) t'"
    "hp_topic_refs st' = hp_topic_refs st" "hp_topic_args st' = hp_topic_args st" by blast+
qed

text \<open>The places agree with what is held, at every step.\<close>

lemma places_ok_hubs: "places_ok st held \<Longrightarrow> hubs_ok st"
  by (simp add: places_ok_def hubs_ok_def)

lemma places_ok_acquired:
  assumes "places_ok st held" "hyper_acquire_topic t arg st = (Inr h, st')"
  shows "places_ok st' (held(t := Suc (held t)))"
proof -
  obtain mid where mid: "hyper_place st t = Some (h, mid)"
    and st': "st' = mid\<lparr>hp_topic_args := dset (hp_topic_args mid) t arg, hp_topic_refs := dset (hp_topic_refs mid) t (refs_of mid t 0 + 1)\<rparr>"
    using assms(2) by (auto simp: hyper_acquire_topic_def split: option.splits)
  note placed = hyper_place_ok [OF places_ok_hubs [OF assms(1)] mid]
  have refs: "refs_of mid t 0 = int (held t)"
    using placed(4) places_okD(6) [OF assms(1), of t] by (simp add: refs_of_def)
  have hubs: "hubs_ok st'" using placed(1) by (simp add: st' hubs_ok_def on_hub_def)
  have "dget (hp_topic_hub st') t' = None \<longleftrightarrow> (held(t := Suc (held t))) t' = 0" for t'
    using placed(2) placed(3) [of t'] places_okD(4) [OF assms(1), of t'] by (cases "t' = t") (simp_all add: st')
  moreover have "dget (hp_topic_args st') t' = None \<longleftrightarrow> (held(t := Suc (held t))) t' = 0" for t'
    using placed(5) places_okD(5) [OF assms(1), of t'] by (cases "t' = t") (simp_all add: st')
  moreover have "dget (hp_topic_refs st') t' = (if (held(t := Suc (held t))) t' = 0 then None else Some (int ((held(t := Suc (held t))) t')))" for t'
    using placed(4) refs places_okD(6) [OF assms(1), of t'] by (cases "t' = t") (simp_all add: st')
  ultimately show ?thesis using hubs by (simp add: places_ok_def hubs_ok_def)
qed

lemma places_ok_released:
  assumes "places_ok st held" "0 < held t"
  shows "places_ok (hyper_release_topic t st) (held(t := held t - 1))"
proof (cases "held t = 1")
  case False
  then have "refs_of st t 1 - 1 = int (held t - 1)" "0 < int (held t - 1)"
    using places_okD(6) [OF assms(1), of t] assms(2) by (auto simp: refs_of_def)
  then show ?thesis using assms False
    by (auto simp: places_ok_def hyper_release_topic_def on_hub_def)
next
  case True
  obtain h where h: "dget (hp_topic_hub st) t = Some h" "on_hub st h t"
    using places_okD(4) [OF assms(1), of t] places_okD(3) [OF assms(1), of t] assms(2)
    by (cases "dget (hp_topic_hub st) t") auto
  have only: "on_hub st i t \<longleftrightarrow> i = h" for i
    using places_okD(3) [OF assms(1), of t i] h(1) by auto
  have "refs_of st t 1 = 1" using places_okD(6) [OF assms(1), of t] True by (simp add: refs_of_def)
  then have rel: "hyper_release_topic t st = st\<lparr>hp_topic_refs := dpop (hp_topic_refs st) t, hp_topic_args := dpop (hp_topic_args st) t,
      hp_topic_hub := dpop (hp_topic_hub st) t, hp_hubs := (hp_hubs st)[h := remove1 t (hp_hubs st ! h)]\<rparr>"
    using h(1) by (simp add: hyper_release_topic_def)
  have here: "hp_hubs st ! h \<in> set (hp_hubs st)" using h(2) by (simp add: on_hub_def)
  have on: "on_hub (hyper_release_topic t st) i t' \<longleftrightarrow> on_hub st i t' \<and> t' \<noteq> t" for i t'
    using only [of i] h(2) places_okD(2) [OF assms(1) here]
    by (cases "i = h") (auto simp: rel on_hub_def)
  have "distinct ts \<and> length ts \<le> hyper_MAX_SUBS_PER_HUB" if "ts \<in> set (hp_hubs (hyper_release_topic t st))" for ts
  proof -
    have "ts = remove1 t (hp_hubs st ! h) \<or> ts \<in> set (hp_hubs st)"
      using that set_update_subset_insert [of "hp_hubs st" h] by (auto simp: rel)
    then show ?thesis
      using places_okD(2) [OF assms(1)] places_okD(2) [OF assms(1) here]
      by (auto simp: length_remove1)
  qed
  moreover have "length (hp_hubs (hyper_release_topic t st)) \<le> hyper_MAX_HUBS"
    using places_okD(1) [OF assms(1)] by (simp add: rel)
  moreover have "dget (hp_topic_hub (hyper_release_topic t st)) t' = Some i \<longleftrightarrow> on_hub (hyper_release_topic t st) i t'" for t' i
    using places_okD(3) [OF assms(1), of t' i] on [of i t'] by (cases "t' = t") (simp_all add: rel)
  moreover have "dget (hp_topic_refs (hyper_release_topic t st)) t' = (if (held(t := held t - 1)) t' = 0 then None else Some (int ((held(t := held t - 1)) t')))"
    "dget (hp_topic_hub (hyper_release_topic t st)) t' = None \<longleftrightarrow> (held(t := held t - 1)) t' = 0"
    "dget (hp_topic_args (hyper_release_topic t st)) t' = None \<longleftrightarrow> (held(t := held t - 1)) t' = 0" for t'
    using places_okD(4-6) [OF assms(1), of t'] True by (cases "t' = t"; simp add: rel)+
  ultimately show ?thesis unfolding places_ok_def by blast
qed

lemma places_reached_ok: "places_reached st held \<Longrightarrow> places_ok st held"
proof (induction rule: places_reached.induct)
  case start
  then show ?case by (simp add: places_ok_def hyper_no_places_def on_hub_def)
next
  case (acquired st held t arg h st')
  then show ?case using places_ok_acquired by blast
next
  case (refused st held t arg e st')
  then show ?case by (auto simp: hyper_acquire_topic_def split: option.splits)
next
  case (released st held t)
  then show ?case using places_ok_released by blast
qed

text \<open>
  C12. Whatever the order in which subscribers come and go, there are at most ten connections with at
  most nine hundred distinct topics each; a topic that somebody holds (has acquired and not released)
  is on exactly one connection,
  has its argument, and is counted once for each holder; a topic that nobody holds is on none. A new
  subscriber is refused only for a topic that nobody holds, when all ten connections are full.
\<close>

theorem hyper_topics_placed:
  assumes "places_reached st held"
  shows "length (hp_hubs st) \<le> hyper_MAX_HUBS
     \<and> (\<forall>ts\<in>set (hp_hubs st). distinct ts \<and> length ts \<le> hyper_MAX_SUBS_PER_HUB)
     \<and> (\<forall>t. if held t = 0 then (\<forall>h. \<not> on_hub st h t) \<and> dget (hp_topic_refs st) t = None
            else (\<exists>!h. on_hub st h t) \<and> dget (hp_topic_refs st) t = Some (int (held t)) \<and> dget (hp_topic_args st) t \<noteq> None)
     \<and> (\<forall>t arg e st'. hyper_acquire_topic t arg st = (Inl e, st') \<longrightarrow>
          held t = 0 \<and> length (hp_hubs st) = hyper_MAX_HUBS \<and> (\<forall>ts\<in>set (hp_hubs st). length ts = hyper_MAX_SUBS_PER_HUB))"
proof (intro conjI allI impI)
  note ok = places_okD [OF places_reached_ok [OF assms]]
  show "length (hp_hubs st) \<le> hyper_MAX_HUBS" by (rule ok(1))
  show "\<forall>ts\<in>set (hp_hubs st). distinct ts \<and> length ts \<le> hyper_MAX_SUBS_PER_HUB" using ok(2) by blast
  show "if held t = 0 then (\<forall>h. \<not> on_hub st h t) \<and> dget (hp_topic_refs st) t = None
      else (\<exists>!h. on_hub st h t) \<and> dget (hp_topic_refs st) t = Some (int (held t)) \<and> dget (hp_topic_args st) t \<noteq> None" for t
    using ok(3) [of t, symmetric] ok(4-6) [of t] by (cases "dget (hp_topic_hub st) t") auto
  fix t arg e st' assume refused: "hyper_acquire_topic t arg st = (Inl e, st')"
  then have none: "hyper_place st t = None" by (simp add: hyper_acquire_topic_def split: option.splits prod.splits)
  then have new: "dget (hp_topic_hub st) t = None" by (cases "dget (hp_topic_hub st) t") (simp_all add: hyper_place_def)
  then show "held t = 0" using ok(4) by simp
  from new have full: "hyper_MAX_HUBS \<le> length (hp_hubs st) \<and> (\<forall>i < length (hp_hubs st). hyper_MAX_SUBS_PER_HUB \<le> length (hp_hubs st ! i))"
    by (cases rule: hyper_place_new) (simp_all add: none)
  then show "length (hp_hubs st) = hyper_MAX_HUBS" using ok(1) by simp
  show "\<forall>ts\<in>set (hp_hubs st). length ts = hyper_MAX_SUBS_PER_HUB"
    using full ok(2) by (auto simp: in_set_conv_nth intro!: le_antisym)
qed

lemma places_reached_two:
  "places_reached (snd (hyper_acquire_topic ''bbo:BTC'' PNone (snd (hyper_acquire_topic ''bbo:BTC'' PNone hyper_no_places))))
     ((\<lambda>t. 0)(''bbo:BTC'' := 2))"
proof -
  let ?t = "''bbo:BTC''"
  have one: "places_reached (snd (hyper_acquire_topic ?t PNone hyper_no_places)) ((\<lambda>t. 0)(?t := Suc ((\<lambda>t. 0) ?t)))"
    by (rule places_reached.acquired [OF places_reached.start]) code_simp
  have "places_reached (snd (hyper_acquire_topic ?t PNone (snd (hyper_acquire_topic ?t PNone hyper_no_places))))
      (((\<lambda>t. 0)(?t := Suc ((\<lambda>t. 0) ?t)))(?t := Suc (((\<lambda>t. 0)(?t := Suc ((\<lambda>t. 0) ?t))) ?t)))"
    by (rule places_reached.acquired [OF one]) code_simp
  then show ?thesis by (simp add: numeral_2_eq_2)
qed

text \<open>Two subscribers of one topic share its place on the first connection.\<close>

theorem hyper_topics_placed_witness:
  "\<exists>st. hp_hubs st = [[''bbo:BTC'']] \<and> dget (hp_topic_refs st) ''bbo:BTC'' = Some 2 \<and> (\<exists>!h. on_hub st h ''bbo:BTC'')"
proof -
  let ?st = "snd (hyper_acquire_topic ''bbo:BTC'' PNone (snd (hyper_acquire_topic ''bbo:BTC'' PNone hyper_no_places)))"
  have "\<exists>!h. on_hub ?st h ''bbo:BTC''" "dget (hp_topic_refs ?st) ''bbo:BTC'' = Some 2"
    using hyper_topics_placed [OF places_reached_two] by auto
  moreover have "hp_hubs ?st = [[''bbo:BTC'']]" by code_simp
  ultimately show ?thesis by blast
qed

section \<open>Extremes of the ticker\<close>

lemma flt_self [simp]: "\<not> flt x x"
  by (cases x) simp_all

lemma widen_some: "\<exists>h l. widen close ext = (Some h, Some l) \<and> \<not> flt h close \<and> \<not> flt close l"
  by (cases "fst ext"; cases "snd ext") (auto simp: widen_def)

text \<open>A price that is taken in never narrows the range.\<close>

lemma flt_back: "flt a b \<Longrightarrow> \<not> flt b a"
  by (cases a; cases b) auto

lemma widen_wider:
  assumes "widen close ext = (Some h, Some l)"
  shows "fst ext = Some h0 \<Longrightarrow> \<not> flt h h0" "snd ext = Some l0 \<Longrightarrow> \<not> flt l0 l"
  using assms by (auto simp: widen_def dest: flt_back split: option.splits if_splits)

definition in_range :: "ticker \<Rightarrow> bool" where
  "in_range t \<longleftrightarrow> \<not> flt (tk_high_24h t) (tk_price t) \<and> \<not> flt (tk_price t) (tk_low_24h t)"

lemma required_Inr: "required x = Inr v \<longleftrightarrow> x = Some v"
  by (cases x) simp_all

lemma hyper_tick_row_fields:
  assumes "hyper_tick_row mt model_sym quote close ext ctx ts = Inr t"
  shows "tk_price t = close \<and> ext = (Some (tk_high_24h t), Some (tk_low_24h t))"
  using assms by (cases ext) (auto simp: hyper_tick_row_def hyper_ticker_def bindr_Inr_iff required_Inr)

lemma hyper_rest_range:
  assumes "hyper_get_ticker env mt symbol w = (Inr t, w')" "flt (Fin 0) (tk_price t)"
  shows "in_range t"
proof -
  obtain row ctx model_sym coin quote close prev high low w1 w2 ts where
    ext: "hyper_high_low_24h_cached env coin close w1 = (Inr (high, low), w2)" and
    row: "hyper_ticker mt model_sym quote close prev (or_close close high) (or_close close low) ctx = Inr row" "t = row ts"
    using assms(1) unfolding hyper_get_ticker_def bindw_Inr_iff
    by (auto simp: liftw_def bindw_Inr_iff retw_def split: if_splits sum.splits)
  have t: "tk_price t = close" "tk_high_24h t = or_close close high" "tk_low_24h t = or_close close low"
    using row by (auto simp: hyper_ticker_def bindr_Inr_iff)
  have "\<exists>e. (high, low) = widen close e"
    using ext assms(2) t(1) unfolding hyper_high_low_24h_cached_def bindw_Inr_iff by (auto split: if_splits) metis
  then obtain e where e: "(high, low) = widen close e" by blast
  obtain h l where "widen close e = (Some h, Some l)" "\<not> flt h close" "\<not> flt close l"
    using widen_some by blast
  then show ?thesis using e t by (simp add: in_range_def or_close_def)
qed

text \<open>The frame reads the extremes of the candles anew.\<close>

definition reseeds :: "pyfloat \<Rightarrow> hyper_tick \<Rightarrow> bool" where
  "reseeds reseed_at f \<longleftrightarrow> fle reseed_at (hk_now f) \<and> (case hk_seed f of Inr (Some h, low) \<Rightarrow> True | _ \<Rightarrow> False)"

text \<open>
  C39. The range of a ticker of Hyperliquid has its price in it: on REST whenever the price is
  positive, and on the WebSocket on every frame that does not read the extremes of the candles anew;
  there the range is the one kept, which the price can only have widened.
\<close>

theorem hyper_ticker_extremes:
  shows "(hyper_get_ticker env mt symbol w = (Inr t, w') \<and> flt (Fin 0) (tk_price t) \<longrightarrow> in_range t)
   \<and> (hyper_ticker_step mt' model_sym quote (ext, reseed_at) f = (day, [u], fin) \<and> \<not> reseeds reseed_at f \<longrightarrow>
        in_range u \<and> fst day = (Some (tk_high_24h u), Some (tk_low_24h u))
        \<and> (\<forall>h. fst ext = Some h \<longrightarrow> \<not> flt (tk_high_24h u) h) \<and> (\<forall>l. snd ext = Some l \<longrightarrow> \<not> flt l (tk_low_24h u)))"
proof (intro conjI impI; (elim conjE)?)
  show "in_range t" if "hyper_get_ticker env mt symbol w = (Inr t, w')" "flt (Fin 0) (tk_price t)"
    by (rule hyper_rest_range [OF that])
next
  assume step: "hyper_ticker_step mt' model_sym quote (ext, reseed_at) f = (day, [u], fin)" "\<not> reseeds reseed_at f"
  let ?read = "bindr (hyper_ctx (hk_msg f)) (\<lambda>ctx. bindr (bindr (first_truthy ctx [''midPx'', ''markPx''] (PInt 0)) py_float) (\<lambda>close. Inr (ctx, close)))"
  obtain ctx close where read: "?read = Inr (ctx, close)" "\<not> fle close (Fin 0)"
    using step(1) by (cases ?read) (auto simp: hyper_ticker_step_def Let_def split: if_splits)
  obtain seed where seed: "(if fle reseed_at (hk_now f) then hk_seed f else Inr (widen close ext)) = Inr seed"
    using step(1) read by (cases "if fle reseed_at (hk_now f) then hk_seed f else Inr (widen close ext)")
      (auto simp: hyper_ticker_step_def Let_def)
  have kept: "(if fst seed = None then widen close ext else seed) = widen close ext"
    using seed step(2) by (cases seed) (auto simp: reseeds_def split: if_splits option.splits)
  have row: "hyper_tick_row mt' model_sym quote close (widen close ext) ctx (hk_ms f) = Inr u" "fst day = widen close ext"
    using step(1) read seed kept by (auto simp: hyper_ticker_step_def Let_def split: sum.splits)
  obtain h l where wide: "widen close ext = (Some h, Some l)" "\<not> flt h close" "\<not> flt close l"
    using widen_some by blast
  have u: "tk_price u = close" "tk_high_24h u = h" "tk_low_24h u = l"
    using hyper_tick_row_fields [OF row(1)] wide(1) by auto
  show "in_range u" using u wide(2,3) by (simp add: in_range_def)
  show "fst day = (Some (tk_high_24h u), Some (tk_low_24h u))" using row(2) wide(1) u by simp
  show "\<forall>h. fst ext = Some h \<longrightarrow> \<not> flt (tk_high_24h u) h" "\<forall>l. snd ext = Some l \<longrightarrow> \<not> flt l (tk_low_24h u)"
    using widen_wider [OF wide(1)] u by auto
qed

definition tick_10 :: hyper_tick where
  "tick_10 = \<lparr>hk_msg = PDict [(''data'', PDict [(''ctx'', PDict [(''midPx'', PFloat (Fin 10))])])],
     hk_now = Fin 1, hk_restart = Fin 1, hk_seed = Inr (Some (Fin 9), Some (Fin 8)), hk_ms = 7\<rparr>"

lemma tick_10_row: "\<exists>day t. hyper_ticker_step Linear ''BTCUSDC'' ''USDC'' ((Some (Fin 9), Some (Fin 8)), Fin 0) tick_10 = (day, [t], Next)
    \<and> tk_price t = Fin 10 \<and> tk_high_24h t = Fin 9"
proof -
  let ?ctx = "PDict [(''midPx'', PFloat (Fin 10))]"
  have ctx: "hyper_ctx (hk_msg tick_10) = Inr ?ctx"
    by (simp add: hyper_ctx_def tick_10_def get_else_def py_or_def)
  have "hyper_tick_row Linear ''BTCUSDC'' ''USDC'' (Fin 10) (Some (Fin 9), Some (Fin 8)) ?ctx 7 =
      Inr \<lparr>tk_symbol = ''BTCUSDC'', tk_market_type = Linear, tk_quote = ''USDC'', tk_price = Fin 10, tk_open_24h = Fin 0,
        tk_high_24h = Fin 9, tk_low_24h = Fin 8,
        tk_volume_24h = \<lparr>vv_native = Fin 0, vv_unit = Base, vv_contract_size = None, vv_usd = Fin 0,
          vv_usd_basis = \<lparr>ub_method = ByClose, ub_close = None, ub_close_ts = None\<rparr>\<rparr>,
        tk_price_change_percent = Fin 0, tk_timestamp = 7\<rparr>"
    by (simp add: hyper_tick_row_def hyper_ticker_def get_or_zero_def get_else_def py_or_def build_volume_value_def
        UsdBasis_def VolumeValue_def day_change_def float_of_int_def unit_of_def)
  then show ?thesis using ctx
    by (simp add: hyper_ticker_step_def Let_def widen_def tick_10_def fle_def)
qed

text \<open>On REST a price of 10 takes the cached high of 9 with it.\<close>

definition rest_demo :: "unit hyper_env" where
  "rest_demo = \<lparr>hy_env = \<lparr>env_request = (\<lambda>t b. liftw (Inl (TransportError []))),
     env_info = (\<lambda>m s. retw (Some \<lparr>si_symbol = s, si_native_symbol = ''@1'', si_base_asset = ''HYPE'', si_quote_asset = ''USDC'',
       si_price_precision = 0, si_quantity_precision = 0, si_min_qty = None, si_max_qty = None, si_min_notional = None,
       si_qty_unit = Base, si_contract_size = None, si_funding = None, si_tick_size = None, si_qty_step = None\<rparr>)),
     env_cycle = (\<lambda>m s. retw None), env_now_ms = retw 7, env_iso = (\<lambda>s. None)\<rparr>,
     hy_monotonic = retw (Fin 1), hy_acquire = (\<lambda>k. retw ())\<rparr>"

definition rest_world :: "unit hyper_world" where
  "rest_world = \<lparr>hw_ctx = [(''spot'', (Fin 0, PList [PNone, PList [PDict [(''coin'', PStr ''@1''), (''midPx'', PFloat (Fin 10))]]]))],
     hw_hl = [(''@1'', (Fin 0, Some (Fin 9), Some (Fin 8)))], hw_metas = [], hw_metas_at = 0, hw_world = ()\<rparr>"

lemma rest_demo_answers:
  "\<exists>t w'. hyper_get_ticker rest_demo Spot ''HYPEUSDC'' rest_world = (Inr t, w') \<and> tk_price t = Fin 10"
proof -
  let ?ctx = "PDict [(''coin'', PStr ''@1''), (''midPx'', PFloat (Fin 10))]"
  define m where "m = hyperliquid_get_model_symbol (hyperliquid_get_api_symbol ''HYPEUSDC'' Spot) Spot"
  have one: "fsub (Fin 1) (Fin 0) = Fin 1" using round64_int [of 1] by (simp add: fsub_Fin)
  have "hyper_lookup rest_demo Spot ''HYPEUSDC'' w = (Inr (m, ''@1'', ''USDC''), w)" for w
    by (simp add: hyper_lookup_def Let_def rest_demo_def bindw_def retw_def m_def)
  moreover have "hyper_asset_ctx rest_demo Spot ''@1'' rest_world = (Inr ?ctx, rest_world)"
    by (simp add: hyper_asset_ctx_def hyper_ctx_snapshot_def hyper_kept_def rest_demo_def rest_world_def bindw_def retw_def liftw_def
        one found_ctx_def)
  moreover have "hyper_high_low_24h_cached rest_demo ''@1'' (Fin 10) rest_world =
      (Inr (Some (Fin 10), Some (Fin 8)), rest_world\<lparr>hw_hl := [(''@1'', (Fin 0, Some (Fin 10), Some (Fin 8)))]\<rparr>)"
    by (simp add: hyper_high_low_24h_cached_def hyper_seed_def rest_demo_def rest_world_def bindw_def retw_def one fle_def widen_def dset_def)
  moreover have "hy_now_ms rest_demo = retw 7" by (simp add: rest_demo_def)
  ultimately show ?thesis
    by (simp add: hyper_get_ticker_def bindw_def retw_def liftw_def hyper_ticker_def get_or_zero_def get_else_def py_or_def
        build_volume_value_def UsdBasis_def VolumeValue_def day_change_def float_of_int_def unit_of_def)
qed

theorem hyper_ticker_extremes_witness:
  "\<exists>t w'. hyper_get_ticker rest_demo Spot ''HYPEUSDC'' rest_world = (Inr t, w') \<and> tk_price t = Fin 10 \<and> in_range t"
proof -
  obtain t w' where t: "hyper_get_ticker rest_demo Spot ''HYPEUSDC'' rest_world = (Inr t, w')" "tk_price t = Fin 10"
    using rest_demo_answers by blast
  then show ?thesis using hyper_ticker_extremes [of rest_demo Spot "''HYPEUSDC''" rest_world t w'] by auto
qed

text \<open>A frame that reads the extremes 9 and 8 anew with a price of 10: its ticker is out of range.\<close>

lemma hyper_ticker_reseed_out_of_range:
  "\<exists>day t. hyper_ticker_step Linear ''BTCUSDC'' ''USDC'' ((Some (Fin 9), Some (Fin 8)), Fin 0) tick_10 = (day, [t], Next) \<and> \<not> in_range t"
  using tick_10_row by (fastforce simp: in_range_def)

end
