(* ===== verification/Lifecycle.thy ===== *)
theory Lifecycle
  imports Caches Gateway
begin

text \<open>
  The life of the adapters of a process: the registry of \<^verbatim>\<open>exchange_router/exchanges/__init__.py\<close>,
  loaded package by package; the background warm-up of \<open>BaseExchange\<close> and what each adapter warms;
  the warm-up of the local backend; and their end. What a package holds is the outcome of importing
  it and of calling each of its adapter classes.
\<close>

section \<open>Loading\<close>

type_synonym 'a package = "(pyexc + 'a) list res"
type_synonym 'a adapters = "(string, 'a) dict"

fun register :: "('a \<Rightarrow> string) \<Rightarrow> (pyexc + 'a) list \<Rightarrow> 'a adapters \<Rightarrow> unit res \<times> 'a adapters" where
  "register nm [] reg = (Inr (), reg)"
| "register nm (Inl e # cs) reg = (Inl e, reg)"
| "register nm (Inr a # cs) reg = register nm cs (dset reg (nm a) a)"

definition load_package :: "('a \<Rightarrow> string) \<Rightarrow> 'a package \<Rightarrow> 'a adapters \<Rightarrow> unit res \<times> 'a adapters" where
  "load_package nm p reg = (case p of Inl e \<Rightarrow> (Inl e, reg) | Inr cs \<Rightarrow> register nm cs reg)"

fun load_exchanges :: "('a \<Rightarrow> string) \<Rightarrow> 'a package list \<Rightarrow> 'a adapters \<Rightarrow> unit res \<times> 'a adapters" where
  "load_exchanges nm [] reg = (Inr (), reg)"
| "load_exchanges nm (p # ps) reg = (case load_package nm p reg of
       (Inr u, reg) \<Rightarrow> load_exchanges nm ps reg
     | (Inl e, reg) \<Rightarrow> if is_exception e then load_exchanges nm ps reg else (Inl e, reg))"

text \<open>\<open>LocalBackend.known_exchanges\<close>\<close>

definition known_exchanges :: "('a \<Rightarrow> string) \<Rightarrow> 'a package list \<Rightarrow> 'a adapters \<Rightarrow> string list res \<times> 'a adapters" where
  "known_exchanges nm packages reg =
     (if reg = [] then case load_exchanges nm packages reg of (r, reg) \<Rightarrow> (map_sum (\<lambda>e. e) (\<lambda>_. dkeys reg) r, reg)
      else (Inr (dkeys reg), reg))"

section \<open>Warming in the background\<close>

datatype warm_task = Running | Ended

text \<open>
  \<open>ad_warm\<close> is there if the adapter overrides \<open>_warm\<close>; \<open>ad_unwind\<close> is what is left of it to run when
  it is cancelled.
\<close>

record 'w adapter =
  ad_name :: string
  ad_warm :: "('w, pyexc, unit) io option"
  ad_unwind :: "('w, pyexc, unit) io"
  ad_shutdown :: "('w, pyexc, unit) io"
  ad_task :: "warm_task option"

definition preload :: "'w adapter \<Rightarrow> 'w adapter" where
  "preload a = (case ad_warm a of None \<Rightarrow> a | Some m \<Rightarrow> a\<lparr>ad_task := Some Running\<rparr>)"

definition run_warm :: "('w, pyexc, unit) io \<Rightarrow> ('w, pyexc, unit) io" where
  "run_warm m w = (case m w of
       (Inl e, w) \<Rightarrow> (if is_exception e then Inr () else Inl e, w)
     | (Inr u, w) \<Rightarrow> (Inr u, w))"

text \<open>\<open>_step\<close> logs and raises again, so a warm-up is its steps up to the first that fails.\<close>

fun warm_steps :: "('w, pyexc, unit) io list \<Rightarrow> ('w, pyexc, unit) io" where
  "warm_steps [] = retw ()"
| "warm_steps (m # ms) = bindw m (\<lambda>_. warm_steps ms)"

definition cancel_warm :: "'w adapter \<Rightarrow> 'w \<Rightarrow> unit res \<times> 'w adapter \<times> 'w" where
  "cancel_warm a w = (let a' = a\<lparr>ad_task := None\<rparr> in
     if ad_task a = Some Running then case run_warm (ad_unwind a) w of
         (Inl e, w) \<Rightarrow> (if e = CancelledError then Inr () else Inl e, a', w)
       | (Inr u, w) \<Rightarrow> (Inr u, a', w)
     else (Inr (), a', w))"

definition startup_exchanges :: "'w adapter package list \<Rightarrow> 'w adapter adapters \<Rightarrow> unit res \<times> 'w adapter adapters" where
  "startup_exchanges packages reg = (case load_exchanges ad_name packages reg of
       (Inl e, reg) \<Rightarrow> (Inl e, reg)
     | (Inr u, reg) \<Rightarrow> (Inr u, map (\<lambda>(k, a). (k, preload a)) reg))"

fun shutdown_each :: "'w adapter adapters \<Rightarrow> 'w \<Rightarrow> unit res \<times> 'w adapter adapters \<times> 'w" where
  "shutdown_each [] w = (Inr (), [], w)"
| "shutdown_each ((k, a) # reg) w = (case cancel_warm a w of
       (Inl e, a, w) \<Rightarrow> (Inl e, (k, a) # reg, w)
     | (Inr u, a, w) \<Rightarrow> (case ad_shutdown a w of
           (Inl e, w) \<Rightarrow> (Inl e, (k, a) # reg, w)
         | (Inr u, w) \<Rightarrow> (case shutdown_each reg w of (r, reg, w) \<Rightarrow> (r, (k, a) # reg, w))))"

definition shutdown_exchanges :: "'w adapter adapters \<Rightarrow> 'w \<Rightarrow> unit res \<times> 'w adapter adapters \<times> 'w" where
  "shutdown_exchanges reg w = (case shutdown_each reg w of
       (Inl e, reg, w) \<Rightarrow> (Inl e, reg, w)
     | (Inr u, reg, w) \<Rightarrow> (Inr u, [], w))"

text \<open>The end of the service: first its streams, then the adapters.\<close>

definition service_stop :: "('w, pyexc, unit) io \<Rightarrow> 'w adapter adapters \<Rightarrow> 'w \<Rightarrow> unit res \<times> 'w adapter adapters \<times> 'w" where
  "service_stop streams_shutdown reg w = (case streams_shutdown w of
       (Inl e, w) \<Rightarrow> (Inl e, reg, w)
     | (Inr u, w) \<Rightarrow> shutdown_exchanges reg w)"

section \<open>What each adapter warms\<close>

datatype warm_step = Info market_type | Funding market_type | SpotMap | SpotWsMap

record warm_plan =
  wp_name :: string
  wp_markets :: "market_type list"
  wp_steps :: "(string \<times> warm_step) list"

definition three_markets :: "(string \<times> warm_step) list" where
  "three_markets = [(''spot_info'', Info Spot), (''linear_info'', Info Linear), (''inverse_info'', Info Inverse)]"

definition binance_plan :: warm_plan where
  "binance_plan = \<lparr>wp_name = ''binance'', wp_markets = [Spot, Linear, Inverse], wp_steps = three_markets\<rparr>"

definition bybit_plan :: warm_plan where
  "bybit_plan = \<lparr>wp_name = ''bybit'', wp_markets = [Spot, Linear, Inverse], wp_steps = three_markets\<rparr>"

definition okx_plan :: warm_plan where
  "okx_plan = \<lparr>wp_name = ''okx'', wp_markets = [Spot, Linear, Inverse],
     wp_steps = [(''linear_info'', Info Linear), (''inverse_info'', Info Inverse),
       (''linear_funding'', Funding Linear), (''inverse_funding'', Funding Inverse)]\<rparr>"

definition kucoin_plan :: warm_plan where
  "kucoin_plan = \<lparr>wp_name = ''kucoin'', wp_markets = [Spot, Linear, Inverse],
     wp_steps = three_markets @ [(''spot_symbol_map'', SpotMap)]\<rparr>"

definition kraken_plan :: warm_plan where
  "kraken_plan = \<lparr>wp_name = ''kraken'', wp_markets = [Spot, Linear, Inverse],
     wp_steps = three_markets @ [(''spot_ws_map'', SpotWsMap)]\<rparr>"

definition hyperliquid_plan :: warm_plan where
  "hyperliquid_plan = \<lparr>wp_name = ''hyperliquid'', wp_markets = [Spot, Linear],
     wp_steps = [(''spot_info'', Info Spot), (''linear_info'', Info Linear)]\<rparr>"

text \<open>\<open>_warm\<close> of an adapter, over the reads it names.\<close>

definition planned_warm :: "(warm_step \<Rightarrow> ('w, pyexc, unit) io) \<Rightarrow> warm_plan \<Rightarrow> ('w, pyexc, unit) io" where
  "planned_warm reads p = warm_steps (map (\<lambda>(name, s). reads s) (wp_steps p))"

text \<open>
  The funding intervals of OKX: the metadata must be read, and then no lookup that fails fails the
  step.
\<close>

definition warm_one :: "(string \<Rightarrow> ('w, pyexc, unit) io) \<Rightarrow> symbol_info \<Rightarrow> ('w, pyexc, unit) io" where
  "warm_one lookup info w = (case lookup (si_native_symbol info) w of
       (Inl e, w) \<Rightarrow> (if is_exception e then Inr () else Inl e, w)
     | (Inr u, w) \<Rightarrow> (Inr (), w))"

text \<open>\<open>asyncio.gather(..., return_exceptions=True)\<close>: the exceptions among the results.\<close>

fun gathered :: "('a \<Rightarrow> ('w, pyexc, unit) io) \<Rightarrow> 'a list \<Rightarrow> 'w \<Rightarrow> pyexc list \<times> 'w" where
  "gathered f [] w = ([], w)"
| "gathered f (x # xs) w = (case f x w of (r, w) \<Rightarrow> case gathered f xs w of (es, w) \<Rightarrow>
     ((case r of Inl e \<Rightarrow> e # es | Inr u \<Rightarrow> es), w))"

definition warm_funding_intervals ::
    "('w, pyexc, (string, symbol_info) dict) io \<Rightarrow> (string \<Rightarrow> ('w, pyexc, unit) io) \<Rightarrow> ('w, pyexc, unit) io" where
  "warm_funding_intervals ensure lookup =
     bindw ensure (\<lambda>cache w. case gathered (\<lambda>(k, info). warm_one lookup info) cache w of (es, w) \<Rightarrow> (Inr (), w))"

section \<open>The local backend\<close>

definition not_enabled :: "string \<Rightarrow> fault" where
  "not_enabled exchange = Coded (mk_error NotFound (PStr (''Exchange '' @ quoted exchange @ '' not found or not enabled'')) (Some 404))"

text \<open>
  The reads of one adapter queue at one lock in the order they were made, so they run one after
  another; \<open>ensure\<close> is \<open>_ensure_info_cache\<close>.
\<close>

fun warm_problems :: "('a \<Rightarrow> market_type list) \<Rightarrow> 'a adapters \<Rightarrow> (string \<Rightarrow> market_type \<Rightarrow> ('w, pyexc, unit) io) \<Rightarrow> string list \<Rightarrow>
    ('w, fault, pyexc list) io" where
  "warm_problems markets reg ensure [] w = (Inr [], w)"
| "warm_problems markets reg ensure (n # ns) w = (case dget reg n of
       None \<Rightarrow> (Inl (not_enabled n), w)
     | Some a \<Rightarrow> (case gathered (ensure n) (markets a) w of (es, w) \<Rightarrow>
         case warm_problems markets reg ensure ns w of (r, w) \<Rightarrow> (map_sum (\<lambda>e. e) (\<lambda>fs. es @ fs) r, w)))"

definition local_warm :: "('a \<Rightarrow> market_type list) \<Rightarrow> 'a adapters \<Rightarrow> (string \<Rightarrow> market_type \<Rightarrow> ('w, pyexc, unit) io) \<Rightarrow> string list \<Rightarrow>
    ('w, fault, unit) io" where
  "local_warm markets reg ensure names w = (case warm_problems markets reg ensure names w of
       (Inl e, w) \<Rightarrow> (Inl e, w)
     | (Inr problems, w) \<Rightarrow>
         (if CancelledError \<in> set problems then Inl (Raised CancelledError)
          else case problems of [] \<Rightarrow> Inr () | p # ps \<Rightarrow> Inl (Raised p), w))"

text \<open>The metadata caches of all adapters, read at the times a clock shows.\<close>

type_synonym 'w cached = "(string \<Rightarrow> info_state) \<times> 'w"

definition venue_ensure :: "('w \<Rightarrow> rat) \<Rightarrow> (string \<Rightarrow> market_type \<Rightarrow> ('w, pyexc, symbol_info list) io) \<Rightarrow> string \<Rightarrow> market_type \<Rightarrow>
    ('w cached, pyexc, unit) io" where
  "venue_ensure clock fetch name mt = (\<lambda>(infos, w). case ensure_info_cache mt (clock w) (fetch name mt) (infos name) w of
     (r, info, w) \<Rightarrow> (map_sum (\<lambda>e. e) (\<lambda>_. ()) r, (infos(name := info), w)))"

end
