(* ===== verification/LifecycleLaws.thy ===== *)
theory LifecycleLaws
  imports Lifecycle
begin

text \<open>
  What the life of the adapters guarantees: a package that fails costs nothing but itself, closing
  cancels before it closes and leaves room for fresh adapters, and a warm-up that has returned
  serves for ever.
\<close>

section \<open>Loading\<close>

fun built_of :: "(pyexc + 'a) list \<Rightarrow> 'a list" where
  "built_of [] = []"
| "built_of (Inl e # cs) = []"
| "built_of (Inr a # cs) = a # built_of cs"

definition built :: "'a package \<Rightarrow> 'a list" where
  "built p = (case p of Inl e \<Rightarrow> [] | Inr cs \<Rightarrow> built_of cs)"

definition faults_of :: "'a package \<Rightarrow> pyexc list" where
  "faults_of p = (case p of Inl e \<Rightarrow> [e] | Inr cs \<Rightarrow> [e. Inl e \<leftarrow> cs])"

definition named_by :: "('a \<Rightarrow> string) \<Rightarrow> 'a list \<Rightarrow> (string \<times> 'a) list" where
  "named_by nm xs = map (\<lambda>a. (nm a, a)) xs"

lemma dict_of_append: "dict_of (xs @ ys) d = dict_of ys (dict_of xs d)"
  by (induction xs d rule: dict_of.induct) simp_all

lemma register_built:
  "\<exists>r. register nm cs reg = (r, dict_of (named_by nm (built_of cs)) reg) \<and> (\<forall>e. r = Inl e \<longrightarrow> e \<in> set [e. Inl e \<leftarrow> cs])"
  by (induction nm cs reg rule: register.induct) (auto simp: named_by_def)

lemma load_package_built:
  "\<exists>r. load_package nm p reg = (r, dict_of (named_by nm (built p)) reg) \<and> (\<forall>e. r = Inl e \<longrightarrow> e \<in> set (faults_of p))"
  using register_built [of nm _ reg] by (cases p) (auto simp: load_package_def built_def faults_of_def named_by_def)

lemma load_all:
  assumes "\<forall>p\<in>set packages. \<forall>e\<in>set (faults_of p). is_exception e"
  shows "load_exchanges nm packages reg = (Inr (), dict_of (named_by nm (concat (map built packages))) reg)"
  using assms
proof (induction packages arbitrary: reg)
  case (Cons p packages)
  obtain r where r: "load_package nm p reg = (r, dict_of (named_by nm (built p)) reg)" "\<forall>e. r = Inl e \<longrightarrow> e \<in> set (faults_of p)"
    using load_package_built by metis
  then show ?case
    using Cons by (cases r) (auto simp: named_by_def dict_of_append)
qed (simp add: named_by_def)

section \<open>Closing\<close>

definition cleared :: "'w adapter \<Rightarrow> 'w adapter" where
  "cleared a = a\<lparr>ad_task := None\<rparr>"

definition cancelled :: "'w adapter \<Rightarrow> 'w \<Rightarrow> 'w" where
  "cancelled a w = (if ad_task a = Some Running then snd (run_warm (ad_unwind a) w) else w)"

lemma cancel_warm_returns: "cancel_warm a w = (Inr (), cleared a, cancelled a w)"
proof -
  have "e = CancelledError" if "run_warm m w = (Inl e, w')" for m e w'
    using that by (cases e) (auto simp: run_warm_def split: prod.splits sum.splits if_splits)
  then show ?thesis
    by (auto simp: cancel_warm_def cleared_def cancelled_def Let_def split: prod.split sum.split)
qed

text \<open>One adapter after the other, each cancelled before it is closed.\<close>

fun closing :: "'w adapter list \<Rightarrow> ('w, pyexc, unit) io" where
  "closing [] = retw ()"
| "closing (a # as) = (\<lambda>w. bindw (ad_shutdown a) (\<lambda>_. closing as) (cancelled a w))"

lemma shutdown_each_closing:
  "\<exists>reg'. shutdown_each reg w = (fst (closing (map snd reg) w), reg', snd (closing (map snd reg) w)) \<and> dkeys reg' = dkeys reg"
proof (induction reg arbitrary: w)
  case (Cons ka reg)
  obtain k a where ka: "ka = (k, a)" by force
  obtain r w' where r: "ad_shutdown a (cancelled a w) = (r, w')" by force
  have down: "ad_shutdown (cleared a) = ad_shutdown a" by (simp add: cleared_def)
  obtain reg' where "shutdown_each reg w' = (fst (closing (map snd reg) w'), reg', snd (closing (map snd reg) w'))" "dkeys reg' = dkeys reg"
    using Cons.IH by blast
  then show ?case
    by (cases r) (auto simp: ka r down bindw_def dkeys_def cancel_warm_returns)
qed (simp add: retw_def)

lemma shutdown_closing:
  "\<exists>reg'. shutdown_exchanges reg w = (fst (closing (map snd reg) w), reg', snd (closing (map snd reg) w))
     \<and> (case fst (closing (map snd reg) w) of Inr u \<Rightarrow> reg' = [] | Inl e \<Rightarrow> dkeys reg' = dkeys reg)"
  using shutdown_each_closing [of reg w] by (cases "fst (closing (map snd reg) w)") (auto simp: shutdown_exchanges_def)

text \<open>When no adapter raises, closing goes through all of them.\<close>

fun closed_world :: "'w adapter list \<Rightarrow> 'w \<Rightarrow> 'w" where
  "closed_world [] w = w"
| "closed_world (a # as) w = closed_world as (snd (ad_shutdown a (cancelled a w)))"

lemma closing_all:
  assumes "list_all (\<lambda>a. \<forall>w. \<exists>w'. ad_shutdown a w = (Inr (), w')) as"
  shows "closing as w = (Inr (), closed_world as w)"
  using assms
proof (induction as arbitrary: w)
  case (Cons a as)
  obtain w' where "ad_shutdown a (cancelled a w) = (Inr (), w')" using Cons.prems by auto
  then show ?case using Cons by (simp add: bindw_def)
qed (simp add: retw_def)

text \<open>
  C25. Closing the adapters of a process cancels and closes every one of them, in their order, a
  running warm-up always before the client it uses, and empties the registry, so that the next local
  router loads fresh adapters, of all packages that load, whatever the others raise. That is as long
  as no adapter raises when it is closed; whatever a cancelled warm-up raises does not stop it.
\<close>

theorem closing_makes_room:
  assumes "\<forall>p\<in>set packages. \<forall>e\<in>set (faults_of p). is_exception e"
    and "list_all (\<lambda>a. \<forall>w. \<exists>w'. ad_shutdown a w = (Inr (), w')) (map snd reg)"
  shows "shutdown_exchanges reg w = (Inr (), [], closed_world (map snd reg) w)
    \<and> known_exchanges ad_name packages (fst (snd (shutdown_exchanges reg w))) =
         (Inr (dkeys (dict_of (named_by ad_name (concat (map built packages))) [])), dict_of (named_by ad_name (concat (map built packages))) [])"
proof -
  obtain reg' where "shutdown_exchanges reg w = (fst (closing (map snd reg) w), reg', snd (closing (map snd reg) w))"
      "case fst (closing (map snd reg) w) of Inr u \<Rightarrow> reg' = [] | Inl e \<Rightarrow> dkeys reg' = dkeys reg"
    using shutdown_closing [of reg w] by (elim exE conjE)
  then have "shutdown_exchanges reg w = (Inr (), [], closed_world (map snd reg) w)"
    by (simp add: closing_all [OF assms(2)])
  then show ?thesis by (simp add: known_exchanges_def load_all [OF assms(1)])
qed

definition demo_adapter :: "string \<Rightarrow> unit res \<Rightarrow> nat \<Rightarrow> nat list adapter" where
  "demo_adapter name r n = \<lparr>ad_name = name, ad_warm = Some (retw ()), ad_unwind = (\<lambda>w. (Inl CancelledError, n # w)),
     ad_shutdown = (\<lambda>w. (r, (n + 1) # w)), ad_task = None\<rparr>"

text \<open>Two adapters of three packages are started; both close, each after its warm-up.\<close>

lemma closing_makes_room_witness:
  "\<exists>reg. startup_exchanges [Inr [Inr (demo_adapter ''a'' (Inr ()) 1)], Inl (OtherError ''import''), Inr [Inr (demo_adapter ''b'' (Inr ()) 5)]] []
       = (Inr (), reg) \<and> shutdown_exchanges reg [] = (Inr (), [], [6, 5, 2, 1])
     \<and> known_exchanges ad_name [Inr [Inr (demo_adapter ''a'' (Inr ()) 1)], Inl (OtherError ''import'')] (fst (snd (shutdown_exchanges reg [])))
       = (Inr [''a''], [(''a'', demo_adapter ''a'' (Inr ()) 1)])"
proof -
  let ?reg = "[(''a'', preload (demo_adapter ''a'' (Inr ()) 1)), (''b'', preload (demo_adapter ''b'' (Inr ()) 5))]"
  let ?packages = "[Inr [Inr (demo_adapter ''a'' (Inr ()) 1)], Inl (OtherError ''import'')] :: nat list adapter package list"
  have "\<forall>p\<in>set ?packages. \<forall>e\<in>set (faults_of p). is_exception e" by (simp add: faults_of_def)
  moreover have "list_all (\<lambda>a. \<forall>w. \<exists>w'. ad_shutdown a w = (Inr (), w')) (map snd ?reg)"
    by (simp add: preload_def demo_adapter_def)
  ultimately have closed: "shutdown_exchanges ?reg [] = (Inr (), [], closed_world (map snd ?reg) [])
      \<and> known_exchanges ad_name ?packages (fst (snd (shutdown_exchanges ?reg []))) =
         (Inr (dkeys (dict_of (named_by ad_name (concat (map built ?packages))) [])), dict_of (named_by ad_name (concat (map built ?packages))) [])"
    by (rule closing_makes_room)
  moreover have "closed_world (map snd ?reg) [] = [6, 5, 2, 1]"
    by (simp add: cancelled_def run_warm_def preload_def demo_adapter_def)
  moreover have "startup_exchanges [Inr [Inr (demo_adapter ''a'' (Inr ()) 1)], Inl (OtherError ''import''), Inr [Inr (demo_adapter ''b'' (Inr ()) 5)]] []
      = (Inr (), ?reg)"
    by (simp add: startup_exchanges_def load_package_def demo_adapter_def dset_def)
  moreover have "dict_of (named_by ad_name (concat (map built ?packages))) [] = [(''a'', demo_adapter ''a'' (Inr ()) 1)]"
    by (simp add: named_by_def built_def demo_adapter_def dset_def)
  moreover note closed
  ultimately have "startup_exchanges [Inr [Inr (demo_adapter ''a'' (Inr ()) 1)], Inl (OtherError ''import''), Inr [Inr (demo_adapter ''b'' (Inr ()) 5)]] []
       = (Inr (), ?reg) \<and> shutdown_exchanges ?reg [] = (Inr (), [], [6, 5, 2, 1])
     \<and> known_exchanges ad_name ?packages (fst (snd (shutdown_exchanges ?reg [])))
       = (Inr [''a''], [(''a'', demo_adapter ''a'' (Inr ()) 1)])"
    by (simp only: dkeys_def list.map fst_conv)
  then show ?thesis by blast
qed

text \<open>
  An adapter that does raise ends the closing: the adapters stay registered, and the next local router
  is handed them, some of them closed.
\<close>

lemma closing_interrupted:
  assumes "shutdown_exchanges reg w = (Inl e, reg', w')"
  shows "known_exchanges ad_name packages reg' = (Inr (dkeys reg), reg')"
proof -
  obtain reg'' where s: "shutdown_exchanges reg w = (fst (closing (map snd reg) w), reg'', snd (closing (map snd reg) w))"
      "case fst (closing (map snd reg) w) of Inr u \<Rightarrow> reg'' = [] | Inl e \<Rightarrow> dkeys reg'' = dkeys reg"
    using shutdown_closing [of reg w] by (elim exE conjE)
  then have keys: "dkeys reg' = dkeys reg" using assms by (auto split: sum.splits)
  have "reg \<noteq> []" using assms by (auto simp: shutdown_exchanges_def)
  then have "reg' \<noteq> []" using keys by (auto simp: dkeys_def)
  then show ?thesis by (simp add: known_exchanges_def keys)
qed

section \<open>Warming\<close>

lemma ensure_fills: "ensure_info_cache mt now f s w = (Inr d, s', w') \<Longrightarrow> info_cache s' mt \<noteq> None"
  by (auto simp: ensure_info_cache_def Let_def split: if_splits prod.splits sum.splits option.splits)

lemma ensure_keeps: "ensure_info_cache mt now f s w = (r, s', w') \<Longrightarrow> info_cache s m \<noteq> None \<Longrightarrow> info_cache s' m \<noteq> None"
  by (auto simp: ensure_info_cache_def Let_def split: if_splits prod.splits sum.splits option.splits)

lemma venue_ensure_keeps:
  assumes "venue_ensure clock fetch n mt c = (r, c')" "info_cache (fst c x) m \<noteq> None"
  shows "info_cache (fst c' x) m \<noteq> None"
proof -
  obtain infos w where c: "c = (infos, w)" by force
  obtain r0 info w0 where e: "ensure_info_cache mt (clock w) (fetch n mt) (infos n) w = (r0, info, w0)" by (metis prod_cases3)
  then show ?thesis using assms ensure_keeps [OF e, of m] by (auto simp: venue_ensure_def c)
qed

lemma venue_ensure_fills: "venue_ensure clock fetch n mt c = (Inr u, c') \<Longrightarrow> info_cache (fst c' n) mt \<noteq> None"
  by (cases c) (auto simp: venue_ensure_def map_sum_Inr_iff split: prod.splits dest!: ensure_fills)

text \<open>What is kept by each read is kept by all, and what each read that succeeds makes true is true of all in the end.\<close>

lemma gathered_keeps:
  assumes "gathered f xs c = (es, c')" "\<And>x c r c'. f x c = (r, c') \<Longrightarrow> P c \<Longrightarrow> P c'" "P c"
  shows "P c'"
  using assms(1,3) by (induction xs arbitrary: c es) (auto split: prod.splits intro: assms(2))

lemma gathered_fills:
  assumes "gathered f xs c = ([], c')" "x \<in> set xs" "\<And>c u c'. f x c = (Inr u, c') \<Longrightarrow> P c'"
    and "\<And>y c r c'. f y c = (r, c') \<Longrightarrow> P c \<Longrightarrow> P c'"
  shows "P c'"
  using assms(1,2)
proof (induction xs arbitrary: c)
  case (Cons y xs)
  obtain r c1 es where s: "f y c = (r, c1)" "gathered f xs c1 = (es, c')" "(case r of Inl e \<Rightarrow> e # es | Inr u \<Rightarrow> es) = []"
    using Cons.prems(1) by (auto split: prod.splits)
  then obtain u where u: "r = Inr u" "es = []" by (cases r) auto
  show ?case
  proof (cases "x \<in> set xs")
    case True
    then show ?thesis using Cons.IH s(2) u(2) by blast
  next
    case False
    then have "P c1" using Cons.prems(2) s(1) u(1) assms(3) by auto
    then show ?thesis using gathered_keeps [OF s(2), of P] assms(4) by blast
  qed
qed simp

lemma warm_problems_keeps:
  assumes "warm_problems markets reg ensure names c = (r, c')" "\<And>n m c r c'. ensure n m c = (r, c') \<Longrightarrow> P c \<Longrightarrow> P c'" "P c"
  shows "P c'"
  using assms(1,3)
proof (induction names arbitrary: c r)
  case (Cons n names)
  then show ?case
    by (fastforce split: option.splits prod.splits dest: gathered_keeps [where P = P, OF _ assms(2)])
qed simp

lemma warm_problems_fills:
  assumes "warm_problems markets reg ensure names c = (Inr [], c')" "n \<in> set names"
    and "\<And>m c u c'. ensure n m c = (Inr u, c') \<Longrightarrow> P m c'" "\<And>m x y c r c'. ensure x y c = (r, c') \<Longrightarrow> P m c \<Longrightarrow> P m c'"
  shows "\<exists>a. dget reg n = Some a \<and> (\<forall>m\<in>set (markets a). P m c')"
  using assms(1,2)
proof (induction names arbitrary: c)
  case (Cons x names)
  obtain a es c1 fs where s: "dget reg x = Some a" "gathered (ensure x) (markets a) c = (es, c1)"
      "warm_problems markets reg ensure names c1 = (Inr fs, c')" "es @ fs = []"
    using Cons.prems(1) by (auto split: option.splits prod.splits sum.splits simp: map_sum_Inr_iff)
  show ?case
  proof (cases "n \<in> set names")
    case True
    then show ?thesis using Cons.IH s(3,4) by simp
  next
    case False
    then have n: "n = x" using Cons.prems(2) by simp
    have "P m c'" if "m \<in> set (markets a)" for m
    proof -
      have "P m c1"
        using gathered_fills [of "ensure x" "markets a" c c1 m "P m"] s(2,4) that assms(3,4) n by blast
      then show ?thesis using warm_problems_keeps [OF s(3), of "P m"] assms(4) by blast
    qed
    then show ?thesis using s(1) n by blast
  qed
qed simp

text \<open>
  C26. When the warm-up of a local router returns, the exchanges it was given are registered and the
  metadata of every market of theirs has been read, and no later read of it fails, whatever the
  venues do from then on and whatever else is read.
\<close>

theorem warm_serves_forever:
  assumes "local_warm markets reg (venue_ensure clock fetch) names c = (Inr (), (infos, w))" "n \<in> set names"
    and "\<forall>(now, f)\<in>set cs. \<forall>w e w'. f w = (Inl e, w') \<longrightarrow> is_exception e"
  shows "\<exists>a. dget reg n = Some a
    \<and> (\<forall>m\<in>set (markets a). \<forall>r\<in>set (fst (calls (ensure_info_cache m) cs (infos n) w')). \<exists>d. r = Inr d)"
proof -
  have "warm_problems markets reg (venue_ensure clock fetch) names c = (Inr [], (infos, w))"
    using assms(1) by (auto simp: local_warm_def split: prod.splits sum.splits if_splits list.splits)
  then have "\<exists>a. dget reg n = Some a \<and> (\<forall>m\<in>set (markets a). info_cache (fst (infos, w) n) m \<noteq> None)"
    by (rule warm_problems_fills [where P = "\<lambda>m c. info_cache (fst c n) m \<noteq> None", OF _ assms(2)])
      (erule venue_ensure_fills, erule (1) venue_ensure_keeps)
  then obtain a where a: "dget reg n = Some a" "\<forall>m\<in>set (markets a). info_cache (infos n) m \<noteq> None"
    unfolding fst_conv by (elim exE conjE)
  have "\<forall>r\<in>set (fst (calls (ensure_info_cache m) cs (infos n) w')). \<exists>d. r = Inr d" if m: "m \<in> set (markets a)" for m
  proof -
    obtain t d where "info_entry m (infos n) = Some (t, d)" using a(2) m by (auto simp: info_entry_def)
    then show ?thesis by (rule info.calls_serve [OF _ assms(3)])
  qed
  then show ?thesis using a(1) by blast
qed

definition demo_fetch :: "string \<Rightarrow> market_type \<Rightarrow> (nat, pyexc, symbol_info list) io" where
  "demo_fetch n m w = (if w < 2 then Inr [] else Inl (TransportError ''down''), Suc w)"

text \<open>Two markets are read, then the venue goes down for good.\<close>

lemma warm_serves_forever_witness:
  "list_all (\<lambda>r. \<not> isl r) (fst (calls (ensure_info_cache Linear) [(90000, demo_fetch ''x'' Linear), (900000, demo_fetch ''x'' Linear)]
      (fst (snd (local_warm (\<lambda>ms. ms) [(''x'', [Spot, Linear])] (venue_ensure (\<lambda>w. 0) demo_fetch) [''x''] ((\<lambda>_. info_init), 0))) ''x'') 2))"
proof -
  let ?c = "snd (local_warm (\<lambda>ms. ms) [(''x'', [Spot, Linear])] (venue_ensure (\<lambda>w. 0) demo_fetch) [''x''] ((\<lambda>_. info_init), 0 :: nat))"
  let ?cs = "[(90000, demo_fetch ''x'' Linear), (900000, demo_fetch ''x'' Linear)]"
  have run: "local_warm (\<lambda>ms. ms) [(''x'', [Spot, Linear])] (venue_ensure (\<lambda>w. 0) demo_fetch) [''x''] ((\<lambda>_. info_init), 0) = (Inr (), (fst ?c, snd ?c))"
    by (simp add: local_warm_def venue_ensure_def ensure_info_cache_def demo_fetch_def info_init_def Let_def)
  have down: "\<forall>(now, f)\<in>set ?cs. \<forall>w e w'. f w = (Inl e, w') \<longrightarrow> is_exception e" by (simp add: demo_fetch_def)
  have "\<exists>a. dget [(''x'', [Spot, Linear])] ''x'' = Some a
      \<and> (\<forall>m\<in>set a. \<forall>r\<in>set (fst (calls (ensure_info_cache m) ?cs (fst ?c ''x'') 2)). \<exists>d. r = Inr d)"
    by (rule warm_serves_forever [OF run _ down]) simp
  then have "\<forall>r\<in>set (fst (calls (ensure_info_cache Linear) ?cs (fst ?c ''x'') 2)). \<exists>d. r = Inr d" by (simp del: calls.simps)
  then show ?thesis unfolding list_all_iff by (metis sum.disc(2))
qed

section \<open>What is warmed at the start\<close>

definition ADAPTER_PLANS :: "warm_plan list" where
  "ADAPTER_PLANS = [binance_plan, bybit_plan, okx_plan, kucoin_plan, kraken_plan, hyperliquid_plan]"

text \<open>Every adapter reads the metadata of each of its markets at the start, but for the spot market of OKX.\<close>

lemma plans_cover:
  "list_all (\<lambda>p. list_all (\<lambda>m. list_ex (\<lambda>(name, s). s = Info m) (wp_steps p) = (\<not> (wp_name p = ''okx'' \<and> m = Spot))) (wp_markets p)) ADAPTER_PLANS"
  by code_simp

text \<open>A background warm-up fails nobody.\<close>

lemma run_warm_returns: "(\<And>e w'. m w = (Inl e, w') \<Longrightarrow> is_exception e) \<Longrightarrow> fst (run_warm m w) = Inr ()"
  by (auto simp: run_warm_def split: prod.split sum.split)

end
