(* ===== verification/Rows.thy ===== *)
theory Rows
  imports PyValue
begin

text \<open>
  The rows that the SDK makes of single answers, \<^verbatim>\<open>exchange_router/rows.py\<close>: a dictionary whose
  quantities are spread over columns, with the answer it was made of beside it.
\<close>

section \<open>Division of numbers\<close>

text \<open>
  \<open>a / b\<close>: two integers are divided exactly and rounded once; otherwise both become floats.
\<close>

fun integral :: "pyval \<Rightarrow> int option" where
  "integral (PInt n) = Some n"
| "integral (PBool b) = Some (if b then 1 else 0)"
| "integral v = None"

definition int_ratio :: "int \<Rightarrow> int \<Rightarrow> pyfloat res" where
  "int_ratio a b =
     (if b = 0 then Inl ZeroDivisionError
      else case round64 (of_int a / of_int b) of
          Fin x \<Rightarrow> Inr (Fin x)
        | _ \<Rightarrow> Inl (OverflowError ''integer division result too large for a float''))"

definition no_division :: "pyval \<Rightarrow> pyval \<Rightarrow> pyexc" where
  "no_division a b = TypeError (''unsupported operand type(s) for /: '' @ quoted (type_name a) @ '' and '' @ quoted (type_name b))"

fun as_number :: "pyval \<Rightarrow> pyfloat res option" where
  "as_number (PFloat x) = Some (Inr x)"
| "as_number v = map_option float_of_int (integral v)"

definition py_truediv :: "pyval \<Rightarrow> pyval \<Rightarrow> pyfloat res" where
  "py_truediv a b = (case (integral a, integral b) of
       (Some m, Some n) \<Rightarrow> int_ratio m n
     | _ \<Rightarrow> (case (as_number a, as_number b) of
           (Some x, Some y) \<Rightarrow> bindr x (\<lambda>x. bindr y (fdiv x))
         | _ \<Rightarrow> Inl (no_division a b)))"

definition HOUR_MS :: int where "HOUR_MS = 3600000"

section \<open>Rows\<close>

record row =
  rw_flat :: "(string \<times> pyval) list"
  rw_raw :: pyval

text \<open>\<open>row.name\<close>\<close>

definition row_attribute :: "row \<Rightarrow> string \<Rightarrow> pyval res" where
  "row_attribute r name = (case dget (rw_flat r) name of None \<Rightarrow> Inl (AttributeError name) | Some v \<Rightarrow> Inr v)"

definition entry :: "(string \<times> pyval) list \<Rightarrow> string \<Rightarrow> pyval" where
  "entry d k = (case dget d k of None \<Rightarrow> PNone | Some v \<Rightarrow> v)"

fun qty_parts :: "pyval \<Rightarrow> pyval \<times> pyval \<times> pyval" where
  "qty_parts (PDict d) = (entry d ''native'', entry d ''usd'', entry d ''unit'')"
| "qty_parts v = (PNone, PNone, PNone)"

text \<open>An answer that is not an object has no \<open>get\<close>.\<close>

definition with_object :: "pyval \<Rightarrow> ((string \<times> pyval) list \<Rightarrow> row res) \<Rightarrow> row res" where
  "with_object raw f = (case raw of PDict d \<Rightarrow> f d | v \<Rightarrow> bindr (py_get v []) (\<lambda>_. f []))"

definition copied :: "(string \<times> pyval) list \<Rightarrow> string list \<Rightarrow> (string \<times> pyval) list" where
  "copied d ks = map (\<lambda>k. (k, entry d k)) ks"

definition ticker_row :: "pyval \<Rightarrow> row res" where
  "ticker_row raw = with_object raw (\<lambda>d. case qty_parts (entry d ''volume_24h'') of (native, usd, unit) \<Rightarrow>
     Inr \<lparr>rw_flat = copied d [''symbol'', ''market_type'', ''quote'', ''price'', ''open_24h'', ''high_24h'', ''low_24h''] @
         [(''volume_24h'', native), (''volume_24h_usd'', usd), (''volume_24h_unit'', unit)] @
         copied d [''price_change_percent'', ''timestamp''],
       rw_raw = raw\<rparr>)"

definition book_ticker_row :: "pyval \<Rightarrow> row res" where
  "book_ticker_row raw = with_object raw (\<lambda>d.
     case qty_parts (entry d ''bid_qty'') of (bid_native, bid_usd, unit) \<Rightarrow>
     case qty_parts (entry d ''ask_qty'') of (ask_native, ask_usd, _) \<Rightarrow>
     Inr \<lparr>rw_flat = copied d [''symbol'', ''market_type'', ''quote'', ''bid_price''] @
         [(''bid_qty'', bid_native), (''bid_qty_usd'', bid_usd)] @ copied d [''ask_price''] @
         [(''ask_qty'', ask_native), (''ask_qty_usd'', ask_usd), (''qty_unit'', unit)] @ copied d [''timestamp''],
       rw_raw = raw\<rparr>)"

text \<open>The rate per hour is there when there is a rate and its cycle is not zero.\<close>

definition hourly :: "pyval \<Rightarrow> pyval \<Rightarrow> pyval res" where
  "hourly per_cycle cycle_ms =
     (if per_cycle \<noteq> PNone \<and> truthy cycle_ms
      then bindr (bindr (py_truediv cycle_ms (PInt HOUR_MS)) (\<lambda>h. py_truediv per_cycle (PFloat h))) (\<lambda>x. Inr (PFloat x))
      else Inr PNone)"

definition mark_price_row :: "pyval \<Rightarrow> row res" where
  "mark_price_row raw = with_object raw (\<lambda>d.
     let funding = py_or (entry d ''funding'') (PDict []) in
     bindr (py_get funding ''per_cycle'') (\<lambda>per_cycle.
     bindr (py_get funding ''cycle_ms'') (\<lambda>cycle_ms.
     bindr (hourly per_cycle cycle_ms) (\<lambda>per_hour.
     bindr (py_get funding ''kind'') (\<lambda>kind.
     bindr (if truthy funding then py_get funding ''valid_until_ts'' else Inr PNone) (\<lambda>valid.
     Inr \<lparr>rw_flat = copied d [''symbol'', ''market_type'', ''quote'', ''mark_price'', ''index_price''] @
         [(''funding_kind'', kind), (''funding_per_cycle'', per_cycle), (''funding_cycle_ms'', cycle_ms),
          (''funding_per_hour'', per_hour), (''funding_valid_until_ts'', valid)] @ copied d [''timestamp''],
       rw_raw = raw\<rparr>))))))"

definition set_default :: "(string \<times> pyval) list \<Rightarrow> string \<Rightarrow> pyval \<Rightarrow> (string \<times> pyval) list" where
  "set_default d k v = (if dget d k = None then dset d k v else d)"

fun kind_of :: "pyval \<Rightarrow> pyval" where
  "kind_of (PDict f) = entry f ''kind''"
| "kind_of v = PNone"

definition symbol_info_row :: "pyval \<Rightarrow> row res" where
  "symbol_info_row raw = with_object raw (\<lambda>d.
     let flat = filter (\<lambda>kv. fst kv \<noteq> ''funding'') d;
         flat = set_default (set_default flat ''tick_size'' PNone) ''qty_step'' PNone
     in Inr \<lparr>rw_flat = dset flat ''funding_kind'' (kind_of (entry d ''funding'')), rw_raw = raw\<rparr>)"

end
