(* ===== verification/Frames.thy ===== *)
theory Frames
  imports PyValue
begin

text \<open>
  The frames that the SDK makes of series, \<^verbatim>\<open>exchange_router/frames.py\<close>. A frame is made by pandas,
  which is a parameter: the operations the source calls, on an unknown type of frames. What is
  modelled is what the source does with them: the columns, the attributes and the warnings.
\<close>

section \<open>pandas\<close>

text \<open>
  \<open>pd_normalize\<close> is \<open>pd.json_normalize(rows, sep="_")\<close>, \<open>pd_stamp\<close> sets the column \<open>datetime\<close> from
  the column \<open>timestamp\<close>, \<open>pd_numeric\<close> coerces one column, \<open>pd_cells\<close> are the cells of a column and
  \<open>pd_put\<close> sets them, \<open>pd_isna\<close> tells missing cells, \<open>pd_divide\<close> divides two cells and \<open>pd_is_zero\<close>
  compares one with zero. \<open>pd_frame\<close> is \<open>pd.DataFrame(data, columns=columns)\<close>.
\<close>

record 'df pandas =
  pd_normalize :: "pyval \<Rightarrow> 'df res"
  pd_stamp :: "'df \<Rightarrow> 'df res"
  pd_set_index :: "string \<Rightarrow> 'df \<Rightarrow> 'df"
  pd_sort_index :: "'df \<Rightarrow> 'df"
  pd_rename :: "(string \<times> string) list \<Rightarrow> 'df \<Rightarrow> 'df"
  pd_columns :: "'df \<Rightarrow> string list"
  pd_cells :: "string \<Rightarrow> 'df \<Rightarrow> pyval list res"
  pd_put :: "string \<Rightarrow> pyval list \<Rightarrow> 'df \<Rightarrow> 'df"
  pd_len :: "'df \<Rightarrow> nat"
  pd_reindex :: "string list \<Rightarrow> 'df \<Rightarrow> 'df"
  pd_numeric :: "string \<Rightarrow> 'df \<Rightarrow> 'df"
  pd_frame :: "string list \<Rightarrow> pyval \<Rightarrow> 'df res"
  pd_attrs :: "'df \<Rightarrow> (string \<times> pyval) list"
  pd_update_attrs :: "(string \<times> pyval) list \<Rightarrow> 'df \<Rightarrow> 'df"
  pd_isna :: "pyval \<Rightarrow> bool"
  pd_nunique :: "pyval list \<Rightarrow> nat"
  pd_divide :: "pyval \<Rightarrow> pyval \<Rightarrow> pyval"
  pd_is_zero :: "pyval \<Rightarrow> bool"

section \<open>Tables\<close>

definition frames_SCHEMA_VERSION :: int where "frames_SCHEMA_VERSION = 3"

definition USD_FAMILY :: "string list" where
  "USD_FAMILY = [''USD'', ''USDT'', ''USDC'', ''USDD'', ''TUSD'', ''FDUSD'', ''BUSD'', ''DAI'', ''PYUSD'', ''USDE'', ''USDP'']"

definition TEXT_COLUMNS :: "string list" where
  "TEXT_COLUMNS = [''side'', ''id'', ''agg_id'', ''first_trade_id'', ''last_trade_id'', ''exchange'', ''market_type'', ''symbol'', ''quote'', ''unit'']"

definition COLUMNS :: "(string \<times> string list) list" where
  "COLUMNS = [
     (''candles'', [''open'', ''high'', ''low'', ''close'', ''volume'', ''volume_usd'']),
     (''trades'', [''price'', ''qty'', ''qty_usd'', ''side'', ''id'']),
     (''agg_trades'', [''price'', ''qty'', ''qty_usd'', ''side'', ''agg_id'', ''first_trade_id'', ''last_trade_id'']),
     (''funding_rate'', [''rate'', ''funding_per_hour'', ''cycle_ms'']),
     (''open_interest'', [''open_interest'', ''open_interest_usd'']),
     (''liquidations'', [''price'', ''qty'', ''qty_usd'', ''side'']),
     (''long_short_ratio'', [''ratio'', ''long_account'', ''short_account'']),
     (''margin_tiers'', [''up_to'', ''max_leverage'', ''maintenance_margin_rate'', ''initial_margin_rate'', ''maintenance_deduction''])]"

definition columns_of :: "string \<Rightarrow> string list res" where
  "columns_of route = (case dget COLUMNS route of None \<Rightarrow> Inl (KeyError route) | Some cs \<Rightarrow> Inr cs)"

record frame_ctx =
  cx_exchange :: string
  cx_market_type :: string
  cx_symbol :: string
  cx_requested :: "int option"
  cx_paginated :: bool

type_synonym attrs = "(string \<times> pyval) list"

text \<open>\<open>f"{ctx['exchange']}/{ctx['market_type']}/{ctx['symbol']}"\<close>\<close>

definition place :: "frame_ctx \<Rightarrow> string" where
  "place ctx = cx_exchange ctx @ ''/'' @ cx_market_type ctx @ ''/'' @ cx_symbol ctx"

definition texts :: "string list \<Rightarrow> pyval" where
  "texts ws = PList (map PStr ws)"

definition base_attrs :: "frame_ctx \<Rightarrow> attrs" where
  "base_attrs ctx = [(''exchange'', PStr (cx_exchange ctx)), (''market_type'', PStr (cx_market_type ctx)),
     (''symbol'', PStr (cx_symbol ctx)), (''schema_version'', PInt frames_SCHEMA_VERSION), (''warnings'', texts [])]"

section \<open>Parts\<close>

definition indexed :: "'df pandas \<Rightarrow> pyval \<Rightarrow> 'df res" where
  "indexed pd rows =
     bindr (pd_normalize pd rows) (\<lambda>df.
     bindr (pd_stamp pd df) (\<lambda>df. Inr (pd_sort_index pd (pd_set_index pd ''datetime'' df))))"

definition const_cell :: "'df pandas \<Rightarrow> 'df \<Rightarrow> string \<Rightarrow> pyval res" where
  "const_cell pd df column =
     (if column \<notin> set (pd_columns pd df) then Inr PNone
      else bindr (pd_cells pd column df) (\<lambda>cells. Inr (case filter (\<lambda>v. \<not> pd_isna pd v) cells of [] \<Rightarrow> PNone | v # vs \<Rightarrow> v)))"

fun const_attrs :: "'df pandas \<Rightarrow> 'df \<Rightarrow> (string \<times> string) list \<Rightarrow> attrs \<Rightarrow> attrs res" where
  "const_attrs pd df [] attrs = Inr attrs"
| "const_attrs pd df ((key, column) # ks) attrs =
     bindr (const_cell pd df column) (\<lambda>v. const_attrs pd df ks (dset attrs key v))"

definition coerce :: "'df pandas \<Rightarrow> 'df \<Rightarrow> 'df" where
  "coerce pd df = foldl (\<lambda>df column. if column \<in> set TEXT_COLUMNS then df else pd_numeric pd column df) df (pd_columns pd df)"

definition finalize :: "'df pandas \<Rightarrow> 'df \<Rightarrow> attrs \<Rightarrow> string list \<Rightarrow> string list \<Rightarrow> 'df \<times> string list" where
  "finalize pd df attrs columns warnings =
     (pd_update_attrs pd (dset attrs ''warnings'' (texts warnings)) (coerce pd (pd_reindex pd columns df)), warnings)"

definition empty_message :: "frame_ctx \<Rightarrow> string \<Rightarrow> string" where
  "empty_message ctx route = ''0 rows returned for '' @ place ctx @ '' '' @ route"

definition empty_frame :: "'df pandas \<Rightarrow> frame_ctx \<Rightarrow> string \<Rightarrow> ('df \<times> string list) res" where
  "empty_frame pd ctx route =
     bindr (columns_of route) (\<lambda>columns.
     bindr (pd_frame pd columns (PList [])) (\<lambda>df.
     Inr (pd_update_attrs pd (dset (base_attrs ctx) ''warnings'' (texts [empty_message ctx route])) df, [empty_message ctx route])))"

definition quote_warning :: "pyval \<Rightarrow> frame_ctx \<Rightarrow> string \<Rightarrow> string list" where
  "quote_warning quote ctx route =
     (if truthy quote \<and> quote \<notin> set (map PStr USD_FAMILY)
      then [route @ '' '' @ place ctx @ '': quote='' @ quoted (py_str quote) @ ''; *_usd fields are quote-denominated ('' @
        py_str quote @ ''), not US dollars'']
      else [])"

definition short_message :: "frame_ctx \<Rightarrow> string \<Rightarrow> int \<Rightarrow> int \<Rightarrow> string" where
  "short_message ctx route got requested = route @ '' '' @ place ctx @ '': got '' @ show_int got @ '' of '' @ show_int requested @
     '' requested; pass start= to fetch older history''"

definition short_result_warning :: "'df pandas \<Rightarrow> 'df \<Rightarrow> frame_ctx \<Rightarrow> string \<Rightarrow> string list" where
  "short_result_warning pd df ctx route = (case cx_requested ctx of
       None \<Rightarrow> []
     | Some requested \<Rightarrow>
         if cx_paginated ctx \<and> 0 < pd_len pd df \<and> int (pd_len pd df) < requested
         then [short_message ctx route (int (pd_len pd df)) requested]
         else [])"

text \<open>How many cells of a column are missing, if there is the column.\<close>

definition missing_cells :: "'df pandas \<Rightarrow> 'df \<Rightarrow> string \<Rightarrow> nat res" where
  "missing_cells pd df column =
     (if column \<notin> set (pd_columns pd df) then Inr 0
      else bindr (pd_cells pd column df) (\<lambda>cells. Inr (length (filter (pd_isna pd) cells))))"

definition of_total :: "'df pandas \<Rightarrow> 'df \<Rightarrow> nat \<Rightarrow> string" where
  "of_total pd df missing = show_int (int missing) @ '' of '' @ show_int (int (pd_len pd df))"

section \<open>Series\<close>

definition quantity_attrs :: "(string \<times> string) list" where
  "quantity_attrs = [(''quote'', ''quote''), (''qty_unit'', ''qty_unit''), (''contract_size'', ''qty_contract_size'')]"

definition quote_in :: "attrs \<Rightarrow> pyval" where
  "quote_in attrs = (case dget attrs ''quote'' of None \<Rightarrow> PNone | Some v \<Rightarrow> v)"

text \<open>
  What every builder does: index, rename, read the attributes, collect the warnings, finalize.
\<close>

definition series_frame :: "'df pandas \<Rightarrow> string \<Rightarrow> pyval \<Rightarrow> frame_ctx \<Rightarrow> ('df \<Rightarrow> 'df res) \<Rightarrow> (string \<times> string) list \<Rightarrow>
    ('df \<Rightarrow> attrs \<Rightarrow> string list res) \<Rightarrow> ('df \<times> string list) res" where
  "series_frame pd route rows ctx prepare attr_columns warn =
     bindr (bindr (indexed pd rows) prepare) (\<lambda>df.
     bindr (const_attrs pd df attr_columns (base_attrs ctx)) (\<lambda>attrs.
     bindr (warn df attrs) (\<lambda>warnings.
     bindr (columns_of route) (\<lambda>columns. Inr (finalize pd df attrs columns warnings)))))"

definition candles_frame :: "'df pandas \<Rightarrow> pyval \<Rightarrow> frame_ctx \<Rightarrow> ('df \<times> string list) res" where
  "candles_frame pd rows ctx = series_frame pd ''candles'' rows ctx
     (\<lambda>df. Inr (pd_rename pd [(''volume_native'', ''volume'')] df))
     [(''quote'', ''quote''), (''interval'', ''interval''), (''volume_unit'', ''volume_unit''),
      (''contract_size'', ''volume_contract_size''), (''usd_basis'', ''volume_usd_basis_method'')]
     (\<lambda>df attrs. Inr (short_result_warning pd df ctx ''candles'' @ quote_warning (quote_in attrs) ctx ''candles''))"

definition qty_named :: "'df pandas \<Rightarrow> 'df \<Rightarrow> 'df res" where
  "qty_named pd df = Inr (pd_rename pd [(''qty_native'', ''qty'')] df)"

definition trades_frame :: "'df pandas \<Rightarrow> pyval \<Rightarrow> frame_ctx \<Rightarrow> ('df \<times> string list) res" where
  "trades_frame pd rows ctx = series_frame pd ''trades'' rows ctx (qty_named pd) quantity_attrs
     (\<lambda>df attrs. bindr (missing_cells pd df ''id'') (\<lambda>missing.
       Inr ((if missing = 0 then [] else [''trades '' @ place ctx @ '': '' @ of_total pd df missing @
          '' trades have id=null; sort by timestamp, not id'']) @ quote_warning (quote_in attrs) ctx ''trades'')))"

definition agg_trades_frame :: "'df pandas \<Rightarrow> pyval \<Rightarrow> frame_ctx \<Rightarrow> ('df \<times> string list) res" where
  "agg_trades_frame pd rows ctx = series_frame pd ''agg_trades'' rows ctx (qty_named pd) quantity_attrs
     (\<lambda>df attrs. Inr (short_result_warning pd df ctx ''agg_trades'' @ quote_warning (quote_in attrs) ctx ''agg_trades''))"

text \<open>The rate per hour of a row; a cycle of zero hours leaves the rate as it is.\<close>

definition hour_rate :: "'df pandas \<Rightarrow> pyval \<Rightarrow> pyval \<Rightarrow> pyval" where
  "hour_rate pd rate cycle_ms =
     (let cycle_hours = pd_divide pd cycle_ms (PInt 3600000)
      in if pd_is_zero pd cycle_hours then rate else pd_divide pd rate cycle_hours)"

definition funding_prepared :: "'df pandas \<Rightarrow> 'df \<Rightarrow> 'df res" where
  "funding_prepared pd df =
     (let df = pd_rename pd [(''rate_per_cycle'', ''rate''), (''rate_cycle_ms'', ''cycle_ms'')] df in
      bindr (pd_cells pd ''cycle_ms'' df) (\<lambda>cycles.
      bindr (pd_cells pd ''rate'' df) (\<lambda>rates.
      Inr (pd_put pd ''funding_per_hour'' (map2 (hour_rate pd) rates cycles) df))))"

definition funding_rate_frame :: "'df pandas \<Rightarrow> pyval \<Rightarrow> frame_ctx \<Rightarrow> ('df \<times> string list) res" where
  "funding_rate_frame pd rows ctx = series_frame pd ''funding_rate'' rows ctx (funding_prepared pd)
     [(''quote'', ''quote''), (''funding_kind'', ''rate_kind'')]
     (\<lambda>df attrs. bindr (pd_cells pd ''cycle_ms'' df) (\<lambda>cycles.
       Inr ((if 1 < pd_nunique pd cycles then [''funding_rate '' @ place ctx @
            '': funding cycle changed within the window; funding_per_hour is per-row correct''] else [])
          @ short_result_warning pd df ctx ''funding_rate'')))"

definition open_interest_frame :: "'df pandas \<Rightarrow> pyval \<Rightarrow> frame_ctx \<Rightarrow> ('df \<times> string list) res" where
  "open_interest_frame pd rows ctx = series_frame pd ''open_interest'' rows ctx
     (\<lambda>df. Inr (pd_rename pd [(''open_interest_native'', ''open_interest'')] df))
     [(''quote'', ''quote''), (''interval'', ''interval''), (''oi_unit'', ''open_interest_unit''),
      (''contract_size'', ''open_interest_contract_size''), (''usd_basis'', ''open_interest_usd_basis_method'')]
     (\<lambda>df attrs. bindr (missing_cells pd df ''open_interest_usd'') (\<lambda>missing.
       Inr ((if missing = 0 then [] else [''open_interest '' @ place ctx @ '': '' @ of_total pd df missing @
          '' rows have usd=NaN (join missed; native is populated)''])
          @ short_result_warning pd df ctx ''open_interest'' @ quote_warning (quote_in attrs) ctx ''open_interest'')))"

definition liquidations_frame :: "'df pandas \<Rightarrow> pyval \<Rightarrow> frame_ctx \<Rightarrow> ('df \<times> string list) res" where
  "liquidations_frame pd rows ctx = series_frame pd ''liquidations'' rows ctx (qty_named pd) quantity_attrs
     (\<lambda>df attrs. Inr (quote_warning (quote_in attrs) ctx ''liquidations''))"

definition long_short_ratio_frame :: "'df pandas \<Rightarrow> pyval \<Rightarrow> frame_ctx \<Rightarrow> ('df \<times> string list) res" where
  "long_short_ratio_frame pd rows ctx = series_frame pd ''long_short_ratio'' rows ctx (\<lambda>df. Inr df)
     [(''interval'', ''interval''), (''account_scope'', ''account_scope'')]
     (\<lambda>df attrs. Inr ((if dget attrs ''account_scope'' = Some (PStr ''opaque'')
          then [''long_short_ratio '' @ place ctx @ '': account breakdown unavailable (account_scope='' @ quoted ''opaque'' @
            ''); long_account/short_account are NaN''] else [])
        @ short_result_warning pd df ctx ''long_short_ratio''))"

definition BUILDERS :: "(string \<times> ('df pandas \<Rightarrow> pyval \<Rightarrow> frame_ctx \<Rightarrow> ('df \<times> string list) res)) list" where
  "BUILDERS = [(''candles'', candles_frame), (''trades'', trades_frame), (''agg_trades'', agg_trades_frame),
     (''funding_rate'', funding_rate_frame), (''open_interest'', open_interest_frame), (''liquidations'', liquidations_frame),
     (''long_short_ratio'', long_short_ratio_frame)]"

definition build_frame :: "'df pandas \<Rightarrow> string \<Rightarrow> pyval \<Rightarrow> frame_ctx \<Rightarrow> ('df \<times> string list) res" where
  "build_frame pd route rows ctx =
     (if \<not> truthy rows then empty_frame pd ctx route
      else case dget BUILDERS route of None \<Rightarrow> Inl (KeyError route) | Some f \<Rightarrow> f pd rows ctx)"

section \<open>Books, tiers and provenance\<close>

text \<open>\<open>[{"side": side, "price": p, "qty": q} for p, q in levels]\<close>\<close>

definition book_record :: "string \<Rightarrow> pyval \<Rightarrow> pyval res" where
  "book_record side level = bindr (py_iter level) (\<lambda>vs. case vs of
       [p, q] \<Rightarrow> Inr (PDict [(''side'', PStr side), (''price'', p), (''qty'', q)])
     | _ \<Rightarrow> Inl (ValueError ''wrong number of values to unpack (expected 2)''))"

definition book_records :: "pyval \<Rightarrow> string \<Rightarrow> string \<Rightarrow> pyval list res" where
  "book_records data key side =
     bindr (py_get data key) (\<lambda>v. bindr (py_iter (py_or v (PList []))) (mapr (book_record side)))"

definition table_attrs :: "frame_ctx \<Rightarrow> pyval \<Rightarrow> string \<Rightarrow> string list \<Rightarrow> attrs res" where
  "table_attrs ctx data unit_key warnings =
     bindr (py_get data ''quote'') (\<lambda>quote.
     bindr (py_get data unit_key) (\<lambda>unit.
     bindr (py_get data ''timestamp'') (\<lambda>ts.
     Inr [(''exchange'', PStr (cx_exchange ctx)), (''market_type'', PStr (cx_market_type ctx)), (''symbol'', PStr (cx_symbol ctx)),
       (''quote'', quote), (unit_key, unit), (''timestamp'', ts), (''schema_version'', PInt frames_SCHEMA_VERSION),
       (''warnings'', texts warnings)])))"

definition orderbook_frame :: "'df pandas \<Rightarrow> pyval \<Rightarrow> frame_ctx \<Rightarrow> 'df res" where
  "orderbook_frame pd data ctx =
     bindr (book_records data ''bids'' ''bid'') (\<lambda>bids.
     bindr (book_records data ''asks'' ''ask'') (\<lambda>asks.
     bindr (pd_frame pd [''side'', ''price'', ''qty''] (PList (bids @ asks))) (\<lambda>df.
     bindr (table_attrs ctx data ''qty_unit'' []) (\<lambda>attrs.
     Inr (pd_update_attrs pd attrs (pd_numeric pd ''qty'' (pd_numeric pd ''price'' df)))))))"

definition tiers_message :: "frame_ctx \<Rightarrow> string" where
  "tiers_message ctx = ''0 tiers returned for '' @ place ctx @ '' margin_tiers''"

definition margin_tiers_frame :: "'df pandas \<Rightarrow> pyval \<Rightarrow> frame_ctx \<Rightarrow> 'df res" where
  "margin_tiers_frame pd data ctx =
     bindr (py_get data ''tiers'') (\<lambda>v. let tiers = py_or v (PList []) in
     bindr (columns_of ''margin_tiers'') (\<lambda>columns.
     bindr (pd_frame pd columns tiers) (\<lambda>df.
     bindr (table_attrs ctx data ''up_to_unit'' (if truthy tiers then [] else [tiers_message ctx])) (\<lambda>attrs.
     Inr (pd_update_attrs pd attrs (coerce pd df))))))"

definition attr_or_none :: "attrs \<Rightarrow> string \<Rightarrow> pyval" where
  "attr_or_none attrs k = (case dget attrs k of None \<Rightarrow> PNone | Some v \<Rightarrow> v)"

text \<open>A value set as a column fills it.\<close>

definition fill :: "'df pandas \<Rightarrow> string \<Rightarrow> pyval \<Rightarrow> 'df \<Rightarrow> 'df" where
  "fill pd column v df = pd_put pd column (replicate (pd_len pd df) v) df"

definition with_provenance :: "'df pandas \<Rightarrow> 'df \<Rightarrow> 'df" where
  "with_provenance pd df =
     (let attrs = pd_attrs pd df; at_key = attr_or_none attrs
      in pd_update_attrs pd attrs (fill pd ''unit''
           (py_or (at_key ''volume_unit'') (py_or (at_key ''qty_unit'') (py_or (at_key ''oi_unit'') (at_key ''up_to_unit''))))
           (fill pd ''quote'' (at_key ''quote'') (fill pd ''symbol'' (at_key ''symbol'') (fill pd ''exchange'' (at_key ''exchange'') df)))))"

section \<open>What a frame tells\<close>

text \<open>
  What the source relies on of pandas: \<open>reindex\<close> gives the columns it is asked for, an empty frame
  has the columns it is made with, updating the attributes updates them and nothing else, and
  coercing a column keeps the columns and the number of rows.
\<close>

definition pandas_ok :: "'df pandas \<Rightarrow> bool" where
  "pandas_ok pd \<longleftrightarrow>
     (\<forall>a df k. dict_ok a \<longrightarrow> dget (pd_attrs pd (pd_update_attrs pd a df)) k =
        (case dget a k of Some v \<Rightarrow> Some v | None \<Rightarrow> dget (pd_attrs pd df) k))
     \<and> (\<forall>a df. pd_columns pd (pd_update_attrs pd a df) = pd_columns pd df \<and> pd_len pd (pd_update_attrs pd a df) = pd_len pd df)
     \<and> (\<forall>cs df. pd_columns pd (pd_reindex pd cs df) = cs \<and> pd_len pd (pd_reindex pd cs df) = pd_len pd df)
     \<and> (\<forall>c df. c \<in> set (pd_columns pd df) \<longrightarrow> pd_columns pd (pd_numeric pd c df) = pd_columns pd df \<and> pd_len pd (pd_numeric pd c df) = pd_len pd df)
     \<and> (\<forall>cs df. pd_frame pd cs (PList []) = Inr df \<longrightarrow> pd_columns pd df = cs)"

lemma pandas_okD:
  assumes "pandas_ok pd"
  shows "dict_ok a \<Longrightarrow> dget (pd_attrs pd (pd_update_attrs pd a df)) k = (case dget a k of Some v \<Rightarrow> Some v | None \<Rightarrow> dget (pd_attrs pd df) k)"
    "pd_columns pd (pd_update_attrs pd a df) = pd_columns pd df" "pd_len pd (pd_update_attrs pd a df) = pd_len pd df"
    "pd_columns pd (pd_reindex pd cs df) = cs" "pd_len pd (pd_reindex pd cs df) = pd_len pd df"
    "c \<in> set (pd_columns pd df) \<Longrightarrow> pd_columns pd (pd_numeric pd c df) = pd_columns pd df"
    "c \<in> set (pd_columns pd df) \<Longrightarrow> pd_len pd (pd_numeric pd c df) = pd_len pd df"
    "pd_frame pd cs (PList []) = Inr df \<Longrightarrow> pd_columns pd df = cs"
  using assms unfolding pandas_ok_def by blast+

lemma coerce_keeps:
  assumes "pandas_ok pd"
  shows "pd_columns pd (coerce pd df) = pd_columns pd df \<and> pd_len pd (coerce pd df) = pd_len pd df"
proof -
  have "pd_columns pd (foldl (\<lambda>df c. if c \<in> set TEXT_COLUMNS then df else pd_numeric pd c df) df' cs) = pd_columns pd df'
      \<and> pd_len pd (foldl (\<lambda>df c. if c \<in> set TEXT_COLUMNS then df else pd_numeric pd c df) df' cs) = pd_len pd df'"
    if "set cs \<subseteq> set (pd_columns pd df')" for cs df'
    using that by (induction cs arbitrary: df') (auto simp: pandas_okD [OF assms])
  then show ?thesis unfolding coerce_def by blast
qed

text \<open>The attributes every frame has.\<close>

definition provenance :: "frame_ctx \<Rightarrow> string list \<Rightarrow> attrs \<Rightarrow> bool" where
  "provenance ctx ws attrs \<longleftrightarrow> dget attrs ''exchange'' = Some (PStr (cx_exchange ctx))
     \<and> dget attrs ''market_type'' = Some (PStr (cx_market_type ctx)) \<and> dget attrs ''symbol'' = Some (PStr (cx_symbol ctx))
     \<and> dget attrs ''schema_version'' = Some (PInt 3) \<and> dget attrs ''warnings'' = Some (texts ws)"

definition own_keys :: "string list" where
  "own_keys = [''exchange'', ''market_type'', ''symbol'', ''schema_version'', ''warnings'']"

lemma base_provenance: "provenance ctx [] (base_attrs ctx) \<and> dict_ok (base_attrs ctx)"
  by (simp add: provenance_def base_attrs_def frames_SCHEMA_VERSION_def dict_ok_def dkeys_def)

lemma const_attrs_keeps:
  assumes "const_attrs pd df ks attrs = Inr attrs'" "set (map fst ks) \<inter> set own_keys = {}" "provenance ctx ws attrs" "dict_ok attrs"
  shows "provenance ctx ws attrs' \<and> dict_ok attrs'"
  using assms
proof (induction ks arbitrary: attrs)
  case (Cons kc ks)
  obtain key column where kc: "kc = (key, column)" by force
  obtain v where v: "const_attrs pd df ks (dset attrs key v) = Inr attrs'"
    using Cons.prems(1) by (auto simp: kc bindr_Inr_iff)
  have "key \<notin> set own_keys" using Cons.prems(2) by (simp add: kc)
  then have "provenance ctx ws (dset attrs key v)"
    using Cons.prems(3) by (auto simp: provenance_def own_keys_def)
  then show ?case using Cons.IH [OF v] Cons.prems(2,4) by simp
qed simp

lemma finalize_tells:
  assumes "pandas_ok pd" "provenance ctx [] attrs" "dict_ok attrs" "finalize pd df0 attrs columns warnings = (df, ws)"
  shows "pd_columns pd df = columns \<and> ws = warnings \<and> provenance ctx ws (pd_attrs pd df) \<and> pd_len pd df = pd_len pd df0"
proof -
  have "dict_ok (dset attrs ''warnings'' (texts warnings))" using assms(3) by simp
  then show ?thesis
    using assms(2,4) coerce_keeps [OF assms(1)]
    by (auto simp: finalize_def pandas_okD [OF assms(1)] provenance_def)
qed

lemma series_tells:
  assumes "pandas_ok pd" "series_frame pd route rows ctx prepare ks warn = Inr (df, ws)" "set (map fst ks) \<inter> set own_keys = {}"
  obtains df0 attrs where "warn df0 attrs = Inr ws" "columns_of route = Inr (pd_columns pd df)" "provenance ctx ws (pd_attrs pd df)"
    "pd_len pd df = pd_len pd df0"
proof -
  obtain df0 attrs warnings columns where run: "const_attrs pd df0 ks (base_attrs ctx) = Inr attrs" "warn df0 attrs = Inr warnings"
      "columns_of route = Inr columns" "finalize pd df0 attrs columns warnings = (df, ws)"
    using assms(2) by (auto simp: series_frame_def bindr_Inr_iff)
  have "provenance ctx [] attrs \<and> dict_ok attrs"
    using const_attrs_keeps [OF run(1) assms(3)] base_provenance by blast
  then have "pd_columns pd df = columns \<and> ws = warnings \<and> provenance ctx ws (pd_attrs pd df) \<and> pd_len pd df = pd_len pd df0"
    using finalize_tells [OF assms(1) _ _ run(4)] by blast
  then show ?thesis using run that by blast
qed

lemma columns_of_Inr [simp]: "columns_of route = Inr cs \<longleftrightarrow> dget COLUMNS route = Some cs"
  by (simp add: columns_of_def split: option.split)

lemma empty_tells:
  assumes "pandas_ok pd" "empty_frame pd ctx route = Inr (df, ws)"
  shows "dget COLUMNS route = Some (pd_columns pd df) \<and> provenance ctx ws (pd_attrs pd df) \<and> ws = [empty_message ctx route]"
proof -
  obtain columns df0 where run: "dget COLUMNS route = Some columns" "pd_frame pd columns (PList []) = Inr df0"
      "df = pd_update_attrs pd (dset (base_attrs ctx) ''warnings'' (texts [empty_message ctx route])) df0" "ws = [empty_message ctx route]"
    using assms(2) by (auto simp: empty_frame_def bindr_Inr_iff)
  moreover have "dict_ok (dset (base_attrs ctx) ''warnings'' (texts ws))" using base_provenance by simp
  moreover have "provenance ctx [] (base_attrs ctx)" using base_provenance by blast
  ultimately show ?thesis by (auto simp: pandas_okD [OF assms(1)] provenance_def)
qed

lemmas builder_defs = candles_frame_def trades_frame_def agg_trades_frame_def funding_rate_frame_def open_interest_frame_def
  liquidations_frame_def long_short_ratio_frame_def

text \<open>The attribute keys that are set do not hide the ones every frame has, and a short result is told.\<close>

lemma builder_tells:
  assumes "pandas_ok pd" "dget BUILDERS route = Some f" "f pd rows ctx = Inr (df, ws)"
  shows "dget COLUMNS route = Some (pd_columns pd df) \<and> provenance ctx ws (pd_attrs pd df)
    \<and> (route \<notin> {''trades'', ''liquidations''} \<longrightarrow> (\<exists>df0. pd_len pd df0 = pd_len pd df \<and> set (short_result_warning pd df0 ctx route) \<subseteq> set ws))"
proof -
  consider "route = ''candles''" "f = candles_frame" | "route = ''trades''" "f = trades_frame" | "route = ''agg_trades''" "f = agg_trades_frame"
    | "route = ''funding_rate''" "f = funding_rate_frame" | "route = ''open_interest''" "f = open_interest_frame"
    | "route = ''liquidations''" "f = liquidations_frame" | "route = ''long_short_ratio''" "f = long_short_ratio_frame"
    using assms(2) by (auto simp: BUILDERS_def split: if_splits)
  then show ?thesis
  proof cases
    case 1
    from assms(3) [unfolded 1(2) candles_frame_def] show ?thesis unfolding 1(1)
      by (rule series_tells [OF assms(1)]) (auto simp: own_keys_def)
  next
    case 2
    from assms(3) [unfolded 2(2) trades_frame_def] show ?thesis unfolding 2(1)
      by (rule series_tells [OF assms(1)]) (auto simp: own_keys_def quantity_attrs_def)
  next
    case 3
    from assms(3) [unfolded 3(2) agg_trades_frame_def] show ?thesis unfolding 3(1)
      by (rule series_tells [OF assms(1)]) (auto simp: own_keys_def quantity_attrs_def)
  next
    case 4
    from assms(3) [unfolded 4(2) funding_rate_frame_def] show ?thesis unfolding 4(1)
      by (rule series_tells [OF assms(1)]) (auto simp: own_keys_def bindr_Inr_iff)
  next
    case 5
    from assms(3) [unfolded 5(2) open_interest_frame_def] show ?thesis unfolding 5(1)
      by (rule series_tells [OF assms(1)]) (auto simp: own_keys_def bindr_Inr_iff)
  next
    case 6
    from assms(3) [unfolded 6(2) liquidations_frame_def] show ?thesis unfolding 6(1)
      by (rule series_tells [OF assms(1)]) (auto simp: own_keys_def quantity_attrs_def)
  next
    case 7
    from assms(3) [unfolded 7(2) long_short_ratio_frame_def] show ?thesis unfolding 7(1)
      by (rule series_tells [OF assms(1)]) (auto simp: own_keys_def)
  qed
qed

lemma build_provenance:
  assumes "pandas_ok pd" "build_frame pd route rows ctx = Inr (df, ws)"
  shows "dget COLUMNS route = Some (pd_columns pd df) \<and> provenance ctx ws (pd_attrs pd df)"
proof (cases "truthy rows")
  case False
  then show ?thesis using empty_tells [OF assms(1)] assms(2) by (simp add: build_frame_def)
next
  case True
  then show ?thesis using builder_tells [OF assms(1)] assms(2) by (auto simp: build_frame_def split: option.splits)
qed

text \<open>
  C24. Whatever the route and the rows, a frame that is built has exactly the columns of its route,
  carries the exchange, the market, the symbol, the schema version and the very warnings that are
  handed on; no rows give one warning that says so, and a paginated route other than the trades and
  the liquidations that answers fewer rows than were asked for always says how many.
\<close>

theorem frame_tells:
  assumes "pandas_ok pd" "build_frame pd route rows ctx = Inr (df, ws)"
  shows "dget COLUMNS route = Some (pd_columns pd df) \<and> provenance ctx ws (pd_attrs pd df)
    \<and> (\<not> truthy rows \<longrightarrow> ws = [empty_message ctx route])
    \<and> (truthy rows \<and> route \<notin> {''trades'', ''liquidations''} \<and> cx_paginated ctx \<and> cx_requested ctx = Some n
        \<and> 0 < pd_len pd df \<and> int (pd_len pd df) < n \<longrightarrow> short_message ctx route (int (pd_len pd df)) n \<in> set ws)"
proof (cases "truthy rows")
  case False
  then show ?thesis using build_provenance [OF assms] empty_tells [OF assms(1)] assms(2) by (simp add: build_frame_def)
next
  case True
  then obtain f where f: "dget BUILDERS route = Some f" "f pd rows ctx = Inr (df, ws)"
    using assms(2) by (auto simp: build_frame_def split: option.splits)
  then show ?thesis using build_provenance [OF assms] builder_tells [OF assms(1) f] True
    by (auto simp: short_result_warning_def split: if_splits)
qed

section \<open>A frame of lists\<close>

text \<open>Frames as columns, rows and attributes, which have what is relied on.\<close>

type_synonym list_frame = "string list \<times> (string \<times> pyval) list list \<times> attrs"

fun flatten_entry :: "string \<times> pyval \<Rightarrow> (string \<times> pyval) list" where
  "flatten_entry (k, PDict d) = map (\<lambda>(j, v). (k @ ''_'' @ j, v)) d"
| "flatten_entry (k, v) = [(k, v)]"

fun record_entries :: "pyval \<Rightarrow> (string \<times> pyval) list" where
  "record_entries (PDict d) = concat (map flatten_entry d)"
| "record_entries v = []"

fun made_frame :: "string list option \<Rightarrow> pyval \<Rightarrow> list_frame res" where
  "made_frame cs (PList rs) =
     (let rows = map record_entries rs
      in Inr (case cs of Some cs \<Rightarrow> cs | None \<Rightarrow> remdups (map fst (concat rows)), rows, []))"
| "made_frame cs v = Inl (TypeError ''not a list of records'')"

definition cell :: "string \<Rightarrow> (string \<times> pyval) list \<Rightarrow> pyval" where
  "cell c r = attr_or_none r c"

definition list_pandas :: "list_frame pandas" where
  "list_pandas = \<lparr>
     pd_normalize = made_frame None,
     pd_stamp = (\<lambda>(cs, rs, a). if ''timestamp'' \<in> set cs then Inr (cs @ [''datetime''], map (\<lambda>r. (''datetime'', cell ''timestamp'' r) # r) rs, a)
       else Inl (KeyError ''timestamp'')),
     pd_set_index = (\<lambda>c (cs, rs, a). (filter (\<lambda>x. x \<noteq> c) cs, rs, a)),
     pd_sort_index = (\<lambda>df. df),
     pd_rename = (\<lambda>names (cs, rs, a). let new = (\<lambda>c. case dget names c of None \<Rightarrow> c | Some x \<Rightarrow> x) in (map new cs, map (map (\<lambda>(k, v). (new k, v))) rs, a)),
     pd_columns = fst,
     pd_cells = (\<lambda>c (cs, rs, a). if c \<in> set cs then Inr (map (cell c) rs) else Inl (KeyError c)),
     pd_put = (\<lambda>c vs (cs, rs, a). (if c \<in> set cs then cs else cs @ [c], map2 (\<lambda>r v. dset r c v) rs vs, a)),
     pd_len = (\<lambda>(cs, rs, a). length rs),
     pd_reindex = (\<lambda>cs (_, rs, a). (cs, map (\<lambda>r. map (\<lambda>c. (c, cell c r)) cs) rs, a)),
     pd_numeric = (\<lambda>c df. df),
     pd_frame = (\<lambda>cs. made_frame (Some cs)),
     pd_attrs = (\<lambda>(cs, rs, a). a),
     pd_update_attrs = (\<lambda>new (cs, rs, a). (cs, rs, foldl (\<lambda>d (k, v). dset d k v) a new)),
     pd_isna = (\<lambda>v. v = PNone \<or> v = PFloat NaN),
     pd_nunique = (\<lambda>vs. length (remdups vs)),
     pd_divide = (\<lambda>a b. a),
     pd_is_zero = (\<lambda>v. v = PFloat (Fin 0))\<rparr>"

lemma dget_updates:
  assumes "dict_ok new"
  shows "dget (foldl (\<lambda>d (k, v). dset d k v) a new) k = (case dget new k of Some v \<Rightarrow> Some v | None \<Rightarrow> dget a k)"
  using assms
proof (induction new arbitrary: a)
  case (Cons kv new)
  obtain k' v' where kv: "kv = (k', v')" by force
  have new: "dict_ok new" "k' \<notin> set (map fst new)" using Cons.prems by (auto simp: dict_ok_def dkeys_def kv)
  then have "dget new k' = None" by (simp add: dget_def map_of_eq_None_iff)
  moreover have "dget (kv # new) k = (if k = k' then Some v' else dget new k)" by (simp add: kv dget_def)
  ultimately show ?case using Cons.IH [OF new(1), of "dset a k' v'"] by (auto simp: kv split: option.splits)
qed (simp add: dget_def)

lemma list_pandas_ok: "pandas_ok list_pandas"
  by (auto simp: pandas_ok_def list_pandas_def dget_updates split: prod.split option.split)

text \<open>One row of an account ratio where three were asked for.\<close>

lemma frame_tells_witness:
  "\<exists>df ws. build_frame list_pandas ''long_short_ratio'' (PList [PDict [(''timestamp'', PInt 5), (''ratio'', PFloat (Fin 2)), (''account_scope'', PStr ''opaque'')]])
       \<lparr>cx_exchange = ''okx'', cx_market_type = ''linear'', cx_symbol = ''BTCUSDT'', cx_requested = Some 3, cx_paginated = True\<rparr> = Inr (df, ws)
     \<and> fst df = [''ratio'', ''long_account'', ''short_account'']
     \<and> ''long_short_ratio okx/linear/BTCUSDT: got 1 of 3 requested; pass start= to fetch older history'' \<in> set ws"
proof -
  let ?rows = "PList [PDict [(''timestamp'', PInt 5), (''ratio'', PFloat (Fin 2)), (''account_scope'', PStr ''opaque'')]]"
  let ?ctx = "\<lparr>cx_exchange = ''okx'', cx_market_type = ''linear'', cx_symbol = ''BTCUSDT'', cx_requested = Some 3, cx_paginated = True\<rparr>"
  have "(case build_frame list_pandas ''long_short_ratio'' ?rows ?ctx of Inr (df, ws) \<Rightarrow> pd_len list_pandas df = 1 | Inl e \<Rightarrow> False)"
    by code_simp
  then obtain df ws where df: "build_frame list_pandas ''long_short_ratio'' ?rows ?ctx = Inr (df, ws)" "pd_len list_pandas df = 1"
    by (auto split: sum.splits)
  have "show_int 1 = ''1''" "show_int 3 = ''3''" by code_simp+
  with frame_tells [OF list_pandas_ok df(1), of 3] show ?thesis
    using df by (auto simp: short_message_def place_def COLUMNS_def list_pandas_def)
qed

end
