(* ===== verification/Client.thy ===== *)
theory Client
  imports Core Rows Frames
begin

text \<open>
  The calls of the SDK, \<open>AsyncCore\<close> of \<^verbatim>\<open>exchange_router/_core.py\<close> beyond \<open>Core\<close>: the reads with the
  rows and frames they hand out and the warnings they give, \<^verbatim>\<open>exchange_router/_warnings.py\<close>.
\<close>

section \<open>Environment\<close>

text \<open>
  \<open>cl_warn\<close> is \<open>warnings.warn\<close>, which a filter may turn into an exception; \<open>cl_verbose\<close> is the
  setting of the object, \<open>cl_cancel_warm\<close> cancels the warm-up task if it is running, and \<open>cl_describe\<close> is
  the class and the text of an exception.
\<close>

record ('w, 'df) client_env =
  cl_url :: string
  cl_fetch :: "'w backend"
  cl_warm :: "string list \<Rightarrow> ('w, fault, unit) io"
  cl_close :: "('w, fault, unit) io"
  cl_cancel_warm :: "('w, fault, unit) io"
  cl_describe :: "fault \<Rightarrow> string"
  cl_warn :: "string \<Rightarrow> ('w, fault, unit) io"
  cl_verbose :: bool
  cl_pandas :: "'df pandas"

definition outside :: "('w, fault, 'a) io \<Rightarrow> ('w, 'a) core_io" where
  "outside m = (\<lambda>(co, w). case m w of (r, w) \<Rightarrow> (r, (co, w)))"

definition emit :: "('w, 'df) client_env \<Rightarrow> string list \<Rightarrow> bool \<Rightarrow> ('w, unit) core_io" where
  "emit env messages verbose =
     (if \<not> verbose then retw () else bindw (mapw (\<lambda>m. outside (cl_warn env m)) messages) (\<lambda>_. retw ()))"

definition verbosity :: "('w, 'df) client_env \<Rightarrow> bool option \<Rightarrow> bool" where
  "verbosity env verbose = (case verbose of None \<Rightarrow> cl_verbose env | Some b \<Rightarrow> b)"

definition no_query :: query where
  "no_query = \<lparr>q_interval = None, q_period = None, q_start = None, q_limit = None, q_depth = None\<rparr>"

definition client_fetch :: "('w, 'df) client_env \<Rightarrow> market_route \<Rightarrow> string \<Rightarrow> string \<Rightarrow> string \<Rightarrow> query \<Rightarrow> ('w, pyval) core_io" where
  "client_fetch env route exchange mt symbol q =
     core_fetch (cl_url env) (cl_fetch env) (MarketCall route exchange mt symbol q)"

section \<open>The check before a call, with its warning\<close>

text \<open>\<open>depth not in depths\<close>\<close>

fun int_in :: "int \<Rightarrow> pyval \<Rightarrow> bool res" where
  "int_in n (PList xs) = Inr (list_ex (\<lambda>v. integral v = Some n \<or> v = PFloat (Fin (of_int n))) xs)"
| "int_in n (PDict d) = Inr False"
| "int_in n (PStr s) = Inl (TypeError (quoted ''in <string>'' @ '' requires string as left operand, not int''))"
| "int_in n v = Inl (TypeError (''argument of type '' @ quoted (type_name v) @ '' is not iterable''))"

definition depth_warning :: "string \<Rightarrow> string \<Rightarrow> string \<Rightarrow> int \<Rightarrow> pyval \<Rightarrow> string" where
  "depth_warning exchange mt symbol depth depths = ''orderbook '' @ exchange @ ''/'' @ mt @ ''/'' @ symbol @ '': depth '' @
     show_int depth @ '' not in '' @ py_str depths @ ''; the server snaps to the nearest''"

definition depth_messages :: "string \<Rightarrow> string \<Rightarrow> string \<Rightarrow> int option \<Rightarrow> pyval \<Rightarrow> pyval \<Rightarrow> string list res" where
  "depth_messages exchange mt symbol depth caps block =
     (if truthy caps \<and> truthy block then
        bindr (py_get block ''depths'') (\<lambda>depths. case depth of
            None \<Rightarrow> Inr []
          | Some n \<Rightarrow>
              if truthy depths
              then bindr (int_in n depths) (\<lambda>found. Inr (if found then [] else [depth_warning exchange mt symbol n depths]))
              else Inr [])
      else Inr [])"

text \<open>The cached capabilities are what \<open>_preflight\<close> has just seen.\<close>

definition cached_caps :: "string \<Rightarrow> core \<Rightarrow> pyval" where
  "cached_caps exchange co = (case dget (co_capabilities co) exchange of None \<Rightarrow> PNone | Some v \<Rightarrow> v)"

definition client_preflight :: "('w, 'df) client_env \<Rightarrow> string \<Rightarrow> string \<Rightarrow> string \<Rightarrow> string \<Rightarrow> string option \<Rightarrow> string \<Rightarrow>
    int option \<Rightarrow> bool \<Rightarrow> ('w, unit) core_io" where
  "client_preflight env exchange mt route symbol interval label depth verbose =
     bindw (preflight (cl_url env) (cl_fetch env) exchange mt route interval label) (\<lambda>_.
     bindw (look (cached_caps exchange)) (\<lambda>caps.
     bindw (pure (route_block caps mt route)) (\<lambda>block.
     bindw (pure (depth_messages exchange mt symbol depth caps block)) (\<lambda>messages.
     emit env messages verbose))))"

section \<open>Single answers\<close>

definition client_symbol_info :: "('w, 'df) client_env \<Rightarrow> string \<Rightarrow> string \<Rightarrow> string \<Rightarrow> ('w, row) core_io" where
  "client_symbol_info env exchange mt symbol =
     bindw (client_fetch env SymbolInfoRoute exchange mt symbol no_query) (\<lambda>data. pure (symbol_info_row data))"

definition checked_data :: "('w, 'df) client_env \<Rightarrow> market_route \<Rightarrow> string \<Rightarrow> string \<Rightarrow> string \<Rightarrow> int option \<Rightarrow> bool \<Rightarrow> ('w, pyval) core_io" where
  "checked_data env route exchange mt symbol depth v =
     bindw (client_preflight env exchange mt (route_name route) symbol None ''Interval'' depth v) (\<lambda>_.
     client_fetch env route exchange mt symbol (no_query\<lparr>q_depth := depth\<rparr>))"

definition client_ticker :: "('w, 'df) client_env \<Rightarrow> string \<Rightarrow> string \<Rightarrow> string \<Rightarrow> bool option \<Rightarrow> ('w, row) core_io" where
  "client_ticker env exchange mt symbol verbose =
     bindw (checked_data env TickerRoute exchange mt symbol None (verbosity env verbose)) (\<lambda>data. pure (ticker_row data))"

definition client_book_ticker :: "('w, 'df) client_env \<Rightarrow> string \<Rightarrow> string \<Rightarrow> string \<Rightarrow> bool option \<Rightarrow> ('w, row) core_io" where
  "client_book_ticker env exchange mt symbol verbose =
     bindw (checked_data env BookTickerRoute exchange mt symbol None (verbosity env verbose)) (\<lambda>data. pure (book_ticker_row data))"

definition omitted :: "string \<Rightarrow> string \<Rightarrow> string \<Rightarrow> pyval \<Rightarrow> string \<Rightarrow> string list res" where
  "omitted exchange mt symbol data key =
     bindr (py_get data key) (\<lambda>v. Inr (if v = PNone
       then [''mark_price '' @ exchange @ ''/'' @ mt @ ''/'' @ symbol @ '': '' @ key @ '' is null (upstream omitted it)''] else []))"

definition client_mark_price :: "('w, 'df) client_env \<Rightarrow> string \<Rightarrow> string \<Rightarrow> string \<Rightarrow> bool option \<Rightarrow> ('w, row) core_io" where
  "client_mark_price env exchange mt symbol verbose =
     bindw (checked_data env MarkPriceRoute exchange mt symbol None (verbosity env verbose)) (\<lambda>data.
     bindw (pure (omitted exchange mt symbol data ''index_price'')) (\<lambda>no_index.
     bindw (pure (omitted exchange mt symbol data ''funding'')) (\<lambda>no_funding.
     bindw (emit env (no_index @ no_funding) (verbosity env verbose)) (\<lambda>_.
     pure (mark_price_row data)))))"

definition table_ctx :: "string \<Rightarrow> string \<Rightarrow> string \<Rightarrow> frame_ctx" where
  "table_ctx exchange mt symbol =
     \<lparr>cx_exchange = exchange, cx_market_type = mt, cx_symbol = symbol, cx_requested = None, cx_paginated = False\<rparr>"

definition client_orderbook :: "('w, 'df) client_env \<Rightarrow> string \<Rightarrow> string \<Rightarrow> string \<Rightarrow> int \<Rightarrow> bool option \<Rightarrow> ('w, 'df) core_io" where
  "client_orderbook env exchange mt symbol depth verbose =
     bindw (checked_data env OrderbookRoute exchange mt symbol (Some depth) (verbosity env verbose)) (\<lambda>data.
     pure (orderbook_frame (cl_pandas env) data (table_ctx exchange mt symbol)))"

section \<open>Descriptions\<close>

definition client_status :: "('w, 'df) client_env \<Rightarrow> ('w, pyval) core_io" where
  "client_status env = core_fetch (cl_url env) (cl_fetch env) (ServiceCall StatusRoute)"

definition client_version :: "('w, 'df) client_env \<Rightarrow> ('w, pyval) core_io" where
  "client_version env = bindw (core_fetch (cl_url env) (cl_fetch env) (ServiceCall VersionRoute)) (\<lambda>data.
     pure (py_get_or data ''version'' (PStr [])))"

definition client_exchanges :: "('w, 'df) client_env \<Rightarrow> ('w, pyval) core_io" where
  "client_exchanges env = bindw (core_fetch (cl_url env) (cl_fetch env) (ServiceCall ExchangesRoute)) (\<lambda>data.
     pure (py_get_or data ''exchanges'' (PList [])))"

definition client_market_types :: "('w, 'df) client_env \<Rightarrow> string \<Rightarrow> ('w, string list) core_io" where
  "client_market_types env exchange = bindw (core_fetch (cl_url env) (cl_fetch env) (ExchangeCall MarketTypesRoute exchange)) (\<lambda>data.
     pure (bindr (bindr (py_get_or data ''market_types'' (PList [])) py_iter) (\<lambda>mts. Inr (map py_str mts))))"

definition client_exchange_call :: "('w, 'df) client_env \<Rightarrow> exchange_route \<Rightarrow> string \<Rightarrow> ('w, pyval) core_io" where
  "client_exchange_call env route exchange = core_fetch (cl_url env) (cl_fetch env) (ExchangeCall route exchange)"

definition client_capabilities :: "('w, 'df) client_env \<Rightarrow> string \<Rightarrow> ('w, pyval) core_io" where
  "client_capabilities env exchange = ensure_capabilities (cl_url env) (cl_fetch env) exchange False"

definition client_markets :: "('w, 'df) client_env \<Rightarrow> string \<Rightarrow> string \<Rightarrow> ('w, pyval) core_io" where
  "client_markets env exchange mt = client_fetch env MarketsRoute exchange mt [] no_query"

section \<open>Margin tiers\<close>

text \<open>A service that knows the market but not the route is an older one.\<close>

definition too_old :: "('w, 'df) client_env \<Rightarrow> pyval \<Rightarrow> router_error" where
  "too_old env version = mk_error NotSupported (PStr (''margin_tiers is not served by '' @ cl_url env @ '', which runs '' @
     py_str version @ ''; upgrade the service to 3.2.0 or newer'')) None"

definition frame_warnings :: "'df pandas \<Rightarrow> 'df \<Rightarrow> string list res" where
  "frame_warnings pd df = (case dget (pd_attrs pd df) ''warnings'' of
       None \<Rightarrow> Inl (KeyError ''warnings'')
     | Some v \<Rightarrow> bindr (py_iter v) (\<lambda>ws. Inr (map py_str ws)))"

definition client_margin_tiers :: "('w, 'df) client_env \<Rightarrow> string \<Rightarrow> string \<Rightarrow> string \<Rightarrow> bool option \<Rightarrow> ('w, 'df) core_io" where
  "client_margin_tiers env exchange mt symbol verbose =
     bindw (ensure_capabilities (cl_url env) (cl_fetch env) exchange True) (\<lambda>caps.
     bindw (pure (market_block caps mt)) (\<lambda>market.
     bindw (look co_service) (\<lambda>service.
     bindw (if service \<and> truthy market then pure (bindr (py_in ''margin_tiers'' market) (\<lambda>found. Inr (\<not> found))) else retw False) (\<lambda>old.
     if old then bindw (client_version env) (\<lambda>version. throw (too_old env version))
     else
       bindw (checked_data env MarginTiersRoute exchange mt symbol None (verbosity env verbose)) (\<lambda>data.
       bindw (pure (margin_tiers_frame (cl_pandas env) data (table_ctx exchange mt symbol))) (\<lambda>df.
       bindw (pure (frame_warnings (cl_pandas env) df)) (\<lambda>warnings.
       bindw (emit env warnings (verbosity env verbose)) (\<lambda>_. retw df))))))))"

section \<open>Series\<close>

definition series_ctx :: "string \<Rightarrow> string \<Rightarrow> string \<Rightarrow> int option \<Rightarrow> pyval \<Rightarrow> frame_ctx res" where
  "series_ctx exchange mt symbol requested block =
     bindr (py_get block ''paginated'') (\<lambda>p.
     Inr \<lparr>cx_exchange = exchange, cx_market_type = mt, cx_symbol = symbol, cx_requested = requested, cx_paginated = truthy p\<rparr>)"

definition series :: "('w, 'df) client_env \<Rightarrow> market_route \<Rightarrow> string \<Rightarrow> string \<Rightarrow> string \<Rightarrow> query \<Rightarrow> string option \<Rightarrow> string \<Rightarrow>
    bool option \<Rightarrow> ('w, 'df) core_io" where
  "series env route exchange mt symbol q interval label verbose =
     bindw (client_preflight env exchange mt (route_name route) symbol interval label None (verbosity env verbose)) (\<lambda>_.
     bindw (client_fetch env route exchange mt symbol q) (\<lambda>rows.
     bindw (look (cached_caps exchange)) (\<lambda>caps.
     bindw (pure (bindr (route_block caps mt (route_name route)) (series_ctx exchange mt symbol (q_limit q)))) (\<lambda>ctx.
     bindw (pure (build_frame (cl_pandas env) (route_name route) rows ctx)) (\<lambda>(df, warnings).
     bindw (emit env warnings (verbosity env verbose)) (\<lambda>_. retw df))))))"

definition limited :: "int \<Rightarrow> query" where
  "limited limit = no_query\<lparr>q_limit := Some limit\<rparr>"

definition client_candles where
  "client_candles env exchange mt symbol interval limit start verbose =
     series env CandlesRoute exchange mt symbol ((limited limit)\<lparr>q_interval := Some interval, q_start := start\<rparr>) (Some interval) ''Interval'' verbose"

definition client_trades where
  "client_trades env exchange mt symbol limit verbose =
     series env TradesRoute exchange mt symbol (limited limit) None ''Interval'' verbose"

definition client_agg_trades where
  "client_agg_trades env exchange mt symbol limit start verbose =
     series env AggTradesRoute exchange mt symbol ((limited limit)\<lparr>q_start := start\<rparr>) None ''Interval'' verbose"

definition client_funding_rate where
  "client_funding_rate env exchange mt symbol limit start verbose =
     series env FundingRateRoute exchange mt symbol ((limited limit)\<lparr>q_start := start\<rparr>) None ''Interval'' verbose"

definition client_open_interest where
  "client_open_interest env exchange mt symbol period limit start verbose =
     series env OpenInterestRoute exchange mt symbol ((limited limit)\<lparr>q_period := Some period, q_start := start\<rparr>) (Some period) ''Period'' verbose"

definition client_liquidations where
  "client_liquidations env exchange mt symbol limit start verbose =
     series env LiquidationsRoute exchange mt symbol ((limited limit)\<lparr>q_start := start\<rparr>) None ''Interval'' verbose"

definition client_long_short_ratio where
  "client_long_short_ratio env exchange mt symbol period limit start verbose =
     series env LongShortRatioRoute exchange mt symbol ((limited limit)\<lparr>q_period := Some period, q_start := start\<rparr>) (Some period) ''Period'' verbose"

end
