(* ===== verification/Facade.thy ===== *)
theory Facade
  imports Client
begin

text \<open>
  The life of a client: its constructors, \<^verbatim>\<open>exchange_router/async_router.py\<close>, the warm-up and the
  closing of \<^verbatim>\<open>exchange_router/_core.py\<close>, and the batches of whole routes.
\<close>

section \<open>Construction\<close>

definition router_local :: "scope_arg \<Rightarrow> string list \<Rightarrow> router_error + core" where
  "router_local exchanges known = map_sum (\<lambda>e. e) (\<lambda>scope. core_init False scope False) (resolve_scope exchanges (Some known))"

text \<open>\<open>str.rstrip("/")\<close>\<close>

definition strip_slashes :: "string \<Rightarrow> string" where
  "strip_slashes s = rev (dropWhile (\<lambda>c. c = CHR ''/'') (rev s))"

definition DEFAULT_URL :: string where "DEFAULT_URL = ''http://localhost:8040''"

text \<open>The client, its address, and whether its backend falls back to local adapters.\<close>

definition router_service :: "string \<Rightarrow> scope_arg \<Rightarrow> string option \<Rightarrow> router_error + core \<times> string \<times> bool" where
  "router_service url exchanges fallback =
     (if url = [] then Inl (mk_error BadRequest (PStr ''url is required; Router.service needs the address of a running service'') None)
      else if fallback \<noteq> None \<and> fallback \<noteq> Some ''local'' then
        Inl (mk_error BadRequest (PStr (''fallback '' @ quoted (case fallback of None \<Rightarrow> [] | Some f \<Rightarrow> f) @
          '' is not a mode; the only opt-in fallback is '' @ quoted ''local'')) None)
      else
        let base = strip_slashes url in
        map_sum (\<lambda>e. e)
          (\<lambda>scope. (core_init True scope (exchanges = ScopeText all_names),
             strip_slashes (if base = [] then DEFAULT_URL else base), fallback = Some ''local''))
          (resolve_scope exchanges None))"

text \<open>Whether a warm-up is started: once, for a scope, on a running loop.\<close>

definition starts_warm :: "bool \<Rightarrow> bool \<Rightarrow> core \<Rightarrow> bool" where
  "starts_warm has_task loop_running co \<longleftrightarrow> \<not> has_task \<and> (co_scope co \<noteq> [] \<or> co_scope_all co) \<and> loop_running"

section \<open>Warm-up and closing\<close>

definition client_warm :: "('w, 'df) client_env \<Rightarrow> string option \<Rightarrow> ('w, unit) core_io" where
  "client_warm env exchange =
     bindw check_open (\<lambda>_.
     bindw (look co_service) (\<lambda>service.
     bindw (if service then ensure_handshake (cl_url env) (cl_fetch env) else retw ()) (\<lambda>_.
     bindw (look co_scope) (\<lambda>scope.
     let names = (case exchange of Some e \<Rightarrow> [e] | None \<Rightarrow> scope) in
     bindw (if service then bindw (mapw (\<lambda>n. ensure_capabilities (cl_url env) (cl_fetch env) n True) names) (\<lambda>_. retw ()) else retw ()) (\<lambda>_.
     outside (cl_warm env names))))))"

definition warm_message :: "('w, 'df) client_env \<Rightarrow> fault \<Rightarrow> string" where
  "warm_message env e = ''warm: '' @ cl_describe env e @ ''; the first call pays the cost instead''"

definition warm_quietly :: "('w, 'df) client_env \<Rightarrow> ('w, unit) core_io" where
  "warm_quietly env s = (case client_warm env None s of
       (Inr u, s) \<Rightarrow> (Inr u, s)
     | (Inl e, s) \<Rightarrow>
         if (case e of Raised x \<Rightarrow> is_exception x | Coded _ \<Rightarrow> True) then emit env [warm_message env e] (cl_verbose env) s
         else (Inl e, s))"

definition client_close :: "('w, 'df) client_env \<Rightarrow> ('w, unit) core_io" where
  "client_close env =
     bindw (look co_closed) (\<lambda>closed.
     if closed then retw ()
     else bindw (store core_close) (\<lambda>_. bindw (outside (cl_cancel_warm env)) (\<lambda>_. outside (cl_close env))))"

section \<open>Batches of a route\<close>

text \<open>\<open>list(df.attrs.get("warnings", []))\<close>\<close>

definition attr_messages :: "'df pandas \<Rightarrow> 'df \<Rightarrow> string list" where
  "attr_messages pd df = (case dget (pd_attrs pd df) ''warnings'' of Some (PList ws) \<Rightarrow> map py_str ws | _ \<Rightarrow> [])"

definition series_with_messages :: "('w, 'df) client_env \<Rightarrow> market_route \<Rightarrow> string \<Rightarrow> string \<Rightarrow> query \<Rightarrow> string option \<Rightarrow> string \<Rightarrow>
    string \<Rightarrow> ('w, 'df \<times> string list) core_io" where
  "series_with_messages env route exchange mt q interval label symbol =
     bindw (series env route exchange mt symbol q interval label (Some False)) (\<lambda>df. retw (df, attr_messages (cl_pandas env) df))"

definition batch_message :: "string \<Rightarrow> string \<Rightarrow> string \<Rightarrow> 'df batch \<Rightarrow> string" where
  "batch_message route exchange mt b = route @ ''_many '' @ exchange @ ''/'' @ mt @ '': '' @ batch_summary b @ ''. See .report().''"

definition many :: "('w, 'df) client_env \<Rightarrow> market_route \<Rightarrow> string \<Rightarrow> string \<Rightarrow> string list \<Rightarrow> query \<Rightarrow> string option \<Rightarrow> string \<Rightarrow>
    bool option \<Rightarrow> ('w, 'df batch) core_io" where
  "many env route exchange mt symbols q interval label verbose =
     bindw (fetch_many (cl_url env) (cl_fetch env) (series_with_messages env route exchange mt q interval label) (route_name route) exchange symbols) (\<lambda>b.
     bindw (emit env [batch_message (route_name route) exchange mt b]
       (verbosity env verbose \<and> (ba_degraded b \<noteq> [] \<or> ba_failed b \<noteq> []))) (\<lambda>_. retw b))"

definition candles_many where
  "candles_many env exchange mt symbols interval limit start verbose =
     many env CandlesRoute exchange mt symbols ((limited limit)\<lparr>q_interval := Some interval, q_start := start\<rparr>) (Some interval) ''Interval'' verbose"

definition trades_many where
  "trades_many env exchange mt symbols limit verbose =
     many env TradesRoute exchange mt symbols (limited limit) None ''Interval'' verbose"

definition agg_trades_many where
  "agg_trades_many env exchange mt symbols limit start verbose =
     many env AggTradesRoute exchange mt symbols ((limited limit)\<lparr>q_start := start\<rparr>) None ''Interval'' verbose"

definition funding_rate_many where
  "funding_rate_many env exchange mt symbols limit start verbose =
     many env FundingRateRoute exchange mt symbols ((limited limit)\<lparr>q_start := start\<rparr>) None ''Interval'' verbose"

definition open_interest_many where
  "open_interest_many env exchange mt symbols period limit start verbose =
     many env OpenInterestRoute exchange mt symbols ((limited limit)\<lparr>q_period := Some period, q_start := start\<rparr>) (Some period) ''Period'' verbose"

definition liquidations_many where
  "liquidations_many env exchange mt symbols limit start verbose =
     many env LiquidationsRoute exchange mt symbols ((limited limit)\<lparr>q_start := start\<rparr>) None ''Interval'' verbose"

definition long_short_ratio_many where
  "long_short_ratio_many env exchange mt symbols period limit start verbose =
     many env LongShortRatioRoute exchange mt symbols ((limited limit)\<lparr>q_period := Some period, q_start := start\<rparr>) (Some period) ''Period'' verbose"

text \<open>\<open>BatchResult.report\<close>; \<open>describe\<close> gives the class and the detail of an error.\<close>

definition batch_report :: "(fault \<Rightarrow> string) \<Rightarrow> 'df batch \<Rightarrow> string list" where
  "batch_report describe b = [batch_summary b]
     @ (if ba_degraded b = [] then [] else ''  degraded'' #
         map (\<lambda>(symbol, _, messages). ''    '' @ symbol @ ''   '' @ (if messages = [] then ''degraded'' else join ''; '' messages)) (ba_degraded b))
     @ (if ba_failed b = [] then [] else ''  failed'' # map (\<lambda>(symbol, e). ''    '' @ symbol @ ''   '' @ describe e) (ba_failed b))"

end
