(* ===== verification/FloatExact.thy ===== *)
theory FloatExact
  imports FloatMono
begin

text \<open>Numbers that rounding leaves as they are.\<close>

lemma round_abs_multiple:
  assumes "\<bar>y\<bar> = of_int k * pow2 d" "quantum y \<le> d"
  shows "round_abs y = \<bar>y\<bar>"
proof -
  define n :: int where "n = 2 ^ nat (d - quantum y)"
  have "pow2 d / pow2 (quantum y) = of_int n" using pow2_multiple [OF assms(2)] by (simp add: n_def)
  then have d: "pow2 d = of_int n * pow2 (quantum y)" using pow2_pos [of "quantum y"] by (simp add: field_simps)
  moreover have "pow2 (quantum y) \<noteq> 0" using pow2_pos [of "quantum y"] by (metis less_irrefl)
  ultimately have "\<bar>y\<bar> / pow2 (quantum y) = of_int (k * n)" by (simp add: assms(1))
  then have "round_abs y = of_int (k * n) * pow2 (quantum y)"
    using round_abs_grid [of y] by (simp only: round_half_even_int)
  then show ?thesis by (simp add: assms(1) d)
qed

lemma quantum_below:
  assumes "\<bar>y\<bar> < pow2 (e + 1)" "y \<noteq> 0"
  shows "quantum y \<le> max (e - 52) (- 1074)"
proof -
  obtain d where d: "quantum y = max (d - 52) (- 1074)" "pow2 d \<le> \<bar>y\<bar>" using quantum_binade [OF assms(2)] by auto
  then have "pow2 d < pow2 (e + 1)" using assms(1) by linarith
  then show ?thesis using d(1) by simp
qed

lemma round_abs_idem: "round_abs (round_abs x) = round_abs x"
proof (cases "round_abs x = 0")
  case True
  then show ?thesis using round_abs_multiple [of 0 0 "quantum 0"] by simp
next
  case False
  let ?y = "round_abs x"
  obtain k where k: "?y = of_int k * pow2 (quantum x)" unfolding round_abs_grid by blast
  have y: "\<bar>?y\<bar> = ?y" using round_abs_nonneg by simp
  have "x \<noteq> 0" using False round_abs_grid [of 0] by (auto simp: round_half_even_def)
  then obtain e where e: "quantum x = max (e - 52) (- 1074)" "\<bar>x\<bar> < pow2 (e + 1)" using quantum_binade by blast
  define b where "b = max (e + 1) (- 1074)"
  have "pow2 (e + 1) \<le> pow2 b" by (simp add: b_def)
  then have "\<bar>x\<bar> \<le> pow2 b" using e(2) by linarith
  moreover have "quantum x \<le> b" using e(1) by (auto simp: b_def)
  ultimately have "?y \<le> pow2 b" by (intro round_abs_bound(1))
  then consider "\<bar>?y\<bar> < pow2 b" | "?y = pow2 b" using y by linarith
  then show ?thesis
  proof cases
    case 1
    then have "quantum ?y \<le> quantum x" using quantum_below [of ?y "b - 1"] False e(1) by (simp add: b_def)
    then show ?thesis using round_abs_multiple [of ?y k "quantum x"] k y by simp
  next
    case 2
    have "\<bar>?y\<bar> < pow2 (b + 1)" unfolding y unfolding 2 by simp
    then have "quantum ?y \<le> b" using quantum_below [of ?y b] False by (simp add: b_def)
    then show ?thesis using round_abs_multiple [of ?y 1 b] y 2 by simp
  qed
qed

text \<open>A float.\<close>

definition is_float :: "pyfloat \<Rightarrow> bool" where
  "is_float x \<longleftrightarrow> (case x of Fin a \<Rightarrow> round64 a = Fin a | _ \<Rightarrow> True)"

lemma round_abs_minus [simp]: "round_abs (- x) = round_abs x"
  by (simp add: round_abs_def quantum_def)

lemma is_float_round64 [simp]: "is_float (round64 x)"
proof (cases "2 ^ 1024 \<le> round_abs x")
  case False
  then have "round64 x = Fin (if x < 0 then - round_abs x else round_abs x)" by (simp add: round64_def Let_def)
  moreover have "round64 (round_abs x) = Fin (round_abs x)" "round64 (- round_abs x) = Fin (- round_abs x)"
    using False round_abs_nonneg [of x] by (auto simp: round64_def Let_def round_abs_idem)
  ultimately show ?thesis by (simp add: is_float_def)
qed (simp add: round64_def is_float_def)

lemma is_float_fadd [simp]: "is_float (fadd x y)"
  by (cases "(x, y)" rule: fadd.cases) (simp_all add: is_float_def [of NaN] is_float_def [of PosInf] is_float_def [of NegInf])

lemma is_float_0 [simp]: "is_float (Fin 0)"
  by (simp add: is_float_def)

text \<open>Nothing added to a float is the float.\<close>

lemma fadd_0: "is_float x \<Longrightarrow> fadd x (Fin 0) = x"
  by (cases x) (simp_all add: is_float_def)

text \<open>A part of a whole is between zero and one.\<close>

lemma round64_part:
  assumes "0 \<le> a" "a \<le> b" "0 < b"
  shows "Fin 0 \<le> round64 (a / b) \<and> round64 (a / b) \<le> Fin 1"
  using round64_mono [of 0 "a / b"] round64_mono [of "a / b" 1] round64_int [of 1] assms by simp

end
