(* ===== verification/Funding.thy ===== *)
theory Funding
  imports Rows FloatExact
begin

text \<open>
  The funding arithmetic of the SDK, \<^verbatim>\<open>exchange_router/funding.py\<close>, on every shape it takes: wire rows
  and flattened rows, which are dictionaries; rows of a pandas frame, which are labelled; and a
  frame, by its columns, its funding kind and its rows with their times in nanoseconds.
\<close>

section \<open>Shapes\<close>

datatype funding_row = Mapped pyval | Labelled "(string \<times> pyval) list"

record funding_frame =
  ff_columns :: "string list"
  ff_kind :: "pyval option"
  ff_rows :: "(int \<times> (string \<times> pyval) list) list"

datatype funding_rows = Frame funding_frame | Iterated "funding_row list"

definition bad_shape :: "'a res" where
  "bad_shape = Inl (ValueError ''Unrecognized funding row shape; expected a wire row, a flattened row, or a funding DataFrame row'')"

text \<open>\<open>d[kind], float(d[per_cycle]), float(d[cycle_ms])\<close>\<close>

definition item_at :: "(string \<times> pyval) list \<Rightarrow> string \<Rightarrow> pyval res" where
  "item_at d k = (case dget d k of None \<Rightarrow> Inl (KeyError k) | Some v \<Rightarrow> Inr v)"

definition rate_triple :: "(string \<times> pyval) list \<Rightarrow> string \<Rightarrow> string \<Rightarrow> string \<Rightarrow> (pyval \<times> pyfloat \<times> pyfloat) res" where
  "rate_triple d kind_k rate_k cycle_k =
     bindr (item_at d kind_k) (\<lambda>kind.
     bindr (bindr (item_at d rate_k) py_float) (\<lambda>per_cycle.
     bindr (bindr (item_at d cycle_k) py_float) (\<lambda>cycle_ms. Inr (kind, per_cycle, cycle_ms))))"

definition mapped_fields :: "(string \<times> pyval) list \<Rightarrow> (pyval \<times> pyfloat \<times> pyfloat) res" where
  "mapped_fields d = (case py_or (entry d ''rate'') (entry d ''funding'') of
       PDict block \<Rightarrow> rate_triple block ''kind'' ''per_cycle'' ''cycle_ms''
     | _ \<Rightarrow>
         if dget d ''rate_per_cycle'' \<noteq> None then rate_triple d ''rate_kind'' ''rate_per_cycle'' ''rate_cycle_ms''
         else if entry d ''funding_per_cycle'' \<noteq> PNone then rate_triple d ''funding_kind'' ''funding_per_cycle'' ''funding_cycle_ms''
         else bad_shape)"

definition labelled_fields :: "(string \<times> pyval) list \<Rightarrow> (pyval \<times> pyfloat \<times> pyfloat) res" where
  "labelled_fields d =
     (if dget d ''rate_per_cycle'' \<noteq> None then rate_triple d ''rate_kind'' ''rate_per_cycle'' ''rate_cycle_ms''
      else if dget d ''funding_per_cycle'' \<noteq> None then rate_triple d ''funding_kind'' ''funding_per_cycle'' ''funding_cycle_ms''
      else bad_shape)"

fun rate_fields :: "funding_row \<Rightarrow> (pyval \<times> pyfloat \<times> pyfloat) res" where
  "rate_fields (Mapped (PDict d)) = mapped_fields d"
| "rate_fields (Mapped v) = bad_shape"
| "rate_fields (Labelled d) = labelled_fields d"

section \<open>Rows with a time\<close>

type_synonym rate_row = "int \<times> pyval \<times> pyfloat \<times> pyfloat"

text \<open>\<open>pd.Timestamp(idx).value // 1_000_000\<close>\<close>

definition ns_to_ms :: "int \<Rightarrow> int" where "ns_to_ms ns = ns div 1000000"

definition clean_frame_row :: "pyval \<Rightarrow> int \<times> (string \<times> pyval) list \<Rightarrow> rate_row res" where
  "clean_frame_row kind r = (case r of (ns, d) \<Rightarrow>
     bindr (bindr (item_at d ''rate'') py_float) (\<lambda>per_cycle.
     bindr (bindr (item_at d ''cycle_ms'') py_float) (\<lambda>cycle_ms. Inr (ns_to_ms ns, kind, per_cycle, cycle_ms))))"

definition clean_frame_rows :: "funding_frame \<Rightarrow> rate_row list res" where
  "clean_frame_rows f = mapr (clean_frame_row (case ff_kind f of None \<Rightarrow> PStr ''discrete'' | Some k \<Rightarrow> k)) (ff_rows f)"

definition frame_row :: "int \<times> (string \<times> pyval) list \<Rightarrow> rate_row res" where
  "frame_row r = (case r of (ns, d) \<Rightarrow> bindr (rate_fields (Labelled d)) (\<lambda>fields. Inr (ns_to_ms ns, fields)))"

fun row_time :: "funding_row \<Rightarrow> int res" where
  "row_time (Mapped v) = bindr (py_item v ''timestamp'') py_int"
| "row_time (Labelled d) = bindr (item_at d ''timestamp'') py_int"

definition timed_row :: "funding_row \<Rightarrow> rate_row res" where
  "timed_row r = bindr (rate_fields r) (\<lambda>fields. bindr (row_time r) (\<lambda>ts. Inr (ts, fields)))"

fun normalized_rows :: "funding_rows \<Rightarrow> rate_row list res" where
  "normalized_rows (Frame f) = (if ''rate'' \<in> set (ff_columns f) then clean_frame_rows f else mapr frame_row (ff_rows f))"
| "normalized_rows (Iterated rs) = mapr timed_row rs"

section \<open>The two helpers\<close>

fun per_hour_column :: "funding_row \<Rightarrow> pyval option" where
  "per_hour_column (Labelled d) = dget d ''funding_per_hour''"
| "per_hour_column (Mapped (PDict d)) = (if entry d ''funding_per_hour'' = PNone then None else Some (entry d ''funding_per_hour''))"
| "per_hour_column (Mapped v) = None"

definition per_hour_view :: "funding_row \<Rightarrow> pyfloat res" where
  "per_hour_view r = (case per_hour_column r of
       Some v \<Rightarrow> py_float v
     | None \<Rightarrow> bindr (rate_fields r) (\<lambda>(kind, per_cycle, cycle_ms).
         bindr (fdiv cycle_ms (Fin (of_int HOUR_MS))) (fdiv per_cycle)))"

text \<open>
  \<open>overlap_ms / cycle_ms\<close> of a sample that stands for its cycle: \<open>min\<close> hands out the end of the
  cycle, a float, unless the window closes before it; \<open>max\<close> with zero keeps zero for a nan.
\<close>

definition window_share :: "int \<Rightarrow> int \<Rightarrow> int \<Rightarrow> pyfloat \<Rightarrow> pyfloat res" where
  "window_share t_open t_close ts cycle_ms =
     bindr (float_of_int ts) (\<lambda>start.
     let window_end = fadd start cycle_ms; opened = max ts t_open in
     bindr (if flt (Fin (of_int t_close)) window_end then float_of_int (max 0 (t_close - opened))
            else bindr (float_of_int opened) (\<lambda>o_f.
              let overlap = fsub window_end o_f in Inr (if flt (Fin 0) overlap then overlap else Fin 0))) (\<lambda>overlap.
     fdiv overlap cycle_ms))"

definition add_payment :: "int \<Rightarrow> int \<Rightarrow> pyfloat \<Rightarrow> pyfloat \<Rightarrow> rate_row \<Rightarrow> pyfloat res" where
  "add_payment t_open t_close notional paid r = (case r of (ts, kind, per_cycle, cycle_ms) \<Rightarrow>
     if kind = PStr ''discrete'' then
       Inr (if t_open \<le> ts \<and> ts \<le> t_close then fadd paid (fmul notional per_cycle) else paid)
     else bindr (window_share t_open t_close ts cycle_ms) (\<lambda>share. Inr (fadd paid (fmul (fmul notional per_cycle) share))))"

fun add_payments :: "int \<Rightarrow> int \<Rightarrow> pyfloat \<Rightarrow> pyfloat \<Rightarrow> rate_row list \<Rightarrow> pyfloat res" where
  "add_payments t_open t_close notional paid [] = Inr paid"
| "add_payments t_open t_close notional paid (r # rs) =
     bindr (add_payment t_open t_close notional paid r) (\<lambda>paid. add_payments t_open t_close notional paid rs)"

definition funding_paid :: "funding_rows \<Rightarrow> int \<Rightarrow> int \<Rightarrow> pyfloat \<Rightarrow> pyfloat res" where
  "funding_paid rows t_open t_close notional = bindr (normalized_rows rows) (add_payments t_open t_close notional (Fin 0))"

section \<open>What is paid\<close>

text \<open>A row with an integer cycle whose times are exact as floats.\<close>

definition sound_row :: "pyfloat \<Rightarrow> rate_row \<Rightarrow> bool" where
  "sound_row notional r = (case r of (ts, kind, per_cycle, cycle_ms) \<Rightarrow>
     is_finite (fmul notional per_cycle)
     \<and> (kind = PStr ''discrete'' \<or> 0 \<le> ts \<and> (\<exists>c. cycle_ms = Fin (of_int c) \<and> 0 < c \<and> ts + c < 2 ^ 53)))"

definition cycle_of :: "rate_row \<Rightarrow> int" where
  "cycle_of r = (case r of (ts, kind, per_cycle, Fin c) \<Rightarrow> \<lfloor>c\<rfloor> | _ \<Rightarrow> 0)"

text \<open>The milliseconds a row and a window have in common, and what the row pays for them.\<close>

definition common_ms :: "int \<Rightarrow> int \<Rightarrow> rate_row \<Rightarrow> int" where
  "common_ms t_open t_close r = max 0 (min (fst r + cycle_of r) t_close - max (fst r) t_open)"

definition in_window :: "int \<Rightarrow> int \<Rightarrow> rate_row \<Rightarrow> bool" where
  "in_window t_open t_close r \<longleftrightarrow>
     (if fst (snd r) = PStr ''discrete'' then t_open \<le> fst r \<and> fst r \<le> t_close else 0 < common_ms t_open t_close r)"

definition payment :: "int \<Rightarrow> int \<Rightarrow> pyfloat \<Rightarrow> rate_row \<Rightarrow> pyfloat" where
  "payment t_open t_close notional r = (case r of (ts, kind, per_cycle, cycle_ms) \<Rightarrow>
     if kind = PStr ''discrete'' then fmul notional per_cycle
     else fmul (fmul notional per_cycle) (round64 (of_int (common_ms t_open t_close r) / of_int (cycle_of r))))"

lemma float_of_int_small: "\<bar>n\<bar> < 2 ^ 53 \<Longrightarrow> float_of_int n = Inr (Fin (of_int n))"
  by (simp add: float_of_int_def round64_int)

lemma round64_Fin_int: "\<bar>n\<bar> < 2 ^ 53 \<Longrightarrow> round64 (of_int n) = Fin (of_int n)"
  by (rule round64_int)

lemma window_share_exact:
  assumes "0 \<le> ts" "0 < c" "ts + c < 2 ^ 53" "\<bar>t_open\<bar> < 2 ^ 52" "\<bar>t_close\<bar> < 2 ^ 52"
  shows "window_share t_open t_close ts (Fin (of_int c)) =
    Inr (round64 (of_int (max 0 (min (ts + c) t_close - max ts t_open)) / of_int c))"
proof -
  have finish: "fadd (Fin (of_int ts)) (Fin (of_int c)) = Fin (of_int (ts + c))"
    using round64_Fin_int [of "ts + c"] assms by simp
  have starts: "float_of_int ts = Inr (Fin (of_int ts))" "float_of_int (max ts t_open) = Inr (Fin (of_int (max ts t_open)))"
    using assms by (simp_all add: float_of_int_small)
  have early: "float_of_int (max 0 (t_close - max ts t_open)) = Inr (Fin (of_int (max 0 (t_close - max ts t_open))))"
    using assms by (intro float_of_int_small) (auto simp: max_def)
  have late: "fsub (Fin (of_int (ts + c))) (Fin (of_int (max ts t_open))) = Fin (of_int (ts + c - max ts t_open))"
    using round64_Fin_int [of "ts + c - max ts t_open"] assms by (simp add: fsub_Fin)
  have rest: "(if flt (Fin 0) (Fin (of_int d)) then Fin (of_int d) else Fin 0) = Fin (of_int (max 0 d))" for d
    by (simp add: max_def)
  have closes: "flt (Fin (of_int t_close)) (Fin (of_int (ts + c))) \<longleftrightarrow> t_close < ts + c"
    by (simp only: flt.simps of_int_less_iff)
  show ?thesis
  proof (cases "t_close < ts + c")
    case True
    then have "min (ts + c) t_close = t_close" by simp
    then show ?thesis using assms(2) True
      by (simp only: window_share_def starts finish bindr_simps Let_def early closes if_True fdiv.simps) simp
  next
    case False
    then have "min (ts + c) t_close = ts + c" by simp
    then show ?thesis using assms(2) False
      by (simp only: window_share_def starts finish bindr_simps Let_def late rest closes if_False fdiv.simps) simp
  qed
qed

lemma add_payment_sound:
  assumes "sound_row notional r" "is_float paid" "\<bar>t_open\<bar> < 2 ^ 52" "\<bar>t_close\<bar> < 2 ^ 52"
  shows "add_payment t_open t_close notional paid r =
    Inr (if in_window t_open t_close r then fadd paid (payment t_open t_close notional r) else paid)"
proof -
  obtain ts kind per_cycle cycle_ms where r: "r = (ts, kind, per_cycle, cycle_ms)" by (cases r)
  show ?thesis
  proof (cases "kind = PStr ''discrete''")
    case True
    then show ?thesis by (simp add: r add_payment_def in_window_def payment_def)
  next
    case False
    then obtain c where c: "cycle_ms = Fin (of_int c)" "0 < c" "ts + c < 2 ^ 53" "0 \<le> ts"
      and rate: "is_finite (fmul notional per_cycle)"
      using assms(1) by (auto simp: sound_row_def r)
    have common: "common_ms t_open t_close r = max 0 (min (ts + c) t_close - max ts t_open)" "cycle_of r = c"
      by (simp_all add: common_ms_def cycle_of_def r c(1))
    have share: "window_share t_open t_close ts cycle_ms = Inr (round64 (of_int (common_ms t_open t_close r) / of_int c))"
      unfolding c(1) common(1) by (rule window_share_exact [OF c(4,2,3) assms(3,4)])
    have "cycle_of (ts, kind, per_cycle, cycle_ms) = c" by (simp add: cycle_of_def c(1))
    then have paid: "payment t_open t_close notional r =
        fmul (fmul notional per_cycle) (round64 (of_int (common_ms t_open t_close r) / of_int c))"
      using False by (simp add: r payment_def)
    have add: "add_payment t_open t_close notional paid r = Inr (fadd paid (payment t_open t_close notional r))"
      using False share by (simp add: add_payment_def r) (simp add: paid [unfolded r])
    have zero: "fmul (fmul notional per_cycle) (Fin 0) = Fin 0" using rate by (auto simp: finite_Fin)
    have "0 \<le> common_ms t_open t_close r" by (simp add: common_ms_def)
    moreover have "in_window t_open t_close r \<longleftrightarrow> 0 < common_ms t_open t_close r" using False by (simp add: in_window_def r)
    ultimately have "in_window t_open t_close r \<or> common_ms t_open t_close r = 0" by linarith
    then show ?thesis using add zero assms(2) by (auto simp: paid fadd_0)
  qed
qed

text \<open>
  C23. What a position pays over a window is made of the rows that touch the window alone, in their
  order: a settlement in it, both ends included, pays its rate in full; a sample of a continuous rate pays the part
  of its cycle that lies in the window, computed exactly and rounded once, a part between zero and
  one. Rows elsewhere change nothing, not even by rounding.
\<close>

theorem funding_paid_window:
  assumes "normalized_rows rows = Inr rs" "list_all (sound_row notional) rs" "\<bar>t_open\<bar> < 2 ^ 52" "\<bar>t_close\<bar> < 2 ^ 52"
  shows "funding_paid rows t_open t_close notional =
      Inr (foldl (\<lambda>paid r. fadd paid (payment t_open t_close notional r)) (Fin 0) (filter (in_window t_open t_close) rs))
    \<and> (\<forall>r\<in>set rs. fst (snd r) \<noteq> PStr ''discrete'' \<longrightarrow>
         Fin 0 \<le> round64 (of_int (common_ms t_open t_close r) / of_int (cycle_of r))
         \<and> round64 (of_int (common_ms t_open t_close r) / of_int (cycle_of r)) \<le> Fin 1)"
proof (intro conjI ballI impI)
  have "add_payments t_open t_close notional paid rs =
      Inr (foldl (\<lambda>paid r. fadd paid (payment t_open t_close notional r)) paid (filter (in_window t_open t_close) rs))"
    if "list_all (sound_row notional) rs" "is_float paid" for paid rs
    using that by (induction rs arbitrary: paid) (simp_all add: add_payment_sound [OF _ _ assms(3,4)])
  then show "funding_paid rows t_open t_close notional =
      Inr (foldl (\<lambda>paid r. fadd paid (payment t_open t_close notional r)) (Fin 0) (filter (in_window t_open t_close) rs))"
    using assms(1,2) by (simp add: funding_paid_def)
next
  fix r assume r: "r \<in> set rs" "fst (snd r) \<noteq> PStr ''discrete''"
  then have "0 < cycle_of r" "0 \<le> common_ms t_open t_close r" "common_ms t_open t_close r \<le> cycle_of r"
    using assms(2) by (auto simp: list_all_iff sound_row_def cycle_of_def common_ms_def max_def min_def)
  then have "Fin 0 \<le> round64 (of_int (common_ms t_open t_close r) / of_int (cycle_of r)) \<and>
      round64 (of_int (common_ms t_open t_close r) / of_int (cycle_of r)) \<le> Fin 1"
    by (intro round64_part) simp_all
  then show "Fin 0 \<le> round64 (of_int (common_ms t_open t_close r) / of_int (cycle_of r))"
    "round64 (of_int (common_ms t_open t_close r) / of_int (cycle_of r)) \<le> Fin 1" by simp_all
qed

text \<open>A settlement and a sample inside the window, and one after it, of a position of 2.\<close>

definition demo_rate :: "int \<Rightarrow> string \<Rightarrow> funding_row" where
  "demo_rate ts kind = Mapped (PDict [(''timestamp'', PInt ts),
     (''rate'', PDict [(''kind'', PStr kind), (''per_cycle'', PFloat (Fin 1)), (''cycle_ms'', PFloat (Fin 1000))])])"

lemma funding_paid_window_witness:
  "funding_paid (Iterated [demo_rate 1000 ''discrete'', demo_rate 2000 ''continuous'', demo_rate 9000 ''discrete'']) 0 5000 (Fin 2) = Inr (Fin 4)"
proof -
  let ?rs = "[(1000, PStr ''discrete'', Fin 1, Fin 1000), (2000, PStr ''continuous'', Fin 1, Fin 1000), (9000, PStr ''discrete'', Fin 1, Fin 1000)]"
  have r: "round64 2 = Fin 2" "round64 4 = Fin 4" "round64 1 = Fin 1"
    using round64_int [of 2] round64_int [of 4] round64_int [of 1] by simp_all
  have "normalized_rows (Iterated [demo_rate 1000 ''discrete'', demo_rate 2000 ''continuous'', demo_rate 9000 ''discrete'']) = Inr ?rs"
    by (simp add: demo_rate_def timed_row_def mapped_fields_def entry_def py_or_def rate_triple_def item_at_def)
  moreover have "list_all (sound_row (Fin 2)) ?rs"
    by (auto simp: sound_row_def r is_finite_def intro!: exI [of _ "1000 :: int"])
  ultimately have "funding_paid (Iterated [demo_rate 1000 ''discrete'', demo_rate 2000 ''continuous'', demo_rate 9000 ''discrete'']) 0 5000 (Fin 2) =
      Inr (foldl (\<lambda>paid r. fadd paid (payment 0 5000 (Fin 2) r)) (Fin 0) (filter (in_window 0 5000) ?rs))"
    by (rule conjunct1 [OF funding_paid_window]) simp_all
  also have "\<dots> = Inr (Fin 4)"
    by (simp add: in_window_def payment_def common_ms_def cycle_of_def r)
  finally show ?thesis .
qed

section \<open>Views\<close>

definition is_number :: "pyval \<Rightarrow> bool" where
  "is_number v \<longleftrightarrow> as_number v \<noteq> None"

lemma number_float: "is_number v \<Longrightarrow> as_number v = Some (py_float v)"
  using round64_int [of 1] by (cases v) (simp_all add: is_number_def float_of_int_def)

lemma bindr_assoc: "bindr (bindr r f) g = bindr r (\<lambda>x. bindr (f x) g)"
  by (cases r) simp_all

lemma ratio_finite:
  assumes "\<bar>c\<bar> < 2 ^ 53"
  obtains h where "round64 (of_int c / of_int HOUR_MS) = Fin h" "int_ratio c HOUR_MS = Inr (Fin h)"
proof -
  have "of_int (- \<bar>c\<bar>) \<le> (of_int c / of_int HOUR_MS :: rat)" "(of_int c / of_int HOUR_MS :: rat) \<le> of_int \<bar>c\<bar>"
    by (auto simp: HOUR_MS_def field_simps abs_if)
  from this [THEN round64_mono] have "Fin (of_int (- \<bar>c\<bar>)) \<le> round64 (of_int c / of_int HOUR_MS)"
    "round64 (of_int c / of_int HOUR_MS) \<le> Fin (of_int \<bar>c\<bar>)"
    using round64_int [of "- \<bar>c\<bar>"] round64_int [of "\<bar>c\<bar>"] assms by simp_all
  then obtain h where "round64 (of_int c / of_int HOUR_MS) = Fin h"
    by (cases "round64 (of_int c / of_int HOUR_MS)") (simp_all add: less_eq_pyfloat_def)
  then show ?thesis by (intro that) (simp_all add: int_ratio_def HOUR_MS_def)
qed

lemma hourly_view:
  assumes "is_number p" "\<bar>c\<bar> < 2 ^ 53" "c \<noteq> 0"
  shows "hourly p (PInt c) =
    bindr (bindr (bindr (py_float (PInt c)) (\<lambda>c. fdiv c (Fin (of_int HOUR_MS)))) (\<lambda>h. bindr (py_float p) (\<lambda>x. fdiv x h))) (\<lambda>x. Inr (PFloat x))"
proof -
  obtain h where h: "round64 (of_int c / of_int HOUR_MS) = Fin h" "int_ratio c HOUR_MS = Inr (Fin h)"
    using ratio_finite [OF assms(2)] by blast
  have "py_truediv p (PFloat (Fin h)) = bindr (py_float p) (\<lambda>x. fdiv x (Fin h))"
    using number_float [OF assms(1)] by (simp add: py_truediv_def split: option.split)
  moreover have "p \<noteq> PNone" using assms(1) by (auto simp: is_number_def)
  moreover have "fdiv (Fin (of_int c)) (Fin (of_int HOUR_MS)) = Inr (Fin h)" using h(1) by (simp add: HOUR_MS_def)
  ultimately show ?thesis using assms(2,3) h(2)
    by (simp add: hourly_def py_truediv_def [of "PInt c"] float_of_int_small)
qed

text \<open>
  The rate per hour does not depend on the shape it is read from: the row that the SDK makes of
  a mark price shows, and \<open>per_hour_view\<close> reads from that row, exactly what \<open>per_hour_view\<close> makes of
  the wire answer, and making the row raises what reading the wire answer raises.
\<close>

theorem per_hour_views_agree:
  assumes "dget d ''funding'' = Some (PDict block)" "\<not> truthy (entry d ''rate'')" "entry d ''funding_per_hour'' = PNone"
    and "dget block ''kind'' = Some kind" "dget block ''per_cycle'' = Some p" "is_number p"
    and "dget block ''cycle_ms'' = Some (PInt c)" "c \<noteq> 0" "\<bar>c\<bar> < 2 ^ 53"
  shows "(case mark_price_row (PDict d) of
      Inr r \<Rightarrow> rw_raw r = PDict d \<and> per_hour_view (Mapped (PDict (rw_flat r))) = per_hour_view (Mapped (PDict d))
        \<and> bindr (row_attribute r ''funding_per_hour'') py_float = per_hour_view (Mapped (PDict d))
    | Inl e \<Rightarrow> per_hour_view (Mapped (PDict d)) = Inl e)"
proof -
  have block: "truthy (PDict block)" "entry d ''funding'' = PDict block" using assms(1,4) by (auto simp: entry_def)
  have wire: "per_hour_view (Mapped (PDict d)) =
      bindr (py_float p) (\<lambda>x. bindr (py_float (PInt c)) (\<lambda>c. bindr (fdiv c (Fin (of_int HOUR_MS))) (fdiv x)))"
    using assms(2,3) block
    by (simp add: per_hour_view_def mapped_fields_def py_or_def rate_triple_def item_at_def assms(4,5,7) bindr_assoc)
  obtain h where h: "fdiv (Fin (of_int c)) (Fin (of_int HOUR_MS)) = Inr (Fin h)" "py_float (PInt c) = Inr (Fin (of_int c))"
    using ratio_finite [OF assms(9)] assms(9) by (auto simp: HOUR_MS_def float_of_int_small)
  have hour: "hourly p (PInt c) = bindr (per_hour_view (Mapped (PDict d))) (\<lambda>x. Inr (PFloat x))"
    unfolding hourly_view [OF assms(6,9,8)] wire by (simp only: h bindr_simps bindr_assoc)
  show ?thesis
  proof (cases "per_hour_view (Mapped (PDict d))")
    case (Inl e)
    then show ?thesis using hour block assms(5,7) by (simp add: mark_price_row_def with_object_def py_or_def Let_def)
  next
    case (Inr x)
    then obtain r where r: "mark_price_row (PDict d) = Inr r" "rw_raw r = PDict d" "dget (rw_flat r) ''funding_per_hour'' = Some (PFloat x)"
      using hour block assms(4,5,7)
      by (simp add: mark_price_row_def with_object_def py_or_def Let_def copied_def)
    then show ?thesis using Inr by (simp add: per_hour_view_def row_attribute_def entry_def)
  qed
qed

lemma per_hour_views_agree_witness:
  "\<exists>r. mark_price_row (PDict [(''mark_price'', PInt 5), (''funding'', PDict [(''kind'', PStr ''discrete''), (''per_cycle'', PFloat (Fin 8)),
     (''cycle_ms'', PInt 28800000)])]) = Inr r \<and> per_hour_view (Mapped (PDict (rw_flat r))) = Inr (Fin 1)"
proof -
  let ?block = "[(''kind'', PStr ''discrete''), (''per_cycle'', PFloat (Fin 8)), (''cycle_ms'', PInt 28800000)]"
  let ?d = "[(''mark_price'', PInt 5), (''funding'', PDict ?block)]"
  have "per_hour_view (Mapped (PDict ?d)) = Inr (Fin 1)"
    using round64_int [of 28800000] round64_int [of 8] round64_int [of 1]
    by (simp add: per_hour_view_def mapped_fields_def py_or_def rate_triple_def item_at_def entry_def float_of_int_def HOUR_MS_def)
  moreover have "case mark_price_row (PDict ?d) of
      Inr r \<Rightarrow> rw_raw r = PDict ?d \<and> per_hour_view (Mapped (PDict (rw_flat r))) = per_hour_view (Mapped (PDict ?d))
        \<and> bindr (row_attribute r ''funding_per_hour'') py_float = per_hour_view (Mapped (PDict ?d))
    | Inl e \<Rightarrow> per_hour_view (Mapped (PDict ?d)) = Inl e"
    by (rule per_hour_views_agree [where block = ?block and c = 28800000 and p = "PFloat (Fin 8)" and kind = "PStr ''discrete''"])
      (simp_all add: entry_def is_number_def)
  ultimately show ?thesis by (cases "mark_price_row (PDict ?d)") auto
qed

text \<open>
  Each helper refuses shapes that the other takes: a single row is iterated over its labels by
  \<open>funding_paid\<close>, which are no rows.
\<close>

definition iterated :: "funding_row \<Rightarrow> funding_rows" where
  "iterated r = Iterated (case r of Mapped (PDict d) \<Rightarrow> map (\<lambda>kv. Mapped (PStr (fst kv))) d
     | Labelled d \<Rightarrow> map (\<lambda>kv. Mapped (snd kv)) d | Mapped v \<Rightarrow> [])"

lemma funding_paid_single_row:
  assumes "d \<noteq> []"
  shows "funding_paid (iterated (Mapped (PDict d))) t_open t_close notional = bad_shape"
proof -
  obtain kv ds where "d = kv # ds" using assms by (cases d) auto
  then show ?thesis by (simp add: funding_paid_def iterated_def timed_row_def bad_shape_def)
qed

end
