(* ===== verification/ClientLaws.thy ===== *)
theory ClientLaws
  imports Facade CoreLaws Funding
begin

text \<open>
  What the calls of the SDK guarantee as they are composed: a closed client asks nothing, a series
  that is handed out tells where it is from and what is wrong with it, and a batch files it by that.
\<close>

section \<open>Success step by step\<close>

lemma look_Inr_iff: "look f s = (Inr v, s') \<longleftrightarrow> v = f (fst s) \<and> s' = s"
  by (cases s) (auto simp: look_def)

lemma pure_Inr_iff: "pure r s = (Inr v, s') \<longleftrightarrow> r = Inr v \<and> s' = s"
  by (cases r) (auto simp: pure_def liftw_def retw_def)

lemma retw_Inr_iff: "retw x s = (Inr v, s') \<longleftrightarrow> v = x \<and> s' = s"
  by (auto simp: retw_def)

lemmas success_iff = bindw_Inr_iff look_Inr_iff pure_Inr_iff retw_Inr_iff

text \<open>Each result of a row of calls is the result of one of them.\<close>

lemma mapw_results:
  assumes "mapw f xs s = (Inr ys, s')"
  shows "list_all2 (\<lambda>x y. \<exists>s1 s2. f x s1 = (Inr y, s2)) xs ys"
  using assms
proof (induction xs arbitrary: s ys)
  case Nil
  then show ?case by (simp add: retw_def)
next
  case (Cons x xs)
  then obtain y s1 zs where "f x s = (Inr y, s1)" "mapw f xs s1 = (Inr zs, s')" "ys = y # zs"
    by (auto simp: success_iff)
  then show ?case using Cons.IH by auto
qed

section \<open>Closed clients\<close>

lemma check_open_closed: "co_closed co \<Longrightarrow> check_open (co, w) = (Inl (Coded closed_error), (co, w))"
  by (simp add: check_open_def)

lemma bindw_Inl: "m s = (Inl e, s') \<Longrightarrow> bindw m f s = (Inl e, s')"
  by (simp add: bindw_def)

lemma ensure_capabilities_closed: "co_closed co \<Longrightarrow> ensure_capabilities url fetch exchange quiet (co, w) = (Inl (Coded closed_error), (co, w))"
  unfolding ensure_capabilities_def by (intro bindw_Inl check_open_closed)

lemma core_fetch_closed: "co_closed co \<Longrightarrow> core_fetch url fetch c (co, w) = (Inl (Coded closed_error), (co, w))"
  unfolding core_fetch_def by (intro bindw_Inl check_open_closed)

lemma client_preflight_closed: "co_closed co \<Longrightarrow>
    client_preflight env exchange mt route symbol interval label depth v (co, w) = (Inl (Coded closed_error), (co, w))"
  unfolding client_preflight_def preflight_def by (intro bindw_Inl ensure_capabilities_closed)

lemma series_closed: "co_closed co \<Longrightarrow> series env route exchange mt symbol q interval label v (co, w) = (Inl (Coded closed_error), (co, w))"
  unfolding series_def by (intro bindw_Inl client_preflight_closed)

lemma checked_data_closed: "co_closed co \<Longrightarrow> checked_data env route exchange mt symbol depth v (co, w) = (Inl (Coded closed_error), (co, w))"
  unfolding checked_data_def by (intro bindw_Inl client_preflight_closed)

lemmas closed_intros = bindw_Inl ensure_capabilities_closed core_fetch_closed series_closed checked_data_closed check_open_closed

text \<open>
  C21. Once a client is closed, by one call of \<open>close\<close> whatever the backend makes of it, it asks
  nothing of anybody: every read, every batch of a series route and the warm-up fail with the error
  that says so and leave the client and the world as they are, and closing it again does nothing.
\<close>

theorem closed_client_asks_nothing:
  assumes "client_close env s = (r, (co, w))"
  shows "client_ticker env ex mt sy v (co, w) = (Inl (Coded closed_error), (co, w))
    \<and> client_book_ticker env ex mt sy v (co, w) = (Inl (Coded closed_error), (co, w))
    \<and> client_mark_price env ex mt sy v (co, w) = (Inl (Coded closed_error), (co, w))
    \<and> client_orderbook env ex mt sy depth v (co, w) = (Inl (Coded closed_error), (co, w))
    \<and> client_margin_tiers env ex mt sy v (co, w) = (Inl (Coded closed_error), (co, w))
    \<and> client_symbol_info env ex mt sy (co, w) = (Inl (Coded closed_error), (co, w))
    \<and> client_exchange_call env xr ex (co, w) = (Inl (Coded closed_error), (co, w))
    \<and> client_status env (co, w) = (Inl (Coded closed_error), (co, w))
    \<and> client_version env (co, w) = (Inl (Coded closed_error), (co, w))
    \<and> client_exchanges env (co, w) = (Inl (Coded closed_error), (co, w))
    \<and> client_market_types env ex (co, w) = (Inl (Coded closed_error), (co, w))
    \<and> client_markets env ex mt (co, w) = (Inl (Coded closed_error), (co, w))
    \<and> client_capabilities env ex (co, w) = (Inl (Coded closed_error), (co, w))
    \<and> series env route ex mt sy q interval label v (co, w) = (Inl (Coded closed_error), (co, w))
    \<and> client_warm env names (co, w) = (Inl (Coded closed_error), (co, w))
    \<and> (if route_name route \<in> set SERIES_ROUTES then many env route ex mt syms q interval label v (co, w) = (Inl (Coded closed_error), (co, w)) else True)
    \<and> client_close env (co, w) = (Inr (), (co, w))"
proof -
  have closed: "co_closed co"
    using assms by (cases s) (auto simp: client_close_def core_close_def outside_def look_def bindw_def retw_def split: prod.splits sum.splits if_splits)
  have "many env route ex mt syms q interval label v (co, w) = (Inl (Coded closed_error), (co, w))" if "route_name route \<in> set SERIES_ROUTES"
    unfolding many_def fetch_many_def using that closed by (simp add: closed_intros)
  then show ?thesis
    unfolding client_ticker_def client_book_ticker_def client_mark_price_def client_orderbook_def client_margin_tiers_def
      client_symbol_info_def client_markets_def client_fetch_def client_exchange_call_def client_status_def
      client_version_def client_exchanges_def client_market_types_def client_capabilities_def client_warm_def
    using closed by (simp add: closed_intros) (simp add: client_close_def retw_def)
qed

definition demo_client :: "(nat, list_frame) client_env" where
  "demo_client = \<lparr>cl_url = ''http://h'',
     cl_fetch = (\<lambda>c w. (Inr (case c of
         ExchangeCall r e \<Rightarrow> PDict [(''markets'', PDict [(''linear'', PDict [(''long_short_ratio'',
            PDict [(''rest'', PBool True), (''paginated'', PBool True)])])])]
       | MarketCall r e m s q \<Rightarrow> PList [PDict [(''timestamp'', PInt 5), (''ratio'', PFloat (Fin 2)), (''account_scope'', PStr ''global'')]]
       | _ \<Rightarrow> PDict []), Suc w)),
     cl_warm = (\<lambda>ns. retw ()), cl_close = (\<lambda>w. (Inl (Raised (ValueError ''no'')), w)), cl_cancel_warm = retw (),
     cl_describe = (\<lambda>e. []), cl_warn = (\<lambda>m. retw ()), cl_verbose = True, cl_pandas = list_pandas\<rparr>"

text \<open>A backend that fails to close leaves the client closed all the same.\<close>

lemma closed_client_asks_nothing_witness:
  "\<exists>e co. client_close demo_client (core_init False [] False, 0) = (Inl e, (co, 0))
     \<and> client_trades demo_client ''okx'' ''linear'' ''BTCUSDT'' 5 None (co, 0) = (Inl (Coded closed_error), (co, 0))"
proof -
  let ?co = "core_close (core_init False [] False)"
  have close: "client_close demo_client (core_init False [] False, 0) = (Inl (Raised (ValueError ''no'')), (?co, 0))"
    by (simp add: client_close_def core_init_def) (simp add: demo_client_def outside_def bindw_def retw_def)
  have "client_trades demo_client ''okx'' ''linear'' ''BTCUSDT'' 5 None (?co, 0) = (Inl (Coded closed_error), (?co, 0))"
    unfolding client_trades_def using closed_client_asks_nothing [OF close] by blast
  with close show ?thesis by blast
qed

section \<open>Series\<close>

lemma series_frame_of:
  assumes "pandas_ok (cl_pandas env)" "series env route ex mt sy q interval label v s = (Inr df, s')"
  shows "\<exists>rows ctx ws s0 s1. client_fetch env route ex mt sy q s0 = (Inr rows, s1)
     \<and> build_frame (cl_pandas env) (route_name route) rows ctx = Inr (df, ws)
     \<and> cx_exchange ctx = ex \<and> cx_market_type ctx = mt \<and> cx_symbol ctx = sy \<and> cx_requested ctx = q_limit q
     \<and> emit env ws (verbosity env v) s1 = (Inr (), s')"
proof -
  obtain rows ctx ws s0 s1 b where run: "client_fetch env route ex mt sy q s0 = (Inr rows, s1)" "series_ctx ex mt sy (q_limit q) b = Inr ctx"
      "build_frame (cl_pandas env) (route_name route) rows ctx = Inr (df, ws)" "emit env ws (verbosity env v) s1 = (Inr (), s')"
    using assms(2) by (auto simp: series_def success_iff bindr_Inr_iff split: prod.splits)
  then have "cx_exchange ctx = ex \<and> cx_market_type ctx = mt \<and> cx_symbol ctx = sy \<and> cx_requested ctx = q_limit q"
    by (auto simp: series_ctx_def bindr_Inr_iff)
  with run show ?thesis by blast
qed

text \<open>Where a frame is from.\<close>

definition frame_of :: "string \<Rightarrow> string \<Rightarrow> string \<Rightarrow> string list \<Rightarrow> attrs \<Rightarrow> bool" where
  "frame_of ex mt sy ws attrs \<longleftrightarrow> dget attrs ''exchange'' = Some (PStr ex) \<and> dget attrs ''market_type'' = Some (PStr mt)
     \<and> dget attrs ''symbol'' = Some (PStr sy) \<and> dget attrs ''schema_version'' = Some (PInt 3) \<and> dget attrs ''warnings'' = Some (texts ws)"

lemma series_provenance:
  assumes "pandas_ok (cl_pandas env)" "series env route ex mt sy q interval label v s = (Inr df, s')"
  obtains ws where "dget COLUMNS (route_name route) = Some (pd_columns (cl_pandas env) df)" "frame_of ex mt sy ws (pd_attrs (cl_pandas env) df)"
proof -
  obtain rows ctx ws where run: "build_frame (cl_pandas env) (route_name route) rows ctx = Inr (df, ws)"
      "cx_exchange ctx = ex" "cx_market_type ctx = mt" "cx_symbol ctx = sy"
    using series_frame_of [OF assms] by blast
  then show ?thesis using build_provenance [OF assms(1) run(1)] that by (auto simp: provenance_def frame_of_def)
qed

lemma attr_messages_frame: "frame_of ex mt sy ws (pd_attrs pd df) \<Longrightarrow> attr_messages pd df = ws"
  by (simp add: frame_of_def attr_messages_def texts_def comp_def py_str_def)

section \<open>Batches of series\<close>

text \<open>What is filed is a result that was gathered, and every symbol that was called is filed.\<close>

lemma filed_once:
  "dget (ba_ok (file_result b r)) x = Some df \<Longrightarrow> dget (ba_ok b) x = Some df \<or> r = (x, Inr (df, []))"
  "dget (ba_degraded (file_result b r)) x = Some (df, ws) \<Longrightarrow> dget (ba_degraded b) x = Some (df, ws) \<or> r = (x, Inr (df, ws)) \<and> ws \<noteq> []"
  "dget (ba_failed (file_result b r)) x = Some e \<Longrightarrow> dget (ba_failed b) x = Some e \<or> r = (x, Inl e)"
  "x = fst r \<or> filed b x \<noteq> (None, None, None) \<Longrightarrow> filed (file_result b r) x \<noteq> (None, None, None)"
  by (cases "(b, r)" rule: file_result.cases; auto simp: filed_def split: if_splits)+

lemma filed_all:
  "dget (ba_ok (foldl file_result b g)) x = Some df \<Longrightarrow> dget (ba_ok b) x = Some df \<or> (x, Inr (df, [])) \<in> set g"
  "dget (ba_degraded (foldl file_result b g)) x = Some (df, ws) \<Longrightarrow>
     dget (ba_degraded b) x = Some (df, ws) \<or> (x, Inr (df, ws)) \<in> set g \<and> ws \<noteq> []"
  "dget (ba_failed (foldl file_result b g)) x = Some e \<Longrightarrow> dget (ba_failed b) x = Some e \<or> (x, Inl e) \<in> set g"
  "x \<in> fst ` set g \<or> filed b x \<noteq> (None, None, None) \<Longrightarrow> filed (foldl file_result b g) x \<noteq> (None, None, None)"
proof (induction g arbitrary: b)
  case (Cons r g)
  { case 1 then show ?case using Cons.IH(1) [of "file_result b r"] filed_once(1) [of b r x df] by auto }
  { case 2 then show ?case using Cons.IH(2) [of "file_result b r"] filed_once(2) [of b r x df ws] by auto }
  { case 3 then show ?case using Cons.IH(3) [of "file_result b r"] filed_once(3) [of b r x e] by auto }
  { case 4 then show ?case using Cons.IH(4) [of "file_result b r"] filed_once(4) [of x r b] unfolding foldl.simps list.set image_insert insert_iff by blast }
qed simp_all

lemma batch_of_gathered:
  "dget (ba_ok (batch_of g)) x = Some df \<Longrightarrow> (x, Inr (df, [])) \<in> set g"
  "dget (ba_degraded (batch_of g)) x = Some (df, ws) \<Longrightarrow> (x, Inr (df, ws)) \<in> set g \<and> ws \<noteq> []"
  "dget (ba_failed (batch_of g)) x = Some e \<Longrightarrow> (x, Inl e) \<in> set g"
  "x \<in> fst ` set g \<Longrightarrow> filed (batch_of g) x \<noteq> (None, None, None)"
  unfolding batch_of_def by (drule filed_all; simp)+ (rule filed_all(4), simp)

text \<open>A call that can give a result.\<close>

definition yields :: "('w, 'e, 'a) io \<Rightarrow> 'a \<Rightarrow> bool" where
  "yields m v \<longleftrightarrow> (\<exists>s1 s2. m s1 = (Inr v, s2))"

lemma yieldsI: "m s1 = (Inr v, s2) \<Longrightarrow> yields m v"
  by (auto simp: yields_def)

definition fails :: "('w, 'e, 'a) io \<Rightarrow> 'e \<Rightarrow> bool" where
  "fails m e \<longleftrightarrow> (\<exists>s1 s2. m s1 = (Inl e, s2))"

lemma failsI: "m s1 = (Inl e, s2) \<Longrightarrow> fails m e"
  by (auto simp: fails_def)

lemma batch_one_yields:
  "batch_one get x t = (Inr (y, Inr (df, ms)), t') \<Longrightarrow> yields (get x) (df, ms)"
  by (auto simp: batch_one_def intro: yieldsI split: prod.splits sum.splits fault.splits if_splits)

lemma batch_one_fails:
  "batch_one get x t = (Inr (y, Inl e), t') \<Longrightarrow> fails (get x) e"
  by (auto simp: batch_one_def intro: failsI split: prod.splits sum.splits fault.splits if_splits)

lemma batch_one_named: "batch_one get x t = (Inr r, t') \<Longrightarrow> fst r = x"
  by (auto simp: batch_one_def split: prod.splits sum.splits fault.splits if_splits)

text \<open>What was gathered of each symbol is how its own call went.\<close>

definition went :: "(string \<Rightarrow> ('w, fault, 'f \<times> string list) io) \<Rightarrow> string \<Rightarrow> string \<times> (fault + 'f \<times> string list) \<Rightarrow> bool" where
  "went get x r \<longleftrightarrow> fst r = x \<and> (case snd r of Inl e \<Rightarrow> fails (get x) e | Inr v \<Rightarrow> yields (get x) v)"

lemma batch_one_went: "batch_one get x t = (Inr r, t') \<Longrightarrow> went get x r"
  by (cases r; cases "snd r") (auto simp: went_def dest: batch_one_named intro: batch_one_yields batch_one_fails)

lemma many_gathered:
  assumes "many env route ex mt syms q interval label v s = (Inr b, s')"
  obtains g where "b = batch_of g" "list_all2 (went (series_with_messages env route ex mt q interval label)) syms g"
proof -
  let ?get = "series_with_messages env route ex mt q interval label"
  obtain g s1 s2 where g: "mapw (batch_one ?get) syms s1 = (Inr g, s2)" "b = batch_of g"
    using assms by (auto simp: many_def fetch_many_def success_iff throw_def split: if_splits)
  have "list_all2 (went ?get) syms g"
    using list_all2_mono [OF mapw_results [OF g(1)]] batch_one_went by blast
  then show ?thesis using that g(2) by blast
qed

lemma went_in: "list_all2 (went get) syms g \<Longrightarrow> (x, r) \<in> set g \<Longrightarrow> x \<in> set syms \<and> went get x (x, r)"
  by (induction rule: list_all2_induct) (auto simp: went_def split: sum.splits)

lemma went_all: "list_all2 (went get) syms g \<Longrightarrow> fst ` set g = set syms"
  by (induction rule: list_all2_induct) (auto simp: went_def)

text \<open>
  C22. A batch of a series route files by what the frames say of themselves: a clean entry is a frame
  of its own symbol, with the columns of the route and no warning; a degraded entry is such a frame
  with at least one warning, filed with exactly the warnings it carries; a failed entry is an error
  of the symbol's own call; every symbol asked for is filed, and nothing else is.
\<close>

theorem many_files_frames:
  assumes "pandas_ok (cl_pandas env)" "many env route ex mt syms q interval label v s = (Inr b, s')"
  shows "(dget (ba_ok b) x = Some df \<longrightarrow> x \<in> set syms \<and> dget COLUMNS (route_name route) = Some (pd_columns (cl_pandas env) df)
       \<and> frame_of ex mt x [] (pd_attrs (cl_pandas env) df))
     \<and> (dget (ba_degraded b) x = Some (df, ws) \<longrightarrow> x \<in> set syms \<and> ws \<noteq> []
       \<and> dget COLUMNS (route_name route) = Some (pd_columns (cl_pandas env) df) \<and> frame_of ex mt x ws (pd_attrs (cl_pandas env) df))
     \<and> (dget (ba_failed b) x = Some e \<longrightarrow> x \<in> set syms \<and> fails (series env route ex mt x q interval label (Some False)) e)
     \<and> (filed b x \<noteq> (None, None, None) \<longleftrightarrow> x \<in> set syms)"
proof -
  let ?get = "series_with_messages env route ex mt q interval label"
  obtain g where g: "b = batch_of g" "list_all2 (went ?get) syms g" by (rule many_gathered [OF assms(2)])
  have entry: "x \<in> set syms \<and> dget COLUMNS (route_name route) = Some (pd_columns (cl_pandas env) df) \<and> frame_of ex mt x ms (pd_attrs (cl_pandas env) df)"
    if r: "(x, Inr (df, ms)) \<in> set g" for df ms
  proof -
    obtain s1 s2 where "?get x s1 = (Inr (df, ms), s2)"
      using went_in [OF g(2) r] by (auto simp: went_def yields_def)
    then obtain s3 where call: "series env route ex mt x q interval label (Some False) s1 = (Inr df, s3)" "ms = attr_messages (cl_pandas env) df"
      by (auto simp: series_with_messages_def success_iff)
    obtain us where "dget COLUMNS (route_name route) = Some (pd_columns (cl_pandas env) df)" "frame_of ex mt x us (pd_attrs (cl_pandas env) df)"
      by (rule series_provenance [OF assms(1) call(1)])
    then show ?thesis using went_in [OF g(2) r] call(2) attr_messages_frame by metis
  qed
  have wrong: "x \<in> set syms \<and> fails (series env route ex mt x q interval label (Some False)) e" if r: "(x, Inl e) \<in> set g" for e
  proof -
    obtain s1 s2 where "?get x s1 = (Inl e, s2)" using went_in [OF g(2) r] by (auto simp: went_def fails_def)
    then have "series env route ex mt x q interval label (Some False) s1 = (Inl e, s2)"
      unfolding series_with_messages_def bindw_def retw_def by (auto split: prod.splits sum.splits)
    then show ?thesis using went_in [OF g(2) r] failsI by fast
  qed
  have "x \<in> set syms" if f: "filed b x \<noteq> (None, None, None)"
  proof -
    obtain r where "(x, r) \<in> set g"
      using f batch_of_gathered(1-3) [of g x] unfolding filed_def g(1) by (metis not_None_eq prod.collapse)
    then show ?thesis using went_in [OF g(2)] by blast
  qed
  moreover have "filed b x \<noteq> (None, None, None)" if "x \<in> set syms"
    unfolding g(1) using that went_all [OF g(2)] by (intro batch_of_gathered(4)) simp
  ultimately show ?thesis
    using batch_of_gathered(1-3) [of g x] entry [of df "[]"] entry [of df ws] wrong [of e] unfolding g(1) by blast
qed

text \<open>One row of an account ratio where two were asked for: the frame is filed with that remark.\<close>

lemma many_files_frames_witness:
  "\<exists>b s df ws. many demo_client LongShortRatioRoute ''okx'' ''linear'' [''BTCUSDT''] ((limited 2)\<lparr>q_period := Some ''5m''\<rparr>) (Some ''5m'') ''Period'' (Some False)
       (core_init False [] False, 0) = (Inr b, s)
     \<and> dget (ba_degraded b) ''BTCUSDT'' = Some (df, ws) \<and> length ws = 1
     \<and> frame_of ''okx'' ''linear'' ''BTCUSDT'' ws (pd_attrs list_pandas df)"
proof -
  let ?call = "many demo_client LongShortRatioRoute ''okx'' ''linear'' [''BTCUSDT''] ((limited 2)\<lparr>q_period := Some ''5m''\<rparr>) (Some ''5m'') ''Period'' (Some False)
       (core_init False [] False, 0)"
  have "case ?call of (Inr b, s) \<Rightarrow> (case dget (ba_degraded b) ''BTCUSDT'' of Some (df, ws) \<Rightarrow> length ws = 1 | None \<Rightarrow> False) | (Inl e, s) \<Rightarrow> False"
    by code_simp
  then obtain b s df ws where b: "?call = (Inr b, s)" "dget (ba_degraded b) ''BTCUSDT'' = Some (df, ws)" "length ws = 1"
    by (auto split: prod.splits sum.splits option.splits)
  have pd: "cl_pandas demo_client = list_pandas" by (simp add: demo_client_def)
  then have "pandas_ok (cl_pandas demo_client)" by (simp add: list_pandas_ok)
  then have "frame_of ''okx'' ''linear'' ''BTCUSDT'' ws (pd_attrs (cl_pandas demo_client) df)"
    using many_files_frames [OF _ b(1), of "''BTCUSDT''" df ws] b(2) by simp
  with b pd show ?thesis by metis
qed

end
