(* ===== verification/SyncClient.thy ===== *)
theory SyncClient
  imports Facade ClientLaws
begin

text \<open>
  The synchronous client, \<^verbatim>\<open>exchange_router/router.py\<close>: every call runs on a loop of its own, in a
  thread beside the caller, until it is stopped; and the market handles of
  \<^verbatim>\<open>exchange_router/handle.py\<close>, which either client hands out.
\<close>

section \<open>The loop\<close>

text \<open>Beside the client there is whether its loop has been stopped.\<close>

type_synonym ('w, 'a) sync_io = "(bool \<times> core \<times> 'w, fault, 'a) io"

definition sync_closed_error :: router_error where
  "sync_closed_error = mk_error RouterError (PStr (''this router is closed; build another with Router.local(exchanges=[...]) or '' @
     ''Router.service(url, exchanges=[...])'')) None"

definition sync_run :: "('w, 'a) core_io \<Rightarrow> ('w, 'a) sync_io" where
  "sync_run m = (\<lambda>(stopped, s). if stopped then (Inl (Coded sync_closed_error), (stopped, s))
     else case m s of (r, s) \<Rightarrow> (r, (stopped, s)))"

definition sync_stop :: "('w, unit) sync_io" where
  "sync_stop = (\<lambda>(stopped, s). (Inr (), (True, s)))"

definition sync_close :: "('w, 'df) client_env \<Rightarrow> ('w, unit) sync_io" where
  "sync_close env = (\<lambda>(stopped, s). if stopped then (Inr (), (stopped, s))
     else bindw (sync_run (client_close env)) (\<lambda>_. sync_stop) (stopped, s))"

text \<open>\<open>Router._wrap\<close>: a client that cannot be built leaves no loop running.\<close>

definition sync_wrap :: "router_error + core \<Rightarrow> bool \<times> (router_error + core)" where
  "sync_wrap built = (case built of Inl e \<Rightarrow> (True, Inl e) | Inr co \<Rightarrow> (False, Inr co))"

text \<open>A stream is refused once the loop has stopped; its buffer is in \<open>Queues\<close>.\<close>

definition sync_iterate :: "bool \<Rightarrow> fault + unit" where
  "sync_iterate stopped = (if stopped then Inl (Coded sync_closed_error) else Inr ())"

section \<open>Calls\<close>

definition sync_warm where "sync_warm env exchange = sync_run (client_warm env exchange)"

definition sync_exchange_overview where "sync_exchange_overview env exchange = sync_run (client_exchange_call env OverviewRoute exchange)"

definition sync_exchange_status where "sync_exchange_status env exchange = sync_run (client_exchange_call env ExchangeStatusRoute exchange)"

definition sync_status where "sync_status env = sync_run (client_status env)"

definition sync_version where "sync_version env = sync_run (client_version env)"

definition sync_exchanges where "sync_exchanges env = sync_run (client_exchanges env)"

definition sync_market_types where "sync_market_types env exchange = sync_run (client_market_types env exchange)"

definition sync_capabilities where "sync_capabilities env exchange = sync_run (client_capabilities env exchange)"

definition sync_markets where "sync_markets env exchange mt = sync_run (client_markets env exchange mt)"

definition sync_symbol_info where "sync_symbol_info env exchange mt symbol = sync_run (client_symbol_info env exchange mt symbol)"

definition sync_ticker where "sync_ticker env exchange mt symbol verbose = sync_run (client_ticker env exchange mt symbol verbose)"

definition sync_book_ticker where "sync_book_ticker env exchange mt symbol verbose = sync_run (client_book_ticker env exchange mt symbol verbose)"

definition sync_mark_price where "sync_mark_price env exchange mt symbol verbose = sync_run (client_mark_price env exchange mt symbol verbose)"

definition sync_orderbook where
  "sync_orderbook env exchange mt symbol depth verbose = sync_run (client_orderbook env exchange mt symbol depth verbose)"

definition sync_margin_tiers where "sync_margin_tiers env exchange mt symbol verbose = sync_run (client_margin_tiers env exchange mt symbol verbose)"

definition sync_candles where
  "sync_candles env exchange mt symbol interval limit start verbose = sync_run (client_candles env exchange mt symbol interval limit start verbose)"

definition sync_trades where "sync_trades env exchange mt symbol limit verbose = sync_run (client_trades env exchange mt symbol limit verbose)"

definition sync_agg_trades where
  "sync_agg_trades env exchange mt symbol limit start verbose = sync_run (client_agg_trades env exchange mt symbol limit start verbose)"

definition sync_funding_rate where
  "sync_funding_rate env exchange mt symbol limit start verbose = sync_run (client_funding_rate env exchange mt symbol limit start verbose)"

definition sync_open_interest where
  "sync_open_interest env exchange mt symbol period limit start verbose = sync_run (client_open_interest env exchange mt symbol period limit start verbose)"

definition sync_liquidations where
  "sync_liquidations env exchange mt symbol limit start verbose = sync_run (client_liquidations env exchange mt symbol limit start verbose)"

definition sync_long_short_ratio where
  "sync_long_short_ratio env exchange mt symbol period limit start verbose = sync_run (client_long_short_ratio env exchange mt symbol period limit start verbose)"

definition sync_fetch_many where
  "sync_fetch_many env route exchange mt symbols q interval label verbose = sync_run (many env route exchange mt symbols q interval label verbose)"

definition sync_candles_many where
  "sync_candles_many env exchange mt symbols interval limit start verbose = sync_run (candles_many env exchange mt symbols interval limit start verbose)"

definition sync_trades_many where
  "sync_trades_many env exchange mt symbols limit verbose = sync_run (trades_many env exchange mt symbols limit verbose)"

definition sync_agg_trades_many where
  "sync_agg_trades_many env exchange mt symbols limit start verbose = sync_run (agg_trades_many env exchange mt symbols limit start verbose)"

definition sync_funding_rate_many where
  "sync_funding_rate_many env exchange mt symbols limit start verbose = sync_run (funding_rate_many env exchange mt symbols limit start verbose)"

definition sync_open_interest_many where
  "sync_open_interest_many env exchange mt symbols period limit start verbose = sync_run (open_interest_many env exchange mt symbols period limit start verbose)"

definition sync_liquidations_many where
  "sync_liquidations_many env exchange mt symbols limit start verbose = sync_run (liquidations_many env exchange mt symbols limit start verbose)"

definition sync_long_short_ratio_many where
  "sync_long_short_ratio_many env exchange mt symbols period limit start verbose = sync_run (long_short_ratio_many env exchange mt symbols period limit start verbose)"

section \<open>Market handles\<close>

text \<open>
  A handle passes its market to the client that made it, \<open>get\<close> being the method of that client. The
  synchronous handle keeps the metadata it has read.
\<close>

record market_handle =
  mh_exchange :: string
  mh_market_type :: string
  mh_symbol :: string
  mh_info :: "row option"

definition new_handle :: "string \<Rightarrow> string \<Rightarrow> string \<Rightarrow> market_handle" where
  "new_handle exchange mt symbol = \<lparr>mh_exchange = exchange, mh_market_type = mt, mh_symbol = symbol, mh_info = None\<rparr>"

text \<open>\<open>markets\<close>: a handle for every listed market.\<close>

definition listed_handles :: "string \<Rightarrow> string \<Rightarrow> pyval \<Rightarrow> market_handle list res" where
  "listed_handles exchange mt data = bindr (bindr (py_item data ''markets'') py_iter) (mapr (\<lambda>m.
     bindr (py_item m ''symbol'') (\<lambda>s. Inr (new_handle exchange mt (py_str s)))))"

definition client_handles :: "('w, 'df) client_env \<Rightarrow> string \<Rightarrow> string \<Rightarrow> ('w, market_handle list) core_io" where
  "client_handles env exchange mt = bindw (client_markets env exchange mt) (\<lambda>data. pure (listed_handles exchange mt data))"

definition sync_handles :: "('w, 'df) client_env \<Rightarrow> string \<Rightarrow> string \<Rightarrow> ('w, market_handle list) sync_io" where
  "sync_handles env exchange mt = sync_run (client_handles env exchange mt)"

definition handle_of :: "market_handle \<Rightarrow> (string \<Rightarrow> string \<Rightarrow> string \<Rightarrow> 'r) \<Rightarrow> 'r" where
  "handle_of m get = get (mh_exchange m) (mh_market_type m) (mh_symbol m)"

definition handle_ticker where "handle_ticker get m verbose = handle_of m get verbose"

definition handle_book_ticker where "handle_book_ticker get m verbose = handle_of m get verbose"

definition handle_mark_price where "handle_mark_price get m verbose = handle_of m get verbose"

definition handle_orderbook where "handle_orderbook get m depth verbose = handle_of m get depth verbose"

definition handle_margin_tiers where "handle_margin_tiers get m verbose = handle_of m get verbose"

definition handle_candles where "handle_candles get m interval limit start verbose = handle_of m get interval limit start verbose"

definition handle_trades where "handle_trades get m limit verbose = handle_of m get limit verbose"

definition handle_agg_trades where "handle_agg_trades get m limit start verbose = handle_of m get limit start verbose"

definition handle_funding_rate where "handle_funding_rate get m limit start verbose = handle_of m get limit start verbose"

definition handle_open_interest where "handle_open_interest get m period limit start verbose = handle_of m get period limit start verbose"

definition handle_liquidations where "handle_liquidations get m limit start verbose = handle_of m get limit start verbose"

definition handle_long_short_ratio where "handle_long_short_ratio get m period limit start verbose = handle_of m get period limit start verbose"

definition handle_text :: "market_handle \<Rightarrow> string" where
  "handle_text m = ''Market('' @ mh_exchange m @ ''/'' @ mh_market_type m @ ''/'' @ mh_symbol m @ '')''"

definition handle_info :: "(string \<Rightarrow> string \<Rightarrow> string \<Rightarrow> ('s, fault, row) io) \<Rightarrow> market_handle \<Rightarrow> ('s, fault, row \<times> market_handle) io" where
  "handle_info get m = (case mh_info m of
       Some r \<Rightarrow> retw (r, m)
     | None \<Rightarrow> bindw (handle_of m get) (\<lambda>r. retw (r, m\<lparr>mh_info := Some r\<rparr>)))"

definition handle_field :: "string \<Rightarrow> (string \<Rightarrow> string \<Rightarrow> string \<Rightarrow> ('s, fault, row) io) \<Rightarrow> market_handle \<Rightarrow> ('s, fault, pyval \<times> market_handle) io" where
  "handle_field key get m = bindw (handle_info get m) (\<lambda>(r, m). retw (entry (rw_flat r) key, m))"

section \<open>Closing\<close>

lemma sync_run_stopped: "sync_run m (True, s) = (Inl (Coded sync_closed_error), (True, s))"
  by (simp add: sync_run_def)

lemma client_close_closes: "client_close env (co, w) = (r, (co', w')) \<Longrightarrow> co_closed co'"
  by (auto simp: client_close_def core_close_def store_def outside_def look_def bindw_def retw_def split: prod.splits sum.splits if_splits)

lemma client_close_again: "co_closed co \<Longrightarrow> client_close env (co, w) = (Inr (), (co, w))"
  by (simp add: client_close_def look_def bindw_def retw_def)

lemma sync_close_open: "sync_close env (False, s) =
    (case client_close env s of (Inl e, s) \<Rightarrow> (Inl e, (False, s)) | (Inr u, s) \<Rightarrow> (Inr (), (True, s)))"
  by (auto simp: sync_close_def sync_run_def sync_stop_def bindw_def split: prod.splits sum.splits)

text \<open>
  A synchronous client is closed by two calls of \<open>close\<close> at most, whatever its backend raises:
  the second never fails and stops the loop if the first has left it running, and from then on
  every call fails with the error that says so, without touching client or world; metadata that a
  handle has read is still there.
\<close>

theorem second_close_stops:
  assumes "sync_close env s0 = (r, s1)"
  shows "\<exists>s. sync_close env s1 = (Inr (), (True, s))
    \<and> (\<forall>m. sync_run m (True, s) = (Inl (Coded sync_closed_error), (True, s)))
    \<and> sync_close env (True, s) = (Inr (), (True, s))
    \<and> (\<forall>h i. mh_info h = Some i \<longrightarrow> handle_info (sync_symbol_info env) h (True, s) = (Inr (i, h), (True, s)))"
proof -
  have over: "sync_close env (True, s) = (Inr (), (True, s))" for s by (simp add: sync_close_def)
  have kept: "handle_info (sync_symbol_info env) h t = (Inr (i, h), t)" if "mh_info h = Some i" for h i t
    using that by (simp add: handle_info_def retw_def)
  have "\<exists>s. sync_close env s1 = (Inr (), (True, s))"
  proof (cases "fst s1")
    case True
    then show ?thesis using over by (metis prod.collapse)
  next
    case False
    then have open_before: "\<not> fst s0" using assms by (cases s0) (auto simp: sync_close_def)
    obtain co w where s0: "s0 = (False, (co, w))" using open_before by (metis prod.collapse)
    obtain q co' w' where q: "client_close env (co, w) = (q, (co', w'))" by (metis prod.collapse)
    then have "s1 = (False, (co', w'))" using assms False by (auto simp: s0 sync_close_open split: sum.splits)
    then show ?thesis using client_close_again [OF client_close_closes [OF q], of env w'] by (simp add: sync_close_open)
  qed
  then show ?thesis using over kept sync_run_stopped by blast
qed

text \<open>A backend that fails to close.\<close>

lemma second_close_stops_witness:
  "\<exists>s0 s. sync_close demo_client (False, (core_init False [] False, 0)) = (Inl (Raised (ValueError ''no'')), s0)
     \<and> sync_close demo_client s0 = (Inr (), (True, s))"
proof -
  obtain s0 where "sync_close demo_client (False, (core_init False [] False, 0)) = (Inl (Raised (ValueError ''no'')), s0)"
    by (simp add: sync_close_open client_close_def core_init_def look_def store_def bindw_def)
      (simp add: demo_client_def outside_def bindw_def retw_def)
  then show ?thesis using second_close_stops by blast
qed

end
