(* ===== verification/Auditor.thy ===== *)
theory Auditor
  imports Core LocalBook Contracts
begin

text \<open>
  The auditor of a running service, \<^verbatim>\<open>tools/auditor\<close>: what it makes of the answers, probe by probe,
  and how it counts the results. A result is its verdict and the kind of error; messages, evidence
  and latencies are left out. The validation of a body against a model is pydantic's, a parameter.
\<close>

section \<open>Results\<close>

datatype verdict = Passes | Warns | Fails | Skips

datatype error_kind = OkKind | NetworkKind | HttpKind | SchemaKind | LogicKind | EmptyKind | TimeoutKind | UnimplementedKind | SkippedKind

type_synonym judgement = "verdict \<times> error_kind"

record probe_result =
  pr_exchange :: string
  pr_market :: string
  pr_route :: string
  pr_kind :: string
  pr_symbol :: "string option"
  pr_probe :: string
  pr_judgement :: judgement

definition pr_status :: "probe_result \<Rightarrow> verdict" where "pr_status r = fst (pr_judgement r)"
definition pr_error :: "probe_result \<Rightarrow> error_kind" where "pr_error r = snd (pr_judgement r)"

section \<open>The aggregator\<close>

definition count_up :: "('k, int) dict \<Rightarrow> 'k \<Rightarrow> ('k, int) dict" where
  "count_up d k = dset d k ((case dget d k of None \<Rightarrow> 0 | Some n \<Rightarrow> n) + 1)"

definition no_verdicts :: "(verdict, int) dict" where
  "no_verdicts = [(Passes, 0), (Warns, 0), (Fails, 0), (Skips, 0)]"

definition audit_totals :: "probe_result list \<Rightarrow> (verdict, int) dict" where
  "audit_totals rs = foldl (\<lambda>d r. count_up d (pr_status r)) no_verdicts rs"

definition by_error_type :: "probe_result list \<Rightarrow> (error_kind, int) dict" where
  "by_error_type rs = foldl (\<lambda>d r. count_up d (pr_error r)) [] rs"

definition by_exchange :: "probe_result list \<Rightarrow> (string, (verdict, int) dict) dict" where
  "by_exchange rs = foldl (\<lambda>d r.
     dset d (pr_exchange r) (count_up (case dget d (pr_exchange r) of None \<Rightarrow> no_verdicts | Some c \<Rightarrow> c) (pr_status r))) [] rs"

text \<open>The exit code of the program.\<close>

definition audit_exit :: "probe_result list \<Rightarrow> int" where
  "audit_exit rs = (case dget (audit_totals rs) Fails of None \<Rightarrow> 0 | Some n \<Rightarrow> if n \<noteq> 0 then 1 else 0)"

section \<open>Requests\<close>

datatype reply = Replied int pyval | TimedOut string | NoNetwork string | Broken string

type_synonym fetched = "int option \<times> pyval \<times> string option"

fun fetched :: "reply \<Rightarrow> fetched" where
  "fetched (Replied status data) = (Some status, data, None)"
| "fetched (TimedOut e) = (None, PNone, Some (''timeout: '' @ e))"
| "fetched (NoNetwork e) = (None, PNone, Some (''network: '' @ e))"
| "fetched (Broken e) = (None, PNone, Some (''unexpected: '' @ e))"

record 'w audit_env =
  au_get :: "string \<Rightarrow> (string \<times> pyval) list \<Rightarrow> 'w \<Rightarrow> reply \<times> 'w"
  au_now :: "'w \<Rightarrow> int"
  au_valid :: "string \<Rightarrow> pyval \<Rightarrow> bool"

definition ask_service :: "'w audit_env \<Rightarrow> string \<Rightarrow> (string \<times> pyval) list \<Rightarrow> ('w, pyexc, fetched) io" where
  "ask_service env path params w = (case au_get env path params w of (r, w) \<Rightarrow> (Inr (fetched r), w))"

record audit_ctx =
  ax_exchange :: string
  ax_market :: "string option"
  ax_symbol :: "string option"
  ax_slice :: pyval
  ax_now :: int

definition said :: "string option \<Rightarrow> string" where
  "said v = (case v of None \<Rightarrow> ''None'' | Some s \<Rightarrow> s)"

text \<open>\<open>f"/{ctx.exchange}/{ctx.market_type}/{route}"\<close>, with the symbol after it.\<close>

definition market_path :: "audit_ctx \<Rightarrow> string \<Rightarrow> string" where
  "market_path ctx route = ''/'' @ ax_exchange ctx @ ''/'' @ said (ax_market ctx) @ ''/'' @ route"

definition symbol_path :: "audit_ctx \<Rightarrow> string \<Rightarrow> string" where
  "symbol_path ctx route = market_path ctx route @ ''/'' @ said (ax_symbol ctx)"

definition judged :: "audit_ctx \<Rightarrow> string \<Rightarrow> string \<Rightarrow> string \<Rightarrow> judgement \<Rightarrow> probe_result" where
  "judged ctx kind route probe j = \<lparr>pr_exchange = ax_exchange ctx,
     pr_market = (case ax_market ctx of None \<Rightarrow> ''ALL'' | Some m \<Rightarrow> if m = [] then ''ALL'' else m),
     pr_route = route, pr_kind = kind, pr_symbol = ax_symbol ctx, pr_probe = probe, pr_judgement = j\<rparr>"

text \<open>What an answer other than 200 is.\<close>

definition http_failure :: "fetched \<Rightarrow> judgement" where
  "http_failure f = (case f of (status, data, err) \<Rightarrow>
     if err \<noteq> None then (Fails, NetworkKind)
     else if status = Some 501 then (Fails, UnimplementedKind)
     else (Fails, HttpKind))"

section \<open>Comparisons\<close>

text \<open>Python compares integers and floats by their exact values.\<close>

definition unordered :: "pyval \<Rightarrow> pyval \<Rightarrow> pyexc" where
  "unordered a b = TypeError (''no order between instances of '' @ quoted (type_name a) @ '' and '' @ quoted (type_name b))"

definition py_less :: "pyval \<Rightarrow> pyval \<Rightarrow> bool res" where
  "py_less a b = (case (number_of a, number_of b) of (Some x, Some y) \<Rightarrow> Inr (flt x y)
     | _ \<Rightarrow> (case (a, b) of (PStr s, PStr t) \<Rightarrow> Inr (str_less s t) | _ \<Rightarrow> Inl (unordered a b)))"

definition py_at_most :: "pyval \<Rightarrow> pyval \<Rightarrow> bool res" where
  "py_at_most a b = (case (number_of a, number_of b) of (Some x, Some y) \<Rightarrow> Inr (fle x y)
     | _ \<Rightarrow> (case (a, b) of (PStr s, PStr t) \<Rightarrow> Inr (s = t \<or> str_less s t) | _ \<Rightarrow> Inl (unordered a b)))"

fun whole :: "pyval \<Rightarrow> int option" where
  "whole (PInt n) = Some n"
| "whole (PBool b) = Some (if b then 1 else 0)"
| "whole v = None"

definition py_minus :: "pyval \<Rightarrow> pyval \<Rightarrow> pyval res" where
  "py_minus a b = (case (whole a, whole b) of
       (Some m, Some n) \<Rightarrow> Inr (PInt (m - n))
     | _ \<Rightarrow> if number_of a = None \<or> number_of b = None then Inl (unordered a b)
            else bindr (py_float a) (\<lambda>x. bindr (py_float b) (\<lambda>y. Inr (PFloat (fsub x y)))))"

text \<open>\<open>any\<close> over a sequence, which stops at the first that holds; \<open>a or b\<close> and \<open>a and b\<close>.\<close>

fun any_res :: "('a \<Rightarrow> bool res) \<Rightarrow> 'a list \<Rightarrow> bool res" where
  "any_res p [] = Inr False"
| "any_res p (x # xs) = bindr (p x) (\<lambda>b. if b then Inr True else any_res p xs)"

definition or_res :: "bool res \<Rightarrow> bool res \<Rightarrow> bool res" where
  "or_res a b = bindr a (\<lambda>x. if x then Inr True else b)"

definition and_res :: "bool res \<Rightarrow> bool res \<Rightarrow> bool res" where
  "and_res a b = bindr a (\<lambda>x. if x then b else Inr False)"

text \<open>\<open>p\<close> of some neighbours.\<close>

fun any_step :: "(pyval \<Rightarrow> pyval \<Rightarrow> bool res) \<Rightarrow> pyval list \<Rightarrow> bool res" where
  "any_step p (x # y # xs) = bindr (p x y) (\<lambda>b. if b then Inr True else any_step p (y # xs))"
| "any_step p xs = Inr False"

text \<open>The checks of a probe, in order: the first whose condition holds is the judgement.\<close>

fun first_fault :: "(bool res \<times> judgement) list \<Rightarrow> judgement res" where
  "first_fault [] = Inr (Passes, OkKind)"
| "first_fault ((c, j) # cs) = bindr c (\<lambda>b. if b then Inr j else first_fault cs)"

definition as_list :: "pyval \<Rightarrow> pyval list res" where
  "as_list v = (case v of PList xs \<Rightarrow> Inr xs | _ \<Rightarrow> Inl (TypeError (quoted (type_name v) @ '' is not a list'')))"

section \<open>Shapes\<close>

definition one_valid :: "'w audit_env \<Rightarrow> string \<Rightarrow> pyval \<Rightarrow> bool" where
  "one_valid env model data = (case data of PDict d \<Rightarrow> au_valid env model data | _ \<Rightarrow> False)"

text \<open>\<open>sorted({0, n - 1, n // 2, n // 4, 3 * n // 4})[:5]\<close>\<close>

definition sample_indices :: "nat \<Rightarrow> nat list" where
  "sample_indices n = take 5 (sort (remdups [0, n - 1, n div 2, n div 4, 3 * n div 4]))"

definition list_valid :: "'w audit_env \<Rightarrow> string \<Rightarrow> pyval list \<Rightarrow> bool" where
  "list_valid env model xs \<longleftrightarrow> xs = [] \<or> list_all (\<lambda>i. one_valid env model (xs ! i)) (sample_indices (length xs))"

text \<open>\<open>check_ascending_ts\<close>: whether a time is after the one that follows it.\<close>

definition goes_back :: "pyval \<Rightarrow> pyval \<Rightarrow> bool res" where
  "goes_back x y = bindr (py_get x ''timestamp'') (\<lambda>a. bindr (py_get y ''timestamp'') (\<lambda>b.
     if a = PNone \<or> b = PNone then Inr False else py_less b a))"

definition SNAPSHOT_FRESHNESS_MS :: int where "SNAPSHOT_FRESHNESS_MS = 300000"

definition is_stale :: "int \<Rightarrow> pyval \<Rightarrow> bool res" where
  "is_stale now data = bindr (py_item data ''timestamp'') (\<lambda>ts. bindr (py_minus (PInt now) ts) (py_less (PInt SNAPSHOT_FRESHNESS_MS)))"

definition not_positive :: "pyval \<Rightarrow> bool res" where
  "not_positive v = py_at_most v (PInt 0)"

text \<open>\<open>ctx.caps_slice and ctx.caps_slice.get(route, {}).get(key)\<close>\<close>

definition advertised :: "audit_ctx \<Rightarrow> string \<Rightarrow> string \<Rightarrow> bool res" where
  "advertised ctx route key =
     (if truthy (ax_slice ctx)
      then bindr (py_get_or (ax_slice ctx) route (PDict [])) (\<lambda>b. bindr (py_get b key) (\<lambda>v. Inr (truthy v)))
      else Inr False)"

end
