(* ===== verification/AuditProbes.thy ===== *)
theory AuditProbes
  imports Auditor
begin

text \<open>
  The probes of \<^verbatim>\<open>tools/auditor/probes\<close> that ask once and judge the answer: order books, trades,
  snapshots, margin tiers, metadata, market lists, known symbols, error paths, and the consistency
  of routes and of capabilities.
\<close>

section \<open>One question\<close>

definition one_probe :: "'w audit_env \<Rightarrow> audit_ctx \<Rightarrow> string \<Rightarrow> string \<Rightarrow> string \<Rightarrow> (string \<times> pyval) list \<Rightarrow>
    (int \<Rightarrow> pyval \<Rightarrow> judgement res) \<Rightarrow> ('w, pyexc, probe_result) io" where
  "one_probe env ctx route probe path params judge =
     bindw (ask_service env path params) (\<lambda>(status, data, err) w.
       (map_sum (\<lambda>e. e) (judged ctx ''rest'' route probe)
          (if status \<noteq> Some 200 then Inr (http_failure (status, data, err)) else judge (au_now env w) data), w))"

section \<open>Order books\<close>

definition level_price :: "pyval \<Rightarrow> pyval res" where "level_price l = py_index l 0"

definition rises :: "pyval \<Rightarrow> pyval \<Rightarrow> bool res" where
  "rises x y = bindr (level_price x) (\<lambda>p. bindr (level_price y) (py_less p))"

definition falls :: "pyval \<Rightarrow> pyval \<Rightarrow> bool res" where
  "falls x y = bindr (level_price x) (\<lambda>p. bindr (level_price y) (\<lambda>q. py_less q p))"

definition bad_level :: "pyval \<Rightarrow> bool res" where
  "bad_level l = bindr (py_index l 0) (\<lambda>p. bindr (py_index l 1) (\<lambda>q. or_res (not_positive p) (not_positive q)))"

definition crossed_book :: "pyval list \<Rightarrow> pyval list \<Rightarrow> bool res" where
  "crossed_book bids asks = (case (bids, asks) of
       (b # _, a # _) \<Rightarrow> bindr (level_price b) (\<lambda>p. bindr (level_price a) (\<lambda>q. py_at_most q p))
     | _ \<Rightarrow> Inr False)"

definition orderbook_judgement :: "'w audit_env \<Rightarrow> int \<Rightarrow> int \<Rightarrow> pyval \<Rightarrow> judgement res" where
  "orderbook_judgement env depth now data =
     (if \<not> one_valid env ''OrderBook'' data then Inr (Fails, SchemaKind)
      else bindr (bindr (py_item data ''bids'') as_list) (\<lambda>bids.
        bindr (bindr (py_item data ''asks'') as_list) (\<lambda>asks.
        first_fault [
          (Inr (depth < int (length bids) \<or> depth < int (length asks)), (Fails, LogicKind)),
          (any_step rises bids, (Fails, LogicKind)),
          (any_step falls asks, (Fails, LogicKind)),
          (crossed_book bids asks, (Fails, LogicKind)),
          (or_res (any_res bad_level bids) (any_res bad_level asks), (Fails, LogicKind)),
          (is_stale now data, (Warns, LogicKind))])))"

definition as_int :: "pyval \<Rightarrow> int res" where
  "as_int v = (case whole v of Some n \<Rightarrow> Inr n | None \<Rightarrow> Inl (unordered v (PInt 0)))"

definition audited_depths :: "pyval \<Rightarrow> int list res" where
  "audited_depths caps = bindr (py_get caps ''depths'') (\<lambda>declared.
     if truthy declared then
       bindr (bindr (py_iter declared) (mapr as_int)) (\<lambda>ds.
         let near = sort (remdups (filter (\<lambda>d. 1 \<le> d \<and> d \<le> 100) ds))
         in Inr (if near = [] then [Min (set ds)] else near))
     else bindr (bindr (py_get_or caps ''max_depth'' (PInt 100)) as_int) (\<lambda>m. Inr (sort (remdups [1, 20, min m 100]))))"

definition orderbook_probe :: "'w audit_env \<Rightarrow> audit_ctx \<Rightarrow> ('w, pyexc, probe_result list) io" where
  "orderbook_probe env ctx = bindw (liftw (bindr (py_item (ax_slice ctx) ''orderbook'') audited_depths)) (mapw (\<lambda>depth.
     one_probe env ctx ''orderbook'' (''orderbook:depth='' @ show_int depth) (symbol_path ctx ''orderbook'') [(''depth'', PInt depth)]
       (orderbook_judgement env depth)))"

section \<open>Trades\<close>

definition trade_ids :: "pyval list \<Rightarrow> pyval list res" where
  "trade_ids ts = bindr (mapr (\<lambda>t. py_get t ''id'') ts) (\<lambda>ids. Inr (filter (\<lambda>v. v \<noteq> PNone) ids))"

definition trades_judgement :: "'w audit_env \<Rightarrow> int \<Rightarrow> int \<Rightarrow> pyval \<Rightarrow> judgement res" where
  "trades_judgement env n now data = (case data of
       PList ts \<Rightarrow> first_fault [
         (Inr (ts = []), (Fails, EmptyKind)),
         (Inr (n < int (length ts)), (Fails, LogicKind)),
         (Inr (\<not> list_valid env ''Trade'' ts), (Fails, SchemaKind)),
         (bindr (trade_ids ts) (\<lambda>ids. Inr (\<not> distinct ids)), (Fails, LogicKind)),
         (any_step goes_back ts, (Fails, LogicKind)),
         (Inr (n = 1 \<and> length ts \<noteq> 1), (Fails, LogicKind)),
         (Inr (1 < n \<and> int (length ts) < n), (Warns, LogicKind))]
     | _ \<Rightarrow> Inr (Fails, SchemaKind))"

definition audited_limits :: "pyval \<Rightarrow> int list res" where
  "audited_limits caps = bindr (py_get caps ''max_limit'') (\<lambda>m.
     bindr (as_int (py_or m (PInt 1000))) (\<lambda>top. let big = min top 1000 in Inr (sort (remdups [1, min 100 big, big]))))"

definition trades_probe :: "'w audit_env \<Rightarrow> audit_ctx \<Rightarrow> ('w, pyexc, probe_result list) io" where
  "trades_probe env ctx = bindw (liftw (bindr (py_item (ax_slice ctx) ''trades'') audited_limits)) (mapw (\<lambda>n.
     one_probe env ctx ''trades'' (''trades:limit='' @ show_int n) (symbol_path ctx ''trades'') [(''limit'', PInt n)]
       (trades_judgement env n)))"

section \<open>Snapshots\<close>

definition native_of :: "pyval \<Rightarrow> string \<Rightarrow> pyval res" where
  "native_of d k = bindr (py_get d k) (\<lambda>v. case py_or v (PDict []) of
       PDict q \<Rightarrow> py_get_or (PDict q) ''native'' (PInt 0) | _ \<Rightarrow> Inr (PInt 0))"

definition above_zero :: "pyval \<Rightarrow> bool res" where "above_zero v = py_less (PInt 0) v"

definition outside_range :: "pyval \<Rightarrow> pyval \<Rightarrow> pyval \<Rightarrow> bool res" where
  "outside_range low price high = bindr (and_res (py_at_most low price) (py_at_most price high)) (\<lambda>b. Inr (\<not> b))"

definition ticker_checks :: "int \<Rightarrow> pyval \<Rightarrow> judgement res" where
  "ticker_checks now d =
     bindr (py_item d ''price'') (\<lambda>price. bindr (py_item d ''low_24h'') (\<lambda>low. bindr (py_item d ''high_24h'') (\<lambda>high.
     bindr (native_of d ''volume_24h'') (\<lambda>volume.
     first_fault [
       (not_positive price, (Fails, LogicKind)),
       (and_res (and_res (above_zero high) (above_zero low)) (outside_range low price high), (Warns, LogicKind)),
       (py_less volume (PInt 0), (Fails, LogicKind)),
       (is_stale now d, (Warns, LogicKind))]))))"

definition book_ticker_checks :: "int \<Rightarrow> pyval \<Rightarrow> judgement res" where
  "book_ticker_checks now d =
     bindr (py_item d ''bid_price'') (\<lambda>bid. bindr (py_item d ''ask_price'') (\<lambda>ask.
     bindr (native_of d ''bid_qty'') (\<lambda>bid_qty. bindr (native_of d ''ask_qty'') (\<lambda>ask_qty.
     first_fault [
       (or_res (not_positive bid) (not_positive ask), (Fails, LogicKind)),
       (py_less ask bid, (Fails, LogicKind)),
       (or_res (not_positive bid_qty) (not_positive ask_qty), (Fails, LogicKind)),
       (is_stale now d, (Warns, LogicKind))]))))"

definition mark_price_checks :: "int \<Rightarrow> pyval \<Rightarrow> judgement res" where
  "mark_price_checks now d =
     bindr (py_item d ''mark_price'') (\<lambda>mark. bindr (py_get d ''index_price'') (\<lambda>index.
     first_fault [
       (not_positive mark, (Fails, LogicKind)),
       (if index = PNone then Inr False else not_positive index, (Fails, LogicKind)),
       (is_stale now d, (Warns, LogicKind))]))"

definition SNAPSHOT_CHECKS :: "(string \<times> (int \<Rightarrow> pyval \<Rightarrow> judgement res)) list" where
  "SNAPSHOT_CHECKS = [(''ticker'', ticker_checks), (''book_ticker'', book_ticker_checks), (''mark_price'', mark_price_checks)]"

definition snapshot_judgement :: "'w audit_env \<Rightarrow> string \<Rightarrow> string \<Rightarrow> int \<Rightarrow> pyval \<Rightarrow> judgement res" where
  "snapshot_judgement env route model now data =
     (if \<not> one_valid env model data then Inr (Fails, SchemaKind)
      else case dget SNAPSHOT_CHECKS route of None \<Rightarrow> Inr (Passes, OkKind) | Some checks \<Rightarrow> checks now data)"

definition snapshot_probe :: "'w audit_env \<Rightarrow> audit_ctx \<Rightarrow> string \<Rightarrow> string \<Rightarrow> ('w, pyexc, probe_result list) io" where
  "snapshot_probe env ctx route model =
     mapw (\<lambda>_. one_probe env ctx route route (symbol_path ctx route) [] (snapshot_judgement env route model)) [()]"

section \<open>Margin tiers\<close>

definition bad_rate :: "pyval \<Rightarrow> string \<Rightarrow> bool res" where
  "bad_rate tier key = bindr (py_get tier key) (\<lambda>rate.
     if rate = PNone then Inr False else bindr (and_res (above_zero rate) (py_at_most rate (PInt 1))) (\<lambda>b. Inr (\<not> b)))"

definition bad_tier :: "pyval \<Rightarrow> bool res" where
  "bad_tier tier = or_res (bindr (py_item tier ''max_leverage'') not_positive)
     (any_res (bad_rate tier) [''maintenance_margin_rate'', ''initial_margin_rate''])"

definition table_fault :: "pyval list \<Rightarrow> bool res" where
  "table_fault tiers = bindr (mapr (\<lambda>t. py_item t ''up_to'') tiers) (\<lambda>bounds.
     or_res (Inr (PNone \<in> set (butlast bounds)))
       (or_res (any_step (\<lambda>earlier later. py_at_most later earlier) (filter (\<lambda>b. b \<noteq> PNone) bounds))
         (any_res bad_tier tiers)))"

definition odd_tier :: "pyval \<Rightarrow> bool res" where
  "odd_tier tier = bindr (py_get tier ''maintenance_margin_rate'') (\<lambda>mmr. bindr (py_get tier ''initial_margin_rate'') (\<lambda>imr.
     if mmr = PNone \<or> imr = PNone then Inr False else py_less imr mmr))"

definition table_oddity :: "pyval list \<Rightarrow> bool res" where
  "table_oddity tiers = bindr (mapr (\<lambda>t. py_item t ''max_leverage'') tiers) (\<lambda>leverage.
     or_res (any_step py_less leverage) (any_res odd_tier tiers))"

definition margin_judgement :: "'w audit_env \<Rightarrow> int \<Rightarrow> pyval \<Rightarrow> judgement res" where
  "margin_judgement env now data =
     (if \<not> one_valid env ''MarginTiers'' data then Inr (Fails, SchemaKind)
      else bindr (bindr (py_item data ''tiers'') as_list) (\<lambda>tiers. first_fault [
        (Inr (tiers = []), (Warns, EmptyKind)),
        (table_fault tiers, (Fails, LogicKind)),
        (table_oddity tiers, (Warns, LogicKind)),
        (bindr (py_item data ''up_to_unit'') (\<lambda>_. Inr False), (Passes, OkKind))]))"

definition margin_probe :: "'w audit_env \<Rightarrow> audit_ctx \<Rightarrow> ('w, pyexc, probe_result list) io" where
  "margin_probe env ctx =
     mapw (\<lambda>_. one_probe env ctx ''margin_tiers'' ''margin_tiers'' (symbol_path ctx ''margin_tiers'') [] (margin_judgement env)) [()]"

section \<open>Metadata\<close>

text \<open>\<open>Decimal(str(value)).normalize()\<close>: sign, coefficient and exponent, of a number that is finite.\<close>

definition normal_decimal :: "pyval \<Rightarrow> (bool \<times> int \<times> int) option" where
  "normal_decimal v = (let (neg, t) = split_sign (strip (py_str v)) in
     map_option (\<lambda>ce. (neg, if fst ce = 0 then (0, 0) else strip_zeros (length t) ce)) (parse_decimal t))"

definition audit_decimals :: "pyval \<Rightarrow> int" where
  "audit_decimals v = (case normal_decimal v of None \<Rightarrow> 0 | Some (neg, c, e) \<Rightarrow> max (- e) 0)"

definition power_of_ten_up_to_one :: "pyval \<Rightarrow> bool" where
  "power_of_ten_up_to_one v = (case normal_decimal v of None \<Rightarrow> False | Some (neg, c, e) \<Rightarrow> c = 1 \<and> (neg \<or> e \<le> 0))"

definition grid_mismatch :: "pyval \<Rightarrow> bool res" where
  "grid_mismatch d = bindr (py_get d ''tick_size'') (\<lambda>tick. bindr (py_get d ''qty_step'') (\<lambda>step.
     or_res
       (if step \<noteq> PNone \<and> power_of_ten_up_to_one step
        then bindr (py_item d ''quantity_precision'') (\<lambda>q. Inr (py_differ (PInt (audit_decimals step)) q)) else Inr False)
       (if tick \<noteq> PNone then bindr (py_item d ''price_precision'') (\<lambda>p. py_less p (PInt (audit_decimals tick))) else Inr False)))"

definition wrong_unit :: "string \<Rightarrow> pyval \<Rightarrow> bool res" where
  "wrong_unit market d = bindr (py_get d ''qty_unit'') (\<lambda>unit. bindr (py_get d ''contract_size'') (\<lambda>cs.
     if market = ''inverse''
     then bindr (if cs = PNone then Inr False else above_zero cs) (\<lambda>positive. Inr (unit \<noteq> PStr ''contract'' \<or> \<not> positive))
     else Inr (unit \<noteq> PStr ''base'' \<or> cs \<noteq> PNone)))"

definition present_and :: "(pyval \<Rightarrow> bool res) \<Rightarrow> pyval \<Rightarrow> bool res" where
  "present_and p v = (if v = PNone then Inr False else p v)"

definition info_judgement :: "'w audit_env \<Rightarrow> string \<Rightarrow> int \<Rightarrow> pyval \<Rightarrow> judgement res" where
  "info_judgement env market now d =
     (if \<not> one_valid env ''SymbolInfo'' d then Inr (Fails, SchemaKind)
      else bindr (py_get d ''min_qty'') (\<lambda>min_qty. bindr (py_get d ''max_qty'') (\<lambda>max_qty.
        bindr (py_get d ''tick_size'') (\<lambda>tick. bindr (py_get d ''qty_step'') (\<lambda>step.
        first_fault [
          (if min_qty = PNone \<or> max_qty = PNone then Inr False else py_less max_qty min_qty, (Fails, LogicKind)),
          (or_res (bindr (py_item d ''price_precision'') (\<lambda>p. py_less p (PInt 0)))
             (bindr (py_item d ''quantity_precision'') (\<lambda>q. py_less q (PInt 0))), (Fails, LogicKind)),
          (or_res (present_and not_positive tick) (present_and not_positive step), (Fails, LogicKind)),
          (wrong_unit market d, (Fails, SchemaKind)),
          (grid_mismatch d, (Warns, LogicKind))])))))"

definition info_probe :: "'w audit_env \<Rightarrow> audit_ctx \<Rightarrow> ('w, pyexc, probe_result list) io" where
  "info_probe env ctx = mapw (\<lambda>_. one_probe env ctx ''markets'' ''markets:detail'' (symbol_path ctx ''markets'') []
     (info_judgement env (said (ax_market ctx)))) [()]"

section \<open>Market lists\<close>

record listing_scan =
  ls_bad :: nat
  ls_seen :: "string list"
  ls_dups :: nat

definition required_keys :: "string list" where
  "required_keys = [''base_asset'', ''quote_asset'', ''qty_unit'', ''funding'']"

text \<open>An entry counts once as badly spelt and once as incomplete.\<close>

definition scan_entry :: "listing_scan \<Rightarrow> pyval \<Rightarrow> listing_scan" where
  "scan_entry st entry = (case entry of
       PDict d \<Rightarrow> (case dget d ''symbol'' of
           Some (PStr s) \<Rightarrow>
             if s = [] then st\<lparr>ls_bad := ls_bad st + 1\<rparr>
             else
               let spelt = (CHR ''/'' \<notin> set s \<and> s = upper s);
                   complete = list_all (\<lambda>k. dget d k \<noteq> None) required_keys
               in \<lparr>ls_bad = ls_bad st + (if spelt then 0 else 1) + (if complete then 0 else 1),
                   ls_seen = (if s \<in> set (ls_seen st) then ls_seen st else s # ls_seen st),
                   ls_dups = ls_dups st + (if s \<in> set (ls_seen st) then 1 else 0)\<rparr>
         | _ \<Rightarrow> st\<lparr>ls_bad := ls_bad st + 1\<rparr>)
     | _ \<Rightarrow> st\<lparr>ls_bad := ls_bad st + 1\<rparr>)"

definition scan_listing :: "pyval list \<Rightarrow> listing_scan" where
  "scan_listing entries = foldl scan_entry \<lparr>ls_bad = 0, ls_seen = [], ls_dups = 0\<rparr> entries"

definition markets_judgement :: "int \<Rightarrow> pyval \<Rightarrow> judgement res" where
  "markets_judgement now body = (case body of
       PDict d \<Rightarrow> (case dget d ''markets'' of
           None \<Rightarrow> Inr (Fails, SchemaKind)
         | Some listed \<Rightarrow> bindr (if type_name listed = ''dict'' then Inl (TypeError ''a dict has no slices'') else py_iter listed) (\<lambda>entries. let st = scan_listing entries in
             Inr (if ls_bad st \<noteq> 0 then (Warns, LogicKind) else if ls_dups st \<noteq> 0 then (Fails, LogicKind) else (Passes, OkKind))))
     | _ \<Rightarrow> Inr (Fails, SchemaKind))"

definition markets_probe :: "'w audit_env \<Rightarrow> audit_ctx \<Rightarrow> ('w, pyexc, probe_result list) io" where
  "markets_probe env ctx =
     mapw (\<lambda>_. one_probe env ctx ''markets'' ''markets'' (market_path ctx ''markets'') [] markets_judgement) [()]"

section \<open>Known symbols and error paths\<close>

definition KNOWN_SPOT_SYMBOLS :: "(string \<times> string) list" where
  "KNOWN_SPOT_SYMBOLS = [(''binance'', ''BTCUSDT''), (''bybit'', ''BTCUSDT''), (''kucoin'', ''BTCUSDT''), (''okx'', ''BTCUSDT''), (''kraken'', ''XBTUSDT'')]"

definition symbol_judgement :: "string \<Rightarrow> fetched \<Rightarrow> judgement" where
  "symbol_judgement known f = (case f of (status, data, err) \<Rightarrow>
     if err \<noteq> None then (Fails, NetworkKind)
     else if status \<noteq> Some 200 then (Fails, HttpKind)
     else (case data of
         PDict d \<Rightarrow> if dget d ''symbol'' = Some (PStr known) then (Passes, OkKind) else (Fails, LogicKind)
       | _ \<Rightarrow> (Fails, LogicKind)))"

definition symbol_probe :: "'w audit_env \<Rightarrow> audit_ctx \<Rightarrow> ('w, pyexc, probe_result list) io" where
  "symbol_probe env ctx = (case dget KNOWN_SPOT_SYMBOLS (ax_exchange ctx) of
       None \<Rightarrow> liftw (Inl (KeyError (ax_exchange ctx)))
     | Some known \<Rightarrow> bindw (ask_service env (''/'' @ ax_exchange ctx @ ''/spot/ticker/'' @ known) []) (\<lambda>f.
         retw [judged ctx ''rest'' ''symbol_resolution'' ''symbol_resolution'' (symbol_judgement known f)]))"

definition error_cases :: "audit_ctx \<Rightarrow> (string \<times> string \<times> int list) list" where
  "error_cases ctx = [
     (''error:unknown_exchange'', ''/zzznotanexchange/status'', [404]),
     (''error:bad_market_type'', ''/'' @ ax_exchange ctx @ ''/notamarket/markets'', [400, 422]),
     (''error:bad_symbol'', ''/'' @ ax_exchange ctx @ ''/spot/ticker/ZZZNOTREAL'', [400, 404])]"

definition error_judgement :: "int list \<Rightarrow> fetched \<Rightarrow> judgement" where
  "error_judgement expected f = (case f of (status, data, err) \<Rightarrow>
     if err \<noteq> None then (Fails, NetworkKind)
     else case status of
         Some s \<Rightarrow> if s \<in> set expected then (Passes, OkKind) else (Fails, LogicKind)
       | None \<Rightarrow> (Fails, LogicKind))"

definition error_probe :: "'w audit_env \<Rightarrow> audit_ctx \<Rightarrow> ('w, pyexc, probe_result list) io" where
  "error_probe env ctx = mapw (\<lambda>(probe, path, expected). bindw (ask_service env path []) (\<lambda>f.
     retw (judged ctx ''rest'' ''error_paths'' probe (error_judgement expected f)))) (error_cases ctx)"

end
