(* ===== verification/AuditRoutes.thy ===== *)
theory AuditRoutes
  imports AuditProbes Rows
begin

text \<open>
  The probes of \<^verbatim>\<open>tools/auditor/probes\<close> that ask several times or of several routes: the consistency
  of prices across routes, of capabilities with what is served, the paginated routes, and streams;
  with the limits of \<^verbatim>\<open>tools/auditor/config.py\<close>. Times of rows are integers.
\<close>

section \<open>Prices across routes\<close>

definition CROSS_DRIFT_THRESHOLD :: pyfloat where "CROSS_DRIFT_THRESHOLD = round64 (75 / 10000)"

definition py_plus :: "pyval \<Rightarrow> pyval \<Rightarrow> pyval res" where
  "py_plus a b = (case (whole a, whole b) of
       (Some m, Some n) \<Rightarrow> Inr (PInt (m + n))
     | _ \<Rightarrow> if number_of a = None \<or> number_of b = None then Inl (unordered a b)
            else bindr (py_float a) (\<lambda>x. bindr (py_float b) (\<lambda>y. Inr (PFloat (fadd x y)))))"

definition py_abs :: "pyval \<Rightarrow> pyval res" where
  "py_abs a = (case a of
       PFloat x \<Rightarrow> Inr (PFloat (if flt x (Fin 0) then fneg x else x))
     | _ \<Rightarrow> (case whole a of Some n \<Rightarrow> Inr (PInt \<bar>n\<bar>) | None \<Rightarrow> Inl (unordered a a)))"

text \<open>\<open>abs(a - b) / b\<close>, and against the middle of a book \<open>abs(price - mid) / price\<close>\<close>

definition drift :: "pyval \<Rightarrow> pyval \<Rightarrow> pyval \<Rightarrow> pyfloat res" where
  "drift a b whole_of = bindr (bindr (py_minus a b) py_abs) (\<lambda>d. py_truediv d whole_of)"

definition book_mid :: "pyval \<Rightarrow> pyval \<Rightarrow> pyfloat res" where
  "book_mid bid offer_price = bindr (py_plus bid offer_price) (\<lambda>s. py_truediv s (PInt 2))"

definition drift_judgement :: "pyfloat \<Rightarrow> pyfloat \<Rightarrow> judgement" where
  "drift_judgement limit d = (if flt limit d then (Warns, LogicKind) else (Passes, OkKind))"

text \<open>The object an answer carries, and one that came with 200.\<close>

definition object_of :: "fetched \<Rightarrow> (string \<times> pyval) list option" where
  "object_of f = (case fst (snd f) of PDict d \<Rightarrow> Some d | _ \<Rightarrow> None)"

definition answered :: "fetched \<Rightarrow> (string \<times> pyval) list option" where
  "answered f = (if fst f = Some 200 then object_of f else None)"

definition ticker_vs_book :: "fetched \<Rightarrow> fetched \<Rightarrow> judgement option res" where
  "ticker_vs_book t b = (case (answered t, answered b) of (Some dt, Some db) \<Rightarrow>
       (let price = entry dt ''price''; bid = entry db ''bid_price''; asked = entry db ''ask_price'' in
        if truthy price \<and> truthy bid \<and> truthy asked then
          bindr (above_zero price) (\<lambda>pos. if \<not> pos then Inr None
            else bindr (book_mid bid asked) (\<lambda>mid. bindr (drift price (PFloat mid) price) (\<lambda>d.
              Inr (Some (drift_judgement CROSS_DRIFT_THRESHOLD d)))))
        else Inr None)
     | _ \<Rightarrow> Inr None)"

definition mark_vs_ticker :: "fetched \<Rightarrow> fetched \<Rightarrow> judgement option res" where
  "mark_vs_ticker m t = (case (answered m, object_of t) of (Some dm, Some dt) \<Rightarrow>
       (let mark = entry dm ''mark_price''; price = entry dt ''price'' in
        if truthy mark \<and> truthy price then
          bindr (above_zero price) (\<lambda>pos. if \<not> pos then Inr None
            else bindr (drift mark price price) (\<lambda>d. Inr (Some (drift_judgement (round64 (1 / 100)) d))))
        else Inr None)
     | _ \<Rightarrow> Inr None)"

definition if_judged :: "audit_ctx \<Rightarrow> string \<Rightarrow> judgement option \<Rightarrow> probe_result list" where
  "if_judged ctx probe j = (case j of None \<Rightarrow> [] | Some j \<Rightarrow> [judged ctx ''rest'' ''cross_route'' probe j])"

definition cross_probe :: "'w audit_env \<Rightarrow> audit_ctx \<Rightarrow> ('w, pyexc, probe_result list) io" where
  "cross_probe env ctx =
     bindw (ask_service env (symbol_path ctx ''ticker'') []) (\<lambda>t.
     bindw (ask_service env (symbol_path ctx ''book_ticker'') []) (\<lambda>b.
     bindw (liftw (ticker_vs_book t b)) (\<lambda>book.
     bindw (liftw (if ax_market ctx = Some ''linear'' then advertised ctx ''mark_price'' ''rest'' else Inr False)) (\<lambda>marked.
     if marked then bindw (ask_service env (symbol_path ctx ''mark_price'') []) (\<lambda>m.
       bindw (liftw (mark_vs_ticker m t)) (\<lambda>mark.
       retw (if_judged ctx ''cross:ticker_vs_book'' book @ if_judged ctx ''cross:mark_vs_ticker'' mark)))
     else retw (if_judged ctx ''cross:ticker_vs_book'' book)))))"

section \<open>Capabilities\<close>

definition slice_of :: "audit_ctx \<Rightarrow> pyval" where
  "slice_of ctx = py_or (ax_slice ctx) (PDict [])"

definition completeness_judgement :: "pyval \<Rightarrow> judgement option res" where
  "completeness_judgement liq = bindr (py_get liq ''rest'') (\<lambda>r. bindr (py_get liq ''ws'') (\<lambda>s.
     if truthy (py_or r s) then bindr (py_get liq ''completeness'') (\<lambda>c.
       Inr (Some (if c = PStr ''partial'' \<or> c = PStr ''full'' then (Passes, OkKind) else (Fails, SchemaKind))))
     else Inr None))"

definition drift_routes :: "string list" where
  "drift_routes = [''ticker'', ''book_ticker'', ''mark_price'', ''margin_tiers'', ''agg_trades'', ''candles'', ''funding_rate'',
     ''open_interest'', ''liquidations'', ''long_short_ratio'', ''trades'', ''orderbook'']"

definition closed_route_judgement :: "fetched \<Rightarrow> judgement" where
  "closed_route_judgement f = (case f of (status, data, err) \<Rightarrow>
     if err \<noteq> None then (Warns, NetworkKind) else if status = Some 200 then (Fails, LogicKind) else (Passes, OkKind))"

definition period_params :: "string \<Rightarrow> pyval \<Rightarrow> (string \<times> pyval) list res" where
  "period_params route rc =
     (if route \<in> {''candles'', ''open_interest'', ''long_short_ratio''} then
        bindr (py_get rc ''intervals'') (\<lambda>v. bindr (py_index (py_or v (PList [PStr ''1h''])) 0) (\<lambda>first.
          Inr [(if route = ''candles'' then ''interval'' else ''period'', first)]))
      else Inr [])"

text \<open>A route that is advertised as not served over REST must not answer 200.\<close>

definition closed_route :: "'w audit_env \<Rightarrow> audit_ctx \<Rightarrow> string \<Rightarrow> ('w, pyexc, probe_result list) io" where
  "closed_route env ctx route =
     bindw (liftw (py_get_or (slice_of ctx) route (PDict []))) (\<lambda>rc.
     bindw (liftw (bindr (py_in ''rest'' rc) (\<lambda>stated. if stated then bindr (py_get rc ''rest'') (\<lambda>v. Inr (\<not> truthy v)) else Inr False))) (\<lambda>asked.
     if \<not> asked then retw []
     else bindw (liftw (period_params route rc)) (\<lambda>params.
       bindw (ask_service env (market_path ctx route @ ''/'' @ (case ax_symbol ctx of None \<Rightarrow> ''BTCUSDT'' | Some s \<Rightarrow> if s = [] then ''BTCUSDT'' else s)) params) (\<lambda>f.
       retw [judged ctx ''rest'' ''capabilities_drift'' (''drift:'' @ route @ ''_rest_false'') (closed_route_judgement f)]))))"

definition overdepth_judgement :: "int \<Rightarrow> fetched \<Rightarrow> judgement res" where
  "overdepth_judgement max_depth f = (case f of (status, data, err) \<Rightarrow>
     if err \<noteq> None then Inr (Warns, NetworkKind)
     else (case answered f of
         Some d \<Rightarrow> bindr (bindr (py_get_or data ''bids'' (PList [])) py_len) (\<lambda>got.
           Inr (if max_depth < int got then (Fails, LogicKind) else (Passes, OkKind)))
       | None \<Rightarrow> Inr (Passes, OkKind)))"

definition overdepth :: "'w audit_env \<Rightarrow> audit_ctx \<Rightarrow> ('w, pyexc, probe_result list) io" where
  "overdepth env ctx =
     bindw (liftw (py_get_or (slice_of ctx) ''orderbook'' (PDict []))) (\<lambda>ob.
     bindw (liftw (py_get ob ''max_depth'')) (\<lambda>max_depth.
     bindw (liftw (py_get ob ''rest'')) (\<lambda>rest.
     if truthy rest \<and> truthy max_depth \<and> ax_symbol ctx \<noteq> None \<and> ax_symbol ctx \<noteq> Some [] then
       bindw (liftw (as_int max_depth)) (\<lambda>n.
       bindw (ask_service env (symbol_path ctx ''orderbook'') [(''depth'', PInt (n + 1))]) (\<lambda>f.
       bindw (liftw (overdepth_judgement n f)) (\<lambda>j. retw [judged ctx ''rest'' ''capabilities_drift'' ''drift:orderbook_overdepth'' j])))
     else retw [])))"

definition capabilities_probe :: "'w audit_env \<Rightarrow> audit_ctx \<Rightarrow> ('w, pyexc, probe_result list) io" where
  "capabilities_probe env ctx =
     bindw (liftw (bindr (py_get (slice_of ctx) ''liquidations'') (\<lambda>liq. completeness_judgement (py_or liq (PDict []))))) (\<lambda>c.
     bindw (mapw (closed_route env ctx) drift_routes) (\<lambda>closed.
     bindw (overdepth env ctx) (\<lambda>deep.
     retw ((case c of None \<Rightarrow> [] | Some j \<Rightarrow> [judged ctx ''rest'' ''capabilities_drift'' ''completeness:liquidations'' j]) @ concat closed @ deep))))"

section \<open>Limits\<close>

definition INTERVAL_MS :: "(string \<times> int) list" where
  "INTERVAL_MS = [(''1m'', 60000), (''3m'', 180000), (''5m'', 300000), (''15m'', 900000), (''30m'', 1800000), (''1h'', 3600000),
     (''2h'', 7200000), (''4h'', 14400000), (''6h'', 21600000), (''8h'', 28800000), (''12h'', 43200000), (''1d'', 86400000),
     (''3d'', 259200000), (''1w'', 604800000), (''1M'', 2592000000)]"

definition audit_interval_ms :: "string \<Rightarrow> int" where
  "audit_interval_ms s = (case dget INTERVAL_MS s of None \<Rightarrow> 0 | Some n \<Rightarrow> n)"

definition CRYPTO_EPOCH_MS :: int where "CRYPTO_EPOCH_MS = 1262304000000"

definition freshness_threshold_ms :: "string \<Rightarrow> string \<Rightarrow> string \<Rightarrow> int \<Rightarrow> int" where
  "freshness_threshold_ms exchange market period period_ms =
     (if exchange = ''kucoin'' \<and> market = ''inverse'' \<and> period = ''1m'' then 600000 else 3 * period_ms + 30000)"

definition theoretical_max :: "int \<Rightarrow> int \<Rightarrow> int option \<Rightarrow> int \<Rightarrow> int" where
  "theoretical_max period_ms big retention now =
     (if period_ms \<le> 0 then big
      else let most = min big ((now - CRYPTO_EPOCH_MS) div period_ms);
               most = (case retention of None \<Rightarrow> most | Some r \<Rightarrow> min most (r div period_ms))
           in max most 1)"

definition pass_floor :: "int \<Rightarrow> int res" where
  "pass_floor most = bindr (float_of_int most) (\<lambda>c. int_of_float (fmul c (round64 (9 / 10))))"

section \<open>Paginated routes\<close>

record paged_route =
  pg_route :: string
  pg_model :: string
  pg_big :: int
  pg_allow_empty :: bool
  pg_period :: "string option"
  pg_param :: string

definition pg_period_ms :: "paged_route \<Rightarrow> int" where
  "pg_period_ms p = (case pg_period p of None \<Rightarrow> 0 | Some s \<Rightarrow> audit_interval_ms s)"

definition pg_name :: "paged_route \<Rightarrow> string" where
  "pg_name p = (case pg_period p of None \<Rightarrow> pg_route p | Some s \<Rightarrow> pg_route p @ '':'' @ s)"

definition row_ts :: "pyval \<Rightarrow> int res" where
  "row_ts row = bindr (py_item row ''timestamp'') as_int"

text \<open>\<open>_probe\<close>: the rows, if they are to be looked at further, and the judgement so far.\<close>

definition page_judgement :: "'w audit_env \<Rightarrow> paged_route \<Rightarrow> bool \<Rightarrow> fetched \<Rightarrow> (pyval list option \<times> judgement) res" where
  "page_judgement env p empty_ok f = (case f of (status, data, err) \<Rightarrow>
     if status \<noteq> Some 200 then Inr (None, http_failure f)
     else (case data of
         PList rows \<Rightarrow>
           if rows = [] then Inr (None, if empty_ok \<or> pg_allow_empty p then (Warns, EmptyKind) else (Fails, EmptyKind))
           else if \<not> list_valid env (pg_model p) rows then Inr (None, Fails, SchemaKind)
           else bindr (any_step goes_back rows) (\<lambda>back.
             if back then Inr (None, Fails, LogicKind)
             else bindr (py_item (hd rows) ''timestamp'') (\<lambda>_. bindr (py_item (last rows) ''timestamp'') (\<lambda>_. Inr (Some rows, Passes, OkKind))))
       | _ \<Rightarrow> Inr (None, Fails, SchemaKind)))"

definition page_probe :: "'w audit_env \<Rightarrow> audit_ctx \<Rightarrow> paged_route \<Rightarrow> string \<Rightarrow> (string \<times> pyval) list \<Rightarrow> bool \<Rightarrow>
    (int \<Rightarrow> pyval list \<Rightarrow> judgement res) \<Rightarrow> ('w, pyexc, probe_result) io" where
  "page_probe env ctx p sub params empty_ok judge =
     bindw (ask_service env (symbol_path ctx (pg_route p))
       ((case pg_period p of None \<Rightarrow> [] | Some s \<Rightarrow> [(pg_param p, PStr s)]) @ params)) (\<lambda>f w.
     (map_sum (\<lambda>e. e) (judged ctx ''rest'' (pg_route p) (pg_name p @ '':'' @ sub))
        (bindr (page_judgement env p empty_ok f) (\<lambda>(rows, j). case rows of None \<Rightarrow> Inr j | Some rows \<Rightarrow> judge (au_now env w) rows)), w))"

definition recent_judgement :: "audit_ctx \<Rightarrow> paged_route \<Rightarrow> int \<Rightarrow> int option \<Rightarrow> pyval list \<Rightarrow> judgement res" where
  "recent_judgement ctx p big retention rows =
     bindr (row_ts (last rows)) (\<lambda>last_ts.
     bindr (pass_floor (theoretical_max (pg_period_ms p) big retention (ax_now ctx))) (\<lambda>least.
     let stale = (0 < pg_period_ms p \<and>
           last_ts < ax_now ctx - freshness_threshold_ms (ax_exchange ctx) (case ax_market ctx of None \<Rightarrow> [] | Some m \<Rightarrow> m) (said (pg_period p)) (pg_period_ms p))
     in Inr (if stale then (Fails, LogicKind) else if int (length rows) < least then (Warns, LogicKind) else (Passes, OkKind))))"

definition exact_judgement :: "int \<Rightarrow> pyval list \<Rightarrow> judgement res" where
  "exact_judgement n rows = Inr (if int (length rows) \<noteq> n then (Fails, LogicKind) else (Passes, OkKind))"

definition at_most_judgement :: "int \<Rightarrow> pyval list \<Rightarrow> judgement res" where
  "at_most_judgement n rows = Inr (if n < int (length rows) then (Fails, LogicKind) else (Passes, OkKind))"

fun cadences :: "int list \<Rightarrow> int list" where
  "cadences (a # b # ts) = (b - a) # cadences (b # ts)"
| "cadences ts = []"

definition past_judgement :: "int \<Rightarrow> int \<Rightarrow> pyval list \<Rightarrow> judgement res" where
  "past_judgement period_ms anchor_ms rows =
     bindr (mapr row_ts rows) (\<lambda>ts. let newest = last ts in
     Inr (if anchor_ms < newest then (Fails, LogicKind)
          else if period_ms \<le> 0 then (Passes, OkKind)
          else
            let cadence = (if 2 \<le> length ts then Max (set (cadences ts)) else period_ms);
                tolerance = max (2 * period_ms) (2 * cadence)
            in if newest < anchor_ms - tolerance then (Warns, LogicKind) else (Passes, OkKind)))"

definition future_judgement :: "int \<Rightarrow> int \<Rightarrow> pyval list \<Rightarrow> judgement res" where
  "future_judgement period_ms fresh_now rows =
     bindr (row_ts (last rows)) (\<lambda>newest.
     Inr (if fresh_now + max period_ms 60000 < newest then (Fails, LogicKind) else (Passes, OkKind)))"

definition skip_anchors :: "audit_ctx \<Rightarrow> paged_route \<Rightarrow> probe_result" where
  "skip_anchors ctx p = \<lparr>pr_exchange = ax_exchange ctx, pr_market = (case ax_market ctx of None \<Rightarrow> [] | Some m \<Rightarrow> m), pr_route = pg_route p,
     pr_kind = ''rest'', pr_symbol = ax_symbol ctx, pr_probe = pg_name p @ '':start_anchor'', pr_judgement = (Skips, SkippedKind)\<rparr>"

definition optional_int :: "pyval \<Rightarrow> int option res" where
  "optional_int v = (if v = PNone then Inr None else bindr (as_int v) (\<lambda>n. Inr (Some n)))"

definition start_limit :: "int \<Rightarrow> int \<Rightarrow> (string \<times> pyval) list" where
  "start_limit start n = [(''start'', PInt start), (''limit'', PInt n)]"

definition past_probe :: "'w audit_env \<Rightarrow> audit_ctx \<Rightarrow> paged_route \<Rightarrow> string \<Rightarrow> int \<Rightarrow> ('w, pyexc, probe_result) io" where
  "past_probe env ctx p sub offset = page_probe env ctx p sub (start_limit (ax_now ctx - offset) 500) True
     (\<lambda>now. past_judgement (pg_period_ms p) (ax_now ctx - offset))"

definition anchor_probes :: "'w audit_env \<Rightarrow> audit_ctx \<Rightarrow> paged_route \<Rightarrow> ('w, pyexc, probe_result) io list" where
  "anchor_probes env ctx p = [past_probe env ctx p ''before=1h_ago'' 3600000]
     @ (if pg_period_ms p \<le> 12 * 3600000 then [past_probe env ctx p ''before=24h_ago'' 86400000] else [])
     @ [page_probe env ctx p ''start=future'' (start_limit (ax_now ctx + 3600000) 100) False (future_judgement (pg_period_ms p))]"

definition paged_probe :: "'w audit_env \<Rightarrow> audit_ctx \<Rightarrow> paged_route \<Rightarrow> ('w, pyexc, probe_result list) io" where
  "paged_probe env ctx p =
     bindw (liftw (py_item (ax_slice ctx) (pg_route p))) (\<lambda>rc.
     bindw (liftw (py_get_or rc ''paginated'' (PBool True))) (\<lambda>paginated.
     bindw (liftw (bindr (py_get rc ''max_limit'') optional_int)) (\<lambda>upstream_max.
     bindw (liftw (bindr (py_get rc ''retention_ms'') optional_int)) (\<lambda>retention.
     let big = (case upstream_max of None \<Rightarrow> pg_big p | Some m \<Rightarrow> min (pg_big p) m) in
     bindw (mapw (\<lambda>m. m) [
       page_probe env ctx p ''recent'' [(''limit'', PInt big)] False (\<lambda>now. recent_judgement ctx p big retention),
       page_probe env ctx p ''limit=1'' [(''limit'', PInt 1)] True (\<lambda>now. exact_judgement 1),
       page_probe env ctx p ''limit=5'' [(''limit'', PInt 5)] True (\<lambda>now. at_most_judgement 5)]) (\<lambda>counts.
     if truthy paginated then bindw (mapw (\<lambda>m. m) (anchor_probes env ctx p)) (\<lambda>anchors. retw (counts @ anchors))
     else retw (counts @ [skip_anchors ctx p]))))))"

section \<open>Streams\<close>

datatype ws_frame = Text pyval | NotJson

datatype bad_frame = NonJson | UpstreamError | BadSchema

definition WS_MIN_FRAMES :: "(string \<times> nat) list" where
  "WS_MIN_FRAMES = [(''orderbook'', 10), (''ticker'', 5), (''book_ticker'', 5), (''trades'', 1), (''agg_trades'', 1), (''mark_price'', 1), (''liquidations'', 0)]"

definition WS_CHANNEL_MODEL :: "(string \<times> string) list" where
  "WS_CHANNEL_MODEL = [(''ticker'', ''Ticker''), (''book_ticker'', ''BookTicker''), (''trades'', ''Trade''), (''agg_trades'', ''AggTrade''),
     (''orderbook'', ''OrderBook''), (''mark_price'', ''MarkPrice''), (''liquidations'', ''Liquidation'')]"

definition frame_fault :: "'w audit_env \<Rightarrow> string option \<Rightarrow> ws_frame \<Rightarrow> bad_frame option" where
  "frame_fault env model f = (case f of
       NotJson \<Rightarrow> Some NonJson
     | Text msg \<Rightarrow>
         if (case msg of PDict d \<Rightarrow> truthy (entry d ''error'') | _ \<Rightarrow> False) then Some UpstreamError
         else (case model of None \<Rightarrow> None | Some m \<Rightarrow> if one_valid env m msg then None else Some BadSchema))"

text \<open>The frames of the window, up to the first bad one.\<close>

fun count_frames :: "'w audit_env \<Rightarrow> string option \<Rightarrow> ws_frame list \<Rightarrow> nat \<times> bad_frame option" where
  "count_frames env model [] = (0, None)"
| "count_frames env model (f # fs) = (case frame_fault env model f of
       Some b \<Rightarrow> (0, Some b)
     | None \<Rightarrow> (case count_frames env model fs of (n, bad) \<Rightarrow> (Suc n, bad)))"

definition ws_judgement :: "nat \<Rightarrow> bool \<Rightarrow> nat \<times> bad_frame option \<Rightarrow> judgement" where
  "ws_judgement min_frames failed counted = (case counted of (frames, bad) \<Rightarrow>
     if failed \<and> frames = 0 then (Fails, NetworkKind)
     else (case bad of
         Some b \<Rightarrow> (Fails, if b = BadSchema then SchemaKind else LogicKind)
       | None \<Rightarrow>
           if frames = 0 then (if min_frames = 0 then (Passes, OkKind) else (Fails, EmptyKind))
           else if frames < min_frames then (Warns, LogicKind) else (Passes, OkKind)))"

text \<open>What a window brings: whether the connection failed, and the frames that came.\<close>

definition ws_probe :: "'w audit_env \<Rightarrow> (audit_ctx \<Rightarrow> string \<Rightarrow> 'w \<Rightarrow> (bool \<times> ws_frame list) \<times> 'w) \<Rightarrow> audit_ctx \<Rightarrow> string \<Rightarrow>
    ('w, pyexc, probe_result list) io" where
  "ws_probe env listen ctx channel w = (case listen ctx channel w of ((failed, frames), w) \<Rightarrow>
     (Inr [judged ctx ''ws'' channel (''ws:'' @ channel)
        (ws_judgement (case dget WS_MIN_FRAMES channel of None \<Rightarrow> 1 | Some n \<Rightarrow> n) failed (count_frames env (dget WS_CHANNEL_MODEL channel) frames))], w))"

end
