(* ===== verification/AuditRun.thy ===== *)
theory AuditRun
  imports AuditRoutes
begin

text \<open>
  A run of the auditor: the choice of a symbol, \<^verbatim>\<open>tools/auditor/config.py\<close>, the probes of a market,
  \<^verbatim>\<open>tools/auditor/probes/__init__.py\<close>, and the run over the exchanges with the progress it reports,
  \<^verbatim>\<open>tools/auditor/runner.py\<close>. Probes that run at the same time run here one after another.
\<close>

section \<open>Choosing a symbol\<close>

fun tails :: "string \<Rightarrow> string list" where
  "tails [] = [[]]"
| "tails (c # s) = (c # s) # tails s"

definition contains :: "string \<Rightarrow> string \<Rightarrow> bool" where
  "contains p s = list_ex (\<lambda>t. starts_with t p) (tails s)"

definition capital :: "char \<Rightarrow> bool" where
  "capital c \<longleftrightarrow> c \<in> set ''ABCDEFGHIJKLMNOPQRSTUVWXYZ''"

definition word_ends :: "string \<Rightarrow> bool" where
  "word_ends s = (case s of [] \<Rightarrow> True | c # _ \<Rightarrow> \<not> capital c)"

text \<open>\<open>(UP|DOWN|BULL|BEAR|\d+[LS])(?:[^A-Z]|$)\<close> at the beginning, for \<open>\d+[LS]\<close> without and with its digits.\<close>

definition leverage_token :: "string \<Rightarrow> bool" where
  "leverage_token s \<longleftrightarrow> list_ex (\<lambda>w. starts_with s w \<and> word_ends (drop (length w) s)) [''UP'', ''DOWN'', ''BULL'', ''BEAR'']
     \<or> (is_digit (hd (s @ '' '')) \<and> (case dropWhile is_digit s of c # r \<Rightarrow> (c = CHR ''L'' \<or> c = CHR ''S'') \<and> word_ends r | [] \<Rightarrow> False))"

definition leveraged :: "string \<Rightarrow> bool" where
  "leveraged s \<longleftrightarrow> leverage_token s \<or> list_ex (\<lambda>t. case t of c # r \<Rightarrow> \<not> capital c \<and> leverage_token r | [] \<Rightarrow> False) (tails s)"

definition dated_number :: "string \<Rightarrow> bool" where
  "dated_number s = list_ex (\<lambda>t. 6 \<le> length (takeWhile is_digit t) \<and>
     (case dropWhile is_digit t of [] \<Rightarrow> True | c # r \<Rightarrow> c = CHR ''-'' \<or> c = CHR ''_'')) (tails s)"

definition MONTHS :: "string list" where
  "MONTHS = [''JAN'', ''FEB'', ''MAR'', ''APR'', ''MAY'', ''JUN'', ''JUL'', ''AUG'', ''SEP'', ''OCT'', ''NOV'', ''DEC'']"

definition dated_month :: "string \<Rightarrow> bool" where
  "dated_month s = list_ex (\<lambda>t. case t of c # r \<Rightarrow> is_digit c \<and> list_ex (starts_with r) MONTHS | [] \<Rightarrow> False) (tails s)"

definition without_perp :: "string \<Rightarrow> string" where
  "without_perp s = (case List.find (ends_with s) [''PERP'', ''PERPETUAL'', ''SWAP''] of
       None \<Rightarrow> s
     | Some w \<Rightarrow> (let t = chop (length w) s in
         if t \<noteq> [] \<and> last t \<in> set ''-_/'' then butlast t else t))"

definition quote_score :: "string \<Rightarrow> int option" where
  "quote_score s = (let t = without_perp s in
     map_option snd (List.find (\<lambda>(q, bonus). ends_with t q \<or> contains (''/'' @ q) t \<or> contains (''-'' @ q) t \<or> contains (''_'' @ q) t)
       [(''USDT'', 30), (''USDC'', 25), (''USD'', 20)]))"

text \<open>The score of a symbol, when it is not \<open>-1.0\<close>.\<close>

definition symbol_score :: "string \<Rightarrow> pyfloat option" where
  "symbol_score symbol = (let s = upper symbol in
     if leveraged s \<or> dated_number s \<or> dated_month s then None
     else case (if contains ''BTC'' s \<or> contains ''XBT'' s then Some 100 else if contains ''ETH'' s then Some 50 else None) of
         None \<Rightarrow> None
       | Some base \<Rightarrow> map_option (\<lambda>bonus. fsub (Fin (of_int (base + bonus))) (fmul (Fin (of_nat (length s))) (round64 (1 / 10)))) (quote_score s))"

fun pick_best :: "string list \<Rightarrow> string option \<Rightarrow> pyfloat \<Rightarrow> string option" where
  "pick_best [] chosen score = chosen"
| "pick_best (s # ss) chosen score = (case symbol_score s of
       Some x \<Rightarrow> if flt score x then pick_best ss (Some s) x else pick_best ss chosen score
     | None \<Rightarrow> pick_best ss chosen score)"

definition pick_symbol :: "pyval list \<Rightarrow> string option" where
  "pick_symbol symbols = pick_best [s. PStr s \<leftarrow> symbols] None (Fin 0)"

section \<open>The probes\<close>

datatype probe = InfoProbe | MarketsProbe | SymbolProbe | CapabilitiesProbe | SnapshotProbe string string | OrderBookProbe
  | TradesProbe | MarginProbe | PagedProbe paged_route | CrossProbe | SocketProbe string | ErrorProbe

fun probe_kind :: "probe \<Rightarrow> string" where
  "probe_kind (SocketProbe c) = ''ws''"
| "probe_kind p = ''rest''"

fun probe_route :: "probe \<Rightarrow> string" where
  "probe_route InfoProbe = ''markets''"
| "probe_route MarketsProbe = ''markets''"
| "probe_route SymbolProbe = ''symbol_resolution''"
| "probe_route CapabilitiesProbe = ''capabilities_drift''"
| "probe_route (SnapshotProbe r m) = r"
| "probe_route OrderBookProbe = ''orderbook''"
| "probe_route TradesProbe = ''trades''"
| "probe_route MarginProbe = ''margin_tiers''"
| "probe_route (PagedProbe p) = pg_route p"
| "probe_route CrossProbe = ''cross_route''"
| "probe_route (SocketProbe c) = c"
| "probe_route ErrorProbe = ''error_paths''"

fun probe_name :: "probe \<Rightarrow> string" where
  "probe_name InfoProbe = ''markets:detail''"
| "probe_name (PagedProbe p) = pg_name p"
| "probe_name (SocketProbe c) = ''ws:'' @ c"
| "probe_name p = probe_route p"

definition cross_applies :: "audit_ctx \<Rightarrow> bool res" where
  "cross_applies ctx =
     (if \<not> truthy (ax_slice ctx) \<or> ax_symbol ctx = None \<or> ax_symbol ctx = Some [] then Inr False
      else bindr (advertised ctx ''ticker'' ''rest'') (\<lambda>t. bindr (advertised ctx ''book_ticker'' ''rest'') (\<lambda>b. Inr (t \<and> b))))"

definition paged_applies :: "audit_ctx \<Rightarrow> paged_route \<Rightarrow> bool res" where
  "paged_applies ctx p = bindr (advertised ctx (pg_route p) ''rest'') (\<lambda>rest.
     if \<not> rest then Inr False
     else case pg_period p of
         None \<Rightarrow> Inr True
       | Some s \<Rightarrow> bindr (bindr (py_get_or (ax_slice ctx) (pg_route p) (PDict [])) (\<lambda>rc. py_get rc ''intervals'')) (\<lambda>v.
           py_in s (py_or v (PList []))))"

fun applies :: "audit_ctx \<Rightarrow> probe \<Rightarrow> bool res" where
  "applies ctx InfoProbe = Inr (ax_market ctx \<noteq> None \<and> ax_symbol ctx \<noteq> None)"
| "applies ctx MarketsProbe = Inr (ax_market ctx \<noteq> None)"
| "applies ctx SymbolProbe = Inr (ax_market ctx = Some ''spot'' \<and> dget KNOWN_SPOT_SYMBOLS (ax_exchange ctx) \<noteq> None)"
| "applies ctx CapabilitiesProbe = Inr (ax_market ctx \<noteq> None)"
| "applies ctx (SnapshotProbe r m) = advertised ctx r ''rest''"
| "applies ctx OrderBookProbe = advertised ctx ''orderbook'' ''rest''"
| "applies ctx TradesProbe = advertised ctx ''trades'' ''rest''"
| "applies ctx MarginProbe = advertised ctx ''margin_tiers'' ''rest''"
| "applies ctx (PagedProbe p) = paged_applies ctx p"
| "applies ctx CrossProbe = cross_applies ctx"
| "applies ctx (SocketProbe c) = advertised ctx c ''ws''"
| "applies ctx ErrorProbe = Inr (ax_market ctx = None)"

definition plain_page :: "string \<Rightarrow> string \<Rightarrow> int \<Rightarrow> bool \<Rightarrow> probe" where
  "plain_page route model big allow_empty = PagedProbe \<lparr>pg_route = route, pg_model = model, pg_big = big, pg_allow_empty = allow_empty,
     pg_period = None, pg_param = ''period''\<rparr>"

definition period_page :: "string \<Rightarrow> string \<Rightarrow> int \<Rightarrow> string \<Rightarrow> string \<Rightarrow> probe" where
  "period_page route model big param period = PagedProbe \<lparr>pg_route = route, pg_model = model, pg_big = big, pg_allow_empty = False,
     pg_period = Some period, pg_param = param\<rparr>"

text \<open>\<open>caps.get("intervals", default) or default\<close>, the periods a market is probed with.\<close>

definition probed_periods :: "pyval \<Rightarrow> string \<Rightarrow> pyval list \<Rightarrow> string list res" where
  "probed_periods slice route none = bindr (py_get_or slice route (PDict [])) (\<lambda>caps.
     bindr (py_get_or (py_or caps (PDict [])) ''intervals'' (PList none)) (\<lambda>v.
     bindr (py_iter (py_or v (PList none))) (\<lambda>vs. Inr (map py_str vs))))"

definition market_probes :: "pyval \<Rightarrow> probe list res" where
  "market_probes slice =
     bindr (probed_periods slice ''candles'' []) (\<lambda>candles.
     bindr (probed_periods slice ''open_interest'' [PStr ''1h'']) (\<lambda>interest.
     bindr (probed_periods slice ''long_short_ratio'' [PStr ''1h'']) (\<lambda>ratio.
     Inr ([InfoProbe, MarketsProbe, SymbolProbe, CapabilitiesProbe,
         SnapshotProbe ''ticker'' ''Ticker'', SnapshotProbe ''book_ticker'' ''BookTicker'', SnapshotProbe ''mark_price'' ''MarkPrice'',
         OrderBookProbe, TradesProbe, MarginProbe,
         plain_page ''agg_trades'' ''AggTrade'' 1000 False, plain_page ''funding_rate'' ''FundingRate'' 500 False,
         plain_page ''liquidations'' ''Liquidation'' 500 True]
       @ map (period_page ''candles'' ''Candle'' 3000 ''interval'') candles
       @ map (period_page ''open_interest'' ''OpenInterest'' 500 ''period'') interest
       @ map (period_page ''long_short_ratio'' ''LongShortRatio'' 500 ''period'') ratio
       @ [CrossProbe] @ map (\<lambda>(c, m). SocketProbe c) WS_CHANNEL_MODEL))))"

definition exchange_probes :: "probe list" where "exchange_probes = [ErrorProbe]"

text \<open>A stream probe listens for a window.\<close>

type_synonym 'w listener = "audit_ctx \<Rightarrow> string \<Rightarrow> 'w \<Rightarrow> (bool \<times> ws_frame list) \<times> 'w"

fun perform :: "'w audit_env \<Rightarrow> 'w listener \<Rightarrow> audit_ctx \<Rightarrow> probe \<Rightarrow> ('w, pyexc, probe_result list) io" where
  "perform env listen ctx InfoProbe = info_probe env ctx"
| "perform env listen ctx MarketsProbe = markets_probe env ctx"
| "perform env listen ctx SymbolProbe = symbol_probe env ctx"
| "perform env listen ctx CapabilitiesProbe = capabilities_probe env ctx"
| "perform env listen ctx (SnapshotProbe r m) = snapshot_probe env ctx r m"
| "perform env listen ctx OrderBookProbe = orderbook_probe env ctx"
| "perform env listen ctx TradesProbe = trades_probe env ctx"
| "perform env listen ctx MarginProbe = margin_probe env ctx"
| "perform env listen ctx (PagedProbe p) = paged_probe env ctx p"
| "perform env listen ctx CrossProbe = cross_probe env ctx"
| "perform env listen ctx (SocketProbe c) = ws_probe env listen ctx c"
| "perform env listen ctx ErrorProbe = error_probe env ctx"

section \<open>Progress\<close>

datatype audit_event = Result probe_result | Registered string int | ProbeDone string | MarketSkipped string int

text \<open>A probe that crashes is one result, and is done like any other.\<close>

definition run_probe :: "'w audit_env \<Rightarrow> 'w listener \<Rightarrow> audit_ctx \<Rightarrow> string \<Rightarrow> probe \<Rightarrow> ('w, pyexc, audit_event list) io" where
  "run_probe env listen ctx exchange p w = (case perform env listen ctx p w of
       (Inr rs, w) \<Rightarrow> (Inr (map Result rs @ [ProbeDone exchange]), w)
     | (Inl e, w) \<Rightarrow>
         (if is_exception e
          then Inr [Result (judged ctx (probe_kind p) (probe_route p) (probe_name p) (Fails, NetworkKind)), ProbeDone exchange]
          else Inl e, w))"

definition applying :: "audit_ctx \<Rightarrow> probe list \<Rightarrow> probe list res" where
  "applying ctx ps = bindr (mapr (\<lambda>p. bindr (applies ctx p) (\<lambda>b. Inr (if b then [p] else []))) ps) (\<lambda>pss. Inr (concat pss))"

definition exchange_ctx :: "string \<Rightarrow> int \<Rightarrow> audit_ctx" where
  "exchange_ctx exchange now = \<lparr>ax_exchange = exchange, ax_market = None, ax_symbol = None, ax_slice = PNone, ax_now = now\<rparr>"

definition market_ctx :: "string \<Rightarrow> string \<Rightarrow> string \<Rightarrow> pyval \<Rightarrow> int \<Rightarrow> audit_ctx" where
  "market_ctx exchange market symbol slice now =
     \<lparr>ax_exchange = exchange, ax_market = Some market, ax_symbol = Some symbol, ax_slice = slice, ax_now = now\<rparr>"

definition count_market_probes :: "string \<Rightarrow> string \<Rightarrow> pyval \<Rightarrow> int \<Rightarrow> int res" where
  "count_market_probes exchange market slice now =
     bindr (bindr (market_probes slice) (applying (market_ctx exchange market ''BTCUSDT'' slice now))) (\<lambda>ps. Inr (int (length ps)))"

text \<open>\<open>caps.get("markets", {}) or {}\<close>\<close>

definition markets_of :: "pyval \<Rightarrow> (string \<times> pyval) list res" where
  "markets_of caps = bindr (py_get_or caps ''markets'' (PDict [])) (\<lambda>v. case py_or v (PDict []) of
       PDict ms \<Rightarrow> Inr ms | v \<Rightarrow> Inl (AttributeError (quoted (type_name v) @ '' object has no attribute '' @ quoted ''items'')))"

definition count_expected_probes :: "string \<Rightarrow> pyval \<Rightarrow> int \<Rightarrow> int res" where
  "count_expected_probes exchange caps now =
     bindr (applying (exchange_ctx exchange now) exchange_probes) (\<lambda>ps.
     bindr (bindr (markets_of caps) (mapr (\<lambda>(market, slice). count_market_probes exchange market slice now))) (\<lambda>ns.
     Inr (int (length ps) + sum_list ns)))"

definition plain_result :: "string \<Rightarrow> string \<Rightarrow> string \<Rightarrow> string \<Rightarrow> judgement \<Rightarrow> probe_result" where
  "plain_result exchange market route probe j = \<lparr>pr_exchange = exchange, pr_market = market, pr_route = route, pr_kind = ''rest'',
     pr_symbol = None, pr_probe = probe, pr_judgement = j\<rparr>"

text \<open>The symbols of a list of markets, and the judgement of the list.\<close>

definition listed_symbols :: "pyval \<Rightarrow> pyval list res" where
  "listed_symbols entries = bindr (py_iter entries) (\<lambda>es.
     Inr (filter truthy [entry d ''symbol''. PDict d \<leftarrow> es]))"

definition market_choice :: "fetched \<Rightarrow> (string option \<times> judgement) res" where
  "market_choice f = (case f of (status, data, err) \<Rightarrow>
     if err \<noteq> None then Inr (None, Fails, NetworkKind)
     else (case answered f of
         Some d \<Rightarrow> (case dget d ''markets'' of
             None \<Rightarrow> Inr (None, Fails, HttpKind)
           | Some entries \<Rightarrow> bindr (listed_symbols entries) (\<lambda>symbols.
               Inr (case pick_symbol symbols of
                   None \<Rightarrow> (None, Warns, LogicKind)
                 | Some s \<Rightarrow> (Some s, Passes, OkKind))))
       | None \<Rightarrow> Inr (None, Fails, if status = None \<or> status = Some 0 then NetworkKind else HttpKind)))"

definition run_probes :: "'w audit_env \<Rightarrow> 'w listener \<Rightarrow> audit_ctx \<Rightarrow> string \<Rightarrow> probe list \<Rightarrow> ('w, pyexc, audit_event list) io" where
  "run_probes env listen ctx exchange ps = bindw (mapw (run_probe env listen ctx exchange) ps) (\<lambda>ess. retw (concat ess))"

definition rest_first :: "probe list \<Rightarrow> probe list" where
  "rest_first ps = filter (\<lambda>p. probe_kind p = ''rest'') ps @ filter (\<lambda>p. probe_kind p = ''ws'') ps"

definition run_market :: "'w audit_env \<Rightarrow> 'w listener \<Rightarrow> string \<Rightarrow> string \<times> pyval \<Rightarrow> ('w, pyexc, audit_event list) io" where
  "run_market env listen exchange ms = (case ms of (market, slice) \<Rightarrow>
     bindw (ask_service env (''/'' @ exchange @ ''/'' @ market @ ''/markets'') []) (\<lambda>f.
     bindw (liftw (market_choice f)) (\<lambda>(chosen, j).
     let told = Result (plain_result exchange market ''markets'' ''markets:list'' j) in
     case chosen of
         None \<Rightarrow> (\<lambda>w. (map_sum (\<lambda>e. e) (\<lambda>n. told # (if 0 < n then [MarketSkipped exchange n] else []))
            (count_market_probes exchange market slice (au_now env w)), w))
       | Some symbol \<Rightarrow> (\<lambda>w. let ctx = market_ctx exchange market symbol slice (au_now env w) in
           bindw (liftw (bindr (market_probes slice) (applying ctx))) (\<lambda>ps.
           bindw (run_probes env listen ctx exchange (rest_first ps)) (\<lambda>es. retw (told # es))) w))))"

definition status_judgement :: "fetched \<Rightarrow> judgement" where
  "status_judgement f = (case f of (status, data, err) \<Rightarrow>
     if status = Some 200 then (Passes, OkKind) else (Fails, if err \<noteq> None \<and> err \<noteq> Some [] then NetworkKind else HttpKind))"

definition run_for_exchange :: "'w audit_env \<Rightarrow> 'w listener \<Rightarrow> string \<Rightarrow> pyval option \<Rightarrow> ('w, pyexc, audit_event list) io" where
  "run_for_exchange env listen exchange caps =
     bindw (ask_service env (''/'' @ exchange @ ''/status'') []) (\<lambda>f.
     let told = Result (plain_result exchange ''ALL'' ''status'' ''status'' (status_judgement f)) in
     case caps of
         None \<Rightarrow> retw [told]
       | Some caps \<Rightarrow> (\<lambda>w. let ctx = exchange_ctx exchange (au_now env w) in
           bindw (liftw (applying ctx exchange_probes)) (\<lambda>ps.
           bindw (run_probes env listen ctx exchange ps) (\<lambda>first.
           bindw (liftw (markets_of caps)) (\<lambda>markets.
           bindw (mapw (run_market env listen exchange) markets) (\<lambda>ess.
           retw (told # first @ concat ess))))) w))"

section \<open>The whole run\<close>

definition global_result :: "string \<Rightarrow> judgement \<Rightarrow> audit_event" where
  "global_result probe j = Result (plain_result ''GLOBAL'' ''ALL'' ''global'' probe j)"

text \<open>\<open>ErrorType.NETWORK if err else ErrorType.HTTP\<close>\<close>

definition unanswered :: "fetched \<Rightarrow> judgement" where
  "unanswered f = (Fails, if snd (snd f) \<noteq> None \<and> snd (snd f) \<noteq> Some [] then NetworkKind else HttpKind)"

definition version_judgement :: "fetched \<Rightarrow> judgement" where
  "version_judgement f = (case answered f of
       Some d \<Rightarrow> if dget d ''version'' \<noteq> None then (Passes, OkKind) else unanswered f
     | None \<Rightarrow> unanswered f)"

definition schema_judgement :: "fetched \<Rightarrow> judgement" where
  "schema_judgement f = (case answered f of
       Some d \<Rightarrow> (case dget d ''schema_version'' of
           Some v \<Rightarrow> if py_differ v (PInt SCHEMA_VERSION) then (Fails, LogicKind) else (Passes, OkKind)
         | None \<Rightarrow> (Warns, LogicKind))
     | None \<Rightarrow> (Warns, LogicKind))"

text \<open>
  The exchanges to audit: those that are served, or of them those that were asked for. A request that
  names one that is not served is a warning, and a failure when nothing is left.
\<close>

definition audit_targets :: "string list \<Rightarrow> string list \<Rightarrow> string list \<times> audit_event list" where
  "audit_targets requested available =
     (let target = (if requested = [] then available else filter (\<lambda>e. e \<in> set requested) available);
          unknown = filter (\<lambda>e. e \<notin> set available) requested
      in (target, (if unknown = [] then [] else [global_result ''filter_exchanges'' (Warns, LogicKind)])
            @ (if target = [] then [global_result ''filter_exchanges'' (Fails, LogicKind)] else [])))"

text \<open>
  The capabilities of one exchange: what is announced, and what they are. Listing the markets raises
  when they are no object.
\<close>

definition capabilities_events :: "'w audit_env \<Rightarrow> string \<Rightarrow> ('w, pyexc, pyval option \<times> audit_event list) io" where
  "capabilities_events env exchange = bindw (ask_service env (''/'' @ exchange @ ''/capabilities'') []) (\<lambda>f w.
     (case answered f of
         Some d \<Rightarrow> bindr (count_expected_probes exchange (PDict d) (au_now env w)) (\<lambda>n.
           bindr (py_get_or (PDict d) ''markets'' (PDict [])) (\<lambda>v. case v of
               PDict ms \<Rightarrow> Inr (Some (PDict d), [Registered exchange n,
                 Result (plain_result exchange ''ALL'' ''capabilities'' ''capabilities'' (Passes, OkKind))])
             | _ \<Rightarrow> Inl (AttributeError (quoted (type_name v) @ '' object has no attribute '' @ quoted ''keys''))))
       | None \<Rightarrow> Inr (None, [Result (plain_result exchange ''ALL'' ''capabilities'' ''capabilities'' (unanswered f))]), w))"

definition caps_map :: "(string \<times> pyval option) list \<Rightarrow> (string, pyval) dict" where
  "caps_map cs = foldl (\<lambda>d (exchange, c). case c of None \<Rightarrow> d | Some v \<Rightarrow> dset d exchange v) [] cs"

definition audit_exchanges :: "'w audit_env \<Rightarrow> 'w listener \<Rightarrow> string list \<Rightarrow> ('w, pyexc, audit_event list) io" where
  "audit_exchanges env listen target =
     bindw (mapw (capabilities_events env) target) (\<lambda>told.
     let caps = caps_map (zip target (map fst told)) in
     bindw (mapw (\<lambda>exchange. run_for_exchange env listen exchange (dget caps exchange)) target) (\<lambda>ess.
     retw (concat (map snd told) @ concat ess)))"

definition audit_listed :: "'w audit_env \<Rightarrow> 'w listener \<Rightarrow> string list \<Rightarrow> fetched \<Rightarrow> ('w, pyexc, audit_event list) io" where
  "audit_listed env listen requested f = (case answered f of
       None \<Rightarrow> retw [global_result ''list_exchanges'' (unanswered f)]
     | Some d \<Rightarrow> bindw (liftw (bindr (py_get_or (PDict d) ''exchanges'' (PList [])) (\<lambda>v. py_iter (py_or v (PList []))))) (\<lambda>vs.
         if vs = [] then retw [global_result ''list_exchanges'' (Fails, LogicKind)]
         else (case audit_targets requested (map py_str vs) of (target, told) \<Rightarrow>
           let told = global_result ''list_exchanges'' (Passes, OkKind) # told in
           if target = [] then retw told
           else bindw (audit_exchanges env listen target) (\<lambda>es. retw (told @ es)))))"

definition audit_run :: "'w audit_env \<Rightarrow> 'w listener \<Rightarrow> string list \<Rightarrow> ('w, pyexc, audit_event list) io" where
  "audit_run env listen requested =
     bindw (ask_service env ''/status'' []) (\<lambda>s.
     if fst s \<noteq> Some 200 then retw [global_result ''service_status'' (unanswered s)]
     else
       bindw (ask_service env ''/version'' []) (\<lambda>v.
       bindw (ask_service env ''/'' []) (\<lambda>root.
       bindw (ask_service env ''/exchanges'' []) (\<lambda>f.
       bindw (audit_listed env listen requested f) (\<lambda>es.
       retw ([global_result ''service_status'' (Passes, OkKind), global_result ''version'' (version_judgement v),
         global_result ''schema_version'' (schema_judgement root)] @ es))))))"

end
