(* ===== verification/AuditLaws.thy ===== *)
theory AuditLaws
  imports AuditRun
begin

text \<open>
  What the auditor guarantees: an order book passes exactly when it is in order, the totals count
  every result once and the exit code tells whether one failed, a market list is judged by its
  duplicates unless something else is wrong with it, and the progress that is reported reaches what
  was announced.
\<close>

section \<open>Order books\<close>

definition level_of :: "pyfloat \<times> pyfloat \<Rightarrow> pyval" where
  "level_of l = PList [PFloat (fst l), PFloat (snd l)]"

lemma level_index [simp]: "py_index (level_of l) 0 = Inr (PFloat (fst l))" "py_index (level_of l) (Suc 0) = Inr (PFloat (snd l))"
  by (simp_all add: level_of_def)

lemma any_step_levels:
  assumes "\<And>x y. p (level_of x) (level_of y) = Inr (q x y)"
  shows "any_step p (map level_of ls) = Inr (\<not> successively (\<lambda>x y. \<not> q x y) ls)"
  by (induction ls rule: induct_list012) (simp_all add: assms)

lemma any_res_map: "(\<And>x. p (f x) = Inr (q x)) \<Longrightarrow> any_res p (map f xs) = Inr (\<exists>x\<in>set xs. q x)"
  by (induction xs) auto

lemma rises_levels: "rises (level_of x) (level_of y) = Inr (flt (fst x) (fst y))"
  by (simp add: rises_def level_price_def py_less_def)

lemma falls_levels: "falls (level_of x) (level_of y) = Inr (flt (fst y) (fst x))"
  by (simp add: falls_def level_price_def py_less_def)

lemma bad_level_of: "bad_level (level_of x) = Inr (fle (fst x) (Fin 0) \<or> fle (snd x) (Fin 0))"
  by (simp add: bad_level_def or_res_def not_positive_def py_at_most_def)

definition crossing :: "(pyfloat \<times> pyfloat) list \<Rightarrow> (pyfloat \<times> pyfloat) list \<Rightarrow> bool" where
  "crossing bids asks \<longleftrightarrow> bids \<noteq> [] \<and> asks \<noteq> [] \<and> fle (fst (hd asks)) (fst (hd bids))"

lemma crossed_levels: "crossed_book (map level_of bids) (map level_of asks) = Inr (crossing bids asks)"
  by (auto simp: crossed_book_def crossing_def level_price_def py_at_most_def split: list.split)

text \<open>In the order that the guide asks for: bids strictly descending, asks strictly ascending.\<close>

definition book_in_order :: "int \<Rightarrow> (pyfloat \<times> pyfloat) list \<Rightarrow> (pyfloat \<times> pyfloat) list \<Rightarrow> bool" where
  "book_in_order depth bids asks \<longleftrightarrow> int (length bids) \<le> depth \<and> int (length asks) \<le> depth
     \<and> successively (\<lambda>x y. flt (fst y) (fst x)) bids \<and> successively (\<lambda>x y. flt (fst x) (fst y)) asks
     \<and> \<not> crossing bids asks \<and> (\<forall>l\<in>set bids \<union> set asks. \<not> fle (fst l) (Fin 0) \<and> \<not> fle (snd l) (Fin 0))"

text \<open>No two neighbours are of one price.\<close>

definition prices_differ :: "(pyfloat \<times> pyfloat) list \<Rightarrow> bool" where
  "prices_differ ls \<longleftrightarrow> successively (\<lambda>x y. flt (fst x) (fst y) \<or> flt (fst y) (fst x)) ls"

lemma flt_asym: "flt a b \<Longrightarrow> \<not> flt b a"
  by (cases a; cases b) auto

lemma strict_order:
  assumes "prices_differ ls"
  shows "successively (\<lambda>x y. flt (fst y) (fst x)) ls \<longleftrightarrow> successively (\<lambda>x y. \<not> flt (fst x) (fst y)) ls"
    "successively (\<lambda>x y. flt (fst x) (fst y)) ls \<longleftrightarrow> successively (\<lambda>x y. \<not> flt (fst y) (fst x)) ls"
  using assms unfolding prices_differ_def by (induction ls rule: induct_list012) (auto dest: flt_asym)

lemma judgement_of:
  assumes "one_valid env ''OrderBook'' (PDict d)" "dget d ''bids'' = Some (PList (map level_of bids))"
    "dget d ''asks'' = Some (PList (map level_of asks))" "dget d ''timestamp'' = Some (PInt ts)"
  shows "orderbook_judgement env depth now (PDict d) = Inr
    (if int (length bids) \<le> depth \<and> int (length asks) \<le> depth
        \<and> successively (\<lambda>x y. \<not> flt (fst x) (fst y)) bids \<and> successively (\<lambda>x y. \<not> flt (fst y) (fst x)) asks
        \<and> \<not> crossing bids asks \<and> (\<forall>l\<in>set bids \<union> set asks. \<not> fle (fst l) (Fin 0) \<and> \<not> fle (snd l) (Fin 0))
     then if SNAPSHOT_FRESHNESS_MS < now - ts then (Warns, LogicKind) else (Passes, OkKind) else (Fails, LogicKind))"
proof -
  have stale: "is_stale now (PDict d) = Inr (SNAPSHOT_FRESHNESS_MS < now - ts)"
    using assms(4) by (simp add: is_stale_def py_minus_def py_less_def del: of_int_diff)
  have bad: "any_res bad_level (map level_of ls) = Inr (\<exists>l\<in>set ls. fle (fst l) (Fin 0) \<or> fle (snd l) (Fin 0))" for ls
    using any_res_map [of bad_level level_of "\<lambda>l. fle (fst l) (Fin 0) \<or> fle (snd l) (Fin 0)" ls] bad_level_of by simp
  have rise: "any_step rises (map level_of ls) = Inr (\<not> successively (\<lambda>x y. \<not> flt (fst x) (fst y)) ls)" for ls
    using any_step_levels [of rises "\<lambda>x y. flt (fst x) (fst y)" ls] rises_levels by simp
  have fall: "any_step falls (map level_of ls) = Inr (\<not> successively (\<lambda>x y. \<not> flt (fst y) (fst x)) ls)" for ls
    using any_step_levels [of falls "\<lambda>x y. flt (fst y) (fst x)" ls] falls_levels by simp
  show ?thesis
    using assms(1-3)
    by (auto simp: orderbook_judgement_def as_list_def rise fall crossed_levels bad stale or_res_def)
qed

text \<open>
  C28. The auditor passes an order book that has the shape of the model, and whose neighbouring levels
  differ in price, exactly when it has no more levels than were asked for, its bids descend strictly
  and its asks ascend strictly, it is not crossed, every price and quantity is positive, and it is at
  most five minutes old; a stale book in order is a warning and every other book a failure.
\<close>

theorem orderbook_audit_exact:
  assumes "one_valid env ''OrderBook'' (PDict d)" "dget d ''bids'' = Some (PList (map level_of bids))"
    "dget d ''asks'' = Some (PList (map level_of asks))" "dget d ''timestamp'' = Some (PInt ts)"
    and "prices_differ bids" "prices_differ asks"
  shows "orderbook_judgement env depth now (PDict d) = Inr
    (if \<not> book_in_order depth bids asks then (Fails, LogicKind)
     else if SNAPSHOT_FRESHNESS_MS < now - ts then (Warns, LogicKind) else (Passes, OkKind))"
  unfolding judgement_of [OF assms(1-4)] book_in_order_def strict_order(1) [OF assms(5)] strict_order(2) [OF assms(6)] by simp

definition any_env :: "nat audit_env" where
  "any_env = \<lparr>au_get = (\<lambda>path params w. (Replied 200 PNone, Suc w)), au_now = (\<lambda>w. 0), au_valid = (\<lambda>m d. True)\<rparr>"

text \<open>Two bids that descend pass, two that rise fail.\<close>

lemma orderbook_audit_exact_witness:
  "map (\<lambda>p. orderbook_judgement any_env 5 1000 (PDict [(''bids'', PList (map level_of [(Fin 9, Fin 1), (Fin p, Fin 2)])),
      (''asks'', PList (map level_of [(Fin 10, Fin 1)])), (''timestamp'', PInt 0)])) [8, 19 / 2]
    = [Inr (Passes, OkKind), Inr (Fails, LogicKind)]"
proof -
  have valid: "one_valid any_env ''OrderBook'' (PDict d)" for d by (simp add: one_valid_def any_env_def)
  have "orderbook_judgement any_env 5 1000 (PDict [(''bids'', PList (map level_of [(Fin 9, Fin 1), (Fin p, Fin 2)])),
      (''asks'', PList (map level_of [(Fin 10, Fin 1)])), (''timestamp'', PInt 0)])
    = Inr (if \<not> book_in_order 5 [(Fin 9, Fin 1), (Fin p, Fin 2)] [(Fin 10, Fin 1)] then (Fails, LogicKind)
       else if SNAPSHOT_FRESHNESS_MS < 1000 - 0 then (Warns, LogicKind) else (Passes, OkKind))" if "p \<noteq> 9" for p
    by (rule orderbook_audit_exact [OF valid]) (use that in \<open>auto simp: dget_def prices_differ_def\<close>)
  from this [of 8] this [of "19 / 2"] show ?thesis
    by (simp add: book_in_order_def crossing_def fle_def SNAPSHOT_FRESHNESS_MS_def)
qed

text \<open>Levels of one price pass as well, which neither the guide nor the message of the check allows.\<close>

lemma orderbook_audit_equal_prices:
  "orderbook_judgement any_env 5 1000 (PDict [(''bids'', PList (map level_of [(Fin 9, Fin 1), (Fin 9, Fin 2)])),
      (''asks'', PList (map level_of [(Fin 10, Fin 1)])), (''timestamp'', PInt 0)]) = Inr (Passes, OkKind)"
proof -
  have "one_valid any_env ''OrderBook'' (PDict d)" for d by (simp add: one_valid_def any_env_def)
  note judgement_of [OF this, of "[(''bids'', PList (map level_of [(Fin 9, Fin 1), (Fin 9, Fin 2)])),
      (''asks'', PList (map level_of [(Fin 10, Fin 1)])), (''timestamp'', PInt 0)]" "[(Fin 9, Fin 1), (Fin 9, Fin 2)]" "[(Fin 10, Fin 1)]" 0 5 1000]
  then show ?thesis by (simp add: dget_def crossing_def fle_def SNAPSHOT_FRESHNESS_MS_def)
qed

section \<open>Market lists\<close>

definition tidy_entry :: "string \<Rightarrow> pyval \<Rightarrow> bool" where
  "tidy_entry s v \<longleftrightarrow> (\<exists>d. v = PDict d \<and> dget d ''symbol'' = Some (PStr s) \<and> s \<noteq> [] \<and> CHR ''/'' \<notin> set s \<and> s = upper s
     \<and> list_all (\<lambda>k. dget d k \<noteq> None) required_keys)"

lemma scan_tidy:
  assumes "list_all2 tidy_entry ss es"
  shows "ls_bad (foldl scan_entry st es) = ls_bad st
    \<and> (ls_dups (foldl scan_entry st es) = ls_dups st \<longleftrightarrow> distinct ss \<and> set ss \<inter> set (ls_seen st) = {})
    \<and> ls_dups st \<le> ls_dups (foldl scan_entry st es)"
  using assms
proof (induction ss es arbitrary: st rule: list_all2_induct)
  case (Cons s ss v es)
  have one: "ls_bad (scan_entry st v) = ls_bad st" "ls_dups (scan_entry st v) = ls_dups st + (if s \<in> set (ls_seen st) then 1 else 0)"
      "set (ls_seen (scan_entry st v)) = insert s (set (ls_seen st))"
    using Cons.hyps(1) by (auto simp: tidy_entry_def scan_entry_def Let_def split: if_splits)
  show ?case using Cons.IH [of "scan_entry st v"] one by (auto split: if_splits)
qed simp

lemma scan_bad_grows: "ls_bad st \<le> ls_bad (foldl scan_entry st es)"
proof (induction es arbitrary: st)
  case (Cons v es)
  have "ls_bad st \<le> ls_bad (scan_entry st v)" by (auto simp: scan_entry_def Let_def split: pyval.split option.split)
  then show ?case using Cons.IH [of "scan_entry st v"] by simp
qed simp

text \<open>
  A list of markets that are all in form passes exactly when no symbol is listed twice, and
  fails otherwise; but one entry that is not in form makes the whole list a warning, and then twice
  the same symbol is never noticed.
\<close>

theorem market_list_audit:
  assumes "list_all2 tidy_entry ss es" "dget d ''markets'' = Some (PList es)" "dget d' ''markets'' = Some (PList (v # es))"
    and "\<not> (\<exists>dv. v = PDict dv)"
  shows "markets_judgement now (PDict d) = Inr (if distinct ss then (Passes, OkKind) else (Fails, LogicKind))
    \<and> markets_judgement now (PDict d') = Inr (Warns, LogicKind)"
proof -
  let ?st = "\<lparr>ls_bad = 0, ls_seen = [], ls_dups = 0\<rparr>"
  have "ls_bad (scan_listing es) = 0" "(ls_dups (scan_listing es) = 0) = distinct ss"
    using scan_tidy [OF assms(1), of ?st] by (simp_all add: scan_listing_def)
  moreover have "0 < ls_bad (scan_listing (v # es))"
  proof -
    have "ls_bad (scan_entry ?st v) = 1" using assms(4) by (cases v) (simp_all add: scan_entry_def)
    then show ?thesis using scan_bad_grows [of "scan_entry ?st v" es] by (simp add: scan_listing_def)
  qed
  ultimately show ?thesis using assms(2,3) by (simp add: markets_judgement_def Let_def)
qed

section \<open>Totals\<close>

lemma count_up_get: "dget (count_up d k) x = (if x = k then Some ((case dget d k of None \<Rightarrow> 0 | Some n \<Rightarrow> n) + 1) else dget d x)"
  by (simp add: count_up_def)

lemma count_all:
  "dget (foldl (\<lambda>d r. count_up d (key r)) d rs) x =
     (if (\<exists>r\<in>set rs. key r = x) then Some ((case dget d x of None \<Rightarrow> 0 | Some n \<Rightarrow> n) + int (length (filter (\<lambda>r. key r = x) rs))) else dget d x)"
  by (induction rs arbitrary: d) (auto simp: count_up_get)

lemma audit_totals_count: "dget (audit_totals rs) v = Some (int (length (filter (\<lambda>r. pr_status r = v) rs)))"
proof -
  have "dget no_verdicts v = Some 0" by (cases v) (simp_all add: no_verdicts_def dget_def)
  then show ?thesis unfolding audit_totals_def count_all by (auto simp: filter_empty_conv)
qed

lemma by_exchange_count:
  "dget (by_exchange rs) x = (if x \<in> pr_exchange ` set rs then Some (audit_totals (filter (\<lambda>r. pr_exchange r = x) rs)) else None)"
proof -
  have none: "y \<notin> pr_exchange ` set rs \<Longrightarrow> filter (\<lambda>r. pr_exchange r = y) rs = []" for y and rs :: "probe_result list"
    by (auto simp: filter_empty_conv)
  define step where "step = (\<lambda>d r. dset d (pr_exchange r)
    (count_up (case dget d (pr_exchange r) of None \<Rightarrow> no_verdicts | Some c \<Rightarrow> c) (pr_status r)))"
  have "dget (foldl step d rs) x = (if x \<in> pr_exchange ` set rs
      then Some (foldl (\<lambda>c r. count_up c (pr_status r)) (case dget d x of None \<Rightarrow> no_verdicts | Some c \<Rightarrow> c) (filter (\<lambda>r. pr_exchange r = x) rs))
      else dget d x)" for d
    by (induction rs arbitrary: d) (auto simp: step_def none)
  moreover have "dget [] x = None" by (simp add: dget_def)
  moreover have "by_exchange rs = foldl step [] rs" by (simp add: by_exchange_def step_def)
  ultimately show ?thesis by (simp add: audit_totals_def)
qed

text \<open>
  The totals count every result once, by verdict and, per exchange, by exchange and verdict;
  and the program ends with 1 exactly when a result failed.
\<close>

theorem audit_counts:
  shows "(\<forall>v. dget (audit_totals rs) v = Some (int (length (filter (\<lambda>r. pr_status r = v) rs))))
    \<and> (\<Sum>v\<in>{Passes, Warns, Fails, Skips}. the (dget (audit_totals rs) v)) = int (length rs)
    \<and> (\<forall>x. dget (by_exchange rs) x =
         (if x \<in> pr_exchange ` set rs then Some (audit_totals (filter (\<lambda>r. pr_exchange r = x) rs)) else None))
    \<and> (audit_exit rs = 1 \<longleftrightarrow> (\<exists>r\<in>set rs. pr_status r = Fails)) \<and> audit_exit rs \<in> {0, 1}"
proof -
  have "length (filter (\<lambda>r. pr_status r = Passes) rs) + (length (filter (\<lambda>r. pr_status r = Warns) rs)
      + (length (filter (\<lambda>r. pr_status r = Fails) rs) + length (filter (\<lambda>r. pr_status r = Skips) rs))) = length rs"
  proof (induction rs)
    case (Cons r rs)
    then show ?case by (cases "pr_status r") simp_all
  qed simp
  moreover have "audit_exit rs = (if \<exists>r\<in>set rs. pr_status r = Fails then 1 else 0)"
    by (auto simp: audit_exit_def audit_totals_count filter_empty_conv)
  ultimately show ?thesis by (auto simp: audit_totals_count by_exchange_count)
qed

section \<open>Progress\<close>

fun done_by :: "audit_event \<Rightarrow> int" where
  "done_by (ProbeDone e) = 1"
| "done_by (MarketSkipped e n) = n"
| "done_by ev = 0"

definition progress :: "audit_event list \<Rightarrow> int" where
  "progress es = sum_list (map done_by es)"

lemma progress_simps [simp]: "progress [] = 0" "progress (e # es) = done_by e + progress es" "progress (es @ fs) = progress es + progress fs"
  by (simp_all add: progress_def)

lemma progress_results [simp]: "progress (map Result rs) = 0"
  by (induction rs) simp_all

lemma run_probe_progress: "run_probe env listen ctx ex p w = (Inr es, w') \<Longrightarrow> progress es = 1"
  by (auto simp: run_probe_def split: prod.splits sum.splits if_splits)

lemma mapw_progress:
  assumes "mapw f xs w = (Inr ess, w')" "\<And>x w es w'. x \<in> set xs \<Longrightarrow> f x w = (Inr es, w') \<Longrightarrow> progress es = n x"
  shows "progress (concat ess) = sum_list (map n xs)"
  using assms
proof (induction xs arbitrary: w ess)
  case (Cons x xs)
  obtain es w1 fss where s: "f x w = (Inr es, w1)" "mapw f xs w1 = (Inr fss, w')" "ess = es # fss"
    using Cons.prems(1) by (auto simp: bindw_Inr_iff retw_eq)
  have "progress (concat fss) = sum_list (map n xs)" using Cons.prems(2) by (intro Cons.IH [OF s(2)]) auto
  then show ?case using Cons.prems(2) [of x, OF _ s(1)] s(3) by simp
qed (simp add: retw_eq)

lemma run_probes_progress: "run_probes env listen ctx ex ps w = (Inr es, w') \<Longrightarrow> progress es = int (length ps)"
proof -
  assume run: "run_probes env listen ctx ex ps w = (Inr es, w')"
  then obtain ess where s: "mapw (run_probe env listen ctx ex) ps w = (Inr ess, w')" "es = concat ess"
    by (auto simp: run_probes_def bindw_Inr_iff retw_eq)
  have "progress (concat ess) = sum_list (map (\<lambda>p. 1) ps)"
    by (rule mapw_progress [OF s(1)]) (erule run_probe_progress)
  then show ?thesis using s(2) by (simp add: sum_list_triv)
qed

lemma rest_first_length: "length (rest_first ps) = length ps"
proof (induction ps)
  case (Cons p ps)
  then show ?case by (cases p) (simp_all add: rest_first_def)
qed (simp add: rest_first_def)

text \<open>A probe that is counted for the stand-in symbol applies for the one that is chosen, and the other way round.\<close>

lemma applies_any_symbol:
  "s \<noteq> [] \<Longrightarrow> t \<noteq> [] \<Longrightarrow> applies (market_ctx ex m s slice now) p = applies (market_ctx ex m t slice now') p"
  by (cases p) (simp_all add: market_ctx_def advertised_def paged_applies_def cross_applies_def cong: option.case_cong if_cong)

lemma applying_any_symbol:
  assumes "s \<noteq> []" "t \<noteq> []"
  shows "applying (market_ctx ex m s slice now) = applying (market_ctx ex m t slice now')"
proof -
  have "applies (market_ctx ex m s slice now) = applies (market_ctx ex m t slice now')"
    by (rule ext) (rule applies_any_symbol [OF assms])
  then show ?thesis by (simp add: applying_def fun_eq_iff)
qed

lemma count_any_time: "count_market_probes ex m slice now = count_market_probes ex m slice now'"
  unfolding count_market_probes_def using applying_any_symbol [of "''BTCUSDT''" "''BTCUSDT''" ex m slice now now'] by simp

lemma empty_no_score: "symbol_score [] = None"
  by code_simp

lemma pick_best_scored: "pick_best ss chosen x = Some s \<Longrightarrow> chosen = Some s \<or> s \<noteq> []"
  by (induction ss chosen x rule: pick_best.induct) (auto simp: empty_no_score split: option.splits if_splits)

lemma chosen_not_empty: "market_choice f = Inr (Some s, j) \<Longrightarrow> s \<noteq> []"
  using pick_best_scored
  by (fastforce simp: market_choice_def pick_symbol_def bindr_Inr_iff split: prod.splits option.splits if_splits)

lemma run_market_progress:
  assumes "run_market env listen ex (m, slice) w = (Inr es, w')" "count_market_probes ex m slice now = Inr n"
  shows "progress es = n"
proof -
  obtain f w1 chosen j where s: "market_choice f = Inr (chosen, j)"
      "(let told = Result (plain_result ex m ''markets'' ''markets:list'' j) in
        case chosen of
         None \<Rightarrow> (\<lambda>w. (map_sum (\<lambda>e. e) (\<lambda>n. told # (if 0 < n then [MarketSkipped ex n] else []))
            (count_market_probes ex m slice (au_now env w)), w))
       | Some symbol \<Rightarrow> (\<lambda>w. let ctx = market_ctx ex m symbol slice (au_now env w) in
           bindw (liftw (bindr (market_probes slice) (applying ctx))) (\<lambda>ps.
           bindw (run_probes env listen ctx ex (rest_first ps)) (\<lambda>es. retw (told # es))) w)) w1 = (Inr es, w')"
    using assms(1) by (auto simp: run_market_def bindw_Inr_iff liftw_def)
  have same: "count_market_probes ex m slice now' = Inr n" for now'
    using assms(2) count_any_time [of ex m slice now' now] by simp
  have "0 \<le> n" using assms(2) by (auto simp: count_market_probes_def bindr_Inr_iff)
  show ?thesis
  proof (cases chosen)
    case None
    then have "es = Result (plain_result ex m ''markets'' ''markets:list'' j) # (if 0 < n then [MarketSkipped ex n] else [])"
      using s(2) by (simp add: same Let_def)
    then show ?thesis using \<open>0 \<le> n\<close> by auto
  next
    case (Some symbol)
    define ctx where "ctx = market_ctx ex m symbol slice (au_now env w1)"
    obtain ps es' where ps: "bindr (market_probes slice) (applying ctx) = Inr ps"
        "run_probes env listen ctx ex (rest_first ps) w1 = (Inr es', w')"
        "es = Result (plain_result ex m ''markets'' ''markets:list'' j) # es'"
      using s(2) by (auto simp: Some Let_def ctx_def bindw_Inr_iff retw_eq liftw_def)
    have "symbol \<noteq> []" using chosen_not_empty s(1) Some by blast
    then have "count_market_probes ex m slice now = Inr (int (length ps))"
      using ps(1) applying_any_symbol [of symbol "''BTCUSDT''" ex m slice "au_now env w1" now]
      by (simp add: count_market_probes_def ctx_def)
    then show ?thesis using run_probes_progress [OF ps(2)] ps(3) assms(2) by (simp add: rest_first_length)
  qed
qed

lemma mapr_results: "mapr f xs = Inr ys \<Longrightarrow> ys = map (\<lambda>x. projr (f x)) xs"
  by (induction xs arbitrary: ys) (auto simp: bindr_Inr_iff)

lemma mapr_each: "mapr f xs = Inr ys \<Longrightarrow> x \<in> set xs \<Longrightarrow> \<exists>k. f x = Inr k"
  by (induction xs arbitrary: ys) (auto simp: bindr_Inr_iff)

text \<open>
  The progress of an audit reaches exactly what was announced: for every exchange whose run comes
  to its end, the probes that are reported done and those of skipped markets are together as many as
  were counted beforehand from its capabilities, whatever the service answers, whichever probes
  crash, and whichever symbols are chosen.
\<close>

theorem audit_progress:
  assumes "count_expected_probes ex caps now = Inr n" "run_for_exchange env listen ex (Some caps) w = (Inr es, w')"
  shows "progress es = n"
proof -
  obtain ps markets ns where count: "applying (exchange_ctx ex now) exchange_probes = Inr ps" "markets_of caps = Inr markets"
      "mapr (\<lambda>(market, slice). count_market_probes ex market slice now) markets = Inr ns" "n = int (length ps) + sum_list ns"
    using assms(1) by (auto simp: count_expected_probes_def bindr_Inr_iff)
  have alone: "applying (exchange_ctx ex now') exchange_probes = Inr [ErrorProbe]" for now'
    by (simp add: applying_def exchange_probes_def exchange_ctx_def)
  obtain told now' first w1 w2 ess where run: "run_probes env listen (exchange_ctx ex now') ex [ErrorProbe] w1 = (Inr first, w2)"
      "mapw (run_market env listen ex) markets w2 = (Inr ess, w')" "es = Result told # first @ concat ess"
    using assms(2) by (auto simp: run_for_exchange_def bindw_Inr_iff retw_eq liftw_def Let_def alone count(2))
  have ns: "ns = map (\<lambda>x. projr (case x of (m, slice) \<Rightarrow> count_market_probes ex m slice now)) markets"
    by (rule mapr_results [OF count(3)])
  have each: "progress gs = projr (case x of (m, slice) \<Rightarrow> count_market_probes ex m slice now)"
    if here: "x \<in> set markets" and its: "run_market env listen ex x v = (Inr gs, v')" for x v gs v'
  proof -
    obtain m slice where x: "x = (m, slice)" by force
    obtain k where "count_market_probes ex m slice now = Inr k"
      using mapr_each [OF count(3) here] x by auto
    then show ?thesis using run_market_progress its x by fastforce
  qed
  have "progress (concat ess) = sum_list ns"
    unfolding ns by (rule mapw_progress [OF run(2) each])
  moreover have "length ps = 1" using count(1) alone by auto
  ultimately show ?thesis using run_probes_progress [OF run(1)] run(3) count(4) by simp
qed

text \<open>A service that answers nothing of use: the one market is skipped, with all its probes.\<close>

definition dull_caps :: pyval where
  "dull_caps = PDict [(''markets'', PDict [(''linear'', PDict [(''ticker'', PDict [(''rest'', PBool True)])])])]"

definition deaf :: "nat listener" where
  "deaf ctx c w = ((False, []), w)"

lemma dull_count: "count_expected_probes ''okx'' dull_caps 0 = Inr 5"
  by code_simp

lemma dull_run: "\<exists>es w. run_for_exchange any_env deaf ''okx'' (Some dull_caps) 0 = (Inr es, w)"
proof -
  have "(case run_for_exchange any_env deaf ''okx'' (Some dull_caps) 0 of (Inr es, w) \<Rightarrow> True | (Inl e, w) \<Rightarrow> False)" by code_simp
  then show ?thesis by (auto split: prod.splits sum.splits)
qed

lemma audit_progress_witness:
  "\<exists>es w. run_for_exchange any_env deaf ''okx'' (Some dull_caps) 0 = (Inr es, w) \<and> progress es = 5"
proof -
  obtain es w where run: "run_for_exchange any_env deaf ''okx'' (Some dull_caps) 0 = (Inr es, w)" using dull_run by auto
  have "progress es = 5" by (rule audit_progress [OF dull_count run])
  then show ?thesis using run by auto
qed

end
