(* ===== verification/AuditLive.thy ===== *)
theory AuditLive
  imports AuditLaws
begin

text \<open>
  The live display of the auditor, \<^verbatim>\<open>tools/auditor/output/live.py\<close>, fed with the events of a run. The
  bars of rich are their total, what is completed and the fields that are shown; the library
  is relied on to set the fields that are passed to \<open>update\<close> and to add in \<open>advance\<close>.
\<close>

section \<open>The display\<close>

record bar =
  bar_total :: int
  bar_done :: int
  bar_counts :: "(verdict, int) dict"

record live =
  lv_results :: "probe_result list"
  lv_totals :: "(verdict, int) dict"
  lv_exchanges :: "(string, (verdict, int) dict) dict"
  lv_bars :: "(string, bar) dict"
  lv_all :: bar

definition new_bar :: "int \<Rightarrow> bar" where
  "new_bar total_probes = \<lparr>bar_total = total_probes, bar_done = 0, bar_counts = no_verdicts\<rparr>"

definition live_start :: live where
  "live_start = \<lparr>lv_results = [], lv_totals = no_verdicts, lv_exchanges = [], lv_bars = [], lv_all = new_bar 0\<rparr>"

definition register_exchange :: "string \<Rightarrow> int \<Rightarrow> live \<Rightarrow> live" where
  "register_exchange x expected L =
     (if dget (lv_bars L) x \<noteq> None \<or> expected \<le> 0 then
        (if expected \<le> 0 \<and> dget (lv_exchanges L) x = None then L\<lparr>lv_exchanges := dset (lv_exchanges L) x no_verdicts\<rparr> else L)
      else L\<lparr>lv_bars := dset (lv_bars L) x (new_bar expected), lv_exchanges := dset (lv_exchanges L) x no_verdicts,
         lv_all := (lv_all L)\<lparr>bar_total := bar_total (lv_all L) + expected\<rparr>\<rparr>)"

definition advanced :: "bar \<Rightarrow> bar" where
  "advanced b = b\<lparr>bar_done := bar_done b + 1\<rparr>"

definition shortened :: "int \<Rightarrow> bar \<Rightarrow> bar" where
  "shortened n b = b\<lparr>bar_total := max 0 (bar_total b - n)\<rparr>"

text \<open>What is done to a bar is done to that of the exchange, if it has one, and to that of all.\<close>

definition on_bars :: "string \<Rightarrow> (bar \<Rightarrow> bar) \<Rightarrow> live \<Rightarrow> live" where
  "on_bars x f L = L\<lparr>lv_bars := (case dget (lv_bars L) x of None \<Rightarrow> lv_bars L | Some b \<Rightarrow> dset (lv_bars L) x (f b)), lv_all := f (lv_all L)\<rparr>"

definition on_probe_done :: "string \<Rightarrow> live \<Rightarrow> live" where
  "on_probe_done x L = on_bars x advanced L"

definition on_skip_market :: "string \<Rightarrow> int \<Rightarrow> live \<Rightarrow> live" where
  "on_skip_market x n L = (if n \<le> 0 then L else on_bars x (shortened n) L)"

definition on_result :: "probe_result \<Rightarrow> live \<Rightarrow> live" where
  "on_result r L =
     (let x = pr_exchange r;
          exchanges = (case dget (lv_exchanges L) x of None \<Rightarrow> lv_exchanges L | Some c \<Rightarrow> dset (lv_exchanges L) x (count_up c (pr_status r)));
          totals = count_up (lv_totals L) (pr_status r);
          bars = (case (dget (lv_bars L) x, dget exchanges x) of
              (Some b, Some c) \<Rightarrow> dset (lv_bars L) x (b\<lparr>bar_counts := c\<rparr>)
            | _ \<Rightarrow> lv_bars L)
      in L\<lparr>lv_results := lv_results L @ [r], lv_totals := totals, lv_exchanges := exchanges, lv_bars := bars,
           lv_all := (lv_all L)\<lparr>bar_counts := totals\<rparr>\<rparr>)"

fun live_step :: "live \<Rightarrow> audit_event \<Rightarrow> live" where
  "live_step L (Result r) = on_result r L"
| "live_step L (Registered x n) = register_exchange x n L"
| "live_step L (ProbeDone x) = on_probe_done x L"
| "live_step L (MarketSkipped x n) = on_skip_market x n L"

definition live_run :: "audit_event list \<Rightarrow> live" where
  "live_run es = foldl live_step live_start es"

text \<open>What a run hands to the aggregator, and the exit code of the program.\<close>

fun results :: "audit_event list \<Rightarrow> probe_result list" where
  "results [] = []"
| "results (Result r # es) = r # results es"
| "results (e # es) = results es"

definition audit_main :: "'w audit_env \<Rightarrow> 'w listener \<Rightarrow> string list \<Rightarrow> ('w, pyexc, int) io" where
  "audit_main env listen requested = bindw (audit_run env listen requested) (\<lambda>es. retw (audit_exit (results es)))"

section \<open>What a run reports\<close>

fun reports :: "string \<Rightarrow> audit_event \<Rightarrow> bool" where
  "reports x (Result r) = False"
| "reports x (Registered y n) = (y = x)"
| "reports x (ProbeDone y) = (y = x)"
| "reports x (MarketSkipped y n) = (y = x)"

fun of_run :: "string \<Rightarrow> audit_event \<Rightarrow> bool" where
  "of_run x (Result r) = True"
| "of_run x (Registered y n) = False"
| "of_run x (ProbeDone y) = (y = x)"
| "of_run x (MarketSkipped y n) = (y = x \<and> 0 < n)"

lemma run_probe_of: "run_probe env listen ctx ex p w = (Inr es, w') \<Longrightarrow> list_all (of_run ex) es"
  by (auto simp: run_probe_def list_all_iff split: prod.splits sum.splits if_splits)

lemma mapw_of:
  assumes "mapw f xs w = (Inr ess, w')" "\<And>x w es w'. f x w = (Inr es, w') \<Longrightarrow> list_all P es"
  shows "list_all P (concat ess)"
  using assms(1)
proof (induction xs arbitrary: w ess)
  case (Cons x xs)
  then obtain es w1 fss where "f x w = (Inr es, w1)" "mapw f xs w1 = (Inr fss, w')" "ess = es # fss"
    by (auto simp: bindw_Inr_iff retw_eq)
  then show ?case using assms(2) Cons.IH by simp
qed (simp add: retw_eq)

lemma run_probes_of: "run_probes env listen ctx ex ps w = (Inr es, w') \<Longrightarrow> list_all (of_run ex) es"
  by (auto simp: run_probes_def bindw_Inr_iff retw_eq dest!: mapw_of [where P = "of_run ex"] intro: run_probe_of)

lemma run_market_of:
  assumes "run_market env listen ex (m, slice) w = (Inr es, w')"
  shows "list_all (of_run ex) es"
proof -
  have probes: "list_all (of_run ex) fs" if "run_probes env listen ctx ex ps v = (Inr fs, v')" for ctx ps v fs v'
    using that by (rule run_probes_of)
  show ?thesis
    using assms by (auto simp: run_market_def bindw_Inr_iff retw_eq liftw_def Let_def map_sum_Inr_iff split: option.splits) (rule probes, assumption)
qed

lemma run_of:
  assumes "run_for_exchange env listen ex c w = (Inr es, w')"
  shows "list_all (of_run ex) es"
proof (cases c)
  case None
  then show ?thesis using assms by (auto simp: run_for_exchange_def bindw_Inr_iff retw_eq liftw_def Let_def)
next
  case (Some caps)
  then obtain told ctx ps first w1 w2 markets ess where "run_probes env listen ctx ex ps w1 = (Inr first, w2)"
      "mapw (run_market env listen ex) markets w2 = (Inr ess, w')" "es = Result told # first @ concat ess"
    using assms by (auto simp: run_for_exchange_def bindw_Inr_iff retw_eq liftw_def Let_def)
  moreover have "list_all (of_run ex) gs" if "run_market env listen ex x v = (Inr gs, v')" for x v gs v'
    using that by (cases x) (simp add: run_market_of)
  ultimately show ?thesis using run_probes_of mapw_of [of "run_market env listen ex" markets w2 ess w' "of_run ex"] by simp
qed

text \<open>What remains to be done for every exchange that was announced, if the events are in order.\<close>

fun account :: "audit_event list \<Rightarrow> (string \<Rightarrow> int option) \<Rightarrow> (string \<Rightarrow> int option) option" where
  "account [] m = Some m"
| "account (Result r # es) m = account es m"
| "account (Registered x n # es) m = (if m x \<noteq> None then None else account es (if n \<le> 0 then m else m(x \<mapsto> n)))"
| "account (ProbeDone x # es) m = (case m x of None \<Rightarrow> None | Some k \<Rightarrow> if 0 < k then account es (m(x \<mapsto> k - 1)) else None)"
| "account (MarketSkipped x n # es) m = (case m x of None \<Rightarrow> None
     | Some k \<Rightarrow> if 0 < n \<and> n \<le> k then account es (m(x \<mapsto> k - n)) else None)"

definition left_to_do :: "string \<Rightarrow> int \<Rightarrow> audit_event list \<Rightarrow> bool" where
  "left_to_do x k es \<longleftrightarrow> list_all (of_run x) (filter (reports x) es) \<and> progress (filter (reports x) es) = k"

definition announced :: "string \<Rightarrow> audit_event list \<Rightarrow> bool" where
  "announced x es \<longleftrightarrow> (\<exists>n fs. filter (reports x) es = Registered x n # filter (reports x) fs \<and> left_to_do x n fs)"

definition due :: "string \<Rightarrow> int option \<Rightarrow> audit_event list \<Rightarrow> bool" where
  "due x r es = (case r of None \<Rightarrow> filter (reports x) es = [] \<or> announced x es | Some k \<Rightarrow> left_to_do x k es)"

lemma of_run_progress: "list_all (of_run x) es \<Longrightarrow> 0 \<le> progress es"
proof (induction es)
  case (Cons e es)
  then show ?case by (cases e) auto
qed simp

lemma left_nothing: "left_to_do x k es \<Longrightarrow> k \<le> 0 \<Longrightarrow> filter (reports x) es = []"
proof (rule ccontr)
  assume left: "left_to_do x k es" "k \<le> 0" and "filter (reports x) es \<noteq> []"
  then obtain e fs where e: "filter (reports x) es = e # fs" by (cases "filter (reports x) es") auto
  then have "reports x e" by (auto dest: filter_eq_ConsD)
  then have "0 < done_by e" using left(1) e by (cases e) (auto simp: left_to_do_def)
  moreover have "0 \<le> progress fs" using left(1) e by (intro of_run_progress [of x]) (simp add: left_to_do_def)
  ultimately show False using left e by (simp add: left_to_do_def)
qed

lemma due_step:
  assumes "due x (m x) (e # es)"
  shows "reports x e \<Longrightarrow> \<exists>m'. account [e] m = Some m' \<and> due x (m' x) es \<and> (\<forall>y. y \<noteq> x \<longrightarrow> m' y = m y)"
    and "\<not> reports x e \<Longrightarrow> due x (m x) es"
proof -
  show "due x (m x) es" if "\<not> reports x e"
    using assms that by (auto simp: due_def announced_def left_to_do_def split: option.splits)
  assume here: "reports x e"
  show "\<exists>m'. account [e] m = Some m' \<and> due x (m' x) es \<and> (\<forall>y. y \<noteq> x \<longrightarrow> m' y = m y)"
  proof (cases "m x")
    case None
    obtain n where e: "e = Registered x n" and left: "left_to_do x n es"
      using assms here None by (auto simp: due_def announced_def left_to_do_def)
    then show ?thesis using None left_nothing [OF left] by (auto simp: due_def)
  next
    case (Some k)
    then have left: "of_run x e" "left_to_do x (k - done_by e) es"
      using assms here by (auto simp: due_def left_to_do_def)
    have "0 \<le> k - done_by e" using left(2) of_run_progress [of x "filter (reports x) es"] by (simp add: left_to_do_def)
    then show ?thesis using left here Some by (cases e) (auto simp: due_def)
  qed
qed

lemma account_one: "account (e # es) m = (case account [e] m of None \<Rightarrow> None | Some m' \<Rightarrow> account es m')"
  by (cases e) (auto split: option.split)

lemma account_result: "\<forall>x. \<not> reports x e \<Longrightarrow> account [e] m = Some m"
  by (cases e) auto

lemma reports_one: "reports x e \<Longrightarrow> reports y e \<Longrightarrow> x = y"
  by (cases e) auto

lemma account_due:
  assumes "\<forall>x. due x (m x) es"
  shows "\<exists>m'. account es m = Some m' \<and> (\<forall>x. m' x = None \<or> m' x = Some 0)"
  using assms
proof (induction es arbitrary: m)
  case Nil
  have "m x = None \<or> m x = Some 0" for x
    using Nil [rule_format, of x] by (cases "m x") (simp_all add: due_def left_to_do_def)
  then show ?case by simp
next
  case (Cons e es)
  show ?case
  proof (cases "\<exists>x. reports x e")
    case True
    then obtain x where x: "reports x e" ..
    obtain m' where m': "account [e] m = Some m'" "due x (m' x) es" "\<forall>y. y \<noteq> x \<longrightarrow> m' y = m y"
      using due_step(1) [of x m e es] Cons.prems x by blast
    have "due y (m' y) es" for y
    proof (cases "y = x")
      case False
      then have "\<not> reports y e" using reports_one x by blast
      then show ?thesis using due_step(2) [of y m e es] Cons.prems m'(3) False by simp
    qed (simp add: m'(2))
    then show ?thesis using Cons.IH [of m'] by (simp add: account_one [of e es] m'(1))
  next
    case False
    then have "due y (m y) es" for y using due_step(2) [of y m e es] Cons.prems by blast
    then show ?thesis using Cons.IH [of m] False by (simp add: account_one [of e es] account_result)
  qed
qed

section \<open>What the display shows\<close>

definition open_probes :: "bar \<Rightarrow> int" where
  "open_probes b = bar_total b - bar_done b"

definition shows_account :: "(string \<Rightarrow> int option) \<Rightarrow> live \<Rightarrow> bool" where
  "shows_account m L \<longleftrightarrow> finite (dom m) \<and> (\<forall>x. m x = map_option open_probes (dget (lv_bars L) x))
     \<and> (\<forall>x k. m x = Some k \<longrightarrow> 0 \<le> k) \<and> (\<forall>x b. dget (lv_bars L) x = Some b \<longrightarrow> 0 \<le> bar_done b)
     \<and> open_probes (lv_all L) = (\<Sum>x\<in>dom m. the (m x)) \<and> 0 \<le> bar_done (lv_all L)"

lemma sum_upd:
  assumes "finite (dom m)" "m x = Some (k :: int)"
  shows "(\<Sum>y\<in>dom (m(x \<mapsto> k')). the ((m(x \<mapsto> k')) y)) = (\<Sum>y\<in>dom m. the (m y)) + k' - k"
proof -
  have x: "x \<in> dom m" "dom (m(x \<mapsto> k')) = dom m" using assms(2) by auto
  have "(\<Sum>y\<in>dom m - {x}. the ((m(x \<mapsto> k')) y)) = (\<Sum>y\<in>dom m - {x}. the (m y))" by (rule sum.cong) auto
  then show ?thesis using assms x by (simp add: sum.remove [of "dom m" x])
qed

lemma sum_new:
  assumes "finite (dom m)" "m x = None"
  shows "(\<Sum>y\<in>dom (m(x \<mapsto> k)). the ((m(x \<mapsto> k)) y)) = (\<Sum>y\<in>dom m. the (m y)) + (k :: int)"
proof -
  have "x \<notin> dom m" using assms(2) by auto
  moreover have "(\<Sum>y\<in>dom m. the ((m(x \<mapsto> k)) y)) = (\<Sum>y\<in>dom m. the (m y))" using assms(2) by (intro sum.cong) auto
  ultimately show ?thesis using assms by simp
qed

lemma one_of_all: "shows_account m L \<Longrightarrow> m x = Some k \<Longrightarrow> k \<le> open_probes (lv_all L)"
  using member_le_sum [of x "dom m" "\<lambda>y. the (m y)"] by (force simp: shows_account_def)

lemma new_bar_open [simp]: "open_probes (new_bar n) = n" "bar_done (new_bar n) = 0"
  by (simp_all add: open_probes_def new_bar_def)

lemma shows_result: "shows_account m L \<Longrightarrow> shows_account m (on_result r L)"
  by (auto simp: shows_account_def on_result_def Let_def open_probes_def split: option.splits)

lemma shows_register:
  assumes "shows_account m L" "m x = None"
  shows "shows_account (if n \<le> 0 then m else m(x \<mapsto> n)) (register_exchange x n L)"
proof (cases "n \<le> 0")
  case True
  then show ?thesis using assms(1) by (simp add: register_exchange_def shows_account_def)
next
  case False
  have none: "dget (lv_bars L) x = None" using assms by (simp add: shows_account_def)
  have "register_exchange x n L = L\<lparr>lv_bars := dset (lv_bars L) x (new_bar n), lv_exchanges := dset (lv_exchanges L) x no_verdicts,
      lv_all := (lv_all L)\<lparr>bar_total := bar_total (lv_all L) + n\<rparr>\<rparr>"
    using False none by (simp add: register_exchange_def)
  moreover have "open_probes ((lv_all L)\<lparr>bar_total := bar_total (lv_all L) + n\<rparr>) = open_probes (lv_all L) + n"
    by (simp add: open_probes_def)
  ultimately show ?thesis
    using assms False sum_new [of m x n] by (auto simp: shows_account_def simp del: fun_upd_apply) (auto split: if_splits)
qed

lemma shows_bars:
  assumes "shows_account m L" "m x = Some k" "0 \<le> k'"
    and f: "\<And>b. 0 \<le> bar_done b \<Longrightarrow> k \<le> open_probes b \<Longrightarrow> open_probes (f b) = open_probes b + k' - k \<and> 0 \<le> bar_done (f b)"
  shows "shows_account (m(x \<mapsto> k')) (on_bars x f L)"
proof -
  obtain b where b: "dget (lv_bars L) x = Some b" "open_probes b = k" "0 \<le> bar_done b"
    using assms(1,2) by (auto simp: shows_account_def)
  then have L: "on_bars x f L = L\<lparr>lv_bars := dset (lv_bars L) x (f b), lv_all := f (lv_all L)\<rparr>" by (simp add: on_bars_def)
  have "open_probes (f b) = k'" "0 \<le> bar_done (f b)" using f [OF b(3)] b(2) by simp_all
  moreover have "open_probes (f (lv_all L)) = open_probes (lv_all L) + k' - k" "0 \<le> bar_done (f (lv_all L))"
    using f [of "lv_all L"] one_of_all [OF assms(1,2)] assms(1) by (simp_all add: shows_account_def)
  ultimately show ?thesis
    using assms(1,3) sum_upd [of m x k k'] assms(2) unfolding shows_account_def L by (auto simp del: fun_upd_apply) (auto split: if_splits)
qed

lemma live_shows: "shows_account m L \<Longrightarrow> account es m = Some m' \<Longrightarrow> shows_account m' (foldl live_step L es)"
proof (induction es m arbitrary: L rule: account.induct)
  case (2 r es m)
  then show ?case using shows_result by simp
next
  case (3 x n es m)
  then show ?case using shows_register by (simp split: if_splits)
next
  case (4 x es m)
  then obtain k where k: "m x = Some k" "0 < k" "account es (m(x \<mapsto> k - 1)) = Some m'" by (auto split: option.splits if_splits)
  have "shows_account (m(x \<mapsto> k - 1)) (on_bars x advanced L)"
    using k(2) by (intro shows_bars [OF "4.prems"(1) k(1)]) (auto simp: advanced_def open_probes_def)
  then show ?case using "4.IH" [OF k(1,2)] k(3) by (simp add: on_probe_done_def fun_upd_def)
next
  case (5 x n es m)
  then obtain k where k: "m x = Some k" "0 < n \<and> n \<le> k" "account es (m(x \<mapsto> k - n)) = Some m'" by (auto split: option.splits if_splits)
  have "shows_account (m(x \<mapsto> k - n)) (on_bars x (shortened n) L)"
    using k(2) by (intro shows_bars [OF "5.prems"(1) k(1)]) (auto simp: shortened_def open_probes_def)
  then show ?case using "5.IH" [OF k(1,2)] k(2,3) by (simp add: on_skip_market_def fun_upd_def)
qed simp

lemma live_start_shows: "shows_account (\<lambda>x. None) live_start"
  by (simp add: shows_account_def live_start_def dget_def)

lemma results_append: "results (es @ fs) = results es @ results fs"
  by (induction es rule: results.induct) simp_all

lemma live_counts: "lv_results (live_run es) = results es \<and> lv_totals (live_run es) = audit_totals (results es)
    \<and> bar_counts (lv_all (live_run es)) = audit_totals (results es)"
proof (induction es rule: rev_induct)
  case Nil
  then show ?case by (simp add: live_run_def live_start_def audit_totals_def new_bar_def)
next
  case (snoc e es)
  then show ?case
    by (cases e) (simp_all add: live_run_def results_append audit_totals_def on_result_def Let_def register_exchange_def on_probe_done_def
        on_skip_market_def on_bars_def advanced_def shortened_def)
qed

lemma capabilities_told:
  assumes "capabilities_events env x w = (Inr (c, told), w')"
  shows "(c = None \<and> filter (reports x) told = []) \<or>
    (\<exists>d now n. c = Some d \<and> filter (reports x) told = [Registered x n] \<and> count_expected_probes x d now = Inr n)"
proof -
  obtain f v where f: "ask_service env (''/'' @ x @ ''/capabilities'') [] w = (Inr f, v)"
    by (cases "au_get env (''/'' @ x @ ''/capabilities'') [] w") (simp add: ask_service_def)
  show ?thesis
  proof (cases "answered f")
    case None
    then show ?thesis using assms f by (simp add: capabilities_events_def bindw_def) auto
  next
    case (Some d)
    then obtain n where n: "count_expected_probes x (PDict d) (au_now env v) = Inr n"
      using assms f by (cases "count_expected_probes x (PDict d) (au_now env v)") (simp_all add: capabilities_events_def bindw_def)
    then have "c = Some (PDict d) \<and> filter (reports x) told = [Registered x n]"
      using assms f Some by (auto simp: capabilities_events_def bindw_def bindr_def split: pyval.splits option.splits)
    then show ?thesis using n by blast
  qed
qed

text \<open>
  The events of one exchange: its capabilities are asked for, and then its run. The worlds
  between are arbitrary, since others run at the same time.
\<close>

definition whole_run :: "'w audit_env \<Rightarrow> 'w listener \<Rightarrow> string \<Rightarrow> audit_event list \<Rightarrow> bool" where
  "whole_run env listen x es \<longleftrightarrow> (\<exists>w c told w' v run v'. capabilities_events env x w = (Inr (c, told), w')
     \<and> run_for_exchange env listen x c v = (Inr run, v') \<and> filter (reports x) es = filter (reports x) (told @ run))"

lemma of_run_filter: "list_all (of_run x) es \<Longrightarrow> progress (filter (reports x) es) = progress es"
proof (induction es)
  case (Cons e es)
  then show ?case by (cases e) auto
qed simp

lemma whole_run_announced:
  assumes "whole_run env listen x es"
  shows "filter (reports x) es = [] \<or> announced x es"
proof -
  obtain w c told w' v run v' where told: "capabilities_events env x w = (Inr (c, told), w')"
      and run: "run_for_exchange env listen x c v = (Inr run, v')" and es: "filter (reports x) es = filter (reports x) (told @ run)"
    using assms by (auto simp: whole_run_def)
  have of_x: "list_all (of_run x) run" by (rule run_of [OF run])
  from capabilities_told [OF told] show ?thesis
  proof (elim disjE exE conjE)
    assume "c = None" "filter (reports x) told = []"
    then show ?thesis using run es by (auto simp: run_for_exchange_def bindw_Inr_iff retw_eq Let_def)
  next
    fix d now n
    assume c: "c = Some d" and first: "filter (reports x) told = [Registered x n]" and n: "count_expected_probes x d now = Inr n"
    have "progress run = n" by (rule audit_progress [OF n run [unfolded c]])
    then have "left_to_do x n run" using of_x of_run_filter [OF of_x] by (auto simp: left_to_do_def list_all_iff)
    then show ?thesis using es first by (auto simp: announced_def)
  qed
qed

text \<open>
  C27. However the exchanges of an audit interleave, and whatever the service answers, when every
  exchange has come to the end of its run the live display is complete: the bar of each exchange and
  the bar of all stand at their totals, skipped markets and crashed probes included, and the counts
  beside the bar of all are those of the results, which are all kept.
\<close>

theorem live_bars_end_full:
  assumes "\<forall>x. filter (reports x) es = [] \<or> whole_run env listen x es"
  shows "bar_done (lv_all (live_run es)) = bar_total (lv_all (live_run es))
    \<and> (\<forall>x b. dget (lv_bars (live_run es)) x = Some b \<longrightarrow> bar_done b = bar_total b)
    \<and> bar_counts (lv_all (live_run es)) = audit_totals (results es) \<and> lv_results (live_run es) = results es"
proof -
  have "due x None es" for x
    unfolding due_def option.case using assms [rule_format, of x] by (elim disjE whole_run_announced) simp
  then obtain m where m: "account es (\<lambda>x. None) = Some m" "\<forall>x. m x = None \<or> m x = Some 0"
    using account_due [of "\<lambda>x. None" es] by auto
  have seen: "shows_account m (live_run es)"
    unfolding live_run_def by (rule live_shows [OF live_start_shows m(1)])
  have "(\<Sum>x\<in>dom m. the (m x)) = 0" using m(2) by (intro sum.neutral ballI) (metis domIff option.sel)
  then have "bar_done (lv_all (live_run es)) = bar_total (lv_all (live_run es))"
    using seen by (simp add: shows_account_def open_probes_def)
  moreover have "bar_done b = bar_total b" if "dget (lv_bars (live_run es)) x = Some b" for x b
    using seen m(2) [rule_format, of x] that by (simp add: shows_account_def open_probes_def)
  ultimately show ?thesis using live_counts by blast
qed

text \<open>One exchange with one market, of which the service tells nothing but that it is there.\<close>

definition dull_env :: "nat audit_env" where
  "dull_env = \<lparr>au_get = (\<lambda>path params w. (Replied 200 (if path = ''/okx/capabilities'' then dull_caps else PNone), Suc w)),
     au_now = (\<lambda>w. 0), au_valid = (\<lambda>m d. True)\<rparr>"

definition only_registered :: "string \<Rightarrow> audit_event \<Rightarrow> bool" where
  "only_registered x e = (case e of Registered y n \<Rightarrow> y = x | Result r \<Rightarrow> True | _ \<Rightarrow> False)"

lemma dull_told: "\<exists>d told w. capabilities_events dull_env ''okx'' 0 = (Inr (Some d, told), w) \<and> list_all (only_registered ''okx'') told
    \<and> (\<exists>run w'. run_for_exchange dull_env deaf ''okx'' (Some d) w = (Inr run, w'))"
proof -
  obtain r w where r: "capabilities_events dull_env ''okx'' 0 = (r, w)" by (cases "capabilities_events dull_env ''okx'' 0")
  have "(case capabilities_events dull_env ''okx'' 0 of (r, w) \<Rightarrow> case r of
      Inr (Some d, told) \<Rightarrow> list_all (only_registered ''okx'') told \<and> \<not> isl (fst (run_for_exchange dull_env deaf ''okx'' (Some d) w))
    | _ \<Rightarrow> False)" by code_simp
  then obtain d told where d: "r = Inr (Some d, told)" "list_all (only_registered ''okx'') told"
      "\<not> isl (fst (run_for_exchange dull_env deaf ''okx'' (Some d) w))"
    unfolding r by (auto split: sum.splits prod.splits option.splits)
  then obtain run w' where "run_for_exchange dull_env deaf ''okx'' (Some d) w = (Inr run, w')"
    by (cases "run_for_exchange dull_env deaf ''okx'' (Some d) w") (metis fst_conv isl_def obj_sumE)
  then show ?thesis using r d by blast
qed

lemma others_silent:
  assumes "list_all (only_registered x) told" "list_all (of_run x) run" "y \<noteq> x"
  shows "filter (reports y) (told @ run) = []"
proof -
  have "\<not> reports y e" if "e \<in> set (told @ run)" for e
    using assms that by (cases e) (auto simp: list_all_iff only_registered_def)
  then show ?thesis by (simp add: filter_empty_conv)
qed

lemma live_bars_end_full_witness:
  "\<exists>d told w run w'. capabilities_events dull_env ''okx'' 0 = (Inr (Some d, told), w)
     \<and> run_for_exchange dull_env deaf ''okx'' (Some d) w = (Inr run, w')
     \<and> bar_done (lv_all (live_run (told @ run))) = bar_total (lv_all (live_run (told @ run)))"
proof -
  obtain d told w run w' where told: "capabilities_events dull_env ''okx'' 0 = (Inr (Some d, told), w)"
      and only: "list_all (only_registered ''okx'') told" and run: "run_for_exchange dull_env deaf ''okx'' (Some d) w = (Inr run, w')"
    using dull_told by blast
  have "whole_run dull_env deaf ''okx'' (told @ run)" unfolding whole_run_def using told run by blast
  then have each: "\<forall>x. filter (reports x) (told @ run) = [] \<or> whole_run dull_env deaf x (told @ run)"
    using others_silent [OF only run_of [OF run]] by metis
  show ?thesis using live_bars_end_full [OF each] told run by blast
qed

end
