(* ===== verification/Spec2Isabelle.thy ===== *)
theory Spec2Isabelle
  imports BuilderLaws Pagination Caches Intervals StreamHub StreamManager Fallback Agreement Paths CoreLaws Subscriptions BinanceLaws BybitLaws OkxLaws KucoinStreams Requests
    KrakenThrottle KrakenLaws KrakenHubs HyperliquidLaws LifecycleLaws SyncClient AuditLive
begin

text \<open>
  A model of the exchange router, a market data gateway: six venue adapters behind one schema
  (\<^verbatim>\<open>src/exchange_router/exchanges\<close>), served over HTTP and WebSocket by a FastAPI service
  (\<^verbatim>\<open>service/main.py\<close>, \<^verbatim>\<open>service/stream_manager.py\<close>), with a Python SDK (\<^verbatim>\<open>_core.py\<close>,
  \<^verbatim>\<open>async_router.py\<close>, \<^verbatim>\<open>router.py\<close>, \<^verbatim>\<open>backend.py\<close>) that drives either that service or the adapters
  in its own process. A read goes from the SDK through a backend to an adapter, which asks the
  venue and builds rows of the schema; a stream goes from a venue's WebSocket through a hub per
  connection to the subscribers, and in service mode through the fan-out to the clients.

  \<^bold>\<open>How Python is modelled.\<close> Exceptions are the datatype \<open>pyexc\<close>, and what may raise returns
  \<open>pyexc + 'a\<close> (\<open>Prelude\<close>). \<open>PyText\<close> has the string methods the sources use, on ASCII;
  \<open>PyFloat\<close> IEEE 754 doubles with correct rounding on exact rationals, without the sign of zero;
  \<open>PyValue\<close> JSON values with Python's truth, lookup, comparison and \<open>str\<close>. Coroutines are state
  transformers over the outside world (\<open>Effects\<close>); objects that several coroutines share are state
  machines whose steps are the stretches between two awaits or under one lock (\<open>Machine\<close>).
  HTTP, WebSocket connections, clocks, sleeps and random draws are parameters.

  \<^bold>\<open>Theories.\<close>
  \<^item> \<open>Models\<close>: the wire schema of \<^verbatim>\<open>models.py\<close>, a record per model and its validators as constructors.
  \<^item> \<open>Builders\<close>, \<open>BuilderLaws\<close>: the shared constructors of \<^verbatim>\<open>exchanges/base.py\<close>: quantities, steps in
    decimal arithmetic, timestamps, periods, the candle join of open interest. They state what is
    computed exactly, what is rounded once, and that the join never fails a read.
  \<^item> \<open>Pagination\<close>: \<open>_paginate_backwards\<close>. Sound for any page source, complete against a venue that
    serves its history page by page. The loop is bounded by the 100 requests of the source.
  \<^item> \<open>Caches\<close>: the metadata and margin caches; a market that has been read is served for ever.
  \<^item> \<open>Capabilities\<close>, \<open>Intervals\<close>: the capability tables of the adapters, \<open>validate_interval\<close>, and the
    interval maps; what passes validation translates to the same length.
  \<^item> \<open>Symbols\<close>: router and venue spellings of an instrument; those of an
    adapter's naming scheme read back and never merge.
  \<^item> \<open>Queues\<close>, \<open>StreamHub\<close>, \<open>StreamManager\<close>: the buffer of \<^verbatim>\<open>router.py\<close>, the hub of
    \<^verbatim>\<open>exchanges/base.py\<close> and the fan-out of the service as state machines, with the invariants of
    every interleaving: no lost topic, one upstream per key, newest items first to stay.
  \<^item> \<open>Errors\<close>, \<open>Remote\<close>, \<open>Fallback\<close>, \<open>Gateway\<close>, \<open>Agreement\<close>, \<open>Paths\<close>: the error vocabulary, the retry
    loop of the remote backend, the fallback to local adapters, the dispatch of the local backend
    beside the handlers of the service, and the URLs between them. What HTTP makes of a path on its way
    and how the framework reads an integer are a parameter, of which \<open>transport_ok\<close> says that plain
    paths and decimal digits arrive. Over it a call whose names are plain segments reaches its own
    handler, and both modes agree; a symbol with a slash in it does not.
  \<^item> \<open>Core\<close>, \<open>CoreLaws\<close>, \<open>Subscriptions\<close>: the client object: handshake, capability cache, the check
    before a call, batches; and the start, the end and the renewal of a stream.
  \<^item> \<open>Adapters\<close>: what the adapters have in common: their environment, the reading of payloads, and
    streams that skip malformed frames. \<open>Binance\<close>, \<open>BinanceStreams\<close>, \<open>BinanceLaws\<close>: every read and
    every stream of the Binance adapter. \<open>Requests\<close>: the request helpers of five adapters.
  \<^item> \<open>Bybit\<close>, \<open>BybitStreams\<close>, \<open>BybitLaws\<close>: the same for Bybit. \<open>LocalBook\<close>: the books streams keep
    between frames, over the order of \<open>FloatOrder\<close>. \<open>BookFeed\<close>: what a stream must do with one frame
    for its whole run to refine the book of the venue, and to end at the first gap in the sequence
    numbers, as two locales that the streams of Bybit, OKX and Kraken interpret.
  \<^item> \<open>Contracts\<close>: what the venues that trade in contracts share. \<open>RateBucket\<close>: the rate limiter of
    OKX, whose window holds for every interleaving of callers by the monotonicity of rounding
    (\<open>FloatMono\<close>). \<open>Okx\<close>, \<open>OkxMeta\<close>, \<open>OkxStreams\<close>, \<open>OkxLaws\<close> and \<open>Kucoin\<close>, \<open>KucoinMeta\<close>,
    \<open>KucoinStreams\<close>: every read, the instrument metadata and every stream of the two adapters.
  \<^item> \<open>KrakenRequests\<close>, \<open>KrakenThrottle\<close>: the request loop of Kraken and its throttle, whose turns are
    apart however the callers interleave, because the difference of two floats on the grid of the
    subnormals never rounds to zero. \<open>Kraken\<close>, \<open>KrakenHistory\<close>, \<open>KrakenMeta\<close>, \<open>KrakenStreams\<close>,
    \<open>KrakenLaws\<close>, \<open>KrakenHubs\<close>: the reads, the metadata and the streams on both WebSockets, and the
    hubs that streams enter in any order, with the payloads of topics that all hubs share.
  \<^item> \<open>Hyperliquid\<close>, \<open>HyperliquidMeta\<close>, \<open>HyperliquidStreams\<close>, \<open>HyperliquidLaws\<close>: the same for
    Hyperliquid, with the placement of topics on a limited number of connections as a transition
    system whose invariant is proved by rule induction.
  \<^item> \<open>Rows\<close>, \<open>Funding\<close>: the rows of \<^verbatim>\<open>rows.py\<close> and the funding arithmetic of \<^verbatim>\<open>funding.py\<close>: what a
    position pays is made of the rows that touch its window, a part of a cycle is computed exactly and
    rounded once (\<open>FloatExact\<close>), and the rate per hour does not depend on the shape it is read from.
  \<^item> \<open>Frames\<close>: \<^verbatim>\<open>frames.py\<close>. pandas is a parameter, a record of the operations the source calls;
    \<open>pandas_ok\<close> says what is relied on, that they keep columns, length and attributes as documented,
    and frames as lists of rows satisfy it. A frame says what it is, and a page cut short is told.
  \<^item> \<open>Client\<close>, \<open>Facade\<close>, \<open>ClientLaws\<close>: every call of the client with the rows and frames it hands out
    and the warnings it gives, its constructors, warm-up and closing, and the batches of routes. A
    closed client asks nothing; a batch files frames by what they say of themselves.
  \<^item> \<open>SyncClient\<close>: \<^verbatim>\<open>router.py\<close> and \<^verbatim>\<open>handle.py\<close>: every call of the synchronous client on its loop, which is
    running or stopped, and the market handles of both clients. Two calls of \<open>close\<close> end it.
  \<^item> \<open>Lifecycle\<close>, \<open>LifecycleLaws\<close>: the registry of \<^verbatim>\<open>exchanges/__init__.py\<close>, the warm-up of the adapters in
    the background and by the local backend, and closing. A warm-up that returns leaves metadata that
    no later read fails on; closing closes every adapter and empties the registry, as long as none raises.
  \<^item> \<open>Auditor\<close>, \<open>AuditProbes\<close>, \<open>AuditRoutes\<close>, \<open>AuditRun\<close>, \<open>AuditLaws\<close>, \<open>AuditLive\<close>: the tool that probes a
    running service, \<^verbatim>\<open>src/tools/auditor\<close>: the verdict of every probe on an answer, the requests it
    makes, the run, and its live display. What passes as an order book is said exactly; the totals
    count every result once; and however the exchanges interleave, the display ends complete.

  \<^bold>\<open>Bounds.\<close> Backwards pagination makes at most 100 requests and the funding history of Binance
  at most 10 pages, as in the sources, where reaching the bound ends the loop with what there is.
  The request loops of the adapters are a \<open>partial_function\<close>: that they end on a venue whose only
  success is 200, and do not on others, is proved. The printing of floats searches a decimal
  exponent in 400 steps, more than the range of a double needs.

  \<^bold>\<open>Simplifications.\<close> A retry hint of an exception that is infinite is carried as none. When the
  building of instrument metadata raises, the funding intervals noted before are not kept.
  Header names are looked up in the spelling of the source. The resolution of a symbol hands out a string,
  so a listing of OKX whose name is not one is refused there. Trades of a Kraken snapshot whose
  times are lists do not compare. The calls of a batch run one after another. The quote of a frame
  is text or missing. Log messages are left out. The times of rows that the auditor compares are
  integers, the ids of trades compare as they are written, and its probes run one after another; a
  run that raises is the exception without the events before it.

  \<^bold>\<open>Not modelled.\<close> How the registry finds modules by name: what importing a package yields is an
  argument. The thread of the synchronous client, of which there is whether it has been stopped.
  Of the auditor the messages, evidence and latencies of results and their statistics, the spacing of
  its requests, its command line, and the tables and the HTML and JSON reports, which only format
  the results. The building of WebSocket connections and of HTTP clients.
\<close>

end
